(* ===== verification/Echo_Prelude.thy ===== *)
theory Echo_Prelude
  imports Main "HOL-Library.Word" "HOL-Library.AList"
begin

text \<open>
  Shared vocabulary of the development: the machine types of the Rust sources
  (bytes, 32-bit counters, fixed-size arrays as byte lists of a stated length), the
  little-endian byte encoding of \<open>u32\<close>, Rust's \<open>saturating_add\<close>, decimal
  formatting as \<open>format!\<close> prints it, UTF-8 validity as \<open>String::from_utf8\<close> checks
  it, the \<open>?\<close> operator on results, and hash maps as association lists with distinct
  keys, in whatever iteration order the map happens to have. Two interfaces used
  throughout are stated here as locales: \<open>dictionary\<close> (what every hash map of the code
  promises) and \<open>wire_codec\<close> (what every serializer / deserializer pair promises its
  callers), the latter extended to \<open>prefix_codec\<close> for decoders that ignore what follows.
\<close>

section \<open>Collections of facts\<close>

named_theorems len_simps \<open>lengths of encodings\<close>
named_theorems dict_simps \<open>lookups and sizes after updates of association-list maps\<close>

section \<open>Machine types\<close>

type_synonym byte = "8 word"
type_synonym bytes = "byte list"
type_synonym u32 = "32 word"

definition u32_to_le_bytes :: "u32 \<Rightarrow> bytes" where
  "u32_to_le_bytes x =
     [ucast x, ucast (drop_bit 8 x), ucast (drop_bit 16 x), ucast (drop_bit 24 x)]"

text \<open>
  \<open>u32::from_le_bytes(slice.try_into()?)\<close>: the conversion of a slice to \<open>[u8; 4]\<close> fails
  unless the slice has exactly four bytes.
\<close>

fun u32_from_le_bytes :: "bytes \<Rightarrow> u32 option" where
  "u32_from_le_bytes [b0, b1, b2, b3] =
     Some (of_nat (unat b0 + 256 * unat b1 + 65536 * unat b2 + 16777216 * unat b3))"
| "u32_from_le_bytes _ = None"

definition saturating_add_u32 :: "u32 \<Rightarrow> u32 \<Rightarrow> u32" where
  "saturating_add_u32 a b = (if unat a + unat b < 2 ^ 32 then a + b else - 1)"

lemma length_u32_to_le_bytes [simp, len_simps]: "length (u32_to_le_bytes x) = 4"
  by (simp add: u32_to_le_bytes_def)

lemma nat_base256:
  fixes n :: nat
  assumes "n < 2 ^ 32"
  shows "n mod 256 + 256 * (n div 256 mod 256) + 65536 * (n div 65536 mod 256)
     + 16777216 * (n div 16777216 mod 256) = n"
proof -
  have top: "n div 16777216 mod 256 = n div 16777216"
    using assms by (intro mod_less) (simp add: less_mult_imp_div_less)
  have d2: "n div 65536 = n div 256 div 256" and d3: "n div 16777216 = n div 256 div 256 div 256"
    by (simp_all add: div_mult2_eq [symmetric])
  have "n = n mod 256 + 256 * (n div 256)"
    and "n div 256 = n div 256 mod 256 + 256 * (n div 256 div 256)"
    and "n div 256 div 256 = n div 256 div 256 mod 256 + 256 * (n div 256 div 256 div 256)"
    by simp_all
  then show ?thesis unfolding top unfolding d2 d3 by linarith
qed

lemma unat_byte_of_u32 [simp]:
  "unat (ucast x :: byte) = unat (x :: u32) mod 256"
  "unat (drop_bit k x) = unat x div 2 ^ k"
  by (simp_all add: unsigned_ucast_eq take_bit_eq_mod unat_drop_bit_eq drop_bit_eq_div [where 'a = nat])

lemma u32_le_roundtrip [simp]: "u32_from_le_bytes (u32_to_le_bytes x) = Some x"
proof -
  have x: "unat x < 2 ^ 32" using unsigned_less [of x, where 'a = nat] by simp
  then have top: "unat x div 16777216 mod 256 = unat x div 16777216"
    by (intro mod_less) (simp add: less_mult_imp_div_less)
  have "unat (ucast x :: byte) + 256 * unat (ucast (drop_bit 8 x) :: byte)
      + 65536 * unat (ucast (drop_bit 16 x) :: byte)
      + 16777216 * unat (ucast (drop_bit 24 x) :: byte) = unat x"
    using nat_base256 [OF x] top by simp
  then show ?thesis by (simp only: u32_to_le_bytes_def u32_from_le_bytes.simps) simp
qed

lemma u32_from_le_bytes_length: "u32_from_le_bytes bs = Some x \<Longrightarrow> length bs = 4"
  by (induction bs rule: u32_from_le_bytes.induct) auto

lemma u32_from_le_bytes_defined: "length bs = 4 \<Longrightarrow> \<exists>x. u32_from_le_bytes bs = Some x"
  by (cases bs rule: u32_from_le_bytes.cases) auto

lemma u32_to_le_bytes_inj: "u32_to_le_bytes x = u32_to_le_bytes y \<Longrightarrow> x = y"
  by (metis option.inject u32_le_roundtrip)

lemma unat_saturating_add:
  "unat (saturating_add_u32 a b) = min (unat a + unat b) (2 ^ 32 - 1)"
proof (cases "unat a + unat b < 2 ^ 32")
  case True
  then show ?thesis by (simp add: saturating_add_u32_def unat_word_ariths)
next
  case False
  have "unat (- 1 :: u32) = 2 ^ 32 - 1"
    by (simp add: unsigned_minus_1_eq_mask mask_eq_exp_minus_1)
  with False show ?thesis by (simp add: saturating_add_u32_def)
qed

lemma unat_Suc_u32: "a < b \<Longrightarrow> unat (a + 1 :: u32) = Suc (unat a)"
  using unsigned_less [of b, where 'a = nat] by (simp add: unat_word_ariths word_less_nat_alt)

section \<open>Results and the \<open>?\<close> operator\<close>

definition bind_r :: "'e + 'a \<Rightarrow> ('a \<Rightarrow> 'e + 'b) \<Rightarrow> 'e + 'b" where
  "bind_r m f = (case m of Inl e \<Rightarrow> Inl e | Inr x \<Rightarrow> f x)"

definition map_err :: "('e \<Rightarrow> 'f) \<Rightarrow> 'e + 'a \<Rightarrow> 'f + 'a" where
  "map_err g m = (case m of Inl e \<Rightarrow> Inl (g e) | Inr x \<Rightarrow> Inr x)"

definition is_ok :: "'e + 'a \<Rightarrow> bool" where
  "is_ok m = (case m of Inl _ \<Rightarrow> False | Inr _ \<Rightarrow> True)"

lemma bind_r_simps [simp]: "bind_r (Inl e) f = Inl e" "bind_r (Inr x) f = f x"
  by (simp_all add: bind_r_def)

lemma bind_r_eq_Inr: "bind_r m f = Inr y \<longleftrightarrow> (\<exists>x. m = Inr x \<and> f x = Inr y)"
  by (cases m) auto

lemma map_err_simps [simp]: "map_err g (Inl e) = Inl (g e)" "map_err g (Inr x) = Inr x"
  by (simp_all add: map_err_def)

lemma map_err_eq_Inr [simp]: "map_err g m = Inr x \<longleftrightarrow> m = Inr x"
  by (cases m) auto

lemma is_ok_simps [simp]: "is_ok (Inl e) = False" "is_ok (Inr x) = True"
  by (simp_all add: is_ok_def)

lemma is_ok_iff: "is_ok m \<longleftrightarrow> (\<exists>x. m = Inr x)"
  by (cases m) auto

lemma is_ok_bind_const [simp]: "is_ok (bind_r m (\<lambda>_. k)) \<longleftrightarrow> is_ok m \<and> is_ok k"
  by (cases m) auto

lemma is_ok_bind: "is_ok (bind_r m f) \<longleftrightarrow> (\<exists>x. m = Inr x \<and> is_ok (f x))"
  by (cases m) auto

section \<open>Text: decimal formatting and UTF-8\<close>

fun dec_string :: "nat \<Rightarrow> string" where
  "dec_string n =
     (if n < 10 then [char_of (48 + n)] else dec_string (n div 10) @ [char_of (48 + n mod 10)])"

declare dec_string.simps [simp del]

definition in_range :: "nat \<Rightarrow> nat \<Rightarrow> byte \<Rightarrow> bool" where
  "in_range lo hi b \<longleftrightarrow> lo \<le> unat b \<and> unat b \<le> hi"

text \<open>
  The well-formed UTF-8 byte sequences (Unicode Table 3-7), which is what
  \<open>String::from_utf8\<close> accepts. The lead byte fixes the number of continuation bytes and
  the range of the first of them.
\<close>

definition utf8_tail :: "byte \<Rightarrow> (nat \<times> nat \<times> nat) option" where
  "utf8_tail b =
     (if in_range 0 127 b then Some (0, 0, 0)
      else if in_range 194 223 b then Some (1, 128, 191)
      else if in_range 224 224 b then Some (2, 160, 191)
      else if in_range 225 236 b then Some (2, 128, 191)
      else if in_range 237 237 b then Some (2, 128, 159)
      else if in_range 238 239 b then Some (2, 128, 191)
      else if in_range 240 240 b then Some (3, 144, 191)
      else if in_range 241 243 b then Some (3, 128, 191)
      else if in_range 244 244 b then Some (3, 128, 143)
      else None)"

text \<open>
  What \<open>Utf8Error\<close> reports: the index of the first ill-formed sequence and its length, or no
  length when the input ends inside the sequence.
\<close>

fun utf8_conts_fault :: "nat \<Rightarrow> nat \<Rightarrow> nat \<Rightarrow> nat \<Rightarrow> bytes \<Rightarrow> nat option option" where
  "utf8_conts_fault 0 k lo hi bs = None"
| "utf8_conts_fault (Suc n) k lo hi [] = Some None"
| "utf8_conts_fault (Suc n) k lo hi (b # bs) =
     (if in_range lo hi b then utf8_conts_fault n (Suc k) 128 191 bs else Some (Some k))"

function utf8_fault :: "nat \<Rightarrow> bytes \<Rightarrow> (nat \<times> nat option) option" where
  "utf8_fault i [] = None"
| "utf8_fault i (b # bs) =
     (case utf8_tail b of
        None \<Rightarrow> Some (i, Some 1)
      | Some (n, lo, hi) \<Rightarrow>
          (case utf8_conts_fault n 1 lo hi bs of
             Some fault \<Rightarrow> Some (i, fault)
           | None \<Rightarrow> utf8_fault (i + 1 + n) (drop n bs)))"
  by pat_completeness auto
termination
  by (relation "measure (length \<circ> snd)") auto

definition utf8_valid :: "bytes \<Rightarrow> bool" where
  "utf8_valid bs \<longleftrightarrow> utf8_fault 0 bs = None"

definition string_from_utf8 :: "bytes \<Rightarrow> string + bytes" where
  "string_from_utf8 bs =
     (case utf8_fault 0 bs of
        None \<Rightarrow> Inr bs
      | Some (i, Some n) \<Rightarrow>
          Inl (''invalid utf-8 sequence of '' @ dec_string n @ '' bytes from index '' @ dec_string i)
      | Some (i, None) \<Rightarrow> Inl (''incomplete utf-8 byte sequence from index '' @ dec_string i))"

lemma string_from_utf8_ok_iff: "string_from_utf8 bs = Inr t \<longleftrightarrow> utf8_valid bs \<and> t = bs"
  by (auto simp: string_from_utf8_def utf8_valid_def split: option.splits)

lemma utf8_fault_ascii: "list_all (\<lambda>b. b < 128) bs \<Longrightarrow> utf8_fault i bs = None"
  by (induction bs arbitrary: i) (auto simp: utf8_tail_def in_range_def word_less_nat_alt)

lemma utf8_valid_ascii: "list_all (\<lambda>b. b < 128) bs \<Longrightarrow> utf8_valid bs"
  unfolding utf8_valid_def by (rule utf8_fault_ascii)

section \<open>Hash maps as association lists\<close>

text \<open>
  A \<open>HashMap\<close> or \<open>DashMap\<close> is an association list whose keys are distinct; its order is
  the order an iteration would visit the entries in, about which nothing is assumed.
\<close>

type_synonym ('k, 'v) hmap = "('k \<times> 'v) list"

definition hm_wf :: "('k, 'v) hmap \<Rightarrow> bool" where
  "hm_wf m \<longleftrightarrow> distinct (map fst m)"

definition hm_get :: "('k, 'v) hmap \<Rightarrow> 'k \<Rightarrow> 'v option" where
  "hm_get m k = map_of m k"

definition hm_insert :: "'k \<Rightarrow> 'v \<Rightarrow> ('k, 'v) hmap \<Rightarrow> ('k, 'v) hmap" where
  "hm_insert k v m = AList.update k v m"

definition hm_remove :: "'k \<Rightarrow> ('k, 'v) hmap \<Rightarrow> ('k, 'v) hmap" where
  "hm_remove k m = AList.delete k m"

definition hm_retain :: "('k \<Rightarrow> 'v \<Rightarrow> bool) \<Rightarrow> ('k, 'v) hmap \<Rightarrow> ('k, 'v) hmap" where
  "hm_retain keep m = filter (\<lambda>(k, v). keep k v) m"

lemma hm_get_retain:
  "hm_wf m \<Longrightarrow> hm_get (hm_retain keep m) k =
     (case hm_get m k of Some v \<Rightarrow> if keep k v then Some v else None | None \<Rightarrow> None)"
  unfolding hm_wf_def hm_get_def hm_retain_def
  by (induction m) (auto simp: map_of_eq_None_iff image_iff split: option.splits)

lemma hm_wf_retain [simp]: "hm_wf m \<Longrightarrow> hm_wf (hm_retain keep m)"
  unfolding hm_wf_def hm_retain_def by (induction m) auto

lemma hm_retain_size_le: "length (hm_retain keep m) \<le> length m"
  by (simp add: hm_retain_def)

text \<open>The interface every client of a map relies on.\<close>

locale dictionary =
  fixes empty :: "'m"
    and get :: "'m \<Rightarrow> 'k \<Rightarrow> 'v option"
    and put :: "'k \<Rightarrow> 'v \<Rightarrow> 'm \<Rightarrow> 'm"
    and del :: "'k \<Rightarrow> 'm \<Rightarrow> 'm"
    and size_of :: "'m \<Rightarrow> nat"
    and wf :: "'m \<Rightarrow> bool"
  assumes get_empty: "get empty k = None"
    and get_put: "get (put k v m) k' = (if k' = k then Some v else get m k')"
    and get_del: "get (del k m) k' = (if k' = k then None else get m k')"
    and size_empty: "size_of empty = 0"
    and size_put: "size_of (put k v m) = (if get m k = None then Suc (size_of m) else size_of m)"
    and size_del_le: "size_of (del k m) \<le> size_of m"
    and wf_empty: "wf empty"
    and wf_put: "wf m \<Longrightarrow> wf (put k v m)"
    and wf_del: "wf m \<Longrightarrow> wf (del k m)"
begin

lemma size_put_le: "size_of (put k v m) \<le> Suc (size_of m)"
  by (simp add: size_put)

lemma put_all_size: "size_of (fold (\<lambda>(k, v). put k v) kvs m) \<le> size_of m + length kvs"
proof (induction kvs arbitrary: m)
  case (Cons kv kvs)
  obtain k v where kv: "kv = (k, v)" by fastforce
  show ?case using Cons.IH [of "put k v m"] size_put_le [of k v m] by (simp add: kv)
qed simp

lemma put_all_wf: "wf m \<Longrightarrow> wf (fold (\<lambda>(k, v). put k v) kvs m)"
  by (induction kvs arbitrary: m) (auto simp: wf_put)

lemma put_all_get_other: "k \<notin> set (map fst kvs) \<Longrightarrow> get (fold (\<lambda>(k, v). put k v) kvs m) k = get m k"
  by (induction kvs arbitrary: m) (auto simp: get_put)

lemma put_all_get:
  "distinct (map fst kvs) \<Longrightarrow> (k, v) \<in> set kvs \<Longrightarrow> get (fold (\<lambda>(k, v). put k v) kvs m) k = Some v"
proof (induction kvs arbitrary: m)
  case (Cons kv kvs)
  obtain k' v' where kv: "kv = (k', v')" by fastforce
  show ?case
  proof (cases "(k, v) = kv")
    case True
    then have "k \<notin> set (map fst kvs)" using Cons.prems kv by auto
    then show ?thesis using True kv by (simp add: put_all_get_other get_put)
  next
    case False
    then have "(k, v) \<in> set kvs" using Cons.prems by simp
    then show ?thesis using Cons.IH Cons.prems kv by simp
  qed
qed simp

end

lemma hm_wf_empty [simp]: "hm_wf []"
  by (simp add: hm_wf_def)

lemma length_hm_insert:
  "length (hm_insert k v m) = (if hm_get m k = None then Suc (length m) else length m)"
  by (induction m) (auto simp: hm_insert_def hm_get_def)

interpretation hm: dictionary "[]" hm_get hm_insert hm_remove length hm_wf
proof unfold_locales
  show "hm_get [] k = None" for k :: 'a by (simp add: hm_get_def)
  show "hm_get (hm_insert k v m) k' = (if k' = k then Some v else hm_get m k')"
    for k k' :: 'a and v :: 'b and m by (simp add: hm_get_def hm_insert_def update_conv')
  show "hm_get (hm_remove k m) k' = (if k' = k then None else hm_get m k')"
    for k k' :: 'a and m :: "('a, 'b) hmap" by (simp add: hm_get_def hm_remove_def delete_conv')
  show "length (hm_remove k m) \<le> length m" for k :: 'a and m :: "('a, 'b) hmap"
    by (simp add: hm_remove_def length_delete_le)
  show "hm_wf m \<Longrightarrow> hm_wf (hm_insert k v m)" for k :: 'a and v :: 'b and m
    by (simp add: hm_wf_def hm_insert_def distinct_update)
  show "hm_wf m \<Longrightarrow> hm_wf (hm_remove k m)" for k :: 'a and m :: "('a, 'b) hmap"
    by (simp add: hm_wf_def hm_remove_def distinct_delete)
qed (simp_all add: length_hm_insert)

lemmas hm_simps [dict_simps] = hm.get_empty hm.get_put hm.get_del hm.size_put hm.wf_put hm.wf_del

section \<open>Serializers and their decoders\<close>

text \<open>
  The contract between a serializer and the code that reads its output back: decoding an
  encoded well-formed value gives the value.
\<close>

locale wire_codec =
  fixes wf :: "'a \<Rightarrow> bool"
    and ser :: "'a \<Rightarrow> bytes"
    and de :: "bytes \<Rightarrow> 'e + 'a"
  assumes roundtrip: "wf x \<Longrightarrow> de (ser x) = Inr x"
begin

lemma ser_inj: "wf x \<Longrightarrow> wf y \<Longrightarrow> ser x = ser y \<Longrightarrow> x = y"
  by (metis Inr_inject roundtrip)

end

text \<open>A decoder that reads a prefix and ignores the bytes after it.\<close>

locale prefix_codec =
  fixes wf :: "'a \<Rightarrow> bool"
    and ser :: "'a \<Rightarrow> bytes"
    and de :: "bytes \<Rightarrow> 'e + 'a"
  assumes prefix_roundtrip: "wf x \<Longrightarrow> de (ser x @ rest) = Inr x"

sublocale prefix_codec \<subseteq> wire_codec wf ser de
  using prefix_roundtrip [where rest = "[]"] by unfold_locales simp

context prefix_codec
begin

lemma ser_prefix_free: "wf x \<Longrightarrow> wf y \<Longrightarrow> ser x @ r = ser y @ s \<Longrightarrow> x = y \<and> r = s"
  by (metis Inr_inject append_same_eq prefix_roundtrip same_append_eq)

end

end
