(* ===== verification/Core_Primitives.thy ===== *)
theory Core_Primitives
  imports Echo_Prelude
begin

text \<open>
  The cryptographic crates \<open>x25519-dalek\<close>, \<open>ed25519-dalek\<close>, \<open>aes-gcm\<close>, \<open>hkdf\<close> and \<open>base64\<close>
  are not part of the repository: they are the fields of the record \<open>prims\<close>, an argument of
  every definition that calls them. What the sources rely on is stated as the predicates
  below, each the documented behaviour of one crate. \<open>ref_prims\<close> is one concrete choice of
  the functions for which all of them hold, used to evaluate the model on concrete inputs.
  The theory also holds \<open>CoreError\<close> of \<open>error.rs\<close> and the constants of \<open>signal/protocol.rs\<close>.
\<close>

section \<open>Errors (\<open>error.rs\<close>)\<close>

datatype CoreError =
    Network string
  | Storage string
  | Crypto string
  | Auth string
  | InvalidInput string

type_synonym 'a core_result = "CoreError + 'a"

section \<open>Protocol constants (\<open>signal/protocol.rs\<close>)\<close>

definition WIRE_MAGIC :: byte where "WIRE_MAGIC = 0xEC"
definition WIRE_INITIAL_V1 :: byte where "WIRE_INITIAL_V1 = 0x01"
definition WIRE_INITIAL_V2 :: byte where "WIRE_INITIAL_V2 = 0x02"
definition NORMAL_HEADER_LEN :: u32 where "NORMAL_HEADER_LEN = 40"
definition RATCHET_KDF_INFO :: string where "RATCHET_KDF_INFO = ''EchoDoubleRatchet''"
definition X3DH_HKDF_INFO :: string where "X3DH_HKDF_INFO = ''EchoSignalX3DH''"
definition MAX_SKIP :: u32 where "MAX_SKIP = 1000"
definition MAX_SKIPPED_KEYS :: nat where "MAX_SKIPPED_KEYS = 2000"

lemma unat_MAX_SKIP [simp]: "unat MAX_SKIP = 1000"
  by (simp add: MAX_SKIP_def)

section \<open>The primitives\<close>

text \<open>
  Keys, secrets and signatures are byte lists. \<open>hkdf salt ikm info n\<close> extracts with \<open>salt\<close>
  and expands to \<open>n\<close> bytes; \<open>aead_enc key nonce plaintext aad\<close> returns ciphertext followed by
  the tag; \<open>ed_verify\<close> and \<open>vk_from_bytes\<close> are \<open>VerifyingKey::verify\<close> and
  \<open>VerifyingKey::from_bytes\<close>. A failing call returns the text its error displays.
\<close>

record prims =
  pub_of :: "bytes \<Rightarrow> bytes"
  dh :: "bytes \<Rightarrow> bytes \<Rightarrow> bytes"
  hkdf :: "bytes \<Rightarrow> bytes \<Rightarrow> string \<Rightarrow> nat \<Rightarrow> string + bytes"
  aead_enc :: "bytes \<Rightarrow> bytes \<Rightarrow> bytes \<Rightarrow> bytes \<Rightarrow> string + bytes"
  aead_dec :: "bytes \<Rightarrow> bytes \<Rightarrow> bytes \<Rightarrow> bytes \<Rightarrow> string + bytes"
  ed_public :: "bytes \<Rightarrow> bytes"
  ed_sign :: "bytes \<Rightarrow> bytes \<Rightarrow> bytes"
  vk_from_bytes :: "bytes \<Rightarrow> string + bytes"
  ed_verify :: "bytes \<Rightarrow> bytes \<Rightarrow> bytes \<Rightarrow> string + unit"
  b64_encode :: "bytes \<Rightarrow> string"
  b64_decode :: "string \<Rightarrow> string + bytes"

text \<open>X25519: public keys and shared secrets have 32 bytes, and both sides agree.\<close>

definition dh_agrees :: "prims \<Rightarrow> bool" where
  "dh_agrees P \<longleftrightarrow>
     (\<forall>a b. length a = 32 \<longrightarrow> length b = 32 \<longrightarrow>
        length (pub_of P a) = 32 \<and> length (dh P a b) = 32 \<and>
        dh P a (pub_of P b) = dh P b (pub_of P a))"

text \<open>HKDF-SHA256 expands to any length up to \<open>255 * 32\<close> bytes.\<close>

definition hkdf_total :: "prims \<Rightarrow> bool" where
  "hkdf_total P \<longleftrightarrow>
     (\<forall>salt ikm info n. n \<le> 255 * 32 \<longrightarrow> (\<exists>okm. hkdf P salt ikm info n = Inr okm \<and> length okm = n))"

text \<open>
  AES-256-GCM with a 12-byte nonce: within the crate's size limit encryption succeeds,
  appends a 16-byte tag, and decryption under the same key, nonce and associated data
  returns the plaintext.
\<close>

definition aead_correct :: "prims \<Rightarrow> bool" where
  "aead_correct P \<longleftrightarrow>
     (\<forall>k n p a. length k = 32 \<longrightarrow> length n = 12 \<longrightarrow> length p \<le> 2 ^ 36 \<longrightarrow> length a \<le> 2 ^ 36 \<longrightarrow>
        (\<exists>c. aead_enc P k n p a = Inr c \<and> length c = length p + 16 \<and> aead_dec P k n c a = Inr p))"

text \<open>Ed25519: 32-byte verifying keys that parse, 64-byte signatures that verify.\<close>

definition sig_correct :: "prims \<Rightarrow> bool" where
  "sig_correct P \<longleftrightarrow>
     (\<forall>sk m. length sk = 32 \<longrightarrow>
        length (ed_public P sk) = 32 \<and> length (ed_sign P sk m) = 64 \<and>
        vk_from_bytes P (ed_public P sk) = Inr (ed_public P sk) \<and>
        ed_verify P (ed_public P sk) m (ed_sign P sk m) = Inr ())"

definition b64_correct :: "prims \<Rightarrow> bool" where
  "b64_correct P \<longleftrightarrow> (\<forall>bs. b64_decode P (b64_encode P bs) = Inr bs)"

lemmas prim_laws_defs =
  dh_agrees_def hkdf_total_def aead_correct_def sig_correct_def b64_correct_def

lemma dh_agreesD:
  assumes "dh_agrees P" and "length a = 32" and "length b = 32"
  shows "length (pub_of P a) = 32" "length (dh P a b) = 32"
    "dh P a (pub_of P b) = dh P b (pub_of P a)"
  using assms unfolding dh_agrees_def by blast+

lemma hkdf_totalE:
  assumes "hkdf_total P" and "n \<le> 255 * 32"
  obtains okm where "hkdf P salt ikm info n = Inr okm" "length okm = n"
  using assms unfolding hkdf_total_def by blast

lemma aead_correctE:
  assumes "aead_correct P" "length k = 32" "length n = 12" "length p \<le> 2 ^ 36" "length a \<le> 2 ^ 36"
  obtains c where "aead_enc P k n p a = Inr c" "length c = length p + 16" "aead_dec P k n c a = Inr p"
  using assms unfolding aead_correct_def by blast

lemma sig_correctD:
  assumes "sig_correct P" and "length sk = 32"
  shows "length (ed_public P sk) = 32" "length (ed_sign P sk m) = 64"
    "vk_from_bytes P (ed_public P sk) = Inr (ed_public P sk)"
    "ed_verify P (ed_public P sk) m (ed_sign P sk m) = Inr ()"
  using assms unfolding sig_correct_def by blast+

section \<open>A concrete instance\<close>

text \<open>
  Functions with the shape of the primitives that satisfy every law above. They are not
  secure; they make the model executable on concrete inputs.
\<close>

definition mix :: "bytes \<Rightarrow> byte" where
  "mix bs = foldl (\<lambda>acc b. 3 * acc + b + 1) 7 bs"

definition string_bytes :: "string \<Rightarrow> bytes" where
  "string_bytes s = map (\<lambda>c. of_nat (of_char c)) s"

definition bytes_string :: "bytes \<Rightarrow> string" where
  "bytes_string bs = map (\<lambda>b. char_of (unat b)) bs"

definition ref_tag :: "bytes \<Rightarrow> bytes \<Rightarrow> bytes \<Rightarrow> bytes \<Rightarrow> bytes" where
  "ref_tag k n p a = replicate 16 (mix (k @ n @ a @ p))"

definition ref_prims :: prims where
  "ref_prims = \<lparr>
     pub_of = (\<lambda>a. a),
     dh = (\<lambda>a b. map2 (+) a b),
     hkdf = (\<lambda>salt ikm info n. if n \<le> 255 * 32
               then Inr (map (\<lambda>i. mix (salt @ ikm @ string_bytes info) + of_nat i) [0..<n])
               else Inl ''invalid length''),
     aead_enc = (\<lambda>k n p a. Inr (p @ ref_tag k n p a)),
     aead_dec = (\<lambda>k n c a. let p = take (length c - 16) c in
               if c = p @ ref_tag k n p a then Inr p else Inl ''aead::Error''),
     ed_public = (\<lambda>sk. sk),
     ed_sign = (\<lambda>sk m. replicate 64 (mix (sk @ m))),
     vk_from_bytes = (\<lambda>b. Inr b),
     ed_verify = (\<lambda>vk m s. if s = replicate 64 (mix (vk @ m)) then Inr () else Inl ''signature error''),
     b64_encode = bytes_string,
     b64_decode = (\<lambda>s. Inr (string_bytes s))\<rparr>"

lemma char_of_unat_byte: "(of_nat (of_char (char_of (unat b) :: char)) :: byte) = b"
proof -
  have "unat b < 256" using unsigned_less [of b, where 'a = nat] by simp
  then show ?thesis by simp
qed

lemma string_bytes_of_bytes_string [simp]: "string_bytes (bytes_string bs) = bs"
  by (induction bs) (simp_all add: string_bytes_def bytes_string_def char_of_unat_byte del: of_char_of)

lemma map2_add_commute: "map2 (+) (a :: bytes) b = map2 (+) b a"
proof (induction a arbitrary: b)
  case (Cons x a)
  then show ?case by (cases b) (simp_all add: add.commute)
qed simp

lemma ref_prims_laws:
  "dh_agrees ref_prims" "hkdf_total ref_prims" "aead_correct ref_prims"
  "sig_correct ref_prims" "b64_correct ref_prims"
proof -
  show "dh_agrees ref_prims"
    unfolding dh_agrees_def ref_prims_def by (auto simp: map2_add_commute)
  show "hkdf_total ref_prims"
    unfolding hkdf_total_def ref_prims_def by auto
  show "aead_correct ref_prims"
    unfolding aead_correct_def ref_prims_def by (simp add: ref_tag_def Let_def)
  show "sig_correct ref_prims"
    unfolding sig_correct_def ref_prims_def by simp
  show "b64_correct ref_prims"
    unfolding b64_correct_def ref_prims_def by simp
qed

end
