(* ===== verification/Core_Keys.thy ===== *)
theory Core_Keys
  imports Core_Primitives
begin

text \<open>
  Key types and generation: \<open>signal/keys.rs\<close> (identity key pairs, prekey bundles, ephemeral
  keys and their byte layouts) and \<open>crypto/keys.rs\<close> (the upload bundle with its batch of
  one-time prekeys). Random bytes drawn from the operating system are arguments. The
  serializers are interpreted as \<open>prefix_codec\<close>s.
\<close>

section \<open>Slices and fixed-size arrays\<close>

text \<open>\<open>&data[a..b]\<close>, used only where the source has checked the length before.\<close>

definition byte_slice :: "nat \<Rightarrow> nat \<Rightarrow> 'a list \<Rightarrow> 'a list" where
  "byte_slice a b xs = take (b - a) (drop a xs)"

definition try_array :: "nat \<Rightarrow> string \<Rightarrow> bytes \<Rightarrow> bytes core_result" where
  "try_array n msg bs = (if length bs = n then Inr bs else Inl (Crypto msg))"

lemma length_byte_slice [simp, len_simps]: "b \<le> length xs \<Longrightarrow> length (byte_slice a b xs) = b - a"
  by (simp add: byte_slice_def)

lemma try_array_ok [simp]: "length bs = n \<Longrightarrow> try_array n msg bs = Inr bs"
  by (simp add: try_array_def)

lemma try_array_eq_Inr: "try_array n msg bs = Inr x \<longleftrightarrow> length bs = n \<and> x = bs"
  by (auto simp: try_array_def)

lemma slice_append_left [simp]: "b \<le> length xs \<Longrightarrow> byte_slice a b (xs @ ys) = byte_slice a b xs"
  by (simp add: byte_slice_def)

lemma slice_all [simp]: "byte_slice 0 (length xs) xs = xs"
  by (simp add: byte_slice_def)

lemma slice_append_right:
  "length xs \<le> a \<Longrightarrow> byte_slice a b (xs @ ys) = byte_slice (a - length xs) (b - length xs) ys"
  by (simp add: byte_slice_def)

section \<open>Identity keys (\<open>signal/keys.rs\<close>)\<close>

record IdentityKeyPair =
  ik_private :: bytes
  ik_public :: bytes
  ik_signing_key :: bytes

definition IdentityKeyPair_generate :: "prims \<Rightarrow> bytes \<Rightarrow> bytes \<Rightarrow> IdentityKeyPair" where
  "IdentityKeyPair_generate P rnd signing_bytes =
     \<lparr>ik_private = rnd, ik_public = pub_of P rnd, ik_signing_key = signing_bytes\<rparr>"

definition verifying_key :: "prims \<Rightarrow> IdentityKeyPair \<Rightarrow> bytes" where
  "verifying_key P k = ed_public P (ik_signing_key k)"

definition identity_sign :: "prims \<Rightarrow> IdentityKeyPair \<Rightarrow> bytes \<Rightarrow> bytes" where
  "identity_sign P k data = ed_sign P (ik_signing_key k) data"

definition IdentityKeyPair_serialize :: "IdentityKeyPair \<Rightarrow> bytes" where
  "IdentityKeyPair_serialize k = ik_private k @ ik_signing_key k"

definition IdentityKeyPair_deserialize :: "prims \<Rightarrow> bytes \<Rightarrow> IdentityKeyPair core_result" where
  "IdentityKeyPair_deserialize P data =
     (if length data < 64 then Inl (Crypto ''IdentityKeyPair data too short (need 64 bytes)'')
      else
        bind_r (try_array 32 ''Invalid X25519 private key bytes'' (byte_slice 0 32 data)) (\<lambda>x25519_bytes.
        bind_r (try_array 32 ''Invalid Ed25519 signing key bytes'' (byte_slice 32 64 data)) (\<lambda>ed25519_bytes.
        Inr \<lparr>ik_private = x25519_bytes, ik_public = pub_of P x25519_bytes,
             ik_signing_key = ed25519_bytes\<rparr>)))"

definition identity_wf :: "prims \<Rightarrow> IdentityKeyPair \<Rightarrow> bool" where
  "identity_wf P k \<longleftrightarrow>
     length (ik_private k) = 32 \<and> length (ik_signing_key k) = 32 \<and> ik_public k = pub_of P (ik_private k)"

section \<open>Ephemeral keys and prekey bundles (\<open>signal/keys.rs\<close>)\<close>

record EphemeralKeyPair =
  ek_private :: bytes
  ek_public :: bytes

definition EphemeralKeyPair_generate :: "prims \<Rightarrow> bytes \<Rightarrow> EphemeralKeyPair" where
  "EphemeralKeyPair_generate P rnd = \<lparr>ek_private = rnd, ek_public = pub_of P rnd\<rparr>"

record PreKeyBundle =
  pkb_identity_key :: bytes
  pkb_signed_prekey :: bytes
  pkb_signed_prekey_signature :: bytes
  pkb_one_time_prekey :: "bytes option"

definition verify_signature :: "prims \<Rightarrow> PreKeyBundle \<Rightarrow> bytes \<Rightarrow> unit core_result" where
  "verify_signature P b vk =
     map_err (\<lambda>e. Crypto (''Signed prekey signature invalid: '' @ e))
       (ed_verify P vk (pkb_signed_prekey b) (pkb_signed_prekey_signature b))"

definition PreKeyBundle_serialize :: "PreKeyBundle \<Rightarrow> bytes" where
  "PreKeyBundle_serialize b =
     pkb_identity_key b @ pkb_signed_prekey b @ pkb_signed_prekey_signature b @
     (case pkb_one_time_prekey b of Some otk \<Rightarrow> 1 # otk | None \<Rightarrow> [0])"

definition PreKeyBundle_deserialize :: "bytes \<Rightarrow> PreKeyBundle core_result" where
  "PreKeyBundle_deserialize data =
     (if length data < 129 then Inl (Crypto ''PreKeyBundle data too short (need >= 129 bytes)'')
      else
        bind_r (try_array 32 ''Invalid identity key'' (byte_slice 0 32 data)) (\<lambda>identity_bytes.
        bind_r (try_array 32 ''Invalid signed prekey'' (byte_slice 32 64 data)) (\<lambda>spk_bytes.
        bind_r (try_array 64 ''Invalid signature'' (byte_slice 64 128 data)) (\<lambda>sig_bytes.
        let has_otp = data ! 128 in
        bind_r
          (if has_otp = 1 then
             (if length data < 161 then Inl (Crypto ''PreKeyBundle data too short for one-time prekey'')
              else map_sum id Some (try_array 32 ''Invalid one-time prekey'' (byte_slice 129 161 data)))
           else Inr None)
          (\<lambda>one_time_prekey.
        Inr \<lparr>pkb_identity_key = identity_bytes, pkb_signed_prekey = spk_bytes,
             pkb_signed_prekey_signature = sig_bytes, pkb_one_time_prekey = one_time_prekey\<rparr>)))))"

definition bundle_wf :: "PreKeyBundle \<Rightarrow> bool" where
  "bundle_wf b \<longleftrightarrow>
     length (pkb_identity_key b) = 32 \<and> length (pkb_signed_prekey b) = 32 \<and>
     length (pkb_signed_prekey_signature b) = 64 \<and>
     (\<forall>otk. pkb_one_time_prekey b = Some otk \<longrightarrow> length otk = 32)"

lemma identity_prefix_roundtrip:
  assumes "identity_wf P k"
  shows "IdentityKeyPair_deserialize P (IdentityKeyPair_serialize k @ rest) = Inr k"
  using assms
  by (simp add: IdentityKeyPair_deserialize_def IdentityKeyPair_serialize_def identity_wf_def
      byte_slice_def)

lemma bundle_prefix_roundtrip:
  assumes "bundle_wf b"
  shows "PreKeyBundle_deserialize (PreKeyBundle_serialize b @ rest) = Inr b"
proof (cases "pkb_one_time_prekey b")
  case None
  with assms show ?thesis
    by (simp add: PreKeyBundle_deserialize_def PreKeyBundle_serialize_def bundle_wf_def byte_slice_def
        nth_append)
next
  case (Some otk)
  with assms show ?thesis
    by (simp add: PreKeyBundle_deserialize_def PreKeyBundle_serialize_def bundle_wf_def byte_slice_def
        nth_append)
qed

interpretation ik_codec: prefix_codec "identity_wf P" IdentityKeyPair_serialize "IdentityKeyPair_deserialize P"
  for P by unfold_locales (rule identity_prefix_roundtrip)

interpretation bundle_codec: prefix_codec bundle_wf PreKeyBundle_serialize PreKeyBundle_deserialize
  by unfold_locales (rule bundle_prefix_roundtrip)

text \<open>What the decoder accepts, and what it accepts is well-formed.\<close>

lemma bundle_deserialize_ok_iff:
  "is_ok (PreKeyBundle_deserialize data) \<longleftrightarrow>
     129 \<le> length data \<and> (data ! 128 = 1 \<longrightarrow> 161 \<le> length data)"
  by (auto simp: PreKeyBundle_deserialize_def Let_def)

lemma bundle_deserialize_wf: "PreKeyBundle_deserialize data = Inr b \<Longrightarrow> bundle_wf b"
  by (auto simp: PreKeyBundle_deserialize_def Let_def bundle_wf_def split: if_splits)

section \<open>The upload bundle (\<open>crypto/keys.rs\<close>)\<close>

record crypto_IdentityKeyPair =
  cik_signing_key :: bytes
  cik_verifying_key :: bytes

record crypto_PreKeyBundle =
  cpb_identity_key :: bytes
  cpb_signed_prekey :: bytes
  cpb_signed_prekey_signature :: bytes
  cpb_signed_prekey_id :: u32
  cpb_one_time_prekeys :: "(u32 \<times> bytes) list"

definition crypto_generate :: "prims \<Rightarrow> bytes \<Rightarrow> crypto_IdentityKeyPair" where
  "crypto_generate P secret_bytes =
     \<lparr>cik_signing_key = secret_bytes, cik_verifying_key = ed_public P secret_bytes\<rparr>"

definition public_key_bytes :: "crypto_IdentityKeyPair \<Rightarrow> bytes" where
  "public_key_bytes k = cik_verifying_key k"

definition generate_signed_prekey ::
  "prims \<Rightarrow> bytes \<Rightarrow> crypto_IdentityKeyPair \<Rightarrow> u32 \<Rightarrow> bytes \<times> bytes \<times> bytes \<times> u32" where
  "generate_signed_prekey P rnd identity key_id =
     (let public_bytes = pub_of P rnd;
          sig_bytes = ed_sign P (cik_signing_key identity) public_bytes
      in (rnd, public_bytes, sig_bytes, key_id))"

text \<open>\<open>rnds i\<close> is the secret drawn for the \<open>i\<close>-th key; the identifier addition wraps.\<close>

definition generate_one_time_prekeys ::
  "prims \<Rightarrow> (nat \<Rightarrow> bytes) \<Rightarrow> u32 \<Rightarrow> u32 \<Rightarrow> (u32 \<times> bytes \<times> bytes) list" where
  "generate_one_time_prekeys P rnds start_id count =
     map (\<lambda>i. (start_id + of_nat i, rnds i, pub_of P (rnds i))) [0..<unat count]"

definition build_prekey_bundle ::
  "prims \<Rightarrow> bytes \<Rightarrow> (nat \<Rightarrow> bytes) \<Rightarrow> crypto_IdentityKeyPair \<Rightarrow> u32 \<Rightarrow> u32 \<Rightarrow> u32
     \<Rightarrow> crypto_PreKeyBundle \<times> bytes \<times> (u32 \<times> bytes) list" where
  "build_prekey_bundle P rnd rnds identity signed_prekey_id one_time_prekey_start_id
       one_time_prekey_count =
     (let (spk_secret, spk_public, spk_sig, spk_id) =
            generate_signed_prekey P rnd identity signed_prekey_id;
          otps = generate_one_time_prekeys P rnds one_time_prekey_start_id one_time_prekey_count;
          otp_publics = map (\<lambda>(id, _, pk). (id, pk)) otps;
          otp_secrets = map (\<lambda>(id, secret, _). (id, secret)) otps
      in (\<lparr>cpb_identity_key = public_key_bytes identity, cpb_signed_prekey = spk_public,
           cpb_signed_prekey_signature = spk_sig, cpb_signed_prekey_id = spk_id,
           cpb_one_time_prekeys = otp_publics\<rparr>, spk_secret, otp_secrets))"

lemma of_nat_u32_inj_on: "inj_on (\<lambda>i. start + of_nat i :: u32) {0..<2 ^ 32}"
proof (rule inj_onI)
  fix i j :: nat
  assume ij: "i \<in> {0..<2 ^ 32}" "j \<in> {0..<2 ^ 32}"
    and eq: "(start + of_nat i :: u32) = start + of_nat j"
  from eq have "unat (of_nat i :: u32) = unat (of_nat j :: u32)" by simp
  with ij show "i = j" by (simp add: unsigned_of_nat take_bit_eq_mod)
qed

lemma one_time_prekey_ids_distinct:
  "distinct (map fst (generate_one_time_prekeys P rnds start_id count))"
proof -
  have "{0..<unat count} \<subseteq> {0..<2 ^ 32}"
    using unsigned_less [of count, where 'a = nat] by auto
  from inj_on_subset [OF of_nat_u32_inj_on this]
  show ?thesis by (simp add: generate_one_time_prekeys_def distinct_map comp_def)
qed

section \<open>Properties\<close>

text \<open>
  C34: a published bundle is decoded to itself whatever follows it, every decoded bundle has
  keys of the right lengths, and the decoder accepts exactly the inputs long enough for the
  fields their one-time-prekey flag announces.
\<close>

theorem bundle_codec_correct:
  "(bundle_wf b \<longrightarrow> PreKeyBundle_deserialize (PreKeyBundle_serialize b @ rest) = Inr b) \<and>
   (\<forall>b'. PreKeyBundle_deserialize data = Inr b' \<longrightarrow> bundle_wf b') \<and>
   (is_ok (PreKeyBundle_deserialize data) \<longleftrightarrow>
      129 \<le> length data \<and> (data ! 128 = 1 \<longrightarrow> 161 \<le> length data))"
  using bundle_codec.prefix_roundtrip bundle_deserialize_wf bundle_deserialize_ok_iff by blast

definition ref_bundle :: PreKeyBundle where
  "ref_bundle = \<lparr>pkb_identity_key = replicate 32 1, pkb_signed_prekey = replicate 32 2,
     pkb_signed_prekey_signature = replicate 64 3, pkb_one_time_prekey = Some (replicate 32 4)\<rparr>"

theorem bundle_codec_correct_witness:
  "PreKeyBundle_deserialize (PreKeyBundle_serialize ref_bundle @ [9]) = Inr ref_bundle \<and>
   \<not> is_ok (PreKeyBundle_deserialize (replicate 128 0 @ [1]))"
  using bundle_codec_correct [of ref_bundle "[9]" "replicate 128 0 @ [1]"]
  by (simp add: ref_bundle_def bundle_wf_def nth_append)

text \<open>
  the one-time prekeys uploaded in one bundle carry distinct identifiers, even where the
  32-bit identifier wraps around; publics and retained secrets are listed under the same
  identifiers; and the signed prekey verifies under the bundle's identity key.
\<close>

theorem prekey_bundle_consistent:
  assumes "sig_correct P" and "length seed = 32"
    and "build_prekey_bundle P rnd rnds (crypto_generate P seed) spk_id start count = (b, spk_secret, otp_secrets)"
  shows "distinct (map fst (cpb_one_time_prekeys b)) \<and> length (cpb_one_time_prekeys b) = unat count \<and>
    cpb_one_time_prekeys b = map (\<lambda>(i, sk). (i, pub_of P sk)) otp_secrets \<and>
    cpb_signed_prekey b = pub_of P spk_secret \<and> cpb_signed_prekey_id b = spk_id \<and>
    ed_verify P (cpb_identity_key b) (cpb_signed_prekey b) (cpb_signed_prekey_signature b) = Inr ()"
proof -
  have "map fst (cpb_one_time_prekeys b) = map fst (generate_one_time_prekeys P rnds start count)"
    using assms(3) by (auto simp: build_prekey_bundle_def generate_signed_prekey_def Let_def split_def)
  then have "distinct (map fst (cpb_one_time_prekeys b))" using one_time_prekey_ids_distinct by simp
  then show ?thesis
    using assms(3) sig_correctD [OF assms(1,2)]
    by (auto simp: build_prekey_bundle_def generate_signed_prekey_def generate_one_time_prekeys_def Let_def
        public_key_bytes_def crypto_generate_def)
qed

theorem prekey_bundle_consistent_witness:
  "map fst (cpb_one_time_prekeys (fst (build_prekey_bundle ref_prims (replicate 32 5) (\<lambda>i. replicate 32 (of_nat i))
      (crypto_generate ref_prims (replicate 32 7)) 1 0xFFFFFFFE 3))) = [0xFFFFFFFE, 0xFFFFFFFF, 0] \<and>
   distinct (map fst (cpb_one_time_prekeys (fst (build_prekey_bundle ref_prims (replicate 32 5) (\<lambda>i. replicate 32 (of_nat i))
      (crypto_generate ref_prims (replicate 32 7)) 1 0xFFFFFFFE 3))))"
  using prekey_bundle_consistent [OF ref_prims_laws(4), of "replicate 32 7" "replicate 32 5"
      "\<lambda>i. replicate 32 (of_nat i)" 1 "0xFFFFFFFE" 3]
  by (simp add: build_prekey_bundle_def generate_signed_prekey_def generate_one_time_prekeys_def Let_def upt_rec)

end
