(* ===== verification/Core_Ratchet.thy ===== *)
theory Core_Ratchet
  imports Core_Keys
begin

text \<open>
  The Double Ratchet of \<open>signal/ratchet.rs\<close>: message headers, the ratchet state, its two
  initialisations, encryption, decryption with out-of-order delivery, the DH ratchet step,
  the bounded skipping of message keys, and the persistent byte layout. An operation with a
  \<open>&mut self\<close> receiver returns the new state next to its result, because an early return
  with an error keeps the mutations made before it. Counters are 32-bit words that wrap, as
  in the release profile. Random bytes are arguments. The lemmas here cover the layout, the
  skipping loop and the bound on stored keys; \<open>Core_Conversation\<close> has the two-party results.
\<close>

section \<open>Message headers\<close>

record MessageHeader =
  mh_ratchet_public_key :: bytes
  mh_prev_chain_length :: u32
  mh_message_number :: u32

definition MessageHeader_serialize :: "MessageHeader \<Rightarrow> bytes" where
  "MessageHeader_serialize h =
     mh_ratchet_public_key h @ u32_to_le_bytes (mh_prev_chain_length h) @
     u32_to_le_bytes (mh_message_number h)"

definition try_u32 :: "string \<Rightarrow> bytes \<Rightarrow> u32 core_result" where
  "try_u32 msg bs = (case u32_from_le_bytes bs of Some x \<Rightarrow> Inr x | None \<Rightarrow> Inl (Crypto msg))"

definition MessageHeader_deserialize :: "bytes \<Rightarrow> MessageHeader core_result" where
  "MessageHeader_deserialize data =
     (if length data < 40 then Inl (Crypto ''MessageHeader data too short (need 40 bytes)'')
      else
        let ratchet_public_key = byte_slice 0 32 data in
        bind_r (try_u32 ''Invalid prev_chain_length'' (byte_slice 32 36 data)) (\<lambda>prev_chain_length.
        bind_r (try_u32 ''Invalid message_number'' (byte_slice 36 40 data)) (\<lambda>message_number.
        Inr \<lparr>mh_ratchet_public_key = ratchet_public_key, mh_prev_chain_length = prev_chain_length,
             mh_message_number = message_number\<rparr>)))"

definition header_wf :: "MessageHeader \<Rightarrow> bool" where
  "header_wf h \<longleftrightarrow> length (mh_ratchet_public_key h) = 32"

section \<open>The ratchet state and its key derivations\<close>

record RatchetState =
  rs_root_key :: bytes
  rs_sending_chain_key :: bytes
  rs_receiving_chain_key :: "bytes option"
  rs_sending_ratchet_private :: bytes
  rs_sending_ratchet_public :: bytes
  rs_receiving_ratchet_key :: "bytes option"
  rs_send_counter :: u32
  rs_recv_counter :: u32
  rs_prev_send_counter :: u32
  rs_skipped_keys :: "(bytes \<times> u32, bytes) hmap"

definition CHAIN_KEY_SEED :: byte where "CHAIN_KEY_SEED = 0x02"
definition MESSAGE_KEY_SEED :: byte where "MESSAGE_KEY_SEED = 0x01"

definition kdf_rk :: "prims \<Rightarrow> bytes \<Rightarrow> bytes \<Rightarrow> (bytes \<times> bytes) core_result" where
  "kdf_rk P root_key dh_output =
     bind_r (map_err (\<lambda>e. Crypto (''KDF-RK expand failed: '' @ e))
               (hkdf P root_key dh_output RATCHET_KDF_INFO 64))
       (\<lambda>okm. Inr (byte_slice 0 32 okm, byte_slice 32 64 okm))"

definition kdf_ck :: "prims \<Rightarrow> bytes \<Rightarrow> (bytes \<times> bytes) core_result" where
  "kdf_ck P chain_key =
     bind_r (map_err (\<lambda>e. Crypto (''KDF-CK message key failed: '' @ e))
               (hkdf P chain_key [MESSAGE_KEY_SEED] ''EchoMessageKey'' 32)) (\<lambda>message_key.
     bind_r (map_err (\<lambda>e. Crypto (''KDF-CK chain key failed: '' @ e))
               (hkdf P chain_key [CHAIN_KEY_SEED] ''EchoChainKey'' 32)) (\<lambda>next_chain_key.
     Inr (next_chain_key, message_key)))"

definition encrypt_with_ad :: "prims \<Rightarrow> bytes \<Rightarrow> bytes \<Rightarrow> bytes \<Rightarrow> bytes \<Rightarrow> bytes core_result" where
  "encrypt_with_ad P nonce_bytes key plaintext ad =
     bind_r (map_err (\<lambda>e. Crypto (''AES-GCM encrypt failed: '' @ e))
               (aead_enc P key nonce_bytes plaintext ad))
       (\<lambda>ciphertext. Inr (nonce_bytes @ ciphertext))"

definition decrypt_with_ad :: "prims \<Rightarrow> bytes \<Rightarrow> bytes \<Rightarrow> bytes \<Rightarrow> bytes core_result" where
  "decrypt_with_ad P key ciphertext ad =
     (if length ciphertext < 12 + 16
      then Inl (Crypto ''Ciphertext too short for AES-GCM (need >= 28 bytes)'')
      else map_err (\<lambda>e. Crypto (''AES-GCM decrypt failed: '' @ e))
             (aead_dec P key (take 12 ciphertext) (drop 12 ciphertext) ad))"

section \<open>Initialisation\<close>

definition init_alice :: "prims \<Rightarrow> bytes \<Rightarrow> bytes \<Rightarrow> bytes \<Rightarrow> RatchetState core_result" where
  "init_alice P rnd shared_secret bob_ratchet_public =
     (let sending_ratchet_public = pub_of P rnd;
          dh_output = dh P rnd bob_ratchet_public
      in bind_r (kdf_rk P shared_secret dh_output) (\<lambda>(root_key, sending_chain_key).
         Inr \<lparr>rs_root_key = root_key, rs_sending_chain_key = sending_chain_key,
              rs_receiving_chain_key = None, rs_sending_ratchet_private = rnd,
              rs_sending_ratchet_public = sending_ratchet_public,
              rs_receiving_ratchet_key = Some bob_ratchet_public,
              rs_send_counter = 0, rs_recv_counter = 0, rs_prev_send_counter = 0,
              rs_skipped_keys = []\<rparr>))"

definition init_bob :: "prims \<Rightarrow> bytes \<Rightarrow> bytes \<Rightarrow> RatchetState core_result" where
  "init_bob P shared_secret bob_ratchet_private =
     Inr \<lparr>rs_root_key = shared_secret, rs_sending_chain_key = replicate 32 0,
          rs_receiving_chain_key = None, rs_sending_ratchet_private = bob_ratchet_private,
          rs_sending_ratchet_public = pub_of P bob_ratchet_private,
          rs_receiving_ratchet_key = None,
          rs_send_counter = 0, rs_recv_counter = 0, rs_prev_send_counter = 0,
          rs_skipped_keys = []\<rparr>"

section \<open>Encryption and decryption\<close>

definition ratchet_encrypt ::
  "prims \<Rightarrow> bytes \<Rightarrow> RatchetState \<Rightarrow> bytes \<Rightarrow> RatchetState \<times> (bytes \<times> MessageHeader) core_result" where
  "ratchet_encrypt P nonce st plaintext =
     (case kdf_ck P (rs_sending_chain_key st) of
        Inl e \<Rightarrow> (st, Inl e)
      | Inr (new_chain_key, message_key) \<Rightarrow>
          let st1 = st\<lparr>rs_sending_chain_key := new_chain_key\<rparr>;
              header = \<lparr>mh_ratchet_public_key = rs_sending_ratchet_public st1,
                        mh_prev_chain_length = rs_prev_send_counter st1,
                        mh_message_number = rs_send_counter st1\<rparr>;
              st2 = st1\<lparr>rs_send_counter := rs_send_counter st1 + 1\<rparr>;
              ad = MessageHeader_serialize header
          in (case encrypt_with_ad P nonce message_key plaintext ad of
                Inl e \<Rightarrow> (st2, Inl e)
              | Inr ciphertext \<Rightarrow> (st2, Inr (ciphertext, header))))"

text \<open>The body of the loop in \<open>skip_message_keys\<close>, run while \<open>recv_counter < until\<close>.\<close>

function skip_loop :: "prims \<Rightarrow> u32 \<Rightarrow> RatchetState \<Rightarrow> RatchetState \<times> unit core_result" where
  "skip_loop P until st =
     (case rs_receiving_chain_key st of
        None \<Rightarrow> (st, Inr ())
      | Some chain_key \<Rightarrow>
          if rs_recv_counter st < until then
            (if MAX_SKIPPED_KEYS \<le> length (rs_skipped_keys st)
             then (st, Inl (Crypto (''Skipped-keys map full ('' @ dec_string MAX_SKIPPED_KEYS
                                     @ ''); refusing to grow'')))
             else
               (case kdf_ck P chain_key of
                  Inl e \<Rightarrow> (st, Inl e)
                | Inr (new_ck, mk) \<Rightarrow>
                    let rk = (case rs_receiving_ratchet_key st of Some k \<Rightarrow> k | None \<Rightarrow> replicate 32 0)
                    in skip_loop P until
                         (st\<lparr>rs_skipped_keys := hm_insert (rk, rs_recv_counter st) mk (rs_skipped_keys st),
                             rs_receiving_chain_key := Some new_ck,
                             rs_recv_counter := rs_recv_counter st + 1\<rparr>)))
          else (st, Inr ()))"
  by pat_completeness auto
termination
  by (relation "measure (\<lambda>(P, until, st). unat until - unat (rs_recv_counter st))")
    (auto simp: unat_Suc_u32 word_less_nat_alt)

declare skip_loop.simps [simp del]

definition skip_message_keys :: "prims \<Rightarrow> RatchetState \<Rightarrow> u32 \<Rightarrow> RatchetState \<times> unit core_result" where
  "skip_message_keys P st until =
     (if saturating_add_u32 (rs_recv_counter st) MAX_SKIP < until
      then (st, Inl (Crypto (''Too many skipped messages (recv_counter='' @ dec_string (unat (rs_recv_counter st))
                              @ '', target='' @ dec_string (unat until) @ '')'')))
      else skip_loop P until st)"

definition dh_ratchet_step ::
  "prims \<Rightarrow> bytes \<Rightarrow> RatchetState \<Rightarrow> bytes \<Rightarrow> RatchetState \<times> unit core_result" where
  "dh_ratchet_step P rnd st new_peer_ratchet_key =
     (let st1 = st\<lparr>rs_prev_send_counter := rs_send_counter st, rs_send_counter := 0, rs_recv_counter := 0,
                   rs_receiving_ratchet_key := Some new_peer_ratchet_key\<rparr>;
          dh_recv = dh P (rs_sending_ratchet_private st1) new_peer_ratchet_key
      in case kdf_rk P (rs_root_key st1) dh_recv of
           Inl e \<Rightarrow> (st1, Inl e)
         | Inr (root_key, receiving_chain_key) \<Rightarrow>
             let st2 = st1\<lparr>rs_root_key := root_key, rs_receiving_chain_key := Some receiving_chain_key,
                           rs_sending_ratchet_private := rnd, rs_sending_ratchet_public := pub_of P rnd\<rparr>;
                 dh_send = dh P (rs_sending_ratchet_private st2) new_peer_ratchet_key
             in case kdf_rk P (rs_root_key st2) dh_send of
                  Inl e \<Rightarrow> (st2, Inl e)
                | Inr (root_key, sending_chain_key) \<Rightarrow>
                    (st2\<lparr>rs_root_key := root_key, rs_sending_chain_key := sending_chain_key\<rparr>, Inr ()))"

definition need_dh_ratchet :: "RatchetState \<Rightarrow> MessageHeader \<Rightarrow> bool" where
  "need_dh_ratchet st header =
     (case rs_receiving_ratchet_key st of
        None \<Rightarrow> True
      | Some current \<Rightarrow> current \<noteq> mh_ratchet_public_key header)"

text \<open>The step of \<open>decrypt\<close> taken for a new ratchet key: skip, then ratchet.\<close>

definition decrypt_ratchet ::
  "prims \<Rightarrow> bytes \<Rightarrow> RatchetState \<Rightarrow> MessageHeader \<Rightarrow> RatchetState \<times> unit core_result" where
  "decrypt_ratchet P rnd st header =
     (if need_dh_ratchet st header then
        (case (if rs_receiving_chain_key st \<noteq> None
               then skip_message_keys P st (mh_prev_chain_length header) else (st, Inr ())) of
           (st1, Inl e) \<Rightarrow> (st1, Inl e)
         | (st1, Inr _) \<Rightarrow> dh_ratchet_step P rnd st1 (mh_ratchet_public_key header))
      else (st, Inr ()))"

definition ratchet_decrypt ::
  "prims \<Rightarrow> bytes \<Rightarrow> RatchetState \<Rightarrow> MessageHeader \<Rightarrow> bytes \<Rightarrow> RatchetState \<times> bytes core_result" where
  "ratchet_decrypt P rnd st header ciphertext =
     (let ad = MessageHeader_serialize header;
          slot = (mh_ratchet_public_key header, mh_message_number header)
      in case hm_get (rs_skipped_keys st) slot of
           Some message_key \<Rightarrow>
             (st\<lparr>rs_skipped_keys := hm_remove slot (rs_skipped_keys st)\<rparr>,
              decrypt_with_ad P message_key ciphertext ad)
         | None \<Rightarrow>
             (case decrypt_ratchet P rnd st header of
                (st1, Inl e) \<Rightarrow> (st1, Inl e)
              | (st1, Inr _) \<Rightarrow>
                  (case skip_message_keys P st1 (mh_message_number header) of
                     (st2, Inl e) \<Rightarrow> (st2, Inl e)
                   | (st2, Inr _) \<Rightarrow>
                       (case rs_receiving_chain_key st2 of
                          None \<Rightarrow> (st2, Inl (Crypto ''No receiving chain key''))
                        | Some receiving_chain \<Rightarrow>
                            (case kdf_ck P receiving_chain of
                               Inl e \<Rightarrow> (st2, Inl e)
                             | Inr (new_chain_key, message_key) \<Rightarrow>
                                 (st2\<lparr>rs_receiving_chain_key := Some new_chain_key,
                                      rs_recv_counter := rs_recv_counter st2 + 1\<rparr>,
                                  decrypt_with_ad P message_key ciphertext ad))))))"

section \<open>Persistent layout\<close>

definition skipped_entry_bytes :: "(bytes \<times> u32) \<times> bytes \<Rightarrow> bytes" where
  "skipped_entry_bytes e = (case e of ((rk, msg_num), key) \<Rightarrow> rk @ u32_to_le_bytes msg_num @ key)"

definition option_bytes :: "bytes option \<Rightarrow> bytes" where
  "option_bytes x = (case x of Some b \<Rightarrow> 1 # b | None \<Rightarrow> [0])"

definition RatchetState_serialize :: "RatchetState \<Rightarrow> bytes" where
  "RatchetState_serialize st =
     rs_root_key st @ rs_sending_chain_key st @ option_bytes (rs_receiving_chain_key st) @
     rs_sending_ratchet_private st @ rs_sending_ratchet_public st @
     option_bytes (rs_receiving_ratchet_key st) @
     u32_to_le_bytes (rs_send_counter st) @ u32_to_le_bytes (rs_recv_counter st) @
     u32_to_le_bytes (rs_prev_send_counter st) @
     u32_to_le_bytes (of_nat (length (rs_skipped_keys st))) @
     concat (map skipped_entry_bytes (rs_skipped_keys st))"

text \<open>
  The readers advance a position into the data; here they return the rest of the data
  after the position.
\<close>

definition eof :: CoreError where
  "eof = Crypto ''RatchetState deserialize: unexpected EOF''"

definition read_32 :: "bytes \<Rightarrow> (bytes \<times> bytes) core_result" where
  "read_32 data = (if length data < 32 then Inl eof else Inr (take 32 data, drop 32 data))"

definition read_u32 :: "bytes \<Rightarrow> (u32 \<times> bytes) core_result" where
  "read_u32 data =
     (if length data < 4 then Inl eof
      else bind_r (try_u32 ''Bad u32'' (take 4 data)) (\<lambda>v. Inr (v, drop 4 data)))"

definition read_u8 :: "bytes \<Rightarrow> (byte \<times> bytes) core_result" where
  "read_u8 data = (case data of [] \<Rightarrow> Inl eof | b # rest \<Rightarrow> Inr (b, rest))"

definition read_option :: "bytes \<Rightarrow> (bytes option \<times> bytes) core_result" where
  "read_option data =
     bind_r (read_u8 data) (\<lambda>(flag, data).
       if flag = 1 then bind_r (read_32 data) (\<lambda>(b, data). Inr (Some b, data)) else Inr (None, data))"

fun read_skipped ::
  "nat \<Rightarrow> bytes \<Rightarrow> (bytes \<times> u32, bytes) hmap \<Rightarrow> (bytes \<times> u32, bytes) hmap core_result" where
  "read_skipped 0 data m = Inr m"
| "read_skipped (Suc n) data m =
     bind_r (read_32 data) (\<lambda>(rk, data).
     bind_r (read_u32 data) (\<lambda>(msg_num, data).
     bind_r (read_32 data) (\<lambda>(key, data).
     read_skipped n data (hm_insert (rk, msg_num) key m))))"

definition RatchetState_deserialize :: "bytes \<Rightarrow> RatchetState core_result" where
  "RatchetState_deserialize data =
     bind_r (read_32 data) (\<lambda>(root_key, data).
     bind_r (read_32 data) (\<lambda>(sending_chain_key, data).
     bind_r (read_option data) (\<lambda>(receiving_chain_key, data).
     bind_r (read_32 data) (\<lambda>(priv_bytes, data).
     bind_r (read_32 data) (\<lambda>(pub_bytes, data).
     bind_r (read_option data) (\<lambda>(receiving_ratchet_key, data).
     bind_r (read_u32 data) (\<lambda>(send_counter, data).
     bind_r (read_u32 data) (\<lambda>(recv_counter, data).
     bind_r (read_u32 data) (\<lambda>(prev_send_counter, data).
     bind_r (read_u32 data) (\<lambda>(num_skipped, data).
     if MAX_SKIP < num_skipped
     then Inl (Crypto ''RatchetState deserialize: too many skipped keys'')
     else bind_r (read_skipped (unat num_skipped) data []) (\<lambda>skipped_keys.
     Inr \<lparr>rs_root_key = root_key, rs_sending_chain_key = sending_chain_key,
          rs_receiving_chain_key = receiving_chain_key, rs_sending_ratchet_private = priv_bytes,
          rs_sending_ratchet_public = pub_bytes, rs_receiving_ratchet_key = receiving_ratchet_key,
          rs_send_counter = send_counter, rs_recv_counter = recv_counter,
          rs_prev_send_counter = prev_send_counter, rs_skipped_keys = skipped_keys\<rparr>)))))))))))"

section \<open>Headers and states survive their byte layout\<close>

lemma header_prefix_roundtrip:
  "header_wf h \<Longrightarrow> MessageHeader_deserialize (MessageHeader_serialize h @ rest) = Inr h"
  by (simp add: MessageHeader_deserialize_def MessageHeader_serialize_def header_wf_def byte_slice_def
      try_u32_def)

interpretation header_codec: prefix_codec header_wf MessageHeader_serialize MessageHeader_deserialize
  by unfold_locales (rule header_prefix_roundtrip)

lemma length_MessageHeader_serialize [len_simps]:
  "length (MessageHeader_serialize h) = length (mh_ratchet_public_key h) + 8"
  by (simp add: MessageHeader_serialize_def)

lemma header_deserialize_ok_iff: "is_ok (MessageHeader_deserialize data) \<longleftrightarrow> 40 \<le> length data"
proof (cases "40 \<le> length data")
  case True
  obtain x y where "u32_from_le_bytes (byte_slice 32 36 data) = Some x"
    "u32_from_le_bytes (byte_slice 36 40 data) = Some y"
    using True u32_from_le_bytes_defined [of "byte_slice 32 36 data"]
      u32_from_le_bytes_defined [of "byte_slice 36 40 data"] by auto
  then show ?thesis using True by (simp add: MessageHeader_deserialize_def try_u32_def Let_def)
qed (simp add: MessageHeader_deserialize_def)

lemma header_deserialize_wf: "MessageHeader_deserialize data = Inr h \<Longrightarrow> header_wf h"
  by (auto simp: MessageHeader_deserialize_def header_wf_def Let_def bind_r_eq_Inr split: if_splits)

definition entry_wf :: "(bytes \<times> u32) \<times> bytes \<Rightarrow> bool" where
  "entry_wf e = (case e of ((rk, _), key) \<Rightarrow> length rk = 32 \<and> length key = 32)"

definition key_option_wf :: "bytes option \<Rightarrow> bool" where
  "key_option_wf x = (case x of Some b \<Rightarrow> length b = 32 | None \<Rightarrow> True)"

text \<open>The shape the Rust types give a state: 32-byte arrays and a map without duplicate keys.\<close>

definition ratchet_wf :: "RatchetState \<Rightarrow> bool" where
  "ratchet_wf st \<longleftrightarrow>
     length (rs_root_key st) = 32 \<and> length (rs_sending_chain_key st) = 32 \<and>
     key_option_wf (rs_receiving_chain_key st) \<and> length (rs_sending_ratchet_private st) = 32 \<and>
     length (rs_sending_ratchet_public st) = 32 \<and> key_option_wf (rs_receiving_ratchet_key st) \<and>
     hm_wf (rs_skipped_keys st) \<and> list_all entry_wf (rs_skipped_keys st)"

lemma read_32_append [simp]: "length b = 32 \<Longrightarrow> read_32 (b @ rest) = Inr (b, rest)"
  by (simp add: read_32_def)

lemma read_u32_append [simp]: "read_u32 (u32_to_le_bytes x @ rest) = Inr (x, rest)"
  by (simp add: read_u32_def try_u32_def)

lemma read_option_append [simp]: "key_option_wf x \<Longrightarrow> read_option (option_bytes x @ rest) = Inr (x, rest)"
  by (cases x) (simp_all add: read_option_def read_u8_def option_bytes_def key_option_wf_def)

lemma skipped_entry_bytes_simp: "skipped_entry_bytes ((rk, n), key) = rk @ u32_to_le_bytes n @ key"
  by (simp add: skipped_entry_bytes_def)

lemma hm_insert_new: "k \<notin> set (map fst m) \<Longrightarrow> hm_insert k v m = m @ [(k, v)]"
  unfolding hm_insert_def by (induction m) auto

lemma read_skipped_entries:
  "list_all entry_wf es \<Longrightarrow> distinct (map fst (m @ es)) \<Longrightarrow>
   read_skipped (length es) (concat (map skipped_entry_bytes es) @ rest) m = Inr (m @ es)"
proof (induction es arbitrary: m)
  case (Cons e es)
  obtain rk n key where e: "e = ((rk, n), key)" by (metis prod.exhaust)
  have len: "length rk = 32" "length key = 32" using Cons.prems(1) by (simp_all add: e entry_wf_def)
  have new: "hm_insert (rk, n) key m = m @ [e]"
    using Cons.prems(2) by (intro hm_insert_new [THEN trans]) (auto simp: e)
  have "read_skipped (length es) (concat (map skipped_entry_bytes es) @ rest) (m @ [e]) = Inr (m @ (e # es))"
    using Cons.IH [of "m @ [e]"] Cons.prems by simp
  then show ?case using len new by (simp add: e skipped_entry_bytes_simp)
qed simp

lemma unat_of_nat_small: "n < 2 ^ 32 \<Longrightarrow> unat (of_nat n :: u32) = n"
  by (simp add: unsigned_of_nat take_bit_eq_mod)

lemma ratchet_prefix_roundtrip:
  assumes wf: "ratchet_wf st" and few: "length (rs_skipped_keys st) \<le> 1000"
  shows "RatchetState_deserialize (RatchetState_serialize st @ rest) = Inr st"
proof -
  have n: "unat (of_nat (length (rs_skipped_keys st)) :: u32) = length (rs_skipped_keys st)"
    using few by (intro unat_of_nat_small) simp
  then have "\<not> MAX_SKIP < of_nat (length (rs_skipped_keys st))"
    using few by (simp add: word_less_nat_alt)
  moreover have "read_skipped (length (rs_skipped_keys st))
      (concat (map skipped_entry_bytes (rs_skipped_keys st)) @ rest) [] = Inr (rs_skipped_keys st)"
    using read_skipped_entries [of "rs_skipped_keys st" "[]"] wf by (simp add: ratchet_wf_def hm_wf_def)
  ultimately show ?thesis
    using wf n by (simp add: RatchetState_deserialize_def RatchetState_serialize_def ratchet_wf_def)
qed

text \<open>More than \<open>MAX_SKIP\<close> stored keys: the layout is written but refused on reading.\<close>

lemma ratchet_deserialize_overfull:
  assumes wf: "ratchet_wf st" and many: "1000 < length (rs_skipped_keys st)"
    and fits: "length (rs_skipped_keys st) < 2 ^ 32"
  shows "RatchetState_deserialize (RatchetState_serialize st @ rest) =
    Inl (Crypto ''RatchetState deserialize: too many skipped keys'')"
proof -
  have "MAX_SKIP < of_nat (length (rs_skipped_keys st))"
    using many fits by (simp add: word_less_nat_alt unat_of_nat_small)
  then show ?thesis
    using wf by (simp add: RatchetState_deserialize_def RatchetState_serialize_def ratchet_wf_def)
qed

interpretation ratchet_codec:
  prefix_codec "\<lambda>st. ratchet_wf st \<and> length (rs_skipped_keys st) \<le> 1000"
    RatchetState_serialize RatchetState_deserialize
  by unfold_locales (simp add: ratchet_prefix_roundtrip)

section \<open>What the skipping loop does\<close>

text \<open>The chain from a key \<open>c\<close>: its \<open>n\<close>-th key and the message key taken from it.\<close>

definition next_ck :: "prims \<Rightarrow> bytes \<Rightarrow> bytes" where
  "next_ck P c = (case kdf_ck P c of Inl _ \<Rightarrow> [] | Inr (c', _) \<Rightarrow> c')"

definition ck_at :: "prims \<Rightarrow> bytes \<Rightarrow> nat \<Rightarrow> bytes" where
  "ck_at P c n = (next_ck P ^^ n) c"

definition mk_at :: "prims \<Rightarrow> bytes \<Rightarrow> nat \<Rightarrow> bytes" where
  "mk_at P c n = (case kdf_ck P (ck_at P c n) of Inl _ \<Rightarrow> [] | Inr (_, mk) \<Rightarrow> mk)"

lemma ck_at_0 [simp]: "ck_at P c 0 = c"
  by (simp add: ck_at_def)

lemma kdf_ck_total:
  assumes "hkdf_total P"
  obtains ck mk where "kdf_ck P c = Inr (ck, mk)" "length ck = 32" "length mk = 32"
proof -
  obtain m where "hkdf P c [MESSAGE_KEY_SEED] ''EchoMessageKey'' 32 = Inr m" "length m = 32"
    by (rule hkdf_totalE [OF assms, of 32]) auto
  moreover obtain k where "hkdf P c [CHAIN_KEY_SEED] ''EchoChainKey'' 32 = Inr k" "length k = 32"
    by (rule hkdf_totalE [OF assms, of 32]) auto
  ultimately show thesis by (intro that [of k m]) (simp_all add: kdf_ck_def)
qed

lemma kdf_rk_total:
  assumes "hkdf_total P"
  obtains rk ck where "kdf_rk P r d = Inr (rk, ck)" "length rk = 32" "length ck = 32"
proof -
  obtain okm where "hkdf P r d RATCHET_KDF_INFO 64 = Inr okm" "length okm = 64"
    by (rule hkdf_totalE [OF assms, of 64]) auto
  then show thesis
    by (intro that [of "byte_slice 0 32 okm" "byte_slice 32 64 okm"]) (simp_all add: kdf_rk_def)
qed

lemma kdf_ck_at:
  assumes "hkdf_total P"
  shows "kdf_ck P (ck_at P c n) = Inr (ck_at P c (Suc n), mk_at P c n)" "length (mk_at P c n) = 32"
proof -
  obtain ck mk where "kdf_ck P (ck_at P c n) = Inr (ck, mk)" "length ck = 32" "length mk = 32"
    by (rule kdf_ck_total [OF assms])
  then show "kdf_ck P (ck_at P c n) = Inr (ck_at P c (Suc n), mk_at P c n)" "length (mk_at P c n) = 32"
    by (simp_all add: mk_at_def ck_at_def next_ck_def)
qed

lemma length_ck_at: "hkdf_total P \<Longrightarrow> length c = 32 \<Longrightarrow> length (ck_at P c n) = 32"
proof (induction n)
  case (Suc n)
  obtain ck mk where "kdf_ck P (ck_at P c n) = Inr (ck, mk)" "length ck = 32"
    by (rule kdf_ck_total [OF Suc.prems(1)])
  then show ?case using kdf_ck_at(1) [OF Suc.prems(1), of c n] by simp
qed simp

text \<open>One unfolding, for the three ways the loop can go.\<close>

lemma skip_loop_stop:
  "\<not> rs_recv_counter st < until \<or> rs_receiving_chain_key st = None \<Longrightarrow> skip_loop P until st = (st, Inr ())"
  by (subst skip_loop.simps) (auto split: option.split)

text \<open>One round of the loop: the derived message key is stored and the chain advances.\<close>

definition skip_store :: "RatchetState \<Rightarrow> bytes \<Rightarrow> bytes \<Rightarrow> RatchetState" where
  "skip_store st new_ck mk =
     st\<lparr>rs_skipped_keys :=
          hm_insert (case rs_receiving_ratchet_key st of Some k \<Rightarrow> k | None \<Rightarrow> replicate 32 0,
                     rs_recv_counter st) mk (rs_skipped_keys st),
        rs_receiving_chain_key := Some new_ck,
        rs_recv_counter := rs_recv_counter st + 1\<rparr>"

lemma skip_loop_step:
  assumes "rs_receiving_chain_key st = Some c" "rs_recv_counter st < until"
    "length (rs_skipped_keys st) < MAX_SKIPPED_KEYS" "kdf_ck P c = Inr (ck, mk)"
  shows "skip_loop P until st = skip_loop P until (skip_store st ck mk)"
  using assms by (subst skip_loop.simps) (simp add: skip_store_def)

lemma skip_loop_halt:
  assumes "\<nexists>c ck mk. rs_receiving_chain_key st = Some c \<and> rs_recv_counter st < until \<and>
    length (rs_skipped_keys st) < MAX_SKIPPED_KEYS \<and> kdf_ck P c = Inr (ck, mk)"
  shows "fst (skip_loop P until st) = st"
  using assms by (subst skip_loop.simps) (auto split: option.split sum.split)

text \<open>The proof rule for the loop: what every round keeps holds of the final state.\<close>

lemma skip_loop_invariant:
  assumes "I st"
    and step: "\<And>st c ck mk. \<lbrakk>I st; rs_receiving_chain_key st = Some c; rs_recv_counter st < until;
      length (rs_skipped_keys st) < MAX_SKIPPED_KEYS; kdf_ck P c = Inr (ck, mk)\<rbrakk> \<Longrightarrow> I (skip_store st ck mk)"
  shows "I (fst (skip_loop P until st))"
  using assms(1)
proof (induction "unat until - unat (rs_recv_counter st)" arbitrary: st rule: less_induct)
  case less
  show ?case
  proof (cases "\<exists>c ck mk. rs_receiving_chain_key st = Some c \<and> rs_recv_counter st < until \<and>
      length (rs_skipped_keys st) < MAX_SKIPPED_KEYS \<and> kdf_ck P c = Inr (ck, mk)")
    case True
    then obtain c ck mk where c: "rs_receiving_chain_key st = Some c" "rs_recv_counter st < until"
      "length (rs_skipped_keys st) < MAX_SKIPPED_KEYS" "kdf_ck P c = Inr (ck, mk)" by blast
    have "unat until - unat (rs_recv_counter (skip_store st ck mk)) < unat until - unat (rs_recv_counter st)"
      using c(2) by (simp add: skip_store_def unat_Suc_u32 word_less_nat_alt)
    from less.hyps [OF this] step [OF less.prems c] show ?thesis
      by (simp add: skip_loop_step [OF c])
  next
    case False
    then show ?thesis using skip_loop_halt less.prems by metis
  qed
qed

text \<open>
  The loop touches the skipped keys, the receiving chain key and the receive counter only.
\<close>

definition skip_frame :: "RatchetState \<Rightarrow> RatchetState \<Rightarrow> bool" where
  "skip_frame st st' \<longleftrightarrow>
     st' = st\<lparr>rs_skipped_keys := rs_skipped_keys st', rs_receiving_chain_key := rs_receiving_chain_key st',
              rs_recv_counter := rs_recv_counter st'\<rparr>"

lemma skip_frame_refl [simp]: "skip_frame st st"
  by (simp add: skip_frame_def)

lemma skip_frame_fields:
  assumes "skip_frame st st'"
  shows "rs_root_key st' = rs_root_key st" "rs_sending_chain_key st' = rs_sending_chain_key st"
    "rs_sending_ratchet_private st' = rs_sending_ratchet_private st"
    "rs_sending_ratchet_public st' = rs_sending_ratchet_public st"
    "rs_receiving_ratchet_key st' = rs_receiving_ratchet_key st"
    "rs_send_counter st' = rs_send_counter st" "rs_prev_send_counter st' = rs_prev_send_counter st"
  using assms by (cases st; cases st'; simp add: skip_frame_def)+

lemma skip_loop_frame: "skip_frame st (fst (skip_loop P until st))"
proof (rule skip_loop_invariant)
  fix x c ck mk
  assume "skip_frame st x"
  then show "skip_frame st (skip_store x ck mk)"
    by (cases st; cases x) (simp add: skip_frame_def skip_store_def)
qed simp

text \<open>It never fills the map past \<open>MAX_SKIPPED_KEYS\<close>, nor by more than the distance to the target.\<close>

lemma skip_loop_bounded:
  "length (rs_skipped_keys st) \<le> MAX_SKIPPED_KEYS \<Longrightarrow>
   length (rs_skipped_keys (fst (skip_loop P until st))) \<le> MAX_SKIPPED_KEYS"
  by (rule skip_loop_invariant) (auto simp: skip_store_def hm.size_put)

lemma skip_loop_growth:
  "length (rs_skipped_keys (fst (skip_loop P until st))) + (unat until - unat (rs_recv_counter (fst (skip_loop P until st))))
     \<le> length (rs_skipped_keys st) + (unat until - unat (rs_recv_counter st))"
proof (rule skip_loop_invariant)
  fix x :: RatchetState and c ck mk
  assume IH: "length (rs_skipped_keys x) + (unat until - unat (rs_recv_counter x))
      \<le> length (rs_skipped_keys st) + (unat until - unat (rs_recv_counter st))"
    and lt: "rs_recv_counter x < until"
  have "length (rs_skipped_keys (skip_store x ck mk)) \<le> Suc (length (rs_skipped_keys x))"
    by (simp add: skip_store_def hm.size_put_le)
  moreover have "unat (rs_recv_counter (skip_store x ck mk)) = Suc (unat (rs_recv_counter x))"
    using lt by (simp add: skip_store_def unat_Suc_u32)
  ultimately show "length (rs_skipped_keys (skip_store x ck mk)) +
      (unat until - unat (rs_recv_counter (skip_store x ck mk)))
      \<le> length (rs_skipped_keys st) + (unat until - unat (rs_recv_counter st))"
    using IH lt by (simp add: word_less_nat_alt)
qed simp

lemma skip_message_keys_frame: "skip_frame st (fst (skip_message_keys P st until))"
  by (simp add: skip_message_keys_def skip_loop_frame)

lemma skip_message_keys_bounded:
  "length (rs_skipped_keys st) \<le> MAX_SKIPPED_KEYS \<Longrightarrow>
   length (rs_skipped_keys (fst (skip_message_keys P st until))) \<le> MAX_SKIPPED_KEYS"
  by (simp add: skip_message_keys_def skip_loop_bounded)

lemma skip_limit_iff:
  "saturating_add_u32 n MAX_SKIP < until \<longleftrightarrow> unat n + 1000 < unat until"
  using unsigned_less [of until, where 'a = nat]
  by (auto simp: word_less_nat_alt unat_saturating_add min_def)

lemma skip_message_keys_near:
  "unat until \<le> unat (rs_recv_counter st) + 1000 \<Longrightarrow> skip_message_keys P st until = skip_loop P until st"
  by (simp add: skip_message_keys_def skip_limit_iff)

lemma skip_message_keys_far:
  "unat (rs_recv_counter st) + 1000 < unat until \<Longrightarrow>
   fst (skip_message_keys P st until) = st \<and> \<not> is_ok (snd (skip_message_keys P st until))"
  by (simp add: skip_message_keys_def skip_limit_iff)

lemma skip_message_keys_growth:
  "length (rs_skipped_keys (fst (skip_message_keys P st until))) \<le> length (rs_skipped_keys st) + 1000"
proof (cases "unat until \<le> unat (rs_recv_counter st) + 1000")
  case True
  then show ?thesis
    using skip_loop_growth [where P = P and until = until and st = st]
    by (simp add: skip_message_keys_near)
qed (simp add: skip_message_keys_far)

section \<open>The bound on stored keys\<close>

lemma dh_ratchet_step_skipped [simp]:
  "rs_skipped_keys (fst (dh_ratchet_step P rnd st pk)) = rs_skipped_keys st"
  by (simp add: dh_ratchet_step_def Let_def split: sum.split prod.split)

lemma ratchet_encrypt_skipped [simp]:
  "rs_skipped_keys (fst (ratchet_encrypt P nonce st pt)) = rs_skipped_keys st"
  by (simp add: ratchet_encrypt_def Let_def split: sum.split prod.split)

lemma decrypt_ratchet_bounded:
  assumes "length (rs_skipped_keys st) \<le> MAX_SKIPPED_KEYS"
  shows "length (rs_skipped_keys (fst (decrypt_ratchet P rnd st h))) \<le> MAX_SKIPPED_KEYS"
  using assms skip_message_keys_bounded [OF assms, of P "mh_prev_chain_length h"]
  unfolding decrypt_ratchet_def
  by (cases "skip_message_keys P st (mh_prev_chain_length h)") (auto split: sum.split)

lemma ratchet_decrypt_bounded:
  assumes b: "length (rs_skipped_keys st) \<le> MAX_SKIPPED_KEYS"
  shows "length (rs_skipped_keys (fst (ratchet_decrypt P rnd st h ct))) \<le> MAX_SKIPPED_KEYS"
proof -
  obtain st1 r1 where d: "decrypt_ratchet P rnd st h = (st1, r1)" by fastforce
  obtain st2 r2 where k: "skip_message_keys P st1 (mh_message_number h) = (st2, r2)" by fastforce
  have 1: "length (rs_skipped_keys st1) \<le> MAX_SKIPPED_KEYS"
    using decrypt_ratchet_bounded [OF b, of P rnd h] d by simp
  have 2: "length (rs_skipped_keys st2) \<le> MAX_SKIPPED_KEYS"
    using skip_message_keys_bounded [OF 1, of P "mh_message_number h"] k by simp
  have 3: "length (hm_remove slot (rs_skipped_keys st)) \<le> MAX_SKIPPED_KEYS" for slot
    by (rule order_trans [OF hm.size_del_le b])
  show ?thesis
    unfolding ratchet_decrypt_def Let_def d using 1 2 3 by (simp add: k split: option.split sum.split prod.split)
qed

section \<open>Every operation keeps the shape of the state\<close>

lemma entry_wf_insert:
  "list_all entry_wf m \<Longrightarrow> length rk = 32 \<Longrightarrow> length key = 32 \<Longrightarrow> list_all entry_wf (hm_insert (rk, n) key m)"
  unfolding hm_insert_def by (induction m) (auto simp: entry_wf_def)

lemma entry_wf_remove: "list_all entry_wf m \<Longrightarrow> list_all entry_wf (hm_remove k m)"
  unfolding hm_remove_def by (induction m) auto

lemma skip_loop_wf:
  assumes "hkdf_total P" and "ratchet_wf st"
  shows "ratchet_wf (fst (skip_loop P until st))"
  using assms(2)
proof (rule skip_loop_invariant)
  fix x c ck mk
  assume wf: "ratchet_wf x" and k: "kdf_ck P c = Inr (ck, mk)"
  obtain "length ck = 32" "length mk = 32" using kdf_ck_total [OF assms(1), of c] k by auto
  then show "ratchet_wf (skip_store x ck mk)"
    using wf by (auto simp: ratchet_wf_def skip_store_def key_option_wf_def hm.wf_put
        intro!: entry_wf_insert split: option.split)
qed

lemma skip_message_keys_wf:
  "hkdf_total P \<Longrightarrow> ratchet_wf st \<Longrightarrow> ratchet_wf (fst (skip_message_keys P st until))"
  by (simp add: skip_message_keys_def skip_loop_wf)

lemma dh_ratchet_step_wf:
  assumes "hkdf_total P" "dh_agrees P" "length rnd = 32" "length pk = 32" "ratchet_wf st"
  shows "ratchet_wf (fst (dh_ratchet_step P rnd st pk))"
proof -
  have pub: "length (pub_of P rnd) = 32" using dh_agreesD(1) [OF assms(2,3,3)] .
  obtain r1 c1 where 1: "kdf_rk P (rs_root_key st) (dh P (rs_sending_ratchet_private st) pk) = Inr (r1, c1)"
    "length r1 = 32" "length c1 = 32" by (rule kdf_rk_total [OF assms(1)])
  obtain r2 c2 where 2: "kdf_rk P r1 (dh P rnd pk) = Inr (r2, c2)" "length r2 = 32" "length c2 = 32"
    by (rule kdf_rk_total [OF assms(1)])
  show ?thesis
    using assms(3-5) 1 2 pub by (simp add: dh_ratchet_step_def ratchet_wf_def key_option_wf_def)
qed

lemma ratchet_encrypt_wf:
  assumes "hkdf_total P" "ratchet_wf st"
  shows "ratchet_wf (fst (ratchet_encrypt P nonce st pt))"
proof -
  obtain ck mk where "kdf_ck P (rs_sending_chain_key st) = Inr (ck, mk)" "length ck = 32"
    by (rule kdf_ck_total [OF assms(1)])
  then show ?thesis
    using assms(2) by (simp add: ratchet_encrypt_def Let_def ratchet_wf_def split: sum.split)
qed

lemma decrypt_ratchet_wf:
  assumes "hkdf_total P" "dh_agrees P" "length rnd = 32" "header_wf h" "ratchet_wf st"
  shows "ratchet_wf (fst (decrypt_ratchet P rnd st h))"
proof -
  obtain st1 r1 where k: "skip_message_keys P st (mh_prev_chain_length h) = (st1, r1)" by fastforce
  have 1: "ratchet_wf st1" using skip_message_keys_wf [OF assms(1,5)] k by (metis fst_conv)
  have "ratchet_wf (fst (dh_ratchet_step P rnd s (mh_ratchet_public_key h)))" if "ratchet_wf s" for s
    using dh_ratchet_step_wf [OF assms(1-3) _ that] assms(4) by (simp add: header_wf_def)
  then show ?thesis
    using 1 assms(5) by (simp add: decrypt_ratchet_def k split: sum.split)
qed

lemma ratchet_decrypt_wf:
  assumes "hkdf_total P" "dh_agrees P" "length rnd = 32" "header_wf h" "ratchet_wf st"
  shows "ratchet_wf (fst (ratchet_decrypt P rnd st h ct))"
proof -
  obtain st1 r1 where d: "decrypt_ratchet P rnd st h = (st1, r1)" by fastforce
  obtain st2 r2 where k: "skip_message_keys P st1 (mh_message_number h) = (st2, r2)" by fastforce
  have 1: "ratchet_wf st1" using decrypt_ratchet_wf [OF assms] d by simp
  have 2: "ratchet_wf st2" using skip_message_keys_wf [OF assms(1) 1] k by (metis fst_conv)
  have 3: "ratchet_wf (st\<lparr>rs_skipped_keys := hm_remove slot (rs_skipped_keys st)\<rparr>)" for slot
    using assms(5) by (simp add: ratchet_wf_def hm.wf_del entry_wf_remove)
  have 4: "ratchet_wf (st2\<lparr>rs_receiving_chain_key := Some ck, rs_recv_counter := n\<rparr>)"
    if "kdf_ck P c = Inr (ck, mk)" for c ck mk n
    using kdf_ck_total [OF assms(1), of c] that 2 by (auto simp: ratchet_wf_def key_option_wf_def)
  show ?thesis
    unfolding ratchet_decrypt_def Let_def d
    using 1 2 3 4 by (simp add: k split: option.split sum.split prod.split)
qed

lemma read_32_length: "read_32 data = Inr (b, rest) \<Longrightarrow> length b = 32"
  by (auto simp: read_32_def split: if_splits)

lemma read_option_wf: "read_option data = Inr (x, rest) \<Longrightarrow> key_option_wf x"
  by (auto simp: read_option_def bind_r_eq_Inr key_option_wf_def dest: read_32_length split: if_splits)

lemma read_skipped_wf:
  "read_skipped n data m = Inr m' \<Longrightarrow> hm_wf m \<and> list_all entry_wf m \<Longrightarrow>
   hm_wf m' \<and> list_all entry_wf m' \<and> length m' \<le> length m + n"
proof (induction n arbitrary: data m)
  case (Suc n)
  from Suc.prems(1) obtain rk d1 num d2 key d where
      r: "read_32 data = Inr (rk, d1)" "read_32 d2 = Inr (key, d)"
    and rest: "read_skipped n d (hm_insert (rk, num) key m) = Inr m'"
    by (auto simp: bind_r_eq_Inr)
  have k: "length rk = 32" "length key = 32" using r by (auto dest: read_32_length)
  have "hm_wf (hm_insert (rk, num) key m) \<and> list_all entry_wf (hm_insert (rk, num) key m)"
    using Suc.prems(2) k by (simp add: hm.wf_put entry_wf_insert)
  from Suc.IH [OF rest this] show ?case
    using hm.size_put_le [of "(rk, num)" key m] by linarith
qed simp

lemma ratchet_deserialize_wf:
  assumes "RatchetState_deserialize data = Inr st"
  shows "ratchet_wf st \<and> length (rs_skipped_keys st) \<le> 1000"
proof -
  from assms obtain n d where n: "\<not> MAX_SKIP < n" and sk: "read_skipped (unat n) d [] = Inr (rs_skipped_keys st)"
    by (auto simp: RatchetState_deserialize_def bind_r_eq_Inr split: if_splits)
  have "length (rs_root_key st) = 32" "length (rs_sending_chain_key st) = 32"
    "key_option_wf (rs_receiving_chain_key st)" "length (rs_sending_ratchet_private st) = 32"
    "length (rs_sending_ratchet_public st) = 32" "key_option_wf (rs_receiving_ratchet_key st)"
    using assms by (auto simp: RatchetState_deserialize_def bind_r_eq_Inr
        dest: read_32_length read_option_wf split: if_splits)
  then show ?thesis
    using read_skipped_wf [OF sk] n by (simp add: ratchet_wf_def word_less_nat_alt)
qed

section \<open>Reachable ratchet states\<close>

text \<open>
  A session's ratchet starts on either side or from stored bytes, and then sends, receives
  (whatever header and ciphertext the network delivers) in any order.
\<close>

inductive ratchet_reachable :: "prims \<Rightarrow> RatchetState \<Rightarrow> bool" for P where
  alice: "length rnd = 32 \<Longrightarrow> length ss = 32 \<Longrightarrow> length pk = 32 \<Longrightarrow>
    init_alice P rnd ss pk = Inr st \<Longrightarrow> ratchet_reachable P st"
| bob: "length ss = 32 \<Longrightarrow> length sk = 32 \<Longrightarrow> init_bob P ss sk = Inr st \<Longrightarrow> ratchet_reachable P st"
| restore: "RatchetState_deserialize data = Inr st \<Longrightarrow> ratchet_reachable P st"
| send: "ratchet_reachable P st \<Longrightarrow> ratchet_reachable P (fst (ratchet_encrypt P nonce st pt))"
| receive: "ratchet_reachable P st \<Longrightarrow> length rnd = 32 \<Longrightarrow> header_wf h \<Longrightarrow>
    ratchet_reachable P (fst (ratchet_decrypt P rnd st h ct))"

lemma init_alice_wf:
  assumes "hkdf_total P" "dh_agrees P" "length rnd = 32" "length pk = 32" "init_alice P rnd ss pk = Inr st"
  shows "ratchet_wf st \<and> rs_skipped_keys st = []"
proof -
  have "length (pub_of P rnd) = 32" using dh_agreesD(1) [OF assms(2,3,3)] .
  moreover obtain rk ck where "kdf_rk P ss (dh P rnd pk) = Inr (rk, ck)" "length rk = 32" "length ck = 32"
    by (rule kdf_rk_total [OF assms(1)])
  ultimately show ?thesis
    using assms(3-5) by (auto simp: init_alice_def ratchet_wf_def key_option_wf_def)
qed

lemma init_bob_wf:
  assumes "dh_agrees P" "length ss = 32" "length sk = 32" "init_bob P ss sk = Inr st"
  shows "ratchet_wf st \<and> rs_skipped_keys st = []"
  using assms dh_agreesD(1) [OF assms(1,3,3)]
  by (auto simp: init_bob_def ratchet_wf_def key_option_wf_def)

lemma ratchet_reachable_inv:
  assumes "hkdf_total P" "dh_agrees P" "ratchet_reachable P st"
  shows "ratchet_wf st \<and> length (rs_skipped_keys st) \<le> MAX_SKIPPED_KEYS"
  using assms(3)
proof (induction rule: ratchet_reachable.induct)
  case (alice rnd ss pk st)
  then show ?case using init_alice_wf [OF assms(1,2)] by (metis le0 list.size(3))
next
  case (bob ss sk st)
  then show ?case using init_bob_wf [OF assms(2)] by (metis le0 list.size(3))
next
  case (restore data st)
  then show ?case using ratchet_deserialize_wf by (fastforce simp: MAX_SKIPPED_KEYS_def)
next
  case (send st nonce pt)
  then show ?case by (simp add: ratchet_encrypt_wf [OF assms(1)])
next
  case (receive st rnd h ct)
  then show ?case by (simp add: ratchet_decrypt_wf [OF assms(1,2)] ratchet_decrypt_bounded)
qed

section \<open>Properties\<close>

text \<open>
  C11: in every state a ratchet can reach, by initialisation, decoding, sending and receiving
  arbitrary messages, all key material has 32 bytes, the skipped keys have distinct slots,
  and there are at most \<open>MAX_SKIPPED_KEYS\<close> of them.
\<close>

theorem ratchet_reachable_bounded:
  assumes "hkdf_total P" "dh_agrees P" "ratchet_reachable P st"
  shows "ratchet_wf st \<and> length (rs_skipped_keys st) \<le> 2000"
  using ratchet_reachable_inv [OF assms] by (simp add: MAX_SKIPPED_KEYS_def)

theorem ratchet_reachable_bounded_witness:
  "\<exists>st. init_bob ref_prims (replicate 32 1) (replicate 32 2) = Inr st \<and>
     (let st' = fst (ratchet_decrypt ref_prims (replicate 32 3) st
        \<lparr>mh_ratchet_public_key = replicate 32 4, mh_prev_chain_length = 0, mh_message_number = 900\<rparr> (replicate 40 0))
      in ratchet_wf st' \<and> length (rs_skipped_keys st') \<le> 2000)"
proof -
  obtain st where b: "init_bob ref_prims (replicate 32 1) (replicate 32 2) = Inr st" by (simp add: init_bob_def)
  then have "ratchet_reachable ref_prims st" by (intro ratchet_reachable.bob) simp_all
  then have "ratchet_reachable ref_prims (fst (ratchet_decrypt ref_prims (replicate 32 3) st
      \<lparr>mh_ratchet_public_key = replicate 32 4, mh_prev_chain_length = 0, mh_message_number = 900\<rparr> (replicate 40 0)))"
    by (intro ratchet_reachable.receive) (simp_all add: header_wf_def)
  then show ?thesis using ratchet_reachable_bounded [OF ref_prims_laws(2,1)] b by (simp add: Let_def)
qed

text \<open>
  one call stores at most 1000 skipped keys per chain. A header of the current chain that
  is more than \<open>MAX_SKIP\<close> ahead of the counter is refused and leaves the state untouched;
  the comparison is right up to the top of the 32-bit range.
\<close>

theorem ratchet_decrypt_far_refused:
  assumes "hm_get (rs_skipped_keys st) (mh_ratchet_public_key h, mh_message_number h) = None"
    and "rs_receiving_ratchet_key st = Some (mh_ratchet_public_key h)"
    and "unat (rs_recv_counter st) + 1000 < unat (mh_message_number h)"
  shows "ratchet_decrypt P rnd st h ct =
    (st, Inl (Crypto (''Too many skipped messages (recv_counter='' @ dec_string (unat (rs_recv_counter st))
      @ '', target='' @ dec_string (unat (mh_message_number h)) @ '')'')))"
  using assms by (simp add: ratchet_decrypt_def decrypt_ratchet_def need_dh_ratchet_def skip_message_keys_def skip_limit_iff)

definition far_state :: RatchetState where
  "far_state = \<lparr>rs_root_key = replicate 32 1, rs_sending_chain_key = replicate 32 2,
     rs_receiving_chain_key = Some (replicate 32 3), rs_sending_ratchet_private = replicate 32 4,
     rs_sending_ratchet_public = replicate 32 4, rs_receiving_ratchet_key = Some (replicate 32 5),
     rs_send_counter = 0, rs_recv_counter = 7, rs_prev_send_counter = 0, rs_skipped_keys = []\<rparr>"

theorem ratchet_decrypt_far_refused_witness:
  "ratchet_decrypt ref_prims (replicate 32 8) far_state
     \<lparr>mh_ratchet_public_key = replicate 32 5, mh_prev_chain_length = 0, mh_message_number = 0xFFFFFFFF\<rparr> [] =
   (far_state, Inl (Crypto (''Too many skipped messages (recv_counter='' @ dec_string 7 @ '', target='' @
      dec_string 4294967295 @ '')'')))"
  by (subst ratchet_decrypt_far_refused) (simp_all add: far_state_def hm_get_def)

text \<open>
  a skipping call on the receiving chain, whether it succeeds or fails, adds at most 1000
  keys and changes nothing but the skipped keys, the receiving chain key and its counter.
\<close>

theorem skip_message_keys_contained:
  "length (rs_skipped_keys (fst (skip_message_keys P st until))) \<le> length (rs_skipped_keys st) + 1000 \<and>
   fst (skip_message_keys P st until) =
     st\<lparr>rs_skipped_keys := rs_skipped_keys (fst (skip_message_keys P st until)),
        rs_receiving_chain_key := rs_receiving_chain_key (fst (skip_message_keys P st until)),
        rs_recv_counter := rs_recv_counter (fst (skip_message_keys P st until))\<rparr>"
  using skip_message_keys_growth [of P st until] skip_message_keys_frame [of st P until]
  by (cases st; cases "fst (skip_message_keys P st until)") (simp add: skip_frame_def)

text \<open>
  the responder may send before it has received anything, and then the message key does
  not depend on the shared secret: it is derived from the all-zero chain key.
\<close>

theorem responder_first_send_ignores_secret:
  "\<exists>B B'. init_bob P ss sk = Inr B \<and> init_bob P ss' sk = Inr B' \<and>
     rs_sending_chain_key B = replicate 32 0 \<and>
     snd (ratchet_encrypt P nonce B pt) = snd (ratchet_encrypt P nonce B' pt)"
  by (simp add: init_bob_def ratchet_encrypt_def Let_def split: sum.split prod.split)

end
