(* ===== verification/Core_Conversation.thy ===== *)
theory Core_Conversation
  imports Core_Ratchet "HOL-Library.Multiset"
begin

text \<open>
  Two ratchets talking to each other. The receiving side is described by how it relates to
  the sender's current chain (\<open>recv_sync\<close>): which message numbers it has consumed and which
  keys it holds for the ones it skipped. From it follow decryption of one message at any
  position, of a whole burst in any order, and of a conversation of any number of turns.
\<close>

section \<open>The loop on a receiver in step with the sender's chain\<close>

lemma skip_loop_runs:
  assumes tot: "hkdf_total P"
    and "rs_receiving_ratchet_key st = Some pub"
    and "rs_receiving_chain_key st = Some (ck_at P c (unat (rs_recv_counter st)))"
    and "rs_recv_counter st \<le> until"
    and "length (rs_skipped_keys st) + (unat until - unat (rs_recv_counter st)) \<le> MAX_SKIPPED_KEYS"
  shows "\<exists>m. skip_loop P until st =
      (st\<lparr>rs_skipped_keys := m, rs_receiving_chain_key := Some (ck_at P c (unat until)),
          rs_recv_counter := until\<rparr>, Inr ())
    \<and> length m \<le> length (rs_skipped_keys st) + (unat until - unat (rs_recv_counter st))
    \<and> (\<forall>k j. hm_get m (k, j) =
         (if k = pub \<and> rs_recv_counter st \<le> j \<and> j < until then Some (mk_at P c (unat j))
          else hm_get (rs_skipped_keys st) (k, j)))"
  using assms(2-)
proof (induction "unat until - unat (rs_recv_counter st)" arbitrary: st)
  case 0
  then have "rs_recv_counter st = until" by (simp add: word_le_nat_alt word_unat_eq_iff)
  then show ?case using 0 by (intro exI [of _ "rs_skipped_keys st"]) (auto simp: skip_loop_stop)
next
  case (Suc d)
  let ?n = "rs_recv_counter st"
  have lt: "?n < until" using Suc.hyps(2) by (simp add: word_less_nat_alt)
  have n1: "unat (?n + 1) = Suc (unat ?n)" using unat_Suc_u32 [OF lt] .
  let ?st = "skip_store st (ck_at P c (Suc (unat ?n))) (mk_at P c (unat ?n))"
  have step: "skip_loop P until st = skip_loop P until ?st"
    using Suc.prems lt Suc.hyps(2) by (intro skip_loop_step) (auto simp: kdf_ck_at [OF tot])
  have sk: "rs_skipped_keys ?st = hm_insert (pub, ?n) (mk_at P c (unat ?n)) (rs_skipped_keys st)"
    using Suc.prems(1) by (simp add: skip_store_def)
  have len: "length (rs_skipped_keys ?st) \<le> Suc (length (rs_skipped_keys st))"
    unfolding sk by (rule hm.size_put_le)
  have cnt: "rs_recv_counter ?st = ?n + 1" by (simp add: skip_store_def)
  have "d = unat until - unat (rs_recv_counter ?st)" using Suc.hyps(2) n1 cnt by simp
  moreover have "rs_receiving_ratchet_key ?st = Some pub" using Suc.prems(1) by (simp add: skip_store_def)
  moreover have "rs_receiving_chain_key ?st = Some (ck_at P c (unat (rs_recv_counter ?st)))"
    using n1 by (simp add: skip_store_def)
  moreover have "rs_recv_counter ?st \<le> until" using lt n1 cnt by (simp add: word_le_nat_alt word_less_nat_alt)
  moreover have "length (rs_skipped_keys ?st) + (unat until - unat (rs_recv_counter ?st)) \<le> MAX_SKIPPED_KEYS"
    using Suc.prems(4) len lt n1 cnt by (simp add: word_less_nat_alt)
  ultimately obtain m where m: "skip_loop P until ?st =
      (?st\<lparr>rs_skipped_keys := m, rs_receiving_chain_key := Some (ck_at P c (unat until)),
          rs_recv_counter := until\<rparr>, Inr ())"
    "length m \<le> length (rs_skipped_keys ?st) + (unat until - unat (rs_recv_counter ?st))"
    "\<And>k j. hm_get m (k, j) =
         (if k = pub \<and> rs_recv_counter ?st \<le> j \<and> j < until then Some (mk_at P c (unat j))
          else hm_get (rs_skipped_keys ?st) (k, j))"
    using Suc.hyps(1) [of ?st] by blast
  have "(?n \<le> j \<and> j < until) = (j = ?n \<or> ?n + 1 \<le> j \<and> j < until)" for j
    using lt n1 by (auto simp: word_le_nat_alt word_less_nat_alt word_unat_eq_iff)
  then have look: "hm_get m (k, j) =
         (if k = pub \<and> ?n \<le> j \<and> j < until then Some (mk_at P c (unat j))
          else hm_get (rs_skipped_keys st) (k, j))" for k j
    using m(3) [of k j] sk by (auto simp: skip_store_def hm.get_put)
  show ?case
    using m(1,2) look len n1 lt Suc.hyps(2)
    by (intro exI [of _ m]) (simp add: step skip_store_def)
qed

section \<open>A receiver in step with a chain\<close>

text \<open>
  \<open>recv_sync P c pub R st\<close>: \<open>st\<close> follows the chain that starts with key \<open>c\<close> and is announced
  under the ratchet key \<open>pub\<close>. Of the numbers below its counter it has consumed those in
  \<open>R\<close> and holds the message key of every other.
\<close>

definition recv_sync :: "prims \<Rightarrow> bytes \<Rightarrow> bytes \<Rightarrow> u32 set \<Rightarrow> RatchetState \<Rightarrow> bool" where
  "recv_sync P c pub R st \<longleftrightarrow>
     rs_receiving_ratchet_key st = Some pub \<and>
     rs_receiving_chain_key st = Some (ck_at P c (unat (rs_recv_counter st))) \<and>
     (\<forall>n\<in>R. n < rs_recv_counter st) \<and>
     (\<forall>j. hm_get (rs_skipped_keys st) (pub, j) =
        (if j < rs_recv_counter st \<and> j \<notin> R then Some (mk_at P c (unat j)) else None))"

text \<open>A ciphertext that opens under the message key of its number on the chain \<open>c\<close>.\<close>

definition chain_message :: "prims \<Rightarrow> bytes \<Rightarrow> MessageHeader \<Rightarrow> bytes \<Rightarrow> bytes \<Rightarrow> bool" where
  "chain_message P c h ct pt \<longleftrightarrow>
     decrypt_with_ad P (mk_at P c (unat (mh_message_number h))) ct (MessageHeader_serialize h) = Inr pt"

text \<open>
  What receiving may change: the keys stored under other ratchet keys stay, and so does
  everything on the sending side.
\<close>

definition recv_frame :: "bytes \<Rightarrow> RatchetState \<Rightarrow> RatchetState \<Rightarrow> bool" where
  "recv_frame pub st st' \<longleftrightarrow>
     skip_frame st st' \<and>
     (\<forall>k j. k \<noteq> pub \<longrightarrow> hm_get (rs_skipped_keys st') (k, j) = hm_get (rs_skipped_keys st) (k, j))"

lemma recv_frame_refl [simp]: "recv_frame pub st st"
  by (simp add: recv_frame_def)

lemma recv_frame_trans: "recv_frame pub a b \<Longrightarrow> recv_frame pub b c \<Longrightarrow> recv_frame pub a c"
  by (cases a; cases b; cases c) (simp add: recv_frame_def skip_frame_def)

lemma recv_stored:
  assumes sync: "recv_sync P c pub R st" and pub: "mh_ratchet_public_key h = pub"
    and old: "mh_message_number h < rs_recv_counter st" "mh_message_number h \<notin> R"
    and msg: "chain_message P c h ct pt"
  shows "\<exists>st'. ratchet_decrypt P rnd st h ct = (st', Inr pt)
    \<and> recv_sync P c pub (insert (mh_message_number h) R) st' \<and> recv_frame pub st st'
    \<and> length (rs_skipped_keys st') \<le> length (rs_skipped_keys st)
    \<and> rs_recv_counter st' = rs_recv_counter st"
proof -
  let ?n = "mh_message_number h"
  let ?st = "st\<lparr>rs_skipped_keys := hm_remove (pub, ?n) (rs_skipped_keys st)\<rparr>"
  have "hm_get (rs_skipped_keys st) (pub, ?n) = Some (mk_at P c (unat ?n))"
    using sync old by (simp add: recv_sync_def)
  then have "ratchet_decrypt P rnd st h ct = (?st, Inr pt)"
    using msg pub by (simp add: ratchet_decrypt_def chain_message_def)
  moreover have "recv_sync P c pub (insert ?n R) ?st"
    using sync old by (auto simp: recv_sync_def hm.get_del)
  moreover have "recv_frame pub st ?st"
    by (simp add: recv_frame_def skip_frame_def hm.get_del)
  moreover have "length (rs_skipped_keys ?st) \<le> length (rs_skipped_keys st)"
    by (simp add: hm.size_del_le)
  ultimately show ?thesis by (intro exI [of _ ?st]) simp
qed

lemma recv_ahead:
  assumes tot: "hkdf_total P" and sync: "recv_sync P c pub R st" and pub: "mh_ratchet_public_key h = pub"
    and new: "rs_recv_counter st \<le> mh_message_number h"
    and near: "unat (mh_message_number h) \<le> unat (rs_recv_counter st) + 1000"
    and room: "length (rs_skipped_keys st) + (unat (mh_message_number h) - unat (rs_recv_counter st)) \<le> MAX_SKIPPED_KEYS"
    and nowrap: "Suc (unat (mh_message_number h)) < 2 ^ 32"
    and msg: "chain_message P c h ct pt"
  shows "\<exists>st'. ratchet_decrypt P rnd st h ct = (st', Inr pt)
    \<and> recv_sync P c pub (insert (mh_message_number h) R) st' \<and> recv_frame pub st st'
    \<and> length (rs_skipped_keys st') \<le> length (rs_skipped_keys st) + (unat (mh_message_number h) - unat (rs_recv_counter st))
    \<and> unat (rs_recv_counter st') = Suc (unat (mh_message_number h))"
proof -
  let ?n = "mh_message_number h"
  have rk: "rs_receiving_ratchet_key st = Some pub"
    and ck: "rs_receiving_chain_key st = Some (ck_at P c (unat (rs_recv_counter st)))"
    using sync by (simp_all add: recv_sync_def)
  obtain m where m: "skip_loop P ?n st =
      (st\<lparr>rs_skipped_keys := m, rs_receiving_chain_key := Some (ck_at P c (unat ?n)), rs_recv_counter := ?n\<rparr>, Inr ())"
    "length m \<le> length (rs_skipped_keys st) + (unat ?n - unat (rs_recv_counter st))"
    "\<And>k j. hm_get m (k, j) = (if k = pub \<and> rs_recv_counter st \<le> j \<and> j < ?n then Some (mk_at P c (unat j))
       else hm_get (rs_skipped_keys st) (k, j))"
    using skip_loop_runs [OF tot rk ck new room] by blast
  let ?st = "st\<lparr>rs_skipped_keys := m, rs_receiving_chain_key := Some (ck_at P c (Suc (unat ?n))),
    rs_recv_counter := ?n + 1\<rparr>"
  have n1: "unat (?n + 1) = Suc (unat ?n)" using nowrap by (simp add: unat_word_ariths)
  have "skip_message_keys P st ?n = skip_loop P ?n st"
    using near by (rule skip_message_keys_near)
  moreover have "hm_get (rs_skipped_keys st) (pub, ?n) = None"
    using sync new by (simp add: recv_sync_def leD)
  moreover have "decrypt_ratchet P rnd st h = (st, Inr ())"
    using rk pub by (simp add: decrypt_ratchet_def need_dh_ratchet_def)
  ultimately have "ratchet_decrypt P rnd st h ct = (?st, Inr pt)"
    using msg pub by (simp add: ratchet_decrypt_def m(1) kdf_ck_at [OF tot] chain_message_def)
  moreover have "recv_sync P c pub (insert ?n R) ?st"
    using sync new n1 m(3)
    by (auto simp: recv_sync_def word_less_nat_alt word_le_nat_alt word_unat_eq_iff less_Suc_eq)
  moreover have "recv_frame pub st ?st"
    using m(3) by (simp add: recv_frame_def skip_frame_def)
  ultimately show ?thesis using m(2) n1 by (intro exI [of _ ?st]) simp
qed

section \<open>A burst of messages, delivered in any order\<close>

text \<open>
  \<open>send_all\<close> encrypts a list of (nonce, plaintext) pairs, \<open>recv_all\<close> decrypts a list of
  (random bytes, header, ciphertext) triples; both collect the result of every call.
\<close>

fun send_all ::
  "prims \<Rightarrow> RatchetState \<Rightarrow> (bytes \<times> bytes) list \<Rightarrow> RatchetState \<times> (bytes \<times> MessageHeader) core_result list" where
  "send_all P st [] = (st, [])"
| "send_all P st ((nonce, pt) # ps) =
     (let (st1, r) = ratchet_encrypt P nonce st pt; (st2, rs) = send_all P st1 ps in (st2, r # rs))"

fun recv_all ::
  "prims \<Rightarrow> RatchetState \<Rightarrow> (bytes \<times> MessageHeader \<times> bytes) list \<Rightarrow> RatchetState \<times> bytes core_result list" where
  "recv_all P st [] = (st, [])"
| "recv_all P st ((rnd, h, ct) # ms) =
     (let (st1, r) = ratchet_decrypt P rnd st h ct; (st2, rs) = recv_all P st1 ms in (st2, r # rs))"

text \<open>The message at position \<open>i\<close> of a burst sent from a state with counter \<open>n\<close>.\<close>

definition burst_message :: "prims \<Rightarrow> bytes \<Rightarrow> RatchetState \<Rightarrow> nat \<Rightarrow> bytes \<Rightarrow> bytes \<times> MessageHeader \<Rightarrow> bool" where
  "burst_message P c st i pt m \<longleftrightarrow>
     mh_ratchet_public_key (snd m) = rs_sending_ratchet_public st \<and>
     mh_prev_chain_length (snd m) = rs_prev_send_counter st \<and>
     mh_message_number (snd m) = rs_send_counter st + of_nat i \<and> chain_message P c (snd m) (fst m) pt"

definition sendable :: "bytes \<times> bytes \<Rightarrow> bool" where
  "sendable p \<longleftrightarrow> length (fst p) = 12 \<and> length (snd p) \<le> 2 ^ 36"

lemma encrypt_step:
  assumes tot: "hkdf_total P" and aead: "aead_correct P" and p: "sendable (nonce, pt)"
    and pub: "length (rs_sending_ratchet_public st) = 32"
    and c: "rs_sending_chain_key st = ck_at P c (unat (rs_send_counter st))"
  shows "\<exists>m. ratchet_encrypt P nonce st pt =
      (st\<lparr>rs_sending_chain_key := ck_at P c (Suc (unat (rs_send_counter st))),
          rs_send_counter := rs_send_counter st + 1\<rparr>, Inr m) \<and> burst_message P c st 0 pt m"
proof -
  let ?h = "\<lparr>mh_ratchet_public_key = rs_sending_ratchet_public st,
    mh_prev_chain_length = rs_prev_send_counter st, mh_message_number = rs_send_counter st\<rparr>"
  let ?mk = "mk_at P c (unat (rs_send_counter st))" and ?ad = "MessageHeader_serialize ?h"
  have "length ?ad \<le> 2 ^ 36" using pub by (simp add: length_MessageHeader_serialize)
  then obtain ct where ct: "aead_enc P ?mk nonce pt ?ad = Inr ct" "length ct = length pt + 16"
    "aead_dec P ?mk nonce ct ?ad = Inr pt"
    using aead_correctE [OF aead kdf_ck_at(2) [OF tot]] p by (metis fst_conv sendable_def snd_conv)
  have "decrypt_with_ad P ?mk (nonce @ ct) ?ad = Inr pt"
    using p ct by (simp add: decrypt_with_ad_def sendable_def)
  then show ?thesis
    using ct(1) by (intro exI [of _ "(nonce @ ct, ?h)"])
      (simp add: ratchet_encrypt_def c kdf_ck_at [OF tot] encrypt_with_ad_def burst_message_def chain_message_def)
qed

lemma send_all_burst:
  assumes tot: "hkdf_total P" and aead: "aead_correct P"
  shows "\<lbrakk>list_all sendable ps; length (rs_sending_ratchet_public st) = 32;
      rs_sending_chain_key st = ck_at P c (unat (rs_send_counter st));
      unat (rs_send_counter st) + length ps < 2 ^ 32\<rbrakk> \<Longrightarrow>
    \<exists>ms. send_all P st ps =
        (st\<lparr>rs_sending_chain_key := ck_at P c (unat (rs_send_counter st) + length ps),
            rs_send_counter := rs_send_counter st + of_nat (length ps)\<rparr>, map Inr ms)
      \<and> length ms = length ps \<and> (\<forall>i < length ps. burst_message P c st i (snd (ps ! i)) (ms ! i))"
proof (induction ps arbitrary: st)
  case Nil
  then show ?case by simp
next
  case (Cons p ps)
  obtain nonce pt where p: "p = (nonce, pt)" by fastforce
  let ?n = "rs_send_counter st"
  let ?st = "st\<lparr>rs_sending_chain_key := ck_at P c (Suc (unat ?n)), rs_send_counter := ?n + 1\<rparr>"
  have n1: "unat (?n + 1) = Suc (unat ?n)" using Cons.prems(4) by (simp add: unat_word_ariths)
  have "sendable (nonce, pt)" using Cons.prems(1) p by simp
  from encrypt_step [OF tot aead this Cons.prems(2,3)] obtain m
    where m: "ratchet_encrypt P nonce st pt = (?st, Inr m)" "burst_message P c st 0 pt m" by blast
  have "list_all sendable ps" "length (rs_sending_ratchet_public ?st) = 32"
    "rs_sending_chain_key ?st = ck_at P c (unat (rs_send_counter ?st))"
    "unat (rs_send_counter ?st) + length ps < 2 ^ 32"
    using Cons.prems n1 by simp_all
  from Cons.IH [OF this] obtain ms where ms: "send_all P ?st ps =
        (?st\<lparr>rs_sending_chain_key := ck_at P c (unat (?n + 1) + length ps),
            rs_send_counter := ?n + 1 + of_nat (length ps)\<rparr>, map Inr ms)"
    "length ms = length ps" "\<And>i. i < length ps \<Longrightarrow> burst_message P c ?st i (snd (ps ! i)) (ms ! i)"
    by auto
  have "burst_message P c st i (snd ((p # ps) ! i)) ((m # ms) ! i)" if "i < Suc (length ps)" for i
    using that m(2) ms(3) [of "i - 1"] p
    by (cases i) (auto simp: burst_message_def add.assoc split: prod.splits)
  then show ?case
    using m(1) ms(1,2) n1 p by (intro exI [of _ "m # ms"]) (simp add: add.assoc)
qed

text \<open>
  A delivery: random bytes, header, ciphertext and the plaintext it stands for. The limit
  \<open>N\<close> bounds the message numbers of the burst.
\<close>

type_synonym delivery = "bytes \<times> MessageHeader \<times> bytes \<times> bytes"

abbreviation dl_number :: "delivery \<Rightarrow> u32" where
  "dl_number d \<equiv> (case d of (_, h, _, _) \<Rightarrow> mh_message_number h)"

abbreviation dl_wire :: "delivery \<Rightarrow> bytes \<times> MessageHeader \<times> bytes" where
  "dl_wire d \<equiv> (case d of (rnd, h, ct, _) \<Rightarrow> (rnd, h, ct))"

abbreviation dl_plain :: "delivery \<Rightarrow> bytes" where
  "dl_plain d \<equiv> (case d of (_, _, _, pt) \<Rightarrow> pt)"

definition on_chain :: "prims \<Rightarrow> bytes \<Rightarrow> bytes \<Rightarrow> nat \<Rightarrow> delivery \<Rightarrow> bool" where
  "on_chain P c pub N d \<longleftrightarrow>
     (case d of (_, h, ct, pt) \<Rightarrow>
        mh_ratchet_public_key h = pub \<and> unat (mh_message_number h) < N \<and> chain_message P c h ct pt)"

lemma recv_one:
  assumes tot: "hkdf_total P" and sync: "recv_sync P c pub R st" and N: "N \<le> 1000"
    and d: "on_chain P c pub N (rnd, h, ct, pt)" and fresh: "mh_message_number h \<notin> R"
    and room: "length (rs_skipped_keys st) + (N - unat (rs_recv_counter st)) \<le> MAX_SKIPPED_KEYS"
    and low: "unat (rs_recv_counter st) \<le> N"
  shows "\<exists>st'. ratchet_decrypt P rnd st h ct = (st', Inr pt)
    \<and> recv_sync P c pub (insert (mh_message_number h) R) st' \<and> recv_frame pub st st'
    \<and> length (rs_skipped_keys st') + (N - unat (rs_recv_counter st')) \<le> MAX_SKIPPED_KEYS
    \<and> unat (rs_recv_counter st') \<le> N"
proof -
  have h: "mh_ratchet_public_key h = pub" "unat (mh_message_number h) < N" "chain_message P c h ct pt"
    using d by (simp_all add: on_chain_def)
  show ?thesis
  proof (cases "mh_message_number h < rs_recv_counter st")
    case True
    from recv_stored [OF sync h(1) True fresh h(3), of rnd] low room show ?thesis by fastforce
  next
    case False
    then have le: "rs_recv_counter st \<le> mh_message_number h" by simp
    have "unat (mh_message_number h) \<le> unat (rs_recv_counter st) + 1000"
      "length (rs_skipped_keys st) + (unat (mh_message_number h) - unat (rs_recv_counter st)) \<le> MAX_SKIPPED_KEYS"
      "Suc (unat (mh_message_number h)) < 2 ^ 32"
      using h(2) N room by simp_all
    from recv_ahead [OF tot sync h(1) le this h(3), of rnd] obtain st' where st':
      "ratchet_decrypt P rnd st h ct = (st', Inr pt)"
      "recv_sync P c pub (insert (mh_message_number h) R) st'" "recv_frame pub st st'"
      "length (rs_skipped_keys st') \<le> length (rs_skipped_keys st) + (unat (mh_message_number h) - unat (rs_recv_counter st))"
      "unat (rs_recv_counter st') = Suc (unat (mh_message_number h))" by blast
    have "length (rs_skipped_keys st') + (N - unat (rs_recv_counter st')) \<le> MAX_SKIPPED_KEYS"
      using st'(4,5) room h(2) le by (simp add: word_le_nat_alt)
    with st' h(2) show ?thesis by auto
  qed
qed

lemma recv_all_burst:
  assumes tot: "hkdf_total P" and N: "N \<le> 1000"
  shows "\<lbrakk>recv_sync P c pub R st; list_all (on_chain P c pub N) ds; distinct (map dl_number ds);
      R \<inter> dl_number ` set ds = {};
      length (rs_skipped_keys st) + (N - unat (rs_recv_counter st)) \<le> MAX_SKIPPED_KEYS;
      unat (rs_recv_counter st) \<le> N\<rbrakk> \<Longrightarrow>
    \<exists>st'. recv_all P st (map dl_wire ds) = (st', map (\<lambda>d. Inr (dl_plain d)) ds)
      \<and> recv_sync P c pub (R \<union> dl_number ` set ds) st' \<and> recv_frame pub st st'
      \<and> unat (rs_recv_counter st') \<le> N"
proof (induction ds arbitrary: R st)
  case Nil
  then show ?case by (intro exI [of _ st]) simp
next
  case (Cons d ds)
  obtain rnd h ct pt where d: "d = (rnd, h, ct, pt)" by (metis prod.exhaust)
  have "on_chain P c pub N (rnd, h, ct, pt)" "mh_message_number h \<notin> R" using Cons.prems d by auto
  from recv_one [OF tot Cons.prems(1) N this Cons.prems(5,6)] obtain st1 where st1:
    "ratchet_decrypt P rnd st h ct = (st1, Inr pt)"
    "recv_sync P c pub (insert (mh_message_number h) R) st1" "recv_frame pub st st1"
    "length (rs_skipped_keys st1) + (N - unat (rs_recv_counter st1)) \<le> MAX_SKIPPED_KEYS"
    "unat (rs_recv_counter st1) \<le> N" by blast
  have "list_all (on_chain P c pub N) ds" "distinct (map dl_number ds)"
    "insert (mh_message_number h) R \<inter> dl_number ` set ds = {}" using Cons.prems d by auto
  from Cons.IH [OF st1(2) this st1(4,5)] obtain st' where st':
    "recv_all P st1 (map dl_wire ds) = (st', map (\<lambda>d. Inr (dl_plain d)) ds)"
    "recv_sync P c pub (insert (mh_message_number h) R \<union> dl_number ` set ds) st'"
    "recv_frame pub st1 st'" "unat (rs_recv_counter st') \<le> N" by blast
  show ?case
    using st1(1) st' recv_frame_trans [OF st1(3) st'(3)] d by (intro exI [of _ st']) simp
qed

section \<open>Turns of a conversation\<close>

text \<open>
  \<open>ready P S L\<close>: the speaker \<open>S\<close> has a fresh sending chain the listener \<open>L\<close> has not seen, the
  listener's next DH ratchet step will derive the same chain, and nothing is outstanding.
\<close>

definition ready :: "prims \<Rightarrow> RatchetState \<Rightarrow> RatchetState \<Rightarrow> bool" where
  "ready P S L \<longleftrightarrow>
     length (rs_sending_ratchet_private S) = 32 \<and>
     rs_sending_ratchet_public S = pub_of P (rs_sending_ratchet_private S) \<and>
     rs_send_counter S = 0 \<and> rs_skipped_keys S = [] \<and> rs_skipped_keys L = [] \<and>
     rs_receiving_ratchet_key S = Some (rs_sending_ratchet_public L) \<and>
     rs_receiving_ratchet_key L \<noteq> Some (rs_sending_ratchet_public S) \<and>
     kdf_rk P (rs_root_key L) (dh P (rs_sending_ratchet_private L) (rs_sending_ratchet_public S)) =
       Inr (rs_root_key S, rs_sending_chain_key S) \<and>
     rs_recv_counter S = rs_send_counter L \<and>
     (rs_receiving_chain_key L \<noteq> None \<longrightarrow> rs_recv_counter L = rs_prev_send_counter S)"

text \<open>The listener after its DH ratchet step.\<close>

definition stepped :: "prims \<Rightarrow> bytes \<Rightarrow> RatchetState \<Rightarrow> RatchetState \<Rightarrow> RatchetState" where
  "stepped P rnd S L = fst (dh_ratchet_step P rnd L (rs_sending_ratchet_public S))"

lemma stepped_eq:
  assumes "hkdf_total P" "ready P S L"
  shows "\<exists>r c. kdf_rk P (rs_root_key S) (dh P rnd (rs_sending_ratchet_public S)) = Inr (r, c) \<and>
    dh_ratchet_step P rnd L (rs_sending_ratchet_public S) = (stepped P rnd S L, Inr ()) \<and>
    stepped P rnd S L = L\<lparr>rs_prev_send_counter := rs_send_counter L, rs_send_counter := 0, rs_recv_counter := 0,
      rs_receiving_ratchet_key := Some (rs_sending_ratchet_public S),
      rs_receiving_chain_key := Some (rs_sending_chain_key S),
      rs_sending_ratchet_private := rnd, rs_sending_ratchet_public := pub_of P rnd,
      rs_root_key := r, rs_sending_chain_key := c\<rparr>"
proof -
  have "kdf_rk P (rs_root_key L) (dh P (rs_sending_ratchet_private L) (rs_sending_ratchet_public S)) =
      Inr (rs_root_key S, rs_sending_chain_key S)" using assms(2) unfolding ready_def by blast
  moreover obtain r c where
      "kdf_rk P (rs_root_key S) (dh P rnd (rs_sending_ratchet_public S)) = Inr (r, c)"
    by (rule kdf_rk_total [OF assms(1)])
  ultimately show ?thesis
    by (rule_tac exI [of _ r], rule_tac exI [of _ c]) (simp add: stepped_def dh_ratchet_step_def)
qed

lemma stepped_sync:
  assumes "hkdf_total P" "ready P S L"
  shows "recv_sync P (rs_sending_chain_key S) (rs_sending_ratchet_public S) {} (stepped P rnd S L)"
proof -
  have "rs_skipped_keys L = []" using assms(2) by (simp add: ready_def)
  then show ?thesis using stepped_eq [OF assms, of rnd] by (auto simp: recv_sync_def hm.get_empty)
qed

text \<open>The first message of a burst makes the listener ratchet, whatever its number.\<close>

lemma decrypt_first:
  assumes tot: "hkdf_total P" and r: "ready P S L"
    and h: "mh_ratchet_public_key h = rs_sending_ratchet_public S"
      "mh_prev_chain_length h = rs_prev_send_counter S"
  shows "ratchet_decrypt P rnd L h ct = ratchet_decrypt P rnd (stepped P rnd S L) h ct"
proof -
  have "skip_message_keys P L (mh_prev_chain_length h) = (L, Inr ())" if "rs_receiving_chain_key L \<noteq> None"
  proof -
    have "rs_recv_counter L = mh_prev_chain_length h" using r h(2) that by (simp add: ready_def)
    then show ?thesis by (simp add: skip_message_keys_near skip_loop_stop)
  qed
  then have "decrypt_ratchet P rnd L h = (stepped P rnd S L, Inr ())"
    using r h stepped_eq [OF tot r, of rnd]
    by (auto simp: decrypt_ratchet_def need_dh_ratchet_def ready_def split: option.split)
  moreover have "decrypt_ratchet P rnd (stepped P rnd S L) h = (stepped P rnd S L, Inr ())"
    using h stepped_eq [OF tot r, of rnd] by (auto simp: decrypt_ratchet_def need_dh_ratchet_def)
  moreover have "rs_skipped_keys (stepped P rnd S L) = []" "rs_skipped_keys L = []"
    using stepped_eq [OF tot r, of rnd] r by (auto simp: ready_def)
  ultimately show ?thesis by (simp add: ratchet_decrypt_def hm.get_empty)
qed

text \<open>
  After a whole burst of \<open>n\<close> messages has arrived, the roles can be swapped: the listener
  is ready to speak, provided the key it drew is new.
\<close>

lemma hm_all_None_empty: "(\<And>k. hm_get m k = None) \<Longrightarrow> m = []"
  by (metis ext hm_get_def map_of_eq_empty_iff)

lemma ready_swap:
  assumes tot: "hkdf_total P" and agr: "dh_agrees P" and r: "ready P S L"
    and rnd: "length rnd = 32" "pub_of P rnd \<noteq> rs_sending_ratchet_public L"
    and n: "0 < n" "n \<le> 1000"
    and sync: "recv_sync P (rs_sending_chain_key S) (rs_sending_ratchet_public S) {j. unat j < n} L'"
    and frame: "recv_frame (rs_sending_ratchet_public S) (stepped P rnd S L) L'"
    and cnt: "unat (rs_recv_counter L') \<le> n"
  shows "ready P L' (S\<lparr>rs_sending_chain_key := c, rs_send_counter := of_nat n\<rparr>)"
proof -
  have R: "length (rs_sending_ratchet_private S) = 32"
      "rs_sending_ratchet_public S = pub_of P (rs_sending_ratchet_private S)"
      "rs_skipped_keys S = []" "rs_skipped_keys L = []"
      "rs_receiving_ratchet_key S = Some (rs_sending_ratchet_public L)" "rs_recv_counter S = rs_send_counter L"
    using r by (auto simp: ready_def)
  obtain r2 c2 where k: "kdf_rk P (rs_root_key S) (dh P rnd (rs_sending_ratchet_public S)) = Inr (r2, c2)"
    and st: "stepped P rnd S L = L\<lparr>rs_prev_send_counter := rs_send_counter L, rs_send_counter := 0, rs_recv_counter := 0,
      rs_receiving_ratchet_key := Some (rs_sending_ratchet_public S),
      rs_receiving_chain_key := Some (rs_sending_chain_key S),
      rs_sending_ratchet_private := rnd, rs_sending_ratchet_public := pub_of P rnd,
      rs_root_key := r2, rs_sending_chain_key := c2\<rparr>"
    using stepped_eq [OF tot r, of rnd] by blast
  have "skip_frame (stepped P rnd S L) L'" using frame by (simp add: recv_frame_def)
  note fields = skip_frame_fields [OF this]
  have F: "rs_root_key L' = r2" "rs_sending_chain_key L' = c2" "rs_sending_ratchet_private L' = rnd"
      "rs_sending_ratchet_public L' = pub_of P rnd" "rs_send_counter L' = 0"
      "rs_prev_send_counter L' = rs_send_counter L"
    by (simp_all add: fields st)
  have "unat (of_nat (n - 1) :: u32) = n - 1" "unat (of_nat n :: u32) = n"
    using n by (auto intro!: unat_of_nat_small simp del: of_nat_diff)
  moreover have "unat j < unat (rs_recv_counter L')" if "unat j < n" for j :: u32
    using sync that by (simp add: recv_sync_def word_less_nat_alt)
  ultimately have "n - 1 < unat (rs_recv_counter L')"
    using n by (metis One_nat_def Suc_pred lessI)
  then have C: "rs_recv_counter L' = of_nat n"
    using cnt n \<open>unat (of_nat n :: u32) = n\<close> by (simp add: word_unat_eq_iff)
  have "hm_get (rs_skipped_keys L') (k, j) = None" for k j
    using sync frame st R(4) C \<open>unat (of_nat n :: u32) = n\<close>
    by (cases "k = rs_sending_ratchet_public S") (simp_all add: recv_sync_def recv_frame_def word_less_nat_alt hm.get_empty)
  then have E: "rs_skipped_keys L' = []" by (intro hm_all_None_empty) (metis prod.exhaust)
  have "dh P (rs_sending_ratchet_private S) (pub_of P rnd) = dh P rnd (rs_sending_ratchet_public S)"
    using dh_agreesD(3) [OF agr R(1) rnd(1)] R(2) by simp
  then show ?thesis
    using R rnd F C E k sync by (auto simp: ready_def recv_sync_def)
qed

text \<open>
  A turn: what the speaker sends (nonces and plaintexts), the order in which the messages
  arrive, and the random bytes each of the listener's calls would draw.
\<close>

record turn =
  tn_says :: "(bytes \<times> bytes) list"
  tn_order :: "nat list"
  tn_rnds :: "bytes list"

definition turn_wf :: "turn \<Rightarrow> bool" where
  "turn_wf t \<longleftrightarrow>
     tn_says t \<noteq> [] \<and> length (tn_says t) \<le> 1000 \<and> list_all sendable (tn_says t) \<and>
     mset (tn_order t) = mset [0..<length (tn_says t)] \<and>
     length (tn_rnds t) = length (tn_says t) \<and> list_all (\<lambda>r. length r = 32) (tn_rnds t)"

definition ok_or :: "'a \<Rightarrow> 'e + 'a \<Rightarrow> 'a" where
  "ok_or d r = (case r of Inr x \<Rightarrow> x | Inl _ \<Rightarrow> d)"

text \<open>The messages of a turn in the order of arrival.\<close>

definition arrivals ::
  "(bytes \<times> MessageHeader) core_result list \<Rightarrow> turn \<Rightarrow> (bytes \<times> MessageHeader \<times> bytes) list" where
  "arrivals sent t =
     map (\<lambda>(i, rnd). case ok_or ([], \<lparr>mh_ratchet_public_key = [], mh_prev_chain_length = 0, mh_message_number = 0\<rparr>)
              (sent ! i) of (ct, h) \<Rightarrow> (rnd, h, ct))
       (zip (tn_order t) (tn_rnds t))"

fun run_turns :: "prims \<Rightarrow> RatchetState \<Rightarrow> RatchetState \<Rightarrow> turn list \<Rightarrow> bytes core_result list list" where
  "run_turns P S L [] = []"
| "run_turns P S L (t # ts) =
     (let (S', sent) = send_all P S (tn_says t);
          (L', got) = recv_all P L (arrivals sent t)
      in got # run_turns P L' S' ts)"

definition heard :: "turn \<Rightarrow> bytes core_result list" where
  "heard t = map (\<lambda>i. Inr (snd (tn_says t ! i))) (tn_order t)"

text \<open>The deliveries of a turn, with the plaintexts they stand for.\<close>

definition deliveries :: "(bytes \<times> MessageHeader) list \<Rightarrow> turn \<Rightarrow> delivery list" where
  "deliveries ms t =
     map (\<lambda>(i, rnd). (rnd, snd (ms ! i), fst (ms ! i), snd (tn_says t ! i))) (zip (tn_order t) (tn_rnds t))"

lemma turn_order_set: "turn_wf t \<Longrightarrow> set (tn_order t) = {..<length (tn_says t)}"
  unfolding turn_wf_def by (metis atLeast_upt set_mset_mset)

lemma turn_order_props:
  assumes "turn_wf t"
  shows "distinct (tn_order t)" "length (tn_order t) = length (tn_rnds t)" "tn_order t \<noteq> []"
proof -
  have m: "mset (tn_order t) = mset [0..<length (tn_says t)]" and n: "tn_says t \<noteq> []"
    "length (tn_rnds t) = length (tn_says t)"
    using assms by (auto simp: turn_wf_def)
  show "distinct (tn_order t)" by (metis m distinct_upt mset_eq_imp_distinct_iff)
  show "length (tn_order t) = length (tn_rnds t)" using n mset_eq_length [OF m] by simp
  show "tn_order t \<noteq> []" using n mset_eq_length [OF m] by auto
qed

lemma deliveries_props:
  assumes t: "turn_wf t" and len: "length ms = length (tn_says t)"
    and b: "\<And>i. i < length (tn_says t) \<Longrightarrow> burst_message P c S i (snd (tn_says t ! i)) (ms ! i)"
    and z: "rs_send_counter S = 0"
  shows "map dl_wire (deliveries ms t) = arrivals (map Inr ms) t"
    "map (\<lambda>d. Inr (dl_plain d)) (deliveries ms t) = heard t"
    "map dl_number (deliveries ms t) = map of_nat (tn_order t)"
    "list_all (on_chain P c (rs_sending_ratchet_public S) (length (tn_says t))) (deliveries ms t)"
    "list_all (\<lambda>(_, h, _, _). mh_prev_chain_length h = rs_prev_send_counter S) (deliveries ms t)"
proof -
  have lz: "length (tn_order t) = length (tn_rnds t)" using turn_order_props(2) [OF t] .
  have i: "i < length (tn_says t)" if "(i, r) \<in> set (zip (tn_order t) (tn_rnds t))" for i r
    using set_zip_leftD [OF that] turn_order_set [OF t] by auto
  have small: "length (tn_says t) \<le> 1000" using t by (simp add: turn_wf_def)
  show "map dl_wire (deliveries ms t) = arrivals (map Inr ms) t"
    using i len by (auto simp: deliveries_def arrivals_def ok_or_def split: prod.split)
  show "map (\<lambda>d. Inr (dl_plain d)) (deliveries ms t) = heard t"
  proof -
    have "map (\<lambda>d. Inr (dl_plain d)) (deliveries ms t) =
        map (\<lambda>i. Inr (snd (tn_says t ! i))) (map fst (zip (tn_order t) (tn_rnds t)))"
      by (simp add: deliveries_def split_def)
    then show ?thesis using lz by (simp add: heard_def)
  qed
  show "map dl_number (deliveries ms t) = map of_nat (tn_order t)"
  proof -
    have "map dl_number (deliveries ms t) = map of_nat (map fst (zip (tn_order t) (tn_rnds t)))"
      using b i z by (auto simp: deliveries_def burst_message_def split: prod.splits)
    then show ?thesis using lz by simp
  qed
  show "list_all (on_chain P c (rs_sending_ratchet_public S) (length (tn_says t))) (deliveries ms t)"
    using b i z small
    by (fastforce simp: deliveries_def burst_message_def on_chain_def list_all_iff unat_of_nat_small split: prod.splits)
  show "list_all (\<lambda>(_, h, _, _). mh_prev_chain_length h = rs_prev_send_counter S) (deliveries ms t)"
    using b i by (fastforce simp: deliveries_def burst_message_def list_all_iff split: prod.splits)
qed

lemma turn_numbers:
  assumes "turn_wf t"
  shows "of_nat ` set (tn_order t) = {j :: u32. unat j < length (tn_says t)}"
    "distinct (map (of_nat :: nat \<Rightarrow> u32) (tn_order t))"
proof -
  have s: "set (tn_order t) = {..<length (tn_says t)}" and n: "length (tn_says t) \<le> 1000"
    using assms turn_order_set by (auto simp: turn_wf_def)
  have small: "unat (of_nat i :: u32) = i" if "i < length (tn_says t)" for i
    using that n by (intro unat_of_nat_small) simp
  have "j \<in> of_nat ` {..<length (tn_says t)}" if "unat j < length (tn_says t)" for j :: u32
    using that by (intro image_eqI [of _ _ "unat j"]) simp_all
  then show "of_nat ` set (tn_order t) = {j :: u32. unat j < length (tn_says t)}"
    unfolding s using small by fastforce
  have "inj_on (of_nat :: nat \<Rightarrow> u32) {..<length (tn_says t)}"
    by (rule inj_on_inverseI [of _ unat]) (simp add: small)
  then show "distinct (map (of_nat :: nat \<Rightarrow> u32) (tn_order t))"
    using turn_order_props(1) [OF assms] s by (simp add: distinct_map)
qed

lemma turn_step:
  assumes tot: "hkdf_total P" and aead: "aead_correct P" and agr: "dh_agrees P"
    and r: "ready P S L" and t: "turn_wf t"
    and new: "pub_of P (hd (tn_rnds t)) \<noteq> rs_sending_ratchet_public L"
  shows "\<exists>S' L' ms. send_all P S (tn_says t) = (S', map Inr ms) \<and> length ms = length (tn_says t) \<and>
    list_all (\<lambda>m. header_wf (snd m)) ms \<and>
    recv_all P L (arrivals (map Inr ms) t) = (L', heard t) \<and> ready P L' S' \<and>
    rs_sending_ratchet_public L' = pub_of P (hd (tn_rnds t)) \<and>
    rs_sending_ratchet_public S' = rs_sending_ratchet_public S"
proof -
  let ?n = "length (tn_says t)" and ?c = "rs_sending_chain_key S" and ?rnd = "hd (tn_rnds t)"
  let ?pub = "rs_sending_ratchet_public S"
  have T: "list_all sendable (tn_says t)" "?n \<le> 1000" "0 < ?n" "length (tn_rnds t) = ?n"
    "list_all (\<lambda>r. length r = 32) (tn_rnds t)"
    using t by (auto simp: turn_wf_def)
  have rnd: "length ?rnd = 32" using T(3-5) by (cases "tn_rnds t") auto
  have z: "rs_send_counter S = 0" and pub: "length ?pub = 32"
    using r by (auto simp: ready_def intro: dh_agreesD(1) [OF agr])
  obtain ms where ms: "send_all P S (tn_says t) =
      (S\<lparr>rs_sending_chain_key := ck_at P ?c ?n, rs_send_counter := of_nat ?n\<rparr>, map Inr ms)"
    "length ms = ?n" "\<And>i. i < ?n \<Longrightarrow> burst_message P ?c S i (snd (tn_says t ! i)) (ms ! i)"
    using send_all_burst [OF tot aead T(1) pub, of ?c] z T(2) by auto
  note D = deliveries_props [OF t ms(2,3) z]
  let ?ds = "deliveries ms t" and ?st = "stepped P ?rnd S L"
  have nums: "dl_number ` set ?ds = {j. unat j < ?n}"
    using arg_cong [OF D(3), of set] turn_numbers(1) [OF t] by simp
  have dist: "distinct (map dl_number ?ds)"
    using arg_cong [OF D(3), of distinct] turn_numbers(2) [OF t] by simp
  have fresh: "rs_skipped_keys ?st = []" "rs_recv_counter ?st = 0"
    using stepped_eq [OF tot r, of ?rnd] r by (auto simp: ready_def)
  obtain L' where L': "recv_all P ?st (map dl_wire ?ds) = (L', map (\<lambda>d. Inr (dl_plain d)) ?ds)"
    "recv_sync P ?c ?pub ({} \<union> dl_number ` set ?ds) L'" "recv_frame ?pub ?st L'" "unat (rs_recv_counter L') \<le> ?n"
    using recv_all_burst [OF tot T(2) stepped_sync [OF tot r, of ?rnd] D(4) dist] fresh T(2)
    by (auto simp: MAX_SKIPPED_KEYS_def)
  have "recv_all P L (map dl_wire ?ds) = recv_all P ?st (map dl_wire ?ds)"
    using D(4,5) turn_order_props(2,3) [OF t] T(3,4)
    by (cases "tn_order t"; cases "tn_rnds t")
      (auto simp: deliveries_def on_chain_def decrypt_first [OF tot r])
  then have "recv_all P L (arrivals (map Inr ms) t) = (L', heard t)"
    using L'(1) D(1,2) by simp
  moreover have "list_all (\<lambda>m. header_wf (snd m)) ms"
    using ms(2,3) pub by (auto simp: list_all_length burst_message_def header_wf_def)
  moreover have "ready P L' (S\<lparr>rs_sending_chain_key := ck_at P ?c ?n, rs_send_counter := of_nat ?n\<rparr>)"
    using L' nums T by (intro ready_swap [OF tot agr r rnd new]) auto
  moreover have "rs_sending_ratchet_public L' = pub_of P ?rnd"
    using L'(3) stepped_eq [OF tot r, of ?rnd] skip_frame_fields [of ?st L'] by (auto simp: recv_frame_def)
  ultimately show ?thesis using ms(1,2) by (intro exI conjI) (assumption | simp)+
qed

text \<open>
  The conversation: alternating turns, each a burst of up to 1000 messages that arrive in
  any order, all decrypt to what was said.
\<close>

lemma converse_heard:
  assumes tot: "hkdf_total P" and aead: "aead_correct P" and agr: "dh_agrees P"
  shows "\<lbrakk>ready P S L; list_all turn_wf ts;
      distinct (rs_sending_ratchet_public L # rs_sending_ratchet_public S # map (\<lambda>t. pub_of P (hd (tn_rnds t))) ts)\<rbrakk>
    \<Longrightarrow> run_turns P S L ts = map heard ts"
proof (induction ts arbitrary: S L)
  case Nil
  then show ?case by simp
next
  case (Cons t ts)
  from Cons.prems have "turn_wf t" "pub_of P (hd (tn_rnds t)) \<noteq> rs_sending_ratchet_public L" by auto
  from turn_step [OF tot aead agr Cons.prems(1) this] obtain S' L' ms where
    S': "send_all P S (tn_says t) = (S', map Inr ms)" "recv_all P L (arrivals (map Inr ms) t) = (L', heard t)"
    "ready P L' S'" "rs_sending_ratchet_public L' = pub_of P (hd (tn_rnds t))"
    "rs_sending_ratchet_public S' = rs_sending_ratchet_public S" by blast
  have "run_turns P L' S' ts = map heard ts"
    using Cons.prems S'(4,5) by (intro Cons.IH [OF S'(3)]) auto
  with S'(1,2) show ?case by simp
qed

text \<open>The states \<open>init_alice\<close> and \<open>init_bob\<close> build from one shared secret are ready to talk.\<close>

lemma init_ready:
  assumes tot: "hkdf_total P" and agr: "dh_agrees P"
    and len: "length rnd = 32" "length spk = 32"
    and a: "init_alice P rnd secret (pub_of P spk) = Inr A"
    and b: "init_bob P secret spk = Inr B"
  shows "ready P A B"
proof -
  obtain r c where k: "kdf_rk P secret (dh P rnd (pub_of P spk)) = Inr (r, c)"
    by (rule kdf_rk_total [OF tot])
  show ?thesis
    using a b len k dh_agreesD(3) [OF agr len]
    by (auto simp: init_alice_def init_bob_def ready_def)
qed

section \<open>Replays\<close>

text \<open>
  C40: a message that was already decrypted, or any forgery that reuses its number, advances
  the receiving chain although it does not decrypt: the next genuine message, which would
  have decrypted before, is then opened with the key of its successor.
\<close>

theorem replay_desynchronises:
  assumes tot: "hkdf_total P" and sync: "recv_sync P c pub R st"
    and old: "mh_ratchet_public_key h = pub" "mh_message_number h \<in> R"
    and nxt: "mh_ratchet_public_key h2 = pub" "mh_message_number h2 = rs_recv_counter st" "chain_message P c h2 ct2 pt"
    and room: "length (rs_skipped_keys st) \<le> MAX_SKIPPED_KEYS" "Suc (unat (rs_recv_counter st)) < 2 ^ 32"
  shows "snd (ratchet_decrypt P rnd2 st h2 ct2) = Inr pt \<and>
    snd (ratchet_decrypt P rnd2 (fst (ratchet_decrypt P rnd st h ct)) h2 ct2) =
      decrypt_with_ad P (mk_at P c (Suc (unat (rs_recv_counter st)))) ct2 (MessageHeader_serialize h2)"
proof -
  let ?n = "rs_recv_counter st"
  let ?st = "st\<lparr>rs_receiving_chain_key := Some (ck_at P c (Suc (unat ?n))), rs_recv_counter := ?n + 1\<rparr>"
  have rk: "rs_receiving_ratchet_key st = Some pub" "rs_receiving_chain_key st = Some (ck_at P c (unat ?n))"
    and none: "hm_get (rs_skipped_keys st) (pub, mh_message_number h) = None"
      "hm_get (rs_skipped_keys st) (pub, ?n) = None"
    and lt: "mh_message_number h < ?n"
    using sync old by (auto simp: recv_sync_def)
  have n1: "unat (?n + 1) = Suc (unat ?n)" using room(2) by (simp add: unat_word_ariths)
  then have lt': "?n < ?n + 1" by (simp add: word_less_nat_alt)
  have "skip_message_keys P st (mh_message_number h) = (st, Inr ())"
    using lt by (subst skip_message_keys_near) (simp_all add: word_less_nat_alt skip_loop_stop)
  then have "fst (ratchet_decrypt P rnd st h ct) = ?st"
    using rk none old(1) by (simp add: ratchet_decrypt_def decrypt_ratchet_def need_dh_ratchet_def kdf_ck_at [OF tot])
  moreover have "skip_message_keys P ?st ?n = (?st, Inr ())"
    using lt' n1 by (subst skip_message_keys_near) (simp_all add: skip_loop_stop)
  then have "snd (ratchet_decrypt P rnd2 ?st h2 ct2) =
      decrypt_with_ad P (mk_at P c (Suc (unat ?n))) ct2 (MessageHeader_serialize h2)"
    using rk none nxt by (simp add: ratchet_decrypt_def decrypt_ratchet_def need_dh_ratchet_def kdf_ck_at [OF tot])
  moreover have "snd (ratchet_decrypt P rnd2 st h2 ct2) = Inr pt"
    using recv_ahead [OF tot sync nxt(1), of ct2 pt rnd2] nxt room by auto
  ultimately show ?thesis by simp
qed

definition replay_state :: RatchetState where
  "replay_state = far_state\<lparr>rs_recv_counter := 1,
     rs_receiving_chain_key := Some (ck_at ref_prims (replicate 32 3) 1)\<rparr>"

definition replay_header :: "u32 \<Rightarrow> MessageHeader" where
  "replay_header n = \<lparr>mh_ratchet_public_key = replicate 32 5, mh_prev_chain_length = 0, mh_message_number = n\<rparr>"

theorem replay_desynchronises_witness:
  "\<exists>ct2. snd (ratchet_decrypt ref_prims (replicate 32 8) replay_state (replay_header 1) ct2) = Inr [104, 105] \<and>
     snd (ratchet_decrypt ref_prims (replicate 32 8)
       (fst (ratchet_decrypt ref_prims (replicate 32 9) replay_state (replay_header 0) [])) (replay_header 1) ct2) =
       decrypt_with_ad ref_prims (mk_at ref_prims (replicate 32 3) (Suc 1)) ct2 (MessageHeader_serialize (replay_header 1))"
proof -
  let ?c = "replicate 32 (3 :: byte)" and ?pub = "replicate 32 (5 :: byte)"
  have sync: "recv_sync ref_prims ?c ?pub {0} replay_state"
    by (auto simp: recv_sync_def replay_state_def far_state_def hm_get_def)
  obtain c where c: "aead_enc ref_prims (mk_at ref_prims ?c 1) (replicate 12 1) [104, 105] (MessageHeader_serialize (replay_header 1)) = Inr c"
    "length c = 18"
    "aead_dec ref_prims (mk_at ref_prims ?c 1) (replicate 12 1) c (MessageHeader_serialize (replay_header 1)) = Inr [104, 105]"
    using aead_correctE [OF ref_prims_laws(3) kdf_ck_at(2) [OF ref_prims_laws(2)],
        of "replicate 12 1" "[104, 105]" "MessageHeader_serialize (replay_header 1)"]
    by (auto simp: length_MessageHeader_serialize replay_header_def)
  have "chain_message ref_prims ?c (replay_header 1) (replicate 12 1 @ c) [104, 105]"
    using c by (simp add: chain_message_def decrypt_with_ad_def replay_header_def)
  from replay_desynchronises [OF ref_prims_laws(2) sync, of "replay_header 0" "replay_header 1" "replicate 12 1 @ c"
      "[104, 105]" "replicate 32 8" "replicate 32 9" "[]", OF _ _ _ _ this]
  show ?thesis by (auto simp: replay_header_def replay_state_def far_state_def)
qed

end
