(* ===== verification/Core_X3DH.thy ===== *)
theory Core_X3DH
  imports Core_Keys
begin

text \<open>
  Key agreement and stateless encryption: \<open>signal/x3dh.rs\<close> (the verified X3DH handshake),
  \<open>crypto/session.rs\<close> (the deprecated handshake without signature check) and
  \<open>crypto/encrypt.rs\<close> (AES-256-GCM with the nonce in front). What a handshake promises the
  session layer is the locale \<open>key_agreement\<close>; both handshakes are instances of it.
\<close>

section \<open>X3DH (\<open>signal/x3dh.rs\<close>)\<close>

record X3dhInitResult =
  xr_shared_secret :: bytes
  xr_ephemeral_public :: bytes
  xr_identity_public :: bytes

definition x3dh_kdf :: "prims \<Rightarrow> bytes \<Rightarrow> bytes core_result" where
  "x3dh_kdf P dh_concat =
     map_err (\<lambda>e. Crypto (''X3DH HKDF expand failed: '' @ e))
       (hkdf P (replicate 32 0) dh_concat X3DH_HKDF_INFO 32)"

definition x3dh_initiate ::
  "prims \<Rightarrow> bytes \<Rightarrow> IdentityKeyPair \<Rightarrow> PreKeyBundle \<Rightarrow> bytes \<Rightarrow> X3dhInitResult core_result" where
  "x3dh_initiate P rnd alice_identity bob_bundle bob_verifying_key =
     bind_r (verify_signature P bob_bundle bob_verifying_key) (\<lambda>_.
     let ephemeral = EphemeralKeyPair_generate P rnd;
         dh1 = dh P (ik_private alice_identity) (pkb_signed_prekey bob_bundle);
         dh2 = dh P (ek_private ephemeral) (pkb_identity_key bob_bundle);
         dh3 = dh P (ek_private ephemeral) (pkb_signed_prekey bob_bundle);
         dh_concat = dh1 @ dh2 @ dh3 @
           (case pkb_one_time_prekey bob_bundle of
              Some otp \<Rightarrow> dh P (ek_private ephemeral) otp | None \<Rightarrow> [])
     in bind_r (x3dh_kdf P dh_concat) (\<lambda>shared_secret.
        Inr \<lparr>xr_shared_secret = shared_secret, xr_ephemeral_public = ek_public ephemeral,
             xr_identity_public = ik_public alice_identity\<rparr>))"

definition x3dh_respond ::
  "prims \<Rightarrow> IdentityKeyPair \<Rightarrow> bytes \<Rightarrow> bytes option \<Rightarrow> bytes \<Rightarrow> bytes \<Rightarrow> bytes core_result" where
  "x3dh_respond P bob_identity bob_signed_prekey_private bob_one_time_prekey_private
       alice_identity_public alice_ephemeral_public =
     (let dh1 = dh P bob_signed_prekey_private alice_identity_public;
          dh2 = dh P (ik_private bob_identity) alice_ephemeral_public;
          dh3 = dh P bob_signed_prekey_private alice_ephemeral_public;
          dh_concat = dh1 @ dh2 @ dh3 @
            (case bob_one_time_prekey_private of
               Some otp_private \<Rightarrow> dh P otp_private alice_ephemeral_public | None \<Rightarrow> [])
      in x3dh_kdf P dh_concat)"

section \<open>The unverified handshake (\<open>crypto/session.rs\<close>)\<close>

record X3dhResult =
  xd_shared_secret :: bytes
  xd_ephemeral_public :: bytes

definition crypto_kdf :: "prims \<Rightarrow> bytes \<Rightarrow> bytes core_result" where
  "crypto_kdf P dh_outputs =
     map_err (\<lambda>e. Crypto (''HKDF expand failed: '' @ e))
       (hkdf P (replicate 32 0) dh_outputs ''EchoSignalX3DH'' 32)"

definition crypto_x3dh_initiate ::
  "prims \<Rightarrow> bytes \<Rightarrow> bytes \<Rightarrow> bytes \<Rightarrow> bytes \<Rightarrow> bytes option \<Rightarrow> X3dhResult core_result" where
  "crypto_x3dh_initiate P rnd our_identity their_identity their_signed_prekey their_one_time_prekey =
     (let ephemeral_public = pub_of P rnd;
          dh1 = dh P our_identity their_signed_prekey;
          dh2 = dh P rnd their_identity;
          dh3 = dh P rnd their_signed_prekey;
          dh_concat = dh1 @ dh2 @ dh3 @
            (case their_one_time_prekey of Some otk \<Rightarrow> dh P rnd otk | None \<Rightarrow> [])
      in bind_r (crypto_kdf P dh_concat) (\<lambda>shared_secret.
         Inr \<lparr>xd_shared_secret = shared_secret, xd_ephemeral_public = ephemeral_public\<rparr>))"

definition crypto_x3dh_respond ::
  "prims \<Rightarrow> bytes \<Rightarrow> bytes \<Rightarrow> bytes option \<Rightarrow> bytes \<Rightarrow> bytes \<Rightarrow> bytes core_result" where
  "crypto_x3dh_respond P our_identity our_signed_prekey our_one_time_prekey their_identity
       their_ephemeral =
     (let dh1 = dh P our_signed_prekey their_identity;
          dh2 = dh P our_identity their_ephemeral;
          dh3 = dh P our_signed_prekey their_ephemeral;
          dh_concat = dh1 @ dh2 @ dh3 @
            (case our_one_time_prekey of Some otk \<Rightarrow> dh P otk their_ephemeral | None \<Rightarrow> [])
      in crypto_kdf P dh_concat)"

section \<open>Stateless encryption (\<open>crypto/encrypt.rs\<close>)\<close>

definition crypto_encrypt :: "prims \<Rightarrow> bytes \<Rightarrow> bytes \<Rightarrow> bytes \<Rightarrow> bytes core_result" where
  "crypto_encrypt P nonce_bytes key plaintext =
     bind_r (map_err (\<lambda>e. Crypto (''Encryption failed: '' @ e)) (aead_enc P key nonce_bytes plaintext []))
       (\<lambda>ciphertext. Inr (nonce_bytes @ ciphertext))"

definition crypto_decrypt :: "prims \<Rightarrow> bytes \<Rightarrow> bytes \<Rightarrow> bytes core_result" where
  "crypto_decrypt P key data =
     (if length data < 12 + 16
      then Inl (Crypto ''Ciphertext too short (must be at least 28 bytes)'')
      else map_err (\<lambda>e. Crypto (''Decryption failed: '' @ e))
             (aead_dec P key (take 12 data) (drop 12 data) []))"

section \<open>What a handshake promises\<close>

locale key_agreement =
  fixes valid :: "'s \<Rightarrow> bool"
    and initiator :: "'s \<Rightarrow> bytes core_result"
    and responder :: "'s \<Rightarrow> bytes core_result"
  assumes agree: "valid s \<Longrightarrow> initiator s = responder s"
    and succeeds: "valid s \<Longrightarrow> \<exists>k. initiator s = Inr k \<and> length k = 32"
begin

lemma shared_secret:
  assumes "valid s"
  obtains k where "initiator s = Inr k" "responder s = Inr k" "length k = 32"
  using agree [OF assms] succeeds [OF assms] by fastforce

end

text \<open>
  A run of the handshake: both identities, Bob's prekey secrets, and Alice's ephemeral
  secret. Bob's published bundle is determined by his secrets.
\<close>

record x3dh_setup =
  xs_alice :: IdentityKeyPair
  xs_bob :: IdentityKeyPair
  xs_spk :: bytes
  xs_otp :: "bytes option"
  xs_ephemeral :: bytes

definition setup_bundle :: "prims \<Rightarrow> x3dh_setup \<Rightarrow> PreKeyBundle" where
  "setup_bundle P s =
     \<lparr>pkb_identity_key = ik_public (xs_bob s), pkb_signed_prekey = pub_of P (xs_spk s),
      pkb_signed_prekey_signature = identity_sign P (xs_bob s) (pub_of P (xs_spk s)),
      pkb_one_time_prekey = map_option (pub_of P) (xs_otp s)\<rparr>"

definition setup_valid :: "prims \<Rightarrow> x3dh_setup \<Rightarrow> bool" where
  "setup_valid P s \<longleftrightarrow>
     dh_agrees P \<and> hkdf_total P \<and> sig_correct P \<and>
     identity_wf P (xs_alice s) \<and> identity_wf P (xs_bob s) \<and>
     length (xs_spk s) = 32 \<and> length (xs_ephemeral s) = 32 \<and>
     (\<forall>otp. xs_otp s = Some otp \<longrightarrow> length otp = 32)"

definition signal_initiator :: "prims \<Rightarrow> x3dh_setup \<Rightarrow> bytes core_result" where
  "signal_initiator P s =
     map_sum id xr_shared_secret
       (x3dh_initiate P (xs_ephemeral s) (xs_alice s) (setup_bundle P s) (verifying_key P (xs_bob s)))"

definition signal_responder :: "prims \<Rightarrow> x3dh_setup \<Rightarrow> bytes core_result" where
  "signal_responder P s =
     x3dh_respond P (xs_bob s) (xs_spk s) (xs_otp s) (ik_public (xs_alice s)) (pub_of P (xs_ephemeral s))"

definition plain_initiator :: "prims \<Rightarrow> x3dh_setup \<Rightarrow> bytes core_result" where
  "plain_initiator P s =
     map_sum id xd_shared_secret
       (crypto_x3dh_initiate P (xs_ephemeral s) (ik_private (xs_alice s)) (ik_public (xs_bob s))
          (pub_of P (xs_spk s)) (map_option (pub_of P) (xs_otp s)))"

definition plain_responder :: "prims \<Rightarrow> x3dh_setup \<Rightarrow> bytes core_result" where
  "plain_responder P s =
     crypto_x3dh_respond P (ik_private (xs_bob s)) (xs_spk s) (xs_otp s) (ik_public (xs_alice s))
       (pub_of P (xs_ephemeral s))"

text \<open>The four Diffie--Hellman values, seen from the initiator's side.\<close>

definition dh_values :: "prims \<Rightarrow> x3dh_setup \<Rightarrow> bytes" where
  "dh_values P s =
     dh P (ik_private (xs_alice s)) (pub_of P (xs_spk s)) @
     dh P (xs_ephemeral s) (ik_public (xs_bob s)) @
     dh P (xs_ephemeral s) (pub_of P (xs_spk s)) @
     (case xs_otp s of Some otp \<Rightarrow> dh P (xs_ephemeral s) (pub_of P otp) | None \<Rightarrow> [])"

lemma setup_signature_ok:
  "setup_valid P s \<Longrightarrow> verify_signature P (setup_bundle P s) (verifying_key P (xs_bob s)) = Inr ()"
  by (simp add: verify_signature_def setup_bundle_def verifying_key_def identity_sign_def
      setup_valid_def identity_wf_def sig_correctD)

lemma setup_bundle_sel [simp]:
  "pkb_identity_key (setup_bundle P s) = ik_public (xs_bob s)"
  "pkb_signed_prekey (setup_bundle P s) = pub_of P (xs_spk s)"
  "pkb_one_time_prekey (setup_bundle P s) = map_option (pub_of P) (xs_otp s)"
  by (simp_all add: setup_bundle_def)

lemma x3dh_initiate_setup:
  assumes "setup_valid P s"
  shows "x3dh_initiate P (xs_ephemeral s) (xs_alice s) (setup_bundle P s) (verifying_key P (xs_bob s)) =
     bind_r (x3dh_kdf P (dh_values P s)) (\<lambda>k.
       Inr \<lparr>xr_shared_secret = k, xr_ephemeral_public = pub_of P (xs_ephemeral s),
            xr_identity_public = ik_public (xs_alice s)\<rparr>)"
  unfolding x3dh_initiate_def
  by (cases "xs_otp s")
    (simp_all add: setup_signature_ok [OF assms] EphemeralKeyPair_generate_def dh_values_def)

lemma signal_initiator_eq:
  "setup_valid P s \<Longrightarrow> signal_initiator P s = x3dh_kdf P (dh_values P s)"
  unfolding signal_initiator_def
  by (cases "x3dh_kdf P (dh_values P s)") (simp_all add: x3dh_initiate_setup)

lemma plain_initiator_eq: "plain_initiator P s = crypto_kdf P (dh_values P s)"
  unfolding plain_initiator_def crypto_x3dh_initiate_def
  by (cases "crypto_kdf P (dh_values P s)"; cases "xs_otp s") (simp_all add: dh_values_def Let_def)

lemma dh_values_respond:
  assumes "setup_valid P s"
  shows "dh_values P s =
     dh P (xs_spk s) (ik_public (xs_alice s)) @
     dh P (ik_private (xs_bob s)) (pub_of P (xs_ephemeral s)) @
     dh P (xs_spk s) (pub_of P (xs_ephemeral s)) @
     (case xs_otp s of Some otp \<Rightarrow> dh P otp (pub_of P (xs_ephemeral s)) | None \<Rightarrow> [])"
  using assms unfolding setup_valid_def identity_wf_def dh_values_def
  by (auto simp: dh_agreesD(3) split: option.split)

lemma signal_responder_eq:
  "setup_valid P s \<Longrightarrow> signal_responder P s = x3dh_kdf P (dh_values P s)"
  by (simp add: signal_responder_def x3dh_respond_def dh_values_respond Let_def)

lemma plain_responder_eq:
  "setup_valid P s \<Longrightarrow> plain_responder P s = crypto_kdf P (dh_values P s)"
  by (simp add: plain_responder_def crypto_x3dh_respond_def dh_values_respond Let_def)

lemma kdf_succeeds:
  assumes "hkdf_total P"
  shows "\<exists>k. x3dh_kdf P ikm = Inr k \<and> length k = 32" "\<exists>k. crypto_kdf P ikm = Inr k \<and> length k = 32"
proof -
  show "\<exists>k. x3dh_kdf P ikm = Inr k \<and> length k = 32"
    unfolding x3dh_kdf_def by (rule hkdf_totalE [OF assms, of 32]) auto
  show "\<exists>k. crypto_kdf P ikm = Inr k \<and> length k = 32"
    unfolding crypto_kdf_def by (rule hkdf_totalE [OF assms, of 32]) auto
qed

interpretation signal_ka: key_agreement "setup_valid P" "signal_initiator P" "signal_responder P" for P
proof unfold_locales
  fix s assume v: "setup_valid P s"
  then show "signal_initiator P s = signal_responder P s"
    by (simp add: signal_initiator_eq signal_responder_eq)
  show "\<exists>k. signal_initiator P s = Inr k \<and> length k = 32"
    using v kdf_succeeds(1) by (simp add: signal_initiator_eq setup_valid_def)
qed

interpretation plain_ka: key_agreement "setup_valid P" "plain_initiator P" "plain_responder P" for P
proof unfold_locales
  fix s assume v: "setup_valid P s"
  then show "plain_initiator P s = plain_responder P s"
    by (simp add: plain_initiator_eq plain_responder_eq)
  show "\<exists>k. plain_initiator P s = Inr k \<and> length k = 32"
    using v kdf_succeeds(2) by (simp add: plain_initiator_eq setup_valid_def)
qed

section \<open>Properties\<close>

text \<open>
  C12: both sides of the verified handshake derive the same 32-byte secret, with or without
  a one-time prekey, and the unverified handshake of \<open>crypto/session.rs\<close> run on the same keys
  derives that very secret on both sides too.
\<close>

theorem x3dh_agreement:
  assumes "setup_valid P s"
  shows "\<exists>k. length k = 32 \<and> signal_initiator P s = Inr k \<and> signal_responder P s = Inr k \<and>
    plain_initiator P s = Inr k \<and> plain_responder P s = Inr k"
proof -
  obtain k where k: "signal_initiator P s = Inr k" "signal_responder P s = Inr k" "length k = 32"
    by (rule signal_ka.shared_secret [OF assms])
  moreover have "plain_initiator P s = Inr k"
    using k(1) by (auto simp: signal_initiator_eq [OF assms] plain_initiator_eq x3dh_kdf_def crypto_kdf_def
        X3DH_HKDF_INFO_def)
  ultimately show ?thesis using plain_ka.agree [OF assms] by auto
qed

theorem x3dh_agreement_witness:
  "\<exists>k. length k = 32 \<and>
     signal_initiator ref_prims \<lparr>xs_alice = IdentityKeyPair_generate ref_prims (replicate 32 1) (replicate 32 2),
       xs_bob = IdentityKeyPair_generate ref_prims (replicate 32 3) (replicate 32 4),
       xs_spk = replicate 32 5, xs_otp = None, xs_ephemeral = replicate 32 7\<rparr> = Inr k"
  using x3dh_agreement [of ref_prims "\<lparr>xs_alice = IdentityKeyPair_generate ref_prims (replicate 32 1) (replicate 32 2),
       xs_bob = IdentityKeyPair_generate ref_prims (replicate 32 3) (replicate 32 4),
       xs_spk = replicate 32 5, xs_otp = None, xs_ephemeral = replicate 32 7\<rparr>"]
  by (auto simp: setup_valid_def ref_prims_laws identity_wf_def IdentityKeyPair_generate_def)

text \<open>
  C33: the verified handshake accepts a bundle only when the signature over its signed prekey
  verifies under the key the caller supplied; otherwise it fails with that error, whatever
  the keys and whatever the key derivation does.
\<close>

theorem x3dh_initiate_verifies:
  "(is_ok (x3dh_initiate P rnd alice bundle vk) \<longrightarrow>
      ed_verify P vk (pkb_signed_prekey bundle) (pkb_signed_prekey_signature bundle) = Inr ()) \<and>
   (\<forall>e. ed_verify P vk (pkb_signed_prekey bundle) (pkb_signed_prekey_signature bundle) = Inl e \<longrightarrow>
      x3dh_initiate P rnd alice bundle vk = Inl (Crypto (''Signed prekey signature invalid: '' @ e)))"
  by (auto simp: is_ok_iff x3dh_initiate_def verify_signature_def bind_r_eq_Inr)

theorem x3dh_initiate_verifies_witness:
  "x3dh_initiate ref_prims (replicate 32 7) (IdentityKeyPair_generate ref_prims (replicate 32 1) (replicate 32 2))
     ref_bundle (replicate 32 4) = Inl (Crypto ''Signed prekey signature invalid: signature error'')"
proof -
  have "ed_verify ref_prims (replicate 32 4) (pkb_signed_prekey ref_bundle) (pkb_signed_prekey_signature ref_bundle) =
      Inl ''signature error''"
    by code_simp
  then show ?thesis using x3dh_initiate_verifies by fastforce
qed

text \<open>
  the stateless encryption round-trips: with a 32-byte key and the 12-byte nonce the
  code draws, \<open>encrypt\<close> succeeds and \<open>decrypt\<close> returns the plaintext.
\<close>

theorem crypto_encrypt_roundtrip:
  assumes "aead_correct P" "length key = 32" "length nonce = 12" "length pt \<le> 2 ^ 36"
  shows "\<exists>ct. crypto_encrypt P nonce key pt = Inr ct \<and> length ct = length pt + 28 \<and> crypto_decrypt P key ct = Inr pt"
proof -
  obtain c where "aead_enc P key nonce pt [] = Inr c" "length c = length pt + 16" "aead_dec P key nonce c [] = Inr pt"
    using aead_correctE [OF assms, of "[]"] by auto
  then show ?thesis using assms(3) by (simp add: crypto_encrypt_def crypto_decrypt_def)
qed

theorem crypto_encrypt_roundtrip_witness:
  "\<exists>ct. crypto_encrypt ref_prims (replicate 12 1) (replicate 32 2) [104, 105] = Inr ct \<and> length ct = 30 \<and>
     crypto_decrypt ref_prims (replicate 32 2) ct = Inr [104, 105]"
  using crypto_encrypt_roundtrip [OF ref_prims_laws(3), of "replicate 32 2" "replicate 12 1" "[104, 105]"] by simp

end
