(* ===== verification/Core_Session.thy ===== *)
theory Core_Session
  imports Core_Conversation Core_X3DH
begin

text \<open>
  \<open>signal/session.rs\<close>: sessions over the X3DH handshake and the double ratchet. The model
  keeps \<open>peer_user_id\<close> as its UTF-8 bytes; random values are arguments (the ephemeral key
  and the ratchet key of \<open>create_session\<close>, the nonce of \<open>encrypt_message\<close>, the ratchet key a
  \<open>decrypt_message\<close> may draw). A \<open>usize\<close> has 64 bits, so that \<open>4 + header_len\<close> does not wrap.
\<close>

section \<open>The operations\<close>

record Session =
  ss_peer_user_id :: bytes
  ss_ratchet :: RatchetState
  ss_established :: bool

definition create_session ::
  "prims \<Rightarrow> bytes \<Rightarrow> bytes \<Rightarrow> IdentityKeyPair \<Rightarrow> bytes \<Rightarrow> PreKeyBundle \<Rightarrow> bytes
    \<Rightarrow> (Session \<times> bytes) core_result" where
  "create_session P eph rnd my_keys peer_user_id peer_bundle peer_verifying_key =
     bind_r (x3dh_initiate P eph my_keys peer_bundle peer_verifying_key) (\<lambda>x3dh_result.
     bind_r (init_alice P rnd (xr_shared_secret x3dh_result) (pkb_signed_prekey peer_bundle)) (\<lambda>ratchet.
     let session = \<lparr>ss_peer_user_id = peer_user_id, ss_ratchet = ratchet, ss_established = True\<rparr>;
         initial_msg = ik_public my_keys @ xr_ephemeral_public x3dh_result @
           (case pkb_one_time_prekey peer_bundle of Some otp \<Rightarrow> 1 # otp | None \<Rightarrow> [0])
     in Inr (session, initial_msg)))"

definition accept_session ::
  "prims \<Rightarrow> IdentityKeyPair \<Rightarrow> bytes \<Rightarrow> bytes option \<Rightarrow> bytes \<Rightarrow> bytes \<Rightarrow> Session core_result" where
  "accept_session P my_keys my_signed_prekey_private my_one_time_prekey_private peer_user_id initial_msg =
     (if length initial_msg < 65 then Inl (Crypto ''Initial message too short (need >= 65 bytes)'')
      else
        bind_r (try_array 32 ''Invalid identity key in initial message'' (byte_slice 0 32 initial_msg))
          (\<lambda>alice_identity_public.
        bind_r (try_array 32 ''Invalid ephemeral key in initial message'' (byte_slice 32 64 initial_msg))
          (\<lambda>alice_ephemeral_public.
        bind_r (x3dh_respond P my_keys my_signed_prekey_private my_one_time_prekey_private
                  alice_identity_public alice_ephemeral_public) (\<lambda>shared_secret.
        bind_r (init_bob P shared_secret my_signed_prekey_private) (\<lambda>ratchet.
        Inr \<lparr>ss_peer_user_id = peer_user_id, ss_ratchet = ratchet, ss_established = True\<rparr>)))))"

definition encrypt_message :: "prims \<Rightarrow> bytes \<Rightarrow> Session \<Rightarrow> bytes \<Rightarrow> Session \<times> bytes core_result" where
  "encrypt_message P nonce session plaintext =
     (if \<not> ss_established session then (session, Inl (Crypto ''Session not established''))
      else
        (case ratchet_encrypt P nonce (ss_ratchet session) plaintext of
           (ratchet, Inl e) \<Rightarrow> (session\<lparr>ss_ratchet := ratchet\<rparr>, Inl e)
         | (ratchet, Inr (ciphertext, header)) \<Rightarrow>
             let header_bytes = MessageHeader_serialize header;
                 header_len = (of_nat (length header_bytes) :: u32);
                 wire = u32_to_le_bytes header_len @ header_bytes @ ciphertext
             in (session\<lparr>ss_ratchet := ratchet\<rparr>, Inr wire)))"

definition decrypt_message :: "prims \<Rightarrow> bytes \<Rightarrow> Session \<Rightarrow> bytes \<Rightarrow> Session \<times> bytes core_result" where
  "decrypt_message P rnd session data =
     (if \<not> ss_established session then (session, Inl (Crypto ''Session not established''))
      else if length data < 4 then (session, Inl (Crypto ''Encrypted message too short''))
      else
        (case try_u32 ''Invalid header length'' (byte_slice 0 4 data) of
           Inl e \<Rightarrow> (session, Inl e)
         | Inr len \<Rightarrow>
             let header_len = unat len in
             if length data < 4 + header_len
             then (session, Inl (Crypto ''Encrypted message shorter than declared header''))
             else
               (case MessageHeader_deserialize (byte_slice 4 (4 + header_len) data) of
                  Inl e \<Rightarrow> (session, Inl e)
                | Inr header \<Rightarrow>
                    let ciphertext = drop (4 + header_len) data;
                        (ratchet, r) = ratchet_decrypt P rnd (ss_ratchet session) header ciphertext
                    in (session\<lparr>ss_ratchet := ratchet\<rparr>, r))))"

definition serialize_session :: "Session \<Rightarrow> bytes" where
  "serialize_session session =
     (let peer_bytes = ss_peer_user_id session
      in u32_to_le_bytes (of_nat (length peer_bytes)) @ peer_bytes @
         [if ss_established session then 1 else 0] @ RatchetState_serialize (ss_ratchet session))"

definition deserialize_session :: "bytes \<Rightarrow> Session core_result" where
  "deserialize_session data =
     (if length data < 5 then Inl (Crypto ''Session data too short'')
      else
        bind_r (try_u32 ''Invalid peer_user_id length'' (byte_slice 0 4 data)) (\<lambda>len.
        let peer_len = unat len in
        if length data < 4 + peer_len + 1 then Inl (Crypto ''Session data too short for peer_id'')
        else
          bind_r (map_err (\<lambda>e. Crypto (''Invalid UTF-8 in peer_user_id: '' @ e))
                    (string_from_utf8 (byte_slice 4 (4 + peer_len) data))) (\<lambda>peer_user_id.
          let established = (data ! (4 + peer_len) \<noteq> 0) in
          bind_r (RatchetState_deserialize (drop (4 + peer_len + 1) data)) (\<lambda>ratchet.
          Inr \<lparr>ss_peer_user_id = peer_user_id, ss_ratchet = ratchet, ss_established = established\<rparr>))))"

section \<open>The wire format\<close>

text \<open>The blob for a ciphertext and its header, with \<open>pad\<close> extra bytes counted to the header.\<close>

definition wire_padded :: "bytes \<Rightarrow> bytes \<times> MessageHeader \<Rightarrow> bytes" where
  "wire_padded pad m =
     u32_to_le_bytes (of_nat (40 + length pad)) @ MessageHeader_serialize (snd m) @ pad @ fst m"

abbreviation wire_of :: "bytes \<times> MessageHeader \<Rightarrow> bytes" where
  "wire_of \<equiv> wire_padded []"

definition relay :: "Session \<Rightarrow> RatchetState \<times> 'a core_result \<Rightarrow> Session \<times> 'a core_result" where
  "relay s p = (s\<lparr>ss_ratchet := fst p\<rparr>, snd p)"

lemma encrypt_message_relay:
  assumes "ss_established s" and "length (rs_sending_ratchet_public (ss_ratchet s)) = 32"
  shows "encrypt_message P nonce s pt =
    relay s (map_prod id (map_sum id wire_of) (ratchet_encrypt P nonce (ss_ratchet s) pt))"
proof (cases "ratchet_encrypt P nonce (ss_ratchet s) pt")
  case (Pair st r)
  show ?thesis
  proof (cases r)
    case (Inr m)
    then have "length (MessageHeader_serialize (snd m)) = 40"
      using Pair assms(2)
      by (auto simp: ratchet_encrypt_def length_MessageHeader_serialize Let_def split: sum.splits prod.splits)
    then show ?thesis using assms(1) Pair Inr
      by (cases m) (simp add: encrypt_message_def relay_def wire_padded_def)
  qed (simp add: encrypt_message_def relay_def Pair assms(1))
qed

lemma decrypt_message_relay:
  assumes est: "ss_established s" and wf: "header_wf h" and pad: "length pad < 2 ^ 31"
  shows "decrypt_message P rnd s (wire_padded pad (ct, h)) = relay s (ratchet_decrypt P rnd (ss_ratchet s) h ct)"
proof -
  let ?w = "wire_padded pad (ct, h)" and ?n = "40 + length pad"
  have l: "length (MessageHeader_serialize h) = 40" using wf by (simp add: length_MessageHeader_serialize header_wf_def)
  have n: "unat (of_nat ?n :: u32) = ?n" by (rule unat_of_nat_small) (use pad in simp)
  have "byte_slice 0 4 ?w = u32_to_le_bytes (of_nat ?n)"
    by (simp add: byte_slice_def wire_padded_def)
  moreover have "byte_slice 4 (4 + ?n) ?w = MessageHeader_serialize h @ pad"
    using l by (simp add: byte_slice_def wire_padded_def)
  moreover have "drop (4 + ?n) ?w = ct" "4 + ?n \<le> length ?w"
    using l by (simp_all add: wire_padded_def)
  ultimately show ?thesis
    using est n by (simp add: decrypt_message_def try_u32_def header_codec.prefix_roundtrip [OF wf] relay_def
        split_def Let_def del: of_nat_add)
qed

section \<open>A conversation between two sessions\<close>

fun session_send_all :: "prims \<Rightarrow> Session \<Rightarrow> (bytes \<times> bytes) list \<Rightarrow> Session \<times> bytes core_result list" where
  "session_send_all P s [] = (s, [])"
| "session_send_all P s ((nonce, pt) # ps) =
     (let (s1, r) = encrypt_message P nonce s pt; (s2, rs) = session_send_all P s1 ps in (s2, r # rs))"

fun session_recv_all :: "prims \<Rightarrow> Session \<Rightarrow> (bytes \<times> bytes) list \<Rightarrow> Session \<times> bytes core_result list" where
  "session_recv_all P s [] = (s, [])"
| "session_recv_all P s ((rnd, w) # ws) =
     (let (s1, r) = decrypt_message P rnd s w; (s2, rs) = session_recv_all P s1 ws in (s2, r # rs))"

fun session_run_turns :: "prims \<Rightarrow> Session \<Rightarrow> Session \<Rightarrow> turn list \<Rightarrow> bytes core_result list list" where
  "session_run_turns P S L [] = []"
| "session_run_turns P S L (t # ts) =
     (let (S', sent) = session_send_all P S (tn_says t);
          (L', got) = session_recv_all P L (map (\<lambda>(i, rnd). (rnd, ok_or [] (sent ! i))) (zip (tn_order t) (tn_rnds t)))
      in got # session_run_turns P L' S' ts)"

lemma session_send_all_relay:
  "\<lbrakk>ss_established s; length (rs_sending_ratchet_public (ss_ratchet s)) = 32;
    send_all P (ss_ratchet s) ps = (st, map Inr ms)\<rbrakk> \<Longrightarrow>
   session_send_all P s ps = (s\<lparr>ss_ratchet := st\<rparr>, map (\<lambda>m. Inr (wire_of m)) ms)"
proof (induction ps arbitrary: s ms)
  case (Cons p ps)
  obtain nonce pt where p: "p = (nonce, pt)" by fastforce
  obtain st1 r where e: "ratchet_encrypt P nonce (ss_ratchet s) pt = (st1, r)" by fastforce
  then have "length (rs_sending_ratchet_public st1) = 32"
    using Cons.prems(2) by (auto simp: ratchet_encrypt_def Let_def split: sum.splits prod.splits)
  then show ?case
    using Cons.prems e Cons.IH [of "s\<lparr>ss_ratchet := st1\<rparr>" "tl ms"] p
    by (cases ms) (auto simp: encrypt_message_relay relay_def split: prod.splits)
qed simp

lemma session_recv_all_relay:
  "\<lbrakk>ss_established s; list_all (\<lambda>(_, h, _). header_wf h) ms\<rbrakk> \<Longrightarrow>
   session_recv_all P s (map (\<lambda>(rnd, h, ct). (rnd, wire_of (ct, h))) ms) =
     (s\<lparr>ss_ratchet := fst (recv_all P (ss_ratchet s) ms)\<rparr>, snd (recv_all P (ss_ratchet s) ms))"
proof (induction ms arbitrary: s)
  case (Cons m ms)
  obtain rnd h ct where m: "m = (rnd, h, ct)" by (metis prod.exhaust)
  then show ?case
    using Cons.prems Cons.IH [of "s\<lparr>ss_ratchet := fst (ratchet_decrypt P rnd (ss_ratchet s) h ct)\<rparr>"]
    by (simp add: decrypt_message_relay relay_def split_def Let_def)
qed simp

lemma session_turns_heard:
  assumes tot: "hkdf_total P" and aead: "aead_correct P" and agr: "dh_agrees P"
  shows "\<lbrakk>ready P (ss_ratchet S) (ss_ratchet L); ss_established S; ss_established L; list_all turn_wf ts;
      distinct (rs_sending_ratchet_public (ss_ratchet L) # rs_sending_ratchet_public (ss_ratchet S) #
        map (\<lambda>t. pub_of P (hd (tn_rnds t))) ts)\<rbrakk>
    \<Longrightarrow> session_run_turns P S L ts = map heard ts"
proof (induction ts arbitrary: S L)
  case (Cons t ts)
  from Cons.prems have t: "turn_wf t" "pub_of P (hd (tn_rnds t)) \<noteq> rs_sending_ratchet_public (ss_ratchet L)" by auto
  from turn_step [OF tot aead agr Cons.prems(1) this] obtain S' L' ms where
    S': "send_all P (ss_ratchet S) (tn_says t) = (S', map Inr ms)" "length ms = length (tn_says t)"
    "list_all (\<lambda>m. header_wf (snd m)) ms"
    "recv_all P (ss_ratchet L) (arrivals (map Inr ms) t) = (L', heard t)"
    "ready P L' S'" "rs_sending_ratchet_public L' = pub_of P (hd (tn_rnds t))"
    "rs_sending_ratchet_public S' = rs_sending_ratchet_public (ss_ratchet S)" by blast
  let ?sent = "map (\<lambda>m. Inr (wire_of m)) ms :: bytes core_result list"
  have i: "i < length ms" if "(i, r) \<in> set (zip (tn_order t) (tn_rnds t))" for i r
    using set_zip_leftD [OF that] turn_order_set [OF t(1)] S'(2) by auto
  have "length (rs_sending_ratchet_public (ss_ratchet S)) = 32"
    using Cons.prems(1) by (auto simp: ready_def intro: dh_agreesD(1) [OF agr])
  then have "session_send_all P S (tn_says t) = (S\<lparr>ss_ratchet := S'\<rparr>, ?sent)"
    using session_send_all_relay Cons.prems(2) S'(1) by blast
  moreover have "map (\<lambda>(i, rnd). (rnd, ok_or [] (?sent ! i))) (zip (tn_order t) (tn_rnds t)) =
      map (\<lambda>(rnd, h, ct). (rnd, wire_of (ct, h))) (arrivals (map Inr ms) t)"
    using i by (auto simp: arrivals_def ok_or_def split_def)
  moreover have "list_all (\<lambda>(_, h, _). header_wf h) (arrivals (map Inr ms) t)"
    using i S'(3) by (auto simp: arrivals_def ok_or_def split_def list_all_iff)
  ultimately have "session_run_turns P S L (t # ts) =
      heard t # session_run_turns P (L\<lparr>ss_ratchet := L'\<rparr>) (S\<lparr>ss_ratchet := S'\<rparr>) ts"
    using session_recv_all_relay Cons.prems(3) S'(4) by simp
  moreover have "session_run_turns P (L\<lparr>ss_ratchet := L'\<rparr>) (S\<lparr>ss_ratchet := S'\<rparr>) ts = map heard ts"
    using Cons.prems S'(5-7) by (intro Cons.IH) auto
  ultimately show ?case by simp
qed simp

section \<open>The handshake produces two sessions that can talk\<close>

lemma x3dh_session_setup:
  assumes v: "setup_valid P s" and rnd: "length rnd = 32"
  shows "\<exists>SA SB msg.
      create_session P (xs_ephemeral s) rnd (xs_alice s) bob_id (setup_bundle P s) (verifying_key P (xs_bob s)) =
        Inr (SA, msg) \<and>
      accept_session P (xs_bob s) (xs_spk s) (xs_otp s) alice_id msg = Inr SB \<and>
      ready P (ss_ratchet SA) (ss_ratchet SB) \<and> ss_established SA \<and> ss_established SB \<and>
      rs_sending_ratchet_public (ss_ratchet SA) = pub_of P rnd \<and>
      rs_sending_ratchet_public (ss_ratchet SB) = pub_of P (xs_spk s)"
proof -
  have V: "dh_agrees P" "hkdf_total P" "length (ik_public (xs_alice s)) = 32" "length (xs_spk s) = 32"
      "length (pub_of P (xs_ephemeral s)) = 32"
    using v by (auto simp: setup_valid_def identity_wf_def intro: dh_agreesD(1))
  obtain k where k: "x3dh_kdf P (dh_values P s) = Inr k" using kdf_succeeds(1) [OF V(2)] by blast
  obtain r c where "kdf_rk P k (dh P rnd (pub_of P (xs_spk s))) = Inr (r, c)" by (rule kdf_rk_total [OF V(2)])
  then obtain A where A: "init_alice P rnd k (pub_of P (xs_spk s)) = Inr A"
      "rs_sending_ratchet_public A = pub_of P rnd" by (auto simp: init_alice_def)
  obtain B where B: "init_bob P k (xs_spk s) = Inr B" "rs_sending_ratchet_public B = pub_of P (xs_spk s)"
    by (auto simp: init_bob_def)
  let ?msg = "ik_public (xs_alice s) @ pub_of P (xs_ephemeral s) @
      (case map_option (pub_of P) (xs_otp s) of Some otp \<Rightarrow> 1 # otp | None \<Rightarrow> [0])"
  have "byte_slice 0 32 ?msg = ik_public (xs_alice s)" "byte_slice 32 64 ?msg = pub_of P (xs_ephemeral s)"
      "65 \<le> length ?msg"
    using V by (simp_all add: byte_slice_def split: option.split)
  moreover have "x3dh_respond P (xs_bob s) (xs_spk s) (xs_otp s) (ik_public (xs_alice s)) (pub_of P (xs_ephemeral s)) = Inr k"
    using signal_responder_eq [OF v] k by (simp add: signal_responder_def)
  ultimately have "accept_session P (xs_bob s) (xs_spk s) (xs_otp s) alice_id ?msg =
      Inr \<lparr>ss_peer_user_id = alice_id, ss_ratchet = B, ss_established = True\<rparr>"
    using V B(1) by (simp add: accept_session_def try_array_def split: option.split)
  moreover have "create_session P (xs_ephemeral s) rnd (xs_alice s) bob_id (setup_bundle P s) (verifying_key P (xs_bob s)) =
      Inr (\<lparr>ss_peer_user_id = bob_id, ss_ratchet = A, ss_established = True\<rparr>, ?msg)"
    using k A(1) by (simp add: create_session_def x3dh_initiate_setup [OF v])
  moreover have "ready P A B" using init_ready [OF V(2,1) rnd V(4) A(1) B(1)] .
  ultimately show ?thesis using A(2) B(2) by auto
qed

text \<open>Two parties with fixed keys and a conversation of two turns, the first out of order.\<close>

definition ref_setup :: x3dh_setup where
  "ref_setup =
     \<lparr>xs_alice = IdentityKeyPair_generate ref_prims (replicate 32 1) (replicate 32 2),
      xs_bob = IdentityKeyPair_generate ref_prims (replicate 32 3) (replicate 32 4),
      xs_spk = replicate 32 5, xs_otp = Some (replicate 32 6), xs_ephemeral = replicate 32 7\<rparr>"

definition ref_turns :: "turn list" where
  "ref_turns =
     [\<lparr>tn_says = [(replicate 12 1, [104, 105]), (replicate 12 2, []), (replicate 12 3, [33])],
       tn_order = [2, 0, 1], tn_rnds = [replicate 32 8, replicate 32 9, replicate 32 10]\<rparr>,
      \<lparr>tn_says = [(replicate 12 4, [111, 107])], tn_order = [0], tn_rnds = [replicate 32 11]\<rparr>]"

lemma ref_setup_valid: "setup_valid ref_prims ref_setup"
  by (simp add: setup_valid_def ref_prims_laws ref_setup_def identity_wf_def IdentityKeyPair_generate_def)

lemma ref_turns_wf: "list_all turn_wf ref_turns"
  by (simp add: ref_turns_def turn_wf_def sendable_def upt_rec add_mset_commute)

lemma ref_keys_distinct:
  "distinct (pub_of ref_prims (xs_spk ref_setup) # pub_of ref_prims (replicate 32 12) #
     map (\<lambda>t. pub_of ref_prims (hd (tn_rnds t))) ref_turns)"
  by (simp add: ref_prims_def ref_setup_def ref_turns_def)

text \<open>
  C1: after \<open>create_session\<close> on one side and \<open>accept_session\<close> with the resulting initial
  message on the other, any conversation decrypts: alternating turns, each of up to 1000
  messages that arrive in any order, give back exactly the plaintexts. The ratchet keys
  drawn by the listeners have to be distinct.
\<close>

theorem session_conversation:
  assumes "setup_valid P s" and "aead_correct P" and "length rnd = 32" and "list_all turn_wf ts"
    and "distinct (pub_of P (xs_spk s) # pub_of P rnd # map (\<lambda>t. pub_of P (hd (tn_rnds t))) ts)"
  shows "\<exists>SA SB msg.
      create_session P (xs_ephemeral s) rnd (xs_alice s) bob_id (setup_bundle P s) (verifying_key P (xs_bob s)) =
        Inr (SA, msg) \<and>
      accept_session P (xs_bob s) (xs_spk s) (xs_otp s) alice_id msg = Inr SB \<and>
      session_run_turns P SA SB ts = map heard ts"
proof -
  have L: "hkdf_total P" "dh_agrees P" using assms(1) by (auto simp: setup_valid_def)
  from x3dh_session_setup [OF assms(1,3)] obtain SA SB msg where S:
    "create_session P (xs_ephemeral s) rnd (xs_alice s) bob_id (setup_bundle P s) (verifying_key P (xs_bob s)) = Inr (SA, msg)"
    "accept_session P (xs_bob s) (xs_spk s) (xs_otp s) alice_id msg = Inr SB"
    "ready P (ss_ratchet SA) (ss_ratchet SB)" "ss_established SA" "ss_established SB"
    "rs_sending_ratchet_public (ss_ratchet SA) = pub_of P rnd"
    "rs_sending_ratchet_public (ss_ratchet SB) = pub_of P (xs_spk s)" by blast
  have "session_run_turns P SA SB ts = map heard ts"
    using session_turns_heard [OF L(1) assms(2) L(2) S(3-5) assms(4)] assms(5) S(6,7) by simp
  with S(1,2) show ?thesis by blast
qed

theorem session_conversation_witness:
  "\<exists>SA SB msg.
     create_session ref_prims (xs_ephemeral ref_setup) (replicate 32 12) (xs_alice ref_setup) [98]
       (setup_bundle ref_prims ref_setup) (verifying_key ref_prims (xs_bob ref_setup)) = Inr (SA, msg) \<and>
     accept_session ref_prims (xs_bob ref_setup) (xs_spk ref_setup) (xs_otp ref_setup) [97] msg = Inr SB \<and>
     session_run_turns ref_prims SA SB ref_turns =
       [[Inr [33], Inr [104, 105], Inr []], [Inr [111, 107]]]"
  using session_conversation [OF ref_setup_valid ref_prims_laws(3) _ ref_turns_wf ref_keys_distinct, of "[98]" "[97]"]
  by (simp add: ref_turns_def heard_def)

section \<open>Serialisation\<close>

definition session_wf :: "Session \<Rightarrow> bool" where
  "session_wf s \<longleftrightarrow> utf8_valid (ss_peer_user_id s) \<and> length (ss_peer_user_id s) < 2 ^ 32 \<and> ratchet_wf (ss_ratchet s)"

lemma deserialize_session_split:
  assumes "utf8_valid (ss_peer_user_id s)" "length (ss_peer_user_id s) < 2 ^ 32"
  shows "deserialize_session (serialize_session s @ rest) =
    bind_r (RatchetState_deserialize (RatchetState_serialize (ss_ratchet s) @ rest)) (\<lambda>r. Inr (s\<lparr>ss_ratchet := r\<rparr>))"
proof -
  let ?p = "ss_peer_user_id s" and ?d = "serialize_session s @ rest"
  have n: "unat (of_nat (length ?p) :: u32) = length ?p" using assms(2) by (rule unat_of_nat_small)
  have "byte_slice 0 4 ?d = u32_to_le_bytes (of_nat (length ?p))"
    "byte_slice 4 (4 + length ?p) ?d = ?p" "\<not> length ?d < 4 + length ?p + 1"
    "drop (4 + length ?p + 1) ?d = RatchetState_serialize (ss_ratchet s) @ rest"
    "?d ! (4 + length ?p) = (if ss_established s then 1 else 0)"
    by (simp_all add: byte_slice_def serialize_session_def nth_append Let_def)
  then show ?thesis
    using n assms(1) string_from_utf8_ok_iff [of ?p ?p]
    by (cases "RatchetState_deserialize (RatchetState_serialize (ss_ratchet s) @ rest)")
      (simp_all add: deserialize_session_def try_u32_def Let_def)
qed

interpretation session_codec:
  prefix_codec "\<lambda>s. session_wf s \<and> length (rs_skipped_keys (ss_ratchet s)) \<le> 1000"
    serialize_session deserialize_session
  by unfold_locales (simp add: session_wf_def deserialize_session_split ratchet_codec.prefix_roundtrip)

text \<open>
  C27: a session whose ratchet holds at most 1000 skipped keys survives persistence: decoding
  its serialisation, whatever bytes follow, gives the session back.
\<close>

theorem session_roundtrip:
  assumes "session_wf s" and "length (rs_skipped_keys (ss_ratchet s)) \<le> 1000"
  shows "deserialize_session (serialize_session s @ rest) = Inr s"
  using assms session_codec.prefix_roundtrip by blast

definition ref_session :: Session where
  "ref_session =
     \<lparr>ss_peer_user_id = [98, 111, 98],
      ss_ratchet =
        \<lparr>rs_root_key = replicate 32 1, rs_sending_chain_key = replicate 32 2,
         rs_receiving_chain_key = Some (replicate 32 3), rs_sending_ratchet_private = replicate 32 4,
         rs_sending_ratchet_public = replicate 32 4, rs_receiving_ratchet_key = Some (replicate 32 5),
         rs_send_counter = 2, rs_recv_counter = 3, rs_prev_send_counter = 1,
         rs_skipped_keys = [((replicate 32 5, 0), replicate 32 6), ((replicate 32 5, 2), replicate 32 7)]\<rparr>,
      ss_established = True\<rparr>"

lemma ref_session_wf: "session_wf ref_session"
  by (simp add: session_wf_def ref_session_def utf8_valid_ascii ratchet_wf_def key_option_wf_def
      hm_wf_def entry_wf_def)

theorem session_roundtrip_witness: "deserialize_session (serialize_session ref_session) = Inr ref_session"
  using session_roundtrip [OF ref_session_wf, of "[]"] by (simp add: ref_session_def)

text \<open>
  a session with more than 1000 skipped keys, which decryption can build up (the limit
  there is 2000), is serialised without complaint and refused by \<open>deserialize_session\<close>.
\<close>

theorem session_overfull_lost:
  assumes "session_wf s" and "1000 < length (rs_skipped_keys (ss_ratchet s))"
    and "length (rs_skipped_keys (ss_ratchet s)) \<le> MAX_SKIPPED_KEYS"
  shows "deserialize_session (serialize_session s) =
    Inl (Crypto ''RatchetState deserialize: too many skipped keys'')"
  using assms deserialize_session_split [of s "[]"] ratchet_deserialize_overfull [of "ss_ratchet s" "[]"]
  by (simp add: session_wf_def MAX_SKIPPED_KEYS_def)

definition crowded_session :: Session where
  "crowded_session =
     ref_session\<lparr>ss_ratchet := ss_ratchet ref_session
       \<lparr>rs_skipped_keys := map (\<lambda>i. ((replicate 32 5, of_nat i), replicate 32 6)) [0..<1001]\<rparr>\<rparr>"

lemma crowded_session_wf: "session_wf crowded_session"
proof -
  have "inj_on (\<lambda>i. (replicate 32 (5 :: byte), of_nat i :: u32)) {0..<1001}"
    by (rule inj_on_inverseI [of _ "unat \<circ> snd"]) (simp add: unat_of_nat_small)
  then show ?thesis
    using ref_session_wf
    by (simp add: session_wf_def crowded_session_def ratchet_wf_def hm_wf_def comp_def distinct_map entry_wf_def
        list_all_iff)
qed

theorem session_overfull_lost_witness:
  "deserialize_session (serialize_session crowded_session) =
     Inl (Crypto ''RatchetState deserialize: too many skipped keys'')"
  using session_overfull_lost [OF crowded_session_wf] by (simp add: crowded_session_def MAX_SKIPPED_KEYS_def)

text \<open>
  the header length of a message is not authenticated: inserting any bytes after the
  header, counted into the length prefix, leaves the result of \<open>decrypt_message\<close> and the new
  session unchanged, since only the 40 bytes of the parsed header are associated data.
\<close>

theorem header_padding_ignored:
  assumes "ss_established s" and "header_wf h" and "length pad < 2 ^ 31"
  shows "decrypt_message P rnd s (wire_padded pad (ct, h)) = decrypt_message P rnd s (wire_of (ct, h))"
  using assms by (simp add: decrypt_message_relay)

theorem header_padding_ignored_witness:
  "decrypt_message ref_prims (replicate 32 8) ref_session
     (wire_padded [1, 2, 3] (replicate 28 0,
        \<lparr>mh_ratchet_public_key = replicate 32 5, mh_prev_chain_length = 0, mh_message_number = 3\<rparr>)) =
   decrypt_message ref_prims (replicate 32 8) ref_session
     (wire_of (replicate 28 0,
        \<lparr>mh_ratchet_public_key = replicate 32 5, mh_prev_chain_length = 0, mh_message_number = 3\<rparr>))"
  by (rule header_padding_ignored) (simp_all add: ref_session_def header_wf_def)

end
