(* ===== verification/Core_Grp2.thy ===== *)
theory Core_Grp2
  imports Core_Keys
begin

text \<open>
  \<open>signal/grp2.rs\<close>: the signed group wire format. A frame is \<open>GRP2:\<close> followed by the base64
  of version, nonce, ciphertext, tag and an Ed25519 signature that also covers the
  conversation and message ids. \<open>Aes256Gcm::new_from_slice\<close> fails only for a key that is not
  32 bytes long, which both functions have excluded before they call it.
\<close>

section \<open>The operations\<close>

definition GRP2_PREFIX :: string where "GRP2_PREFIX = ''GRP2:''"
definition GRP2_VERSION :: byte where "GRP2_VERSION = 1"
definition GROUP_KEY_LEN :: nat where "GROUP_KEY_LEN = 32"
definition NONCE_LEN :: nat where "NONCE_LEN = 12"
definition TAG_LEN :: nat where "TAG_LEN = 16"
definition SIG_LEN :: nat where "SIG_LEN = 64"
definition UUID_LEN :: nat where "UUID_LEN = 16"

lemmas grp2_lengths = GROUP_KEY_LEN_def NONCE_LEN_def TAG_LEN_def SIG_LEN_def UUID_LEN_def

record Grp2PackInput =
  pi_group_key :: bytes
  pi_conversation_id :: bytes
  pi_message_id :: bytes
  pi_nonce :: bytes
  pi_plaintext :: bytes
  pi_signing_seed :: bytes

record Grp2PackOutput =
  po_wire_with_prefix :: string
  po_signature :: bytes
  po_ciphertext :: bytes
  po_tag :: bytes

record Grp2UnpackInput =
  ui_wire_with_prefix :: string
  ui_group_key :: bytes
  ui_expected_conversation_id :: bytes
  ui_expected_message_id :: bytes
  ui_sender_verify_key :: bytes

text \<open>An early return with an error when the condition does not hold.\<close>

definition require :: "bool \<Rightarrow> string \<Rightarrow> unit core_result" where
  "require b msg = (if b then Inr () else Inl (Crypto msg))"

lemma require_simps [simp]: "require True msg = Inr ()" "require False msg = Inl (Crypto msg)"
  by (simp_all add: require_def)

lemma require_ok_iff [simp]: "require b msg = Inr u \<longleftrightarrow> b"
  by (simp add: require_def)

definition must_be :: "string \<Rightarrow> nat \<Rightarrow> bytes \<Rightarrow> string" where
  "must_be what n bs = what @ '' must be '' @ dec_string n @ '' bytes, got '' @ dec_string (length bs)"

definition signature_payload ::
  "byte \<Rightarrow> bytes \<Rightarrow> bytes \<Rightarrow> bytes \<Rightarrow> bytes \<Rightarrow> bytes \<Rightarrow> bytes core_result" where
  "signature_payload version conversation_id message_id nonce ciphertext tag =
     bind_r (require (length conversation_id = UUID_LEN) (must_be ''conversation_id'' UUID_LEN conversation_id)) (\<lambda>_.
     bind_r (require (length message_id = UUID_LEN) (must_be ''message_id'' UUID_LEN message_id)) (\<lambda>_.
     bind_r (require (length nonce = NONCE_LEN) (must_be ''nonce'' NONCE_LEN nonce)) (\<lambda>_.
     bind_r (require (length tag = TAG_LEN) (must_be ''tag'' TAG_LEN tag)) (\<lambda>_.
     Inr ([version] @ conversation_id @ message_id @ nonce @ ciphertext @ tag)))))"

definition pack_grp2 :: "prims \<Rightarrow> Grp2PackInput \<Rightarrow> Grp2PackOutput core_result" where
  "pack_grp2 P input =
     bind_r (require (length (pi_group_key input) = GROUP_KEY_LEN)
               (must_be ''group_key'' GROUP_KEY_LEN (pi_group_key input))) (\<lambda>_.
     bind_r (require (length (pi_nonce input) = NONCE_LEN) (must_be ''nonce'' NONCE_LEN (pi_nonce input))) (\<lambda>_.
     bind_r (require (length (pi_conversation_id input) = UUID_LEN)
               (''conversation_id must be '' @ dec_string UUID_LEN @ '' bytes'')) (\<lambda>_.
     bind_r (require (length (pi_message_id input) = UUID_LEN)
               (''message_id must be '' @ dec_string UUID_LEN @ '' bytes'')) (\<lambda>_.
     bind_r (require (length (pi_signing_seed input) = 32)
               (''signing_seed must be 32 bytes (Ed25519 seed), got '' @
                dec_string (length (pi_signing_seed input)))) (\<lambda>_.
     bind_r (map_err (\<lambda>e. Crypto (''AES-GCM encrypt: '' @ e))
               (aead_enc P (pi_group_key input) (pi_nonce input) (pi_plaintext input) [])) (\<lambda>ct_with_tag.
     bind_r (require (TAG_LEN \<le> length ct_with_tag) ''AES-GCM output shorter than tag length (impossible)'') (\<lambda>_.
     let ct_len = length ct_with_tag - TAG_LEN;
         ciphertext = take ct_len ct_with_tag;
         tag = drop ct_len ct_with_tag
     in bind_r (signature_payload GRP2_VERSION (pi_conversation_id input) (pi_message_id input)
                  (pi_nonce input) ciphertext tag) (\<lambda>payload.
        bind_r (try_array 32 ''signing_seed not 32 bytes'' (pi_signing_seed input)) (\<lambda>seed_arr.
        let sig_bytes = ed_sign P seed_arr payload;
            wire = [GRP2_VERSION] @ pi_nonce input @ ciphertext @ tag @ sig_bytes
        in Inr \<lparr>po_wire_with_prefix = GRP2_PREFIX @ b64_encode P wire, po_signature = sig_bytes,
                po_ciphertext = ciphertext, po_tag = tag\<rparr>)))))))))"

definition hex_digit :: "nat \<Rightarrow> char" where
  "hex_digit n = (if n < 10 then char_of (48 + n) else char_of (87 + n))"

definition hex2 :: "byte \<Rightarrow> string" where
  "hex2 b = [hex_digit (unat b div 16), hex_digit (unat b mod 16)]"

definition unpack_grp2 :: "prims \<Rightarrow> Grp2UnpackInput \<Rightarrow> bytes core_result" where
  "unpack_grp2 P input =
     bind_r (require (take (length GRP2_PREFIX) (ui_wire_with_prefix input) = GRP2_PREFIX)
               ''missing GRP2: prefix'') (\<lambda>_.
     bind_r (map_err (\<lambda>e. Crypto (''base64 decode: '' @ e))
               (b64_decode P (drop (length GRP2_PREFIX) (ui_wire_with_prefix input)))) (\<lambda>wire.
     let min_len = 1 + NONCE_LEN + TAG_LEN + SIG_LEN in
     bind_r (require (min_len \<le> length wire)
               (''GRP2 wire too short: '' @ dec_string (length wire) @ '' bytes (min '' @ dec_string min_len @ '')'')) (\<lambda>_.
     let version = wire ! 0 in
     bind_r (require (version = GRP2_VERSION) (''unsupported GRP2 revision: 0x'' @ hex2 version)) (\<lambda>_.
     let nonce = byte_slice 1 (1 + NONCE_LEN) wire;
         sig_start = length wire - SIG_LEN;
         tag_start = sig_start - TAG_LEN;
         ciphertext = byte_slice (1 + NONCE_LEN) tag_start wire;
         tag = byte_slice tag_start sig_start wire;
         signature_bytes = drop sig_start wire
     in
     bind_r (signature_payload version (ui_expected_conversation_id input) (ui_expected_message_id input)
               nonce ciphertext tag) (\<lambda>payload.
     bind_r (try_array 32 ''sender_verify_key must be 32 bytes'' (ui_sender_verify_key input)) (\<lambda>vk_arr.
     bind_r (map_err (\<lambda>e. Crypto (''verify key parse: '' @ e)) (vk_from_bytes P vk_arr)) (\<lambda>verify_key.
     bind_r (try_array SIG_LEN ''signature not 64 bytes'' signature_bytes) (\<lambda>signature.
     bind_r (map_err (\<lambda>_. Crypto ''Ed25519 sender signature did not verify'')
               (ed_verify P verify_key payload signature)) (\<lambda>_.
     bind_r (require (length (ui_group_key input) = GROUP_KEY_LEN)
               (''group_key must be '' @ dec_string GROUP_KEY_LEN @ '' bytes'')) (\<lambda>_.
     map_err (\<lambda>e. Crypto (''AES-GCM decrypt: '' @ e))
       (aead_dec P (ui_group_key input) nonce (ciphertext @ tag) [])))))))))))"

section \<open>The signed payload and the frame\<close>

lemma signature_payload_ok_iff:
  "signature_payload v c m n ct t = Inr p \<longleftrightarrow>
     length c = 16 \<and> length m = 16 \<and> length n = 12 \<and> length t = 16 \<and> p = [v] @ c @ m @ n @ ct @ t"
  by (auto simp: signature_payload_def bind_r_eq_Inr grp2_lengths)

lemma signature_payload_inj:
  assumes "signature_payload v c m n ct t = Inr p" and "signature_payload v' c' m' n' ct' t' = Inr p"
  shows "v = v' \<and> c = c' \<and> m = m' \<and> n = n' \<and> ct = ct' \<and> t = t'"
  using assms by (auto simp: signature_payload_ok_iff)

definition frame :: "bytes \<Rightarrow> bytes \<Rightarrow> bytes \<Rightarrow> bytes \<Rightarrow> bytes" where
  "frame nonce ct tag sg = [GRP2_VERSION] @ nonce @ ct @ tag @ sg"

text \<open>The three slices \<open>unpack_grp2\<close> takes, and that they put the frame back together.\<close>

lemma frame_slices:
  assumes "length nonce = 12" "length tag = 16" "length sg = 64"
  shows "byte_slice 1 13 (frame nonce ct tag sg) = nonce"
    "byte_slice 13 (length (frame nonce ct tag sg) - 80) (frame nonce ct tag sg) = ct"
    "byte_slice (length (frame nonce ct tag sg) - 80) (length (frame nonce ct tag sg) - 64) (frame nonce ct tag sg) = tag"
    "drop (length (frame nonce ct tag sg) - 64) (frame nonce ct tag sg) = sg"
    "93 \<le> length (frame nonce ct tag sg)" "frame nonce ct tag sg ! 0 = GRP2_VERSION"
  using assms by (simp_all add: frame_def byte_slice_def drop_Cons')

lemma length_GRP2_PREFIX [simp]: "length GRP2_PREFIX = 5"
  by (simp add: GRP2_PREFIX_def)

lemma frame_of_slices:
  assumes "93 \<le> length w" and "w ! 0 = GRP2_VERSION"
  shows "\<exists>nonce ct tag sg. w = frame nonce ct tag sg \<and> length nonce = 12 \<and> length tag = 16 \<and> length sg = 64"
proof -
  obtain rest where r: "w = GRP2_VERSION # rest" "92 \<le> length rest" using assms by (cases w) auto
  let ?n = "take 12 rest" and ?r = "drop 12 rest"
  let ?k = "length ?r - 80"
  have "?r = take ?k ?r @ take 16 (drop ?k ?r) @ drop 16 (drop ?k ?r)" by (metis append_take_drop_id)
  then have "w = frame ?n (take ?k ?r) (take 16 (drop ?k ?r)) (drop 16 (drop ?k ?r))"
    using r(1) by (metis append_Cons append_Nil append_take_drop_id frame_def)
  moreover have "length ?n = 12" "length (take 16 (drop ?k ?r)) = 16" "length (drop 16 (drop ?k ?r)) = 64"
    using r(2) by simp_all
  ultimately show ?thesis by blast
qed

text \<open>What unpacking a well-formed frame computes.\<close>

lemma unpack_frame:
  assumes dec: "b64_decode P (drop 5 (ui_wire_with_prefix u)) = Inr (frame nonce ct tag sg)"
    and pre: "take 5 (ui_wire_with_prefix u) = GRP2_PREFIX"
    and len: "length nonce = 12" "length tag = 16" "length sg = 64"
  shows "unpack_grp2 P u =
    bind_r (signature_payload GRP2_VERSION (ui_expected_conversation_id u) (ui_expected_message_id u) nonce ct tag) (\<lambda>payload.
    bind_r (try_array 32 ''sender_verify_key must be 32 bytes'' (ui_sender_verify_key u)) (\<lambda>vk_arr.
    bind_r (map_err (\<lambda>e. Crypto (''verify key parse: '' @ e)) (vk_from_bytes P vk_arr)) (\<lambda>verify_key.
    bind_r (map_err (\<lambda>_. Crypto ''Ed25519 sender signature did not verify'')
               (ed_verify P verify_key payload sg)) (\<lambda>_.
    bind_r (require (length (ui_group_key u) = GROUP_KEY_LEN)
               (''group_key must be '' @ dec_string GROUP_KEY_LEN @ '' bytes'')) (\<lambda>_.
    map_err (\<lambda>e. Crypto (''AES-GCM decrypt: '' @ e)) (aead_dec P (ui_group_key u) nonce (ct @ tag) []))))))"
  unfolding unpack_grp2_def
  using assms frame_slices [OF len, of ct]
  by (simp add: Let_def grp2_lengths try_array_def)

definition pack_wf :: "Grp2PackInput \<Rightarrow> bool" where
  "pack_wf i \<longleftrightarrow> length (pi_group_key i) = 32 \<and> length (pi_nonce i) = 12 \<and> length (pi_conversation_id i) = 16 \<and>
     length (pi_message_id i) = 16 \<and> length (pi_signing_seed i) = 32 \<and> length (pi_plaintext i) \<le> 2 ^ 36"

lemma pack_grp2_total:
  assumes "aead_correct P" "pack_wf i"
  shows "\<exists>ct tag payload sg. length tag = 16 \<and>
    aead_dec P (pi_group_key i) (pi_nonce i) (ct @ tag) [] = Inr (pi_plaintext i) \<and>
    signature_payload GRP2_VERSION (pi_conversation_id i) (pi_message_id i) (pi_nonce i) ct tag = Inr payload \<and>
    sg = ed_sign P (pi_signing_seed i) payload \<and>
    pack_grp2 P i = Inr \<lparr>po_wire_with_prefix = GRP2_PREFIX @ b64_encode P (frame (pi_nonce i) ct tag sg),
      po_signature = sg, po_ciphertext = ct, po_tag = tag\<rparr>"
proof -
  have W: "length (pi_group_key i) = 32" "length (pi_nonce i) = 12" "length (pi_conversation_id i) = 16"
     "length (pi_message_id i) = 16" "length (pi_signing_seed i) = 32" "length (pi_plaintext i) \<le> 2 ^ 36"
    using assms(2) by (auto simp: pack_wf_def)
  obtain c where c: "aead_enc P (pi_group_key i) (pi_nonce i) (pi_plaintext i) [] = Inr c"
    "length c = length (pi_plaintext i) + 16"
    "aead_dec P (pi_group_key i) (pi_nonce i) c [] = Inr (pi_plaintext i)"
    using aead_correctE [OF assms(1) W(1,2,6), of "[]"] by auto
  let ?k = "length c - 16"
  have "signature_payload GRP2_VERSION (pi_conversation_id i) (pi_message_id i) (pi_nonce i) (take ?k c) (drop ?k c) =
      Inr ([GRP2_VERSION] @ pi_conversation_id i @ pi_message_id i @ pi_nonce i @ take ?k c @ drop ?k c)"
    using W c(2) by (simp add: signature_payload_ok_iff)
  then show ?thesis
    using W c
    by (intro exI [of _ "take ?k c"] exI [of _ "drop ?k c"] exI conjI)
      (simp_all add: pack_grp2_def grp2_lengths Let_def try_array_def frame_def)
qed

section \<open>Properties\<close>

abbreviation unpack_as :: "Grp2PackInput \<Rightarrow> Grp2PackOutput \<Rightarrow> bytes \<Rightarrow> bytes \<Rightarrow> bytes \<Rightarrow> Grp2UnpackInput" where
  "unpack_as i out conv msg vk \<equiv>
     \<lparr>ui_wire_with_prefix = po_wire_with_prefix out, ui_group_key = pi_group_key i,
      ui_expected_conversation_id = conv, ui_expected_message_id = msg, ui_sender_verify_key = vk\<rparr>"

text \<open>
  C28: packing a well-formed input succeeds, and unpacking the frame with the group key, the
  ids it was packed for and the sender's verifying key returns the plaintext.
\<close>

theorem grp2_roundtrip:
  assumes "aead_correct P" "sig_correct P" "b64_correct P" "pack_wf i"
  shows "\<exists>out. pack_grp2 P i = Inr out \<and>
    unpack_grp2 P (unpack_as i out (pi_conversation_id i) (pi_message_id i) (ed_public P (pi_signing_seed i))) =
      Inr (pi_plaintext i)"
proof -
  have W: "length (pi_signing_seed i) = 32" "length (pi_nonce i) = 12" "length (pi_group_key i) = 32"
    using assms(4) by (auto simp: pack_wf_def)
  from pack_grp2_total [OF assms(1,4)] obtain ct tag payload sg where
    o: "length tag = 16" "aead_dec P (pi_group_key i) (pi_nonce i) (ct @ tag) [] = Inr (pi_plaintext i)"
    "signature_payload GRP2_VERSION (pi_conversation_id i) (pi_message_id i) (pi_nonce i) ct tag = Inr payload"
    "sg = ed_sign P (pi_signing_seed i) payload"
    "pack_grp2 P i = Inr \<lparr>po_wire_with_prefix = GRP2_PREFIX @ b64_encode P (frame (pi_nonce i) ct tag sg),
      po_signature = sg, po_ciphertext = ct, po_tag = tag\<rparr>" by blast
  have "length sg = 64" using o(4) sig_correctD(2) [OF assms(2) W(1)] by simp
  then show ?thesis
    using o W assms(3) sig_correctD [OF assms(2) W(1)]
    by (simp add: unpack_frame [OF _ _ W(2) o(1)] b64_correct_def try_array_def grp2_lengths)
qed

definition ref_pack :: Grp2PackInput where
  "ref_pack = \<lparr>pi_group_key = replicate 32 66, pi_conversation_id = replicate 16 1, pi_message_id = replicate 16 2,
     pi_nonce = replicate 12 3, pi_plaintext = [104, 105], pi_signing_seed = replicate 32 122\<rparr>"

lemma ref_pack_wf: "pack_wf ref_pack"
  by (simp add: pack_wf_def ref_pack_def)

theorem grp2_roundtrip_witness:
  "\<exists>out. pack_grp2 ref_prims ref_pack = Inr out \<and>
     unpack_grp2 ref_prims (unpack_as ref_pack out (replicate 16 1) (replicate 16 2) (replicate 32 122)) = Inr [104, 105]"
  using grp2_roundtrip [OF ref_prims_laws(3,4,5) ref_pack_wf] by (simp add: ref_pack_def ref_prims_def)

text \<open>
  C26: a frame packed for one conversation and message is accepted under other ids only if
  its signature also verifies for the payload with those ids, which is a different payload.
  Otherwise \<open>unpack_grp2\<close> reports the signature failure and decrypts nothing.
\<close>

theorem grp2_rebinding_needs_forgery:
  assumes "aead_correct P" "sig_correct P" "b64_correct P" "pack_wf i"
    and "length conv = 16" "length msg = 16" "(conv, msg) \<noteq> (pi_conversation_id i, pi_message_id i)"
  shows "\<exists>out payload payload'. pack_grp2 P i = Inr out \<and> payload' \<noteq> payload \<and>
    signature_payload GRP2_VERSION (pi_conversation_id i) (pi_message_id i) (pi_nonce i) (po_ciphertext out) (po_tag out)
      = Inr payload \<and>
    po_signature out = ed_sign P (pi_signing_seed i) payload \<and>
    signature_payload GRP2_VERSION conv msg (pi_nonce i) (po_ciphertext out) (po_tag out) = Inr payload' \<and>
    unpack_grp2 P (unpack_as i out conv msg (ed_public P (pi_signing_seed i))) =
      (case ed_verify P (ed_public P (pi_signing_seed i)) payload' (po_signature out) of
         Inr _ \<Rightarrow> Inr (pi_plaintext i)
       | Inl _ \<Rightarrow> Inl (Crypto ''Ed25519 sender signature did not verify''))"
proof -
  have W: "length (pi_signing_seed i) = 32" "length (pi_nonce i) = 12" "length (pi_group_key i) = 32"
    using assms(4) by (auto simp: pack_wf_def)
  from pack_grp2_total [OF assms(1,4)] obtain ct tag payload sg where
    o: "length tag = 16" "aead_dec P (pi_group_key i) (pi_nonce i) (ct @ tag) [] = Inr (pi_plaintext i)"
    "signature_payload GRP2_VERSION (pi_conversation_id i) (pi_message_id i) (pi_nonce i) ct tag = Inr payload"
    "sg = ed_sign P (pi_signing_seed i) payload"
    "pack_grp2 P i = Inr \<lparr>po_wire_with_prefix = GRP2_PREFIX @ b64_encode P (frame (pi_nonce i) ct tag sg),
      po_signature = sg, po_ciphertext = ct, po_tag = tag\<rparr>" by blast
  obtain payload' where p': "signature_payload GRP2_VERSION conv msg (pi_nonce i) ct tag = Inr payload'"
    using assms(5,6) W(2) o(1) by (simp add: signature_payload_ok_iff)
  have "payload' \<noteq> payload" using signature_payload_inj [OF o(3)] p' assms(7) by auto
  moreover have "length sg = 64" using o(4) sig_correctD(2) [OF assms(2) W(1)] by simp
  then have "unpack_grp2 P (unpack_as i \<lparr>po_wire_with_prefix = GRP2_PREFIX @ b64_encode P (frame (pi_nonce i) ct tag sg),
      po_signature = sg, po_ciphertext = ct, po_tag = tag\<rparr> conv msg (ed_public P (pi_signing_seed i))) =
    (case ed_verify P (ed_public P (pi_signing_seed i)) payload' sg of
         Inr _ \<Rightarrow> Inr (pi_plaintext i)
       | Inl _ \<Rightarrow> Inl (Crypto ''Ed25519 sender signature did not verify''))"
    using o W p' assms(3) sig_correctD [OF assms(2) W(1)]
    by (simp add: unpack_frame [OF _ _ W(2) o(1)] b64_correct_def try_array_def grp2_lengths split: sum.split)
  ultimately show ?thesis using o p' by (intro exI conjI) (assumption | simp)+
qed

theorem grp2_rebinding_needs_forgery_witness:
  "\<exists>out payload payload'. pack_grp2 ref_prims ref_pack = Inr out \<and> payload' \<noteq> payload \<and>
    signature_payload GRP2_VERSION (replicate 16 1) (replicate 16 2) (replicate 12 3) (po_ciphertext out) (po_tag out)
      = Inr payload \<and>
    po_signature out = ed_sign ref_prims (replicate 32 122) payload \<and>
    signature_payload GRP2_VERSION (replicate 16 9) (replicate 16 2) (replicate 12 3) (po_ciphertext out) (po_tag out)
      = Inr payload' \<and>
    unpack_grp2 ref_prims (unpack_as ref_pack out (replicate 16 9) (replicate 16 2) (ed_public ref_prims (replicate 32 122))) =
      (case ed_verify ref_prims (ed_public ref_prims (replicate 32 122)) payload' (po_signature out) of
         Inr _ \<Rightarrow> Inr [104, 105]
       | Inl _ \<Rightarrow> Inl (Crypto ''Ed25519 sender signature did not verify''))"
  using grp2_rebinding_needs_forgery [OF ref_prims_laws(3,4,5) ref_pack_wf, of "replicate 16 9" "replicate 16 2"]
  by (simp add: ref_pack_def cong del: sum.case_cong_weak)

text \<open>
  C13: what \<open>unpack_grp2\<close> accepts is exactly a prefixed base64 frame of version 1, nonce,
  ciphertext, tag and signature, whose signature verifies over the expected ids under a
  parsable 32-byte key, and whose ciphertext opens under the 32-byte group key.
\<close>

theorem unpack_grp2_accepts_iff:
  "unpack_grp2 P u = Inr pt \<longleftrightarrow>
     (\<exists>nonce ct tag sg vk. take 5 (ui_wire_with_prefix u) = GRP2_PREFIX \<and>
        b64_decode P (drop 5 (ui_wire_with_prefix u)) = Inr (frame nonce ct tag sg) \<and>
        length nonce = 12 \<and> length tag = 16 \<and> length sg = 64 \<and>
        length (ui_expected_conversation_id u) = 16 \<and> length (ui_expected_message_id u) = 16 \<and>
        length (ui_sender_verify_key u) = 32 \<and> vk_from_bytes P (ui_sender_verify_key u) = Inr vk \<and>
        ed_verify P vk ([GRP2_VERSION] @ ui_expected_conversation_id u @ ui_expected_message_id u @ nonce @ ct @ tag) sg = Inr () \<and>
        length (ui_group_key u) = 32 \<and> aead_dec P (ui_group_key u) nonce (ct @ tag) [] = Inr pt)"
  (is "?L \<longleftrightarrow> ?R")
proof
  assume L: ?L
  then obtain w where w: "take 5 (ui_wire_with_prefix u) = GRP2_PREFIX"
    "b64_decode P (drop 5 (ui_wire_with_prefix u)) = Inr w" "93 \<le> length w" "w ! 0 = GRP2_VERSION"
    by (auto simp: unpack_grp2_def bind_r_eq_Inr Let_def grp2_lengths map_err_eq_Inr)
  obtain nonce ct tag sg where f: "w = frame nonce ct tag sg" "length nonce = 12" "length tag = 16" "length sg = 64"
    using frame_of_slices [OF w(3,4)] by blast
  show ?R
    using L w(1,2) f
    by (rule_tac exI [of _ nonce], rule_tac exI [of _ ct], rule_tac exI [of _ tag], rule_tac exI [of _ sg])
      (auto simp: unpack_frame [OF _ _ f(2-4)] bind_r_eq_Inr map_err_eq_Inr signature_payload_ok_iff try_array_def
        grp2_lengths split: if_splits)
next
  assume ?R
  then show ?L
    by (auto simp: unpack_frame signature_payload_ok_iff [THEN iffD2] try_array_def grp2_lengths)
qed

end
