(* ===== verification/Srv_Base.thy ===== *)
theory Srv_Base
  imports Echo_Prelude
begin

text \<open>
  What the server components share: instants and durations as natural numbers of
  nanoseconds (\<open>Instant::duration_since\<close> saturates at zero, as subtraction on \<open>nat\<close> does),
  identifiers, and the text functions of the standard library the sources use.
\<close>

section \<open>Time and identifiers\<close>

type_synonym u64 = "64 word"
type_synonym u16 = "16 word"
type_synonym Uuid = "128 word"
type_synonym device_id = "32 word"
type_synonym instant = nat

text \<open>
  Evaluation of identifiers: a literal far below the width of the word is already reduced, which
  spares the kernel a remainder by \<open>2 ^ 128\<close> at every comparison.
\<close>

lemma take_bit_small [code]: "take_bit n (k::int) = (if 12 \<le> n \<and> 0 \<le> k \<and> k < 4096 then k else k mod 2 ^ n)"
proof (cases "12 \<le> n \<and> 0 \<le> k \<and> k < 4096")
  case True
  then have "(2::int) ^ 12 \<le> 2 ^ n" by (intro power_increasing) auto
  with True show ?thesis by (simp add: take_bit_eq_mod)
qed (auto simp: take_bit_eq_mod)

definition nanos_per_sec :: nat where "nanos_per_sec = 1000000000"

definition duration_since :: "instant \<Rightarrow> instant \<Rightarrow> nat" where
  "duration_since now earlier = now - earlier"

definition as_secs :: "nat \<Rightarrow> nat" where
  "as_secs d = d div nanos_per_sec"

lemma as_secs_ge_iff: "n \<le> as_secs d \<longleftrightarrow> n * nanos_per_sec \<le> d"
  unfolding as_secs_def nanos_per_sec_def by (simp add: less_eq_div_iff_mult_less_eq)

lemma as_secs_mono: "d \<le> e \<Longrightarrow> as_secs d \<le> as_secs e"
  unfolding as_secs_def by (rule div_le_mono)

lemma duration_since_mono: "a \<le> b \<Longrightarrow> duration_since a t \<le> duration_since b t"
  by (simp add: duration_since_def)

section \<open>Text\<close>

text \<open>\<open>str::trim\<close> on ASCII text: tab, line feed, vertical tab, form feed, carriage return, space.\<close>

definition is_space :: "char \<Rightarrow> bool" where
  "is_space c \<longleftrightarrow> of_char c \<in> {9, 10, 11, 12, 13, 32 :: nat}"

definition trim :: "string \<Rightarrow> string" where
  "trim s = rev (dropWhile is_space (rev (dropWhile is_space s)))"

text \<open>\<open>s.rsplit(c).next()\<close>: what follows the last \<open>c\<close>, or all of \<open>s\<close>.\<close>

definition after_last :: "char \<Rightarrow> string \<Rightarrow> string" where
  "after_last c s = rev (takeWhile (\<lambda>x. x \<noteq> c) (rev s))"

definition starts_with :: "'a list \<Rightarrow> 'a list \<Rightarrow> bool" where
  "starts_with pre s \<longleftrightarrow> take (length pre) s = pre"

lemma starts_with_iff: "starts_with pre s \<longleftrightarrow> (\<exists>rest. s = pre @ rest)"
  unfolding starts_with_def by (metis append_eq_conv_conj append_take_drop_id)

text \<open>
  A Rust \<open>str\<close> is a list of bytes that is valid UTF-8; \<open>str::chars\<close> decodes it to the list of
  its scalar values. \<open>char::is_whitespace\<close> is the Unicode property \<open>White_Space\<close>.
\<close>

fun chars :: "string \<Rightarrow> int list" where
  "chars [] = []"
| "chars (a # s) =
     (let n = of_char a in
      if n < 128 then n # chars s
      else case s of
        [] \<Rightarrow> [n]
      | b # s1 \<Rightarrow>
          if n < 224 then ((n mod 32) * 64 + of_char b mod 64) # chars s1
          else case s1 of
            [] \<Rightarrow> [n]
          | c # s2 \<Rightarrow>
              if n < 240 then ((n mod 16) * 4096 + (of_char b mod 64) * 64 + of_char c mod 64) # chars s2
              else case s2 of
                [] \<Rightarrow> [n]
              | d # s3 \<Rightarrow>
                  ((n mod 8) * 262144 + (of_char b mod 64) * 4096 + (of_char c mod 64) * 64 + of_char d mod 64) # chars s3)"

definition is_whitespace :: "int \<Rightarrow> bool" where
  "is_whitespace c \<longleftrightarrow>
     (9 \<le> c \<and> c \<le> 13) \<or> (0x2000 \<le> c \<and> c \<le> 0x200A) \<or>
     c \<in> set [32, 0x85, 0xA0, 0x1680, 0x2028, 0x2029, 0x202F, 0x205F, 0x3000]"

text \<open>\<open>s.trim().is_empty()\<close>.\<close>

definition blank :: "string \<Rightarrow> bool" where
  "blank s \<longleftrightarrow> list_all is_whitespace (chars s)"

text \<open>\<open>str::trim\<close> as a list of bytes: the text is cut into the encodings of its scalar values.\<close>

fun encodings :: "string \<Rightarrow> string list" where
  "encodings [] = []"
| "encodings (a # s) =
     (let n = (of_char a :: int) in
      if n < 128 then [a] # encodings s
      else let k = (if n < 224 then 1 else if n < 240 then 2 else 3)
           in (a # take k s) # encodings (drop k s))"

definition trim_str :: "string \<Rightarrow> string" where
  "trim_str s =
     (let ws = (\<lambda>e. blank e)
      in concat (rev (dropWhile ws (rev (dropWhile ws (encodings s))))))"

end
