(* ===== verification/Srv_RateLimit.thy ===== *)
theory Srv_RateLimit
  imports Srv_Base
begin

unbundle bit_operations_syntax

text \<open>
  \<open>middleware/rate_limit.rs\<close>: the fixed-window limiter of the HTTP routes, with its periodic
  sweep of expired buckets, and the choice of the client address. The clock is an argument.
  A call of \<open>check\<close> is one atomic step here; whether its \<open>compare_exchange\<close> wins is an argument
  too, so that the results cover the runs in which another thread took the sweep.
\<close>

section \<open>The limiter\<close>

definition SWEEP_INTERVAL_SECS :: u64 where "SWEEP_INTERVAL_SECS = 60"

record RateBucket =
  rb_count :: u32
  rb_window_start :: instant

record SweepState =
  sw_epoch :: instant
  sw_last_sweep_nanos :: u64

datatype IpAddr = V4 byte byte byte byte | V6 "u16 list"

record 'net RateLimiter =
  rl_entries :: "(IpAddr, RateBucket) hmap"
  rl_max_requests :: u32
  rl_window_secs :: u64
  rl_trusted_proxies :: "'net list"
  rl_sweep :: SweepState

definition new_sweep :: "instant \<Rightarrow> SweepState" where
  "new_sweep now = \<lparr>sw_epoch = now, sw_last_sweep_nanos = 0\<rparr>"

definition with_trusted_proxies :: "instant \<Rightarrow> u32 \<Rightarrow> u64 \<Rightarrow> 'net list \<Rightarrow> 'net RateLimiter" where
  "with_trusted_proxies now max_requests window_secs proxies =
     \<lparr>rl_entries = [], rl_max_requests = max_requests, rl_window_secs = window_secs,
      rl_trusted_proxies = proxies, rl_sweep = new_sweep now\<rparr>"

definition RateLimiter_new :: "instant \<Rightarrow> u32 \<Rightarrow> u64 \<Rightarrow> 'net RateLimiter" where
  "RateLimiter_new now max_requests window_secs =
     \<lparr>rl_entries = [], rl_max_requests = max_requests, rl_window_secs = window_secs,
      rl_trusted_proxies = [], rl_sweep = new_sweep now\<rparr>"

text \<open>The shared \<open>Arc\<close> of the proxy list is a value here.\<close>

definition with_shared_proxies :: "instant \<Rightarrow> u32 \<Rightarrow> u64 \<Rightarrow> 'net list \<Rightarrow> 'net RateLimiter" where
  "with_shared_proxies now max_requests window_secs proxies =
     \<lparr>rl_entries = [], rl_max_requests = max_requests, rl_window_secs = window_secs,
      rl_trusted_proxies = proxies, rl_sweep = new_sweep now\<rparr>"

definition saturating_sub_u64 :: "u64 \<Rightarrow> u64 \<Rightarrow> u64" where
  "saturating_sub_u64 a b = (if a < b then 0 else a - b)"

text \<open>The sweep at the head of \<open>check\<close>.\<close>

definition check_sweep :: "instant \<Rightarrow> bool \<Rightarrow> 'net RateLimiter \<Rightarrow> 'net RateLimiter" where
  "check_sweep now cas_wins rl =
     (let now_nanos = (of_nat (duration_since now (sw_epoch (rl_sweep rl))) :: u64);
          last = sw_last_sweep_nanos (rl_sweep rl);
          interval_nanos = SWEEP_INTERVAL_SECS * 1000000000
      in if interval_nanos \<le> saturating_sub_u64 now_nanos last \<and> cas_wins
         then
           let cleanup_threshold = rl_window_secs rl * 2
           in rl\<lparr>rl_sweep := (rl_sweep rl)\<lparr>sw_last_sweep_nanos := now_nanos\<rparr>,
                 rl_entries := hm_retain (\<lambda>_ bucket.
                    as_secs (duration_since now (rb_window_start bucket)) < unat cleanup_threshold) (rl_entries rl)\<rparr>
         else rl)"

definition check :: "instant \<Rightarrow> bool \<Rightarrow> 'net RateLimiter \<Rightarrow> IpAddr \<Rightarrow> 'net RateLimiter \<times> bool" where
  "check now cas_wins self ip =
     (let rl = check_sweep now cas_wins self;
          bucket0 = (case hm_get (rl_entries rl) ip of
                       Some b \<Rightarrow> b
                     | None \<Rightarrow> \<lparr>rb_count = 0, rb_window_start = now\<rparr>);
          bucket1 = (if unat (rl_window_secs rl) \<le> as_secs (duration_since now (rb_window_start bucket0))
                     then bucket0\<lparr>rb_count := 0, rb_window_start := now\<rparr> else bucket0);
          bucket = bucket1\<lparr>rb_count := rb_count bucket1 + 1\<rparr>
      in (rl\<lparr>rl_entries := hm_insert ip bucket (rl_entries rl)\<rparr>, rb_count bucket \<le> rl_max_requests rl))"

section \<open>The client address\<close>

definition v4_is_private :: "byte \<Rightarrow> byte \<Rightarrow> bool" where
  "v4_is_private a b \<longleftrightarrow> a = 10 \<or> a = 172 \<and> 16 \<le> b \<and> b \<le> 31 \<or> a = 192 \<and> b = 168"

definition v4_is_link_local :: "byte \<Rightarrow> byte \<Rightarrow> bool" where
  "v4_is_link_local a b \<longleftrightarrow> a = 169 \<and> b = 254"

definition v6_loopback :: "u16 list" where "v6_loopback = [0, 0, 0, 0, 0, 0, 0, 1]"

fun is_loopback :: "IpAddr \<Rightarrow> bool" where
  "is_loopback (V4 a _ _ _) = (a = 127)"
| "is_loopback (V6 s) = (s = v6_loopback)"

fun is_unspecified :: "IpAddr \<Rightarrow> bool" where
  "is_unspecified (V4 a b c d) = (a = 0 \<and> b = 0 \<and> c = 0 \<and> d = 0)"
| "is_unspecified (V6 s) = (s = replicate 8 0)"

definition to_ipv4_mapped :: "u16 list \<Rightarrow> (byte \<times> byte \<times> byte \<times> byte) option" where
  "to_ipv4_mapped s =
     (if length s = 8 \<and> take 6 s = [0, 0, 0, 0, 0, 0xFFFF]
      then Some (ucast (drop_bit 8 (s ! 6)), ucast (s ! 6), ucast (drop_bit 8 (s ! 7)), ucast (s ! 7))
      else None)"

fun is_private :: "IpAddr \<Rightarrow> bool" where
  "is_private (V4 a b _ _) = (v4_is_private a b \<or> v4_is_link_local a b \<or> a = 127)"
| "is_private (V6 s) =
     (case to_ipv4_mapped s of
        Some (a, b, _, _) \<Rightarrow> v4_is_private a b \<or> v4_is_link_local a b \<or> a = 127
      | None \<Rightarrow>
          let first_segment = s ! 0;
              is_ula = (first_segment AND 0xFE00 = 0xFC00);
              is_link_local = (first_segment AND 0xFFC0 = 0xFE80)
          in is_ula \<or> is_link_local \<or> s = v6_loopback)"

text \<open>
  A request as the limiter sees it, and the library functions it calls: \<open>HeaderValue::to_str\<close>,
  the address parser of the standard library, and \<open>IpNet::contains\<close>.
\<close>

record request =
  rq_connect_info :: "IpAddr option"
  rq_x_real_ip :: "bytes option"
  rq_x_forwarded_for :: "bytes option"

record 'net ip_lib =
  il_to_str :: "bytes \<Rightarrow> string option"
  il_parse :: "string \<Rightarrow> IpAddr option"
  il_contains :: "'net \<Rightarrow> IpAddr \<Rightarrow> bool"

definition peer_ip :: "request \<Rightarrow> IpAddr" where
  "peer_ip req = (case rq_connect_info req of Some ip \<Rightarrow> ip | None \<Rightarrow> V4 127 0 0 1)"

definition real_ip :: "'net ip_lib \<Rightarrow> request \<Rightarrow> IpAddr option" where
  "real_ip lib req =
     Option.bind (rq_x_real_ip req) (\<lambda>xri.
     Option.bind (il_to_str lib xri) (\<lambda>value. il_parse lib (trim value)))"

definition forwarded_ip :: "'net ip_lib \<Rightarrow> request \<Rightarrow> IpAddr option" where
  "forwarded_ip lib req =
     Option.bind (rq_x_forwarded_for req) (\<lambda>xff.
     Option.bind (il_to_str lib xff) (\<lambda>value.
     Option.bind (il_parse lib (trim (after_last (CHR '','') value))) (\<lambda>ip.
       if \<not> is_loopback ip \<and> \<not> is_unspecified ip \<and> \<not> is_private ip then Some ip else None)))"

definition extract_ip :: "'net ip_lib \<Rightarrow> request \<Rightarrow> 'net list \<Rightarrow> IpAddr" where
  "extract_ip lib req trusted_proxies =
     (let direct = peer_ip req
      in if trusted_proxies = [] \<or> \<not> list_ex (\<lambda>net. il_contains lib net direct) trusted_proxies then direct
         else (case real_ip lib req of
                 Some ip \<Rightarrow> ip
               | None \<Rightarrow> (case forwarded_ip lib req of Some ip \<Rightarrow> ip | None \<Rightarrow> direct)))"

section \<open>The middleware and the configured limiters\<close>

datatype 'r response = TooManyRequests string | Response 'r

definition rate_limit_layer ::
  "'net ip_lib \<Rightarrow> instant \<Rightarrow> bool \<Rightarrow> 'net RateLimiter \<Rightarrow> request \<Rightarrow> (request \<Rightarrow> 'r)
     \<Rightarrow> 'net RateLimiter \<times> 'r response" where
  "rate_limit_layer lib now cas_wins limiter req next_run =
     (let ip = extract_ip lib req (rl_trusted_proxies limiter);
          (limiter', allowed) = check now cas_wins limiter ip
      in if \<not> allowed then (limiter', TooManyRequests ''Too many requests. Please try again later.'')
         else (limiter', Response (next_run req)))"

definition login_limiter :: "instant \<Rightarrow> 'net list \<Rightarrow> 'net RateLimiter" where
  "login_limiter now proxies = with_shared_proxies now 5 60 proxies"
definition register_limiter :: "instant \<Rightarrow> 'net list \<Rightarrow> 'net RateLimiter" where
  "register_limiter now proxies = with_shared_proxies now 3 60 proxies"
definition refresh_limiter :: "instant \<Rightarrow> 'net list \<Rightarrow> 'net RateLimiter" where
  "refresh_limiter now proxies = with_shared_proxies now 10 60 proxies"
definition ticket_limiter :: "instant \<Rightarrow> 'net list \<Rightarrow> 'net RateLimiter" where
  "ticket_limiter now proxies = with_shared_proxies now 10 60 proxies"
definition media_upload_limiter :: "instant \<Rightarrow> 'net list \<Rightarrow> 'net RateLimiter" where
  "media_upload_limiter now proxies = with_shared_proxies now 30 60 proxies"
definition avatar_upload_limiter :: "instant \<Rightarrow> 'net list \<Rightarrow> 'net RateLimiter" where
  "avatar_upload_limiter now proxies = with_shared_proxies now 6 60 proxies"
definition link_preview_limiter :: "instant \<Rightarrow> 'net list \<Rightarrow> 'net RateLimiter" where
  "link_preview_limiter now proxies = with_shared_proxies now 20 60 proxies"
definition key_reset_limiter :: "instant \<Rightarrow> 'net list \<Rightarrow> 'net RateLimiter" where
  "key_reset_limiter now proxies = with_shared_proxies now 3 300 proxies"
definition revoke_others_limiter :: "instant \<Rightarrow> 'net list \<Rightarrow> 'net RateLimiter" where
  "revoke_others_limiter now proxies = with_shared_proxies now 3 60 proxies"
definition edit_message_limiter :: "instant \<Rightarrow> 'net list \<Rightarrow> 'net RateLimiter" where
  "edit_message_limiter now proxies = with_shared_proxies now 30 60 proxies"
definition forgot_password_limiter :: "instant \<Rightarrow> 'net list \<Rightarrow> 'net RateLimiter" where
  "forgot_password_limiter now proxies = with_shared_proxies now 3 300 proxies"
definition reset_password_limiter :: "instant \<Rightarrow> 'net list \<Rightarrow> 'net RateLimiter" where
  "reset_password_limiter now proxies = with_shared_proxies now 5 300 proxies"

section \<open>One bucket per address\<close>

text \<open>
  What the limiter promises: every address is limited by a machine of its own, which knows
  nothing of sweeps and of other addresses.
\<close>

definition bucket_step :: "nat \<Rightarrow> u32 \<Rightarrow> instant \<Rightarrow> RateBucket option \<Rightarrow> RateBucket \<times> bool" where
  "bucket_step window max_requests now b =
     (let (n, start) = (case b of
            Some b \<Rightarrow> if window \<le> as_secs (now - rb_window_start b) then (1, now) else (rb_count b + 1, rb_window_start b)
          | None \<Rightarrow> (1, now))
      in (\<lparr>rb_count = n, rb_window_start = start\<rparr>, n \<le> max_requests))"

fun bucket_run :: "nat \<Rightarrow> u32 \<Rightarrow> RateBucket option \<Rightarrow> instant list \<Rightarrow> bool list" where
  "bucket_run w m b [] = []"
| "bucket_run w m b (t # ts) = (let (b', ok) = bucket_step w m t b in ok # bucket_run w m (Some b') ts)"

fun check_run :: "'net RateLimiter \<Rightarrow> (instant \<times> bool \<times> IpAddr) list \<Rightarrow> bool list" where
  "check_run rl [] = []"
| "check_run rl ((now, cas, ip) # rs) = (let (rl', ok) = check now cas rl ip in ok # check_run rl' rs)"

definition requests_of :: "IpAddr \<Rightarrow> (instant \<times> bool \<times> IpAddr) list \<Rightarrow> instant list" where
  "requests_of ip rs = map fst (filter (\<lambda>(_, _, ip'). ip' = ip) rs)"

definition answers_of :: "IpAddr \<Rightarrow> (instant \<times> bool \<times> IpAddr) list \<Rightarrow> bool list \<Rightarrow> bool list" where
  "answers_of ip rs bs = map snd (filter (\<lambda>((_, _, ip'), _). ip' = ip) (zip rs bs))"

text \<open>An expired bucket is as good as none.\<close>

definition same_bucket :: "nat \<Rightarrow> instant \<Rightarrow> RateBucket option \<Rightarrow> RateBucket option \<Rightarrow> bool" where
  "same_bucket w now b ideal \<longleftrightarrow>
     b = ideal \<or> b = None \<and> (\<exists>x. ideal = Some x \<and> w \<le> as_secs (now - rb_window_start x))"

lemma same_bucket_step: "same_bucket w now b ideal \<Longrightarrow> bucket_step w m now b = bucket_step w m now ideal"
  by (auto simp: same_bucket_def bucket_step_def)

lemma same_bucket_later:
  assumes "same_bucket w now b ideal" "now \<le> later"
  shows "same_bucket w later b ideal"
proof -
  have "as_secs (now - x) \<le> as_secs (later - x)" for x using assms(2) by (intro as_secs_mono) simp
  then show ?thesis using assms(1) unfolding same_bucket_def by (auto intro: le_trans)
qed

lemma check_sweep_fields [simp]:
  "rl_max_requests (check_sweep now cas rl) = rl_max_requests rl"
  "rl_window_secs (check_sweep now cas rl) = rl_window_secs rl"
  by (simp_all add: check_sweep_def Let_def)

lemma check_sweep_wf: "hm_wf (rl_entries rl) \<Longrightarrow> hm_wf (rl_entries (check_sweep now cas rl))"
  by (simp add: check_sweep_def Let_def)

lemma check_sweep_same:
  assumes "hm_wf (rl_entries rl)" "unat (rl_window_secs rl) < 2 ^ 63"
    "same_bucket (unat (rl_window_secs rl)) now (hm_get (rl_entries rl) ip) ideal"
  shows "same_bucket (unat (rl_window_secs rl)) now (hm_get (rl_entries (check_sweep now cas rl)) ip) ideal"
proof -
  have "unat (rl_window_secs rl * 2) = unat (rl_window_secs rl) * 2"
    using assms(2) by (simp add: unat_word_ariths)
  then show ?thesis
    using assms(1,3)
    by (auto simp: check_sweep_def Let_def hm_get_retain same_bucket_def duration_since_def split: option.splits)
qed

lemma check_step:
  "check now cas rl ip =
     (let rl' = check_sweep now cas rl;
          (b, ok) = bucket_step (unat (rl_window_secs rl)) (rl_max_requests rl) now (hm_get (rl_entries rl') ip)
      in (rl'\<lparr>rl_entries := hm_insert ip b (rl_entries rl')\<rparr>, ok))"
proof (cases "hm_get (rl_entries (check_sweep now cas rl)) ip")
  case (Some b)
  then show ?thesis
    by (cases b) (simp add: check_def bucket_step_def Let_def duration_since_def)
qed (simp add: check_def bucket_step_def Let_def duration_since_def)

lemma check_run_buckets:
  assumes "hm_wf (rl_entries rl)" "unat (rl_window_secs rl) < 2 ^ 63" "sorted (now # map fst rs)"
    and "\<And>ip. same_bucket (unat (rl_window_secs rl)) now (hm_get (rl_entries rl) ip) (ideal ip)"
  shows "answers_of ip rs (check_run rl rs) =
    bucket_run (unat (rl_window_secs rl)) (rl_max_requests rl) (ideal ip) (requests_of ip rs)"
  using assms
proof (induction rs arbitrary: rl now ideal)
  case Nil
  then show ?case by (simp add: answers_of_def requests_of_def)
next
  case (Cons r rs)
  obtain t cas a where r: "r = (t, cas, a)" by (metis prod.exhaust)
  let ?w = "unat (rl_window_secs rl)" and ?rl = "check_sweep t cas rl"
  have t: "now \<le> t" "sorted (t # map fst rs)" using Cons.prems(3) r by auto
  have same: "same_bucket ?w t (hm_get (rl_entries ?rl) ip) (ideal ip)" for ip
    using check_sweep_same [OF Cons.prems(1,2) same_bucket_later [OF Cons.prems(4) t(1)]] .
  obtain b ok where b: "bucket_step ?w (rl_max_requests rl) t (hm_get (rl_entries ?rl) a) = (b, ok)" by fastforce
  then have b': "bucket_step ?w (rl_max_requests rl) t (ideal a) = (b, ok)"
    using same_bucket_step [OF same] by simp
  let ?rl' = "?rl\<lparr>rl_entries := hm_insert a b (rl_entries ?rl)\<rparr>"
  have c: "check t cas rl a = (?rl', ok)" using b by (simp add: check_step Let_def)
  have wf: "hm_wf (rl_entries ?rl')" by (simp add: hm.wf_put check_sweep_wf Cons.prems(1))
  have "answers_of ip rs (check_run ?rl' rs) =
      bucket_run (unat (rl_window_secs ?rl')) (rl_max_requests ?rl') ((ideal(a \<mapsto> b)) ip) (requests_of ip rs)"
    using wf Cons.prems(2) t(2) same
    by (intro Cons.IH [of ?rl' t "ideal(a \<mapsto> b)"]) (auto simp: hm.get_put same_bucket_def)
  then show ?case using c b' r by (auto simp: answers_of_def requests_of_def)
qed

section \<open>How much one bucket lets through\<close>

definition tally :: "('a \<Rightarrow> bool) \<Rightarrow> 'a list \<Rightarrow> nat" where
  "tally p xs = length (filter p xs)"

lemma tally_simps [simp]: "tally p [] = 0" "tally p (x # xs) = (if p x then Suc (tally p xs) else tally p xs)"
  by (simp_all add: tally_def)

lemma tally_or: "(\<And>x. x \<in> set xs \<Longrightarrow> p x \<Longrightarrow> q x \<or> r x) \<Longrightarrow> tally p xs \<le> tally q xs + tally r xs"
proof (induction xs)
  case (Cons x xs)
  then have "tally p xs \<le> tally q xs + tally r xs" "p x \<Longrightarrow> q x \<or> r x" by simp_all
  then show ?case by auto
qed simp

lemma tally_mono:
  assumes "\<And>x. x \<in> set xs \<Longrightarrow> p x \<Longrightarrow> q x"
  shows "tally p xs \<le> tally q xs"
proof -
  have "tally p xs \<le> tally q xs + tally (\<lambda>_. False) xs" using assms by (intro tally_or) blast
  then show ?thesis by (simp add: tally_def)
qed

lemma tally_append [simp]: "tally p (xs @ ys) = tally p xs + tally p ys"
  by (simp add: tally_def)

lemma tally_if [simp]: "tally p (if c then [x] else []) = (if c \<and> p x then 1 else 0)"
  by simp

text \<open>
  The requests a bucket has let through: few in the current window, few in the part of the
  previous one that a window-sized interval reaching into the current window can see.
\<close>

definition bucket_inv :: "nat \<Rightarrow> u32 \<Rightarrow> instant list \<Rightarrow> RateBucket \<Rightarrow> bool" where
  "bucket_inv W m acc b \<longleftrightarrow>
     (\<forall>x\<in>set acc. x < rb_window_start b + W) \<and>
     tally (\<lambda>x. rb_window_start b \<le> x) acc \<le> min (unat (rb_count b)) (unat m) \<and>
     (\<forall>a. rb_window_start b < a + W \<longrightarrow> tally (\<lambda>x. a \<le> x \<and> x < rb_window_start b) acc \<le> unat m) \<and>
     (\<forall>a. tally (\<lambda>x. a \<le> x \<and> x < a + W) acc \<le> 2 * unat m)"

lemma bucket_inv_reset:
  assumes inv: "bucket_inv W m acc b" and W: "0 < W" and exp: "rb_window_start b + W \<le> t"
  shows "bucket_inv W m (acc @ (if 1 \<le> m then [t] else [])) \<lparr>rb_count = 1, rb_window_start = t\<rparr>"
proof -
  let ?ok = "1 \<le> m" and ?s = "rb_window_start b"
  let ?acc = "acc @ (if ?ok then [t] else [])"
  have lt: "x < t" if "x \<in> set acc" for x using that inv exp by (fastforce simp: bucket_inv_def)
  have m: "?ok \<Longrightarrow> 1 \<le> unat m" by (simp add: word_le_nat_alt)
  have old: "tally (\<lambda>x. a \<le> x) acc \<le> unat m" if "t < a + W" for a
  proof -
    have "tally (\<lambda>x. a \<le> x) acc \<le> tally (\<lambda>x. ?s \<le> x) acc" using that exp by (intro tally_mono) simp
    then show ?thesis using inv by (simp add: bucket_inv_def)
  qed
  have none: "tally (\<lambda>x. t \<le> x) acc = 0" using lt by (auto simp: tally_def filter_empty_conv dest: leD)
  have eq: "tally (\<lambda>x. a \<le> x \<and> x < t) acc = tally (\<lambda>x. a \<le> x) acc"
       "t < a + W \<Longrightarrow> tally (\<lambda>x. a \<le> x \<and> x < a + W) acc = tally (\<lambda>x. a \<le> x) acc" for a
    unfolding tally_def using lt by (auto intro!: arg_cong [where f = length] filter_cong dest: less_trans)
  have C: "tally (\<lambda>x. a \<le> x \<and> x < a + W) ?acc \<le> 2 * unat m" for a
  proof (cases "t < a + W")
    case True
    then show ?thesis using old [OF True] eq(2) [OF True] m by auto
  next
    case False
    then show ?thesis using inv by (simp add: bucket_inv_def)
  qed
  show ?thesis
    using lt W none m C old eq(1) by (auto simp: bucket_inv_def intro: trans_less_add1)
qed

lemma bucket_inv_count:
  assumes inv: "bucket_inv W m acc b" and t: "rb_window_start b \<le> t" "t < rb_window_start b + W"
    and nowrap: "Suc (unat (rb_count b)) < 2 ^ 32"
  shows "bucket_inv W m (acc @ (if rb_count b + 1 \<le> m then [t] else []))
    \<lparr>rb_count = rb_count b + 1, rb_window_start = rb_window_start b\<rparr>"
proof -
  let ?ok = "rb_count b + 1 \<le> m" and ?s = "rb_window_start b"
  let ?acc = "acc @ (if ?ok then [t] else [])"
  have n: "unat (rb_count b + 1) = Suc (unat (rb_count b))" using nowrap by (simp add: unat_word_ariths)
  then have ok: "?ok \<longleftrightarrow> Suc (unat (rb_count b)) \<le> unat m" by (simp add: word_le_nat_alt)
  have A: "tally (\<lambda>x. ?s \<le> x) ?acc \<le> min (Suc (unat (rb_count b))) (unat m)"
    using inv t ok by (auto simp: bucket_inv_def)
  have C: "tally (\<lambda>x. a \<le> x \<and> x < a + W) ?acc \<le> 2 * unat m" for a
  proof (cases "?ok \<and> a \<le> t \<and> t < a + W")
    case True
    show ?thesis
    proof (cases "a \<le> ?s")
      case low: True
      have "tally (\<lambda>x. a \<le> x \<and> x < a + W) ?acc \<le> tally (\<lambda>x. a \<le> x \<and> x < ?s) ?acc + tally (\<lambda>x. ?s \<le> x) ?acc"
        by (rule tally_or) auto
      moreover have "tally (\<lambda>x. a \<le> x \<and> x < ?s) ?acc \<le> unat m"
        using inv t True by (auto simp: bucket_inv_def)
      ultimately show ?thesis using A by linarith
    next
      case False
      have "tally (\<lambda>x. a \<le> x \<and> x < a + W) ?acc \<le> tally (\<lambda>x. ?s \<le> x) ?acc"
        using False by (intro tally_mono) auto
      then show ?thesis using A by linarith
    qed
  next
    case False
    then show ?thesis using inv by (auto simp: bucket_inv_def)
  qed
  show ?thesis
    using inv t A C n by (auto simp: bucket_inv_def)
qed

text \<open>The requests a run lets through.\<close>

definition accepted :: "instant list \<Rightarrow> bool list \<Rightarrow> instant list" where
  "accepted ts bs = map fst (filter snd (zip ts bs))"

lemma accepted_Cons [simp]:
  "accepted (t # ts) (ok # bs) = (if ok then [t] else []) @ accepted ts bs"
  by (simp add: accepted_def)

lemma bucket_step_inv:
  assumes inv: "bucket_inv (w * nanos_per_sec) m acc b" and w: "0 < w" and t: "rb_window_start b \<le> t"
    and nowrap: "Suc (unat (rb_count b)) < 2 ^ 32" and step: "bucket_step w m t (Some b) = (b', ok)"
  shows "bucket_inv (w * nanos_per_sec) m (acc @ (if ok then [t] else [])) b' \<and> rb_window_start b' \<le> t \<and>
    unat (rb_count b') \<le> Suc (unat (rb_count b))"
proof (cases "w \<le> as_secs (t - rb_window_start b)")
  case True
  then have "rb_window_start b + w * nanos_per_sec \<le> t" using t by (simp add: as_secs_ge_iff)
  then show ?thesis
    using True step bucket_inv_reset [OF inv] w by (auto simp: bucket_step_def nanos_per_sec_def)
next
  case False
  then have "t < rb_window_start b + w * nanos_per_sec" using t by (simp add: as_secs_ge_iff)
  moreover have "unat (rb_count b + 1) = Suc (unat (rb_count b))" using nowrap by (simp add: unat_word_ariths)
  ultimately show ?thesis
    using False step t bucket_inv_count [OF inv t _ nowrap] by (auto simp: bucket_step_def)
qed

lemma bucket_run_inv:
  assumes w: "0 < w"
  shows "\<lbrakk>bucket_inv (w * nanos_per_sec) m acc b; sorted (rb_window_start b # ts);
      unat (rb_count b) + length ts < 2 ^ 32\<rbrakk> \<Longrightarrow>
    tally (\<lambda>x. a \<le> x \<and> x < a + w * nanos_per_sec) (acc @ accepted ts (bucket_run w m (Some b) ts)) \<le> 2 * unat m"
proof (induction ts arbitrary: acc b)
  case Nil
  then show ?case by (simp add: bucket_inv_def accepted_def)
next
  case (Cons t ts)
  obtain b' ok where step: "bucket_step w m t (Some b) = (b', ok)" by fastforce
  have "rb_window_start b \<le> t" "Suc (unat (rb_count b)) < 2 ^ 32" using Cons.prems by auto
  from bucket_step_inv [OF Cons.prems(1) w this step] have
    "bucket_inv (w * nanos_per_sec) m (acc @ (if ok then [t] else [])) b'" "rb_window_start b' \<le> t"
    "unat (rb_count b') \<le> Suc (unat (rb_count b))" by auto
  then have "tally (\<lambda>x. a \<le> x \<and> x < a + w * nanos_per_sec)
      ((acc @ (if ok then [t] else [])) @ accepted ts (bucket_run w m (Some b') ts)) \<le> 2 * unat m"
    using Cons.prems by (intro Cons.IH) auto
  then show ?case using step by simp
qed

lemma bucket_run_within:
  "\<lbrakk>list_all (\<lambda>x. rb_window_start b \<le> x \<and> x < rb_window_start b + w * nanos_per_sec) ts;
    unat (rb_count b) + length ts < 2 ^ 32\<rbrakk> \<Longrightarrow>
   bucket_run w m (Some b) ts = map (\<lambda>i. unat (rb_count b) + i < unat m) [0..<length ts]"
proof (induction ts arbitrary: b)
  case (Cons t ts)
  have n: "unat (rb_count b + 1) = Suc (unat (rb_count b))" using Cons.prems(2) by (simp add: unat_word_ariths)
  let ?b = "\<lparr>rb_count = rb_count b + 1, rb_window_start = rb_window_start b\<rparr>"
  have "\<not> w \<le> as_secs (t - rb_window_start b)" using Cons.prems(1) by (auto simp: as_secs_ge_iff)
  then have "bucket_run w m (Some b) (t # ts) = (unat (rb_count b) < unat m) # bucket_run w m (Some ?b) ts"
    by (simp add: bucket_step_def word_le_nat_alt n Suc_le_eq)
  also have "\<dots> = (unat (rb_count b) < unat m) # map (\<lambda>i. Suc (unat (rb_count b)) + i < unat m) [0..<length ts]"
    using Cons.prems Cons.IH [of ?b] n by simp
  finally show ?case
    by (simp add: upt_conv_Cons map_Suc_upt [symmetric] comp_def del: upt_Suc)
qed simp

section \<open>Properties\<close>

text \<open>
  C21: the limiter with its periodic sweeps answers every address exactly as a bucket of that
  address alone would, for any interleaving of addresses, any clock that does not run
  backwards, and whichever threads win the sweeps. No address affects another, and sweeping
  never changes an answer.
\<close>

theorem check_run_per_address:
  assumes "unat window < 2 ^ 63" "sorted (now # map fst rs)"
  shows "answers_of ip rs (check_run (with_shared_proxies now m window proxies) rs) =
    bucket_run (unat window) m None (requests_of ip rs)"
  using check_run_buckets [of "with_shared_proxies now m window proxies" now rs "\<lambda>_. None" ip] assms
  by (simp add: with_shared_proxies_def hm.wf_empty hm.get_empty same_bucket_def)

theorem check_run_per_address_witness:
  "answers_of (V4 1 1 1 1)
     [(0, True, V4 1 1 1 1), (5, True, V4 2 2 2 2), (61000000000, True, V4 1 1 1 1), (61000000001, False, V4 1 1 1 1)]
     (check_run (with_shared_proxies 0 1 60 ([] :: unit list))
        [(0, True, V4 1 1 1 1), (5, True, V4 2 2 2 2), (61000000000, True, V4 1 1 1 1), (61000000001, False, V4 1 1 1 1)]) =
   bucket_run 60 1 None [0, 61000000000, 61000000001]"
  using check_run_per_address [of 60 0 "[(0, True, V4 1 1 1 1), (5, True, V4 2 2 2 2),
      (61000000000, True, V4 1 1 1 1), (61000000001, False, V4 1 1 1 1)]" "V4 1 1 1 1" 1 "[] :: unit list"]
  by (simp add: requests_of_def)

text \<open>
  C29: within any interval as long as the window, an address gets at most twice its allowance
  through, however the requests fall; the factor is the price of fixed windows.
\<close>

theorem check_run_rate_bound:
  assumes "0 < window" "unat window < 2 ^ 63" "sorted (now # map fst rs)" "length rs < 2 ^ 32"
  shows "length (filter (\<lambda>t. a \<le> t \<and> t < a + unat window * nanos_per_sec)
      (accepted (requests_of ip rs)
        (answers_of ip rs (check_run (with_shared_proxies now m window proxies) rs)))) \<le> 2 * unat m"
proof -
  let ?w = "unat window" and ?ts = "requests_of ip rs"
  have w: "0 < ?w" using assms(1) by (simp add: word_less_nat_alt)
  have s: "sorted ?ts" "length ?ts < 2 ^ 32"
    using assms(3,4) le_less_trans [OF length_filter_le]
    by (auto simp: requests_of_def sorted_filter simp del: sorted_map)
  have "answers_of ip rs (check_run (with_shared_proxies now m window proxies) rs) = bucket_run ?w m None ?ts"
    using check_run_buckets [of "with_shared_proxies now m window proxies" now rs "\<lambda>_. None" ip] assms
    by (simp add: with_shared_proxies_def hm.wf_empty hm.get_empty same_bucket_def)
  moreover have "tally (\<lambda>x. a \<le> x \<and> x < a + ?w * nanos_per_sec) (accepted ?ts (bucket_run ?w m None ?ts)) \<le> 2 * unat m"
  proof (cases ?ts)
    case (Cons t ts)
    let ?b = "\<lparr>rb_count = 1, rb_window_start = t\<rparr>" and ?acc = "if 1 \<le> m then [t] else []"
    have "bucket_inv (?w * nanos_per_sec) m ?acc ?b"
      using w by (auto simp: bucket_inv_def nanos_per_sec_def word_le_nat_alt)
    then have "tally (\<lambda>x. a \<le> x \<and> x < a + ?w * nanos_per_sec) (?acc @ accepted ts (bucket_run ?w m (Some ?b) ts)) \<le> 2 * unat m"
      using s Cons by (intro bucket_run_inv [OF w]) auto
    then show ?thesis using Cons by (simp add: bucket_step_def)
  qed (simp add: accepted_def)
  ultimately show ?thesis by (simp add: tally_def)
qed

theorem check_run_rate_bound_witness:
  "length (filter (\<lambda>t. 59000000000 \<le> t \<and> t < 59000000000 + 60 * nanos_per_sec)
     (accepted (requests_of (V4 9 9 9 9) (map (\<lambda>t. (t, True, V4 9 9 9 9)) [0, 59000000000, 61000000000, 62000000000]))
       (answers_of (V4 9 9 9 9) (map (\<lambda>t. (t, True, V4 9 9 9 9)) [0, 59000000000, 61000000000, 62000000000])
          (check_run (with_shared_proxies 0 3 60 ([] :: unit list))
             (map (\<lambda>t. (t, True, V4 9 9 9 9)) [0, 59000000000, 61000000000, 62000000000]))))) \<le> 6"
  using check_run_rate_bound [of 60 0 "map (\<lambda>t. (t, True, V4 9 9 9 9)) [0, 59000000000, 61000000000, 62000000000]"
      59000000000 "V4 9 9 9 9" 3 "[] :: unit list"]
  by simp


definition ref_ip_lib :: "IpAddr ip_lib" where
  "ref_ip_lib = \<lparr>il_to_str = (\<lambda>bs. Some (map (\<lambda>b. char_of (unat b)) bs)),
     il_parse = (\<lambda>s. if s = ''10.0.0.7'' then Some (V4 10 0 0 7) else if s = ''8.8.4.4'' then Some (V4 8 8 4 4) else None),
     il_contains = (=)\<rparr>"


text \<open>
  in a fresh limiter, of the requests of an address that fall within one window of its
  first one exactly the first \<open>max_requests\<close> are admitted, whatever other addresses do.
\<close>

theorem check_run_first_window:
  assumes "unat window < 2 ^ 63" "sorted (now # map fst rs)" "length rs < 2 ^ 32"
    and "requests_of ip rs = t # ts" "list_all (\<lambda>x. x < t + unat window * nanos_per_sec) (t # ts)"
  shows "answers_of ip rs (check_run (with_shared_proxies now m window proxies) rs) =
    map (\<lambda>i. i < unat m) [0..<Suc (length ts)]"
proof -
  have len: "length (t # ts) < 2 ^ 32"
    using assms(3) arg_cong [OF assms(4), of length] le_less_trans [OF length_filter_le]
    by (metis (mono_tags, lifting) length_map requests_of_def)
  have srt: "sorted (t # ts)"
    using assms(2) arg_cong [OF assms(4), of sorted] by (simp add: requests_of_def sorted_filter del: sorted_map)
  have "answers_of ip rs (check_run (with_shared_proxies now m window proxies) rs) =
      bucket_run (unat window) m None (t # ts)"
    using check_run_buckets [of "with_shared_proxies now m window proxies" now rs "\<lambda>_. None" ip] assms
    by (simp add: with_shared_proxies_def hm.wf_empty hm.get_empty same_bucket_def)
  also have "\<dots> = (1 \<le> unat m) # map (\<lambda>i. 1 + i < unat m) [0..<length ts]"
    using bucket_run_within [of "\<lparr>rb_count = 1, rb_window_start = t\<rparr>" "unat window" ts m] assms(5) srt len
    by (simp add: bucket_step_def word_le_nat_alt list_all_iff)
  also have "\<dots> = map (\<lambda>i. i < unat m) [0..<Suc (length ts)]"
    by (simp add: upt_conv_Cons map_Suc_upt [symmetric] comp_def Suc_le_eq del: upt_Suc)
  finally show ?thesis .
qed

theorem check_run_first_window_witness:
  "answers_of (V4 9 9 9 9) (map (\<lambda>t. (t, True, V4 9 9 9 9)) [5, 6, 7])
     (check_run (login_limiter 0 ([] :: unit list)\<lparr>rl_max_requests := 2\<rparr>) (map (\<lambda>t. (t, True, V4 9 9 9 9)) [5, 6, 7])) =
   [True, True, False]"
  using check_run_first_window [of 60 0 "map (\<lambda>t. (t, True, V4 9 9 9 9)) [5, 6, 7]" "V4 9 9 9 9" 5 "[6, 7]" 2 "[] :: unit list"]
  by (simp add: requests_of_def nanos_per_sec_def login_limiter_def with_shared_proxies_def upt_rec)

end
