(* ===== verification/Srv_Hub.thy ===== *)
theory Srv_Hub
  imports Srv_Base
begin

text \<open>
  \<open>ws/hub.rs\<close>: the registry of WebSocket connections, sending with slow-consumer tracking,
  and broadcasting. An outbound queue is a Tokio channel, known here by a name; sending on it
  and reading the clock are functions of the environment on a state of its own, so that every
  run of results and instants is covered.
\<close>

section \<open>State\<close>

datatype WsMessage = WsText bytes | WsBinary bytes | WsPing bytes | WsPong bytes | WsClose

datatype try_send_result = SendOk | SendFull | SendClosed

record ('w, 'tx) ws_env =
  we_try_send :: "'w \<Rightarrow> 'tx \<Rightarrow> WsMessage \<Rightarrow> 'w \<times> try_send_result"
  we_instant_now :: "'w \<Rightarrow> 'w \<times> instant"

definition SLOW_CONSUMER_FULL_THRESHOLD :: u32 where "SLOW_CONSUMER_FULL_THRESHOLD = 50"
definition SLOW_CONSUMER_WINDOW :: nat where "SLOW_CONSUMER_WINDOW = 60 * nanos_per_sec"

record FullCounter =
  fc_consecutive :: u32
  fc_first_failure_at :: "instant option"

record 'tx Hub =
  hub_connections :: "(Uuid, (device_id, 'tx) hmap) hmap"
  hub_full_counters :: "(Uuid \<times> device_id, FullCounter) hmap"

definition Hub_new :: "'tx Hub" where
  "Hub_new = \<lparr>hub_connections = [], hub_full_counters = []\<rparr>"

section \<open>Registration\<close>

definition hm_get_or_default :: "('k, ('a, 'b) hmap) hmap \<Rightarrow> 'k \<Rightarrow> ('a, 'b) hmap" where
  "hm_get_or_default m k = (case hm_get m k of Some x \<Rightarrow> x | None \<Rightarrow> [])"

definition register :: "Uuid \<Rightarrow> device_id \<Rightarrow> 'tx \<Rightarrow> 'tx Hub \<Rightarrow> 'tx Hub" where
  "register user_id device_id tx h =
     h\<lparr>hub_connections :=
         hm_insert user_id (hm_insert device_id tx (hm_get_or_default (hub_connections h) user_id)) (hub_connections h),
       hub_full_counters := hm_remove (user_id, device_id) (hub_full_counters h)\<rparr>"

text \<open>\<open>devices.remove\<close> acts on the map inside the entry; \<open>remove_if\<close> drops an entry left empty.\<close>

definition unregister :: "Uuid \<Rightarrow> device_id \<Rightarrow> 'tx Hub \<Rightarrow> 'tx Hub" where
  "unregister user_id device_id h =
     (let conns = (case hm_get (hub_connections h) user_id of
            None \<Rightarrow> hub_connections h
          | Some devices \<Rightarrow>
              let devices' = hm_remove device_id devices
              in if devices' = [] then hm_remove user_id (hub_connections h)
                 else hm_insert user_id devices' (hub_connections h))
      in h\<lparr>hub_connections := conns,
           hub_full_counters := hm_remove (user_id, device_id) (hub_full_counters h)\<rparr>)"

definition unregister_all :: "Uuid \<Rightarrow> 'tx Hub \<Rightarrow> 'tx Hub" where
  "unregister_all user_id h = h\<lparr>hub_connections := hm_remove user_id (hub_connections h)\<rparr>"

definition get_online_user_ids :: "'tx Hub \<Rightarrow> Uuid list" where
  "get_online_user_ids h = map fst (hub_connections h)"

definition connection_count :: "'tx Hub \<Rightarrow> nat" where
  "connection_count h = sum_list (map (\<lambda>(_, devices). length devices) (hub_connections h))"

definition device_count :: "'tx Hub \<Rightarrow> Uuid \<Rightarrow> nat" where
  "device_count h user_id = (case hm_get (hub_connections h) user_id of Some devices \<Rightarrow> length devices | None \<Rightarrow> 0)"

section \<open>Sending\<close>

definition record_full ::
  "('w, 'tx) ws_env \<Rightarrow> Uuid \<Rightarrow> device_id \<Rightarrow> 'w \<times> 'tx Hub \<Rightarrow> ('w \<times> 'tx Hub) \<times> bool" where
  "record_full E user_id device_id s =
     (let (w, h) = s;
          counter = (case hm_get (hub_full_counters h) (user_id, device_id) of
                       Some c \<Rightarrow> c | None \<Rightarrow> \<lparr>fc_consecutive = 0, fc_first_failure_at = None\<rparr>);
          (w1, now) = we_instant_now E w;
          fresh = \<lparr>fc_consecutive = 1, fc_first_failure_at = Some now\<rparr>;
          put = (\<lambda>c. h\<lparr>hub_full_counters := hm_insert (user_id, device_id) c (hub_full_counters h)\<rparr>)
      in case fc_first_failure_at counter of
           Some t \<Rightarrow>
             if SLOW_CONSUMER_WINDOW < duration_since now t then ((w1, put fresh), False)
             else
               let n = fc_consecutive counter + 1
               in ((w1, put (counter\<lparr>fc_consecutive := n\<rparr>)), SLOW_CONSUMER_FULL_THRESHOLD \<le> n)
         | None \<Rightarrow> ((w1, put fresh), False))"

definition try_send_tracked ::
  "('w, 'tx) ws_env \<Rightarrow> Uuid \<Rightarrow> device_id \<Rightarrow> 'tx \<Rightarrow> WsMessage \<Rightarrow> 'w \<times> 'tx Hub \<Rightarrow> ('w \<times> 'tx Hub) \<times> bool" where
  "try_send_tracked E user_id device_id tx msg s =
     (let (w, h) = s;
          (w1, r) = we_try_send E w tx msg;
          cleared = h\<lparr>hub_full_counters := hm_remove (user_id, device_id) (hub_full_counters h)\<rparr>
      in case r of
           SendOk \<Rightarrow> ((w1, cleared), True)
         | SendFull \<Rightarrow>
             let ((w2, h2), kick) = record_full E user_id device_id (w1, h)
             in ((w2, if kick then unregister user_id device_id h2 else h2), False)
         | SendClosed \<Rightarrow> ((w1, cleared), False))"

text \<open>The loop over the snapshot of devices, collecting those whose queue accepted.\<close>

fun send_each ::
  "('w, 'tx) ws_env \<Rightarrow> Uuid \<Rightarrow> WsMessage \<Rightarrow> (device_id \<times> 'tx) list \<Rightarrow> 'w \<times> 'tx Hub
     \<Rightarrow> ('w \<times> 'tx Hub) \<times> device_id list" where
  "send_each E user_id msg [] s = (s, [])"
| "send_each E user_id msg ((device_id, tx) # ds) s =
     (let (s1, ok) = try_send_tracked E user_id device_id tx msg s;
          (s2, accepted) = send_each E user_id msg ds s1
      in (s2, if ok then device_id # accepted else accepted))"

definition send_to_user_collecting ::
  "('w, 'tx) ws_env \<Rightarrow> Uuid \<Rightarrow> WsMessage \<Rightarrow> 'w \<times> 'tx Hub \<Rightarrow> ('w \<times> 'tx Hub) \<times> device_id list" where
  "send_to_user_collecting E user_id msg s =
     (case hm_get (hub_connections (snd s)) user_id of
        None \<Rightarrow> (s, [])
      | Some devices \<Rightarrow> send_each E user_id msg devices s)"

definition send_to_user ::
  "('w, 'tx) ws_env \<Rightarrow> Uuid \<Rightarrow> WsMessage \<Rightarrow> 'w \<times> 'tx Hub \<Rightarrow> ('w \<times> 'tx Hub) \<times> bool" where
  "send_to_user E user_id msg s =
     (let (s1, accepted) = send_to_user_collecting E user_id msg s in (s1, accepted \<noteq> []))"

definition send_to ::
  "('w, 'tx) ws_env \<Rightarrow> Uuid \<Rightarrow> WsMessage \<Rightarrow> 'w \<times> 'tx Hub \<Rightarrow> ('w \<times> 'tx Hub) \<times> bool" where
  "send_to E user_id msg s = send_to_user E user_id msg s"

definition send_to_device ::
  "('w, 'tx) ws_env \<Rightarrow> Uuid \<Rightarrow> device_id \<Rightarrow> WsMessage \<Rightarrow> 'w \<times> 'tx Hub \<Rightarrow> ('w \<times> 'tx Hub) \<times> bool" where
  "send_to_device E user_id device_id msg s =
     (case Option.bind (hm_get (hub_connections (snd s)) user_id) (\<lambda>devices. hm_get devices device_id) of
        Some tx \<Rightarrow> try_send_tracked E user_id device_id tx msg s
      | None \<Rightarrow> (s, False))"

definition send_to_user_except_device ::
  "('w, 'tx) ws_env \<Rightarrow> Uuid \<Rightarrow> device_id \<Rightarrow> WsMessage \<Rightarrow> 'w \<times> 'tx Hub \<Rightarrow> ('w \<times> 'tx Hub) \<times> device_id list" where
  "send_to_user_except_device E user_id exclude_device_id msg s =
     (case hm_get (hub_connections (snd s)) user_id of
        None \<Rightarrow> (s, [])
      | Some devices \<Rightarrow> send_each E user_id msg (filter (\<lambda>(d, _). d \<noteq> exclude_device_id) devices) s)"

fun broadcast_json ::
  "('w, 'tx) ws_env \<Rightarrow> Uuid list \<Rightarrow> bytes \<Rightarrow> Uuid option \<Rightarrow> 'w \<times> 'tx Hub \<Rightarrow> 'w \<times> 'tx Hub" where
  "broadcast_json E [] json exclude s = s"
| "broadcast_json E (member_id # ms) json exclude s =
     broadcast_json E ms json exclude
       (if Some member_id = exclude then s else fst (send_to_user E member_id (WsText json) s))"

section \<open>What a registry of devices promises\<close>

locale device_registry =
  fixes inv :: "'h \<Rightarrow> bool"
    and find :: "'h \<Rightarrow> 'u \<Rightarrow> 'd \<Rightarrow> 't option"
    and add :: "'u \<Rightarrow> 'd \<Rightarrow> 't \<Rightarrow> 'h \<Rightarrow> 'h"
    and rem :: "'u \<Rightarrow> 'd \<Rightarrow> 'h \<Rightarrow> 'h"
    and rem_all :: "'u \<Rightarrow> 'h \<Rightarrow> 'h"
  assumes inv_add: "inv h \<Longrightarrow> inv (add u d t h)"
    and inv_rem: "inv h \<Longrightarrow> inv (rem u d h)"
    and inv_rem_all: "inv h \<Longrightarrow> inv (rem_all u h)"
    and find_add: "inv h \<Longrightarrow> find (add u d t h) u' d' = (if u' = u \<and> d' = d then Some t else find h u' d')"
    and find_rem: "inv h \<Longrightarrow> find (rem u d h) u' d' = (if u' = u \<and> d' = d then None else find h u' d')"
    and find_rem_all: "inv h \<Longrightarrow> find (rem_all u h) u' d' = (if u' = u then None else find h u' d')"
begin

text \<open>Removal goes by device, so the end of a replaced connection removes its replacement.\<close>

lemma stale_rem_kills_new:
  assumes "inv h"
  shows "find (add u d new (add u d old h)) u d = Some new"
    "find (rem u d (add u d new (add u d old h))) u d = None"
  using assms by (simp_all add: inv_add find_add find_rem)

lemma add_rem_other:
  assumes "inv h" "(u', d') \<noteq> (u, d)"
  shows "find (rem u d (add u d t h)) u' d' = find h u' d'"
  using assms by (auto simp: inv_add find_add find_rem)

end

definition registered :: "'tx Hub \<Rightarrow> Uuid \<Rightarrow> device_id \<Rightarrow> 'tx option" where
  "registered h u d = Option.bind (hm_get (hub_connections h) u) (\<lambda>devices. hm_get devices d)"

definition devices_wf :: "('k, ('d, 'tx) hmap) hmap \<Rightarrow> bool" where
  "devices_wf c \<longleftrightarrow> hm_wf c \<and> (\<forall>u devices. hm_get c u = Some devices \<longrightarrow> hm_wf devices \<and> devices \<noteq> [])"

definition hub_wf :: "'tx Hub \<Rightarrow> bool" where
  "hub_wf h \<longleftrightarrow> devices_wf (hub_connections h) \<and> hm_wf (hub_full_counters h)"

lemma hm_insert_nonempty [simp]: "hm_insert k v m \<noteq> []"
  unfolding hm_insert_def by (cases m) (auto split: if_splits)

lemma hm_get_or_default_wf: "devices_wf c \<Longrightarrow> hm_wf (hm_get_or_default c u)"
  by (simp add: hm_get_or_default_def devices_wf_def hm.wf_empty split: option.split)

lemma devices_wf_put: "devices_wf c \<Longrightarrow> hm_wf m \<Longrightarrow> m \<noteq> [] \<Longrightarrow> devices_wf (hm_insert u m c)"
  by (simp add: devices_wf_def hm.wf_put hm.get_put)

lemma devices_wf_del: "devices_wf c \<Longrightarrow> devices_wf (hm_remove u c)"
  by (simp add: devices_wf_def hm.wf_del hm.get_del)

lemma hub_wf_new: "hub_wf Hub_new"
  by (simp add: hub_wf_def devices_wf_def Hub_new_def hm.wf_empty hm.get_empty)

lemma hub_wf_register: "hub_wf h \<Longrightarrow> hub_wf (register u d tx h)"
  by (simp add: hub_wf_def register_def devices_wf_put hm_get_or_default_wf hm.wf_put hm.wf_del)

lemma hub_wf_unregister: "hub_wf h \<Longrightarrow> hub_wf (unregister u d h)"
  by (auto simp: hub_wf_def unregister_def Let_def hm.wf_del devices_wf_del split: option.split
      intro!: devices_wf_put) (auto simp: devices_wf_def hm.wf_del)

lemma hub_wf_unregister_all: "hub_wf h \<Longrightarrow> hub_wf (unregister_all u h)"
  by (simp add: hub_wf_def unregister_all_def devices_wf_del)

lemma registered_register:
  "registered (register u d tx h) u' d' = (if u' = u \<and> d' = d then Some tx else registered h u' d')"
  by (auto simp: registered_def register_def hm.get_put hm_get_or_default_def hm.get_empty split: option.split)

lemma registered_unregister:
  "registered (unregister u d h) u' d' = (if u' = u \<and> d' = d then None else registered h u' d')"
proof (cases "hm_get (hub_connections h) u")
  case (Some devices)
  have "hm_remove d devices = [] \<Longrightarrow> hm_get devices d' = None" if "d' \<noteq> d" for d'
    using hm.get_del [of d devices d'] that by (simp add: hm.get_empty)
  then show ?thesis using Some
    by (auto simp: registered_def unregister_def Let_def hm.get_put hm.get_del)
qed (auto simp: registered_def unregister_def)

lemma registered_unregister_all:
  "registered (unregister_all u h) u' d' = (if u' = u then None else registered h u' d')"
  by (simp add: registered_def unregister_all_def hm.get_del)

lemma registered_counters [simp]: "registered (h\<lparr>hub_full_counters := c\<rparr>) = registered h"
  by (simp add: registered_def fun_eq_iff)

interpretation hub: device_registry hub_wf registered register unregister unregister_all
  by unfold_locales
    (simp_all add: hub_wf_register hub_wf_unregister hub_wf_unregister_all
      registered_register registered_unregister registered_unregister_all)

section \<open>What sending does to the registry\<close>

lemma record_full_connections [simp]:
  "hub_connections (snd (fst (record_full E u d s))) = hub_connections (snd s)"
  by (simp add: record_full_def Let_def split: prod.split option.split)

lemma record_full_wf: "hub_wf (snd s) \<Longrightarrow> hub_wf (snd (fst (record_full E u d s)))"
  by (cases s) (auto simp: hub_wf_def record_full_def Let_def hm.wf_put split: prod.split option.split)

lemma hub_wf_clear: "hub_wf h \<Longrightarrow> hub_wf (h\<lparr>hub_full_counters := hm_remove k (hub_full_counters h)\<rparr>)"
  by (simp add: hub_wf_def hm.wf_del)

text \<open>\<open>trimmed u h h'\<close>: sending to \<open>u\<close> may only have dropped devices of \<open>u\<close>.\<close>

definition trimmed :: "Uuid \<Rightarrow> 'tx Hub \<Rightarrow> 'tx Hub \<Rightarrow> bool" where
  "trimmed u h h' \<longleftrightarrow>
     (\<forall>u' d. registered h' u' d = registered h u' d \<or> u' = u \<and> registered h' u' d = None)"

lemma trimmed_refl [simp]: "trimmed u h h"
  by (simp add: trimmed_def)

lemma trimmed_trans: "trimmed u a b \<Longrightarrow> trimmed u b c \<Longrightarrow> trimmed u a c"
  by (auto simp: trimmed_def) metis+

lemma try_send_tracked_trimmed:
  "trimmed u (snd s) (snd (fst (try_send_tracked E u d tx msg s)))"
proof -
  obtain w h where s: "s = (w, h)" by fastforce
  obtain w1 r where t: "we_try_send E w tx msg = (w1, r)" by fastforce
  obtain w2 h2 kick where f: "record_full E u d (w1, h) = ((w2, h2), kick)" by (metis prod.exhaust)
  have "hub_connections h2 = hub_connections h" using record_full_connections [of E u d "(w1, h)"] f by simp
  then have "registered h2 = registered h" by (simp add: registered_def fun_eq_iff)
  then show ?thesis
    using s t f by (cases r) (auto simp: try_send_tracked_def trimmed_def registered_unregister)
qed

lemma try_send_tracked_wf: "hub_wf (snd s) \<Longrightarrow> hub_wf (snd (fst (try_send_tracked E u d tx msg s)))"
proof -
  assume wf: "hub_wf (snd s)"
  obtain w h where s: "s = (w, h)" by fastforce
  obtain w1 r where t: "we_try_send E w tx msg = (w1, r)" by fastforce
  obtain w2 h2 kick where f: "record_full E u d (w1, h) = ((w2, h2), kick)" by (metis prod.exhaust)
  have "hub_wf h2" using record_full_wf [of "(w1, h)" E u d] wf s f by simp
  then show ?thesis
    using wf s t f by (cases r) (auto simp: try_send_tracked_def hub_wf_unregister hub_wf_clear)
qed

lemma send_each_keeps:
  "trimmed u (snd s) (snd (fst (send_each E u msg ds s))) \<and>
   (hub_wf (snd s) \<longrightarrow> hub_wf (snd (fst (send_each E u msg ds s)))) \<and>
   set (snd (send_each E u msg ds s)) \<subseteq> fst ` set ds"
proof (induction ds arbitrary: s)
  case (Cons p ds)
  obtain d tx where p: "p = (d, tx)" by fastforce
  obtain s1 ok where t: "try_send_tracked E u d tx msg s = (s1, ok)" by fastforce
  have "trimmed u (snd s) (snd s1)" "hub_wf (snd s) \<Longrightarrow> hub_wf (snd s1)"
    using try_send_tracked_trimmed [of u s E d tx msg] try_send_tracked_wf [of s E u d tx msg] t by auto
  then have "trimmed u (snd s) (snd (fst (send_each E u msg ds s1)))"
    "hub_wf (snd s) \<Longrightarrow> hub_wf (snd (fst (send_each E u msg ds s1)))"
    "set (snd (send_each E u msg ds s1)) \<subseteq> fst ` set ds"
    using Cons.IH [of s1] trimmed_trans by blast+
  then show ?case using p t by (auto simp: split_def Let_def)
qed simp

lemma send_to_user_keeps:
  "trimmed u (snd s) (snd (fst (send_to_user E u msg s)))"
  "hub_wf (snd s) \<Longrightarrow> hub_wf (snd (fst (send_to_user E u msg s)))"
  using send_each_keeps [of u s E msg "the (hm_get (hub_connections (snd s)) u)"]
  by (auto simp: send_to_user_def send_to_user_collecting_def split_def Let_def split: option.split)

section \<open>Eviction of slow consumers\<close>

text \<open>
  The counter of a device after a run of sends that found its queue full, and the point at
  which the device is dropped.
\<close>

definition full_count :: "'tx Hub \<Rightarrow> Uuid \<Rightarrow> device_id \<Rightarrow> FullCounter option" where
  "full_count h u d = hm_get (hub_full_counters h) (u, d)"

lemma try_send_tracked_full:
  assumes send: "we_try_send E w tx msg = (w1, SendFull)" and clock: "we_instant_now E w1 = (w2, now)"
    and c: "full_count h u d = Some \<lparr>fc_consecutive = n, fc_first_failure_at = Some t\<rparr>"
    and win: "now - t \<le> SLOW_CONSUMER_WINDOW"
  shows "\<exists>h'. try_send_tracked E u d tx msg (w, h) = ((w2, h'), False) \<and>
    (if 50 \<le> n + 1 then full_count h' u d = None \<and> registered h' u d = None
     else full_count h' u d = Some \<lparr>fc_consecutive = n + 1, fc_first_failure_at = Some t\<rparr> \<and>
       registered h' u d = registered h u d)"
proof -
  let ?c = "\<lparr>fc_consecutive = n + 1, fc_first_failure_at = Some t\<rparr>"
  let ?h = "h\<lparr>hub_full_counters := hm_insert (u, d) ?c (hub_full_counters h)\<rparr>"
  have r: "record_full E u d (w1, h) = ((w2, ?h), 50 \<le> n + 1)"
    using c clock win by (simp add: record_full_def full_count_def duration_since_def SLOW_CONSUMER_FULL_THRESHOLD_def Let_def)
  have "full_count (unregister u d ?h) u d = None"
    by (simp add: full_count_def unregister_def Let_def hm.get_del)
  moreover have "full_count ?h u d = Some ?c" "registered ?h u d = registered h u d"
    by (simp_all add: full_count_def hm.get_put)
  ultimately show ?thesis
    using send r by (simp add: try_send_tracked_def registered_unregister)
qed

lemma try_send_tracked_first_full:
  assumes "we_try_send E w tx msg = (w1, SendFull)" "we_instant_now E w1 = (w2, now)" "full_count h u d = None"
  shows "\<exists>h'. try_send_tracked E u d tx msg (w, h) = ((w2, h'), False) \<and>
    full_count h' u d = Some \<lparr>fc_consecutive = 1, fc_first_failure_at = Some now\<rparr> \<and> registered h' u d = registered h u d"
  using assms by (simp add: try_send_tracked_def record_full_def full_count_def hm.get_put Let_def)

abbreviation send_again :: "('w, 'tx) ws_env \<Rightarrow> Uuid \<Rightarrow> device_id \<Rightarrow> 'tx \<Rightarrow> WsMessage \<Rightarrow> 'w \<times> 'tx Hub \<Rightarrow> 'w \<times> 'tx Hub" where
  "send_again E u d tx msg s \<equiv> fst (try_send_tracked E u d tx msg s)"

lemma full_run:
  assumes full: "\<And>w. snd (we_try_send E w tx msg) = SendFull"
    and clock: "\<And>w. t0 \<le> snd (we_instant_now E w) \<and> snd (we_instant_now E w) \<le> t0 + SLOW_CONSUMER_WINDOW"
    and start: "full_count h u d = None"
  shows "k < 49 \<Longrightarrow> \<exists>t. t0 \<le> t \<and>
    full_count (snd ((send_again E u d tx msg ^^ Suc k) (w, h))) u d =
      Some \<lparr>fc_consecutive = of_nat (Suc k), fc_first_failure_at = Some t\<rparr> \<and>
    registered (snd ((send_again E u d tx msg ^^ Suc k) (w, h))) u d = registered h u d"
proof (induction k)
  case 0
  obtain w1 where 1: "we_try_send E w tx msg = (w1, SendFull)" using full by (metis prod.collapse)
  obtain w2 now where 2: "we_instant_now E w1 = (w2, now)" by fastforce
  then have "t0 \<le> now" using clock [of w1] by simp
  with try_send_tracked_first_full [OF 1 2 start] show ?case by auto
next
  case (Suc k)
  let ?s = "(send_again E u d tx msg ^^ Suc k) (w, h)"
  obtain v g where s: "?s = (v, g)" by fastforce
  obtain t where t: "t0 \<le> t" "full_count g u d = Some \<lparr>fc_consecutive = of_nat (Suc k), fc_first_failure_at = Some t\<rparr>"
    "registered g u d = registered h u d" using Suc s by auto
  obtain v1 where 1: "we_try_send E v tx msg = (v1, SendFull)" using full by (metis prod.collapse)
  obtain v2 now where 2: "we_instant_now E v1 = (v2, now)" by fastforce
  have win: "now - t \<le> SLOW_CONSUMER_WINDOW" using clock [of v1] 2 t(1) by (simp, linarith)
  have "unat (of_nat (Suc (Suc k)) :: u32) = Suc (Suc k)"
    using Suc.prems by (simp add: unsigned_of_nat take_bit_eq_mod del: of_nat_Suc)
  moreover have e: "of_nat (Suc k) + 1 = (of_nat (Suc (Suc k)) :: u32)" and "unat (50 :: u32) = 50" by simp_all
  ultimately have "\<not> (50 :: u32) \<le> of_nat (Suc k) + 1"
    unfolding e word_le_nat_alt using Suc.prems by linarith
  then show ?case
    using try_send_tracked_full [OF 1 2 t(2) win] t s by (auto simp: add.commute)
qed

section \<open>Properties\<close>

text \<open>
  C36: a device whose queue stays full is dropped by the fiftieth failing send inside the
  60-second window and by no earlier one.
\<close>

theorem slow_consumer_evicted:
  assumes full: "\<And>w. snd (we_try_send E w tx msg) = SendFull"
    and clock: "\<And>w. t0 \<le> snd (we_instant_now E w) \<and> snd (we_instant_now E w) \<le> t0 + SLOW_CONSUMER_WINDOW"
    and start: "full_count h u d = None" and k: "k \<le> 50"
  shows "registered (snd ((send_again E u d tx msg ^^ k) (w, h))) u d = (if k < 50 then registered h u d else None)"
proof (cases "k < 50")
  case True
  then show ?thesis using full_run [OF full clock start, of "k - 1" w] by (cases k) auto
next
  case False
  then have k50: "k = Suc 49" using k by simp
  let ?s = "(send_again E u d tx msg ^^ 49) (w, h)"
  obtain v g where s: "?s = (v, g)" by fastforce
  obtain t where t: "t0 \<le> t" "full_count g u d = Some \<lparr>fc_consecutive = 49, fc_first_failure_at = Some t\<rparr>"
    using full_run [OF full clock start, of 48 w] s by auto
  obtain v1 where 1: "we_try_send E v tx msg = (v1, SendFull)" using full by (metis prod.collapse)
  obtain v2 now where 2: "we_instant_now E v1 = (v2, now)" by fastforce
  have win: "now - t \<le> SLOW_CONSUMER_WINDOW" using clock [of v1] 2 t(1) by (simp, linarith)
  have "(send_again E u d tx msg ^^ k) (w, h) = send_again E u d tx msg (v, g)"
    unfolding k50 funpow.simps comp_apply s ..
  then show ?thesis
    using try_send_tracked_full [OF 1 2 t(2) win] k50 by auto
qed

text \<open>An environment whose queues are bounded lists and whose clock stands still.\<close>

definition ref_env :: "((nat \<Rightarrow> WsMessage list), nat) ws_env" where
  "ref_env = \<lparr>we_try_send = (\<lambda>q tx msg. if length (q tx) < tx then (q(tx := q tx @ [msg]), SendOk) else (q, SendFull)),
     we_instant_now = (\<lambda>q. (q, 7))\<rparr>"

theorem slow_consumer_evicted_witness:
  "registered (snd ((send_again ref_env 1 2 0 WsClose ^^ 49) (\<lambda>_. [], register 1 2 0 Hub_new))) 1 2 = Some 0 \<and>
   registered (snd ((send_again ref_env 1 2 0 WsClose ^^ 50) (\<lambda>_. [], register 1 2 0 Hub_new))) 1 2 = None"
proof -
  have c: "full_count (register 1 2 (0 :: nat) Hub_new) 1 2 = None"
    by (simp add: full_count_def register_def hm.get_del)
  have r: "registered (register 1 2 (0 :: nat) Hub_new) 1 2 = Some 0" by (simp add: registered_register)
  show ?thesis
    using slow_consumer_evicted [of ref_env 0 WsClose 7 "register 1 2 0 Hub_new" 1 2 49]
      slow_consumer_evicted [of ref_env 0 WsClose 7 "register 1 2 0 Hub_new" 1 2 50] c r
    by (simp add: ref_env_def)
qed

text \<open>The hubs the server can reach.\<close>

inductive hub_reachable :: "('w, 'tx) ws_env \<Rightarrow> 'tx Hub \<Rightarrow> bool" for E where
  start: "hub_reachable E Hub_new"
| register: "hub_reachable E h \<Longrightarrow> hub_reachable E (register u d tx h)"
| unregister: "hub_reachable E h \<Longrightarrow> hub_reachable E (unregister u d h)"
| unregister_all: "hub_reachable E h \<Longrightarrow> hub_reachable E (unregister_all u h)"
| send_to_user: "hub_reachable E h \<Longrightarrow> hub_reachable E (snd (fst (send_to_user E u msg (w, h))))"
| send_to_device: "hub_reachable E h \<Longrightarrow> hub_reachable E (snd (fst (send_to_device E u d msg (w, h))))"
| send_except: "hub_reachable E h \<Longrightarrow> hub_reachable E (snd (fst (send_to_user_except_device E u d msg (w, h))))"
| broadcast: "hub_reachable E h \<Longrightarrow> hub_reachable E (snd (broadcast_json E us json ex (w, h)))"

lemma broadcast_keeps:
  "hub_wf (snd s) \<Longrightarrow> hub_wf (snd (broadcast_json E us json ex s))"
  by (induction us arbitrary: s) (auto simp: send_to_user_keeps)

lemma send_to_device_keeps: "hub_wf (snd s) \<Longrightarrow> hub_wf (snd (fst (send_to_device E u d msg s)))"
  by (auto simp: send_to_device_def try_send_tracked_wf split: option.split)

lemma send_except_keeps: "hub_wf (snd s) \<Longrightarrow> hub_wf (snd (fst (send_to_user_except_device E u d msg s)))"
  by (auto simp: send_to_user_except_device_def send_each_keeps [THEN conjunct2, THEN conjunct1, rule_format]
      split: option.split)

lemma hub_reachable_wf: "hub_reachable E h \<Longrightarrow> hub_wf h"
proof (induction rule: hub_reachable.induct)
  case (send_to_user h u msg w) then show ?case using send_to_user_keeps(2) [of "(w, h)"] by simp
next
  case (send_to_device h u d msg w) then show ?case using send_to_device_keeps [of "(w, h)"] by simp
next
  case (send_except h u d msg w) then show ?case using send_except_keeps [of "(w, h)"] by simp
next
  case (broadcast h us json ex w) then show ?case using broadcast_keeps [of "(w, h)"] by simp
qed (simp_all add: hub_wf_new hub_wf_register hub_wf_unregister hub_wf_unregister_all)

lemma online_iff_registered:
  assumes "hub_wf h"
  shows "u \<in> set (get_online_user_ids h) \<longleftrightarrow> (\<exists>d tx. registered h u d = Some tx)"
    "u \<in> set (get_online_user_ids h) \<longleftrightarrow> 0 < device_count h u"
proof -
  have on: "u \<in> set (get_online_user_ids h) \<longleftrightarrow> (\<exists>devices. hm_get (hub_connections h) u = Some devices)"
    by (metis get_online_user_ids_def hm_get_def list.set_map map_of_eq_None_iff not_None_eq option.exhaust)
  have ne: "devices \<noteq> []" if "hm_get (hub_connections h) u = Some devices" for devices
    using assms that by (auto simp: hub_wf_def devices_wf_def)
  have "\<exists>d tx. hm_get devices d = Some tx" if "devices \<noteq> []" for devices :: "(device_id, 'a) hmap"
    using that by (cases devices) (auto simp: hm_get_def)
  then show "u \<in> set (get_online_user_ids h) \<longleftrightarrow> (\<exists>d tx. registered h u d = Some tx)"
    using on ne by (fastforce simp: registered_def bind_eq_Some_conv)
  show "u \<in> set (get_online_user_ids h) \<longleftrightarrow> 0 < device_count h u"
    using on ne by (auto simp: device_count_def split: option.split)
qed

text \<open>
  C37: the hub's operations act on the table of connections as one expects of a map from
  (user, device) to queue: registering sets one entry, unregistering deletes it, deleting an
  account deletes the user's entries, and sending to a user touches no other user. In every
  hub they reach, a user is listed as online exactly when it has a registered device.
\<close>

theorem hub_acts_as_map:
  assumes "hub_reachable E h"
  shows "registered (register u d tx h) u' d' = (if (u', d') = (u, d) then Some tx else registered h u' d') \<and>
    registered (unregister u d h) u' d' = (if (u', d') = (u, d) then None else registered h u' d') \<and>
    registered (unregister_all u h) u' d' = (if u' = u then None else registered h u' d') \<and>
    (u' \<noteq> u \<longrightarrow> registered (snd (fst (send_to_user E u msg (w, h)))) u' d' = registered h u' d') \<and>
    (u' \<in> set (get_online_user_ids h) \<longleftrightarrow> (\<exists>d tx. registered h u' d = Some tx)) \<and>
    (u' \<in> set (get_online_user_ids h) \<longleftrightarrow> 0 < device_count h u')"
proof -
  have wf: "hub_wf h" using hub_reachable_wf [OF assms] .
  have "registered (snd (fst (send_to_user E u msg (w, h)))) u' d' = registered h u' d'" if "u' \<noteq> u"
    using send_to_user_keeps(1) [of u "(w, h)" E msg] that by (auto simp: trimmed_def)
  then show ?thesis
    unfolding prod.inject hub.find_add [OF wf] hub.find_rem [OF wf] hub.find_rem_all [OF wf]
    using online_iff_registered [OF wf, of u'] by blast
qed

theorem hub_acts_as_map_witness:
  "registered (unregister 1 2 (register 1 2 5 (register 1 3 (6 :: nat) Hub_new))) 1 3 = Some 6 \<and>
   1 \<in> set (get_online_user_ids (unregister 1 2 (register 1 2 5 (register 1 3 (6 :: nat) Hub_new))))"
proof -
  have r: "hub_reachable ref_env (register 1 2 5 (register 1 3 (6 :: nat) Hub_new))"
    by (intro hub_reachable.intros)
  then have r': "hub_reachable ref_env (unregister 1 2 (register 1 2 5 (register 1 3 (6 :: nat) Hub_new)))"
    by (rule hub_reachable.unregister)
  have "registered (unregister 1 2 (register 1 2 5 (register 1 3 (6 :: nat) Hub_new))) 1 3 = Some 6"
    using hub_acts_as_map [OF r, of 1 2 0 1 3] by (simp add: registered_register)
  then show ?thesis using hub_acts_as_map [OF r', of 0 0 0 1 0] by auto
qed

text \<open>
  when a device reconnects before its old connection has ended, the clean-up of the old
  connection unregisters the new one: the device is left without a connection although its
  new socket was registered last.
\<close>

theorem stale_cleanup_unregisters_new:
  assumes "hub_reachable E h"
  shows "registered (register u d new (register u d old h)) u d = Some new \<and>
    registered (unregister u d (register u d new (register u d old h))) u d = None"
  using hub.stale_rem_kills_new [OF hub_reachable_wf [OF assms]] by simp

theorem stale_cleanup_unregisters_new_witness:
  "registered (unregister 1 2 (register 1 2 (6 :: nat) (register 1 2 5 Hub_new))) 1 2 = None"
  using stale_cleanup_unregisters_new [OF hub_reachable.start [of ref_env], of 1 2 6 5] by simp

text \<open>
  sending to a user tries each of its devices exactly once, in the order of the table,
  and reports exactly those whose queue accepted; the excluded device of
  \<open>send_to_user_except_device\<close> is never tried and never reported.
\<close>

theorem send_reports_accepting_devices:
  assumes "\<And>w tx m. we_try_send E w tx m = (w, outcome tx)"
    and "hm_get (hub_connections (snd s)) u = Some devices"
  shows "snd (send_to_user_collecting E u msg s) = map fst (filter (\<lambda>(_, tx). outcome tx = SendOk) devices) \<and>
    snd (send_to_user_except_device E u x msg s) =
      map fst (filter (\<lambda>(d, tx). d \<noteq> x \<and> outcome tx = SendOk) devices)"
proof -
  have "snd (send_each E u msg ds s) = map fst (filter (\<lambda>(_, tx). outcome tx = SendOk) ds)" for ds s
  proof (induction ds arbitrary: s)
    case (Cons p ds)
    obtain d tx where p: "p = (d, tx)" by fastforce
    have "snd (try_send_tracked E u d tx msg s) = (outcome tx = SendOk)"
      by (cases s; cases "outcome tx") (simp_all add: try_send_tracked_def assms(1) Let_def split: prod.split)
    then show ?case using Cons.IH p by (simp add: split_def Let_def)
  qed simp
  then show ?thesis
    using assms(2) by (auto simp: send_to_user_collecting_def send_to_user_except_device_def conj_commute split_def)
qed

theorem send_reports_accepting_devices_witness:
  "snd (send_to_user_collecting \<lparr>we_try_send = (\<lambda>w tx m. (w, if tx = 5 then SendOk else SendClosed)), we_instant_now = (\<lambda>w. (w, 0))\<rparr>
     1 WsClose ((), register 1 2 5 (register 1 3 (6 :: nat) Hub_new))) = [2]"
  using send_reports_accepting_devices [of "\<lparr>we_try_send = (\<lambda>w tx m. (w, if tx = 5 then SendOk else SendClosed)),
      we_instant_now = (\<lambda>w. (w, 0))\<rparr>" "\<lambda>tx. if tx = 5 then SendOk else SendClosed"
      "((), register 1 2 5 (register 1 3 (6 :: nat) Hub_new))" 1 "[(3, 6), (2, 5)]" WsClose 0]
  by (simp add: register_def hm_insert_def hm_get_def hm_get_or_default_def Hub_new_def)

end
