(* ===== verification/Srv_WsRate.thy ===== *)
theory Srv_WsRate
  imports Srv_Hub Complex_Main
begin

text \<open>
  \<open>ws/rate_limit.rs\<close> and \<open>ws/error.rs\<close>: the receive loop of a WebSocket with its token
  buckets. The buckets are \<open>f64\<close> in the code; the model computes them exactly, in \<open>rat\<close>, so
  that it has no rounding. The frames arrive as a list with the instants at which \<open>refill\<close>
  reads the clock. Dispatching a text frame and encoding an error frame are parameters.
\<close>

section \<open>The operations\<close>

definition REFILL_RATE :: rat where "REFILL_RATE = 3"
definition BUCKET_CAPACITY :: rat where "BUCKET_CAPACITY = 30"
definition MAX_MESSAGE_BYTES :: nat where "MAX_MESSAGE_BYTES = 64 * 1024"
definition BYTE_BUCKET_CAPACITY :: rat where "BYTE_BUCKET_CAPACITY = 100 * 1024"
definition BYTE_REFILL_RATE :: rat where "BYTE_REFILL_RATE = 100 * 1024"
definition MAX_CONSECUTIVE_VIOLATIONS :: u32 where "MAX_CONSECUTIVE_VIOLATIONS = 3"

lemmas ws_limits = REFILL_RATE_def BUCKET_CAPACITY_def BYTE_BUCKET_CAPACITY_def BYTE_REFILL_RATE_def

datatype GuardOutcome = Disconnect | Drop | Allow

record BucketState =
  bk_tokens :: rat
  bk_byte_tokens :: rat
  bk_last_refill :: instant
  bk_consecutive_violations :: u32

definition BucketState_new :: "instant \<Rightarrow> BucketState" where
  "BucketState_new now =
     \<lparr>bk_tokens = BUCKET_CAPACITY, bk_byte_tokens = BYTE_BUCKET_CAPACITY, bk_last_refill = now,
      bk_consecutive_violations = 0\<rparr>"

definition as_secs_f64 :: "nat \<Rightarrow> rat" where
  "as_secs_f64 d = of_nat d / of_nat nanos_per_sec"

definition refill :: "instant \<Rightarrow> BucketState \<Rightarrow> BucketState" where
  "refill now b =
     (let elapsed = as_secs_f64 (duration_since now (bk_last_refill b))
      in b\<lparr>bk_tokens := min (bk_tokens b + elapsed * REFILL_RATE) BUCKET_CAPACITY,
           bk_byte_tokens := min (bk_byte_tokens b + elapsed * BYTE_REFILL_RATE) BYTE_BUCKET_CAPACITY,
           bk_last_refill := now\<rparr>)"

fun non_text_byte_cost :: "WsMessage \<Rightarrow> rat" where
  "non_text_byte_cost (WsBinary b) = of_nat (length b)"
| "non_text_byte_cost (WsPing b) = of_nat (length b)"
| "non_text_byte_cost (WsPong b) = of_nat (length b)"
| "non_text_byte_cost _ = 0"

text \<open>The parts of \<open>AppState\<close> and of the connection the loop uses.\<close>

record ('w, 'tx) ws_conn =
  wc_env :: "('w, 'tx) ws_env"
  wc_error_json :: "string \<Rightarrow> bytes option"
  wc_dispatch :: "bytes \<Rightarrow> 'w \<times> 'tx Hub \<Rightarrow> 'w \<times> 'tx Hub"
  wc_user_id :: Uuid

definition send_error :: "('w, 'tx) ws_conn \<Rightarrow> string \<Rightarrow> 'w \<times> 'tx Hub \<Rightarrow> 'w \<times> 'tx Hub" where
  "send_error c message s =
     (case wc_error_json c message of
        Some json \<Rightarrow> fst (send_to (wc_env c) (wc_user_id c) (WsText json) s)
      | None \<Rightarrow> s)"

definition record_violation ::
  "('w, 'tx) ws_conn \<Rightarrow> BucketState \<Rightarrow> 'w \<times> 'tx Hub \<Rightarrow> ('w \<times> 'tx Hub) \<times> BucketState \<times> bool" where
  "record_violation c b s =
     (let n = bk_consecutive_violations b + 1;
          b' = b\<lparr>bk_consecutive_violations := n\<rparr>
      in if MAX_CONSECUTIVE_VIOLATIONS \<le> n
         then (send_error c ''Too many violations, disconnecting'' s, b', True)
         else (s, b', False))"

text \<open>The common tail of the three checks: report, count the violation, drop or disconnect.\<close>

definition refuse ::
  "('w, 'tx) ws_conn \<Rightarrow> string \<Rightarrow> BucketState \<Rightarrow> 'w \<times> 'tx Hub \<Rightarrow> ('w \<times> 'tx Hub) \<times> BucketState \<times> GuardOutcome" where
  "refuse c message b s =
     (let (s1, b1, brk) = record_violation c b (send_error c message s)
      in (s1, b1, if brk then Disconnect else Drop))"

definition check_message_size ::
  "('w, 'tx) ws_conn \<Rightarrow> nat \<Rightarrow> BucketState \<Rightarrow> 'w \<times> 'tx Hub \<Rightarrow> ('w \<times> 'tx Hub) \<times> BucketState \<times> GuardOutcome" where
  "check_message_size c msg_len b s =
     (if msg_len \<le> MAX_MESSAGE_BYTES then (s, b, Allow) else refuse c ''Message too large (max 64 KB)'' b s)"

definition check_message_rate ::
  "('w, 'tx) ws_conn \<Rightarrow> BucketState \<Rightarrow> 'w \<times> 'tx Hub \<Rightarrow> ('w \<times> 'tx Hub) \<times> BucketState \<times> GuardOutcome" where
  "check_message_rate c b s =
     (if 1 \<le> bk_tokens b then (s, b, Allow) else refuse c ''Rate limit exceeded, please slow down'' b s)"

definition check_byte_rate ::
  "('w, 'tx) ws_conn \<Rightarrow> rat \<Rightarrow> BucketState \<Rightarrow> 'w \<times> 'tx Hub \<Rightarrow> ('w \<times> 'tx Hub) \<times> BucketState \<times> GuardOutcome" where
  "check_byte_rate c cost b s =
     (if cost \<le> bk_byte_tokens b then (s, b, Allow) else refuse c ''Byte-rate limit exceeded, please slow down'' b s)"

definition charge :: "rat \<Rightarrow> BucketState \<Rightarrow> BucketState" where
  "charge cost b =
     b\<lparr>bk_tokens := bk_tokens b - 1, bk_byte_tokens := bk_byte_tokens b - cost, bk_consecutive_violations := 0\<rparr>"

definition handle_text_frame ::
  "('w, 'tx) ws_conn \<Rightarrow> bytes \<Rightarrow> BucketState \<Rightarrow> 'w \<times> 'tx Hub \<Rightarrow> ('w \<times> 'tx Hub) \<times> BucketState \<times> bool" where
  "handle_text_frame c text b s =
     (let msg_len = length text; cost = of_nat msg_len in
      case check_message_size c msg_len b s of
        (s1, b1, Disconnect) \<Rightarrow> (s1, b1, True)
      | (s1, b1, Drop) \<Rightarrow> (s1, b1, False)
      | (s1, b1, Allow) \<Rightarrow>
          (case check_message_rate c b1 s1 of
             (s2, b2, Disconnect) \<Rightarrow> (s2, b2, True)
           | (s2, b2, Drop) \<Rightarrow> (s2, b2, False)
           | (s2, b2, Allow) \<Rightarrow>
               (case check_byte_rate c cost b2 s2 of
                  (s3, b3, Disconnect) \<Rightarrow> (s3, b3, True)
                | (s3, b3, Drop) \<Rightarrow> (s3, b3, False)
                | (s3, b3, Allow) \<Rightarrow> (wc_dispatch c text s3, charge cost b3, False))))"

definition handle_other_frame ::
  "('w, 'tx) ws_conn \<Rightarrow> WsMessage \<Rightarrow> BucketState \<Rightarrow> 'w \<times> 'tx Hub \<Rightarrow> ('w \<times> 'tx Hub) \<times> BucketState \<times> bool" where
  "handle_other_frame c msg b s =
     (if bk_tokens b < 1 then record_violation c b s
      else
        let cost = non_text_byte_cost msg
        in if bk_byte_tokens b < cost then record_violation c b s else (s, charge cost b, False))"

text \<open>One turn of the loop for a frame that is not a close frame.\<close>

definition handle_frame ::
  "('w, 'tx) ws_conn \<Rightarrow> WsMessage \<Rightarrow> BucketState \<Rightarrow> 'w \<times> 'tx Hub \<Rightarrow> ('w \<times> 'tx Hub) \<times> BucketState \<times> bool" where
  "handle_frame c msg b s =
     (case msg of WsText text \<Rightarrow> handle_text_frame c text b s | other \<Rightarrow> handle_other_frame c other b s)"

text \<open>The stream of received frames; \<open>None\<close> is a receive error, which ends the loop like its end.\<close>

fun receive_loop ::
  "('w, 'tx) ws_conn \<Rightarrow> (instant \<times> WsMessage option) list \<Rightarrow> BucketState \<Rightarrow> 'w \<times> 'tx Hub
     \<Rightarrow> ('w \<times> 'tx Hub) \<times> BucketState" where
  "receive_loop c [] b s = (s, b)"
| "receive_loop c ((now, None) # fs) b s = (s, b)"
| "receive_loop c ((now, Some msg) # fs) b s =
     (let b1 = refill now b in
      if msg = WsClose then (s, b1)
      else
        let (s2, b2, should_break) = handle_frame c msg b1 s
        in if should_break then (s2, b2) else receive_loop c fs b2 s2)"

definition run_receive_loop ::
  "('w, 'tx) ws_conn \<Rightarrow> instant \<Rightarrow> (instant \<times> WsMessage option) list \<Rightarrow> 'w \<times> 'tx Hub \<Rightarrow> 'w \<times> 'tx Hub" where
  "run_receive_loop c start fs s = fst (receive_loop c fs (BucketState_new start) s)"

section \<open>Invariant\<close>

definition bucket_ok :: "BucketState \<Rightarrow> bool" where
  "bucket_ok b \<longleftrightarrow> 0 \<le> bk_tokens b \<and> bk_tokens b \<le> BUCKET_CAPACITY \<and>
     0 \<le> bk_byte_tokens b \<and> bk_byte_tokens b \<le> BYTE_BUCKET_CAPACITY \<and>
     bk_consecutive_violations b < MAX_CONSECUTIVE_VIOLATIONS"

lemma as_secs_f64_nonneg [simp]: "0 \<le> as_secs_f64 d"
  by (simp add: as_secs_f64_def)

lemma refill_ok: "bucket_ok b \<Longrightarrow> bucket_ok (refill now b)"
  by (auto simp: bucket_ok_def refill_def Let_def ws_limits)

text \<open>
  What a frame can do to the buckets: it is charged and no violation is left on record, or
  only the violation count changes; the loop goes on only below three violations.
\<close>

definition frame_outcome :: "rat \<Rightarrow> BucketState \<Rightarrow> BucketState \<Rightarrow> bool \<Rightarrow> bool \<Rightarrow> bool" where
  "frame_outcome cost b b' brk took \<longleftrightarrow>
     (if took then 1 \<le> bk_tokens b \<and> cost \<le> bk_byte_tokens b \<and> b' = charge cost b \<and> \<not> brk
      else b' = b\<lparr>bk_consecutive_violations := bk_consecutive_violations b + 1\<rparr> \<and>
        (brk \<longleftrightarrow> MAX_CONSECUTIVE_VIOLATIONS \<le> bk_consecutive_violations b + 1))"

lemma frame_outcome_ok:
  assumes "bucket_ok b" "frame_outcome cost b b' False took" "0 \<le> cost"
  shows "bucket_ok b'"
  using assms by (cases took)
    (auto simp: bucket_ok_def frame_outcome_def charge_def ws_limits MAX_CONSECUTIVE_VIOLATIONS_def)

section \<open>What one frame does\<close>

text \<open>\<open>n\<close> measures something that error frames do not change.\<close>

definition quiet :: "('w, 'tx) ws_conn \<Rightarrow> ('w \<times> 'tx Hub \<Rightarrow> nat) \<Rightarrow> bool" where
  "quiet c n \<longleftrightarrow> (\<forall>m s. n (send_error c m s) = n s)"

lemma quietD: "quiet c n \<Longrightarrow> n (send_error c m s) = n s"
  unfolding quiet_def by blast

lemma record_violation_outcome:
  assumes "quiet c n" "record_violation c b s = (s', b', brk)"
  shows "frame_outcome cost b b' brk False \<and> n s' = n s"
  using assms by (auto simp: record_violation_def frame_outcome_def quietD Let_def split: if_splits)

lemma refuse_outcome:
  assumes "quiet c n" "refuse c m b s = (s', b', g)"
  shows "g \<noteq> Allow \<and> frame_outcome cost b b' (g = Disconnect) False \<and> n s' = n s"
proof -
  obtain s1 b1 brk where r: "record_violation c b (send_error c m s) = (s1, b1, brk)" by (metis prod.exhaust)
  have "frame_outcome cost b b1 brk False" "n s1 = n (send_error c m s)"
    using record_violation_outcome [OF assms(1) r] by auto
  moreover have "s' = s1" "b' = b1" "g = (if brk then Disconnect else Drop)"
    using assms(2) r by (auto simp: refuse_def)
  ultimately show ?thesis using quietD [OF assms(1)] by auto
qed

lemma handle_text_frame_outcome:
  assumes q: "quiet c n" and h: "handle_text_frame c text b s = (s', b', brk)"
  shows "\<exists>took. frame_outcome (of_nat (length text)) b b' brk took \<and>
    (if took then length text \<le> MAX_MESSAGE_BYTES \<and> s' = wc_dispatch c text s else n s' = n s)"
proof -
  let ?R = "frame_outcome (of_nat (length text)) b b' brk False \<and> n s' = n s"
  have R: ?R
    if "(case refuse c m b s of (s1, b1, Disconnect) \<Rightarrow> (s1, b1, True) | (s1, b1, Drop) \<Rightarrow> (s1, b1, False)
      | (s1, b1, Allow) \<Rightarrow> x s1 b1) = (s', b', brk)" for m x
  proof -
    obtain s1 b1 g where r: "refuse c m b s = (s1, b1, g)" by (metis prod.exhaust)
    with refuse_outcome [OF q r, of "of_nat (length text)"] that show ?thesis
      by (cases g) auto
  qed
  note checks = handle_text_frame_def check_message_size_def check_message_rate_def check_byte_rate_def
  consider "\<not> length text \<le> MAX_MESSAGE_BYTES" | "length text \<le> MAX_MESSAGE_BYTES" "\<not> 1 \<le> bk_tokens b"
    | "length text \<le> MAX_MESSAGE_BYTES" "1 \<le> bk_tokens b" "\<not> of_nat (length text) \<le> bk_byte_tokens b"
    | "length text \<le> MAX_MESSAGE_BYTES" "1 \<le> bk_tokens b" "of_nat (length text) \<le> bk_byte_tokens b"
    by blast
  then show ?thesis
  proof cases
    case 1
    have ?R using h unfolding checks Let_def
      by (simp only: 1 if_True if_False prod.case GuardOutcome.case) (rule R, assumption)
    then show ?thesis by (intro exI [of _ False]) simp
  next
    case 2
    have ?R using h unfolding checks Let_def
      by (simp only: 2 if_True if_False prod.case GuardOutcome.case) (rule R, assumption)
    then show ?thesis by (intro exI [of _ False]) simp
  next
    case 3
    have ?R using h unfolding checks Let_def
      by (simp only: 3 if_True if_False prod.case GuardOutcome.case) (rule R, assumption)
    then show ?thesis by (intro exI [of _ False]) simp
  next
    case 4
    then show ?thesis using h by (intro exI [of _ True]) (auto simp: checks frame_outcome_def)
  qed
qed

definition frame_cost :: "WsMessage \<Rightarrow> rat" where
  "frame_cost msg = (case msg of WsText text \<Rightarrow> of_nat (length text) | other \<Rightarrow> non_text_byte_cost other)"

definition frame_text :: "WsMessage \<Rightarrow> bytes option" where
  "frame_text msg = (case msg of WsText text \<Rightarrow> Some text | _ \<Rightarrow> None)"

lemma frame_cost_nonneg [simp]: "0 \<le> frame_cost msg"
  by (cases msg) (simp_all add: frame_cost_def)

lemma handle_frame_outcome:
  assumes q: "quiet c n" and h: "handle_frame c msg b s = (s', b', brk)"
  shows "\<exists>took. frame_outcome (frame_cost msg) b b' brk took \<and>
    (case frame_text msg of
       Some text \<Rightarrow> if took then length text \<le> MAX_MESSAGE_BYTES \<and> s' = wc_dispatch c text s else n s' = n s
     | None \<Rightarrow> n s' = n s)"
proof (cases "frame_text msg")
  case (Some body)
  then have m: "msg = WsText body" by (cases msg) (auto simp: frame_text_def)
  then show ?thesis
    using handle_text_frame_outcome [OF q, of body b s] h by (auto simp: handle_frame_def frame_cost_def frame_text_def)
next
  case None
  then have o: "handle_other_frame c msg b s = (s', b', brk)" "frame_cost msg = non_text_byte_cost msg"
    using h by (cases msg; simp add: frame_text_def handle_frame_def frame_cost_def)+
  show ?thesis
  proof (cases "bk_tokens b < 1 \<or> bk_byte_tokens b < non_text_byte_cost msg")
    case True
    then have "record_violation c b s = (s', b', brk)"
      using o by (auto simp: handle_other_frame_def Let_def split: if_splits)
    then show ?thesis using record_violation_outcome [OF q] None by (intro exI [of _ False]) simp
  next
    case False
    then show ?thesis using o None
      by (intro exI [of _ True]) (auto simp: handle_other_frame_def Let_def frame_outcome_def)
  qed
qed

section \<open>What a bucket lets through\<close>

text \<open>
  A resource of the buckets: a level that refilling raises at most at a given rate, that a
  charge lowers by a price, and that violations leave alone.
\<close>

locale token_resource =
  fixes level :: "BucketState \<Rightarrow> rat"
    and rate :: rat
    and price :: "rat \<Rightarrow> rat"
  assumes level_refill: "level (refill now b) \<le> level b + as_secs_f64 (now - bk_last_refill b) * rate"
    and level_charge: "level (charge cost b) = level b - price cost"
    and level_violation: "level (b\<lparr>bk_consecutive_violations := k\<rparr>) = level b"
    and level_nonneg: "bucket_ok b \<Longrightarrow> 0 \<le> level b"
    and price_nonneg: "0 \<le> cost \<Longrightarrow> 0 \<le> price cost"
    and rate_nonneg: "0 \<le> rate"
begin

lemma level_frame:
  assumes "frame_outcome cost b b' brk took" "0 \<le> cost"
  shows "level b' + (if took then price cost else 0) = level b"
  using assms by (auto simp: frame_outcome_def level_charge level_violation)

end

lemma as_secs_f64_add: "a \<le> b \<Longrightarrow> b \<le> c \<Longrightarrow> as_secs_f64 (c - a) = as_secs_f64 (b - a) + as_secs_f64 (c - b)"
  by (simp add: as_secs_f64_def add_divide_distrib [symmetric] of_nat_add [symmetric])

interpretation message_tokens: token_resource bk_tokens REFILL_RATE "\<lambda>_. 1"
  by unfold_locales (auto simp: refill_def Let_def duration_since_def charge_def bucket_ok_def REFILL_RATE_def)

interpretation byte_tokens: token_resource bk_byte_tokens BYTE_REFILL_RATE "\<lambda>cost. cost"
  by unfold_locales (auto simp: refill_def Let_def duration_since_def charge_def bucket_ok_def BYTE_REFILL_RATE_def)

context token_resource
begin

text \<open>
  If every dispatched text adds at most its price to a measure that error frames leave alone,
  the loop adds at most the level at its start and what is refilled up to its end.
\<close>

lemma receive_loop_bound:
  assumes q: "quiet c n" and d: "\<And>body s. of_nat (n (wc_dispatch c body s)) \<le> of_nat (n s) + price (of_nat (length body))"
  shows "\<lbrakk>bucket_ok b; sorted (bk_last_refill b # map fst fs); \<forall>f\<in>set fs. fst f \<le> T; bk_last_refill b \<le> T\<rbrakk> \<Longrightarrow>
    of_nat (n (fst (receive_loop c fs b s))) \<le> of_nat (n s) + level b + as_secs_f64 (T - bk_last_refill b) * rate"
proof (induction fs arbitrary: b s)
  case Nil
  then show ?case using level_nonneg [OF Nil(1)] rate_nonneg by simp
next
  case (Cons f fs)
  obtain now m where f: "f = (now, m)" by fastforce
  have T: "now \<le> T" "bk_last_refill b \<le> now" using Cons.prems f by auto
  have base: "0 \<le> level b + as_secs_f64 (T - bk_last_refill b) * rate"
    using level_nonneg [OF Cons.prems(1)] rate_nonneg by simp
  show ?case
  proof (cases "m = None \<or> m = Some WsClose")
    case True
    then show ?thesis using base f by auto
  next
    case False
    then obtain msg where m: "m = Some msg" "msg \<noteq> WsClose" by auto
    let ?b = "refill now b"
    obtain s2 b2 brk where h: "handle_frame c msg ?b s = (s2, b2, brk)" by (metis prod.exhaust)
    from handle_frame_outcome [OF q h] obtain took where
      o: "frame_outcome (frame_cost msg) ?b b2 brk took"
      and n2: "case frame_text msg of
        Some body \<Rightarrow> if took then length body \<le> MAX_MESSAGE_BYTES \<and> s2 = wc_dispatch c body s else n s2 = n s
      | None \<Rightarrow> n s2 = n s" by blast
    have lev: "level b2 + (if took then price (frame_cost msg) else 0) = level ?b"
      using level_frame [OF o] by simp
    have grow: "of_nat (n s2) \<le> of_nat (n s) + (if took then price (frame_cost msg) else 0)"
      using n2 d [of _ s] price_nonneg [of "frame_cost msg"]
      by (cases msg) (auto simp: frame_text_def frame_cost_def split: if_splits)
    have refl: "level ?b \<le> level b + as_secs_f64 (now - bk_last_refill b) * rate" by (rule level_refill)
    have split: "as_secs_f64 (T - bk_last_refill b) * rate =
        as_secs_f64 (now - bk_last_refill b) * rate + as_secs_f64 (T - now) * rate"
      using as_secs_f64_add [OF T(2,1)] by (simp add: distrib_right)
    have last: "bk_last_refill b2 = now"
      using o by (auto simp: frame_outcome_def charge_def refill_def Let_def split: if_splits)
    have tail: "of_nat (n (fst (receive_loop c (f # fs) b s))) \<le> of_nat (n s2) + level b2 + as_secs_f64 (T - now) * rate"
    proof (cases brk)
      case True
      have "0 \<le> level b2" using o True level_violation level_nonneg [OF refill_ok [OF Cons.prems(1)]]
        by (auto simp: frame_outcome_def split: if_splits)
      then show ?thesis using True h f m rate_nonneg by (simp add: Let_def)
    next
      case False
      have "bucket_ok b2" using frame_outcome_ok [OF refill_ok [OF Cons.prems(1)]] o False by simp
      then have "of_nat (n (fst (receive_loop c fs b2 s2))) \<le> of_nat (n s2) + level b2 + as_secs_f64 (T - bk_last_refill b2) * rate"
        using Cons.prems f last T by (intro Cons.IH) auto
      then show ?thesis using False h f m last by (simp add: Let_def)
    qed
    show ?thesis using tail grow lev refl split by linarith
  qed
qed

end

lemma BucketState_new_ok: "bucket_ok (BucketState_new now)"
  by (simp add: bucket_ok_def BucketState_new_def ws_limits MAX_CONSECUTIVE_VIOLATIONS_def)

section \<open>Properties\<close>


text \<open>
  and at most 100 KB of text plus 100 KB for every second it is open.
\<close>

theorem ws_byte_rate_bound:
  assumes "quiet c n" and "\<And>body s. n (wc_dispatch c body s) \<le> n s + length body"
    and "sorted (start # map fst fs)" "\<forall>f\<in>set fs. fst f \<le> T" "start \<le> T"
  shows "of_nat (n (run_receive_loop c start fs s)) \<le> of_nat (n s) + 102400 * (1 + as_secs_f64 (T - start))"
proof -
  have "of_nat (n (wc_dispatch c body s)) \<le> (of_nat (n s) + of_nat (length body) :: rat)" for body s
    using assms(2) [of body s] by (metis of_nat_add of_nat_mono)
  from byte_tokens.receive_loop_bound [OF assms(1) this BucketState_new_ok [of start], of fs T s]
  show ?thesis using assms(3-5) by (simp add: run_receive_loop_def BucketState_new_def ws_limits)
qed

text \<open>A connection that logs what it dispatches, for concrete runs.\<close>

definition ref_conn :: "(WsMessage list, nat) ws_conn" where
  "ref_conn = \<lparr>wc_env = \<lparr>we_try_send = (\<lambda>w _ _. (w, SendClosed)), we_instant_now = (\<lambda>w. (w, 0))\<rparr>,
     wc_error_json = (\<lambda>_. None), wc_dispatch = (\<lambda>body (w, h). (w @ [WsText body], h)), wc_user_id = 1\<rparr>"

lemma ref_conn_quiet: "quiet ref_conn n"
  by (simp add: quiet_def send_error_def ref_conn_def)

definition ref_flood :: "(instant \<times> WsMessage option) list" where
  "ref_flood = replicate 40 (0, Some (WsText [104, 105]))"


theorem ws_byte_rate_bound_witness:
  "of_nat (sum_list (map (\<lambda>m. case m of WsText b \<Rightarrow> length b | _ \<Rightarrow> 0) (fst (run_receive_loop ref_conn 0 ref_flood ([], Hub_new))))) \<le>
   (102400 :: rat)"
  using ws_byte_rate_bound [OF ref_conn_quiet, of "\<lambda>s. sum_list (map (\<lambda>m. case m of WsText b \<Rightarrow> length b | _ \<Rightarrow> 0) (fst s))"
      0 ref_flood 0 "([], Hub_new)"]
  by (simp add: ref_conn_def ref_flood_def as_secs_f64_def split_def)

text \<open>
  no text frame over 64 KB reaches the dispatcher.
\<close>

theorem ws_oversize_never_dispatched:
  assumes "quiet c n" and "\<And>body s. length body \<le> 65536 \<Longrightarrow> n (wc_dispatch c body s) = n s"
  shows "n (run_receive_loop c start fs s) = n s"
proof -
  have "n (fst (receive_loop c fs b s)) = n s" for b
  proof (induction fs arbitrary: b s)
    case (Cons f fs)
    obtain now m where f: "f = (now, m)" by fastforce
    show ?case
    proof (cases "m = None \<or> m = Some WsClose")
      case False
      then obtain msg where m: "m = Some msg" "msg \<noteq> WsClose" by auto
      obtain s2 b2 brk where h: "handle_frame c msg (refill now b) s = (s2, b2, brk)" by (metis prod.exhaust)
      have "n s2 = n s"
        using handle_frame_outcome [OF assms(1) h] assms(2) [where s = s]
        by (auto simp: MAX_MESSAGE_BYTES_def split: option.splits if_splits)
      then show ?thesis using Cons.IH [where b = b2 and s = s2] f m h by (simp add: Let_def)
    qed (use f in auto)
  qed simp
  then show ?thesis by (simp add: run_receive_loop_def)
qed

theorem ws_oversize_never_dispatched_witness:
  "length (filter (\<lambda>m. case m of WsText b \<Rightarrow> 65536 < length b | _ \<Rightarrow> False)
     (fst (run_receive_loop ref_conn 0 [(0, Some (WsText (replicate 70000 0)))] ([], Hub_new)))) = 0"
  using ws_oversize_never_dispatched [OF ref_conn_quiet,
      of "\<lambda>s. length (filter (\<lambda>m. case m of WsText b \<Rightarrow> 65536 < length b | _ \<Rightarrow> False) (fst s))" 0
      "[(0, Some (WsText (replicate 70000 0)))]" "([], Hub_new)"]
  by (simp add: ref_conn_def split_def)

text \<open>
  a client with an empty message bucket that keeps sending is cut off by its third frame:
  the frames after it are not looked at.
\<close>

theorem ws_three_violations_disconnect:
  assumes "bk_tokens b < 1" "bk_consecutive_violations b = 0"
    and "list_all (\<lambda>f. fst f = bk_last_refill b \<and> (\<exists>msg. snd f = Some msg \<and> msg \<noteq> WsClose)) [f1, f2, f3]"
  shows "receive_loop c (f1 # f2 # f3 # fs) b s = receive_loop c [f1, f2, f3] b s"
proof -
  have step: "receive_loop c (f # fs) b' s = (let (s2, b2, brk) = handle_frame c (the (snd f)) (refill (fst f) b') s
      in if brk then (s2, b2) else receive_loop c fs b2 s2)"
    if "snd f = Some msg" "msg \<noteq> WsClose" for f fs b' s msg using that by (cases f) simp
  have refused: "\<exists>s2 b2. handle_frame c msg (refill (bk_last_refill b) b') s = (s2, b2, 3 \<le> bk_consecutive_violations b' + 1) \<and>
      bk_tokens b2 < 1 \<and> bk_last_refill b2 = bk_last_refill b \<and>
      bk_consecutive_violations b2 = bk_consecutive_violations b' + 1"
    if "bk_tokens b' < 1" "bk_last_refill b' = bk_last_refill b" for b' s msg
  proof -
    obtain s2 b2 brk where h: "handle_frame c msg (refill (bk_last_refill b) b') s = (s2, b2, brk)" by (metis prod.exhaust)
    have "bk_tokens (refill (bk_last_refill b) b') < 1"
      using that by (simp add: refill_def Let_def duration_since_def as_secs_f64_def)
    with handle_frame_outcome [of c "\<lambda>_. 0", OF _ h] h that show ?thesis
      by (auto simp: quiet_def frame_outcome_def MAX_CONSECUTIVE_VIOLATIONS_def refill_def Let_def
          duration_since_def as_secs_f64_def split: if_splits)
  qed
  have three: "\<not> (3 :: u32) \<le> 1" "\<not> (3 :: u32) \<le> 2" by (simp_all add: word_le_nat_alt)
  obtain m1 m2 m3 where m: "snd f1 = Some m1" "m1 \<noteq> WsClose" "snd f2 = Some m2" "m2 \<noteq> WsClose" "snd f3 = Some m3" "m3 \<noteq> WsClose"
    "fst f1 = bk_last_refill b" "fst f2 = bk_last_refill b" "fst f3 = bk_last_refill b" using assms(3) by auto
  obtain s1 b1 where 1: "handle_frame c m1 (refill (bk_last_refill b) b) s = (s1, b1, False)"
    "bk_tokens b1 < 1" "bk_last_refill b1 = bk_last_refill b" "bk_consecutive_violations b1 = 1"
    using refused [OF assms(1) refl, of m1 s] assms(2) three by auto
  obtain s2 b2 where 2: "handle_frame c m2 (refill (bk_last_refill b) b1) s1 = (s2, b2, False)"
    "bk_tokens b2 < 1" "bk_last_refill b2 = bk_last_refill b" "bk_consecutive_violations b2 = 2"
    using refused [OF 1(2,3), of m2 s1] 1(4) three by auto
  obtain s3 b3 where 3: "handle_frame c m3 (refill (bk_last_refill b) b2) s2 = (s3, b3, True)"
    using refused [OF 2(2,3), of m3 s2] 2(4) by auto
  show ?thesis using m 1(1) 2(1) 3 by (simp add: step)
qed

theorem ws_three_violations_disconnect_witness:
  "receive_loop ref_conn (replicate 3 (0, Some (WsPing [])) @ ref_flood)
     (BucketState_new 0\<lparr>bk_tokens := 0\<rparr>) ([], Hub_new) =
   receive_loop ref_conn (replicate 3 (0, Some (WsPing []))) (BucketState_new 0\<lparr>bk_tokens := 0\<rparr>) ([], Hub_new)"
  using ws_three_violations_disconnect [of "BucketState_new 0\<lparr>bk_tokens := 0\<rparr>"
      "(0, Some (WsPing []))" "(0, Some (WsPing []))" "(0, Some (WsPing []))" ref_conn ref_flood "([], Hub_new)"]
  by (simp add: BucketState_new_def numeral_3_eq_3)

end
