(* ===== verification/Srv_CanvasValidation.thy ===== *)
theory Srv_CanvasValidation
  imports Srv_Base Complex_Main
begin

text \<open>
  \<open>ws/events/canvas_validation.rs\<close>: the schema checks on canvas events. A string is the list of
  its UTF-8 bytes as characters, so that \<open>len\<close> is the length of the list; an object is the list
  of its entries in iteration order. How a JSON number becomes an \<open>f64\<close> or an \<open>i64\<close> is up to the
  JSON library, a parameter; an \<open>f64\<close> is a rational, an infinity or NaN.
\<close>

section \<open>JSON values and floating point\<close>

datatype f64 = Finite rat | Infinite bool | NaN

fun is_finite :: "f64 \<Rightarrow> bool" where
  "is_finite (Finite _) = True"
| "is_finite _ = False"

text \<open>Comparisons with a finite constant; \<open>Infinite True\<close> is the positive infinity.\<close>

fun f64_lt :: "f64 \<Rightarrow> rat \<Rightarrow> bool" where
  "f64_lt (Finite x) c = (x < c)"
| "f64_lt (Infinite pos) c = (\<not> pos)"
| "f64_lt NaN c = False"

fun f64_gt :: "f64 \<Rightarrow> rat \<Rightarrow> bool" where
  "f64_gt (Finite x) c = (c < x)"
| "f64_gt (Infinite pos) c = pos"
| "f64_gt NaN c = False"

fun f64_le :: "f64 \<Rightarrow> rat \<Rightarrow> bool" where
  "f64_le (Finite x) c = (x \<le> c)"
| "f64_le (Infinite pos) c = (\<not> pos)"
| "f64_le NaN c = False"

fun f64_within :: "rat \<Rightarrow> rat \<Rightarrow> f64 \<Rightarrow> bool" where
  "f64_within lo hi (Finite x) = (lo \<le> x \<and> x \<le> hi)"
| "f64_within lo hi _ = False"

datatype 'n json = JNull | JBool bool | JNumber 'n | JString string | JArray "'n json list" | JObject "(string \<times> 'n json) list"

record 'n num_lib =
  nl_as_f64 :: "'n \<Rightarrow> f64 option"
  nl_as_i64 :: "'n \<Rightarrow> int option"

fun json_get :: "'n json \<Rightarrow> string \<Rightarrow> 'n json option" where
  "json_get (JObject m) k = map_of m k"
| "json_get _ k = None"

fun as_str :: "'n json \<Rightarrow> string option" where
  "as_str (JString s) = Some s"
| "as_str _ = None"

fun as_array :: "'n json \<Rightarrow> 'n json list option" where
  "as_array (JArray xs) = Some xs"
| "as_array _ = None"

fun as_f64 :: "'n num_lib \<Rightarrow> 'n json \<Rightarrow> f64 option" where
  "as_f64 N (JNumber n) = nl_as_f64 N n"
| "as_f64 N _ = None"

fun as_i64 :: "'n num_lib \<Rightarrow> 'n json \<Rightarrow> int option" where
  "as_i64 N (JNumber n) = nl_as_i64 N n"
| "as_i64 N _ = None"

section \<open>Bounds and helpers\<close>

definition CANVAS_COORD_MIN :: rat where "CANVAS_COORD_MIN = - 1000"
definition CANVAS_COORD_MAX :: rat where "CANVAS_COORD_MAX = 110000"
definition CANVAS_SURFACE_MAX :: rat where "CANVAS_SURFACE_MAX = 100000"
definition MAX_STROKE_POINTS :: nat where "MAX_STROKE_POINTS = 5000"
definition MAX_STROKE_PARTIAL_POINTS :: nat where "MAX_STROKE_PARTIAL_POINTS = 200"
definition MAX_STROKE_WIDTH :: rat where "MAX_STROKE_WIDTH = 200"
definition LEGACY_SCREENSHARE_MIN :: rat where "LEGACY_SCREENSHARE_MIN = - 10000"
definition LEGACY_SCREENSHARE_MAX :: rat where "LEGACY_SCREENSHARE_MAX = 10000"
definition MAX_WINDOW_ID_LEN :: nat where "MAX_WINDOW_ID_LEN = 64"

definition VALID_TOOLS :: "string list" where
  "VALID_TOOLS = [''freehand'', ''highlighter'', ''eraser'', ''rectangle'', ''ellipse'', ''arrow'', ''line'', ''text'']"

text \<open>A \<open>ValidationError\<close> is its code.\<close>

type_synonym ValidationError = string
type_synonym 'a validated = "ValidationError + 'a"

definition ok_or_code :: "'a option \<Rightarrow> string \<Rightarrow> 'a validated" where
  "ok_or_code x code = (case x of Some v \<Rightarrow> Inr v | None \<Rightarrow> Inl code)"

definition ensure :: "bool \<Rightarrow> string \<Rightarrow> unit validated" where
  "ensure b code = (if b then Inr () else Inl code)"

definition field_code :: "string \<Rightarrow> string \<Rightarrow> string" where
  "field_code field reason = ''canvas.validation.field.'' @ field @ ''.'' @ reason"

definition finite_f64 :: "'n num_lib \<Rightarrow> 'n json \<Rightarrow> string \<Rightarrow> f64 validated" where
  "finite_f64 N payload field =
     bind_r (ok_or_code (Option.bind (json_get payload field) (as_f64 N)) (field_code field ''missing_or_not_number'')) (\<lambda>v.
     bind_r (ensure (is_finite v) (field_code field ''not_finite'')) (\<lambda>_. Inr v))"

definition finite_f64_in :: "'n num_lib \<Rightarrow> 'n json \<Rightarrow> string \<Rightarrow> rat \<Rightarrow> rat \<Rightarrow> f64 validated" where
  "finite_f64_in N payload field lo hi =
     bind_r (finite_f64 N payload field) (\<lambda>v.
     bind_r (ensure (\<not> (f64_lt v lo \<or> f64_gt v hi)) (field_code field ''out_of_range'')) (\<lambda>_. Inr v))"

definition canvas_coord :: "'n num_lib \<Rightarrow> 'n json \<Rightarrow> string \<Rightarrow> f64 validated" where
  "canvas_coord N payload field = finite_f64_in N payload field CANVAS_COORD_MIN CANVAS_COORD_MAX"

definition is_ascii_hexdigit :: "char \<Rightarrow> bool" where
  "is_ascii_hexdigit c \<longleftrightarrow> c \<in> set ''0123456789abcdefABCDEF''"

definition is_uuid_shaped :: "string \<Rightarrow> bool" where
  "is_uuid_shaped s \<longleftrightarrow> length s = 36 \<and>
     list_all (\<lambda>(i, b). if i \<in> {8, 13, 18, 23} then b = CHR ''-'' else is_ascii_hexdigit b) (enumerate 0 s)"

definition require_uuid :: "'n json \<Rightarrow> string \<Rightarrow> unit validated" where
  "require_uuid payload field =
     bind_r (ok_or_code (Option.bind (json_get payload field) as_str) (field_code field ''missing'')) (\<lambda>s.
     ensure (is_uuid_shaped s) (field_code field ''not_uuid''))"

definition is_hex_color :: "string \<Rightarrow> bool" where
  "is_hex_color s \<longleftrightarrow>
     (case s of [] \<Rightarrow> False | c # rest \<Rightarrow>
        c = CHR ''#'' \<and> (length s = 7 \<or> length s = 9) \<and> list_all is_ascii_hexdigit rest)"

section \<open>Strokes\<close>

definition point_code :: "nat \<Rightarrow> string \<Rightarrow> string" where
  "point_code idx reason = ''canvas.validation.stroke.points['' @ dec_string idx @ ''].'' @ reason"

definition validate_point :: "'n num_lib \<Rightarrow> 'n json \<Rightarrow> nat \<Rightarrow> unit validated" where
  "validate_point N point idx =
     bind_r (ok_or_code (Option.bind (json_get point ''x'') (as_f64 N)) (point_code idx ''x.missing'')) (\<lambda>x.
     bind_r (ok_or_code (Option.bind (json_get point ''y'') (as_f64 N)) (point_code idx ''y.missing'')) (\<lambda>y.
     bind_r (ensure (is_finite x \<and> is_finite y) (point_code idx ''not_finite'')) (\<lambda>_.
     ensure (f64_within CANVAS_COORD_MIN CANVAS_COORD_MAX x \<and> f64_within CANVAS_COORD_MIN CANVAS_COORD_MAX y)
       (point_code idx ''out_of_range''))))"

fun validate_points_from :: "'n num_lib \<Rightarrow> nat \<Rightarrow> 'n json list \<Rightarrow> unit validated" where
  "validate_points_from N i [] = Inr ()"
| "validate_points_from N i (p # ps) = bind_r (validate_point N p i) (\<lambda>_. validate_points_from N (Suc i) ps)"

definition validate_points_array :: "'n num_lib \<Rightarrow> 'n json \<Rightarrow> nat \<Rightarrow> unit validated" where
  "validate_points_array N payload max_len =
     bind_r (ok_or_code (Option.bind (json_get payload ''points'') as_array) ''canvas.validation.stroke.points.missing'') (\<lambda>points.
     bind_r (ensure (points \<noteq> []) ''canvas.validation.stroke.points.empty'') (\<lambda>_.
     bind_r (ensure (length points \<le> max_len) ''canvas.validation.stroke.points.too_many'') (\<lambda>_.
     validate_points_from N 0 points)))"

definition validate_optional_stroke_meta :: "'n num_lib \<Rightarrow> 'n json \<Rightarrow> unit validated" where
  "validate_optional_stroke_meta N payload =
     bind_r (case json_get payload ''color'' of
               Some color \<Rightarrow>
                 bind_r (ok_or_code (as_str color) ''canvas.validation.stroke.color.not_string'') (\<lambda>s.
                 ensure (is_hex_color s) ''canvas.validation.stroke.color.not_hex'')
             | None \<Rightarrow> Inr ()) (\<lambda>_.
     bind_r (case json_get payload ''width'' of
               Some width \<Rightarrow>
                 bind_r (ok_or_code (as_f64 N width) ''canvas.validation.stroke.width.not_number'') (\<lambda>w.
                 ensure (\<not> (\<not> is_finite w \<or> f64_le w 0 \<or> f64_gt w MAX_STROKE_WIDTH))
                   ''canvas.validation.stroke.width.out_of_range'')
             | None \<Rightarrow> Inr ()) (\<lambda>_.
     case json_get payload ''tool'' of
       Some tool \<Rightarrow>
         bind_r (ok_or_code (as_str tool) ''canvas.validation.stroke.tool.not_string'') (\<lambda>s.
         ensure (s \<in> set VALID_TOOLS) ''canvas.validation.stroke.tool.unknown'')
     | None \<Rightarrow> Inr ()))"

definition validate_stroke :: "'n num_lib \<Rightarrow> 'n json \<Rightarrow> unit validated" where
  "validate_stroke N payload =
     bind_r (validate_points_array N payload MAX_STROKE_POINTS) (\<lambda>_. validate_optional_stroke_meta N payload)"

definition validate_stroke_partial :: "'n num_lib \<Rightarrow> 'n json \<Rightarrow> unit validated" where
  "validate_stroke_partial N payload = validate_points_array N payload MAX_STROKE_PARTIAL_POINTS"

section \<open>Clear, images, avatars and screen shares\<close>

fun clear_keys :: "string list \<Rightarrow> unit validated" where
  "clear_keys [] = Inr ()"
| "clear_keys (k # ks) =
     (if k \<noteq> ''scope'' then Inl (''canvas.validation.clear.'' @ k @ ''.unknown_field'') else clear_keys ks)"

fun validate_clear :: "'n json \<Rightarrow> unit validated" where
  "validate_clear JNull = Inr ()"
| "validate_clear (JObject m) =
     (if m = [] then Inr ()
      else bind_r (clear_keys (map fst m)) (\<lambda>_.
        case map_of m ''scope'' of
          Some scope \<Rightarrow>
            bind_r (ok_or_code (as_str scope) ''canvas.validation.clear.scope.not_string'') (\<lambda>s.
            ensure (\<not> (s \<noteq> ''all'' \<and> s \<noteq> ''mine'')) ''canvas.validation.clear.scope.unknown_value'')
        | None \<Rightarrow> Inr ()))"
| "validate_clear _ = Inl ''canvas.validation.clear.not_object''"

definition validate_image_dims :: "'n num_lib \<Rightarrow> 'n json \<Rightarrow> unit validated" where
  "validate_image_dims N payload =
     bind_r (finite_f64 N payload ''width'') (\<lambda>w.
     bind_r (finite_f64 N payload ''height'') (\<lambda>h.
     bind_r (ensure (\<not> (f64_le w 0 \<or> f64_gt w CANVAS_SURFACE_MAX)) ''canvas.validation.image.width.out_of_range'') (\<lambda>_.
     ensure (\<not> (f64_le h 0 \<or> f64_gt h CANVAS_SURFACE_MAX)) ''canvas.validation.image.height.out_of_range'')))"

definition validate_image_url :: "'n json \<Rightarrow> unit validated" where
  "validate_image_url payload =
     bind_r (ok_or_code (Option.bind (json_get payload ''url'') as_str) ''canvas.validation.image_add.url.missing'') (\<lambda>url.
     ensure (starts_with ''/api/media/'' url) ''canvas.validation.image_add.url.not_relative'')"

definition validate_image_add :: "'n num_lib \<Rightarrow> 'n json \<Rightarrow> unit validated" where
  "validate_image_add N payload =
     bind_r (require_uuid payload ''id'') (\<lambda>_.
     bind_r (validate_image_url payload) (\<lambda>_.
     bind_r (canvas_coord N payload ''x'') (\<lambda>_.
     bind_r (canvas_coord N payload ''y'') (\<lambda>_.
     validate_image_dims N payload))))"

definition validate_image_move :: "'n num_lib \<Rightarrow> 'n json \<Rightarrow> unit validated" where
  "validate_image_move N payload =
     bind_r (require_uuid payload ''id'') (\<lambda>_.
     bind_r (canvas_coord N payload ''x'') (\<lambda>_.
     bind_r (canvas_coord N payload ''y'') (\<lambda>_.
     let has_w = (json_get payload ''width'' \<noteq> None); has_h = (json_get payload ''height'' \<noteq> None)
     in case (has_w, has_h) of
          (False, False) \<Rightarrow> Inr ()
        | (True, True) \<Rightarrow> validate_image_dims N payload
        | _ \<Rightarrow> Inl ''canvas.validation.image_move.dims.partial'')))"

definition validate_image_remove :: "'n json \<Rightarrow> unit validated" where
  "validate_image_remove payload = require_uuid payload ''id''"

definition validate_avatar_move :: "'n num_lib \<Rightarrow> 'n json \<Rightarrow> unit validated" where
  "validate_avatar_move N payload =
     bind_r (require_uuid payload ''user_id'') (\<lambda>_.
     bind_r (canvas_coord N payload ''x'') (\<lambda>_.
     bind_r (canvas_coord N payload ''y'') (\<lambda>_. Inr ())))"

definition validate_window_id :: "'n json \<Rightarrow> unit validated" where
  "validate_window_id payload =
     bind_r (ok_or_code (Option.bind (json_get payload ''window_id'') as_str)
               ''canvas.validation.screenshare_move.window_id.missing'') (\<lambda>s.
     bind_r (ensure (s \<noteq> []) ''canvas.validation.screenshare_move.window_id.empty'') (\<lambda>_.
     ensure (length s \<le> MAX_WINDOW_ID_LEN) ''canvas.validation.screenshare_move.window_id.too_long''))"

fun fields_in :: "'n num_lib \<Rightarrow> 'n json \<Rightarrow> rat \<Rightarrow> rat \<Rightarrow> string list \<Rightarrow> unit validated" where
  "fields_in N payload lo hi [] = Inr ()"
| "fields_in N payload lo hi (f # fs) = bind_r (finite_f64_in N payload f lo hi) (\<lambda>_. fields_in N payload lo hi fs)"

definition validate_screenshare_v2 :: "'n num_lib \<Rightarrow> 'n json \<Rightarrow> unit validated" where
  "validate_screenshare_v2 N payload = fields_in N payload 0 1 [''x_norm'', ''y_norm'', ''w_norm'', ''h_norm'']"

definition validate_screenshare_legacy :: "'n num_lib \<Rightarrow> 'n json \<Rightarrow> unit validated" where
  "validate_screenshare_legacy N payload =
     fields_in N payload LEGACY_SCREENSHARE_MIN LEGACY_SCREENSHARE_MAX [''x'', ''y'', ''width'', ''height'']"

definition validate_screenshare_move :: "'n num_lib \<Rightarrow> 'n json \<Rightarrow> unit validated" where
  "validate_screenshare_move N payload =
     bind_r (validate_window_id payload) (\<lambda>_.
     case Option.bind (json_get payload ''coord_v'') (as_i64 N) of
       None \<Rightarrow> validate_screenshare_legacy N payload
     | Some v \<Rightarrow>
         if v = 1 then validate_screenshare_legacy N payload
         else if v = 2 then validate_screenshare_v2 N payload
         else Inl ''canvas.validation.screenshare_move.coord_v.unsupported'')"

definition validate :: "'n num_lib \<Rightarrow> string \<Rightarrow> 'n json \<Rightarrow> unit validated" where
  "validate N kind payload =
     (if kind = ''stroke'' then validate_stroke N payload
      else if kind = ''stroke_partial'' then validate_stroke_partial N payload
      else if kind = ''clear'' then validate_clear payload
      else if kind = ''image_add'' then validate_image_add N payload
      else if kind = ''image_move'' then validate_image_move N payload
      else if kind = ''image_remove'' then validate_image_remove payload
      else if kind = ''avatar_move'' then validate_avatar_move N payload
      else if kind = ''screenshare_move'' then validate_screenshare_move N payload
      else Inr ())"

section \<open>The schemas\<close>

text \<open>What a payload of each kind has to look like, independently of the order of the checks.\<close>

definition num_field :: "'n num_lib \<Rightarrow> 'n json \<Rightarrow> string \<Rightarrow> (rat \<Rightarrow> bool) \<Rightarrow> bool" where
  "num_field N p f ok \<longleftrightarrow> (\<exists>j x. json_get p f = Some j \<and> as_f64 N j = Some (Finite x) \<and> ok x)"

definition str_field :: "'n json \<Rightarrow> string \<Rightarrow> (string \<Rightarrow> bool) \<Rightarrow> bool" where
  "str_field p f ok \<longleftrightarrow> (\<exists>s. json_get p f = Some (JString s) \<and> ok s)"

abbreviation in_world :: "rat \<Rightarrow> bool" where
  "in_world x \<equiv> - 1000 \<le> x \<and> x \<le> 110000"

abbreviation in_surface :: "rat \<Rightarrow> bool" where
  "in_surface x \<equiv> 0 < x \<and> x \<le> 100000"

definition points_schema :: "'n num_lib \<Rightarrow> nat \<Rightarrow> 'n json \<Rightarrow> bool" where
  "points_schema N n p \<longleftrightarrow> (\<exists>ps. json_get p ''points'' = Some (JArray ps) \<and> ps \<noteq> [] \<and> length ps \<le> n \<and>
     (\<forall>q\<in>set ps. num_field N q ''x'' in_world \<and> num_field N q ''y'' in_world))"

definition meta_schema :: "'n num_lib \<Rightarrow> 'n json \<Rightarrow> bool" where
  "meta_schema N p \<longleftrightarrow>
     (json_get p ''color'' \<noteq> None \<longrightarrow> str_field p ''color'' is_hex_color) \<and>
     (json_get p ''width'' \<noteq> None \<longrightarrow> num_field N p ''width'' (\<lambda>w. 0 < w \<and> w \<le> 200)) \<and>
     (json_get p ''tool'' \<noteq> None \<longrightarrow> str_field p ''tool'' (\<lambda>s. s \<in> set VALID_TOOLS))"

definition clear_schema :: "'n json \<Rightarrow> bool" where
  "clear_schema p \<longleftrightarrow> p = JNull \<or>
     (\<exists>m. p = JObject m \<and> (\<forall>(k, v)\<in>set m. k = ''scope'') \<and>
        (m \<noteq> [] \<longrightarrow> str_field p ''scope'' (\<lambda>s. s = ''all'' \<or> s = ''mine'')))"

definition dims_schema :: "'n num_lib \<Rightarrow> 'n json \<Rightarrow> bool" where
  "dims_schema N p \<longleftrightarrow> num_field N p ''width'' in_surface \<and> num_field N p ''height'' in_surface"

definition position_schema :: "'n num_lib \<Rightarrow> 'n json \<Rightarrow> bool" where
  "position_schema N p \<longleftrightarrow> num_field N p ''x'' in_world \<and> num_field N p ''y'' in_world"

definition screenshare_schema :: "'n num_lib \<Rightarrow> 'n json \<Rightarrow> bool" where
  "screenshare_schema N p \<longleftrightarrow>
     str_field p ''window_id'' (\<lambda>s. 1 \<le> length s \<and> length s \<le> 64) \<and>
     (case Option.bind (json_get p ''coord_v'') (as_i64 N) of
        Some v \<Rightarrow> v = 1 \<and> (\<forall>f\<in>{''x'', ''y'', ''width'', ''height''}. num_field N p f (\<lambda>x. - 10000 \<le> x \<and> x \<le> 10000)) \<or>
          v = 2 \<and> (\<forall>f\<in>{''x_norm'', ''y_norm'', ''w_norm'', ''h_norm''}. num_field N p f (\<lambda>x. 0 \<le> x \<and> x \<le> 1))
      | None \<Rightarrow> \<forall>f\<in>{''x'', ''y'', ''width'', ''height''}. num_field N p f (\<lambda>x. - 10000 \<le> x \<and> x \<le> 10000))"

definition schema :: "'n num_lib \<Rightarrow> string \<Rightarrow> 'n json \<Rightarrow> bool" where
  "schema N kind p =
     (if kind = ''stroke'' then points_schema N 5000 p \<and> meta_schema N p
      else if kind = ''stroke_partial'' then points_schema N 200 p
      else if kind = ''clear'' then clear_schema p
      else if kind = ''image_add'' then
        str_field p ''id'' is_uuid_shaped \<and> str_field p ''url'' (\<lambda>u. \<exists>rest. u = ''/api/media/'' @ rest) \<and>
        position_schema N p \<and> dims_schema N p
      else if kind = ''image_move'' then
        str_field p ''id'' is_uuid_shaped \<and> position_schema N p \<and>
        (json_get p ''width'' = None \<and> json_get p ''height'' = None \<or> dims_schema N p)
      else if kind = ''image_remove'' then str_field p ''id'' is_uuid_shaped
      else if kind = ''avatar_move'' then str_field p ''user_id'' is_uuid_shaped \<and> position_schema N p
      else if kind = ''screenshare_move'' then screenshare_schema N p
      else True)"

section \<open>The validators decide the schemas\<close>

lemma is_ok_ensure [simp]: "is_ok (ensure b code) \<longleftrightarrow> b" "ensure b code = Inr u \<longleftrightarrow> b"
  by (simp_all add: ensure_def)

lemma ok_or_code_Inr [simp]: "ok_or_code x code = Inr v \<longleftrightarrow> x = Some v"
  by (cases x) (simp_all add: ok_or_code_def)

lemma is_finite_iff: "is_finite v \<longleftrightarrow> (\<exists>x. v = Finite x)"
  by (cases v) auto

lemma as_str_Some [simp]: "as_str j = Some s \<longleftrightarrow> j = JString s"
  by (cases j) auto

lemma as_array_Some [simp]: "as_array j = Some ps \<longleftrightarrow> j = JArray ps"
  by (cases j) auto

lemma finite_f64_Inr:
  "finite_f64 N p f = Inr v \<longleftrightarrow> (\<exists>j x. json_get p f = Some j \<and> as_f64 N j = Some (Finite x) \<and> v = Finite x)"
  by (auto simp: finite_f64_def bind_r_eq_Inr bind_eq_Some_conv is_finite_iff)

lemma finite_f64_in_ok: "is_ok (finite_f64_in N p f lo hi) \<longleftrightarrow> num_field N p f (\<lambda>x. lo \<le> x \<and> x \<le> hi)"
  by (auto simp: finite_f64_in_def is_ok_bind finite_f64_Inr num_field_def not_less)

lemma canvas_coord_ok: "is_ok (canvas_coord N p f) \<longleftrightarrow> num_field N p f in_world"
  by (simp add: canvas_coord_def finite_f64_in_ok CANVAS_COORD_MIN_def CANVAS_COORD_MAX_def)

lemma require_uuid_ok: "is_ok (require_uuid p f) \<longleftrightarrow> str_field p f is_uuid_shaped"
  by (auto simp: require_uuid_def is_ok_bind str_field_def bind_eq_Some_conv)

lemma validate_point_ok: "is_ok (validate_point N q i) \<longleftrightarrow> num_field N q ''x'' in_world \<and> num_field N q ''y'' in_world"
  by (auto simp: validate_point_def is_ok_bind num_field_def bind_eq_Some_conv is_finite_iff CANVAS_COORD_MIN_def
      CANVAS_COORD_MAX_def)

lemma validate_points_from_ok:
  "is_ok (validate_points_from N i ps) \<longleftrightarrow> (\<forall>q\<in>set ps. num_field N q ''x'' in_world \<and> num_field N q ''y'' in_world)"
  by (induction ps arbitrary: i) (auto simp: validate_point_ok)

lemma validate_points_array_ok: "is_ok (validate_points_array N p n) \<longleftrightarrow> points_schema N n p"
  by (auto simp: validate_points_array_def points_schema_def is_ok_bind validate_points_from_ok bind_eq_Some_conv)

lemma validate_meta_ok: "is_ok (validate_optional_stroke_meta N p) \<longleftrightarrow> meta_schema N p"
  by (auto simp: validate_optional_stroke_meta_def meta_schema_def is_ok_bind str_field_def num_field_def is_finite_iff
      MAX_STROKE_WIDTH_def not_le not_less split: option.split)

lemma clear_keys_ok: "is_ok (clear_keys ks) \<longleftrightarrow> (\<forall>k\<in>set ks. k = ''scope'')"
  by (induction ks) auto

lemma validate_clear_ok: "is_ok (validate_clear p) \<longleftrightarrow> clear_schema p"
proof (cases p)
  case (JObject m)
  show ?thesis
  proof (cases "m \<noteq> [] \<and> (\<forall>k\<in>set (map fst m). k = ''scope'')")
    case True
    then obtain v where "map_of m ''scope'' = Some v" by (cases m) auto
    then show ?thesis
      using JObject True by (auto simp: clear_schema_def clear_keys_ok is_ok_bind str_field_def)
  next
    case False
    then show ?thesis using JObject by (auto simp: clear_schema_def clear_keys_ok)
  qed
qed (auto simp: clear_schema_def)

lemma validate_image_dims_ok: "is_ok (validate_image_dims N p) \<longleftrightarrow> dims_schema N p"
  by (auto simp: validate_image_dims_def dims_schema_def is_ok_bind finite_f64_Inr num_field_def CANVAS_SURFACE_MAX_def
      not_le not_less)

lemma validate_image_url_ok:
  "is_ok (validate_image_url p) \<longleftrightarrow> str_field p ''url'' (\<lambda>u. \<exists>rest. u = ''/api/media/'' @ rest)"
  by (auto simp: validate_image_url_def is_ok_bind str_field_def bind_eq_Some_conv starts_with_iff)

lemma fields_in_ok:
  "is_ok (fields_in N p lo hi fs) \<longleftrightarrow> (\<forall>f\<in>set fs. num_field N p f (\<lambda>x. lo \<le> x \<and> x \<le> hi))"
  by (induction fs) (auto simp: finite_f64_in_ok)

lemma validate_window_id_ok:
  "is_ok (validate_window_id p) \<longleftrightarrow> str_field p ''window_id'' (\<lambda>s. 1 \<le> length s \<and> length s \<le> 64)"
  by (auto simp: validate_window_id_def is_ok_bind str_field_def bind_eq_Some_conv MAX_WINDOW_ID_LEN_def Suc_le_eq)

lemma validate_image_move_ok:
  "is_ok (validate_image_move N p) \<longleftrightarrow> str_field p ''id'' is_uuid_shaped \<and> position_schema N p \<and>
     (json_get p ''width'' = None \<and> json_get p ''height'' = None \<or> dims_schema N p)"
  by (cases "json_get p ''width''"; cases "json_get p ''height''")
    (auto simp: validate_image_move_def require_uuid_ok canvas_coord_ok position_schema_def validate_image_dims_ok
      dims_schema_def num_field_def)

lemma validate_screenshare_ok: "is_ok (validate_screenshare_move N p) \<longleftrightarrow> screenshare_schema N p"
  by (auto simp: validate_screenshare_move_def screenshare_schema_def validate_window_id_ok finite_f64_in_ok
      validate_screenshare_legacy_def validate_screenshare_v2_def LEGACY_SCREENSHARE_MIN_def LEGACY_SCREENSHARE_MAX_def
      split: option.split)

section \<open>Properties\<close>

text \<open>
  C32: \<open>validate\<close> accepts a payload exactly when it meets the schema of its kind. In particular
  every coordinate of an accepted event is a finite number within the canvas world, every
  size is positive and bounded, and no accepted stroke has more than 5000 points.
\<close>

theorem validate_decides_schema: "validate N kind p = Inr () \<longleftrightarrow> schema N kind p"
proof -
  have "validate N kind p = Inr () \<longleftrightarrow> is_ok (validate N kind p)" by (auto simp: is_ok_iff)
  also have "\<dots> \<longleftrightarrow> schema N kind p"
    unfolding validate_def schema_def
    by (simp add: validate_stroke_def validate_stroke_partial_def validate_points_array_ok validate_meta_ok
        validate_clear_ok validate_image_add_def require_uuid_ok validate_image_url_ok canvas_coord_ok
        validate_image_dims_ok validate_image_move_ok validate_image_remove_def validate_avatar_move_def
        validate_screenshare_ok position_schema_def MAX_STROKE_POINTS_def MAX_STROKE_PARTIAL_POINTS_def conj_assoc)
  finally show ?thesis .
qed

end
