(* ===== verification/Srv_CanvasAuthority.thy ===== *)
theory Srv_CanvasAuthority
  imports Srv_Base
begin

text \<open>
  \<open>ws/events/canvas_authority.rs\<close>: which device of a user may draw in a lounge. The clock is an
  argument of the claims.
\<close>

section \<open>The store\<close>

definition CLAIM_GRACE :: nat where "CLAIM_GRACE = 1000 * 1000000"

record AuthorityEntry =
  ae_device_id :: device_id
  ae_claimed_at :: instant

type_synonym CanvasAuthority = "(Uuid \<times> Uuid, AuthorityEntry) hmap"

definition CanvasAuthority_new :: CanvasAuthority where
  "CanvasAuthority_new = []"

definition current :: "CanvasAuthority \<Rightarrow> Uuid \<Rightarrow> Uuid \<Rightarrow> device_id option" where
  "current a user_id channel_id = map_option ae_device_id (hm_get a (user_id, channel_id))"

definition within_grace :: "instant \<Rightarrow> instant \<Rightarrow> bool" where
  "within_grace claimed_at now \<longleftrightarrow> duration_since now claimed_at < CLAIM_GRACE"

definition claim_if_absent :: "instant \<Rightarrow> Uuid \<Rightarrow> Uuid \<Rightarrow> device_id \<Rightarrow> CanvasAuthority \<Rightarrow> CanvasAuthority \<times> bool" where
  "claim_if_absent now user_id channel_id device_id a =
     (case hm_get a (user_id, channel_id) of
        Some occupied \<Rightarrow> (a, ae_device_id occupied = device_id)
      | None \<Rightarrow> (hm_insert (user_id, channel_id) \<lparr>ae_device_id = device_id, ae_claimed_at = now\<rparr> a, True))"

definition claim :: "instant \<Rightarrow> Uuid \<Rightarrow> Uuid \<Rightarrow> device_id \<Rightarrow> CanvasAuthority \<Rightarrow> CanvasAuthority \<times> bool" where
  "claim now user_id channel_id device_id a =
     (case hm_get a (user_id, channel_id) of
        None \<Rightarrow> (hm_insert (user_id, channel_id) \<lparr>ae_device_id = device_id, ae_claimed_at = now\<rparr> a, True)
      | Some existing \<Rightarrow>
          if ae_device_id existing = device_id then (a, False)
          else if within_grace (ae_claimed_at existing) now then (a, False)
          else (hm_insert (user_id, channel_id) \<lparr>ae_device_id = device_id, ae_claimed_at = now\<rparr> a, True))"

definition clear_on_leave :: "Uuid \<Rightarrow> Uuid \<Rightarrow> CanvasAuthority \<Rightarrow> CanvasAuthority" where
  "clear_on_leave user_id channel_id a = hm_remove (user_id, channel_id) a"

section \<open>Handovers\<close>

datatype authority_op = Claim device_id | Touch device_id

text \<open>An operation on the lounge \<open>(u, c)\<close> at a time, and the times at which the holder changes.\<close>

fun apply_op :: "instant \<Rightarrow> Uuid \<Rightarrow> Uuid \<Rightarrow> authority_op \<Rightarrow> CanvasAuthority \<Rightarrow> CanvasAuthority" where
  "apply_op t u c (Claim d) a = fst (claim t u c d a)"
| "apply_op t u c (Touch d) a = fst (claim_if_absent t u c d a)"

fun handovers :: "Uuid \<Rightarrow> Uuid \<Rightarrow> (instant \<times> Uuid \<times> Uuid \<times> authority_op) list \<Rightarrow> CanvasAuthority \<Rightarrow> instant list" where
  "handovers u c [] a = []"
| "handovers u c ((t, u', c', opr) # ops) a =
     (let a' = apply_op t u' c' opr a
      in (if current a' u c \<noteq> current a u c then [t] else []) @ handovers u c ops a')"

text \<open>The entry of a lounge changes only by a claim that finds it vacant or out of grace.\<close>

lemma apply_op_entry:
  "hm_get (apply_op t u' c' opr a) (u, c) = hm_get a (u, c) \<or>
   (\<exists>d. hm_get (apply_op t u' c' opr a) (u, c) = Some \<lparr>ae_device_id = d, ae_claimed_at = t\<rparr> \<and>
      (\<forall>e. hm_get a (u, c) = Some e \<longrightarrow> CLAIM_GRACE \<le> t - ae_claimed_at e))"
  by (cases opr; cases "hm_get a (u', c')")
    (auto simp: claim_def claim_if_absent_def hm.get_put within_grace_def duration_since_def)

lemma handovers_from:
  assumes "hm_get a (u, c) = Some e" "sorted (ae_claimed_at e # map fst ops)"
  shows "(\<forall>t\<in>set (handovers u c ops a). ae_claimed_at e + CLAIM_GRACE \<le> t) \<and>
    sorted_wrt (\<lambda>s t. s + CLAIM_GRACE \<le> t) (handovers u c ops a)"
  using assms
proof (induction ops arbitrary: a e)
  case (Cons x ops)
  obtain t u' c' opr where x: "x = (t, u', c', opr)" by (metis prod.exhaust)
  let ?a = "apply_op t u' c' opr a"
  have t: "ae_claimed_at e \<le> t" "sorted (ae_claimed_at e # map fst ops)" "sorted (t # map fst ops)"
    using Cons.prems x by auto
  consider "hm_get ?a (u, c) = Some e" | d where "hm_get ?a (u, c) = Some \<lparr>ae_device_id = d, ae_claimed_at = t\<rparr>"
      "CLAIM_GRACE \<le> t - ae_claimed_at e"
    using apply_op_entry [of t u' c' opr a u c] Cons.prems(1) by auto
  then show ?case
  proof cases
    case 1
    then show ?thesis using Cons.IH [OF 1 t(2)] Cons.prems(1) x by (simp add: current_def)
  next
    case 2
    then have "(\<forall>s\<in>set (handovers u c ops ?a). t + CLAIM_GRACE \<le> s) \<and>
        sorted_wrt (\<lambda>s t. s + CLAIM_GRACE \<le> t) (handovers u c ops ?a)"
      using Cons.IH [OF 2(1)] t(3) by simp
    moreover have "ae_claimed_at e + CLAIM_GRACE \<le> t" using 2(2) t(1) by simp
    ultimately show ?thesis using x by (fastforce simp: Let_def)
  qed
qed simp

lemma handovers_vacant:
  assumes "hm_get a (u, c) = None" "sorted (map fst ops)"
  shows "sorted_wrt (\<lambda>s t. s + CLAIM_GRACE \<le> t) (handovers u c ops a)"
  using assms
proof (induction ops arbitrary: a)
  case (Cons x ops)
  obtain t u' c' opr where x: "x = (t, u', c', opr)" by (metis prod.exhaust)
  let ?a = "apply_op t u' c' opr a"
  consider "hm_get ?a (u, c) = None" | d where "hm_get ?a (u, c) = Some \<lparr>ae_device_id = d, ae_claimed_at = t\<rparr>"
    using apply_op_entry [of t u' c' opr a u c] Cons.prems(1) by auto
  then show ?case
  proof cases
    case 1
    then show ?thesis using Cons.IH [OF 1] Cons.prems x by (simp add: current_def)
  next
    case 2
    then show ?thesis using handovers_from [OF 2] Cons.prems x by (simp add: Let_def)
  qed
qed simp

section \<open>Properties\<close>

text \<open>
  authority cannot oscillate: while nobody leaves the lounge, any two handovers between a
  user's devices are at least one second apart, whatever claims and drawing events arrive
  for it and for other lounges.
\<close>

theorem authority_handovers_spaced:
  assumes "sorted (map fst ops)" and "\<And>e. hm_get a (u, c) = Some e \<Longrightarrow> \<forall>x\<in>set ops. ae_claimed_at e \<le> fst x"
  shows "sorted_wrt (\<lambda>s t. s + 1000000000 \<le> t) (handovers u c ops a)"
proof (cases "hm_get a (u, c)")
  case None
  then show ?thesis using handovers_vacant [OF None assms(1)] by (simp add: CLAIM_GRACE_def)
next
  case (Some e)
  then show ?thesis using handovers_from [OF Some, of ops] assms by (simp add: CLAIM_GRACE_def)
qed

theorem authority_handovers_spaced_witness:
  "handovers 1 2 [(0, 1, 2, Touch 7), (5, 1, 2, Claim 8), (2000000000, 1, 2, Claim 8)] CanvasAuthority_new = [0, 2000000000] \<and>
   sorted_wrt (\<lambda>s t. s + 1000000000 \<le> t)
     (handovers 1 2 [(0, 1, 2, Touch 7), (5, 1, 2, Claim 8), (2000000000, 1, 2, Claim 8)] CanvasAuthority_new)"
  using authority_handovers_spaced [of "[(0, 1, 2, Touch 7), (5, 1, 2, Claim 8), (2000000000, 1, 2, Claim 8)]" CanvasAuthority_new 1 2]
  by (simp add: CanvasAuthority_new_def hm_get_def claim_def claim_if_absent_def hm_insert_def current_def
      within_grace_def duration_since_def CLAIM_GRACE_def)

text \<open>
  a drawing event is let through exactly for the device that holds authority
  afterwards: the implicit claim succeeds for the current holder or on a vacant lounge, never
  displaces a holder, and an explicit claim reports a change exactly when the holder changed.
\<close>

theorem authority_claims_exact:
  "snd (claim_if_absent now u c d a) = (current (fst (claim_if_absent now u c d a)) u c = Some d) \<and>
   (\<forall>h. current a u c = Some h \<longrightarrow> current (fst (claim_if_absent now u c d a)) u c = Some h) \<and>
   snd (claim now u c d a) = (current (fst (claim now u c d a)) u c \<noteq> current a u c) \<and>
   current (clear_on_leave u c a) u c = None"
  by (auto simp: claim_if_absent_def claim_def current_def clear_on_leave_def hm.get_put hm.get_del split: option.splits)

theorem authority_claims_exact_witness:
  "current (fst (claim_if_absent 9 1 2 8 (fst (claim 5 1 2 7 CanvasAuthority_new)))) 1 2 = Some 7"
  using authority_claims_exact [of 9 1 2 8 "fst (claim 5 1 2 7 CanvasAuthority_new)"]
  by (simp add: current_def claim_def CanvasAuthority_new_def hm.get_empty hm.get_put)

end
