(* ===== verification/Srv_Types.thy ===== *)
theory Srv_Types
  imports Srv_Base Srv_CanvasValidation
begin

text \<open>
  \<open>types.rs\<close> and \<open>ws/protocol.rs\<close>: roles, kinds, and the frames exchanged with the clients. The
  fields of \<open>ServerMessage::NewMessage\<close> other than \<open>undecryptable\<close> are those of the struct
  \<open>NewMessageFields\<close> of \<open>ws/message_service/fanout.rs\<close>, so they share its record. A Rust string
  is the list of its bytes, a \<open>DateTime\<close> an integer.
\<close>

type_synonym datetime = int
type_synonym i64 = int
type_synonym i32 = int

section \<open>Roles and kinds\<close>

datatype Role = Member | Admin | Owner

definition Role_from_str_opt :: "string \<Rightarrow> Role option" where
  "Role_from_str_opt s =
     (if s = ''owner'' then Some Owner else if s = ''admin'' then Some Admin
      else if s = ''member'' then Some Member else None)"

fun Role_as_str :: "Role \<Rightarrow> string" where
  "Role_as_str Owner = ''owner''"
| "Role_as_str Admin = ''admin''"
| "Role_as_str Member = ''member''"

fun is_admin_or_above :: "Role \<Rightarrow> bool" where
  "is_admin_or_above Admin = True"
| "is_admin_or_above Owner = True"
| "is_admin_or_above Member = False"

text \<open>\<open>derive(PartialOrd, Ord)\<close>: the order of the constructors.\<close>

fun role_rank :: "Role \<Rightarrow> nat" where
  "role_rank Member = 0"
| "role_rank Admin = 1"
| "role_rank Owner = 2"

instantiation Role :: linorder
begin
definition less_eq_Role :: "Role \<Rightarrow> Role \<Rightarrow> bool" where "a \<le> b \<longleftrightarrow> role_rank a \<le> role_rank b"
definition less_Role :: "Role \<Rightarrow> Role \<Rightarrow> bool" where "a < b \<longleftrightarrow> role_rank a < role_rank b"
instance
proof
  fix x y z :: Role
  show "(x < y) = (x \<le> y \<and> \<not> y \<le> x)" by (auto simp: less_eq_Role_def less_Role_def)
  show "x \<le> x" by (simp add: less_eq_Role_def)
  show "x \<le> y \<Longrightarrow> y \<le> z \<Longrightarrow> x \<le> z" by (simp add: less_eq_Role_def)
  show "x \<le> y \<Longrightarrow> y \<le> x \<Longrightarrow> x = y" by (cases x; cases y) (auto simp: less_eq_Role_def)
  show "x \<le> y \<or> y \<le> x" by (auto simp: less_eq_Role_def)
qed
end

datatype ConversationKind = Direct | Group

definition ConversationKind_from_str_opt :: "string \<Rightarrow> ConversationKind option" where
  "ConversationKind_from_str_opt s =
     (if s = ''direct'' then Some Direct else if s = ''group'' then Some Group else None)"

fun ConversationKind_as_str :: "ConversationKind \<Rightarrow> string" where
  "ConversationKind_as_str Direct = ''direct''"
| "ConversationKind_as_str Group = ''group''"

datatype ChannelKind = Text | Voice

definition ChannelKind_from_str_opt :: "string \<Rightarrow> ChannelKind option" where
  "ChannelKind_from_str_opt s =
     (if s = ''text'' then Some Text else if s = ''voice'' then Some Voice else None)"

fun ChannelKind_as_str :: "ChannelKind \<Rightarrow> string" where
  "ChannelKind_as_str Text = ''text''"
| "ChannelKind_as_str Voice = ''voice''"

lemma role_codec: "Role_from_str_opt s = Some r \<longleftrightarrow> s = Role_as_str r"
  by (cases r) (auto simp: Role_from_str_opt_def split: if_splits)

lemma conversation_kind_codec: "ConversationKind_from_str_opt s = Some k \<longleftrightarrow> s = ConversationKind_as_str k"
  by (cases k) (auto simp: ConversationKind_from_str_opt_def split: if_splits)

lemma channel_kind_codec: "ChannelKind_from_str_opt s = Some k \<longleftrightarrow> s = ChannelKind_as_str k"
  by (cases k) (auto simp: ChannelKind_from_str_opt_def split: if_splits)

lemma admin_threshold: "is_admin_or_above r \<longleftrightarrow> Admin \<le> r"
  by (cases r) (auto simp: less_eq_Role_def)

section \<open>Frames\<close>

type_synonym RecipientDeviceContents = "(string, (string, string) hmap) hmap"

record SendRequest =
  sq_conversation_id :: "Uuid option"
  sq_channel_id :: "Uuid option"
  sq_to_user_id :: "Uuid option"
  sq_content :: string
  sq_reply_to_id :: "Uuid option"
  sq_recipient_device_contents :: "RecipientDeviceContents option"
  sq_ttl_seconds :: "i64 option"
  sq_client_message_id :: "Uuid option"
  sq_thread_root_id :: "Uuid option"

datatype 'n ClientMessage =
    SendMessage SendRequest
  | ClientTyping Uuid "Uuid option"
  | ClientReadReceipt Uuid
  | ClientVoiceSignal Uuid Uuid Uuid "'n json"
  | ClientKeyReset Uuid
  | ClientCallStarted Uuid
  | ClientCanvasEvent Uuid string "'n json"

record NewMessageFields =
  nm_message_id :: Uuid
  nm_from_user_id :: Uuid
  nm_from_device_id :: "device_id option"
  nm_from_username :: string
  nm_conversation_id :: Uuid
  nm_channel_id :: "Uuid option"
  nm_content :: string
  nm_timestamp :: datetime
  nm_reply_to_id :: "Uuid option"
  nm_reply_to_content :: "string option"
  nm_reply_to_username :: "string option"
  nm_thread_root_id :: "Uuid option"
  nm_expires_at :: "datetime option"

datatype 'n ServerMessage =
    NewMessage NewMessageFields (undecryptable: "bool option")
  | SelfMessage Uuid device_id Uuid "Uuid option" string datetime "Uuid option"
  | MessageSent Uuid Uuid "Uuid option" datetime "datetime option"
  | Delivered Uuid Uuid
  | Typing Uuid "Uuid option" Uuid string
  | ReadReceipt Uuid Uuid
  | Error string
  | VoiceSignal Uuid Uuid Uuid "'n json"
  | KeyReset Uuid string Uuid
  | CallStarted Uuid string Uuid
  | MessageExpired Uuid Uuid
  | DeviceRevoked device_id
  | PeerKeysPublished Uuid "device_id list"
  | CanvasEvent Uuid Uuid string "'n json"
  | CanvasAuthorityChanged Uuid Uuid device_id

end
