(* ===== verification/Srv_App.thy ===== *)
theory Srv_App
  imports Srv_Types Srv_Hub Srv_CanvasAuthority Core_Primitives "HOL-Library.State_Monad"
begin

text \<open>
  The server's shared state (\<open>AppState\<close>), the tables of its database, and how a handler runs:
  a handler is a state transformer, written in the state monad. The rows keep the columns that
  the modelled queries read or write. What the program does not decide (whether a queue
  accepts, whether a statement fails, the clock, random identifiers) is drawn from a world of
  type \<open>'w\<close> through the functions of the environment, so that a theorem covers every run of
  outcomes. Text encodings of foreign crates (\<open>serde_json\<close>, \<open>uuid\<close>, \<open>base64\<close>) are functions of
  the environment too.
\<close>

section \<open>Tables\<close>

record UserRow =
  us_id :: Uuid
  us_username :: string
  us_read_receipts_enabled :: bool
  us_presence_status :: string
  us_display_name :: "string option"
  us_avatar_url :: "string option"
  us_status_text :: "string option"
  us_password_hash :: string
  us_is_admin :: bool
  us_identity_key_fingerprint :: "bytes option"

record ConversationRow =
  cv_id :: Uuid
  cv_kind :: string
  cv_is_encrypted :: bool
  cv_disappearing_ttl_seconds :: "i32 option"
  cv_title :: "string option"
  cv_description :: "string option"
  cv_is_public :: bool
  cv_key_version :: i32
  cv_member_count :: i32
  cv_icon_url :: "string option"
  cv_created_at :: datetime

record MemberRow =
  mb_conversation_id :: Uuid
  mb_user_id :: Uuid
  mb_is_removed :: bool
  mb_role :: string
  mb_joined_at :: datetime
  mb_is_muted :: bool

record ContactRow =
  ct_id :: Uuid
  ct_requester_id :: Uuid
  ct_target_id :: Uuid
  ct_status :: string
  ct_created_at :: datetime

record MessageRow =
  ms_id :: Uuid
  ms_conversation_id :: Uuid
  ms_channel_id :: "Uuid option"
  ms_sender_id :: Uuid
  ms_sender_device_id :: "device_id option"
  ms_content :: string
  ms_created_at :: datetime
  ms_delivered :: bool
  ms_reply_to_id :: "Uuid option"
  ms_expires_at :: "datetime option"
  ms_thread_root_id :: "Uuid option"
  ms_edited_at :: "datetime option"
  ms_pinned_by_id :: "Uuid option"
  ms_pinned_at :: "datetime option"
  ms_deleted :: bool

record ChannelRow =
  ch_id :: Uuid
  ch_conversation_id :: Uuid
  ch_kind :: string
  ch_position :: i32
  ch_created_at :: datetime
  ch_deleted :: bool

record IdentityKeyRow =
  ir_user_id :: Uuid
  ir_device_id :: device_id
  ir_identity_key :: bytes
  ir_signing_key :: "bytes option"
  ir_platform :: "string option"
  ir_device_name :: "string option"
  ir_last_seen :: "datetime option"
  ir_fingerprint :: "bytes option"
  ir_revoked :: bool

record SignedPrekeyRow =
  sp_user_id :: Uuid
  sp_device_id :: device_id
  sp_key_id :: i32
  sp_public_key :: bytes
  sp_signature :: bytes
  sp_created_at :: datetime
  sp_grace_expires_at :: "datetime option"

record OneTimePrekeyRow =
  op_id :: nat
  op_user_id :: Uuid
  op_device_id :: device_id
  op_key_id :: i32
  op_public_key :: bytes
  op_used :: bool

record GroupKeyRow =
  gk_id :: Uuid
  gk_encrypted_key :: string
  gk_created_by :: Uuid
  gk_created_at :: datetime

record GroupKeyEnvelopeRow =
  ge_id :: Uuid
  ge_encrypted_key :: string
  ge_min_wire_version :: int
  ge_created_at :: datetime

record GroupKeyRotationRow =
  kr_id :: Uuid
  kr_triggered_by_user_id :: Uuid
  kr_triggered_by_event :: string
  kr_completed_at :: datetime
  kr_completed_by_user_id :: Uuid

record RefreshTokenRow =
  rt_id :: Uuid
  rt_user_id :: Uuid
  rt_token_hash :: string
  rt_expires_at :: datetime
  rt_created_at :: datetime
  rt_revoked :: bool
  rt_family_id :: "Uuid option"

record ResetTokenRow =
  pr_user_id :: Uuid
  pr_expires_at :: datetime
  pr_used_at :: "datetime option"

record InviteToken =
  it_conversation_id :: Uuid
  it_created_by :: Uuid
  it_created_at :: datetime
  it_expires_at :: "datetime option"
  it_max_uses :: "i32 option"
  it_use_count :: i32

record 'n CanvasRow =
  ca_drawing_data :: "'n json list"
  ca_images_data :: "'n json list"

record 'n Pool =
  tb_users :: "UserRow list"
  tb_conversations :: "ConversationRow list"
  tb_members :: "MemberRow list"
  tb_direct :: "(Uuid \<times> Uuid, Uuid) hmap"
  tb_contacts :: "ContactRow list"
  tb_blocked :: "(Uuid \<times> Uuid, datetime) hmap"
  tb_messages :: "MessageRow list"
  tb_device_contents :: "(Uuid \<times> Uuid \<times> device_id, string) hmap"
  tb_deliveries :: "(Uuid \<times> Uuid \<times> device_id) list"
  tb_mentions :: "(Uuid \<times> Uuid) list"
  tb_channels :: "ChannelRow list"
  tb_voice_sessions :: "(Uuid \<times> Uuid) list"
  tb_identity_keys :: "IdentityKeyRow list"
  tb_signed_prekeys :: "SignedPrekeyRow list"
  tb_one_time_prekeys :: "OneTimePrekeyRow list"
  tb_read_receipts :: "(Uuid \<times> Uuid, datetime) hmap"
  tb_canvas :: "(Uuid, 'n CanvasRow) hmap"
  tb_banned :: "(Uuid \<times> Uuid, Uuid) hmap"
  tb_invites :: "(string, InviteToken) hmap"
  tb_group_keys :: "(Uuid \<times> i32, GroupKeyRow) hmap"
  tb_envelopes :: "(Uuid \<times> i32 \<times> Uuid, GroupKeyEnvelopeRow) hmap"
  tb_rotations :: "(Uuid \<times> i32, GroupKeyRotationRow) hmap"
  tb_refresh_tokens :: "RefreshTokenRow list"
  tb_reset_tokens :: "(string, ResetTokenRow) hmap"
  tb_reactions :: "(Uuid \<times> Uuid \<times> string, Uuid \<times> datetime) hmap"
  tb_polls :: "(Uuid, string \<times> string list) hmap"
  tb_poll_votes :: "(Uuid \<times> Uuid, i32) hmap"
  tb_thread_reads :: "(Uuid \<times> Uuid, datetime) hmap"
  tb_pinned_conversations :: "(Uuid \<times> Uuid, datetime) hmap"

section \<open>State and environment\<close>

record PushTask =
  pt_users :: "Uuid list"
  pt_sender_name :: string
  pt_content :: string
  pt_is_encrypted :: bool
  pt_conversation_id :: Uuid
  pt_message_id :: Uuid

text \<open>
  \<open>st_pushes\<close> lists the spawned push tasks, \<open>st_message_rate\<close> is the bucket that
  \<open>MessageRateCounter::record\<close> increments; the three caches are the statics of
  \<open>ws/typing_service.rs\<close>.
\<close>

record ('w, 'tx, 'n) AppState =
  st_world :: 'w
  st_hub :: "'tx Hub"
  st_pool :: "'n Pool"
  st_membership_cache :: "(Uuid \<times> Uuid, instant) hmap"
  st_member_ids_cache :: "(Uuid, Uuid list \<times> instant) hmap"
  st_conv_kind_cache :: "(Uuid, string \<times> instant) hmap"
  st_canvas_authority :: CanvasAuthority
  st_pushes :: "PushTask list"
  st_message_rate :: u64
  st_min_iat :: "(Uuid, int) hmap"
  st_ticket_store :: "(string, Uuid \<times> device_id \<times> instant) hmap"
  st_failed_logins :: u64

datatype sqlx_error = RowNotFound | UniqueViolation | OtherDbError

text \<open>A statement can fail before or after it took effect in the database.\<close>

datatype db_outcome = DbOk | DbFailBefore | DbFailAfter

record ('w, 'tx, 'n) srv_env =
  sv_ws :: "('w, 'tx) ws_env"
  sv_db :: "'w \<Rightarrow> 'w \<times> db_outcome"
  sv_gen_random_uuid :: "'w \<Rightarrow> 'w \<times> Uuid"
  sv_utc_now :: "'w \<Rightarrow> 'w \<times> datetime"
  sv_to_json :: "'n ServerMessage \<Rightarrow> string option"
  sv_string_to_json :: "string \<Rightarrow> string option"
  sv_value_to_json :: "'n json \<Rightarrow> string option"
  sv_from_json :: "string \<Rightarrow> 'n ClientMessage option"
  sv_uuid_parse :: "string \<Rightarrow> Uuid option"
  sv_uuid_to_string :: "Uuid \<Rightarrow> string"
  sv_i32_parse :: "string \<Rightarrow> device_id option"
  sv_base64_decode :: "string \<Rightarrow> bytes option"
  sv_to_lowercase :: "string \<Rightarrow> string"
  sv_is_alphanumeric :: "int \<Rightarrow> bool"
  sv_numbers :: "'n num_lib"
  sv_sql_lower :: "string \<Rightarrow> string"
  sv_rfc3339_secs :: "datetime \<Rightarrow> string"
  sv_random_token :: "'w \<Rightarrow> 'w \<times> string"
  sv_num :: "int \<Rightarrow> 'n"
  sv_datetime_text :: "datetime \<Rightarrow> string"
  sv_rfc3339 :: "datetime \<Rightarrow> string"
  sv_ilike_eq :: "int \<Rightarrow> int \<Rightarrow> bool"
  sv_ts_match :: "string \<Rightarrow> string \<Rightarrow> bool"
  sv_sha256 :: "bytes \<Rightarrow> bytes"
  sv_prims :: prims
  sv_base64_encode :: "bytes \<Rightarrow> string"
  sv_hash_password :: "'w \<Rightarrow> string \<Rightarrow> 'w \<times> string option"
  sv_verify_password :: "string \<Rightarrow> string \<Rightarrow> bool option"
  sv_jwt_encode :: "string \<times> int \<times> int \<times> string \<times> string \<Rightarrow> string option"
  sv_jwt_decode :: "datetime \<Rightarrow> string \<Rightarrow> (string \<times> int \<times> int \<times> string \<times> string) option"
  sv_registration_open :: bool
  sv_bootstrap_admin :: "string option"
  sv_cors_origins :: "string option"
  sv_jsonb_text :: "'n json \<Rightarrow> string"
  sv_canvas_validation_mode :: "string option"

type_synonym ('w, 'tx, 'n, 'a) act = "(('w, 'tx, 'n) AppState, 'a) state"

section \<open>Running\<close>

definition gets :: "(('w, 'tx, 'n) AppState \<Rightarrow> 'a) \<Rightarrow> ('w, 'tx, 'n, 'a) act" where
  "gets f = State (\<lambda>s. (f s, s))"

definition modify :: "(('w, 'tx, 'n) AppState \<Rightarrow> ('w, 'tx, 'n) AppState) \<Rightarrow> ('w, 'tx, 'n, unit) act" where
  "modify f = State (\<lambda>s. ((), f s))"

definition draw :: "('w \<Rightarrow> 'w \<times> 'a) \<Rightarrow> ('w, 'tx, 'n, 'a) act" where
  "draw f = State (\<lambda>s. let (w, a) = f (st_world s) in (a, s\<lparr>st_world := w\<rparr>))"

definition on_hub :: "('w \<times> 'tx Hub \<Rightarrow> ('w \<times> 'tx Hub) \<times> 'a) \<Rightarrow> ('w, 'tx, 'n, 'a) act" where
  "on_hub f = State (\<lambda>s. let ((w, h), a) = f (st_world s, st_hub s) in (a, s\<lparr>st_world := w, st_hub := h\<rparr>))"

fun for_each :: "('a \<Rightarrow> ('s, unit) state) \<Rightarrow> 'a list \<Rightarrow> ('s, unit) state" where
  "for_each f [] = State_Monad.return ()"
| "for_each f (x # xs) = do { f x; for_each f xs }"

text \<open>
  One SQL statement: \<open>f\<close> is its effect on the tables and its answer. When the statement fails
  before it took effect nothing changes; when it fails afterwards only the answer is lost.
\<close>

definition query ::
  "('w, 'tx, 'n) srv_env \<Rightarrow> ('n Pool \<Rightarrow> 'n Pool \<times> (sqlx_error + 'a)) \<Rightarrow> ('w, 'tx, 'n, sqlx_error + 'a) act" where
  "query E f = do {
     out \<leftarrow> draw (sv_db E);
     (if out = DbFailBefore then State_Monad.return (Inl OtherDbError)
      else do {
        pool \<leftarrow> gets st_pool;
        modify (\<lambda>s. s\<lparr>st_pool := fst (f pool)\<rparr>);
        State_Monad.return (if out = DbOk then snd (f pool) else Inl OtherDbError)
      })
   }"

definition select :: "('w, 'tx, 'n) srv_env \<Rightarrow> ('n Pool \<Rightarrow> 'a) \<Rightarrow> ('w, 'tx, 'n, sqlx_error + 'a) act" where
  "select E f = query E (\<lambda>pool. (pool, Inr (f pool)))"

definition execute :: "('w, 'tx, 'n) srv_env \<Rightarrow> ('n Pool \<Rightarrow> 'n Pool) \<Rightarrow> ('w, 'tx, 'n, sqlx_error + unit) act" where
  "execute E f = query E (\<lambda>pool. (f pool, Inr ()))"

section \<open>Sending frames\<close>

definition ws_text :: "string \<Rightarrow> WsMessage" where
  "ws_text json = WsText (string_bytes json)"

definition hub_send_to_device ::
  "('w, 'tx, 'n) srv_env \<Rightarrow> Uuid \<Rightarrow> device_id \<Rightarrow> WsMessage \<Rightarrow> ('w, 'tx, 'n, bool) act" where
  "hub_send_to_device E user_id device_id msg = on_hub (send_to_device (sv_ws E) user_id device_id msg)"

definition hub_send_to :: "('w, 'tx, 'n) srv_env \<Rightarrow> Uuid \<Rightarrow> WsMessage \<Rightarrow> ('w, 'tx, 'n, bool) act" where
  "hub_send_to E user_id msg = on_hub (send_to (sv_ws E) user_id msg)"

definition hub_send_to_user_collecting ::
  "('w, 'tx, 'n) srv_env \<Rightarrow> Uuid \<Rightarrow> WsMessage \<Rightarrow> ('w, 'tx, 'n, device_id list) act" where
  "hub_send_to_user_collecting E user_id msg = on_hub (send_to_user_collecting (sv_ws E) user_id msg)"

definition hub_send_to_user_except_device ::
  "('w, 'tx, 'n) srv_env \<Rightarrow> Uuid \<Rightarrow> device_id \<Rightarrow> WsMessage \<Rightarrow> ('w, 'tx, 'n, device_id list) act" where
  "hub_send_to_user_except_device E user_id device_id msg =
     on_hub (send_to_user_except_device (sv_ws E) user_id device_id msg)"

definition hub_broadcast_json ::
  "('w, 'tx, 'n) srv_env \<Rightarrow> Uuid list \<Rightarrow> string \<Rightarrow> Uuid option \<Rightarrow> ('w, 'tx, 'n, unit) act" where
  "hub_broadcast_json E member_ids json exclude =
     on_hub (\<lambda>s. (broadcast_json (sv_ws E) member_ids (string_bytes json) exclude s, ()))"

definition emit_error :: "('w, 'tx, 'n) srv_env \<Rightarrow> Uuid \<Rightarrow> string \<Rightarrow> ('w, 'tx, 'n, unit) act" where
  "emit_error E user_id message =
     (case sv_to_json E (Error message) of
        Some json \<Rightarrow> do { hub_send_to E user_id (ws_text json); State_Monad.return () }
      | None \<Rightarrow> State_Monad.return ())"

section \<open>Reasoning\<close>

text \<open>
  \<open>wp m Q s\<close>: the run of \<open>m\<close> from \<open>s\<close> ends with a value and a state related by \<open>Q\<close>. The rules
  of the collection \<open>wp_simps\<close> compute it along the structure of a handler; \<open>keeps I m\<close> says
  that \<open>m\<close> preserves \<open>I\<close>, and its rules are applied as introduction rules.
\<close>

named_theorems wp_simps "weakest preconditions of the handlers' building blocks"
named_theorems keeps_intros "preservation of state predicates by the handlers' building blocks"

definition wp :: "('s, 'a) state \<Rightarrow> ('a \<Rightarrow> 's \<Rightarrow> bool) \<Rightarrow> 's \<Rightarrow> bool" where
  "wp m Q s = (case run_state m s of (a, s') \<Rightarrow> Q a s')"

definition keeps :: "('s \<Rightarrow> bool) \<Rightarrow> ('s, 'a) state \<Rightarrow> bool" where
  "keeps I m \<longleftrightarrow> (\<forall>s. I s \<longrightarrow> I (snd (run_state m s)))"

lemma wp_return [wp_simps]: "wp (State_Monad.return x) Q = Q x"
  by (simp add: wp_def fun_eq_iff)

lemma wp_bind [wp_simps]: "wp (State_Monad.bind m f) Q = wp m (\<lambda>x. wp (f x) Q)"
  by (simp add: wp_def fun_eq_iff split: prod.split)

lemma wp_gets [wp_simps]: "wp (gets f) Q = (\<lambda>s. Q (f s) s)"
  by (simp add: wp_def gets_def fun_eq_iff)

lemma wp_modify [wp_simps]: "wp (modify f) Q = (\<lambda>s. Q () (f s))"
  by (simp add: wp_def modify_def fun_eq_iff)

lemma wp_draw [wp_simps]: "wp (draw f) Q = (\<lambda>s. case f (st_world s) of (w, a) \<Rightarrow> Q a (s\<lparr>st_world := w\<rparr>))"
  by (simp add: wp_def draw_def fun_eq_iff split: prod.split)

lemma wp_if [wp_simps]: "wp (if b then m else n) Q s = (if b then wp m Q s else wp n Q s)"
  by simp

lemma wp_mono: "wp m P s \<Longrightarrow> (\<And>a t. P a t \<Longrightarrow> Q a t) \<Longrightarrow> wp m Q s"
  by (auto simp: wp_def split: prod.splits)

lemma wp_conj: "wp m P s \<Longrightarrow> wp m Q s \<Longrightarrow> wp m (\<lambda>a t. P a t \<and> Q a t) s"
  by (auto simp: wp_def split: prod.splits)

lemma wp_True [simp]: "wp m (\<lambda>_ _. True) s"
  by (simp add: wp_def split: prod.split)

lemma keeps_wp: "keeps I m \<longleftrightarrow> (\<forall>s. I s \<longrightarrow> wp m (\<lambda>_. I) s)"
  by (simp add: keeps_def wp_def split: prod.split) (metis snd_conv surj_pair)

lemma keepsD: "keeps I m \<Longrightarrow> I s \<Longrightarrow> wp m (\<lambda>_. I) s"
  by (simp add: keeps_wp)

lemma keeps_run: "keeps I m \<Longrightarrow> I s \<Longrightarrow> I (snd (run_state m s))"
  by (simp add: keeps_def)

lemma keeps_return [keeps_intros]: "keeps I (State_Monad.return x)"
  by (simp add: keeps_def)

lemma keeps_bind [keeps_intros]: "keeps I m \<Longrightarrow> (\<And>x. keeps I (f x)) \<Longrightarrow> keeps I (State_Monad.bind m f)"
  by (auto simp: keeps_wp wp_bind intro: wp_mono)

lemma keeps_gets [keeps_intros]: "keeps I (gets f)"
  by (simp add: keeps_def gets_def)

lemma keeps_if [keeps_intros]: "(b \<Longrightarrow> keeps I m) \<Longrightarrow> (\<not> b \<Longrightarrow> keeps I n) \<Longrightarrow> keeps I (if b then m else n)"
  by simp

lemma keeps_option [keeps_intros]:
  "(x = None \<Longrightarrow> keeps I m) \<Longrightarrow> (\<And>y. x = Some y \<Longrightarrow> keeps I (f y)) \<Longrightarrow> keeps I (case x of None \<Rightarrow> m | Some y \<Rightarrow> f y)"
  by (cases x) auto

lemma keeps_sum [keeps_intros]:
  "(\<And>e. x = Inl e \<Longrightarrow> keeps I (f e)) \<Longrightarrow> (\<And>y. x = Inr y \<Longrightarrow> keeps I (g y)) \<Longrightarrow> keeps I (case x of Inl e \<Rightarrow> f e | Inr y \<Rightarrow> g y)"
  by (cases x) auto

lemma keeps_prod [keeps_intros]: "(\<And>a b. x = (a, b) \<Longrightarrow> keeps I (f a b)) \<Longrightarrow> keeps I (case x of (a, b) \<Rightarrow> f a b)"
  by (cases x) auto

lemma keeps_for_each [keeps_intros]: "(\<And>x. x \<in> set xs \<Longrightarrow> keeps I (f x)) \<Longrightarrow> keeps I (for_each f xs)"
  by (induction xs) (auto intro: keeps_intros)

text \<open>A predicate that only reads the tables is kept by everything that leaves them alone.\<close>

definition on_pool :: "('n Pool \<Rightarrow> bool) \<Rightarrow> ('w, 'tx, 'n) AppState \<Rightarrow> bool" where
  "on_pool P s \<longleftrightarrow> P (st_pool s)"

lemma keeps_draw [keeps_intros]: "keeps (on_pool P) (draw f)"
  by (auto simp: keeps_def draw_def on_pool_def split: prod.split)

lemma keeps_on_hub [keeps_intros]: "keeps (on_pool P) (on_hub f)"
  by (auto simp: keeps_def on_hub_def on_pool_def split: prod.split)

lemma keeps_query: "(\<And>p. P p \<Longrightarrow> P (fst (f p))) \<Longrightarrow> keeps (on_pool P) (query E f)"
  by (auto simp: keeps_wp query_def wp_simps on_pool_def split: prod.split)

lemma keeps_select [keeps_intros]: "keeps (on_pool P) (select E f)"
  unfolding select_def by (rule keeps_query) simp

lemma keeps_execute: "(\<And>p. P p \<Longrightarrow> P (f p)) \<Longrightarrow> keeps (on_pool P) (execute E f)"
  unfolding execute_def by (rule keeps_query) simp

lemma keeps_modify: "(\<And>s. st_pool (f s) = st_pool s) \<Longrightarrow> keeps (on_pool P) (modify f)"
  by (simp add: keeps_wp wp_simps on_pool_def)

lemma keeps_hub_ops [keeps_intros]:
  "keeps (on_pool P) (hub_send_to_device E u d m)" "keeps (on_pool P) (hub_send_to E u m)"
  "keeps (on_pool P) (hub_send_to_user_collecting E u m)" "keeps (on_pool P) (hub_send_to_user_except_device E u d m)"
  "keeps (on_pool P) (hub_broadcast_json E us j x)"
  by (simp_all add: hub_send_to_device_def hub_send_to_def hub_send_to_user_collecting_def
      hub_send_to_user_except_device_def hub_broadcast_json_def keeps_intros)

lemma keeps_emit_error [keeps_intros]: "keeps (on_pool P) (emit_error E u m)"
  unfolding emit_error_def by (intro keeps_intros)

text \<open>The answer of a read, when it is given, is computed on the tables it was asked on.\<close>

lemma wp_select:
  assumes "\<And>e t. st_pool t = st_pool s \<Longrightarrow> Q (Inl e) t" and "\<And>t. st_pool t = st_pool s \<Longrightarrow> Q (Inr (f (st_pool s))) t"
  shows "wp (select E f) Q s"
  using assms by (auto simp: select_def query_def wp_simps split: prod.split)

text \<open>A write takes effect or not, whatever its answer.\<close>

lemma wp_execute:
  assumes "\<And>r t. st_pool t = st_pool s \<Longrightarrow> st_canvas_authority t = st_canvas_authority s \<Longrightarrow> Q r t"
    and "\<And>r t. st_pool t = f (st_pool s) \<Longrightarrow> st_canvas_authority t = st_canvas_authority s \<Longrightarrow> Q r t"
  shows "wp (execute E f) Q s"
  using assms by (auto simp: execute_def query_def wp_simps split: prod.split)

lemma wp_on_hub:
  assumes "\<And>w h a. f (st_world s, st_hub s) = ((w, h), a) \<Longrightarrow> Q a (s\<lparr>st_world := w, st_hub := h\<rparr>)"
  shows "wp (on_hub f) Q s"
  using assms by (auto simp: wp_def on_hub_def split: prod.split)

text \<open>What neither a read nor an error frame changes.\<close>

definition same_core :: "('w, 'tx, 'n) AppState \<Rightarrow> ('w, 'tx, 'n) AppState \<Rightarrow> bool" where
  "same_core s t \<longleftrightarrow> st_pool t = st_pool s \<and> st_canvas_authority t = st_canvas_authority s"

lemma wp_select_core:
  assumes "\<And>e t. same_core s t \<Longrightarrow> Q (Inl e) t" and "\<And>t. same_core s t \<Longrightarrow> Q (Inr (f (st_pool s))) t"
  shows "wp (select E f) Q s"
  using assms by (auto simp: select_def query_def wp_simps same_core_def split: prod.split)

lemma wp_emit_error_core:
  assumes "\<And>t. same_core s t \<Longrightarrow> Q () t"
  shows "wp (emit_error E u m) Q s"
proof (cases "sv_to_json E (Error m)")
  case None
  then show ?thesis using assms [of s] by (simp add: emit_error_def wp_simps same_core_def)
next
  case (Some json)
  then show ?thesis
    using assms by (auto simp: emit_error_def hub_send_to_def wp_simps same_core_def intro!: wp_on_hub)
qed

end
