(* ===== verification/Srv_Db.thy ===== *)
theory Srv_Db
  imports Srv_App
begin

text \<open>
  The queries of \<open>db/*.rs\<close> that the WebSocket side of the server issues, each translated from its
  SQL to an operation on the tables. Foreign-key violations are among the failures that the
  environment may choose for a statement.
\<close>

section \<open>The \<open>?\<close> operator\<close>

definition bind_ok :: "('s, 'e + 'a) state \<Rightarrow> ('a \<Rightarrow> ('s, 'e + 'b) state) \<Rightarrow> ('s, 'e + 'b) state" where
  "bind_ok m f = do { r \<leftarrow> m; (case r of Inl e \<Rightarrow> State_Monad.return (Inl e) | Inr x \<Rightarrow> f x) }"

definition ok :: "'a \<Rightarrow> ('s, 'e + 'a) state" where
  "ok x = State_Monad.return (Inr x)"

definition unwrap_or :: "'a \<Rightarrow> 'e + 'a \<Rightarrow> 'a" where
  "unwrap_or d r = (case r of Inl _ \<Rightarrow> d | Inr x \<Rightarrow> x)"

lemma wp_bind_ok [wp_simps]:
  "wp (bind_ok m f) Q = wp m (\<lambda>r. case r of Inl e \<Rightarrow> Q (Inl e) | Inr x \<Rightarrow> wp (f x) Q)"
proof -
  have "(\<lambda>r. wp (case r of Inl e \<Rightarrow> State_Monad.return (Inl e) | Inr x \<Rightarrow> f x) Q) =
    (\<lambda>r. case r of Inl e \<Rightarrow> Q (Inl e) | Inr x \<Rightarrow> wp (f x) Q)"
    by (rule ext) (auto simp: wp_simps split: sum.split)
  then show ?thesis by (simp add: bind_ok_def wp_bind)
qed

lemma keeps_bind_ok [keeps_intros]: "keeps I m \<Longrightarrow> (\<And>x. keeps I (f x)) \<Longrightarrow> keeps I (bind_ok m f)"
  unfolding bind_ok_def by (intro keeps_intros) auto

lemma wp_ok [wp_simps]: "wp (ok x) Q = Q (Inr x)"
  by (simp add: ok_def wp_return)

lemma keeps_ok [keeps_intros]: "keeps I (ok x)"
  unfolding ok_def by (rule keeps_return)

section \<open>\<open>db/groups.rs\<close>\<close>

definition active_member :: "'n Pool \<Rightarrow> Uuid \<Rightarrow> Uuid \<Rightarrow> bool" where
  "active_member p conversation_id user_id \<longleftrightarrow>
     list_ex (\<lambda>m. mb_conversation_id m = conversation_id \<and> mb_user_id m = user_id \<and> \<not> mb_is_removed m) (tb_members p)"

definition active_member_ids :: "'n Pool \<Rightarrow> Uuid \<Rightarrow> Uuid list" where
  "active_member_ids p conversation_id =
     map mb_user_id (filter (\<lambda>m. mb_conversation_id m = conversation_id \<and> \<not> mb_is_removed m) (tb_members p))"

definition is_member :: "('w, 'tx, 'n) srv_env \<Rightarrow> Uuid \<Rightarrow> Uuid \<Rightarrow> ('w, 'tx, 'n, sqlx_error + bool) act" where
  "is_member E conversation_id user_id = select E (\<lambda>p. active_member p conversation_id user_id)"

definition get_conversation_member_ids :: "('w, 'tx, 'n) srv_env \<Rightarrow> Uuid \<Rightarrow> ('w, 'tx, 'n, sqlx_error + Uuid list) act" where
  "get_conversation_member_ids E conversation_id = select E (\<lambda>p. active_member_ids p conversation_id)"

definition conversation :: "'n Pool \<Rightarrow> Uuid \<Rightarrow> ConversationRow option" where
  "conversation p conversation_id = find (\<lambda>c. cv_id c = conversation_id) (tb_conversations p)"

definition get_conversation_kind :: "('w, 'tx, 'n) srv_env \<Rightarrow> Uuid \<Rightarrow> ('w, 'tx, 'n, sqlx_error + string option) act" where
  "get_conversation_kind E conversation_id = select E (\<lambda>p. map_option cv_kind (conversation p conversation_id))"

section \<open>\<open>db/contacts.rs\<close> and \<open>db/users.rs\<close>\<close>

definition contacts :: "'n Pool \<Rightarrow> Uuid \<Rightarrow> Uuid \<Rightarrow> bool" where
  "contacts p a b \<longleftrightarrow>
     list_ex (\<lambda>c. ct_status c = ''accepted'' \<and>
       (ct_requester_id c = a \<and> ct_target_id c = b \<or> ct_requester_id c = b \<and> ct_target_id c = a)) (tb_contacts p)"

definition are_contacts :: "('w, 'tx, 'n) srv_env \<Rightarrow> Uuid \<Rightarrow> Uuid \<Rightarrow> ('w, 'tx, 'n, sqlx_error + bool) act" where
  "are_contacts E user_a user_b = select E (\<lambda>p. contacts p user_a user_b)"

definition list_contact_user_ids :: "('w, 'tx, 'n) srv_env \<Rightarrow> Uuid \<Rightarrow> ('w, 'tx, 'n, sqlx_error + Uuid list) act" where
  "list_contact_user_ids E user_id = select E (\<lambda>p.
     map (\<lambda>c. if ct_requester_id c = user_id then ct_target_id c else ct_requester_id c)
       (filter (\<lambda>c. (ct_requester_id c = user_id \<or> ct_target_id c = user_id) \<and> ct_status c = ''accepted'') (tb_contacts p)))"

definition blockers_of :: "'n Pool \<Rightarrow> Uuid list \<Rightarrow> Uuid \<Rightarrow> Uuid list" where
  "blockers_of p candidate_ids target_id =
     map (\<lambda>((blocker, _), _). blocker)
       (filter (\<lambda>((blocker, blocked), _). blocker \<in> set candidate_ids \<and> blocked = target_id) (tb_blocked p))"

definition get_blockers_of ::
  "('w, 'tx, 'n) srv_env \<Rightarrow> Uuid list \<Rightarrow> Uuid \<Rightarrow> ('w, 'tx, 'n, sqlx_error + Uuid list) act" where
  "get_blockers_of E candidate_ids target_id = select E (\<lambda>p. blockers_of p candidate_ids target_id)"

definition user :: "'n Pool \<Rightarrow> Uuid \<Rightarrow> UserRow option" where
  "user p user_id = find (\<lambda>u. us_id u = user_id) (tb_users p)"

definition get_read_receipts_enabled :: "('w, 'tx, 'n) srv_env \<Rightarrow> Uuid \<Rightarrow> ('w, 'tx, 'n, sqlx_error + bool option) act" where
  "get_read_receipts_enabled E user_id = select E (\<lambda>p. map_option us_read_receipts_enabled (user p user_id))"

definition get_presence_status :: "('w, 'tx, 'n) srv_env \<Rightarrow> Uuid \<Rightarrow> ('w, 'tx, 'n, sqlx_error + string option) act" where
  "get_presence_status E user_id = select E (\<lambda>p. map_option us_presence_status (user p user_id))"

definition get_presence_statuses_for ::
  "('w, 'tx, 'n) srv_env \<Rightarrow> Uuid list \<Rightarrow> ('w, 'tx, 'n, sqlx_error + (Uuid, string) hmap) act" where
  "get_presence_statuses_for E user_ids =
     (if user_ids = [] then ok []
      else select E (\<lambda>p. map (\<lambda>u. (us_id u, us_presence_status u)) (filter (\<lambda>u. us_id u \<in> set user_ids) (tb_users p))))"

section \<open>\<open>db/channels.rs\<close>\<close>

definition get_channel :: "('w, 'tx, 'n) srv_env \<Rightarrow> Uuid \<Rightarrow> ('w, 'tx, 'n, sqlx_error + ChannelRow option) act" where
  "get_channel E channel_id = select E (\<lambda>p. find (\<lambda>c. ch_id c = channel_id \<and> \<not> ch_deleted c) (tb_channels p))"

definition first :: "'a list \<Rightarrow> 'a option" where
  "first xs = (case xs of [] \<Rightarrow> None | x # _ \<Rightarrow> Some x)"

text \<open>\<open>ORDER BY a, b\<close> is a stable sort by \<open>b\<close> followed by one by \<open>a\<close>.\<close>

definition get_default_text_channel :: "('w, 'tx, 'n) srv_env \<Rightarrow> Uuid \<Rightarrow> ('w, 'tx, 'n, sqlx_error + ChannelRow option) act" where
  "get_default_text_channel E conversation_id = select E (\<lambda>p.
     first (sort_key ch_position (sort_key ch_created_at
       (filter (\<lambda>c. ch_conversation_id c = conversation_id \<and> ch_kind c = ''text'' \<and> \<not> ch_deleted c) (tb_channels p)))))"

definition is_user_in_voice_channel ::
  "('w, 'tx, 'n) srv_env \<Rightarrow> Uuid \<Rightarrow> Uuid \<Rightarrow> ('w, 'tx, 'n, sqlx_error + bool) act" where
  "is_user_in_voice_channel E channel_id user_id = select E (\<lambda>p. (channel_id, user_id) \<in> set (tb_voice_sessions p))"

text \<open>\<open>DELETE \<dots> USING channels \<dots> RETURNING\<close>: sessions whose channel row is gone are not matched.\<close>

definition leave_all_user_voice_sessions ::
  "('w, 'tx, 'n) srv_env \<Rightarrow> Uuid \<Rightarrow> ('w, 'tx, 'n, sqlx_error + (Uuid \<times> Uuid) list) act" where
  "leave_all_user_voice_sessions E user_id = query E (\<lambda>p.
     let mine = (\<lambda>(c, u). u = user_id \<and> list_ex (\<lambda>r. ch_id r = c) (tb_channels p));
         conv = (\<lambda>c. case find (\<lambda>r. ch_id r = c) (tb_channels p) of Some r \<Rightarrow> [(ch_id r, ch_conversation_id r)] | None \<Rightarrow> [])
     in (p\<lparr>tb_voice_sessions := filter (\<lambda>x. \<not> mine x) (tb_voice_sessions p)\<rparr>,
         Inr (concat (map (\<lambda>(c, _). conv c) (filter mine (tb_voice_sessions p))))))"

section \<open>\<open>db/reactions.rs\<close>, \<open>db/keys.rs\<close>, \<open>db/threads.rs\<close>\<close>

definition mark_read :: "('w, 'tx, 'n) srv_env \<Rightarrow> Uuid \<Rightarrow> Uuid \<Rightarrow> ('w, 'tx, 'n, sqlx_error + unit) act" where
  "mark_read E conversation_id user_id = do {
     now \<leftarrow> draw (sv_utc_now E);
     execute E (\<lambda>p. p\<lparr>tb_read_receipts := hm_insert (conversation_id, user_id) now (tb_read_receipts p)\<rparr>)
   }"

definition get_revoked_devices_for_users ::
  "('w, 'tx, 'n) srv_env \<Rightarrow> Uuid list \<Rightarrow> ('w, 'tx, 'n, sqlx_error + (Uuid, device_id list) hmap) act" where
  "get_revoked_devices_for_users E user_ids =
     (if user_ids = [] then ok []
      else select E (\<lambda>p.
        let rows = map (\<lambda>r. (ir_user_id r, ir_device_id r))
              (filter (\<lambda>r. ir_user_id r \<in> set user_ids \<and> ir_revoked r) (tb_identity_keys p))
        in fold (\<lambda>(uid, did) m. hm_insert uid ((case hm_get m uid of Some ds \<Rightarrow> ds | None \<Rightarrow> []) @ [did]) m) rows []))"

definition get_thread_subscribers :: "('w, 'tx, 'n) srv_env \<Rightarrow> Uuid \<Rightarrow> ('w, 'tx, 'n, sqlx_error + Uuid list) act" where
  "get_thread_subscribers E thread_root_id = select E (\<lambda>p.
     remdups (map ms_sender_id (filter (\<lambda>m. \<not> ms_deleted m \<and>
       (ms_id m = thread_root_id \<or> ms_thread_root_id m = Some thread_root_id \<or> ms_reply_to_id m = Some thread_root_id))
       (tb_messages p))))"

section \<open>\<open>db/messages.rs\<close>\<close>

record ConversationSecurityRow =
  cs_kind :: string
  cs_is_encrypted :: bool
  cs_disappearing_ttl_seconds :: "i32 option"

definition get_conversation_security ::
  "('w, 'tx, 'n) srv_env \<Rightarrow> Uuid \<Rightarrow> ('w, 'tx, 'n, sqlx_error + ConversationSecurityRow option) act" where
  "get_conversation_security E conversation_id = select E (\<lambda>p.
     map_option (\<lambda>c. \<lparr>cs_kind = cv_kind c, cs_is_encrypted = cv_is_encrypted c,
         cs_disappearing_ttl_seconds = cv_disappearing_ttl_seconds c\<rparr>) (conversation p conversation_id))"

text \<open>
  Inside the transaction the statements work on a snapshot; nothing is visible before the
  commit. Adding the same user twice violates the key of \<open>conversation_members\<close>.
\<close>

definition direct_conversation_rows :: "datetime \<Rightarrow> Uuid \<Rightarrow> Uuid \<Rightarrow> Uuid \<Rightarrow> Uuid \<times> Uuid \<Rightarrow> 'n Pool \<Rightarrow> 'n Pool" where
  "direct_conversation_rows now conv_id user_a user_b key p =
     p\<lparr>tb_conversations := tb_conversations p @
         [\<lparr>cv_id = conv_id, cv_kind = ''direct'', cv_is_encrypted = True, cv_disappearing_ttl_seconds = None,
           cv_title = None, cv_description = None, cv_is_public = False, cv_key_version = 1, cv_member_count = 0,
           cv_icon_url = None, cv_created_at = now\<rparr>],
       tb_members := tb_members p @
         [\<lparr>mb_conversation_id = conv_id, mb_user_id = user_a, mb_is_removed = False, mb_role = ''member'', mb_joined_at = now, mb_is_muted = False\<rparr>,
          \<lparr>mb_conversation_id = conv_id, mb_user_id = user_b, mb_is_removed = False, mb_role = ''member'', mb_joined_at = now, mb_is_muted = False\<rparr>],
       tb_direct := hm_insert key conv_id (tb_direct p)\<rparr>"

definition find_or_create_dm_conversation ::
  "('w, 'tx, 'n) srv_env \<Rightarrow> Uuid \<Rightarrow> Uuid \<Rightarrow> ('w, 'tx, 'n, sqlx_error + Uuid) act" where
  "find_or_create_dm_conversation E user_a user_b =
     (let key = (if user_a < user_b then (user_a, user_b) else (user_b, user_a)) in
      bind_ok (select E (\<lambda>p. hm_get (tb_direct p) key)) (\<lambda>existing.
        case existing of
          Some found \<Rightarrow> ok found
        | None \<Rightarrow>
            bind_ok (select E (\<lambda>_. ())) (\<lambda>_. \<comment> \<open>begin\<close>
            bind_ok (select E (\<lambda>_. ())) (\<lambda>_. \<comment> \<open>advisory lock\<close>
            bind_ok (select E (\<lambda>p. hm_get (tb_direct p) key)) (\<lambda>existing_in_tx.
              case existing_in_tx of
                Some found \<Rightarrow> bind_ok (select E (\<lambda>_. ())) (\<lambda>_. ok found) \<comment> \<open>rollback\<close>
              | None \<Rightarrow> do {
                  conv_id \<leftarrow> draw (sv_gen_random_uuid E);
                  now \<leftarrow> draw (sv_utc_now E);
                  bind_ok (query E (\<lambda>p. (p, if list_ex (\<lambda>c. cv_id c = conv_id) (tb_conversations p)
                                           then Inl UniqueViolation else Inr ()))) (\<lambda>_.
                  bind_ok (select E (\<lambda>_. ())) (\<lambda>_. \<comment> \<open>first member\<close>
                  bind_ok (query E (\<lambda>p. (p, if user_a = user_b then Inl UniqueViolation else Inr ()))) (\<lambda>_.
                  bind_ok (select E (\<lambda>p. case hm_get (tb_direct p) key of Some found \<Rightarrow> found | None \<Rightarrow> conv_id)) (\<lambda>winner.
                    if winner \<noteq> conv_id then bind_ok (select E (\<lambda>_. ())) (\<lambda>_. ok winner)
                    else bind_ok (execute E (direct_conversation_rows now conv_id user_a user_b key)) (\<lambda>_. ok conv_id)))))
                })))))"

definition live_message :: "'n Pool \<Rightarrow> Uuid \<Rightarrow> Uuid \<Rightarrow> MessageRow option" where
  "live_message p conversation_id mid =
     find (\<lambda>m. ms_id m = mid \<and> ms_conversation_id m = conversation_id \<and> \<not> ms_deleted m) (tb_messages p)"

definition thread_root_of :: "'n Pool \<Rightarrow> Uuid \<Rightarrow> Uuid \<Rightarrow> Uuid option" where
  "thread_root_of p conversation_id mid =
     (case find (\<lambda>m. ms_id m = mid \<and> ms_conversation_id m = conversation_id) (tb_messages p) of
        Some m \<Rightarrow> (case ms_thread_root_id m of Some r \<Rightarrow> Some r | None \<Rightarrow> map_option ms_id (live_message p conversation_id mid))
      | None \<Rightarrow> None)"

definition insert_message :: "MessageRow \<Rightarrow> 'n Pool \<Rightarrow> 'n Pool \<times> (sqlx_error + MessageRow)" where
  "insert_message row p =
     (let conv = ms_conversation_id row;
          missing = (\<lambda>ref. case ref of Some r \<Rightarrow> live_message p conv r = None | None \<Rightarrow> False);
          row' = row\<lparr>ms_thread_root_id := Option.bind (ms_thread_root_id row) (thread_root_of p conv)\<rparr>
      in if missing (ms_reply_to_id row) \<or> missing (ms_thread_root_id row) then (p, Inl RowNotFound)
         else if list_ex (\<lambda>m. ms_id m = ms_id row) (tb_messages p) then (p, Inl UniqueViolation)
         else (p\<lparr>tb_messages := tb_messages p @ [row']\<rparr>, Inr row'))"

definition store_message ::
  "('w, 'tx, 'n) srv_env \<Rightarrow> Uuid \<Rightarrow> Uuid option \<Rightarrow> Uuid \<Rightarrow> device_id option \<Rightarrow> string \<Rightarrow> Uuid option \<Rightarrow> i64 option
     \<Rightarrow> Uuid option \<Rightarrow> Uuid option \<Rightarrow> ('w, 'tx, 'n, sqlx_error + MessageRow) act" where
  "store_message E conversation_id channel_id sender_id sender_device_id content reply_to_id ttl_seconds
     client_message_id thread_root_id = do {
     expires_at \<leftarrow> (case ttl_seconds of
         Some t \<Rightarrow> do { now \<leftarrow> draw (sv_utc_now E); State_Monad.return (Some (now + t * int nanos_per_sec)) }
       | None \<Rightarrow> State_Monad.return None);
     mid \<leftarrow> (case client_message_id of Some given \<Rightarrow> State_Monad.return given | None \<Rightarrow> draw (sv_gen_random_uuid E));
     created_at \<leftarrow> draw (sv_utc_now E);
     query E (insert_message \<lparr>ms_id = mid, ms_conversation_id = conversation_id, ms_channel_id = channel_id,
         ms_sender_id = sender_id, ms_sender_device_id = sender_device_id, ms_content = content,
         ms_created_at = created_at, ms_delivered = False, ms_reply_to_id = reply_to_id,
         ms_expires_at = expires_at, ms_thread_root_id = thread_root_id, ms_edited_at = None, ms_pinned_by_id = None, ms_pinned_at = None, ms_deleted = False\<rparr>)
   }"

definition lookup_reply_context_row ::
  "('w, 'tx, 'n) srv_env \<Rightarrow> Uuid \<Rightarrow> Uuid \<Rightarrow> ('w, 'tx, 'n, sqlx_error + (string \<times> string) option) act" where
  "lookup_reply_context_row E reply_to_id conversation_id = select E (\<lambda>p.
     Option.bind (live_message p conversation_id reply_to_id) (\<lambda>m.
       map_option (\<lambda>u. (ms_content m, us_username u)) (user p (ms_sender_id m))))"

definition UNDELIVERED_PAGE_SIZE :: nat where "UNDELIVERED_PAGE_SIZE = 100"

record MessageWithSender =
  mw_id :: Uuid
  mw_conversation_id :: Uuid
  mw_channel_id :: "Uuid option"
  mw_sender_id :: Uuid
  mw_sender_device_id :: "device_id option"
  mw_sender_username :: string
  mw_content :: string
  mw_created_at :: datetime
  mw_reply_to_id :: "Uuid option"
  mw_reply_to_content :: "string option"
  mw_reply_to_username :: "string option"
  mw_thread_root_id :: "Uuid option"

definition with_sender :: "'n Pool \<Rightarrow> MessageRow \<Rightarrow> MessageWithSender option" where
  "with_sender p m =
     map_option (\<lambda>u.
       let parent = Option.bind (ms_reply_to_id m) (live_message p (ms_conversation_id m))
       in \<lparr>mw_id = ms_id m, mw_conversation_id = ms_conversation_id m, mw_channel_id = ms_channel_id m,
           mw_sender_id = ms_sender_id m, mw_sender_device_id = ms_sender_device_id m, mw_sender_username = us_username u,
           mw_content = ms_content m, mw_created_at = ms_created_at m, mw_reply_to_id = ms_reply_to_id m,
           mw_reply_to_content = map_option ms_content parent,
           mw_reply_to_username = Option.bind parent (\<lambda>r. map_option us_username (user p (ms_sender_id r))),
           mw_thread_root_id = ms_thread_root_id m\<rparr>) (user p (ms_sender_id m))"

definition pending :: "'n Pool \<Rightarrow> Uuid \<Rightarrow> device_id \<Rightarrow> MessageRow \<Rightarrow> bool" where
  "pending p user_id device_id m \<longleftrightarrow>
     active_member p (ms_conversation_id m) user_id \<and> ms_sender_id m \<noteq> user_id \<and> \<not> ms_deleted m \<and>
     \<not> starts_with ''__system__:'' (ms_content m) \<and> (ms_id m, user_id, device_id) \<notin> set (tb_deliveries p)"

definition after_cursor :: "(datetime \<times> Uuid) option \<Rightarrow> MessageRow \<Rightarrow> bool" where
  "after_cursor cur m =
     (case cur of None \<Rightarrow> True
      | Some (ts, mid) \<Rightarrow> ts < ms_created_at m \<or> ts = ms_created_at m \<and> mid < ms_id m)"

definition undelivered_page :: "'n Pool \<Rightarrow> Uuid \<Rightarrow> device_id \<Rightarrow> (datetime \<times> Uuid) option \<Rightarrow> MessageRow list" where
  "undelivered_page p user_id device_id cur =
     take UNDELIVERED_PAGE_SIZE (sort_key ms_created_at (sort_key ms_id
       (filter (\<lambda>m. pending p user_id device_id m \<and> after_cursor cur m) (tb_messages p))))"

definition get_undelivered ::
  "('w, 'tx, 'n) srv_env \<Rightarrow> Uuid \<Rightarrow> device_id \<Rightarrow> (datetime \<times> Uuid) option
     \<Rightarrow> ('w, 'tx, 'n, sqlx_error + MessageWithSender list) act" where
  "get_undelivered E user_id device_id cur = select E (\<lambda>p.
     List.map_filter (with_sender p) (undelivered_page p user_id device_id cur))"

text \<open>\<open>ON CONFLICT DO NOTHING\<close> on a table that is a set of keys, and on one with a value.\<close>

definition insert_new :: "'a list \<Rightarrow> 'a list \<Rightarrow> 'a list" where
  "insert_new xs table = fold (\<lambda>x t. if x \<in> set t then t else t @ [x]) xs table"

definition insert_absent :: "('k \<times> 'v) list \<Rightarrow> ('k, 'v) hmap \<Rightarrow> ('k, 'v) hmap" where
  "insert_absent kvs table = fold (\<lambda>(k, v) t. case hm_get t k of Some _ \<Rightarrow> t | None \<Rightarrow> t @ [(k, v)]) kvs table"

definition mark_devices_delivered_pairs ::
  "('w, 'tx, 'n) srv_env \<Rightarrow> Uuid \<Rightarrow> (Uuid \<times> device_id) list \<Rightarrow> ('w, 'tx, 'n, sqlx_error + unit) act" where
  "mark_devices_delivered_pairs E message_id pairs =
     (if pairs = [] then ok ()
      else execute E (\<lambda>p. p\<lparr>tb_deliveries := insert_new (map (\<lambda>(u, d). (message_id, u, d)) pairs) (tb_deliveries p)\<rparr>))"

definition mark_device_delivered_batch ::
  "('w, 'tx, 'n) srv_env \<Rightarrow> Uuid list \<Rightarrow> Uuid \<Rightarrow> device_id \<Rightarrow> ('w, 'tx, 'n, sqlx_error + unit) act" where
  "mark_device_delivered_batch E message_ids recipient_user_id device_id =
     (if message_ids = [] then ok ()
      else execute E (\<lambda>p. p\<lparr>tb_deliveries :=
        insert_new (map (\<lambda>m. (m, recipient_user_id, device_id)) message_ids) (tb_deliveries p)\<rparr>))"

definition mark_delivered :: "('w, 'tx, 'n) srv_env \<Rightarrow> Uuid list \<Rightarrow> ('w, 'tx, 'n, sqlx_error + unit) act" where
  "mark_delivered E message_ids = execute E (\<lambda>p. p\<lparr>tb_messages :=
     map (\<lambda>m. if ms_id m \<in> set message_ids then m\<lparr>ms_delivered := True\<rparr> else m) (tb_messages p)\<rparr>)"

definition store_device_contents ::
  "('w, 'tx, 'n) srv_env \<Rightarrow> Uuid \<Rightarrow> (Uuid \<times> device_id \<times> string) list \<Rightarrow> ('w, 'tx, 'n, sqlx_error + unit) act" where
  "store_device_contents E message_id entries =
     (if entries = [] then ok ()
      else execute E (\<lambda>p. p\<lparr>tb_device_contents :=
        insert_absent (map (\<lambda>(u, d, c). ((message_id, u, d), c)) entries) (tb_device_contents p)\<rparr>))"

definition message_ids_with_any_device_content ::
  "('w, 'tx, 'n) srv_env \<Rightarrow> Uuid list \<Rightarrow> Uuid \<Rightarrow> ('w, 'tx, 'n, sqlx_error + Uuid list) act" where
  "message_ids_with_any_device_content E message_ids recipient_user_id =
     (if message_ids = [] then ok []
      else select E (\<lambda>p. remdups (map (\<lambda>((m, _), _). m)
        (filter (\<lambda>((m, u, _), _). m \<in> set message_ids \<and> u = recipient_user_id) (tb_device_contents p)))))"

definition get_device_contents_batch ::
  "('w, 'tx, 'n) srv_env \<Rightarrow> Uuid list \<Rightarrow> Uuid \<Rightarrow> device_id \<Rightarrow> ('w, 'tx, 'n, sqlx_error + (Uuid, string) hmap) act" where
  "get_device_contents_batch E message_ids recipient_user_id device_id =
     (if message_ids = [] then ok []
      else select E (\<lambda>p. map (\<lambda>((m, _), c). (m, c))
        (filter (\<lambda>((m, u, d), _). m \<in> set message_ids \<and> u = recipient_user_id \<and> d = device_id) (tb_device_contents p))))"

end
