(* ===== verification/Srv_Caches.thy ===== *)
theory Srv_Caches
  imports Srv_Db
begin

text \<open>
  \<open>ws/typing_service.rs\<close>: the membership, member-list and conversation-kind caches, typing
  indicators, read receipts and presence; \<open>ws/events/broadcast.rs\<close> and \<open>ws/broadcast.rs\<close>, the
  handlers that only check membership and fan out.
\<close>

section \<open>The caches\<close>

definition MAX_CACHE_ENTRIES :: nat where "MAX_CACHE_ENTRIES = 100000"
definition MEMBERSHIP_CACHE_TTL :: nat where "MEMBERSHIP_CACHE_TTL = 60 * nanos_per_sec"

definition instant_now :: "('w, 'tx, 'n) srv_env \<Rightarrow> ('w, 'tx, 'n, instant) act" where
  "instant_now E = draw (we_instant_now (sv_ws E))"

definition elapsed :: "('w, 'tx, 'n) srv_env \<Rightarrow> instant \<Rightarrow> ('w, 'tx, 'n, nat) act" where
  "elapsed E since = do { now \<leftarrow> instant_now E; State_Monad.return (duration_since now since) }"

text \<open>\<open>retain\<close> with a closure that reads the clock for each entry.\<close>

fun retain_younger :: "('w, 'tx, 'n) srv_env \<Rightarrow> nat \<Rightarrow> ('v \<Rightarrow> instant) \<Rightarrow> ('k \<times> 'v) list \<Rightarrow> ('w, 'tx, 'n, ('k \<times> 'v) list) act" where
  "retain_younger E cutoff stamp [] = State_Monad.return []"
| "retain_younger E cutoff stamp ((k, v) # m) = do {
     age \<leftarrow> elapsed E (stamp v);
     rest \<leftarrow> retain_younger E cutoff stamp m;
     State_Monad.return (if age < cutoff then (k, v) # rest else rest)
   }"

definition sweep_expired_caches :: "('w, 'tx, 'n) srv_env \<Rightarrow> ('w, 'tx, 'n, unit) act" where
  "sweep_expired_caches E = do {
     m1 \<leftarrow> gets st_membership_cache;
     k1 \<leftarrow> retain_younger E (MEMBERSHIP_CACHE_TTL * 2) (\<lambda>t. t) m1;
     modify (\<lambda>s. s\<lparr>st_membership_cache := k1\<rparr>);
     m2 \<leftarrow> gets st_member_ids_cache;
     k2 \<leftarrow> retain_younger E (MEMBERSHIP_CACHE_TTL * 2) snd m2;
     modify (\<lambda>s. s\<lparr>st_member_ids_cache := k2\<rparr>);
     m3 \<leftarrow> gets st_conv_kind_cache;
     k3 \<leftarrow> retain_younger E (MEMBERSHIP_CACHE_TTL * 2) snd m3;
     modify (\<lambda>s. s\<lparr>st_conv_kind_cache := k3\<rparr>)
   }"

definition fresh_entry :: "('w, 'tx, 'n) srv_env \<Rightarrow> ('v \<Rightarrow> instant) \<Rightarrow> 'v option \<Rightarrow> ('w, 'tx, 'n, 'v option) act" where
  "fresh_entry E stamp entry =
     (case entry of
        None \<Rightarrow> State_Monad.return None
      | Some v \<Rightarrow> do {
          age \<leftarrow> elapsed E (stamp v);
          State_Monad.return (if age < MEMBERSHIP_CACHE_TTL then Some v else None)
        })"

definition check_membership_cached :: "('w, 'tx, 'n) srv_env \<Rightarrow> Uuid \<Rightarrow> Uuid \<Rightarrow> ('w, 'tx, 'n, bool) act" where
  "check_membership_cached E conversation_id user_id = do {
     entry \<leftarrow> gets (\<lambda>s. hm_get (st_membership_cache s) (user_id, conversation_id));
     hit \<leftarrow> fresh_entry E (\<lambda>t. t) entry;
     (if hit \<noteq> None then State_Monad.return True
      else do {
        r \<leftarrow> is_member E conversation_id user_id;
        (case r of
           Inl _ \<Rightarrow> State_Monad.return False
         | Inr True \<Rightarrow> do {
             full \<leftarrow> gets (\<lambda>s. MAX_CACHE_ENTRIES \<le> length (st_membership_cache s));
             (if full then sweep_expired_caches E else State_Monad.return ());
             now \<leftarrow> instant_now E;
             modify (\<lambda>s. s\<lparr>st_membership_cache := hm_insert (user_id, conversation_id) now (st_membership_cache s)\<rparr>);
             State_Monad.return True
           }
         | Inr False \<Rightarrow> do {
             modify (\<lambda>s. s\<lparr>st_membership_cache := hm_remove (user_id, conversation_id) (st_membership_cache s)\<rparr>);
             State_Monad.return False
           })
      })
   }"

definition get_member_ids_cached :: "('w, 'tx, 'n) srv_env \<Rightarrow> Uuid \<Rightarrow> ('w, 'tx, 'n, sqlx_error + Uuid list) act" where
  "get_member_ids_cached E conversation_id = do {
     entry \<leftarrow> gets (\<lambda>s. hm_get (st_member_ids_cache s) conversation_id);
     hit \<leftarrow> fresh_entry E snd entry;
     (case hit of
        Some (ids, _) \<Rightarrow> ok ids
      | None \<Rightarrow> bind_ok (get_conversation_member_ids E conversation_id) (\<lambda>members. do {
          full \<leftarrow> gets (\<lambda>s. MAX_CACHE_ENTRIES \<le> length (st_member_ids_cache s));
          (if full then sweep_expired_caches E else State_Monad.return ());
          now \<leftarrow> instant_now E;
          modify (\<lambda>s. s\<lparr>st_member_ids_cache := hm_insert conversation_id (members, now) (st_member_ids_cache s)\<rparr>);
          ok members
        }))
   }"

definition get_conversation_kind_cached :: "('w, 'tx, 'n) srv_env \<Rightarrow> Uuid \<Rightarrow> ('w, 'tx, 'n, string option) act" where
  "get_conversation_kind_cached E conversation_id = do {
     entry \<leftarrow> gets (\<lambda>s. hm_get (st_conv_kind_cache s) conversation_id);
     hit \<leftarrow> fresh_entry E snd entry;
     (case hit of
        Some (kind, _) \<Rightarrow> State_Monad.return (Some kind)
      | None \<Rightarrow> do {
          r \<leftarrow> get_conversation_kind E conversation_id;
          (case r of
             Inr (Some kind) \<Rightarrow> do {
               full \<leftarrow> gets (\<lambda>s. MAX_CACHE_ENTRIES \<le> length (st_conv_kind_cache s));
               (if full then sweep_expired_caches E else State_Monad.return ());
               now \<leftarrow> instant_now E;
               modify (\<lambda>s. s\<lparr>st_conv_kind_cache := hm_insert conversation_id (kind, now) (st_conv_kind_cache s)\<rparr>);
               State_Monad.return (Some kind)
             }
           | _ \<Rightarrow> State_Monad.return None)
        })
   }"

definition invalidate_member_cache :: "Uuid \<Rightarrow> ('w, 'tx, 'n, unit) act" where
  "invalidate_member_cache conversation_id = modify (\<lambda>s.
     s\<lparr>st_member_ids_cache := hm_remove conversation_id (st_member_ids_cache s),
       st_membership_cache := hm_retain (\<lambda>(_, conv_id) _. conv_id \<noteq> conversation_id) (st_membership_cache s)\<rparr>)"

section \<open>Typing indicators and read receipts\<close>

definition broadcast_message ::
  "('w, 'tx, 'n) srv_env \<Rightarrow> Uuid list \<Rightarrow> 'n ServerMessage \<Rightarrow> Uuid option \<Rightarrow> ('w, 'tx, 'n, unit) act" where
  "broadcast_message E member_ids event exclude =
     (case sv_to_json E event of
        Some json \<Rightarrow> hub_broadcast_json E member_ids json exclude
      | None \<Rightarrow> State_Monad.return ())"

definition resolve_typing_channel ::
  "('w, 'tx, 'n) srv_env \<Rightarrow> Uuid \<Rightarrow> string \<Rightarrow> Uuid option \<Rightarrow> ('w, 'tx, 'n, Uuid option option) act" where
  "resolve_typing_channel E conversation_id kind channel_id =
     (if ConversationKind_from_str_opt kind = Some Group
      then case channel_id of
        None \<Rightarrow> State_Monad.return (Some None)
      | Some cid \<Rightarrow> do {
          r \<leftarrow> get_channel E cid;
          State_Monad.return (case r of
            Inr (Some channel) \<Rightarrow>
              if ch_conversation_id channel \<noteq> conversation_id \<or> ch_kind channel \<noteq> ''text'' then None else Some (Some cid)
          | _ \<Rightarrow> None)
        }
      else State_Monad.return (Some None))"

definition handle_typing ::
  "('w, 'tx, 'n) srv_env \<Rightarrow> Uuid \<Rightarrow> string \<Rightarrow> Uuid \<Rightarrow> Uuid option \<Rightarrow> ('w, 'tx, 'n, unit) act" where
  "handle_typing E sender_id sender_username conversation_id channel_id = do {
     member \<leftarrow> check_membership_cached E conversation_id sender_id;
     (if \<not> member then State_Monad.return ()
      else do {
        kind \<leftarrow> get_conversation_kind_cached E conversation_id;
        (case kind of
           None \<Rightarrow> State_Monad.return ()
         | Some k \<Rightarrow> do {
             channel \<leftarrow> resolve_typing_channel E conversation_id k channel_id;
             (case channel of
                None \<Rightarrow> State_Monad.return ()
              | Some resolved_channel_id \<Rightarrow> do {
                  r \<leftarrow> get_member_ids_cached E conversation_id;
                  (case r of
                     Inl _ \<Rightarrow> State_Monad.return ()
                   | Inr member_ids \<Rightarrow>
                       broadcast_message E member_ids
                         (Typing conversation_id resolved_channel_id sender_id sender_username) (Some sender_id))
                })
           })
      })
   }"

definition handle_read_receipt :: "('w, 'tx, 'n) srv_env \<Rightarrow> Uuid \<Rightarrow> Uuid \<Rightarrow> ('w, 'tx, 'n, unit) act" where
  "handle_read_receipt E sender_id conversation_id = do {
     member \<leftarrow> check_membership_cached E conversation_id sender_id;
     (if \<not> member then State_Monad.return ()
      else do {
        privacy \<leftarrow> get_read_receipts_enabled E sender_id;
        (if privacy \<noteq> Inr (Some True) then State_Monad.return ()
         else do {
           mark_read E conversation_id sender_id;
           r \<leftarrow> get_member_ids_cached E conversation_id;
           (case r of
              Inl _ \<Rightarrow> State_Monad.return ()
            | Inr member_ids \<Rightarrow>
                broadcast_message E member_ids (ReadReceipt conversation_id sender_id) (Some sender_id))
         })
      })
   }"

section \<open>Presence\<close>

definition send_value :: "('w, 'tx, 'n) srv_env \<Rightarrow> Uuid list \<Rightarrow> 'n json \<Rightarrow> ('w, 'tx, 'n, unit) act" where
  "send_value E user_ids v =
     (case sv_value_to_json E v of
        Some json \<Rightarrow> for_each (\<lambda>u. do { hub_send_to E u (ws_text json); State_Monad.return () }) user_ids
      | None \<Rightarrow> State_Monad.return ())"

definition presence_entries :: "('w, 'tx, 'n) srv_env \<Rightarrow> (Uuid, string) hmap \<Rightarrow> Uuid list \<Rightarrow> (Uuid \<times> string) list" where
  "presence_entries E statuses online =
     filter (\<lambda>(_, stored). stored \<noteq> ''invisible'')
       (map (\<lambda>cid. (cid, case hm_get statuses cid of Some st \<Rightarrow> st | None \<Rightarrow> ''online'')) online)"

definition send_presence_snapshot :: "('w, 'tx, 'n) srv_env \<Rightarrow> Uuid \<Rightarrow> ('w, 'tx, 'n, unit) act" where
  "send_presence_snapshot E user_id = do {
     r \<leftarrow> list_contact_user_ids E user_id;
     (case r of
        Inl _ \<Rightarrow> State_Monad.return ()
      | Inr contact_ids \<Rightarrow> do {
          online_contacts \<leftarrow> gets (\<lambda>s. filter (\<lambda>cid. 0 < device_count (st_hub s) cid) contact_ids);
          (if online_contacts = []
           then do { hub_send_to E user_id (ws_text ''{\"type\":\"presence_list\",\"users\":[]}''); State_Monad.return () }
           else do {
             q \<leftarrow> get_presence_statuses_for E online_contacts;
             send_value E [user_id] (JObject [(''type'', JString ''presence_list''),
               (''users'', JArray (map (\<lambda>(cid, st). JObject [(''user_id'', JString (sv_uuid_to_string E cid)), (''status'', JString st)])
                  (presence_entries E (unwrap_or [] q) online_contacts)))])
           })
        })
   }"

text \<open>What contacts are told: the status, and the \<open>presence_status\<close> field if there is one.\<close>

definition visible_presence :: "('w, 'tx, 'n) srv_env \<Rightarrow> Uuid \<Rightarrow> string \<Rightarrow> ('w, 'tx, 'n, string \<times> string option) act" where
  "visible_presence E user_id status =
     (if status = ''offline'' then State_Monad.return (''offline'', None)
      else do {
        r \<leftarrow> get_presence_status E user_id;
        State_Monad.return (let stored = (case unwrap_or None r of Some st \<Rightarrow> st | None \<Rightarrow> ''online'')
          in if stored = ''invisible'' then (''offline'', None) else (stored, Some stored))
      })"

definition broadcast_presence :: "('w, 'tx, 'n) srv_env \<Rightarrow> Uuid \<Rightarrow> string \<Rightarrow> string \<Rightarrow> ('w, 'tx, 'n, unit) act" where
  "broadcast_presence E user_id username status = do {
     dev_count \<leftarrow> gets (\<lambda>s. device_count (st_hub s) user_id);
     (if status = ''online'' \<and> dev_count \<noteq> 1 \<or> status = ''offline'' \<and> dev_count \<noteq> 0 then State_Monad.return ()
      else do {
        r \<leftarrow> list_contact_user_ids E user_id;
        (case r of
           Inl _ \<Rightarrow> State_Monad.return ()
         | Inr contact_ids \<Rightarrow> do {
             p \<leftarrow> visible_presence E user_id status;
             seen \<leftarrow> (if fst p = ''offline''
               then do { now \<leftarrow> draw (sv_utc_now E); State_Monad.return [(''last_seen_at'', JString (sv_rfc3339_secs E now))] }
               else State_Monad.return []);
             send_value E contact_ids (JObject ([(''type'', JString ''presence''), (''user_id'', JString (sv_uuid_to_string E user_id)),
                 (''username'', JString username), (''status'', JString (fst p))] @
                (case snd p of Some ps \<Rightarrow> [(''presence_status'', JString ps)] | None \<Rightarrow> []) @ seen))
           })
      })
   }"

section \<open>Handlers that check membership and fan out\<close>

definition handle_broadcast_event ::
  "('w, 'tx, 'n) srv_env \<Rightarrow> Uuid \<Rightarrow> string \<Rightarrow> Uuid \<Rightarrow> (Uuid \<Rightarrow> string \<Rightarrow> Uuid \<Rightarrow> 'n ServerMessage) \<Rightarrow> ('w, 'tx, 'n, unit) act" where
  "handle_broadcast_event E sender_id sender_username conversation_id build_event = do {
     member \<leftarrow> check_membership_cached E conversation_id sender_id;
     (if \<not> member then State_Monad.return ()
      else do {
        r \<leftarrow> get_member_ids_cached E conversation_id;
        (case r of
           Inl _ \<Rightarrow> State_Monad.return ()
         | Inr member_ids \<Rightarrow>
             broadcast_message E member_ids (build_event sender_id sender_username conversation_id) (Some sender_id))
      })
   }"

text \<open>The event is anything that \<open>serde_json\<close> can encode; \<open>None\<close> stands for an encoding error.\<close>

definition broadcast_to_conversation :: "('w, 'tx, 'n) srv_env \<Rightarrow> Uuid \<Rightarrow> string option \<Rightarrow> ('w, 'tx, 'n, unit) act" where
  "broadcast_to_conversation E conversation_id encoded = do {
     r \<leftarrow> get_conversation_member_ids E conversation_id;
     (case r of
        Inl _ \<Rightarrow> State_Monad.return ()
      | Inr ids \<Rightarrow> (case encoded of Some json \<Rightarrow> hub_broadcast_json E ids json None | None \<Rightarrow> State_Monad.return ()))
   }"

definition broadcast_to_conversation_cached ::
  "('w, 'tx, 'n) srv_env \<Rightarrow> Uuid \<Rightarrow> string option \<Rightarrow> Uuid option \<Rightarrow> ('w, 'tx, 'n, unit) act" where
  "broadcast_to_conversation_cached E conversation_id encoded exclude_user_id = do {
     r \<leftarrow> get_member_ids_cached E conversation_id;
     (case r of
        Inl _ \<Rightarrow> State_Monad.return ()
      | Inr ids \<Rightarrow> (case encoded of
          None \<Rightarrow> State_Monad.return ()
        | Some json \<Rightarrow> for_each (\<lambda>m. if Some m = exclude_user_id then State_Monad.return ()
            else do { hub_send_to E m (ws_text json); State_Monad.return () }) ids))
   }"

section \<open>The caches leave the tables alone\<close>

lemma keeps_elapsed [keeps_intros]: "keeps (on_pool P) (elapsed E t)" "keeps (on_pool P) (instant_now E)"
  unfolding elapsed_def instant_now_def by (intro keeps_intros)+

lemma keeps_retain_younger [keeps_intros]: "keeps (on_pool P) (retain_younger E c f m)"
  by (induction m rule: retain_younger.induct) (auto intro!: keeps_intros)

lemma keeps_sweep [keeps_intros]: "keeps (on_pool P) (sweep_expired_caches E)"
  unfolding sweep_expired_caches_def by (intro keeps_intros keeps_modify) simp_all

lemma keeps_fresh_entry [keeps_intros]: "keeps (on_pool P) (fresh_entry E f x)"
  unfolding fresh_entry_def by (intro keeps_intros)

lemma keeps_member_queries [keeps_intros]:
  "keeps (on_pool P) (is_member E c u)" "keeps (on_pool P) (get_conversation_member_ids E c)"
  "keeps (on_pool P) (get_conversation_kind E c)" "keeps (on_pool P) (get_blockers_of E us u)"
  unfolding is_member_def get_conversation_member_ids_def get_conversation_kind_def get_blockers_of_def
  by (intro keeps_intros)+

lemma keeps_bool [keeps_intros]: "keeps I m \<Longrightarrow> keeps I n \<Longrightarrow> keeps I (case b of True \<Rightarrow> m | False \<Rightarrow> n)"
  by (cases b) auto

lemma keeps_check_membership_cached [keeps_intros]: "keeps (on_pool P) (check_membership_cached E c u)"
  unfolding check_membership_cached_def by (intro keeps_intros keeps_modify) simp_all

lemma keeps_get_member_ids_cached [keeps_intros]: "keeps (on_pool P) (get_member_ids_cached E c)"
  unfolding get_member_ids_cached_def by (intro keeps_intros keeps_modify) simp_all

lemma keeps_get_conversation_kind_cached [keeps_intros]: "keeps (on_pool P) (get_conversation_kind_cached E c)"
  unfolding get_conversation_kind_cached_def by (intro keeps_intros keeps_modify) simp_all

end
