(* ===== verification/Srv_Mentions.thy ===== *)
theory Srv_Mentions
  imports Srv_Db
begin

text \<open>
  \<open>db/mentions.rs\<close>: scanning a message for \<open>@name\<close> tokens and broadcast keywords, and storing
  the mention rows. The Unicode tables (\<open>char::is_alphanumeric\<close>, \<open>str::to_lowercase\<close>) and
  PostgreSQL's \<open>LOWER\<close> are functions of the environment.
\<close>

section \<open>Scanning\<close>

fun find_sub :: "'a list \<Rightarrow> 'a list \<Rightarrow> nat option" where
  "find_sub pat [] = (if pat = [] then Some 0 else None)"
| "find_sub pat (x # xs) = (if starts_with pat (x # xs) then Some 0 else map_option Suc (find_sub pat xs))"

definition word_char :: "('w, 'tx, 'n) srv_env \<Rightarrow> int \<Rightarrow> bool" where
  "word_char E c \<longleftrightarrow> sv_is_alphanumeric E c \<or> c = 95"

definition left_ok :: "('w, 'tx, 'n) srv_env \<Rightarrow> string \<Rightarrow> bool" where
  "left_ok E pre \<longleftrightarrow> pre = [] \<or> \<not> (chars pre \<noteq> [] \<and> word_char E (last (chars pre)))"

definition right_ok :: "('w, 'tx, 'n) srv_env \<Rightarrow> string \<Rightarrow> bool" where
  "right_ok E after \<longleftrightarrow> after = [] \<or> \<not> (chars after \<noteq> [] \<and> word_char E (hd (chars after)))"

text \<open>The loop of \<open>is_standalone_keyword\<close>: \<open>pre\<close> is \<open>lower[..start]\<close>, \<open>rest\<close> is \<open>lower[start..]\<close>.\<close>

function keyword_from :: "('w, 'tx, 'n) srv_env \<Rightarrow> string \<Rightarrow> string \<Rightarrow> string \<Rightarrow> bool" where
  "keyword_from E target pre rest =
     (if target = [] then False
      else case find_sub target rest of
        None \<Rightarrow> False
      | Some rel \<Rightarrow>
          let left = pre @ take rel rest; right = drop (rel + length target) rest
          in if left_ok E left \<and> right_ok E right then True
             else if rest = [] then False else keyword_from E target (left @ target) right)"
  by pat_completeness auto
termination by (relation "measure (\<lambda>(E, target, pre, rest). length rest)") auto

definition is_standalone_keyword :: "('w, 'tx, 'n) srv_env \<Rightarrow> string \<Rightarrow> string \<Rightarrow> bool" where
  "is_standalone_keyword E content keyword =
     (if keyword = [] then False
      else if CHR ''@'' \<notin> set content then False
      else keyword_from E (CHR ''@'' # sv_to_lowercase E keyword) [] (sv_to_lowercase E content))"

definition is_word_byte :: "char \<Rightarrow> bool" where
  "is_word_byte c \<longleftrightarrow> (let n = of_char c :: int in
     48 \<le> n \<and> n \<le> 57 \<or> 65 \<le> n \<and> n \<le> 90 \<or> 97 \<le> n \<and> n \<le> 122 \<or> n = 95)"

definition push_unique_non_broadcast :: "('w, 'tx, 'n) srv_env \<Rightarrow> string \<Rightarrow> string list \<Rightarrow> string list" where
  "push_unique_non_broadcast E token out =
     (let lower = sv_to_lowercase E token
      in if lower \<noteq> ''everyone'' \<and> lower \<noteq> ''here'' \<and> lower \<notin> set out then out @ [lower] else out)"

text \<open>
  The loop of \<open>extract_at_usernames\<close>; \<open>scan_word_end\<close> is the length of the run of word bytes after
  the \<open>@\<close>, \<open>is_left_boundary\<close> is \<open>left_ok\<close> on the bytes ahead of it.
\<close>

function at_tokens :: "('w, 'tx, 'n) srv_env \<Rightarrow> string \<Rightarrow> string \<Rightarrow> string list \<Rightarrow> string list" where
  "at_tokens E pre [] out = out"
| "at_tokens E pre (b # rest) out =
     (if b \<noteq> CHR ''@'' \<or> \<not> left_ok E pre then at_tokens E (pre @ [b]) rest out
      else
        let token = takeWhile is_word_byte rest
        in at_tokens E (pre @ b # token) (drop (length token) rest)
             (if token \<noteq> [] then push_unique_non_broadcast E token out else out))"
  by pat_completeness auto
termination by (relation "measure (\<lambda>(E, pre, rest, out). length rest)") auto

definition extract_at_usernames :: "('w, 'tx, 'n) srv_env \<Rightarrow> string \<Rightarrow> string list" where
  "extract_at_usernames E content = (if CHR ''@'' \<notin> set content then [] else at_tokens E [] content [])"

definition scan_mention_signals :: "('w, 'tx, 'n) srv_env \<Rightarrow> string \<Rightarrow> string list \<times> bool \<times> bool" where
  "scan_mention_signals E content =
     (extract_at_usernames E content, is_standalone_keyword E content ''everyone'', is_standalone_keyword E content ''here'')"

section \<open>Storing\<close>

definition resolve_broadcast_members :: "('w, 'tx, 'n) srv_env \<Rightarrow> Uuid \<Rightarrow> ('w, 'tx, 'n, sqlx_error + Uuid list) act" where
  "resolve_broadcast_members E conversation_id = select E (\<lambda>p. active_member_ids p conversation_id)"

definition resolve_username_mentions ::
  "('w, 'tx, 'n) srv_env \<Rightarrow> Uuid \<Rightarrow> string list \<Rightarrow> ('w, 'tx, 'n, sqlx_error + Uuid list) act" where
  "resolve_username_mentions E conversation_id usernames = select E (\<lambda>p.
     filter (\<lambda>uid. case user p uid of Some u \<Rightarrow> sv_sql_lower E (us_username u) \<in> set usernames | None \<Rightarrow> False)
       (active_member_ids p conversation_id))"

definition sender_is_member :: "('w, 'tx, 'n) srv_env \<Rightarrow> Uuid \<Rightarrow> Uuid \<Rightarrow> ('w, 'tx, 'n, sqlx_error + bool) act" where
  "sender_is_member E conversation_id sender_id = select E (\<lambda>p. active_member p conversation_id sender_id)"

definition resolve_mention_targets ::
  "('w, 'tx, 'n) srv_env \<Rightarrow> Uuid \<Rightarrow> Uuid \<Rightarrow> string list \<Rightarrow> bool \<Rightarrow> bool \<Rightarrow> ('w, 'tx, 'n, sqlx_error + Uuid list) act" where
  "resolve_mention_targets E conversation_id sender_id usernames mentions_everyone mentions_here =
     bind_ok (if mentions_everyone \<or> mentions_here then resolve_broadcast_members E conversation_id else ok []) (\<lambda>all.
     bind_ok (if usernames \<noteq> [] then resolve_username_mentions E conversation_id usernames else ok []) (\<lambda>named.
       ok (remdups_adj (sort (filter (\<lambda>uid. uid \<noteq> sender_id) (all @ named))))))"

definition insert_mention_rows ::
  "('w, 'tx, 'n) srv_env \<Rightarrow> Uuid \<Rightarrow> Uuid list \<Rightarrow> ('w, 'tx, 'n, sqlx_error + nat) act" where
  "insert_mention_rows E message_id targets = query E (\<lambda>p.
     let after = insert_new (map (\<lambda>uid. (message_id, uid)) targets) (tb_mentions p)
     in (p\<lparr>tb_mentions := after\<rparr>, Inr (length after - length (tb_mentions p))))"

definition extract_and_persist ::
  "('w, 'tx, 'n) srv_env \<Rightarrow> Uuid \<Rightarrow> Uuid \<Rightarrow> Uuid \<Rightarrow> string \<Rightarrow> ('w, 'tx, 'n, sqlx_error + nat) act" where
  "extract_and_persist E message_id conversation_id sender_id content =
     (let (usernames, mentions_everyone, mentions_here) = scan_mention_signals E content in
      if usernames = [] \<and> \<not> mentions_everyone \<and> \<not> mentions_here then ok 0
      else bind_ok (sender_is_member E conversation_id sender_id) (\<lambda>member.
        if \<not> member then ok 0
        else bind_ok (resolve_mention_targets E conversation_id sender_id usernames mentions_everyone mentions_here) (\<lambda>targets.
          if targets = [] then ok 0 else insert_mention_rows E message_id targets)))"

definition get_mentioned_user_ids :: "('w, 'tx, 'n) srv_env \<Rightarrow> Uuid \<Rightarrow> ('w, 'tx, 'n, sqlx_error + Uuid list) act" where
  "get_mentioned_user_ids E message_id = select E (\<lambda>p. map snd (filter (\<lambda>(m, _). m = message_id) (tb_mentions p)))"

section \<open>What is recorded\<close>

text \<open>
  The mention rows after a message: those there were, and rows of that message for active
  members other than the sender.
\<close>

definition mentions_only :: "Uuid \<Rightarrow> Uuid \<Rightarrow> Uuid \<Rightarrow> 'n Pool \<Rightarrow> 'n Pool \<Rightarrow> bool" where
  "mentions_only message_id conversation_id sender_id p q \<longleftrightarrow>
     q = p\<lparr>tb_mentions := tb_mentions q\<rparr> \<and>
     (\<forall>x\<in>set (tb_mentions q). x \<in> set (tb_mentions p) \<or>
        fst x = message_id \<and> snd x \<noteq> sender_id \<and> active_member p conversation_id (snd x))"

lemma mentions_same: "q = p \<Longrightarrow> mentions_only m c u p q"
  by (simp add: mentions_only_def)

lemma set_insert_new [simp]: "set (insert_new xs t) = set t \<union> set xs"
  unfolding insert_new_def by (induction xs arbitrary: t) auto

lemma insert_mention_rows_only:
  assumes "\<forall>v\<in>set targets. v \<noteq> u \<and> active_member p c v" and "st_pool s = p"
  shows "wp (insert_mention_rows E m targets) (\<lambda>r t. mentions_only m c u p (st_pool t)) s"
  using assms
  by (auto simp: insert_mention_rows_def query_def wp_simps mentions_only_def Let_def split: prod.split)

lemma active_ids: "v \<in> set (active_member_ids p c) \<longleftrightarrow> active_member p c v"
  by (auto simp: active_member_ids_def active_member_def list_ex_iff)

lemma resolve_mention_targets_only:
  "wp (resolve_mention_targets E c u names every here)
     (\<lambda>r t. st_pool t = st_pool s \<and> (\<forall>vs. r = Inr vs \<longrightarrow> (\<forall>v\<in>set vs. v \<noteq> u \<and> active_member (st_pool s) c v))) s"
  unfolding resolve_mention_targets_def resolve_broadcast_members_def resolve_username_mentions_def
  by (auto simp: wp_simps active_ids intro!: wp_select)

text \<open>
  a message of a user who is no active member of the conversation records no mention; of a
  member, whatever \<open>@name\<close> tokens and keywords it contains, it records mentions of active members of
  the conversation other than the sender, and changes nothing else.
\<close>

theorem mentions_are_members:
  fixes E :: "('w, 'tx, 'n) srv_env"
  shows "mentions_only m c u (st_pool s) (st_pool (snd (run_state (extract_and_persist E m c u txt) s))) \<and>
   (\<not> active_member (st_pool s) c u \<longrightarrow> st_pool (snd (run_state (extract_and_persist E m c u txt) s)) = st_pool s)"
proof -
  let ?Q = "\<lambda>t. mentions_only m c u (st_pool s) (st_pool t) \<and> (\<not> active_member (st_pool s) c u \<longrightarrow> st_pool t = st_pool s)"
  obtain names every here where scan: "scan_mention_signals E txt = (names, every, here)" by (metis prod_cases3)
  have targets: "wp (resolve_mention_targets E c u names every here) (\<lambda>r. case r of Inl e \<Rightarrow> ?Q | Inr targets \<Rightarrow>
      wp (if targets = [] then ok 0 else insert_mention_rows E m targets) (\<lambda>_. ?Q)) t"
    if t: "st_pool t = st_pool s" and member: "active_member (st_pool s) c u" for t
  proof (rule wp_mono [OF resolve_mention_targets_only [of E c u names every here t]])
    fix r and v :: "('w, 'tx, 'n) AppState"
    assume "st_pool v = st_pool t \<and> (\<forall>vs. r = Inr vs \<longrightarrow> (\<forall>x\<in>set vs. x \<noteq> u \<and> active_member (st_pool t) c x))"
    then show "(case r of Inl e \<Rightarrow> ?Q | Inr targets \<Rightarrow> wp (if targets = [] then ok 0 else insert_mention_rows E m targets) (\<lambda>_. ?Q)) v"
      using t member insert_mention_rows_only [of _ u "st_pool s" c v E m] by (auto simp: wp_simps mentions_same split: sum.split)
  qed
  have "wp (extract_and_persist E m c u txt) (\<lambda>_. ?Q) s"
    unfolding extract_and_persist_def scan sender_is_member_def using targets
    by (auto simp: wp_simps mentions_same intro!: wp_select)
  then show ?thesis by (auto simp: wp_def split: prod.splits)
qed

end
