(* ===== verification/Srv_Validate.thy ===== *)
theory Srv_Validate
  imports Srv_Db
begin

text \<open>
  \<open>ws/message_service/types.rs\<close>, \<open>validate.rs\<close> and \<open>routing.rs\<close>: the shape of ciphertext frames,
  the gates of the send path, and the resolution of conversation and channel.
\<close>

section \<open>\<open>types.rs\<close>\<close>

type_synonym ParsedRecipientDeviceContents = "(Uuid, (device_id, string) hmap) hmap"

definition parse_devices :: "('w, 'tx, 'n) srv_env \<Rightarrow> (string, string) hmap \<Rightarrow> (device_id, string) hmap" where
  "parse_devices E devices =
     fold (\<lambda>(did_str, ciphertext) by_device.
       case sv_i32_parse E did_str of Some did \<Rightarrow> hm_insert did ciphertext by_device | None \<Rightarrow> by_device) devices []"

definition from_wire :: "('w, 'tx, 'n) srv_env \<Rightarrow> RecipientDeviceContents \<Rightarrow> ParsedRecipientDeviceContents" where
  "from_wire E rdc =
     fold (\<lambda>(uid_str, devices) by_user.
       case sv_uuid_parse E uid_str of Some uid \<Rightarrow> hm_insert uid (parse_devices E devices) by_user | None \<Rightarrow> by_user) rdc []"

definition recipient_ids :: "ParsedRecipientDeviceContents \<Rightarrow> Uuid list" where
  "recipient_ids rdc = map fst rdc"

section \<open>\<open>validate.rs\<close>\<close>

definition MAX_MESSAGE_LENGTH :: nat where "MAX_MESSAGE_LENGTH = 10000"
definition GROUP_WIRE_PREFIX_V1 :: string where "GROUP_WIRE_PREFIX_V1 = ''GRP1:''"
definition GROUP_WIRE_PREFIX_V2 :: string where "GROUP_WIRE_PREFIX_V2 = ''GRP2:''"

definition strip_prefix :: "string \<Rightarrow> string \<Rightarrow> string option" where
  "strip_prefix pre s = (if starts_with pre s then Some (drop (length pre) s) else None)"

definition group_shape :: "('w, 'tx, 'n) srv_env \<Rightarrow> string \<Rightarrow> bool" where
  "group_shape E after_prefix =
     (case sv_base64_decode E after_prefix of None \<Rightarrow> False | Some bs \<Rightarrow> 28 \<le> length bs)"

definition wire_shape :: "bytes \<Rightarrow> bool" where
  "wire_shape bs \<longleftrightarrow>
     2 \<le> length bs \<and> bs ! 0 = WIRE_MAGIC \<and> (bs ! 1 = WIRE_INITIAL_V1 \<or> bs ! 1 = WIRE_INITIAL_V2) \<or>
     4 \<le> length bs \<and> u32_from_le_bytes (take 4 bs) = Some NORMAL_HEADER_LEN"

definition is_valid_ciphertext_shape :: "('w, 'tx, 'n) srv_env \<Rightarrow> string \<Rightarrow> bool" where
  "is_valid_ciphertext_shape E payload =
     (case strip_prefix GROUP_WIRE_PREFIX_V1 payload of
        Some after_prefix \<Rightarrow> group_shape E after_prefix
      | None \<Rightarrow>
          (case strip_prefix GROUP_WIRE_PREFIX_V2 payload of
             Some after_prefix \<Rightarrow> group_shape E after_prefix
           | None \<Rightarrow> (case sv_base64_decode E payload of None \<Rightarrow> False | Some bs \<Rightarrow> wire_shape bs)))"

text \<open>Reporting an error and answering that the message is refused.\<close>

definition reject :: "('w, 'tx, 'n) srv_env \<Rightarrow> Uuid \<Rightarrow> string \<Rightarrow> 'a \<Rightarrow> ('w, 'tx, 'n, 'a) act" where
  "reject E user_id message answer = do { emit_error E user_id message; State_Monad.return answer }"

definition validate_message_length :: "('w, 'tx, 'n) srv_env \<Rightarrow> Uuid \<Rightarrow> string \<Rightarrow> ('w, 'tx, 'n, bool) act" where
  "validate_message_length E sender_id content =
     (if blank content then reject E sender_id ''Content cannot be empty'' False
      else if MAX_MESSAGE_LENGTH < length content
      then reject E sender_id (''Message too long: '' @ dec_string (length content) @ '' characters (max ''
             @ dec_string MAX_MESSAGE_LENGTH @ '')'') False
      else State_Monad.return True)"

definition ENCRYPTED_PAYLOAD_REQUIRED :: string where
  "ENCRYPTED_PAYLOAD_REQUIRED = ''Encrypted conversation requires ciphertext payload''"

definition send_payload_error :: "('w, 'tx, 'n) srv_env \<Rightarrow> Uuid \<Rightarrow> ('w, 'tx, 'n, unit) act" where
  "send_payload_error E sender_id = emit_error E sender_id ENCRYPTED_PAYLOAD_REQUIRED"

definition validate_dm_canonical_content :: "('w, 'tx, 'n) srv_env \<Rightarrow> Uuid \<Rightarrow> string \<Rightarrow> ('w, 'tx, 'n, bool) act" where
  "validate_dm_canonical_content E sender_id content =
     (if \<not> is_valid_ciphertext_shape E content
      then do { send_payload_error E sender_id; State_Monad.return False }
      else State_Monad.return True)"

definition validate_dm_device_map_present ::
  "('w, 'tx, 'n) srv_env \<Rightarrow> Uuid \<Rightarrow> RecipientDeviceContents option \<Rightarrow> ('w, 'tx, 'n, RecipientDeviceContents option) act" where
  "validate_dm_device_map_present E sender_id rdc =
     (case rdc of
        None \<Rightarrow> do { send_payload_error E sender_id; State_Monad.return None }
      | Some m \<Rightarrow>
          if m = [] then do { send_payload_error E sender_id; State_Monad.return None }
          else State_Monad.return (Some m))"

text \<open>The two loops answer \<open>false\<close> at the first violation; \<open>devices_ok\<close> is the inner one.\<close>

definition devices_ok :: "('w, 'tx, 'n) srv_env \<Rightarrow> (string, string) hmap \<Rightarrow> bool" where
  "devices_ok E devices \<longleftrightarrow> devices \<noteq> [] \<and> list_all (\<lambda>(_, ciphertext). is_valid_ciphertext_shape E ciphertext) devices"

definition validate_dm_per_device_ciphertexts ::
  "('w, 'tx, 'n) srv_env \<Rightarrow> Uuid \<Rightarrow> RecipientDeviceContents \<Rightarrow> ('w, 'tx, 'n, bool) act" where
  "validate_dm_per_device_ciphertexts E sender_id rdc =
     (if list_all (\<lambda>(_, devices). devices_ok E devices) rdc then State_Monad.return True
      else do { send_payload_error E sender_id; State_Monad.return False })"

definition validate_encrypted_payload ::
  "('w, 'tx, 'n) srv_env \<Rightarrow> Uuid \<Rightarrow> ConversationKind option \<Rightarrow> string \<Rightarrow> RecipientDeviceContents option \<Rightarrow> ('w, 'tx, 'n, bool) act" where
  "validate_encrypted_payload E sender_id conv_kind content recipient_device_contents =
     (case conv_kind of
        Some Direct \<Rightarrow> do {
          canonical \<leftarrow> validate_dm_canonical_content E sender_id content;
          (if \<not> canonical then State_Monad.return False
           else do {
             rdc \<leftarrow> validate_dm_device_map_present E sender_id recipient_device_contents;
             (case rdc of
                None \<Rightarrow> State_Monad.return False
              | Some m \<Rightarrow> validate_dm_per_device_ciphertexts E sender_id m)
           })
        }
      | Some Group \<Rightarrow>
          if \<not> is_valid_ciphertext_shape E content
          then do { send_payload_error E sender_id; State_Monad.return False }
          else State_Monad.return True
      | None \<Rightarrow> State_Monad.return True)"

definition DM_PEER_MISSING_CODE :: string where "DM_PEER_MISSING_CODE = ''dm-peer-not-in-recipients''"

definition enforce_dm_recipient_includes_peer ::
  "('w, 'tx, 'n) srv_env \<Rightarrow> Uuid \<Rightarrow> Uuid \<Rightarrow> RecipientDeviceContents \<Rightarrow> ('w, 'tx, 'n, bool) act" where
  "enforce_dm_recipient_includes_peer E sender_id conversation_id rdc = do {
     r \<leftarrow> get_conversation_member_ids E conversation_id;
     (case r of
        Inl _ \<Rightarrow> reject E sender_id ''Database error'' False
      | Inr members \<Rightarrow>
          if list_ex (\<lambda>m. m \<noteq> sender_id \<and> hm_get rdc (sv_uuid_to_string E m) = None) members
          then reject E sender_id DM_PEER_MISSING_CODE False
          else State_Monad.return True)
   }"

definition SENDER_NOT_MEMBER_CODE :: string where "SENDER_NOT_MEMBER_CODE = ''sender-not-member''"

definition enforce_group_sender_membership :: "('w, 'tx, 'n) srv_env \<Rightarrow> Uuid \<Rightarrow> Uuid \<Rightarrow> ('w, 'tx, 'n, bool) act" where
  "enforce_group_sender_membership E sender_id conversation_id = do {
     r \<leftarrow> is_member E conversation_id sender_id;
     (case r of
        Inr True \<Rightarrow> State_Monad.return True
      | Inr False \<Rightarrow> reject E sender_id SENDER_NOT_MEMBER_CODE False
      | Inl _ \<Rightarrow> reject E sender_id ''Database error'' False)
   }"

section \<open>\<open>routing.rs\<close>\<close>

definition resolve_conversation ::
  "('w, 'tx, 'n) srv_env \<Rightarrow> Uuid \<Rightarrow> Uuid option \<Rightarrow> Uuid option \<Rightarrow> ('w, 'tx, 'n, Uuid option) act" where
  "resolve_conversation E sender_id conversation_id to_user_id =
     (case conversation_id of
        Some cid \<Rightarrow> do {
          r \<leftarrow> is_member E cid sender_id;
          (case r of
             Inr True \<Rightarrow> State_Monad.return (Some cid)
           | Inr False \<Rightarrow> reject E sender_id ''Not a member of this conversation'' None
           | Inl _ \<Rightarrow> reject E sender_id ''Database error'' None)
        }
      | None \<Rightarrow>
          (case to_user_id of
             Some to_uid \<Rightarrow> do {
               r \<leftarrow> are_contacts E sender_id to_uid;
               (case r of
                  Inr True \<Rightarrow> do {
                    c \<leftarrow> find_or_create_dm_conversation E sender_id to_uid;
                    (case c of
                       Inr conv_id \<Rightarrow> State_Monad.return (Some conv_id)
                     | Inl _ \<Rightarrow> reject E sender_id ''Failed to create conversation'' None)
                  }
                | Inr False \<Rightarrow> reject E sender_id ''Not a contact'' None
                | Inl _ \<Rightarrow> reject E sender_id ''Database error'' None)
             }
           | None \<Rightarrow> reject E sender_id ''Must provide conversation_id or to_user_id'' None))"

definition validate_explicit_channel ::
  "('w, 'tx, 'n) srv_env \<Rightarrow> Uuid \<Rightarrow> Uuid \<Rightarrow> Uuid \<Rightarrow> ('w, 'tx, 'n, Uuid option option) act" where
  "validate_explicit_channel E sender_id conv_id channel_id = do {
     r \<leftarrow> get_channel E channel_id;
     (case r of
        Inl _ \<Rightarrow> reject E sender_id ''Database error'' None
      | Inr None \<Rightarrow> reject E sender_id ''Channel not found'' None
      | Inr (Some channel) \<Rightarrow>
          if ch_conversation_id channel \<noteq> conv_id
          then reject E sender_id ''Channel is not part of this conversation'' None
          else if ch_kind channel \<noteq> ''text''
          then reject E sender_id ''Messages can only be sent to text channels'' None
          else State_Monad.return (Some (Some channel_id)))
   }"

definition resolve_default_text_channel ::
  "('w, 'tx, 'n) srv_env \<Rightarrow> Uuid \<Rightarrow> Uuid \<Rightarrow> ('w, 'tx, 'n, Uuid option option) act" where
  "resolve_default_text_channel E sender_id conv_id = do {
     r \<leftarrow> get_default_text_channel E conv_id;
     (case r of
        Inr (Some channel) \<Rightarrow> State_Monad.return (Some (Some (ch_id channel)))
      | Inr None \<Rightarrow> reject E sender_id ''No text channel found for this group'' None
      | Inl _ \<Rightarrow> reject E sender_id ''Database error'' None)
   }"

definition resolve_channel ::
  "('w, 'tx, 'n) srv_env \<Rightarrow> Uuid \<Rightarrow> Uuid \<Rightarrow> Uuid option \<Rightarrow> ConversationKind option \<Rightarrow> ('w, 'tx, 'n, Uuid option option) act" where
  "resolve_channel E sender_id conv_id channel_id conv_kind =
     (if conv_kind \<noteq> Some Group then State_Monad.return (Some None)
      else case channel_id of
        Some cid \<Rightarrow> validate_explicit_channel E sender_id conv_id cid
      | None \<Rightarrow> resolve_default_text_channel E sender_id conv_id)"

definition lookup_reply_context ::
  "('w, 'tx, 'n) srv_env \<Rightarrow> Uuid option \<Rightarrow> Uuid \<Rightarrow> ('w, 'tx, 'n, string option \<times> string option) act" where
  "lookup_reply_context E reply_to_id conversation_id =
     (case reply_to_id of
        None \<Rightarrow> State_Monad.return (None, None)
      | Some rid \<Rightarrow> do {
          r \<leftarrow> lookup_reply_context_row E rid conversation_id;
          State_Monad.return (case r of Inr (Some (c, u)) \<Rightarrow> (Some c, Some u) | _ \<Rightarrow> (None, None))
        })"

definition validate_conversation_security ::
  "('w, 'tx, 'n) srv_env \<Rightarrow> Uuid \<Rightarrow> Uuid \<Rightarrow> Uuid option
     \<Rightarrow> ('w, 'tx, 'n, (ConversationSecurityRow \<times> ConversationKind option \<times> Uuid option) option) act" where
  "validate_conversation_security E sender_id conv_id channel_id = do {
     r \<leftarrow> get_conversation_security E conv_id;
     (case r of
        Inl _ \<Rightarrow> reject E sender_id ''Database error'' None
      | Inr None \<Rightarrow> reject E sender_id ''Conversation not found'' None
      | Inr (Some conv_security) \<Rightarrow>
          let conv_kind = ConversationKind_from_str_opt (cs_kind conv_security) in
          if conv_kind \<noteq> Some Group \<and> channel_id \<noteq> None
          then reject E sender_id ''channel_id is only valid for group conversations'' None
          else do {
            channel \<leftarrow> resolve_channel E sender_id conv_id channel_id conv_kind;
            (case channel of
               None \<Rightarrow> State_Monad.return None
             | Some resolved_channel_id \<Rightarrow>
                 if conv_kind = Some Direct \<and> \<not> cs_is_encrypted conv_security
                 then reject E sender_id ''Direct messages must be end-to-end encrypted'' None
                 else State_Monad.return (Some (conv_security, conv_kind, resolved_channel_id)))
          })
   }"

end
