(* ===== verification/Srv_Send.thy ===== *)
theory Srv_Send
  imports Srv_Validate Srv_Mentions Srv_Caches
begin

text \<open>
  \<open>ws/message_service/storage.rs\<close>, \<open>fanout.rs\<close> and \<open>mod.rs\<close>: the single write path of a message,
  its confirmation, its fan-out to the members' devices, and the orchestration in
  \<open>handle_send_message\<close>.
\<close>

section \<open>\<open>storage.rs\<close>\<close>

definition resolve_effective_ttl :: "i64 option \<Rightarrow> i32 option \<Rightarrow> i64 option" where
  "resolve_effective_ttl ttl_seconds conv_ttl_seconds =
     (let per_msg = (case ttl_seconds of Some t \<Rightarrow> if 5 \<le> t \<and> t \<le> 31536000 then Some t else None | None \<Rightarrow> None)
      in if per_msg \<noteq> None then per_msg else conv_ttl_seconds)"

definition persist_mentions ::
  "('w, 'tx, 'n) srv_env \<Rightarrow> Uuid \<Rightarrow> Uuid \<Rightarrow> Uuid \<Rightarrow> string \<Rightarrow> bool \<Rightarrow> ('w, 'tx, 'n, unit) act" where
  "persist_mentions E message_id conv_id sender_id content is_encrypted =
     (if is_encrypted then State_Monad.return ()
      else do { extract_and_persist E message_id conv_id sender_id content; State_Monad.return () })"

definition device_entries :: "Uuid list \<Rightarrow> ParsedRecipientDeviceContents \<Rightarrow> (Uuid \<times> device_id \<times> string) list" where
  "device_entries blockers rdc =
     concat (map (\<lambda>(recipient_id, devices). map (\<lambda>(did, ct). (recipient_id, did, ct)) devices)
       (filter (\<lambda>(recipient_id, _). recipient_id \<notin> set blockers) rdc))"

definition persist_device_contents ::
  "('w, 'tx, 'n) srv_env \<Rightarrow> Uuid \<Rightarrow> Uuid \<Rightarrow> ParsedRecipientDeviceContents \<Rightarrow> ('w, 'tx, 'n, unit) act" where
  "persist_device_contents E message_id sender_id rdc = do {
     blockers \<leftarrow> (if recipient_ids rdc = [] then ok [] else get_blockers_of E (recipient_ids rdc) sender_id);
     (let entries = device_entries (unwrap_or [] blockers) rdc in
      if entries = [] then State_Monad.return ()
      else do { store_device_contents E message_id entries; State_Monad.return () })
   }"

definition send_frame ::
  "('w, 'tx, 'n) srv_env \<Rightarrow> Uuid \<Rightarrow> device_id \<Rightarrow> 'n ServerMessage \<Rightarrow> ('w, 'tx, 'n, unit) act" where
  "send_frame E user_id device_id message =
     (case sv_to_json E message of
        Some json \<Rightarrow> do { hub_send_to_device E user_id device_id (ws_text json); State_Monad.return () }
      | None \<Rightarrow> State_Monad.return ())"

definition send_message_sent_confirmation ::
  "('w, 'tx, 'n) srv_env \<Rightarrow> Uuid \<Rightarrow> device_id \<Rightarrow> MessageRow \<Rightarrow> Uuid \<Rightarrow> ('w, 'tx, 'n, unit) act" where
  "send_message_sent_confirmation E sender_id sender_device_id stored conv_id =
     send_frame E sender_id sender_device_id
       (MessageSent (ms_id stored) conv_id (ms_channel_id stored) (ms_created_at stored) (ms_expires_at stored))"

definition deliver_self_messages ::
  "('w, 'tx, 'n) srv_env \<Rightarrow> Uuid \<Rightarrow> device_id \<Rightarrow> MessageRow \<Rightarrow> Uuid \<Rightarrow> Uuid option \<Rightarrow> ParsedRecipientDeviceContents
     \<Rightarrow> ('w, 'tx, 'n, unit) act" where
  "deliver_self_messages E sender_id sender_device_id stored conv_id reply_to_id rdc =
     (case hm_get rdc sender_id of
        None \<Rightarrow> State_Monad.return ()
      | Some self_devices \<Rightarrow> for_each (\<lambda>(did, ciphertext).
          if did = sender_device_id then State_Monad.return ()
          else send_frame E sender_id did (SelfMessage (ms_id stored) sender_device_id conv_id (ms_channel_id stored)
            ciphertext (ms_created_at stored) reply_to_id)) self_devices)"

definition store_and_confirm ::
  "('w, 'tx, 'n) srv_env \<Rightarrow> Uuid \<Rightarrow> device_id \<Rightarrow> Uuid \<Rightarrow> Uuid option \<Rightarrow> string \<Rightarrow> Uuid option
     \<Rightarrow> ParsedRecipientDeviceContents option \<Rightarrow> i64 option \<Rightarrow> i32 option \<Rightarrow> bool \<Rightarrow> Uuid option \<Rightarrow> Uuid option
     \<Rightarrow> ('w, 'tx, 'n, MessageRow option) act" where
  "store_and_confirm E sender_id sender_device_id conv_id resolved_channel_id content reply_to_id
     recipient_device_contents ttl_seconds conv_ttl_seconds is_encrypted client_message_id thread_root_id = do {
     r \<leftarrow> store_message E conv_id resolved_channel_id sender_id (Some sender_device_id) content reply_to_id
            (resolve_effective_ttl ttl_seconds conv_ttl_seconds) client_message_id thread_root_id;
     (case r of
        Inl e \<Rightarrow>
          if e = RowNotFound \<and> reply_to_id \<noteq> None
          then reject E sender_id ''reply_to message not found in this conversation'' None
          else if e = UniqueViolation \<and> client_message_id \<noteq> None
          then reject E sender_id ''client_message_id collision'' None
          else reject E sender_id ''Failed to store message'' None
      | Inr stored \<Rightarrow> do {
          persist_mentions E (ms_id stored) conv_id sender_id content is_encrypted;
          (case recipient_device_contents of
             Some rdc \<Rightarrow> persist_device_contents E (ms_id stored) sender_id rdc
           | None \<Rightarrow> State_Monad.return ());
          send_message_sent_confirmation E sender_id sender_device_id stored conv_id;
          (case recipient_device_contents of
             Some rdc \<Rightarrow> deliver_self_messages E sender_id sender_device_id stored conv_id reply_to_id rdc
           | None \<Rightarrow> State_Monad.return ());
          State_Monad.return (Some stored)
        })
   }"

section \<open>\<open>fanout.rs\<close>\<close>

fun NewMessageFields_extract :: "'n ServerMessage \<Rightarrow> NewMessageFields option" where
  "NewMessageFields_extract (NewMessage nmf _) = Some nmf"
| "NewMessageFields_extract _ = None"

definition sentinel_for :: "('w, 'tx, 'n) srv_env \<Rightarrow> Uuid \<Rightarrow> string" where
  "sentinel_for E uuid = ''__ECHO_CONTENT_PLACEHOLDER_'' @ sv_uuid_to_string E uuid @ ''__''"

definition frame_entries ::
  "('w, 'tx, 'n) srv_env \<Rightarrow> string \<Rightarrow> string \<Rightarrow> (device_id, string) hmap \<Rightarrow> (device_id \<times> WsMessage) list" where
  "frame_entries E prefix suffix devices =
     List.map_filter (\<lambda>(did, ciphertext).
       map_option (\<lambda>ct_json. (did, ws_text (prefix @ ct_json @ suffix))) (sv_string_to_json E ciphertext)) devices"

definition build_per_device_json ::
  "('w, 'tx, 'n) srv_env \<Rightarrow> Uuid \<Rightarrow> NewMessageFields \<Rightarrow> ParsedRecipientDeviceContents \<Rightarrow> (Uuid, (device_id \<times> WsMessage) list) hmap" where
  "build_per_device_json E uuid nmf rdc =
     (let sentinel = sentinel_for E uuid in
      case sv_to_json E (NewMessage (nmf\<lparr>nm_content := sentinel\<rparr>) None) of
        None \<Rightarrow> []
      | Some serialized \<Rightarrow>
          let sentinel_quoted = ''\"'' @ sentinel @ ''\"'' in
          (case find_sub sentinel_quoted serialized of
             None \<Rightarrow> []
           | Some pos \<Rightarrow>
               let prefix = take pos serialized; suffix = drop (pos + length sentinel_quoted) serialized
               in map (\<lambda>(recipient_id, devices). (recipient_id, frame_entries E prefix suffix devices)) rdc))"

text \<open>The loop over the devices of a member, collecting those whose queue accepted.\<close>

fun send_each_device ::
  "('w, 'tx, 'n) srv_env \<Rightarrow> Uuid \<Rightarrow> (device_id \<times> WsMessage) list \<Rightarrow> ('w, 'tx, 'n, device_id list) act" where
  "send_each_device E member_id [] = State_Monad.return []"
| "send_each_device E member_id ((did, msg) # ms) = do {
     sent \<leftarrow> hub_send_to_device E member_id did msg;
     accepted \<leftarrow> send_each_device E member_id ms;
     State_Monad.return (if sent then did # accepted else accepted)
   }"

text \<open>\<open>MemberDeliveryOutcome\<close> is the list of accepting devices; \<open>delivered\<close> is that it is not empty.\<close>

definition deliver_to_member ::
  "('w, 'tx, 'n) srv_env \<Rightarrow> Uuid \<Rightarrow> (Uuid, (device_id \<times> WsMessage) list) hmap option \<Rightarrow> WsMessage option
     \<Rightarrow> ('w, 'tx, 'n, device_id list) act" where
  "deliver_to_member E member_id per_recipient_json legacy_msg =
     (case Option.bind per_recipient_json (\<lambda>by_recipient. hm_get by_recipient member_id) of
        Some device_msgs \<Rightarrow> send_each_device E member_id device_msgs
      | None \<Rightarrow>
          (case legacy_msg of
             Some msg \<Rightarrow> hub_send_to_user_collecting E member_id msg
           | None \<Rightarrow> State_Monad.return []))"

definition send_delivery_confirmation ::
  "('w, 'tx, 'n) srv_env \<Rightarrow> Uuid \<Rightarrow> device_id \<Rightarrow> Uuid \<Rightarrow> Uuid \<Rightarrow> ('w, 'tx, 'n, unit) act" where
  "send_delivery_confirmation E sender_id sender_device_id stored_id conv_id = do {
     mark_delivered E [stored_id];
     send_frame E sender_id sender_device_id (Delivered stored_id conv_id)
   }"

definition spawn_push_notifications :: "PushTask \<Rightarrow> ('w, 'tx, 'n, unit) act" where
  "spawn_push_notifications task = modify (\<lambda>s. s\<lparr>st_pushes := st_pushes s @ [task]\<rparr>)"

definition filter_revoked_devices ::
  "('w, 'tx, 'n) srv_env \<Rightarrow> ParsedRecipientDeviceContents \<Rightarrow> ('w, 'tx, 'n, ParsedRecipientDeviceContents) act" where
  "filter_revoked_devices E rdc = do {
     r \<leftarrow> get_revoked_devices_for_users E (recipient_ids rdc);
     State_Monad.return (let revoked_map = unwrap_or [] r in
       map (\<lambda>(uid, devices). (uid, case hm_get revoked_map uid of
           Some revoked_dids \<Rightarrow> hm_retain (\<lambda>did _. did \<notin> set revoked_dids) devices
         | None \<Rightarrow> devices)) rdc)
   }"

definition deliver_to_sender_other_devices ::
  "('w, 'tx, 'n) srv_env \<Rightarrow> Uuid \<Rightarrow> device_id \<Rightarrow> (Uuid, (device_id \<times> WsMessage) list) hmap option \<Rightarrow> WsMessage option
     \<Rightarrow> ('w, 'tx, 'n, unit) act" where
  "deliver_to_sender_other_devices E sender_id sender_device_id per_recipient_json legacy_msg =
     (if Option.bind per_recipient_json (\<lambda>m. hm_get m sender_id) \<noteq> None then State_Monad.return ()
      else case legacy_msg of
        None \<Rightarrow> State_Monad.return ()
      | Some msg \<Rightarrow> do { hub_send_to_user_except_device E sender_id sender_device_id msg; State_Monad.return () })"

definition should_suppress_offline_push :: "('w, 'tx, 'n) srv_env \<Rightarrow> nat \<Rightarrow> bool \<Rightarrow> bool \<Rightarrow> string \<Rightarrow> bool" where
  "should_suppress_offline_push E offline_count is_group is_encrypted content =
     (if offline_count = 0 then False else if \<not> is_group then False else if is_encrypted then False
      else is_standalone_keyword E content ''here'')"

definition filter_thread_push_recipients ::
  "('w, 'tx, 'n) srv_env \<Rightarrow> Uuid list \<Rightarrow> Uuid \<Rightarrow> Uuid \<Rightarrow> ('w, 'tx, 'n, Uuid list) act" where
  "filter_thread_push_recipients E offline_user_ids thread_root_id new_message_id = do {
     r \<leftarrow> get_thread_subscribers E thread_root_id;
     (case r of
        Inl _ \<Rightarrow> State_Monad.return offline_user_ids
      | Inr subscribers \<Rightarrow> do {
          q \<leftarrow> get_mentioned_user_ids E new_message_id;
          State_Monad.return (case q of
            Inl _ \<Rightarrow> offline_user_ids
          | Inr mentioned \<Rightarrow> filter (\<lambda>u. u \<in> set subscribers \<or> u \<in> set mentioned) offline_user_ids)
        })
   }"

text \<open>The loop over the eligible members: the accepted (user, device) pairs and the offline users.\<close>

fun deliver_members ::
  "('w, 'tx, 'n) srv_env \<Rightarrow> (Uuid, (device_id \<times> WsMessage) list) hmap option \<Rightarrow> WsMessage option \<Rightarrow> Uuid list
     \<Rightarrow> ('w, 'tx, 'n, (Uuid \<times> device_id) list \<times> Uuid list) act" where
  "deliver_members E per_recipient_json legacy_msg [] = State_Monad.return ([], [])"
| "deliver_members E per_recipient_json legacy_msg (member_id # ms) = do {
     accepted \<leftarrow> deliver_to_member E member_id per_recipient_json legacy_msg;
     rest \<leftarrow> deliver_members E per_recipient_json legacy_msg ms;
     State_Monad.return (map (\<lambda>did. (member_id, did)) accepted @ fst rest,
       if accepted = [] then member_id # snd rest else snd rest)
   }"

definition eligible_members :: "Uuid \<Rightarrow> Uuid list \<Rightarrow> Uuid list \<Rightarrow> Uuid list" where
  "eligible_members sender_id blockers member_ids = filter (\<lambda>m. m \<noteq> sender_id \<and> m \<notin> set blockers) member_ids"

definition push_offline ::
  "('w, 'tx, 'n) srv_env \<Rightarrow> Uuid \<Rightarrow> Uuid \<Rightarrow> bool \<Rightarrow> bool \<Rightarrow> NewMessageFields \<Rightarrow> Uuid list \<Rightarrow> ('w, 'tx, 'n, unit) act" where
  "push_offline E conv_id stored_id is_encrypted is_group nmf offline_user_ids =
     (let suppress = should_suppress_offline_push E (length offline_user_ids) is_group is_encrypted (nm_content nmf) in do {
      recipients \<leftarrow> (case nm_thread_root_id nmf of
          Some thread_root_id \<Rightarrow>
            if offline_user_ids \<noteq> [] then filter_thread_push_recipients E offline_user_ids thread_root_id stored_id
            else State_Monad.return offline_user_ids
        | None \<Rightarrow> State_Monad.return offline_user_ids);
      (if recipients \<noteq> [] \<and> \<not> suppress
       then spawn_push_notifications \<lparr>pt_users = recipients, pt_sender_name = nm_from_username nmf,
         pt_content = nm_content nmf, pt_is_encrypted = is_encrypted, pt_conversation_id = conv_id,
         pt_message_id = stored_id\<rparr>
       else State_Monad.return ())
     })"

definition fanout_message ::
  "('w, 'tx, 'n) srv_env \<Rightarrow> Uuid \<Rightarrow> device_id \<Rightarrow> Uuid \<Rightarrow> 'n ServerMessage \<Rightarrow> Uuid \<Rightarrow> bool \<Rightarrow> bool
     \<Rightarrow> ParsedRecipientDeviceContents option \<Rightarrow> ('w, 'tx, 'n, unit) act" where
  "fanout_message E sender_id sender_device_id conv_id message stored_id is_encrypted is_group recipient_device_contents =
     (case NewMessageFields_extract message of
        None \<Rightarrow> State_Monad.return ()
      | Some nmf \<Rightarrow> do {
          r \<leftarrow> get_member_ids_cached E conv_id;
          (case r of
             Inl _ \<Rightarrow> State_Monad.return ()
           | Inr ids \<Rightarrow> do {
               blockers \<leftarrow> get_blockers_of E ids sender_id;
               per_recipient_json \<leftarrow> (case recipient_device_contents of
                   Some rdc \<Rightarrow> do {
                     kept \<leftarrow> filter_revoked_devices E rdc;
                     uuid \<leftarrow> draw (sv_gen_random_uuid E);
                     State_Monad.return (Some (build_per_device_json E uuid nmf kept))
                   }
                 | None \<Rightarrow> State_Monad.return None);
               outcome \<leftarrow> deliver_members E per_recipient_json (map_option ws_text (sv_to_json E message))
                 (eligible_members sender_id (unwrap_or [] blockers) ids);
               (if fst outcome \<noteq> [] then do { mark_devices_delivered_pairs E stored_id (fst outcome); State_Monad.return () }
                else State_Monad.return ());
               deliver_to_sender_other_devices E sender_id sender_device_id per_recipient_json
                 (map_option ws_text (sv_to_json E message));
               (if fst outcome \<noteq> [] then send_delivery_confirmation E sender_id sender_device_id stored_id conv_id
                else State_Monad.return ());
               push_offline E conv_id stored_id is_encrypted is_group nmf (snd outcome)
             })
        })"

section \<open>\<open>mod.rs\<close>\<close>

definition new_message_frame ::
  "Uuid \<Rightarrow> device_id \<Rightarrow> string \<Rightarrow> Uuid \<Rightarrow> SendRequest \<Rightarrow> MessageRow \<Rightarrow> string option \<times> string option \<Rightarrow> 'n ServerMessage" where
  "new_message_frame sender_id sender_device_id sender_username conv_id q stored reply =
     NewMessage \<lparr>nm_message_id = ms_id stored, nm_from_user_id = sender_id, nm_from_device_id = Some sender_device_id,
       nm_from_username = sender_username, nm_conversation_id = conv_id, nm_channel_id = ms_channel_id stored,
       nm_content = sq_content q, nm_timestamp = ms_created_at stored, nm_reply_to_id = sq_reply_to_id q,
       nm_reply_to_content = fst reply, nm_reply_to_username = snd reply, nm_thread_root_id = sq_thread_root_id q,
       nm_expires_at = ms_expires_at stored\<rparr> None"

text \<open>The gates between the resolution of the conversation and the write.\<close>

definition gates ::
  "('w, 'tx, 'n) srv_env \<Rightarrow> Uuid \<Rightarrow> Uuid \<Rightarrow> ConversationSecurityRow \<Rightarrow> ConversationKind option \<Rightarrow> SendRequest \<Rightarrow> ('w, 'tx, 'n, bool) act" where
  "gates E sender_id conv_id conv_security conv_kind q =
     (if \<not> cs_is_encrypted conv_security then State_Monad.return True
      else do {
        shaped \<leftarrow> validate_encrypted_payload E sender_id conv_kind (sq_content q) (sq_recipient_device_contents q);
        (if \<not> shaped then State_Monad.return False
         else if conv_kind = Some Group then enforce_group_sender_membership E sender_id conv_id
         else case (conv_kind, sq_recipient_device_contents q) of
           (Some Direct, Some rdc) \<Rightarrow> enforce_dm_recipient_includes_peer E sender_id conv_id rdc
         | _ \<Rightarrow> State_Monad.return True)
      })"

definition store_and_fan_out ::
  "('w, 'tx, 'n) srv_env \<Rightarrow> Uuid \<Rightarrow> device_id \<Rightarrow> string \<Rightarrow> Uuid \<Rightarrow> ConversationSecurityRow \<Rightarrow> ConversationKind option
     \<Rightarrow> Uuid option \<Rightarrow> SendRequest \<Rightarrow> ('w, 'tx, 'n, unit) act" where
  "store_and_fan_out E sender_id sender_device_id sender_username conv_id conv_security conv_kind resolved_channel_id q =
     (let parsed_rdc = map_option (from_wire E) (sq_recipient_device_contents q) in do {
      reply \<leftarrow> lookup_reply_context E (sq_reply_to_id q) conv_id;
      stored \<leftarrow> store_and_confirm E sender_id sender_device_id conv_id resolved_channel_id (sq_content q) (sq_reply_to_id q)
        parsed_rdc (sq_ttl_seconds q) (cs_disappearing_ttl_seconds conv_security) (cs_is_encrypted conv_security)
        (sq_client_message_id q) (sq_thread_root_id q);
      (case stored of
         None \<Rightarrow> State_Monad.return ()
       | Some row \<Rightarrow> do {
           modify (\<lambda>s. s\<lparr>st_message_rate := st_message_rate s + 1\<rparr>);
           fanout_message E sender_id sender_device_id conv_id
             (new_message_frame sender_id sender_device_id sender_username conv_id q row reply) (ms_id row)
             (cs_is_encrypted conv_security) (conv_kind = Some Group) parsed_rdc
         })
     })"

definition handle_send_message ::
  "('w, 'tx, 'n) srv_env \<Rightarrow> Uuid \<Rightarrow> device_id \<Rightarrow> string \<Rightarrow> SendRequest \<Rightarrow> ('w, 'tx, 'n, unit) act" where
  "handle_send_message E sender_id sender_device_id sender_username q = do {
     length_ok \<leftarrow> validate_message_length E sender_id (sq_content q);
     (if \<not> length_ok then State_Monad.return ()
      else do {
        conv \<leftarrow> resolve_conversation E sender_id (sq_conversation_id q) (sq_to_user_id q);
        (case conv of
           None \<Rightarrow> State_Monad.return ()
         | Some conv_id \<Rightarrow> do {
             security \<leftarrow> validate_conversation_security E sender_id conv_id (sq_channel_id q);
             (case security of
                None \<Rightarrow> State_Monad.return ()
              | Some (conv_security, conv_kind, resolved_channel_id) \<Rightarrow> do {
                  passed \<leftarrow> gates E sender_id conv_id conv_security conv_kind q;
                  (if \<not> passed then State_Monad.return ()
                   else store_and_fan_out E sender_id sender_device_id sender_username conv_id conv_security conv_kind
                     resolved_channel_id q)
                })
           })
      })
   }"

end
