(* ===== verification/Srv_Reference.thy ===== *)
theory Srv_Reference
  imports Srv_Send "HOL-Library.Code_Target_Nat"
begin

text \<open>
  A concrete environment and a small database on which the handlers are evaluated: queues that
  accept everything and log it in the world, statements that succeed, a JSON text that shows the
  content of a frame, identifiers written in unary, a decoder that repeats bytes.
\<close>

definition ref_json :: "unit ServerMessage \<Rightarrow> string option" where
  "ref_json m = (case m of
     NewMessage f _ \<Rightarrow> Some (''{\"new\":\"'' @ nm_content f @ ''\"}'')
   | SelfMessage _ _ _ _ c _ _ \<Rightarrow> Some (''{\"self\":\"'' @ c @ ''\"}'')
   | Error e \<Rightarrow> Some (''{\"error\":\"'' @ e @ ''\"}'')
   | _ \<Rightarrow> Some ''{}'')"

definition ref_srv :: "((nat \<times> WsMessage) list \<times> nat, nat, unit) srv_env" where
  "ref_srv =
     \<lparr>sv_ws = \<lparr>we_try_send = \<lambda>w tx m. ((fst w @ [(tx, m)], snd w), SendOk), we_instant_now = \<lambda>w. (w, 0)\<rparr>,
      sv_db = \<lambda>w. (w, DbOk), sv_gen_random_uuid = \<lambda>w. ((fst w, Suc (snd w)), of_nat (4 + snd w)),
      sv_utc_now = \<lambda>w. (w, 0), sv_to_json = ref_json, sv_string_to_json = \<lambda>s. Some (''\"'' @ s @ ''\"''),
      sv_value_to_json = \<lambda>_. Some ''{}'', sv_from_json = \<lambda>_. None, sv_uuid_parse = \<lambda>s. Some (of_nat (length s)),
      sv_uuid_to_string = \<lambda>u. replicate (unat u) (CHR ''x''), sv_i32_parse = \<lambda>s. Some (of_nat (length s)),
      sv_base64_decode = \<lambda>s. Some (concat (map (replicate 14) (string_bytes s))), sv_to_lowercase = \<lambda>s. s,
      sv_is_alphanumeric = \<lambda>c. 97 \<le> c \<and> c \<le> 122,
      sv_numbers = \<lparr>nl_as_f64 = \<lambda>_. None, nl_as_i64 = \<lambda>_. None\<rparr>, sv_sql_lower = \<lambda>s. s, sv_rfc3339_secs = \<lambda>_. [],
      sv_random_token = \<lambda>w. ((fst w, Suc (snd w)), replicate (snd w) (CHR ''t'')), sv_num = \<lambda>_. (),
      sv_datetime_text = \<lambda>_. [], sv_rfc3339 = \<lambda>_. [], sv_ilike_eq = (=), sv_ts_match = (=), sv_sha256 = \<lambda>b. b, sv_prims = ref_prims,
      sv_base64_encode = \<lambda>b. map (\<lambda>x. char_of (unat x)) b, sv_hash_password = \<lambda>w pw. (w, Some pw),
      sv_verify_password = \<lambda>pw h. Some (pw = h),
      sv_jwt_encode = \<lambda>(sub, _). Some sub, sv_jwt_decode = \<lambda>now t. Some (t, 0, 0, [], []),
      sv_registration_open = True, sv_bootstrap_admin = None, sv_cors_origins = None, sv_jsonb_text = \<lambda>_. [], sv_canvas_validation_mode = None\<rparr>"

text \<open>Users 1, 2 and 3 in a group (7) with a text channel (9), each online with a device; 3 has blocked 1.\<close>

definition ref_pool :: "bool \<Rightarrow> unit Pool" where
  "ref_pool encrypted =
     \<lparr>tb_users = map (\<lambda>u. \<lparr>us_id = u, us_username = ''u'', us_read_receipts_enabled = True, us_presence_status = ''online'',
        us_display_name = None, us_avatar_url = None, us_status_text = None, us_password_hash = [], us_is_admin = False, us_identity_key_fingerprint = None\<rparr>) [1, 2, 3],
      tb_conversations = [\<lparr>cv_id = 7, cv_kind = ''group'', cv_is_encrypted = encrypted, cv_disappearing_ttl_seconds = None,
        cv_title = None, cv_description = None, cv_is_public = False, cv_key_version = 1, cv_member_count = 3, cv_icon_url = None, cv_created_at = 0\<rparr>],
      tb_members = map (\<lambda>u. \<lparr>mb_conversation_id = 7, mb_user_id = u, mb_is_removed = False,
        mb_role = if u = 1 then ''owner'' else ''member'', mb_joined_at = 0, mb_is_muted = False\<rparr>) [1, 2, 3],
      tb_direct = [], tb_contacts = [], tb_blocked = [((3, 1), 0)], tb_messages = [], tb_device_contents = [], tb_deliveries = [],
      tb_mentions = [],
      tb_channels = [\<lparr>ch_id = 9, ch_conversation_id = 7, ch_kind = ''text'', ch_position = 0, ch_created_at = 0, ch_deleted = False\<rparr>],
      tb_voice_sessions = [], tb_identity_keys = [], tb_signed_prekeys = [], tb_one_time_prekeys = [], tb_read_receipts = [], tb_canvas = [],
      tb_banned = [], tb_invites = [], tb_group_keys = [], tb_envelopes = [], tb_rotations = [],
      tb_refresh_tokens = [], tb_reset_tokens = [], tb_reactions = [], tb_polls = [],
      tb_poll_votes = [], tb_thread_reads = [], tb_pinned_conversations = []\<rparr>"

definition ref_state :: "unit Pool \<Rightarrow> ((nat \<times> WsMessage) list \<times> nat, nat, unit) AppState" where
  "ref_state p =
     \<lparr>st_world = ([], 0), st_hub = register 3 1 31 (register 2 1 21 (register 1 1 11 Hub_new)), st_pool = p,
      st_membership_cache = [], st_member_ids_cache = [], st_conv_kind_cache = [], st_canvas_authority = CanvasAuthority_new,
      st_pushes = [], st_message_rate = 0, st_min_iat = [], st_ticket_store = [], st_failed_logins = 0\<rparr>"

definition ref_request :: "string \<Rightarrow> RecipientDeviceContents option \<Rightarrow> SendRequest" where
  "ref_request content rdc =
     \<lparr>sq_conversation_id = Some 7, sq_channel_id = None, sq_to_user_id = None, sq_content = content, sq_reply_to_id = None,
      sq_recipient_device_contents = rdc, sq_ttl_seconds = None, sq_client_message_id = Some 50, sq_thread_root_id = None\<rparr>"

definition ref_row :: "Uuid \<Rightarrow> Uuid option \<Rightarrow> MessageRow" where
  "ref_row mid thr =
     \<lparr>ms_id = mid, ms_conversation_id = 7, ms_channel_id = Some 9, ms_sender_id = 1, ms_sender_device_id = Some 1,
      ms_content = ''hello'', ms_created_at = 0, ms_delivered = False, ms_reply_to_id = None, ms_expires_at = None,
      ms_thread_root_id = thr, ms_edited_at = None, ms_pinned_by_id = None, ms_pinned_at = None, ms_deleted = False\<rparr>"

end
