(* ===== verification/Srv_Canvas.thy ===== *)
theory Srv_Canvas
  imports Srv_Caches Srv_Reference
begin

text \<open>
  \<open>db/canvas.rs\<close> and \<open>ws/events/canvas.rs\<close>: the persisted board of a voice channel and the handler
  of canvas events. The JSON text of a member (\<open>->>\<close> of PostgreSQL) is its string, or the text
  that the database prints for another value.
\<close>

section \<open>\<open>db/canvas.rs\<close>\<close>

definition MAX_STROKES :: nat where "MAX_STROKES = 2000"
definition MAX_IMAGES :: nat where "MAX_IMAGES = 2000"

datatype CanvasCapError = CapReached | Db sqlx_error

definition arrow_text :: "('w, 'tx, 'n) srv_env \<Rightarrow> 'n json \<Rightarrow> string \<Rightarrow> string option" where
  "arrow_text E v k =
     (case json_get v k of
        None \<Rightarrow> None
      | Some JNull \<Rightarrow> None
      | Some (JString s) \<Rightarrow> Some s
      | Some x \<Rightarrow> Some (sv_jsonb_text E x))"

text \<open>\<open>a = b\<close> of SQL is not true when one side is \<open>NULL\<close>, and neither is \<open>a != b\<close>.\<close>

definition sql_eq :: "'a option \<Rightarrow> 'a option \<Rightarrow> bool" where
  "sql_eq a b \<longleftrightarrow> a \<noteq> None \<and> a = b"

definition sql_neq :: "'a option \<Rightarrow> 'a option \<Rightarrow> bool" where
  "sql_neq a b \<longleftrightarrow> a \<noteq> None \<and> b \<noteq> None \<and> a \<noteq> b"

definition append_if_new :: "('w, 'tx, 'n) srv_env \<Rightarrow> 'n json \<Rightarrow> 'n json list \<Rightarrow> 'n json list" where
  "append_if_new E x xs =
     (if list_ex (\<lambda>s. sql_eq (arrow_text E s ''id'') (arrow_text E x ''id'')) xs then xs else xs @ [x])"

definition board :: "'n Pool \<Rightarrow> Uuid \<Rightarrow> 'n CanvasRow" where
  "board p channel_id =
     (case hm_get (tb_canvas p) channel_id of Some r \<Rightarrow> r | None \<Rightarrow> \<lparr>ca_drawing_data = [], ca_images_data = []\<rparr>)"

definition get_canvas :: "('w, 'tx, 'n) srv_env \<Rightarrow> Uuid \<Rightarrow> ('w, 'tx, 'n, sqlx_error + 'n CanvasRow) act" where
  "get_canvas E channel_id = select E (\<lambda>p. board p channel_id)"

definition put_board :: "Uuid \<Rightarrow> 'n CanvasRow \<Rightarrow> 'n Pool \<Rightarrow> 'n Pool" where
  "put_board channel_id row p = p\<lparr>tb_canvas := hm_insert channel_id row (tb_canvas p)\<rparr>"

text \<open>\<open>From<sqlx::Error>\<close>, applied by \<open>?\<close>.\<close>

definition db_err :: "('w, 'tx, 'n, sqlx_error + 'a) act \<Rightarrow> ('w, 'tx, 'n, CanvasCapError + 'a) act" where
  "db_err m = do { r \<leftarrow> m; State_Monad.return (case r of Inl e \<Rightarrow> Inl (Db e) | Inr x \<Rightarrow> Inr x) }"

definition append_stroke :: "('w, 'tx, 'n) srv_env \<Rightarrow> Uuid \<Rightarrow> 'n json \<Rightarrow> ('w, 'tx, 'n, CanvasCapError + unit) act" where
  "append_stroke E channel_id stroke =
     bind_ok (db_err (select E (\<lambda>p. map_option (\<lambda>r. length (ca_drawing_data r)) (hm_get (tb_canvas p) channel_id)))) (\<lambda>current_len.
       if MAX_STROKES \<le> (case current_len of Some n \<Rightarrow> n | None \<Rightarrow> 0) then State_Monad.return (Inl CapReached)
       else db_err (execute E (\<lambda>p. let r = board p channel_id in
         put_board channel_id (r\<lparr>ca_drawing_data := append_if_new E stroke (ca_drawing_data r)\<rparr>) p)))"

definition clear_drawing :: "('w, 'tx, 'n) srv_env \<Rightarrow> Uuid \<Rightarrow> ('w, 'tx, 'n, sqlx_error + unit) act" where
  "clear_drawing E channel_id = execute E (\<lambda>p. put_board channel_id ((board p channel_id)\<lparr>ca_drawing_data := []\<rparr>) p)"

definition clear_all :: "('w, 'tx, 'n) srv_env \<Rightarrow> Uuid \<Rightarrow> ('w, 'tx, 'n, sqlx_error + unit) act" where
  "clear_all E channel_id = execute E (put_board channel_id \<lparr>ca_drawing_data = [], ca_images_data = []\<rparr>)"

definition add_image :: "('w, 'tx, 'n) srv_env \<Rightarrow> Uuid \<Rightarrow> 'n json \<Rightarrow> ('w, 'tx, 'n, CanvasCapError + unit) act" where
  "add_image E channel_id img =
     bind_ok (db_err (select E (\<lambda>p. map_option (\<lambda>r. length (ca_images_data r)) (hm_get (tb_canvas p) channel_id)))) (\<lambda>current_len.
       if MAX_IMAGES \<le> (case current_len of Some n \<Rightarrow> n | None \<Rightarrow> 0) then State_Monad.return (Inl CapReached)
       else db_err (execute E (\<lambda>p. let r = board p channel_id in
         put_board channel_id (r\<lparr>ca_images_data := append_if_new E img (ca_images_data r)\<rparr>) p)))"

text \<open>The two \<open>UPDATE\<close> statements change an existing row only.\<close>

definition update_images :: "Uuid \<Rightarrow> ('n json list \<Rightarrow> 'n json list) \<Rightarrow> 'n Pool \<Rightarrow> 'n Pool" where
  "update_images channel_id f p =
     (case hm_get (tb_canvas p) channel_id of
        None \<Rightarrow> p
      | Some r \<Rightarrow> put_board channel_id (r\<lparr>ca_images_data := f (ca_images_data r)\<rparr>) p)"

definition update_image :: "('w, 'tx, 'n) srv_env \<Rightarrow> Uuid \<Rightarrow> 'n json \<Rightarrow> ('w, 'tx, 'n, sqlx_error + unit) act" where
  "update_image E channel_id updated = execute E (update_images channel_id
     (map (\<lambda>img. if sql_eq (arrow_text E img ''id'') (arrow_text E updated ''id'') then updated else img)))"

definition remove_image :: "('w, 'tx, 'n) srv_env \<Rightarrow> Uuid \<Rightarrow> string \<Rightarrow> ('w, 'tx, 'n, sqlx_error + unit) act" where
  "remove_image E channel_id image_id = execute E (update_images channel_id
     (filter (\<lambda>img. sql_neq (arrow_text E img ''id'') (Some image_id))))"

section \<open>\<open>events/canvas.rs\<close>\<close>

datatype ValidationMode = Off | LogOnly | Enforce

definition trim_chars :: "string \<Rightarrow> int list" where
  "trim_chars s = rev (dropWhile is_whitespace (rev (dropWhile is_whitespace (chars s))))"

definition to_ascii_lowercase :: "int list \<Rightarrow> int list" where
  "to_ascii_lowercase = map (\<lambda>c. if 65 \<le> c \<and> c \<le> 90 then c + 32 else c)"

definition from_env_str :: "string option \<Rightarrow> ValidationMode" where
  "from_env_str raw =
     (case map_option (\<lambda>s. to_ascii_lowercase (trim_chars s)) raw of
        None \<Rightarrow> LogOnly
      | Some m \<Rightarrow> if m = chars ''off'' then Off else if m = chars ''enforce'' then Enforce else LogOnly)"

definition validation_mode :: "('w, 'tx, 'n) srv_env \<Rightarrow> ValidationMode" where
  "validation_mode E = from_env_str (sv_canvas_validation_mode E)"

definition apply_validation :: "('w, 'tx, 'n) srv_env \<Rightarrow> Uuid \<Rightarrow> string \<Rightarrow> 'n json \<Rightarrow> ('w, 'tx, 'n, bool) act" where
  "apply_validation E sender_id kind payload =
     (if validation_mode E = Off then State_Monad.return True
      else case validate (sv_numbers E) kind payload of
        Inr _ \<Rightarrow> State_Monad.return True
      | Inl code \<Rightarrow>
          if validation_mode E = Enforce then do { emit_error E sender_id code; State_Monad.return False }
          else State_Monad.return True)"

definition persist_canvas_state ::
  "('w, 'tx, 'n) srv_env \<Rightarrow> Uuid \<Rightarrow> Uuid \<Rightarrow> string \<Rightarrow> 'n json \<Rightarrow> ('w, 'tx, 'n, bool) act" where
  "persist_canvas_state E sender_id channel_id kind payload =
     (if kind = ''stroke'' then do {
        r \<leftarrow> append_stroke E channel_id payload;
        (if r = Inl CapReached
         then do { emit_error E sender_id ''Canvas stroke limit reached''; State_Monad.return False }
         else State_Monad.return True)
      }
      else if kind = ''clear'' then do { clear_all E channel_id; State_Monad.return True }
      else if kind = ''image_add'' then do {
        r \<leftarrow> add_image E channel_id payload;
        (if r = Inl CapReached
         then do { emit_error E sender_id ''Canvas image limit reached''; State_Monad.return False }
         else State_Monad.return True)
      }
      else if kind = ''image_move'' then do { update_image E channel_id payload; State_Monad.return True }
      else if kind = ''image_remove'' then
        (case Option.bind (json_get payload ''id'') as_str of
           None \<Rightarrow> do { emit_error E sender_id ''image_remove requires an 'id' field''; State_Monad.return False }
         | Some image_id \<Rightarrow> do { remove_image E channel_id image_id; State_Monad.return True })
      else State_Monad.return True)"

definition verify_membership :: "('w, 'tx, 'n) srv_env \<Rightarrow> Uuid \<Rightarrow> Uuid \<Rightarrow> ('w, 'tx, 'n, bool) act" where
  "verify_membership E sender_id conversation_id = do {
     r \<leftarrow> is_member E conversation_id sender_id;
     (case r of
        Inr m \<Rightarrow> if m then State_Monad.return True
                 else do { emit_error E sender_id ''Not a member of this conversation''; State_Monad.return False }
      | Inl _ \<Rightarrow> do { emit_error E sender_id ''Database error''; State_Monad.return False })
   }"

definition lookup_voice_channel :: "('w, 'tx, 'n) srv_env \<Rightarrow> Uuid \<Rightarrow> Uuid \<Rightarrow> ('w, 'tx, 'n, Uuid option) act" where
  "lookup_voice_channel E sender_id channel_id = do {
     r \<leftarrow> get_channel E channel_id;
     (case r of
        Inr None \<Rightarrow> do { emit_error E sender_id ''Channel not found''; State_Monad.return None }
      | Inl _ \<Rightarrow> do { emit_error E sender_id ''Database error''; State_Monad.return None }
      | Inr (Some channel) \<Rightarrow>
          if ch_kind channel \<noteq> ''voice''
          then do { emit_error E sender_id ''Canvas events are only valid for voice channels''; State_Monad.return None }
          else State_Monad.return (Some (ch_conversation_id channel)))
   }"

definition VALID_KINDS :: "string list" where
  "VALID_KINDS = [''stroke'', ''stroke_partial'', ''clear'', ''image_add'', ''image_move'', ''image_remove'',
     ''avatar_move'', ''screenshare_move'', ''canvas_authority_claim'']"

definition broadcast_authority_changed ::
  "('w, 'tx, 'n) srv_env \<Rightarrow> Uuid \<Rightarrow> device_id \<Rightarrow> Uuid \<Rightarrow> Uuid \<Rightarrow> ('w, 'tx, 'n, unit) act" where
  "broadcast_authority_changed E user_id device_id channel_id conversation_id = do {
     r \<leftarrow> get_member_ids_cached E conversation_id;
     (case r of
        Inl _ \<Rightarrow> State_Monad.return ()
      | Inr member_ids \<Rightarrow> broadcast_message E member_ids (CanvasAuthorityChanged channel_id user_id device_id) None)
   }"

definition on_authority :: "(CanvasAuthority \<Rightarrow> CanvasAuthority \<times> 'a) \<Rightarrow> ('w, 'tx, 'n, 'a) act" where
  "on_authority f = do {
     r \<leftarrow> gets (\<lambda>s. f (st_canvas_authority s));
     modify (\<lambda>s. s\<lparr>st_canvas_authority := fst r\<rparr>);
     State_Monad.return (snd r)
   }"

definition gate_authority ::
  "('w, 'tx, 'n) srv_env \<Rightarrow> Uuid \<Rightarrow> device_id \<Rightarrow> Uuid \<Rightarrow> Uuid \<Rightarrow> ('w, 'tx, 'n, bool) act" where
  "gate_authority E sender_id sender_device_id channel_id conversation_id = do {
     cur \<leftarrow> gets (\<lambda>s. current (st_canvas_authority s) sender_id channel_id);
     (case cur of
        Some holder \<Rightarrow> State_Monad.return (holder = sender_device_id)
      | None \<Rightarrow> do {
          now \<leftarrow> instant_now E;
          claimed \<leftarrow> on_authority (claim_if_absent now sender_id channel_id sender_device_id);
          (if claimed
           then do {
             broadcast_authority_changed E sender_id sender_device_id channel_id conversation_id;
             State_Monad.return True
           }
           else State_Monad.return False)
        })
   }"

definition handle_authority_claim ::
  "('w, 'tx, 'n) srv_env \<Rightarrow> Uuid \<Rightarrow> device_id \<Rightarrow> Uuid \<Rightarrow> Uuid \<Rightarrow> ('w, 'tx, 'n, unit) act" where
  "handle_authority_claim E sender_id sender_device_id channel_id conversation_id = do {
     now \<leftarrow> instant_now E;
     claimed \<leftarrow> on_authority (claim now sender_id channel_id sender_device_id);
     (if claimed then broadcast_authority_changed E sender_id sender_device_id channel_id conversation_id
      else State_Monad.return ())
   }"

text \<open>What follows the validation of an event.\<close>

definition write_canvas_event ::
  "('w, 'tx, 'n) srv_env \<Rightarrow> Uuid \<Rightarrow> device_id \<Rightarrow> Uuid \<Rightarrow> string \<Rightarrow> 'n json \<Rightarrow> Uuid \<Rightarrow> ('w, 'tx, 'n, unit) act" where
  "write_canvas_event E sender_id sender_device_id channel_id kind payload conversation_id = do {
     granted \<leftarrow> gate_authority E sender_id sender_device_id channel_id conversation_id;
     (if \<not> granted then State_Monad.return ()
      else do {
        persisted \<leftarrow> persist_canvas_state E sender_id channel_id kind payload;
        (if \<not> persisted then State_Monad.return ()
         else do {
           r \<leftarrow> get_member_ids_cached E conversation_id;
           (case r of
              Inl _ \<Rightarrow> State_Monad.return ()
            | Inr member_ids \<Rightarrow>
                broadcast_message E member_ids (CanvasEvent channel_id sender_id kind payload) (Some sender_id))
         })
      })
   }"

definition handle_canvas_event ::
  "('w, 'tx, 'n) srv_env \<Rightarrow> Uuid \<Rightarrow> device_id \<Rightarrow> Uuid \<Rightarrow> string \<Rightarrow> 'n json \<Rightarrow> ('w, 'tx, 'n, unit) act" where
  "handle_canvas_event E sender_id sender_device_id channel_id kind payload =
     (if kind \<notin> set VALID_KINDS then emit_error E sender_id ''Invalid canvas event kind''
      else do {
        conv \<leftarrow> lookup_voice_channel E sender_id channel_id;
        (case conv of
           None \<Rightarrow> State_Monad.return ()
         | Some conversation_id \<Rightarrow> do {
             member \<leftarrow> verify_membership E sender_id conversation_id;
             (if \<not> member then State_Monad.return ()
              else do {
                valid \<leftarrow> apply_validation E sender_id kind payload;
                (if \<not> valid then State_Monad.return ()
                 else if kind = ''canvas_authority_claim''
                 then handle_authority_claim E sender_id sender_device_id channel_id conversation_id
                 else write_canvas_event E sender_id sender_device_id channel_id kind payload conversation_id)
              })
           })
      })"

section \<open>The size of a board\<close>

definition board_capped :: "'n Pool \<Rightarrow> bool" where
  "board_capped p \<longleftrightarrow> (\<forall>c r. hm_get (tb_canvas p) c = Some r \<longrightarrow>
     length (ca_drawing_data r) \<le> MAX_STROKES \<and> length (ca_images_data r) \<le> MAX_IMAGES)"

lemma board_cappedD:
  "board_capped p \<Longrightarrow> length (ca_drawing_data (board p c)) \<le> MAX_STROKES \<and> length (ca_images_data (board p c)) \<le> MAX_IMAGES"
  by (auto simp: board_capped_def board_def split: option.split)

lemma board_capped_row:
  "hm_get (tb_canvas p) c = Some r \<Longrightarrow> board_capped p
    \<Longrightarrow> length (ca_drawing_data r) \<le> MAX_STROKES \<and> length (ca_images_data r) \<le> MAX_IMAGES"
  by (auto simp: board_capped_def)

lemma board_capped_put:
  "board_capped p \<Longrightarrow> length (ca_drawing_data r) \<le> MAX_STROKES \<Longrightarrow> length (ca_images_data r) \<le> MAX_IMAGES
    \<Longrightarrow> board_capped (put_board c r p)"
  by (auto simp: board_capped_def put_board_def hm.get_put)

lemma board_capped_update:
  "board_capped p \<Longrightarrow> (\<And>xs. length (f xs) \<le> length xs) \<Longrightarrow> board_capped (update_images c f p)"
  by (auto simp: update_images_def board_capped_def put_board_def hm.get_put split: option.split intro: order_trans)

lemma append_if_new_length: "length xs < n \<Longrightarrow> length (append_if_new E x xs) \<le> n"
  by (simp add: append_if_new_def)

lemma row_length:
  "(case map_option (\<lambda>r. length (f r)) (hm_get (tb_canvas p) c) of Some n \<Rightarrow> n | None \<Rightarrow> 0) =
   (case hm_get (tb_canvas p) c of Some r \<Rightarrow> length (f r) | None \<Rightarrow> 0)"
  by (simp split: option.split)

lemma wp_db_err [wp_simps]: "wp (db_err m) Q = wp m (\<lambda>r. Q (case r of Inl e \<Rightarrow> Inl (Db e) | Inr x \<Rightarrow> Inr x))"
  by (simp add: db_err_def wp_simps)

lemma keeps_db_err [keeps_intros]: "keeps I m \<Longrightarrow> keeps I (db_err m)"
  unfolding db_err_def by (intro keeps_intros)

lemma keeps_capped_append_stroke [keeps_intros]: "keeps (on_pool board_capped) (append_stroke E c x)"
  unfolding keeps_wp append_stroke_def
  by (auto simp: wp_simps on_pool_def row_length Let_def board_def intro!: wp_select wp_execute board_capped_put append_if_new_length
      split: option.splits)
    (auto dest: board_capped_row)

lemma keeps_capped_add_image [keeps_intros]: "keeps (on_pool board_capped) (add_image E c x)"
  unfolding keeps_wp add_image_def
  by (auto simp: wp_simps on_pool_def row_length Let_def board_def intro!: wp_select wp_execute board_capped_put append_if_new_length
      split: option.splits)
    (auto dest: board_capped_row)

lemma keeps_capped_others [keeps_intros]:
  "keeps (on_pool board_capped) (clear_all E c)" "keeps (on_pool board_capped) (clear_drawing E c)"
  "keeps (on_pool board_capped) (update_image E c x)" "keeps (on_pool board_capped) (remove_image E c i)"
  unfolding clear_all_def clear_drawing_def update_image_def remove_image_def
  by (auto intro!: keeps_execute board_capped_put board_capped_update dest: board_cappedD [of _ c])

text \<open>The rest of the handler leaves the tables alone.\<close>

lemma keeps_on_authority [keeps_intros]: "keeps (on_pool P) (on_authority f)"
  unfolding on_authority_def by (intro keeps_intros keeps_modify) simp

lemma keeps_canvas_reads [keeps_intros]:
  "keeps (on_pool P) (apply_validation E u k v)" "keeps (on_pool P) (verify_membership E u c)"
  "keeps (on_pool P) (lookup_voice_channel E u c)" "keeps (on_pool P) (broadcast_authority_changed E u d c v')"
  "keeps (on_pool P) (gate_authority E u d c v')" "keeps (on_pool P) (handle_authority_claim E u d c v')"
  unfolding apply_validation_def verify_membership_def is_member_def lookup_voice_channel_def get_channel_def
    broadcast_authority_changed_def gate_authority_def handle_authority_claim_def instant_now_def broadcast_message_def
  by (intro keeps_intros)+

lemma keeps_capped_canvas_event: "keeps (on_pool board_capped) (handle_canvas_event E u d c k v)"
  unfolding handle_canvas_event_def write_canvas_event_def persist_canvas_state_def broadcast_message_def
  by (intro keeps_intros)

section \<open>Who may change a board\<close>

definition may_draw :: "('w, 'tx, 'n) srv_env \<Rightarrow> Uuid \<Rightarrow> device_id \<Rightarrow> Uuid \<Rightarrow> string \<Rightarrow> 'n json \<Rightarrow> ('w, 'tx, 'n) AppState \<Rightarrow> bool" where
  "may_draw E u d c k v s \<longleftrightarrow>
     (\<exists>ch. find (\<lambda>r. ch_id r = c \<and> \<not> ch_deleted r) (tb_channels (st_pool s)) = Some ch \<and> ch_kind ch = ''voice'' \<and>
        active_member (st_pool s) (ch_conversation_id ch) u) \<and>
     current (st_canvas_authority s) u c \<in> {None, Some d} \<and>
     (validation_mode E = Enforce \<longrightarrow> validate (sv_numbers E) k v = Inr ())"

definition other_boards_same :: "Uuid \<Rightarrow> 'n Pool \<Rightarrow> 'n Pool \<Rightarrow> bool" where
  "other_boards_same c p q \<longleftrightarrow> (\<forall>c'. c' \<noteq> c \<longrightarrow> hm_get (tb_canvas q) c' = hm_get (tb_canvas p) c')"

lemma other_boards_put: "other_boards_same c p q \<Longrightarrow> other_boards_same c p (put_board c r q)"
  by (simp add: other_boards_same_def put_board_def hm.get_put)

lemma other_boards_update: "other_boards_same c p q \<Longrightarrow> other_boards_same c p (update_images c f q)"
  by (simp add: update_images_def other_boards_put split: option.split)

lemma keeps_other_boards: "keeps (on_pool (other_boards_same c p)) (persist_canvas_state E u c k v)"
  unfolding persist_canvas_state_def append_stroke_def add_image_def clear_all_def update_image_def remove_image_def Let_def
  by (intro keeps_intros keeps_execute other_boards_put other_boards_update)

definition board_write :: "('w, 'tx, 'n) srv_env \<Rightarrow> Uuid \<Rightarrow> device_id \<Rightarrow> Uuid \<Rightarrow> string \<Rightarrow> 'n json
    \<Rightarrow> ('w, 'tx, 'n) AppState \<Rightarrow> ('w, 'tx, 'n) AppState \<Rightarrow> bool" where
  "board_write E u d c k v s t \<longleftrightarrow>
     tb_canvas (st_pool t) = tb_canvas (st_pool s) \<or> may_draw E u d c k v s \<and> other_boards_same c (st_pool s) (st_pool t)"

lemma board_write_same: "st_pool t = st_pool s \<Longrightarrow> board_write E u d c k v s t"
  by (simp add: board_write_def)

lemma wp_board_same:
  assumes "\<And>P. keeps (on_pool P) m" and "st_pool t = st_pool s"
  shows "wp m (\<lambda>_. board_write E u d c k v s) t"
  by (rule wp_mono [OF keepsD [OF assms(1), of "\<lambda>p. p = st_pool s"]]) (simp_all add: on_pool_def board_write_same assms(2))

lemma wp_write_canvas_event:
  assumes "same_core s t"
    and "current (st_canvas_authority s) u c \<in> {None, Some d} \<Longrightarrow> may_draw E u d c k v s"
  shows "wp (write_canvas_event E u d c k v cv) (\<lambda>_. board_write E u d c k v s) t"
proof (cases "current (st_canvas_authority s) u c \<in> {None, Some d}")
  case True
  have p: "st_pool t = st_pool s" using assms(1) by (simp add: same_core_def)
  have "keeps (on_pool (other_boards_same c (st_pool s))) (write_canvas_event E u d c k v cv)"
    unfolding write_canvas_event_def broadcast_message_def by (intro keeps_intros keeps_other_boards)
  then show ?thesis
    using assms(2) [OF True] p
    by (auto intro!: wp_mono [OF keepsD] simp: on_pool_def board_write_def other_boards_same_def)
next
  case False
  then obtain holder where h: "current (st_canvas_authority t) u c = Some holder" "holder \<noteq> d"
    using assms(1) by (auto simp: same_core_def)
  then show ?thesis
    using assms(1) by (simp add: write_canvas_event_def gate_authority_def wp_simps same_core_def board_write_same)
qed

lemma wp_validated_event:
  assumes "same_core s t"
    and "validation_mode E = Enforce \<longrightarrow> validate (sv_numbers E) k v = Inr () \<Longrightarrow>
      current (st_canvas_authority s) u c \<in> {None, Some d} \<Longrightarrow> may_draw E u d c k v s"
  shows "wp (apply_validation E u k v) (\<lambda>valid. wp (if \<not> valid then State_Monad.return ()
      else if k = ''canvas_authority_claim'' then handle_authority_claim E u d c cv
      else write_canvas_event E u d c k v cv) (\<lambda>_. board_write E u d c k v s)) t"
proof -
  have p: "st_pool t' = st_pool s" if "same_core t t'" for t' using that assms(1) by (simp add: same_core_def)
  have claim: "wp (handle_authority_claim E u d c cv) (\<lambda>_. board_write E u d c k v s) t"
    by (rule wp_board_same) (use assms(1) in \<open>simp_all add: keeps_intros same_core_def\<close>)
  show ?thesis
    using assms claim p
    by (auto simp: apply_validation_def wp_simps split: sum.split intro!: wp_emit_error_core board_write_same
        wp_write_canvas_event)
qed

lemma same_core_trans: "same_core s t \<Longrightarrow> same_core t t' \<Longrightarrow> same_core s t'"
  by (simp add: same_core_def)

lemma wp_verify_membership:
  assumes "\<And>t. same_core s t \<Longrightarrow> Q False t"
    and "\<And>t. same_core s t \<Longrightarrow> active_member (st_pool s) conv u \<Longrightarrow> Q True t"
  shows "wp (verify_membership E u conv) Q s"
  unfolding verify_membership_def is_member_def
  by (auto simp: wp_simps intro!: wp_select_core wp_emit_error_core assms elim: same_core_trans)

lemma wp_lookup_voice_channel:
  assumes "\<And>t. same_core s t \<Longrightarrow> Q None t"
    and "\<And>t ch. same_core s t \<Longrightarrow> find (\<lambda>r. ch_id r = c \<and> \<not> ch_deleted r) (tb_channels (st_pool s)) = Some ch \<Longrightarrow>
      ch_kind ch = ''voice'' \<Longrightarrow> Q (Some (ch_conversation_id ch)) t"
  shows "wp (lookup_voice_channel E u c) Q s"
  unfolding lookup_voice_channel_def get_channel_def
  by (auto simp: wp_simps split: option.split intro!: wp_select_core wp_emit_error_core assms elim: same_core_trans)

lemma wp_handle_canvas_event:
  "wp (handle_canvas_event E u d c k v) (\<lambda>_. board_write E u d c k v s) s"
proof -
  have same: "board_write E u d c k v s t" if "same_core s t" for t
    using that by (simp add: same_core_def board_write_same)
  have member: "wp (verify_membership E u (ch_conversation_id ch)) (\<lambda>member. wp (if \<not> member then State_Monad.return ()
      else do {
        valid \<leftarrow> apply_validation E u k v;
        (if \<not> valid then State_Monad.return ()
         else if k = ''canvas_authority_claim'' then handle_authority_claim E u d c (ch_conversation_id ch)
         else write_canvas_event E u d c k v (ch_conversation_id ch)) }) (\<lambda>_. board_write E u d c k v s)) t"
    if t: "same_core s t" and ch: "find (\<lambda>r. ch_id r = c \<and> \<not> ch_deleted r) (tb_channels (st_pool s)) = Some ch"
      "ch_kind ch = ''voice''" for t ch
  proof (rule wp_verify_membership)
    fix t' assume t': "same_core t t'" and m: "active_member (st_pool t) (ch_conversation_id ch) u"
    have "active_member (st_pool s) (ch_conversation_id ch) u" using m t by (simp add: same_core_def)
    then show "wp (if \<not> True then State_Monad.return () else do {
        valid \<leftarrow> apply_validation E u k v;
        (if \<not> valid then State_Monad.return ()
         else if k = ''canvas_authority_claim'' then handle_authority_claim E u d c (ch_conversation_id ch)
         else write_canvas_event E u d c k v (ch_conversation_id ch)) }) (\<lambda>_. board_write E u d c k v s) t'"
      using ch same_core_trans [OF t t']
      by (simp only: not_True_eq_False if_False wp_bind, intro wp_validated_event) (auto simp: may_draw_def)
  qed (use same same_core_trans [OF t] in \<open>simp add: wp_simps\<close>)
  show ?thesis
  proof (cases "k \<in> set VALID_KINDS")
    case True
    have "wp (lookup_voice_channel E u c) (\<lambda>conv. wp (case conv of None \<Rightarrow> State_Monad.return ()
       | Some conversation_id \<Rightarrow> do {
           member \<leftarrow> verify_membership E u conversation_id;
           (if \<not> member then State_Monad.return ()
            else do {
              valid \<leftarrow> apply_validation E u k v;
              (if \<not> valid then State_Monad.return ()
               else if k = ''canvas_authority_claim'' then handle_authority_claim E u d c conversation_id
               else write_canvas_event E u d c k v conversation_id) }) }) (\<lambda>_. board_write E u d c k v s)) s"
      by (rule wp_lookup_voice_channel) (use same member in \<open>simp_all add: wp_bind wp_return\<close>)
    then show ?thesis using True by (simp add: handle_canvas_event_def wp_bind)
  next
    case False
    then show ?thesis by (auto simp: handle_canvas_event_def intro!: wp_emit_error_core same)
  qed
qed

section \<open>Properties\<close>

text \<open>
  C22: whatever the database and the queues do, a canvas event changes at most the board of its
  channel, and only if the channel is an existing voice channel of a conversation that the sender
  is a current member of, no other device of the sender holds the authority over that canvas, and
  (in the mode \<open>enforce\<close>) the payload passes the schema.
\<close>

theorem canvas_write_authorised:
  "board_write E u d c k v s (snd (run_state (handle_canvas_event E u d c k v) s))"
  using wp_handle_canvas_event [of E u d c k v s] by (simp add: wp_def split: prod.splits)

text \<open>
  removing one image also removes the images without an \<open>id\<close>: the comparison with \<open>NULL\<close> in
  \<open>WHERE img->>'id' != $2\<close> is not true. Such images exist while the validation only logs.
\<close>

theorem remove_image_drops_unidentified:
  "let img = JObject [(''url'', JString ''/a'')];
       p = (ref_pool False)\<lparr>tb_canvas := [(8, \<lparr>ca_drawing_data = [], ca_images_data = [img]\<rparr>)]\<rparr>;
       s' = snd (run_state (remove_image ref_srv 8 ''x'') (ref_state p))
   in validation_mode ref_srv = LogOnly \<and> ca_images_data (board (st_pool s') 8) = []"
  by code_simp

end
