(* ===== verification/Srv_Replay.thy ===== *)
theory Srv_Replay
  imports Srv_Reference "HOL-Library.Multiset"
begin

text \<open>
  \<open>ws/message_service/replay.rs\<close>: what a reconnecting device is sent, page by page, and the
  ledger entries that keep it from being sent twice.
\<close>

section \<open>The model\<close>

definition MAX_ITERATIONS :: nat where "MAX_ITERATIONS = 50"

definition classify_replay_content ::
  "Uuid \<Rightarrow> string \<Rightarrow> (Uuid, string) hmap \<Rightarrow> Uuid list \<Rightarrow> string \<times> bool option" where
  "classify_replay_content msg_id canonical_content device_ct_map has_any_device_row =
     (case hm_get device_ct_map msg_id of
        Some c \<Rightarrow> (c, None)
      | None \<Rightarrow> if msg_id \<in> set has_any_device_row then ([], Some True) else (canonical_content, None))"

definition replay_message :: "MessageWithSender \<Rightarrow> string \<times> bool option \<Rightarrow> 'n ServerMessage" where
  "replay_message msg content =
     NewMessage \<lparr>nm_message_id = mw_id msg, nm_from_user_id = mw_sender_id msg, nm_from_device_id = mw_sender_device_id msg,
       nm_from_username = mw_sender_username msg, nm_conversation_id = mw_conversation_id msg,
       nm_channel_id = mw_channel_id msg, nm_content = fst content, nm_timestamp = mw_created_at msg,
       nm_reply_to_id = mw_reply_to_id msg, nm_reply_to_content = mw_reply_to_content msg,
       nm_reply_to_username = mw_reply_to_username msg, nm_thread_root_id = mw_thread_root_id msg,
       nm_expires_at = None\<rparr> (snd content)"

text \<open>
  The loop over a page: the messages whose frame was accepted, and those of them that were not
  only placeholders.
\<close>

fun replay_each ::
  "('w, 'tx, 'n) srv_env \<Rightarrow> Uuid \<Rightarrow> device_id \<Rightarrow> (Uuid, string) hmap \<Rightarrow> Uuid list \<Rightarrow> MessageWithSender list
     \<Rightarrow> ('w, 'tx, 'n, Uuid list \<times> MessageWithSender list) act" where
  "replay_each E user_id device_id device_ct_map has_any_device_row [] = State_Monad.return ([], [])"
| "replay_each E user_id device_id device_ct_map has_any_device_row (msg # msgs) =
     (let content = classify_replay_content (mw_id msg) (mw_content msg) device_ct_map has_any_device_row in
      case sv_to_json E (replay_message msg content) of
        None \<Rightarrow> replay_each E user_id device_id device_ct_map has_any_device_row msgs
      | Some json \<Rightarrow> do {
          enqueued \<leftarrow> hub_send_to_device E user_id device_id (ws_text json);
          rest \<leftarrow> replay_each E user_id device_id device_ct_map has_any_device_row msgs;
          State_Monad.return (if \<not> enqueued then rest
            else (mw_id msg # fst rest, if snd content = Some True then snd rest else msg # snd rest))
        })"

definition notify_original_senders :: "('w, 'tx, 'n) srv_env \<Rightarrow> MessageWithSender list \<Rightarrow> ('w, 'tx, 'n, unit) act" where
  "notify_original_senders E delivered_msgs = for_each (\<lambda>msg.
     case sv_to_json E (Delivered (mw_id msg) (mw_conversation_id msg)) of
       Some json \<Rightarrow> do { hub_send_to E (mw_sender_id msg) (ws_text json); State_Monad.return () }
     | None \<Rightarrow> State_Monad.return ()) delivered_msgs"

definition deliver_one_batch ::
  "('w, 'tx, 'n) srv_env \<Rightarrow> Uuid \<Rightarrow> device_id \<Rightarrow> MessageWithSender list \<Rightarrow> ('w, 'tx, 'n, unit) act" where
  "deliver_one_batch E user_id device_id undelivered = do {
     ct \<leftarrow> get_device_contents_batch E (map mw_id undelivered) user_id device_id;
     any \<leftarrow> message_ids_with_any_device_content E (map mw_id undelivered) user_id;
     outcome \<leftarrow> replay_each E user_id device_id (unwrap_or [] ct) (unwrap_or [] any) undelivered;
     mark_device_delivered_batch E (fst outcome) user_id device_id;
     (if snd outcome = [] then State_Monad.return ()
      else do {
        mark_delivered E (map mw_id (snd outcome));
        notify_original_senders E (snd outcome)
      })
   }"

fun replay_pages ::
  "('w, 'tx, 'n) srv_env \<Rightarrow> Uuid \<Rightarrow> device_id \<Rightarrow> nat \<Rightarrow> (datetime \<times> Uuid) option \<Rightarrow> ('w, 'tx, 'n, unit) act" where
  "replay_pages E user_id device_id 0 cur = State_Monad.return ()"
| "replay_pages E user_id device_id (Suc n) cur = do {
     r \<leftarrow> get_undelivered E user_id device_id cur;
     (case r of
        Inl _ \<Rightarrow> State_Monad.return ()
      | Inr batch \<Rightarrow>
          if batch = [] then State_Monad.return ()
          else do {
            deliver_one_batch E user_id device_id batch;
            (if length batch \<noteq> UNDELIVERED_PAGE_SIZE then State_Monad.return ()
             else replay_pages E user_id device_id n
                    (Some (mw_created_at (last batch), mw_id (last batch))))
          })
   }"

definition deliver_undelivered_messages :: "('w, 'tx, 'n) srv_env \<Rightarrow> Uuid \<Rightarrow> device_id \<Rightarrow> ('w, 'tx, 'n, unit) act" where
  "deliver_undelivered_messages E user_id device_id = replay_pages E user_id device_id MAX_ITERATIONS None"

section \<open>A healthy environment\<close>

text \<open>Statements succeed, queues accept, and frames have a JSON text.\<close>

definition healthy :: "('w, 'tx, 'n) srv_env \<Rightarrow> bool" where
  "healthy E \<longleftrightarrow> (\<forall>w. snd (sv_db E w) = DbOk) \<and> (\<forall>w tx msg. snd (we_try_send (sv_ws E) w tx msg) = SendOk) \<and>
     (\<forall>msg. sv_to_json E msg \<noteq> None)"

definition same_connections :: "('w, 'tx, 'n) AppState \<Rightarrow> ('w, 'tx, 'n) AppState \<Rightarrow> bool" where
  "same_connections s t \<longleftrightarrow> hub_connections (st_hub t) = hub_connections (st_hub s)"

lemma same_connections_refl [simp]: "same_connections s s"
  by (simp add: same_connections_def)

lemma same_connections_trans: "same_connections s t \<Longrightarrow> same_connections t v \<Longrightarrow> same_connections s v"
  by (simp add: same_connections_def)

lemma wp_query_healthy:
  assumes "healthy E"
    and "\<And>t. st_pool t = fst (f (st_pool s)) \<Longrightarrow> same_connections s t \<Longrightarrow> Q (snd (f (st_pool s))) t"
  shows "wp (query E f) Q s"
proof -
  obtain w out where w: "sv_db E (st_world s) = (w, out)" by fastforce
  then have "out = DbOk" using assms(1) by (metis healthy_def snd_conv)
  then show ?thesis using w assms(2) by (simp add: query_def wp_simps same_connections_def)
qed

lemma try_send_tracked_healthy:
  assumes "healthy E"
  shows "snd (try_send_tracked (sv_ws E) u d tx msg s)"
    "hub_connections (snd (fst (try_send_tracked (sv_ws E) u d tx msg s))) = hub_connections (snd s)"
proof -
  obtain w h where s: "s = (w, h)" by fastforce
  obtain w1 r where r: "we_try_send (sv_ws E) w tx msg = (w1, r)" by fastforce
  then have "r = SendOk" using assms by (metis healthy_def snd_conv)
  then show "snd (try_send_tracked (sv_ws E) u d tx msg s)"
    "hub_connections (snd (fst (try_send_tracked (sv_ws E) u d tx msg s))) = hub_connections (snd s)"
    using s r by (simp_all add: try_send_tracked_def)
qed

lemma send_each_healthy:
  "healthy E \<Longrightarrow> hub_connections (snd (fst (send_each (sv_ws E) u msg ds s))) = hub_connections (snd s)"
proof (induction ds arbitrary: s)
  case (Cons p ds)
  then show ?case
    by (cases p) (auto simp: split_def Let_def try_send_tracked_healthy)
qed simp

lemma wp_send_to_device_healthy:
  assumes "healthy E" and "registered (st_hub s) u d \<noteq> None"
    and "\<And>t. st_pool t = st_pool s \<Longrightarrow> same_connections s t \<Longrightarrow> Q True t"
  shows "wp (hub_send_to_device E u d msg) Q s"
  unfolding hub_send_to_device_def
proof (rule wp_on_hub)
  fix w h a assume run: "send_to_device (sv_ws E) u d msg (st_world s, st_hub s) = ((w, h), a)"
  obtain tx where tx: "registered (st_hub s) u d = Some tx" using assms(2) by auto
  then have "try_send_tracked (sv_ws E) u d tx msg (st_world s, st_hub s) = ((w, h), a)"
    using run by (simp add: send_to_device_def registered_def split: option.splits)
  then have "a" and "hub_connections h = hub_connections (st_hub s)"
    using try_send_tracked_healthy [OF assms(1), of u d tx msg "(st_world s, st_hub s)"] by simp_all
  then show "Q a (s\<lparr>st_world := w, st_hub := h\<rparr>)" using assms(3) by (simp add: same_connections_def)
qed

lemma wp_send_to_healthy:
  assumes "healthy E" and "\<And>a t. st_pool t = st_pool s \<Longrightarrow> same_connections s t \<Longrightarrow> Q a t"
  shows "wp (hub_send_to E u msg) Q s"
  unfolding hub_send_to_def
proof (rule wp_on_hub)
  fix w h a assume run: "send_to (sv_ws E) u msg (st_world s, st_hub s) = ((w, h), a)"
  have "hub_connections (snd (fst (send_to (sv_ws E) u msg (st_world s, st_hub s)))) = hub_connections (st_hub s)"
    by (simp add: send_to_def send_to_user_def send_to_user_collecting_def split_def Let_def
        send_each_healthy [OF assms(1)] split: option.split)
  then have "hub_connections h = hub_connections (st_hub s)" using run by simp
  then show "Q a (s\<lparr>st_world := w, st_hub := h\<rparr>)" using assms(2) by (simp add: same_connections_def)
qed

lemma registered_same: "same_connections s t \<Longrightarrow> registered (st_hub t) = registered (st_hub s)"
  by (simp add: same_connections_def registered_def fun_eq_iff)

section \<open>Pages in order\<close>

definition earlier :: "MessageRow \<Rightarrow> MessageRow \<Rightarrow> bool" where
  "earlier a b \<longleftrightarrow> ms_created_at a < ms_created_at b \<or> ms_created_at a = ms_created_at b \<and> ms_id a < ms_id b"

lemma after_cursor_earlier: "after_cursor (Some (ms_created_at a, ms_id a)) b \<longleftrightarrow> earlier a b"
  by (simp add: after_cursor_def earlier_def)

lemma sorted_wrt_insort_key:
  fixes c :: "'a \<Rightarrow> 'b::linorder" and i :: "'a \<Rightarrow> 'd::linorder"
  defines "R \<equiv> \<lambda>a b. c a < c b \<or> c a = c b \<and> i a \<le> i b"
  assumes "sorted_wrt R ys" and "\<forall>y\<in>set ys. i x \<le> i y"
  shows "sorted_wrt R (insort_key c x ys)"
  using assms(2,3)
proof (induction ys)
  case (Cons y ys)
  then show ?case
    by (cases "c x \<le> c y") (auto simp: R_def set_insort_key not_le)
qed simp

lemma sorted_wrt_two_keys:
  fixes c :: "'a \<Rightarrow> 'b::linorder" and i :: "'a \<Rightarrow> 'd::linorder"
  assumes "sorted (map i zs)"
  shows "sorted_wrt (\<lambda>a b. c a < c b \<or> c a = c b \<and> i a \<le> i b) (sort_key c zs)"
  using assms
proof (induction zs)
  case (Cons z zs)
  then show ?case by (auto intro: sorted_wrt_insort_key)
qed simp

definition backlog :: "'n Pool \<Rightarrow> Uuid \<Rightarrow> device_id \<Rightarrow> MessageRow list" where
  "backlog p u d = sort_key ms_created_at (sort_key ms_id (filter (pending p u d) (tb_messages p)))"

lemma mset_backlog: "mset (backlog p u d) = mset (filter (pending p u d) (tb_messages p))"
  by (simp add: backlog_def)

lemma set_backlog [simp]: "set (backlog p u d) = {m \<in> set (tb_messages p). pending p u d m}"
  by (auto simp: backlog_def)

lemma distinct_filter_ids: "distinct (map f xs) \<Longrightarrow> distinct (map f (filter P xs))"
  by (induction xs) auto

lemma backlog_distinct:
  assumes "distinct (map ms_id (tb_messages p))"
  shows "distinct (map ms_id (backlog p u d))"
proof -
  have "mset (map ms_id (backlog p u d)) = mset (map ms_id (filter (pending p u d) (tb_messages p)))"
    by (simp add: mset_backlog)
  then show ?thesis using distinct_filter_ids [OF assms] by (metis mset_eq_imp_distinct_iff)
qed

lemma backlog_sorted:
  assumes "distinct (map ms_id (tb_messages p))"
  shows "sorted_wrt earlier (backlog p u d)"
proof -
  let ?R = "\<lambda>a b. ms_created_at a < ms_created_at b \<or> ms_created_at a = ms_created_at b \<and> ms_id a \<le> ms_id b"
  have "sorted_wrt ?R (backlog p u d)"
    unfolding backlog_def by (rule sorted_wrt_two_keys) simp
  moreover have "sorted_wrt (\<lambda>a b. ms_id a \<noteq> ms_id b) (backlog p u d)"
    using backlog_distinct [OF assms, of u d] by (simp add: distinct_map sorted_wrt_map distinct_conv_nth sorted_wrt_iff_nth_less inj_on_def)
  ultimately show ?thesis
    unfolding sorted_wrt_iff_nth_less earlier_def by force
qed

text \<open>What one page leaves: the ledger entries hide it, and the cursor is its last message.\<close>

lemma sorted_split:
  assumes "sorted_wrt earlier xs" and "xs \<noteq> []" and "0 < n"
  shows "\<forall>m\<in>set (drop n xs). earlier (last (take n xs)) m"
proof
  fix m assume "m \<in> set (drop n xs)"
  moreover have "sorted_wrt earlier (take n xs @ drop n xs)" using assms(1) by simp
  moreover have "last (take n xs) \<in> set (take n xs)" using assms(2,3) by simp
  ultimately show "earlier (last (take n xs)) m" unfolding sorted_wrt_append by blast
qed

definition after_page :: "Uuid list \<Rightarrow> Uuid \<Rightarrow> device_id \<Rightarrow> 'n Pool \<Rightarrow> 'n Pool \<Rightarrow> bool" where
  "after_page ids u d p p' \<longleftrightarrow>
     (\<exists>done. p' = p\<lparr>tb_deliveries := insert_new (map (\<lambda>m. (m, u, d)) ids) (tb_deliveries p),
        tb_messages := map (\<lambda>m. if ms_id m \<in> set done then m\<lparr>ms_delivered := True\<rparr> else m) (tb_messages p)\<rparr>)"

lemma after_page_pending:
  assumes "after_page ids u d p p'"
  shows "\<exists>g. tb_messages p' = map g (tb_messages p) \<and>
    (\<forall>m. ms_id (g m) = ms_id m \<and> ms_created_at (g m) = ms_created_at m \<and> ms_sender_id (g m) = ms_sender_id m \<and>
       (pending p' u d (g m) \<longleftrightarrow> pending p u d m \<and> ms_id m \<notin> set ids))"
proof -
  obtain done_ids where p': "p' = p\<lparr>tb_deliveries := insert_new (map (\<lambda>m. (m, u, d)) ids) (tb_deliveries p),
        tb_messages := map (\<lambda>m. if ms_id m \<in> set done_ids then m\<lparr>ms_delivered := True\<rparr> else m) (tb_messages p)\<rparr>"
    using assms by (auto simp: after_page_def)
  show ?thesis
    by (rule exI [of _ "\<lambda>m. if ms_id m \<in> set done_ids then m\<lparr>ms_delivered := True\<rparr> else m"])
      (auto simp: p' pending_def active_member_def)
qed

definition rows_wf :: "'n Pool \<Rightarrow> bool" where
  "rows_wf p \<longleftrightarrow> distinct (map ms_id (tb_messages p)) \<and> (\<forall>m\<in>set (tb_messages p). user p (ms_sender_id m) \<noteq> None)"

lemma after_page_wf:
  assumes "after_page ids u d p p'" and "rows_wf p"
  shows "rows_wf p'"
proof -
  obtain g where g: "tb_messages p' = map g (tb_messages p)"
    "\<And>m. ms_id (g m) = ms_id m \<and> ms_sender_id (g m) = ms_sender_id m"
    using after_page_pending [OF assms(1)] by blast
  have "tb_users p' = tb_users p" using assms(1) by (auto simp: after_page_def)
  then have "user p' = user p" by (simp add: user_def fun_eq_iff)
  moreover have "map ms_id (tb_messages p') = map ms_id (tb_messages p)" using g by simp
  ultimately show ?thesis using assms(2) g by (auto simp: rows_wf_def comp_def)
qed

lemma after_page_backlog:
  assumes page: "after_page ids u d p p'" and wf: "rows_wf p" and ids: "ids = map ms_id (take n (backlog p u d))"
  shows "length (backlog p' u d) = length (drop n (backlog p u d))"
    "\<forall>m'\<in>set (backlog p' u d). \<exists>m\<in>set (drop n (backlog p u d)). ms_id m' = ms_id m \<and> ms_created_at m' = ms_created_at m"
proof -
  let ?B = "backlog p u d"
  obtain g where g: "tb_messages p' = map g (tb_messages p)"
    "\<And>m. ms_id (g m) = ms_id m \<and> ms_created_at (g m) = ms_created_at m"
    "\<And>m. pending p' u d (g m) \<longleftrightarrow> pending p u d m \<and> ms_id m \<notin> set ids"
    using after_page_pending [OF page] by blast
  have split: "?B = take n ?B @ drop n ?B" by simp
  have "distinct (map ms_id ?B)" using wf backlog_distinct by (auto simp: rows_wf_def)
  then have "distinct (map ms_id (take n ?B) @ map ms_id (drop n ?B))" by (metis map_append append_take_drop_id)
  then have rest: "filter (\<lambda>m. ms_id m \<notin> set ids) ?B = drop n ?B"
    unfolding ids by (subst split, subst filter_append) (auto simp: filter_empty_conv filter_id_conv)
  have "length (backlog p' u d) = length (filter (pending p' u d) (tb_messages p'))" by (simp add: backlog_def)
  also have "\<dots> = length (filter (\<lambda>m. ms_id m \<notin> set ids) (filter (pending p u d) (tb_messages p)))"
    by (simp add: g filter_map comp_def conj_commute)
  also have "\<dots> = size (filter_mset (\<lambda>m. ms_id m \<notin> set ids) (mset ?B))"
    by (simp add: mset_backlog flip: mset_filter)
  also have "\<dots> = length (drop n ?B)" by (metis mset_filter rest size_mset)
  finally show "length (backlog p' u d) = length (drop n ?B)" .
  show "\<forall>m'\<in>set (backlog p' u d). \<exists>m\<in>set (drop n ?B). ms_id m' = ms_id m \<and> ms_created_at m' = ms_created_at m"
    unfolding rest [symmetric] using g by auto
qed

section \<open>A page and all pages\<close>

lemma wp_replay_each_healthy:
  assumes "healthy E" and "registered (st_hub s) u d \<noteq> None"
    and "\<And>t dm. st_pool t = st_pool s \<Longrightarrow> same_connections s t \<Longrightarrow> Q (map mw_id msgs, dm) t"
  shows "wp (replay_each E u d ct any msgs) Q s"
  using assms(2,3)
proof (induction msgs arbitrary: s Q)
  case Nil
  then show ?case by (simp add: wp_simps)
next
  case (Cons msg msgs)
  obtain json where "sv_to_json E (replay_message msg (classify_replay_content (mw_id msg) (mw_content msg) ct any)) = Some json"
    using assms(1) unfolding healthy_def by blast
  then show ?case using Cons.prems
    by (auto simp: wp_simps Let_def registered_same intro!: wp_send_to_device_healthy [OF assms(1)] Cons.IH
        dest: same_connections_trans)
qed

lemma wp_notify_healthy:
  assumes "healthy E" and "\<And>t. st_pool t = st_pool s \<Longrightarrow> same_connections s t \<Longrightarrow> Q () t"
  shows "wp (notify_original_senders E msgs) Q s"
  using assms(2) unfolding notify_original_senders_def
proof (induction msgs arbitrary: s)
  case Nil
  then show ?case by (simp add: wp_simps)
next
  case (Cons msg msgs)
  then show ?case
    by (auto simp: wp_simps split: option.split intro!: wp_send_to_healthy [OF assms(1)] Cons.IH
        dest: same_connections_trans)
qed

lemma wp_deliver_one_batch_healthy:
  assumes E: "healthy E" and "registered (st_hub s) u d \<noteq> None" and ne: "msgs \<noteq> []"
    and Q: "\<And>t. after_page (map mw_id msgs) u d (st_pool s) (st_pool t) \<Longrightarrow> same_connections s t \<Longrightarrow> Q () t"
  shows "wp (deliver_one_batch E u d msgs) Q s"
proof -
  have pages: "after_page (map mw_id msgs) u d (st_pool s)
      (st_pool s\<lparr>tb_deliveries := insert_new (map (\<lambda>m. (m, u, d)) (map mw_id msgs)) (tb_deliveries (st_pool s)),
         tb_messages := map (\<lambda>m. if ms_id m \<in> set ids then m\<lparr>ms_delivered := True\<rparr> else m) (tb_messages (st_pool s))\<rparr>)" for ids
    by (auto simp: after_page_def)
  have placeholders: "wp (mark_device_delivered_batch E (map mw_id msgs) u d) (\<lambda>_. Q ()) t"
    if "st_pool t = st_pool s" "same_connections s t" for t
    using that ne pages [of "[]"]
    by (auto simp: mark_device_delivered_batch_def execute_def comp_def
        intro!: wp_query_healthy [OF E] Q dest: same_connections_trans)
  have delivered: "wp (mark_device_delivered_batch E (map mw_id msgs) u d)
      (\<lambda>_. wp (mark_delivered E (map mw_id dm)) (\<lambda>_. wp (notify_original_senders E dm) Q)) t"
    if "st_pool t = st_pool s" "same_connections s t" for t dm
    using that ne pages [of "map mw_id dm"]
    by (auto simp: mark_device_delivered_batch_def mark_delivered_def execute_def comp_def
        intro!: wp_query_healthy [OF E] wp_notify_healthy [OF E] Q dest: same_connections_trans)
  show ?thesis
    using assms(2) ne
    by (auto simp: deliver_one_batch_def get_device_contents_batch_def message_ids_with_any_device_content_def
        select_def wp_simps registered_same intro!: wp_query_healthy [OF E] wp_replay_each_healthy [OF E]
        placeholders delivered dest: same_connections_trans)
qed

definition past_cursor :: "'n Pool \<Rightarrow> Uuid \<Rightarrow> device_id \<Rightarrow> (datetime \<times> Uuid) option \<Rightarrow> bool" where
  "past_cursor p u d cur \<longleftrightarrow> (\<forall>m\<in>set (backlog p u d). after_cursor cur m)"

lemma undelivered_page_backlog:
  assumes "past_cursor p u d cur"
  shows "undelivered_page p u d cur = take UNDELIVERED_PAGE_SIZE (backlog p u d)"
proof -
  have "filter (\<lambda>m. pending p u d m \<and> after_cursor cur m) (tb_messages p) = filter (pending p u d) (tb_messages p)"
    using assms by (intro filter_cong) (auto simp: past_cursor_def)
  then show ?thesis by (simp add: undelivered_page_def backlog_def)
qed

lemma with_sender_page:
  assumes "rows_wf p" and "set xs \<subseteq> set (tb_messages p)"
  shows "map mw_id (List.map_filter (with_sender p) xs) = map ms_id xs"
    "map mw_created_at (List.map_filter (with_sender p) xs) = map ms_created_at xs"
  using assms(2)
proof (induction xs)
  case (Cons m xs)
  case 1
  then show ?case using Cons.IH(1) assms(1) by (auto simp: rows_wf_def with_sender_def List.map_filter_simps Let_def)
  case 2
  then show ?case using Cons.IH(2) assms(1) by (auto simp: rows_wf_def with_sender_def List.map_filter_simps Let_def)
qed (simp_all add: List.map_filter_simps)

lemma next_cursor:
  assumes page: "after_page ids u d p p'" and wf: "rows_wf p" and ids: "ids = map ms_id (take n (backlog p u d))"
    and n: "0 < n" and ne: "backlog p u d \<noteq> []"
  shows "past_cursor p' u d (Some (ms_created_at (last (take n (backlog p u d))), ms_id (last (take n (backlog p u d)))))"
  unfolding past_cursor_def
proof
  fix m' assume "m' \<in> set (backlog p' u d)"
  then obtain m where m: "m \<in> set (drop n (backlog p u d))" "ms_id m' = ms_id m" "ms_created_at m' = ms_created_at m"
    using after_page_backlog(2) [OF page wf ids] by blast
  have "earlier (last (take n (backlog p u d))) m"
    using sorted_split [OF backlog_sorted ne n] wf m(1) by (simp add: rows_wf_def)
  then show "after_cursor (Some (ms_created_at (last (take n (backlog p u d))), ms_id (last (take n (backlog p u d))))) m'"
    using m by (simp add: after_cursor_def earlier_def)
qed

lemma wp_replay_pages_healthy:
  assumes "healthy E" and "registered (st_hub s) u d \<noteq> None" and "rows_wf (st_pool s)"
    and "past_cursor (st_pool s) u d cur" and "length (backlog (st_pool s) u d) \<le> n * UNDELIVERED_PAGE_SIZE"
  shows "wp (replay_pages E u d n cur) (\<lambda>_ t. backlog (st_pool t) u d = []) s"
  using assms(2-)
proof (induction n arbitrary: s cur)
  case 0
  then show ?case by (simp add: wp_simps)
next
  case (Suc n)
  let ?p = "st_pool s" and ?Q = "\<lambda>_ t. backlog (st_pool t) u d = []"
  let ?xs = "take UNDELIVERED_PAGE_SIZE (backlog ?p u d)"
  let ?batch = "List.map_filter (with_sender ?p) ?xs"
  have sub: "set ?xs \<subseteq> set (tb_messages ?p)" using set_take_subset [of UNDELIVERED_PAGE_SIZE "backlog ?p u d"] by auto
  note batch = with_sender_page [OF Suc.prems(2) sub]
  have len: "length ?batch = length ?xs" using batch(1) by (metis length_map)
  have last: "mw_created_at (last ?batch) = ms_created_at (last ?xs)" "mw_id (last ?batch) = ms_id (last ?xs)" if "?xs \<noteq> []"
    using that batch len by (metis last_map length_0_conv)+
  have rest: "wp (if length ?batch \<noteq> UNDELIVERED_PAGE_SIZE then State_Monad.return ()
      else replay_pages E u d n (Some (mw_created_at (last ?batch), mw_id (last ?batch)))) ?Q t"
    if t: "after_page (map mw_id ?batch) u d ?p (st_pool t)" "same_connections s t" and ne: "backlog ?p u d \<noteq> []" for t
  proof -
    note page = t(1) [unfolded batch(1)]
    note left = after_page_backlog [OF page Suc.prems(2) refl]
    show ?thesis
    proof (cases "length ?xs = UNDELIVERED_PAGE_SIZE")
      case True
      then have "past_cursor (st_pool t) u d (Some (mw_created_at (last ?batch), mw_id (last ?batch)))"
        using next_cursor [OF page Suc.prems(2) refl _ ne] last ne by (auto simp: UNDELIVERED_PAGE_SIZE_def)
      then show ?thesis using True len left Suc.prems t(2) after_page_wf [OF page]
        by (auto simp: registered_same intro!: Suc.IH)
    next
      case False
      then show ?thesis using len left by (auto simp: wp_simps)
    qed
  qed
  have start: "wp (if ?batch = [] then State_Monad.return ()
      else do { deliver_one_batch E u d ?batch;
        (if length ?batch \<noteq> UNDELIVERED_PAGE_SIZE then State_Monad.return ()
         else replay_pages E u d n (Some (mw_created_at (last ?batch), mw_id (last ?batch)))) }) ?Q t"
    if t: "st_pool t = ?p" "same_connections s t" for t
  proof (cases "?batch = []")
    case True
    then show ?thesis using len t by (simp add: wp_simps UNDELIVERED_PAGE_SIZE_def min_def split: if_splits)
  next
    case False
    then have "backlog ?p u d \<noteq> []" using len by auto
    then show ?thesis using False t Suc.prems(1) rest
      unfolding wp_if wp_bind
      by (auto simp: registered_same simp del: wp_if intro!: wp_deliver_one_batch_healthy [OF assms(1)] dest: same_connections_trans)
  qed
  show ?case
    unfolding replay_pages.simps get_undelivered_def select_def wp_bind undelivered_page_backlog [OF Suc.prems(3)]
    using undelivered_page_backlog [OF Suc.prems(3)] start [unfolded wp_bind]
    by (intro wp_query_healthy [OF assms(1)]) (simp del: wp_if)
qed

section \<open>What a replay records\<close>

text \<open>
  The tables after part of a replay for device \<open>d\<close> of \<open>u\<close>: the ledger may have gained entries of
  that device for messages that were pending for it, and those may have been flagged delivered.
\<close>

definition replayed :: "Uuid \<Rightarrow> device_id \<Rightarrow> 'n Pool \<Rightarrow> 'n Pool \<Rightarrow> bool" where
  "replayed u d p p' \<longleftrightarrow>
     (\<exists>flag ledger. p' = p\<lparr>tb_messages := map (\<lambda>m. if flag m then m\<lparr>ms_delivered := True\<rparr> else m) (tb_messages p),
        tb_deliveries := ledger\<rparr> \<and>
      set (tb_deliveries p) \<subseteq> set ledger \<and>
      set ledger \<subseteq> set (tb_deliveries p) \<union> {(ms_id m, u, d) |m. m \<in> set (tb_messages p) \<and> pending p u d m} \<and>
      (\<forall>m. flag m \<longrightarrow> ms_id m \<in> ms_id ` {m \<in> set (tb_messages p). pending p u d m}))"

definition pending_ids :: "'n Pool \<Rightarrow> Uuid \<Rightarrow> device_id \<Rightarrow> Uuid set" where
  "pending_ids p u d = ms_id ` {m \<in> set (tb_messages p). pending p u d m}"

lemma replayed_refl: "replayed u d p p"
  unfolding replayed_def by (rule exI [of _ "\<lambda>_. False"], rule exI [of _ "tb_deliveries p"]) simp

lemma replayed_pending:
  assumes "replayed u d p p'"
  shows "pending_ids p' u d \<subseteq> pending_ids p u d"
  using assms by (auto simp: replayed_def pending_ids_def pending_def active_member_def image_iff split: if_splits) blast+

lemma replayed_ledger:
  assumes "replayed u d p p'" and "set ids \<subseteq> pending_ids p u d"
  shows "replayed u d p (p'\<lparr>tb_deliveries := insert_new (map (\<lambda>m. (m, u, d)) ids) (tb_deliveries p')\<rparr>)"
proof -
  obtain flag ledger where p': "p' = p\<lparr>tb_messages := map (\<lambda>m. if flag m then m\<lparr>ms_delivered := True\<rparr> else m) (tb_messages p),
        tb_deliveries := ledger\<rparr>" and rest: "set (tb_deliveries p) \<subseteq> set ledger"
      "set ledger \<subseteq> set (tb_deliveries p) \<union> {(ms_id m, u, d) |m. m \<in> set (tb_messages p) \<and> pending p u d m}"
      "\<forall>m. flag m \<longrightarrow> ms_id m \<in> ms_id ` {m \<in> set (tb_messages p). pending p u d m}"
    using assms(1) unfolding replayed_def by blast
  show ?thesis unfolding replayed_def
    by (rule exI [of _ flag], rule exI [of _ "insert_new (map (\<lambda>m. (m, u, d)) ids) ledger"])
      (use rest assms(2) in \<open>auto simp: p' pending_ids_def\<close>)
qed

lemma replayed_flag:
  assumes "replayed u d p p'" and "set ids \<subseteq> pending_ids p u d"
  shows "replayed u d p (p'\<lparr>tb_messages :=
    map (\<lambda>m. if ms_id m \<in> set ids then m\<lparr>ms_delivered := True\<rparr> else m) (tb_messages p')\<rparr>)"
proof -
  obtain flag ledger where p': "p' = p\<lparr>tb_messages := map (\<lambda>m. if flag m then m\<lparr>ms_delivered := True\<rparr> else m) (tb_messages p),
        tb_deliveries := ledger\<rparr>" and rest: "set (tb_deliveries p) \<subseteq> set ledger"
      "set ledger \<subseteq> set (tb_deliveries p) \<union> {(ms_id m, u, d) |m. m \<in> set (tb_messages p) \<and> pending p u d m}"
      "\<forall>m. flag m \<longrightarrow> ms_id m \<in> ms_id ` {m \<in> set (tb_messages p). pending p u d m}"
    using assms(1) unfolding replayed_def by blast
  show ?thesis unfolding replayed_def
    by (rule exI [of _ "\<lambda>m. flag m \<or> ms_id m \<in> set ids"], rule exI [of _ ledger])
      (use rest assms(2) in \<open>auto simp: p' pending_ids_def\<close>)
qed

lemma wp_replay_each:
  "wp (replay_each E u d ct any msgs)
     (\<lambda>r t. st_pool t = st_pool s \<and> set (fst r) \<subseteq> mw_id ` set msgs \<and> set (snd r) \<subseteq> set msgs) s"
proof -
  have "wp (replay_each E u d ct any msgs)
     (\<lambda>r t. st_pool t = p \<and> set (fst r) \<subseteq> mw_id ` set msgs \<and> set (snd r) \<subseteq> set msgs) s" if "st_pool s = p" for s p
    using that
  proof (induction msgs arbitrary: s)
    case (Cons msg msgs)
    have send: "wp (hub_send_to_device E u d m) (\<lambda>_ t. st_pool t = p) s" for m
      using keepsD [OF keeps_hub_ops(1), of "\<lambda>q. q = p" s E u d m] Cons.prems
      by (simp add: on_pool_def [abs_def])
    show ?case
      using Cons.prems
      by (auto simp: wp_simps Let_def split: option.split if_splits intro!: wp_mono [OF send] wp_mono [OF Cons.IH])
  qed (simp add: wp_simps)
  then show ?thesis by blast
qed

lemma keeps_mark_batch: "set ids \<subseteq> pending_ids p u d \<Longrightarrow> keeps (on_pool (replayed u d p)) (mark_device_delivered_batch E ids u d)"
  unfolding mark_device_delivered_batch_def by (intro keeps_intros keeps_execute replayed_ledger)

lemma keeps_mark_delivered: "set ids \<subseteq> pending_ids p u d \<Longrightarrow> keeps (on_pool (replayed u d p)) (mark_delivered E ids)"
  unfolding mark_delivered_def by (intro keeps_intros keeps_execute replayed_flag)

lemma keeps_notify [keeps_intros]: "keeps (on_pool P) (notify_original_senders E msgs)"
  unfolding notify_original_senders_def by (intro keeps_intros)

lemma keeps_deliver_one_batch:
  assumes "mw_id ` set msgs \<subseteq> pending_ids p u d"
  shows "keeps (on_pool (replayed u d p)) (deliver_one_batch E u d msgs)"
proof -
  have tail: "keeps (on_pool (replayed u d p)) (do {
      mark_device_delivered_batch E (fst r) u d;
      (if snd r = [] then State_Monad.return ()
       else do { mark_delivered E (map mw_id (snd r)); notify_original_senders E (snd r) }) })"
    if "set (fst r) \<subseteq> mw_id ` set msgs" "set (snd r) \<subseteq> set msgs" for r :: "Uuid list \<times> MessageWithSender list"
    using that assms by (intro keeps_intros keeps_mark_batch keeps_mark_delivered) auto
  have each: "wp (replay_each E u d ct any msgs) (\<lambda>r. wp (do {
      mark_device_delivered_batch E (fst r) u d;
      (if snd r = [] then State_Monad.return ()
       else do { mark_delivered E (map mw_id (snd r)); notify_original_senders E (snd r) }) })
      (\<lambda>_. on_pool (replayed u d p))) s" if "on_pool (replayed u d p) s" for ct any s
    by (rule wp_mono [OF wp_replay_each], rule keepsD [OF tail]) (use that in \<open>auto simp: on_pool_def\<close>)
  have reads: "keeps (on_pool (replayed u d p)) (get_device_contents_batch E (map mw_id msgs) u d)"
    "keeps (on_pool (replayed u d p)) (message_ids_with_any_device_content E (map mw_id msgs) u)"
    unfolding get_device_contents_batch_def message_ids_with_any_device_content_def by (intro keeps_intros)+
  show ?thesis
    unfolding keeps_wp deliver_one_batch_def
    by (auto simp: wp_bind simp del: wp_if intro!: wp_mono [OF keepsD [OF reads(1)]] wp_mono [OF keepsD [OF reads(2)]]
        each [unfolded wp_bind])
qed

lemma with_sender_id: "with_sender p m = Some x \<Longrightarrow> mw_id x = ms_id m"
  by (auto simp: with_sender_def Let_def)

lemma undelivered_page_ids: "ms_id ` set (undelivered_page p u d cur) \<subseteq> pending_ids p u d"
  by (auto simp: undelivered_page_def pending_ids_def dest!: in_set_takeD)

lemma keeps_replay_pages: "keeps (on_pool (replayed u d p)) (replay_pages E u d n cur)"
proof (induction n arbitrary: cur)
  case (Suc n)
  have batch: "keeps (on_pool (replayed u d p)) (if b = [] then State_Monad.return ()
      else do { deliver_one_batch E u d b;
        (if length b \<noteq> UNDELIVERED_PAGE_SIZE then State_Monad.return ()
         else replay_pages E u d n (Some (mw_created_at (last b), mw_id (last b)))) })"
    if "mw_id ` set b \<subseteq> pending_ids p u d" for b
    by (intro keeps_intros keeps_deliver_one_batch Suc.IH that)
  have "mw_id ` set (List.map_filter (with_sender q) (undelivered_page q u d cur)) \<subseteq> pending_ids p u d"
    if "replayed u d p q" for q
    using undelivered_page_ids [of q u d cur] replayed_pending [OF that] with_sender_id [of q]
    by (fastforce simp: map_filter_def)
  then have page: "wp (if b = [] then State_Monad.return ()
      else do { deliver_one_batch E u d b;
        (if length b \<noteq> UNDELIVERED_PAGE_SIZE then State_Monad.return ()
         else replay_pages E u d n (Some (mw_created_at (last b), mw_id (last b)))) }) (\<lambda>_. on_pool (replayed u d p)) t"
    if "replayed u d p (st_pool s)" "st_pool t = st_pool s"
      "b = List.map_filter (with_sender (st_pool s)) (undelivered_page (st_pool s) u d cur)" for b s t
    using that by (intro keepsD [OF batch]) (auto simp: on_pool_def)
  show ?case
    unfolding keeps_wp
  proof (intro allI impI)
    fix s :: "('a, 'b, 'c) AppState"
    assume s: "on_pool (replayed u d p) s"
    show "wp (replay_pages E u d (Suc n) cur) (\<lambda>_. on_pool (replayed u d p)) s"
      unfolding replay_pages.simps(2) get_undelivered_def
    proof (subst wp_bind, rule wp_select, unfold sum.case)
      fix t :: "('a, 'b, 'c) AppState" assume "st_pool t = st_pool s"
      then show "wp (State_Monad.return ()) (\<lambda>_. on_pool (replayed u d p)) t" using s by (simp add: wp_return on_pool_def)
    qed (use s in \<open>auto simp only: on_pool_def intro: page [OF _ _ refl]\<close>)
  qed
qed (simp add: keeps_intros)

section \<open>Properties\<close>

text \<open>
  C14: a reconnect drains the backlog. When statements succeed, the queue of the device accepts and
  at most 5000 messages (50 pages of 100) are pending for it, none is pending after the replay:
  the pages follow each other without a gap, also among messages with the same timestamp.
\<close>

theorem replay_drains_backlog:
  assumes "healthy E" and "registered (st_hub s) u d \<noteq> None" and "rows_wf (st_pool s)"
    and "length (filter (pending (st_pool s) u d) (tb_messages (st_pool s))) \<le> 5000"
  defines "s' \<equiv> snd (run_state (deliver_undelivered_messages E u d) s)"
  shows "\<forall>m\<in>set (tb_messages (st_pool s')). \<not> pending (st_pool s') u d m"
proof -
  have "past_cursor (st_pool s) u d None" by (simp add: past_cursor_def after_cursor_def)
  then have "wp (deliver_undelivered_messages E u d) (\<lambda>_ t. backlog (st_pool t) u d = []) s"
    unfolding deliver_undelivered_messages_def using assms(1-4)
    by (intro wp_replay_pages_healthy) (simp_all add: MAX_ITERATIONS_def UNDELIVERED_PAGE_SIZE_def backlog_def)
  then have "backlog (st_pool s') u d = []" by (simp add: s'_def wp_def split: prod.splits)
  then have "set (backlog (st_pool s') u d) = {}" by simp
  then show ?thesis unfolding set_backlog by blast
qed

text \<open>
  C30: whatever fails on the way, a replay to a device only records deliveries to that device, of
  messages that were pending for it; it removes no ledger entry, and changes nothing else of the
  tables but the flag \<open>delivered\<close> of such messages.
\<close>

theorem replay_records_only_pending:
  "replayed u d (st_pool s) (st_pool (snd (run_state (deliver_undelivered_messages E u d) s)))"
  using keeps_run [OF keeps_replay_pages, of u d "st_pool s" s E MAX_ITERATIONS None]
  by (simp add: deliver_undelivered_messages_def on_pool_def replayed_refl)

theorem replay_drains_backlog_witness:
  "let p = (ref_pool False)\<lparr>tb_messages := [ref_row 50 None, ref_row 51 None]\<rparr>; s = ref_state p;
       s' = snd (run_state (deliver_undelivered_messages ref_srv 2 1) s)
   in pending p 2 1 (ref_row 50 None) \<and> (\<forall>m\<in>set (tb_messages (st_pool s')). \<not> pending (st_pool s') 2 1 m)"
proof -
  let ?p = "(ref_pool False)\<lparr>tb_messages := [ref_row 50 None, ref_row 51 None]\<rparr>"
  have "healthy ref_srv" by (auto simp: healthy_def ref_srv_def ref_json_def split: ServerMessage.split)
  moreover have "registered (st_hub (ref_state ?p)) 2 1 \<noteq> None"
    by (simp add: ref_state_def registered_register)
  moreover have "rows_wf (st_pool (ref_state ?p))"
    by (simp add: rows_wf_def ref_state_def ref_row_def ref_pool_def user_def)
  moreover have "length (filter (pending (st_pool (ref_state ?p)) 2 1) (tb_messages (st_pool (ref_state ?p)))) \<le> 5000"
    by (simp add: ref_state_def)
  moreover have "pending ?p 2 1 (ref_row 50 None)" by code_simp
  ultimately show ?thesis unfolding Let_def by (intro conjI replay_drains_backlog)
qed

text \<open>
  the replay does not look at blocks. In this run user 3 has blocked user 1; a message of
  user 1 to their group is kept from the queue of user 3, and the next replay puts it there.
\<close>

theorem replay_ignores_blocks:
  "let s1 = snd (run_state (handle_send_message ref_srv 1 1 ''u'' (ref_request ''h'' None)) (ref_state (ref_pool False)));
       s2 = snd (run_state (deliver_undelivered_messages ref_srv 3 1) s1)
   in blockers_of (st_pool s1) [3] 1 = [3] \<and>
      (21, ws_text ''{\"new\":\"h\"}'') \<in> set (fst (st_world s1)) \<and>
      \<not> list_ex (\<lambda>(tx, _). tx = 31) (fst (st_world s1)) \<and>
      (31, ws_text ''{\"new\":\"h\"}'') \<in> set (fst (st_world s2))"
  by code_simp

text \<open>The second statement fails.\<close>

definition failing_srv :: "((nat \<times> WsMessage) list \<times> nat, nat, unit) srv_env" where
  "failing_srv = ref_srv\<lparr>sv_db := \<lambda>w. ((fst w, Suc (snd w)), if snd w = 1 then DbFailBefore else DbOk)\<rparr>"

text \<open>
  when the read of the ciphertexts for the device fails while the next read succeeds, the
  stored ciphertext is replaced by the placeholder of an undecryptable message and the delivery is
  recorded: no later replay sends the ciphertext.
\<close>

theorem replay_read_failure_loses_message:
  "let p = (ref_pool True)\<lparr>tb_messages := [ref_row 50 None], tb_device_contents := [((50, 2, 1), ''ct'')]\<rparr>;
       s1 = snd (run_state (deliver_undelivered_messages failing_srv 2 1) (ref_state p));
       s2 = snd (run_state (deliver_undelivered_messages ref_srv 2 1) s1)
   in fst (st_world s1) = [(21, ws_text ''{\"new\":\"\"}'')] \<and> (50, 2, 1) \<in> set (tb_deliveries (st_pool s1)) \<and>
      fst (st_world s2) = fst (st_world s1)"
  by code_simp

end
