(* ===== verification/Srv_Dispatch.thy ===== *)
theory Srv_Dispatch
  imports Srv_Canvas Srv_Replay Srv_WsRate
begin

text \<open>
  \<open>ws/events/voice.rs\<close>, \<open>ws/events/dispatch.rs\<close> and \<open>ws/handler.rs\<close>: WebRTC signalling, the dispatch of
  a client frame to its handler, and the life of a connection. The receive loop of
  \<open>Srv_WsRate\<close> is instantiated with the dispatcher.
\<close>

section \<open>\<open>voice.rs\<close>\<close>

definition MAX_SIGNAL_SIZE :: nat where "MAX_SIGNAL_SIZE = 64 * 1024"

definition signal_type_ok :: "'n json \<Rightarrow> bool" where
  "signal_type_ok signal =
     (case Option.bind (json_get signal ''type'') as_str of
        Some t \<Rightarrow> t \<in> set [''offer'', ''answer'', ''ice-candidate'']
      | None \<Rightarrow> False)"

text \<open>
  The chain of checks on the database, each ending the handler with an error frame; the handler
  goes on with \<open>k\<close>.
\<close>

definition voice_checks ::
  "('w, 'tx, 'n) srv_env \<Rightarrow> Uuid \<Rightarrow> Uuid \<Rightarrow> Uuid \<Rightarrow> Uuid \<Rightarrow> ('w, 'tx, 'n, unit) act \<Rightarrow> ('w, 'tx, 'n, unit) act" where
  "voice_checks E sender_id conversation_id channel_id to_user_id k = do {
     m \<leftarrow> is_member E conversation_id sender_id;
     (case m of
        Inl _ \<Rightarrow> emit_error E sender_id ''Database error''
      | Inr False \<Rightarrow> emit_error E sender_id ''Not a member of this conversation''
      | Inr True \<Rightarrow> do {
          kd \<leftarrow> get_conversation_kind E conversation_id;
          (case kd of
             Inl _ \<Rightarrow> emit_error E sender_id ''Database error''
           | Inr None \<Rightarrow> emit_error E sender_id ''Conversation not found''
           | Inr (Some kind) \<Rightarrow>
               if ConversationKind_from_str_opt kind \<noteq> Some Group
               then emit_error E sender_id ''Voice signaling is only supported in groups''
               else do {
                 c \<leftarrow> get_channel E channel_id;
                 (case c of
                    Inl _ \<Rightarrow> emit_error E sender_id ''Database error''
                  | Inr None \<Rightarrow> emit_error E sender_id ''Channel not found''
                  | Inr (Some channel) \<Rightarrow>
                      if ch_conversation_id channel \<noteq> conversation_id
                      then emit_error E sender_id ''Channel is not part of this conversation''
                      else if ch_kind channel \<noteq> ''voice''
                      then emit_error E sender_id ''Voice signaling is only valid for voice channels''
                      else do {
                        a \<leftarrow> is_user_in_voice_channel E channel_id sender_id;
                        (case a of
                           Inl _ \<Rightarrow> emit_error E sender_id ''Database error''
                         | Inr False \<Rightarrow> emit_error E sender_id ''Join the voice channel before signaling''
                         | Inr True \<Rightarrow> do {
                             b \<leftarrow> is_user_in_voice_channel E channel_id to_user_id;
                             (case b of
                                Inl _ \<Rightarrow> emit_error E sender_id ''Database error''
                              | Inr False \<Rightarrow> emit_error E sender_id ''Target user is not in this voice channel''
                              | Inr True \<Rightarrow> k)
                           })
                      })
               })
        })
   }"

definition handle_voice_signal ::
  "('w, 'tx, 'n) srv_env \<Rightarrow> Uuid \<Rightarrow> Uuid \<Rightarrow> Uuid \<Rightarrow> Uuid \<Rightarrow> 'n json \<Rightarrow> ('w, 'tx, 'n, unit) act" where
  "handle_voice_signal E sender_id conversation_id channel_id to_user_id signal =
     (if (case sv_value_to_json E signal of Some encoded \<Rightarrow> MAX_SIGNAL_SIZE < length encoded | None \<Rightarrow> False)
      then emit_error E sender_id ''Voice signal payload too large (max 64 KB)''
      else if \<not> signal_type_ok signal
      then emit_error E sender_id
        (''Voice signal must have a 'type' field with value 'offer', 'answer', or 'ice-candidate'' @ [CHR 0x27])
      else voice_checks E sender_id conversation_id channel_id to_user_id
        (case sv_to_json E (VoiceSignal conversation_id channel_id sender_id signal) of
           Some json \<Rightarrow> do { hub_send_to E to_user_id (ws_text json); State_Monad.return () }
         | None \<Rightarrow> State_Monad.return ()))"

definition voice_session_left :: "('w, 'tx, 'n) srv_env \<Rightarrow> Uuid \<Rightarrow> Uuid \<Rightarrow> Uuid \<Rightarrow> 'n json" where
  "voice_session_left E conversation_id channel_id user_id =
     JObject [(''type'', JString ''voice_session_left''), (''group_id'', JString (sv_uuid_to_string E conversation_id)),
       (''channel_id'', JString (sv_uuid_to_string E channel_id)), (''user_id'', JString (sv_uuid_to_string E user_id))]"

definition cleanup_user_voice_sessions :: "('w, 'tx, 'n) srv_env \<Rightarrow> Uuid \<Rightarrow> ('w, 'tx, 'n, unit) act" where
  "cleanup_user_voice_sessions E user_id = do {
     r \<leftarrow> leave_all_user_voice_sessions E user_id;
     (case r of
        Inl _ \<Rightarrow> State_Monad.return ()
      | Inr removed_sessions \<Rightarrow> for_each (\<lambda>(channel_id, conversation_id). do {
          modify (\<lambda>s. s\<lparr>st_canvas_authority := clear_on_leave user_id channel_id (st_canvas_authority s)\<rparr>);
          ids \<leftarrow> get_member_ids_cached E conversation_id;
          (case ids of
             Inl _ \<Rightarrow> State_Monad.return ()
           | Inr member_ids \<Rightarrow>
               (case sv_value_to_json E (voice_session_left E conversation_id channel_id user_id) of
                  Some json \<Rightarrow> hub_broadcast_json E member_ids json None
                | None \<Rightarrow> State_Monad.return ()))
        }) removed_sessions)
   }"

section \<open>\<open>dispatch.rs\<close>\<close>

definition MAX_WS_FRAME_BYTES :: nat where "MAX_WS_FRAME_BYTES = 65536"
definition MAX_VOICE_SIGNAL_BYTES :: nat where "MAX_VOICE_SIGNAL_BYTES = 8 * 1024"
definition MAX_CANVAS_PAYLOAD_BYTES :: nat where "MAX_CANVAS_PAYLOAD_BYTES = 16 * 1024"
definition usize_MAX :: nat where "usize_MAX = 2 ^ 64 - 1"

definition json_bytes :: "('w, 'tx, 'n) srv_env \<Rightarrow> 'n json \<Rightarrow> nat" where
  "json_bytes E v = (case sv_value_to_json E v of Some s \<Rightarrow> length s | None \<Rightarrow> usize_MAX)"

definition dispatch_message ::
  "('w, 'tx, 'n) srv_env \<Rightarrow> Uuid \<Rightarrow> device_id \<Rightarrow> string \<Rightarrow> 'n ClientMessage \<Rightarrow> ('w, 'tx, 'n, unit) act" where
  "dispatch_message E sender_id sender_device_id sender_username msg =
     (case msg of
        SendMessage q \<Rightarrow> handle_send_message E sender_id sender_device_id sender_username q
      | ClientTyping conversation_id channel_id \<Rightarrow> handle_typing E sender_id sender_username conversation_id channel_id
      | ClientReadReceipt conversation_id \<Rightarrow> handle_read_receipt E sender_id conversation_id
      | ClientVoiceSignal conversation_id channel_id to_user_id signal \<Rightarrow>
          if MAX_VOICE_SIGNAL_BYTES < json_bytes E signal
          then emit_error E sender_id (''voice signal too large ('' @ dec_string (json_bytes E signal) @ '' bytes, max ''
                 @ dec_string MAX_VOICE_SIGNAL_BYTES @ '')'')
          else handle_voice_signal E sender_id conversation_id channel_id to_user_id signal
      | ClientKeyReset conversation_id \<Rightarrow> handle_broadcast_event E sender_id sender_username conversation_id KeyReset
      | ClientCallStarted conversation_id \<Rightarrow> handle_broadcast_event E sender_id sender_username conversation_id CallStarted
      | ClientCanvasEvent channel_id kind payload \<Rightarrow>
          if MAX_CANVAS_PAYLOAD_BYTES < json_bytes E payload
          then emit_error E sender_id (''canvas payload too large ('' @ dec_string (json_bytes E payload) @ '' bytes, max ''
                 @ dec_string MAX_CANVAS_PAYLOAD_BYTES @ '')'')
          else if 64 < length kind then emit_error E sender_id ''canvas event kind too long''
          else handle_canvas_event E sender_id sender_device_id channel_id kind payload)"

definition handle_text_message ::
  "('w, 'tx, 'n) srv_env \<Rightarrow> string \<Rightarrow> Uuid \<Rightarrow> device_id \<Rightarrow> string \<Rightarrow> ('w, 'tx, 'n, unit) act" where
  "handle_text_message E frame sender_id sender_device_id sender_username =
     (if MAX_WS_FRAME_BYTES < length frame
      then emit_error E sender_id (''Message too large ('' @ dec_string (length frame) @ '' bytes, max ''
             @ dec_string MAX_WS_FRAME_BYTES @ '')'')
      else case sv_from_json E frame of
        None \<Rightarrow> emit_error E sender_id ''Invalid message''
      | Some msg \<Rightarrow> dispatch_message E sender_id sender_device_id sender_username msg)"

section \<open>\<open>handler.rs\<close>\<close>

definition HEARTBEAT_PAYLOAD :: string where "HEARTBEAT_PAYLOAD = ''{\"type\":\"heartbeat\"}''"

text \<open>
  The column that \<open>touch_user_voice_sessions\<close> sets is read by no modelled query; the statement
  remains as a statement that may fail.
\<close>

definition touch_user_voice_sessions :: "('w, 'tx, 'n) srv_env \<Rightarrow> Uuid \<Rightarrow> ('w, 'tx, 'n, sqlx_error + unit) act" where
  "touch_user_voice_sessions E user_id = execute E (\<lambda>p. p)"

definition update_last_seen :: "('w, 'tx, 'n) srv_env \<Rightarrow> Uuid \<Rightarrow> device_id \<Rightarrow> ('w, 'tx, 'n, sqlx_error + unit) act" where
  "update_last_seen E user_id device_id = do {
     now \<leftarrow> draw (sv_utc_now E);
     execute E (\<lambda>p. p\<lparr>tb_identity_keys := map (\<lambda>r.
       if ir_user_id r = user_id \<and> ir_device_id r = device_id \<and> \<not> ir_revoked r then r\<lparr>ir_last_seen := Some now\<rparr> else r)
       (tb_identity_keys p)\<rparr>)
   }"

definition session_start ::
  "('w, 'tx, 'n) srv_env \<Rightarrow> Uuid \<Rightarrow> device_id \<Rightarrow> string \<Rightarrow> 'tx \<Rightarrow> ('w, 'tx, 'n, unit) act" where
  "session_start E user_id device_id username tx = do {
     modify (\<lambda>s. s\<lparr>st_hub := register user_id device_id tx (st_hub s)\<rparr>);
     broadcast_presence E user_id username ''online'';
     send_presence_snapshot E user_id;
     update_last_seen E user_id device_id;
     deliver_undelivered_messages E user_id device_id
   }"

definition heartbeat_tick :: "('w, 'tx, 'n) srv_env \<Rightarrow> Uuid \<Rightarrow> device_id \<Rightarrow> ('w, 'tx, 'n, bool) act" where
  "heartbeat_tick E user_id device_id = do {
     hub_send_to_device E user_id device_id (WsPing []);
     touch_user_voice_sessions E user_id;
     hub_send_to_device E user_id device_id (ws_text HEARTBEAT_PAYLOAD)
   }"

definition session_end :: "('w, 'tx, 'n) srv_env \<Rightarrow> Uuid \<Rightarrow> device_id \<Rightarrow> string \<Rightarrow> ('w, 'tx, 'n, unit) act" where
  "session_end E user_id device_id username = do {
     modify (\<lambda>s. s\<lparr>st_hub := unregister user_id device_id (st_hub s)\<rparr>);
     cleanup_user_voice_sessions E user_id;
     broadcast_presence E user_id username ''offline''
   }"

text \<open>
  The receive loop works on a pair of a world and a hub; here the world is the whole state, whose
  own hub the pair replaces.
\<close>

definition connection ::
  "('w, 'tx, 'n) srv_env \<Rightarrow> Uuid \<Rightarrow> device_id \<Rightarrow> string \<Rightarrow> (('w, 'tx, 'n) AppState, 'tx) ws_conn" where
  "connection E user_id device_id username =
     \<lparr>wc_env =
        \<lparr>we_try_send = \<lambda>s tx msg. let (w, r) = we_try_send (sv_ws E) (st_world s) tx msg in (s\<lparr>st_world := w\<rparr>, r),
         we_instant_now = \<lambda>s. let (w, t) = we_instant_now (sv_ws E) (st_world s) in (s\<lparr>st_world := w\<rparr>, t)\<rparr>,
      wc_error_json = \<lambda>m. map_option string_bytes (sv_to_json E (Error m)),
      wc_dispatch = \<lambda>frame (s, h).
        let s' = snd (run_state (handle_text_message E (map (\<lambda>b. char_of (unat b)) frame) user_id device_id username) (s\<lparr>st_hub := h\<rparr>))
        in (s', st_hub s'),
      wc_user_id = user_id\<rparr>"

definition session_receive ::
  "('w, 'tx, 'n) srv_env \<Rightarrow> Uuid \<Rightarrow> device_id \<Rightarrow> string \<Rightarrow> (instant \<times> WsMessage option) list \<Rightarrow> ('w, 'tx, 'n, unit) act" where
  "session_receive E user_id device_id username frames = do {
     start \<leftarrow> instant_now E;
     modify (\<lambda>s. let (s', h) = run_receive_loop (connection E user_id device_id username) start frames (s, st_hub s)
                 in s'\<lparr>st_hub := h\<rparr>)
   }"

definition handle_socket ::
  "('w, 'tx, 'n) srv_env \<Rightarrow> Uuid \<Rightarrow> device_id \<Rightarrow> string \<Rightarrow> 'tx \<Rightarrow> (instant \<times> WsMessage option) list \<Rightarrow> ('w, 'tx, 'n, unit) act" where
  "handle_socket E user_id device_id username tx frames = do {
     session_start E user_id device_id username tx;
     session_receive E user_id device_id username frames;
     session_end E user_id device_id username
   }"

end
