(* ===== verification/Srv_SendProps.thy ===== *)
theory Srv_SendProps
  imports Srv_Reference
begin

text \<open>
  What a run of \<open>handle_send_message\<close> does to the tables, for every behaviour of the database, the
  queues and the clock.
\<close>

section \<open>Stages of the send path\<close>

lemma keeps_reject [keeps_intros]: "keeps (on_pool P) (reject E u m a)"
  unfolding reject_def by (intro keeps_intros)

lemma keeps_pool_eq:
  assumes "\<And>P. keeps (on_pool P) m"
  shows "wp m (\<lambda>_ t. st_pool t = st_pool s) s"
  using keepsD [OF assms [of "\<lambda>p. p = st_pool s"], of s] by (simp add: on_pool_def [abs_def])

lemma wp_rejectI: "(\<And>t. st_pool t = st_pool s \<Longrightarrow> Q a t) \<Longrightarrow> wp (reject E u m a) Q s"
proof -
  assume Q: "\<And>t. st_pool t = st_pool s \<Longrightarrow> Q a t"
  have "wp (emit_error E u m) (\<lambda>_ t. st_pool t = st_pool s) s"
    by (intro keeps_pool_eq keeps_intros)
  then show ?thesis unfolding reject_def by (simp add: wp_simps) (erule wp_mono, simp add: Q)
qed

lemma wp_payload_errorI: "(\<And>t. st_pool t = st_pool s \<Longrightarrow> Q () t) \<Longrightarrow> wp (send_payload_error E u) Q s"
  unfolding send_payload_error_def
  by (rule wp_mono [where P = "\<lambda>_ t. st_pool t = st_pool s"]) (auto intro: keeps_pool_eq keeps_intros)

lemmas query_defs = is_member_def get_conversation_member_ids_def get_conversation_security_def get_channel_def
  get_default_text_channel_def are_contacts_def get_blockers_of_def

text \<open>Who may write: a current member, or, for a message addressed to a user, an accepted contact.\<close>

definition may_send :: "'n Pool \<Rightarrow> Uuid \<Rightarrow> SendRequest \<Rightarrow> Uuid \<Rightarrow> bool" where
  "may_send p sender_id q conv_id \<longleftrightarrow>
     (case sq_conversation_id q of
        Some cid \<Rightarrow> conv_id = cid \<and> active_member p cid sender_id
      | None \<Rightarrow> (\<exists>peer. sq_to_user_id q = Some peer \<and> contacts p sender_id peer))"

text \<open>Resolving the conversation may add a direct conversation and touches nothing else.\<close>

definition dm_extension :: "'n Pool \<Rightarrow> 'n Pool \<Rightarrow> bool" where
  "dm_extension p p' \<longleftrightarrow>
     p'\<lparr>tb_conversations := [], tb_members := [], tb_direct := []\<rparr> = p\<lparr>tb_conversations := [], tb_members := [], tb_direct := []\<rparr>"

lemma dm_extension_refl [simp]: "dm_extension p p"
  by (simp add: dm_extension_def)

lemma keeps_dm_create: "keeps (on_pool (dm_extension p)) (find_or_create_dm_conversation E a b)"
proof -
  have "keeps (on_pool (dm_extension p)) (execute E (direct_conversation_rows now c a b k))" for now c k
    by (rule keeps_execute) (auto simp: dm_extension_def direct_conversation_rows_def)
  moreover have "keeps (on_pool (dm_extension p)) (query E (\<lambda>p. (p, r p)))" for r :: "_ \<Rightarrow> sqlx_error + unit"
    by (rule keeps_query) simp
  ultimately show ?thesis
    unfolding find_or_create_dm_conversation_def Let_def by (intro keeps_intros)
qed

lemma wp_resolve_conversation:
  "wp (resolve_conversation E u (sq_conversation_id q) (sq_to_user_id q))
     (\<lambda>r t. dm_extension (st_pool s) (st_pool t) \<and> (\<forall>c. r = Some c \<longrightarrow> may_send (st_pool s) u q c)) s"
proof (cases "sq_conversation_id q")
  case (Some cid)
  then show ?thesis
    by (auto simp: resolve_conversation_def wp_simps query_defs may_send_def
        intro!: wp_select wp_rejectI split: bool.split)
next
  case None
  note none = None
  show ?thesis
  proof (cases "sq_to_user_id q")
    case None
    then show ?thesis using none by (auto simp: resolve_conversation_def intro!: wp_rejectI)
  next
    case (Some peer)
    have create: "wp (find_or_create_dm_conversation E u peer) (\<lambda>_ t. dm_extension (st_pool s) (st_pool t)) t"
      if "st_pool t = st_pool s" for t
      using keepsD [OF keeps_dm_create, of "st_pool s" t E u peer] that by (simp add: on_pool_def [abs_def])
    show ?thesis using none Some
      by (auto simp: resolve_conversation_def wp_simps query_defs may_send_def
          intro!: wp_select wp_rejectI wp_mono [OF create] split: bool.split sum.split)
  qed
qed

text \<open>The conversation, its kind and the channel that the security check lets through.\<close>

definition text_channel :: "'n Pool \<Rightarrow> Uuid \<Rightarrow> Uuid \<Rightarrow> bool" where
  "text_channel p conv_id channel_id \<longleftrightarrow>
     list_ex (\<lambda>c. ch_id c = channel_id \<and> ch_conversation_id c = conv_id \<and> ch_kind c = ''text'' \<and> \<not> ch_deleted c) (tb_channels p)"

definition channel_ok :: "'n Pool \<Rightarrow> Uuid \<Rightarrow> ConversationKind option \<Rightarrow> Uuid option \<Rightarrow> bool" where
  "channel_ok p conv_id kind ch \<longleftrightarrow>
     (if kind = Some Group then case ch of Some c \<Rightarrow> text_channel p conv_id c | None \<Rightarrow> False else ch = None)"

definition secure_target ::
  "'n Pool \<Rightarrow> Uuid \<Rightarrow> ConversationSecurityRow \<Rightarrow> ConversationKind option \<Rightarrow> Uuid option \<Rightarrow> bool" where
  "secure_target p conv_id sec kind ch \<longleftrightarrow>
     (\<exists>c. conversation p conv_id = Some c \<and> cs_is_encrypted sec = cv_is_encrypted c \<and>
        cs_disappearing_ttl_seconds sec = cv_disappearing_ttl_seconds c \<and> kind = ConversationKind_from_str_opt (cv_kind c)) \<and>
     (kind = Some Direct \<longrightarrow> cs_is_encrypted sec) \<and> channel_ok p conv_id kind ch"

lemma first_in_set: "first xs = Some x \<Longrightarrow> x \<in> set xs"
  by (cases xs) (auto simp: first_def)

lemma find_SomeD: "find P xs = Some x \<Longrightarrow> x \<in> set xs \<and> P x"
  by (induction xs) (auto split: if_splits)

lemma wp_resolve_channel:
  "wp (resolve_channel E u conv_id channel_id kind)
     (\<lambda>r t. st_pool t = st_pool s \<and> (\<forall>ch. r = Some ch \<longrightarrow> channel_ok (st_pool s) conv_id kind ch)) s"
proof -
  have first: "text_channel p conv_id (ch_id c)"
    if "first (sort_key f (sort_key g (filter (\<lambda>c. ch_conversation_id c = conv_id \<and> ch_kind c = ''text'' \<and> \<not> ch_deleted c) (tb_channels p)))) = Some c"
    for f g :: "ChannelRow \<Rightarrow> int" and c and p :: "'c Pool"
    using first_in_set [OF that] by (auto simp: text_channel_def list_ex_iff)
  show ?thesis
    by (cases channel_id)
      (auto simp: resolve_channel_def validate_explicit_channel_def resolve_default_text_channel_def query_defs wp_simps
        channel_ok_def text_channel_def list_ex_iff
        intro!: wp_select wp_rejectI first split: option.split dest!: first find_SomeD)
qed

lemma wp_validate_conversation_security:
  "wp (validate_conversation_security E u conv_id channel_id)
     (\<lambda>r t. st_pool t = st_pool s \<and> (\<forall>sec k ch. r = Some (sec, k, ch) \<longrightarrow> secure_target (st_pool s) conv_id sec k ch)) s"
proof -
  have channel: "wp (resolve_channel E u conv_id cid kind)
      (\<lambda>r t. st_pool t = st_pool s \<and> (\<forall>ch. r = Some ch \<longrightarrow> channel_ok (st_pool s) conv_id kind ch)) t"
    if "st_pool t = st_pool s" for t kind cid
    using wp_resolve_channel [of E u conv_id cid kind t] that by simp
  show ?thesis
    unfolding validate_conversation_security_def Let_def
    by (auto simp: query_defs wp_simps secure_target_def
        intro!: wp_select wp_rejectI wp_mono [OF channel] split: option.split)
qed

text \<open>What the gates of an encrypted conversation establish.\<close>

definition payload_ok :: "('w, 'tx, 'n) srv_env \<Rightarrow> 'n Pool \<Rightarrow> Uuid \<Rightarrow> Uuid \<Rightarrow> ConversationKind option \<Rightarrow> SendRequest \<Rightarrow> bool" where
  "payload_ok E p sender_id conv_id kind q \<longleftrightarrow>
     (case kind of
        Some Direct \<Rightarrow> is_valid_ciphertext_shape E (sq_content q) \<and>
          (\<exists>rdc. sq_recipient_device_contents q = Some rdc \<and> rdc \<noteq> [] \<and> list_all (\<lambda>(_, devices). devices_ok E devices) rdc \<and>
             list_all (\<lambda>m. m = sender_id \<or> hm_get rdc (sv_uuid_to_string E m) \<noteq> None) (active_member_ids p conv_id))
      | Some Group \<Rightarrow> is_valid_ciphertext_shape E (sq_content q) \<and> active_member p conv_id sender_id
      | None \<Rightarrow> True)"

lemma wp_validate_encrypted_payload:
  "wp (validate_encrypted_payload E u kind content rdc)
     (\<lambda>r t. st_pool t = st_pool s \<and> (r \<longrightarrow>
        (kind \<noteq> None \<longrightarrow> is_valid_ciphertext_shape E content) \<and>
        (kind = Some Direct \<longrightarrow> (\<exists>m. rdc = Some m \<and> m \<noteq> [] \<and> list_all (\<lambda>(_, devices). devices_ok E devices) m)))) s"
proof (cases kind)
  case None
  then show ?thesis by (simp add: validate_encrypted_payload_def wp_simps)
next
  case (Some k)
  then show ?thesis
    by (cases k; cases rdc)
      (auto simp: validate_encrypted_payload_def validate_dm_canonical_content_def validate_dm_device_map_present_def
        validate_dm_per_device_ciphertexts_def wp_simps intro!: wp_payload_errorI)
qed

lemma wp_gates:
  "wp (gates E u conv_id sec kind q)
     (\<lambda>r t. st_pool t = st_pool s \<and> (r \<and> cs_is_encrypted sec \<longrightarrow> payload_ok E (st_pool s) u conv_id kind q)) s"
proof (cases "cs_is_encrypted sec")
  case False
  then show ?thesis by (simp add: gates_def wp_simps)
next
  case True
  have group: "wp (enforce_group_sender_membership E u conv_id)
      (\<lambda>r t. st_pool t = st_pool s \<and> (r \<longrightarrow> active_member (st_pool s) conv_id u)) t" if "st_pool t = st_pool s" for t
    using that by (auto simp: enforce_group_sender_membership_def query_defs wp_simps intro!: wp_select wp_rejectI split: bool.split)
  have dm: "wp (enforce_dm_recipient_includes_peer E u conv_id rdc)
      (\<lambda>r t. st_pool t = st_pool s \<and> (r \<longrightarrow>
         list_all (\<lambda>m. m = u \<or> hm_get rdc (sv_uuid_to_string E m) \<noteq> None) (active_member_ids (st_pool s) conv_id))) t"
    if "st_pool t = st_pool s" for t rdc
    using that by (auto simp: enforce_dm_recipient_includes_peer_def query_defs wp_simps list_ex_iff list_all_iff
        intro!: wp_select wp_rejectI)
  note steps = wp_mono [OF wp_validate_encrypted_payload] wp_mono [OF group] wp_mono [OF dm]
  have "kind = None \<or> kind = Some Group \<or> kind = Some Direct" by (cases kind) (auto intro: ConversationKind.exhaust)
  then show ?thesis using True
    by (elim disjE; cases "sq_recipient_device_contents q")
      (auto simp: gates_def wp_simps payload_ok_def intro!: steps split: if_splits)
qed

section \<open>The tables after the write\<close>

definition ms_core :: "MessageRow \<Rightarrow> MessageRow" where
  "ms_core m = m\<lparr>ms_delivered := False\<rparr>"

text \<open>
  \<open>grown A D p p'\<close>: from \<open>p\<close> to \<open>p'\<close> only message rows that satisfy \<open>A\<close> and device contents that
  satisfy \<open>D\<close> were added, the \<open>delivered\<close> flag apart, and who is who is as before.
\<close>

definition grown ::
  "(MessageRow \<Rightarrow> bool) \<Rightarrow> ((Uuid \<times> Uuid \<times> device_id) \<times> string \<Rightarrow> bool) \<Rightarrow> 'n Pool \<Rightarrow> 'n Pool \<Rightarrow> bool" where
  "grown A D p p' \<longleftrightarrow>
     tb_conversations p' = tb_conversations p \<and> tb_members p' = tb_members p \<and> tb_channels p' = tb_channels p \<and>
     tb_blocked p' = tb_blocked p \<and>
     (\<forall>m\<in>set (tb_messages p'). ms_core m \<in> ms_core ` set (tb_messages p) \<or> A (ms_core m)) \<and>
     (\<forall>x\<in>set (tb_device_contents p'). x \<in> set (tb_device_contents p) \<or> D x)"

lemma grown_refl [simp]: "grown A D p p"
  by (simp add: grown_def)

lemma grown_fields:
  assumes "grown A D p q" "tb_conversations r = tb_conversations q" "tb_members r = tb_members q"
    "tb_channels r = tb_channels q" "tb_blocked r = tb_blocked q" "tb_messages r = tb_messages q"
    "tb_device_contents r = tb_device_contents q"
  shows "grown A D p r"
  using assms by (simp add: grown_def)

lemma insert_absent_set: "set (insert_absent kvs t) \<subseteq> set t \<union> set kvs"
proof -
  have "set (fold (\<lambda>(k, v) t. case hm_get t k of Some _ \<Rightarrow> t | None \<Rightarrow> t @ [(k, v)]) kvs t) \<subseteq> set t \<union> set kvs"
  proof (induction kvs arbitrary: t)
    case (Cons kv kvs)
    show ?case using Cons.IH [of "case hm_get t (fst kv) of Some _ \<Rightarrow> t | None \<Rightarrow> t @ [kv]"]
      by (cases kv) (auto split: option.splits)
  qed simp
  then show ?thesis by (simp add: insert_absent_def)
qed

lemma keeps_grown_mark_delivered [keeps_intros]: "keeps (on_pool (grown A D p)) (mark_delivered E ids)"
  unfolding mark_delivered_def by (rule keeps_execute) (auto simp: grown_def ms_core_def)

lemma keeps_grown_ledger [keeps_intros]: "keeps (on_pool (grown A D p)) (mark_devices_delivered_pairs E mid ps)"
  unfolding mark_devices_delivered_pairs_def
  by (intro keeps_intros keeps_execute) (auto elim: grown_fields)

lemma keeps_grown_device_contents:
  assumes "\<And>u d c. (u, d, c) \<in> set entries \<Longrightarrow> D ((mid, u, d), c)"
  shows "keeps (on_pool (grown A D p)) (store_device_contents E mid entries)"
  unfolding store_device_contents_def
proof (intro keeps_intros keeps_execute)
  fix q assume q: "grown A D p q"
  show "grown A D p (q\<lparr>tb_device_contents := insert_absent (map (\<lambda>(u, d, c). ((mid, u, d), c)) entries) (tb_device_contents q)\<rparr>)"
    using q insert_absent_set [of "map (\<lambda>(u, d, c). ((mid, u, d), c)) entries" "tb_device_contents q"] assms
    by (fastforce simp: grown_def)
qed

lemma keeps_grown_mentions [keeps_intros]: "keeps (on_pool (grown A D p)) (persist_mentions E mid c u text_content enc)"
proof -
  have "keeps (on_pool (grown A D p)) (insert_mention_rows E mid ts)" for ts
    unfolding insert_mention_rows_def Let_def by (rule keeps_query) (auto elim: grown_fields)
  then show ?thesis
    unfolding persist_mentions_def extract_and_persist_def sender_is_member_def resolve_mention_targets_def
      resolve_broadcast_members_def resolve_username_mentions_def Let_def
    by (intro keeps_intros)
qed

lemma keeps_grown_store_message:
  assumes "\<And>row. ms_conversation_id row = conv \<Longrightarrow> ms_channel_id row = ch \<Longrightarrow> ms_sender_id row = u \<Longrightarrow>
    ms_sender_device_id row = d \<Longrightarrow> ms_content row = body \<Longrightarrow> A row"
  shows "keeps (on_pool (grown A D p)) (store_message E conv ch u d body reply ttl cmid thr)"
  unfolding store_message_def
proof (intro keeps_intros keeps_query)
  fix expires_at mid created_at q
  assume "grown A D p q"
  then show "grown A D p (fst (insert_message \<lparr>ms_id = mid, ms_conversation_id = conv, ms_channel_id = ch,
      ms_sender_id = u, ms_sender_device_id = d, ms_content = body, ms_created_at = created_at, ms_delivered = False,
      ms_reply_to_id = reply, ms_expires_at = expires_at, ms_thread_root_id = thr, ms_edited_at = None, ms_pinned_by_id = None, ms_pinned_at = None, ms_deleted = False\<rparr> q))"
    using assms by (auto simp: insert_message_def Let_def grown_def ms_core_def)
qed

text \<open>A ciphertext that the request carries for a device of a recipient.\<close>

definition wire_entry :: "('w, 'tx, 'n) srv_env \<Rightarrow> RecipientDeviceContents \<Rightarrow> Uuid \<Rightarrow> device_id \<Rightarrow> string \<Rightarrow> bool" where
  "wire_entry E rdc u d c \<longleftrightarrow>
     (\<exists>us devs ds. (us, devs) \<in> set rdc \<and> (ds, c) \<in> set devs \<and> sv_uuid_parse E us = Some u \<and> sv_i32_parse E ds = Some d)"

lemma hm_insert_set: "set (hm_insert k v m) \<subseteq> insert (k, v) (set m)"
  unfolding hm_insert_def using update_Some_unfold by (induction m) auto

lemma parse_devices_set:
  "(d, c) \<in> set (parse_devices E devs) \<Longrightarrow> \<exists>ds. (ds, c) \<in> set devs \<and> sv_i32_parse E ds = Some d"
proof -
  have "\<forall>x\<in>set (fold (\<lambda>(ds, c) m. case sv_i32_parse E ds of Some d \<Rightarrow> hm_insert d c m | None \<Rightarrow> m) devs acc).
      x \<in> set acc \<or> (\<exists>ds. (ds, snd x) \<in> set devs \<and> sv_i32_parse E ds = Some (fst x))" for acc
  proof (induction devs arbitrary: acc)
    case (Cons y devs)
    obtain ds c where y: "y = (ds, c)" by fastforce
    show ?case
    proof (cases "sv_i32_parse E ds")
      case None
      then show ?thesis using Cons.IH [of acc] y by fastforce
    next
      case (Some d)
      then show ?thesis using Cons.IH [of "hm_insert d c acc"] hm_insert_set [of d c acc] y by fastforce
    qed
  qed simp
  from this [of "[]"] show "(d, c) \<in> set (parse_devices E devs) \<Longrightarrow> ?thesis"
    by (fastforce simp: parse_devices_def)
qed

lemma from_wire_entry:
  assumes "(u, devs) \<in> set (from_wire E rdc)" "(d, c) \<in> set devs"
  shows "wire_entry E rdc u d c"
proof -
  have "\<forall>x\<in>set (fold (\<lambda>(us, ws) m. case sv_uuid_parse E us of Some u \<Rightarrow> hm_insert u (parse_devices E ws) m | None \<Rightarrow> m) rdc acc).
      x \<in> set acc \<or> (\<exists>us ws. (us, ws) \<in> set rdc \<and> sv_uuid_parse E us = Some (fst x) \<and> snd x = parse_devices E ws)" for acc
  proof (induction rdc arbitrary: acc)
    case (Cons y rdc)
    obtain us ws where y: "y = (us, ws)" by fastforce
    show ?case
    proof (cases "sv_uuid_parse E us")
      case None
      then show ?thesis using Cons.IH [of acc] y by fastforce
    next
      case (Some v)
      then show ?thesis using Cons.IH [of "hm_insert v (parse_devices E ws) acc"] hm_insert_set [of v "parse_devices E ws" acc] y
        by fastforce
    qed
  qed simp
  from this [of "[]"] assms(1) obtain us ws
    where "(us, ws) \<in> set rdc" "sv_uuid_parse E us = Some u" "devs = parse_devices E ws"
    by (fastforce simp: from_wire_def)
  then show ?thesis using parse_devices_set assms(2) unfolding wire_entry_def by blast
qed

lemma device_entries_wire:
  "(u, d, c) \<in> set (device_entries blockers (from_wire E rdc)) \<Longrightarrow> wire_entry E rdc u d c"
  by (auto simp: device_entries_def intro: from_wire_entry)

lemma keeps_send_frame [keeps_intros]: "keeps (on_pool P) (send_frame E u d m)"
  unfolding send_frame_def by (intro keeps_intros)

lemma keeps_send_each_device [keeps_intros]: "keeps (on_pool P) (send_each_device E u ms)"
  by (induction ms rule: send_each_device.induct) (auto intro!: keeps_intros)

lemma keeps_deliver_members [keeps_intros]: "keeps (on_pool P) (deliver_members E js lm ms)"
proof (induction ms)
  case (Cons m ms)
  have "keeps (on_pool P) (deliver_to_member E m js lm)"
    unfolding deliver_to_member_def by (intro keeps_intros)
  with Cons show ?case by (auto intro!: keeps_intros)
qed (simp add: keeps_intros)

lemma keeps_filter_revoked [keeps_intros]: "keeps (on_pool P) (filter_revoked_devices E rdc)"
  unfolding filter_revoked_devices_def get_revoked_devices_for_users_def by (intro keeps_intros)

lemma keeps_push_offline [keeps_intros]: "keeps (on_pool P) (push_offline E c m enc grp nmf us)"
  unfolding push_offline_def filter_thread_push_recipients_def get_thread_subscribers_def get_mentioned_user_ids_def
    spawn_push_notifications_def Let_def
  by (intro keeps_intros keeps_modify) simp_all

lemma keeps_grown_fanout [keeps_intros]: "keeps (on_pool (grown A D p)) (fanout_message E u d c msg mid enc grp rdc)"
  unfolding fanout_message_def deliver_to_sender_other_devices_def send_delivery_confirmation_def
  by (intro keeps_intros)

lemma keeps_grown_store_and_fan_out:
  assumes row: "\<And>row. ms_conversation_id row = conv \<Longrightarrow> ms_channel_id row = ch \<Longrightarrow> ms_sender_id row = u \<Longrightarrow>
      ms_sender_device_id row = Some d \<Longrightarrow> ms_content row = sq_content q \<Longrightarrow> A row"
    and entry: "\<And>rdc mid r dev c. sq_recipient_device_contents q = Some rdc \<Longrightarrow> wire_entry E rdc r dev c \<Longrightarrow> D ((mid, r, dev), c)"
  shows "keeps (on_pool (grown A D p)) (store_and_fan_out E u d name conv sec kind ch q)"
proof -
  have "keeps (on_pool (grown A D p)) (persist_device_contents E mid u (from_wire E rdc))"
    if "sq_recipient_device_contents q = Some rdc" for mid rdc
    unfolding persist_device_contents_def Let_def
    using that by (intro keeps_intros keeps_grown_device_contents entry) (auto dest: device_entries_wire)
  moreover have "keeps (on_pool (grown A D p)) (lookup_reply_context E r c)" for r c
    unfolding lookup_reply_context_def lookup_reply_context_row_def by (intro keeps_intros)
  ultimately show ?thesis
    unfolding store_and_fan_out_def store_and_confirm_def send_message_sent_confirmation_def deliver_self_messages_def Let_def
    by (intro keeps_intros keeps_grown_store_message row keeps_modify) (auto simp: keeps_intros)
qed

section \<open>Properties\<close>

definition admissible ::
  "('w, 'tx, 'n) srv_env \<Rightarrow> 'n Pool \<Rightarrow> 'n Pool \<Rightarrow> Uuid \<Rightarrow> SendRequest \<Rightarrow> Uuid \<Rightarrow> Uuid option \<Rightarrow> bool" where
  "admissible E p p' sender_id q conv_id channel_id \<longleftrightarrow>
     \<not> blank (sq_content q) \<and> length (sq_content q) \<le> 10000 \<and> may_send p sender_id q conv_id \<and>
     (\<exists>c. conversation p' conv_id = Some c \<and>
        (let kind = ConversationKind_from_str_opt (cv_kind c) in
         (kind = Some Direct \<longrightarrow> cv_is_encrypted c) \<and> channel_ok p' conv_id kind channel_id \<and>
         (cv_is_encrypted c \<longrightarrow> payload_ok E p' sender_id conv_id kind q)))"

text \<open>
  Every message row is an old one or a message of this sender and this request that is
  admissible; every per-device content is an old one or one that an admissible request carries.
\<close>

definition writes_admissible ::
  "('w, 'tx, 'n) srv_env \<Rightarrow> Uuid \<Rightarrow> device_id \<Rightarrow> SendRequest \<Rightarrow> 'n Pool \<Rightarrow> 'n Pool \<Rightarrow> bool" where
  "writes_admissible E u d q p p' \<longleftrightarrow>
     (\<forall>m\<in>set (tb_messages p'). ms_core m \<in> ms_core ` set (tb_messages p) \<or>
        ms_sender_id m = u \<and> ms_sender_device_id m = Some d \<and> ms_content m = sq_content q \<and>
        admissible E p p' u q (ms_conversation_id m) (ms_channel_id m)) \<and>
     (\<forall>((mid, r, dev), c)\<in>set (tb_device_contents p'). ((mid, r, dev), c) \<in> set (tb_device_contents p) \<or>
        (\<exists>rdc conv ch. sq_recipient_device_contents q = Some rdc \<and> wire_entry E rdc r dev c \<and>
           admissible E p p' u q conv ch))"

lemma writes_admissible_dm: "dm_extension p p' \<Longrightarrow> writes_admissible E u d q p p'"
  unfolding dm_extension_def
  by (drule arg_cong [where f = "\<lambda>r. (tb_messages r, tb_device_contents r)"]) (auto simp: writes_admissible_def)

lemma conversation_cong: "tb_conversations p' = tb_conversations p \<Longrightarrow> conversation p' = conversation p"
  by (simp add: conversation_def fun_eq_iff)

lemma admissible_later:
  assumes "grown A D p1 p'" and "secure_target p1 conv sec kind ch" and "may_send p u q conv"
    and "cs_is_encrypted sec \<Longrightarrow> payload_ok E p1 u conv kind q"
    and "\<not> blank (sq_content q)" "length (sq_content q) \<le> 10000"
  shows "admissible E p p' u q conv ch"
proof -
  have base: "conversation p' = conversation p1" "text_channel p' = text_channel p1" "active_member p' = active_member p1"
    "active_member_ids p' = active_member_ids p1"
    using assms(1) by (simp_all add: grown_def fun_eq_iff conversation_def text_channel_def active_member_def active_member_ids_def)
  have same: "conversation p' = conversation p1" "channel_ok p' = channel_ok p1" "payload_ok E p' = payload_ok E p1"
    unfolding channel_ok_def [abs_def] payload_ok_def [abs_def] base by simp_all
  show ?thesis using assms(2-) by (auto simp: admissible_def same secure_target_def Let_def)
qed

lemma wp_store_stage:
  assumes "secure_target (st_pool s1) conv sec kind ch" "may_send p u q conv"
    and "cs_is_encrypted sec \<Longrightarrow> payload_ok E (st_pool s1) u conv kind q"
    and "\<not> blank (sq_content q)" "length (sq_content q) \<le> 10000"
    and dm: "dm_extension p (st_pool s1)"
  shows "wp (store_and_fan_out E u d name conv sec kind ch q)
     (\<lambda>_ t. writes_admissible E u d q p (st_pool t)) s1"
proof -
  let ?A = "\<lambda>m. ms_sender_id m = u \<and> ms_sender_device_id m = Some d \<and> ms_content m = sq_content q \<and>
      ms_conversation_id m = conv \<and> ms_channel_id m = ch"
  let ?D = "\<lambda>((mid :: Uuid, r, dev), c). \<exists>rdc. sq_recipient_device_contents q = Some rdc \<and> wire_entry E rdc r dev c"
  have keep: "wp (store_and_fan_out E u d name conv sec kind ch q) (\<lambda>_. on_pool (grown ?A ?D (st_pool s1))) s1"
    by (intro keepsD keeps_grown_store_and_fan_out) (auto simp: on_pool_def)
  have old: "tb_messages (st_pool s1) = tb_messages p" "tb_device_contents (st_pool s1) = tb_device_contents p"
    using arg_cong [OF dm [unfolded dm_extension_def], of tb_messages]
      arg_cong [OF dm [unfolded dm_extension_def], of tb_device_contents] by simp_all
  show ?thesis
  proof (rule wp_mono [OF keep])
    fix a t assume "on_pool (grown ?A ?D (st_pool s1)) t"
    then have g: "grown ?A ?D (st_pool s1) (st_pool t)" by (simp add: on_pool_def)
    have adm: "admissible E p (st_pool t) u q conv ch"
      by (rule admissible_later [OF g assms(1-5)])
    have core: "ms_sender_id (ms_core m) = ms_sender_id m" "ms_sender_device_id (ms_core m) = ms_sender_device_id m"
      "ms_content (ms_core m) = ms_content m" "ms_conversation_id (ms_core m) = ms_conversation_id m"
      "ms_channel_id (ms_core m) = ms_channel_id m" for m by (simp_all add: ms_core_def)
    have m: "\<forall>m\<in>set (tb_messages (st_pool t)). ms_core m \<in> ms_core ` set (tb_messages p) \<or> ?A m"
      and d: "\<forall>x\<in>set (tb_device_contents (st_pool t)). x \<in> set (tb_device_contents p) \<or> ?D x"
      using g unfolding grown_def old core by auto
    show "writes_admissible E u d q p (st_pool t)"
      unfolding writes_admissible_def
      using m d adm by (auto split: prod.splits) blast+
  qed
qed

lemma wp_handle_send_message:
  fixes E :: "('w, 'tx, 'n) srv_env" and s :: "('w, 'tx, 'n) AppState"
  shows "wp (handle_send_message E u d name q) (\<lambda>_ t. writes_admissible E u d q (st_pool s) (st_pool t)) s"
proof -
  let ?Q = "\<lambda>_ t. writes_admissible E u d q (st_pool s) (st_pool t)"
  note refused = writes_admissible_dm [OF dm_extension_refl]
  have security: "wp (do {
      security \<leftarrow> validate_conversation_security E u conv_id (sq_channel_id q);
      (case security of None \<Rightarrow> State_Monad.return ()
       | Some (conv_security, conv_kind, ch) \<Rightarrow> do {
           passed \<leftarrow> gates E u conv_id conv_security conv_kind q;
           (if \<not> passed then State_Monad.return ()
            else store_and_fan_out E u d name conv_id conv_security conv_kind ch q) }) }) ?Q s1"
    if dm: "dm_extension (st_pool s) (st_pool s1)" and send: "may_send (st_pool s) u q conv_id"
      and body: "\<not> blank (sq_content q)" "length (sq_content q) \<le> 10000" for s1 conv_id
  proof -
    have gate: "wp (gates E u conv_id sec kind q) (\<lambda>passed. wp (if \<not> passed then State_Monad.return ()
          else store_and_fan_out E u d name conv_id sec kind ch q) ?Q) s2"
      if target: "secure_target (st_pool s1) conv_id sec kind ch" and s2: "st_pool s2 = st_pool s1" for sec kind ch s2
    proof (rule wp_mono [OF wp_gates])
      fix passed and s3 :: "('w, 'tx, 'n) AppState"
      assume g: "st_pool s3 = st_pool s2 \<and> (passed \<and> cs_is_encrypted sec \<longrightarrow> payload_ok E (st_pool s2) u conv_id kind q)"
      show "wp (if \<not> passed then State_Monad.return () else store_and_fan_out E u d name conv_id sec kind ch q) ?Q s3"
      proof (cases passed)
        case False
        then show ?thesis using g s2 dm by (simp add: wp_simps writes_admissible_dm)
      next
        case True
        then show ?thesis using g s2 dm send body target
          by (auto intro!: wp_store_stage)
      qed
    qed
    show ?thesis
      unfolding wp_bind
      by (rule wp_mono [OF wp_validate_conversation_security])
        (auto simp: wp_simps writes_admissible_dm [OF dm] intro!: gate split: option.split)
  qed
  show ?thesis
    unfolding handle_send_message_def validate_message_length_def
    by (auto simp: wp_simps refused MAX_MESSAGE_LENGTH_def not_less writes_admissible_dm
        intro!: wp_rejectI wp_mono [OF wp_resolve_conversation] security [unfolded wp_bind] split: option.split)
qed


text \<open>
  the gate on encrypted groups looks at the canonical content only. In this run a member of
  an encrypted group sends a shaped content together with a plaintext for a device of another
  member; the plaintext is stored as the per-device content of that device and put on its queue.
\<close>

theorem encrypted_group_devices_unchecked:
  "let q = ref_request ''GRP1:ab'' (Some [(''xx'', [(''x'', ''hi'')])]);
       s' = snd (run_state (handle_send_message ref_srv 1 1 ''u'' q) (ref_state (ref_pool True)))
   in \<not> is_valid_ciphertext_shape ref_srv ''hi'' \<and>
      ((50, 2, 1), ''hi'') \<in> set (tb_device_contents (st_pool s')) \<and>
      (21, ws_text ''{\"new\":\"hi\"}'') \<in> set (fst (st_world s'))"
  by code_simp

text \<open>
  the live frame of a thread reply names the message that the client replied to, the stored
  row the root of its thread: when the client answers a message that is itself a reply, the two
  differ, and recipients file the live frame under a thread that the history does not have.
\<close>

theorem live_frame_thread_root_unresolved:
  assumes "live_message p conv r = Some m" and "ms_thread_root_id m = Some thr" and "thr \<noteq> r"
    and "find (\<lambda>x. ms_id x = r \<and> ms_conversation_id x = conv) (tb_messages p) = Some m"
    and "ms_conversation_id row = conv" "ms_thread_root_id row = Some r" "ms_reply_to_id row = None"
    and "\<not> list_ex (\<lambda>x. ms_id x = ms_id row) (tb_messages p)" and "sq_thread_root_id q = Some r"
  shows "\<exists>stored nmf. snd (insert_message row p) = Inr stored \<and> ms_thread_root_id stored = Some thr \<and>
    NewMessageFields_extract (new_message_frame u d name conv q stored reply) = Some nmf \<and> nm_thread_root_id nmf = Some r \<and>
    nm_thread_root_id nmf \<noteq> ms_thread_root_id stored"
  using assms by (simp add: insert_message_def Let_def thread_root_of_def new_message_frame_def)

theorem live_frame_thread_root_unresolved_witness:
  "\<exists>stored nmf. snd (insert_message (ref_row 52 (Some 51)) ((ref_pool False)\<lparr>tb_messages := [ref_row 50 None, ref_row 51 (Some 50)]\<rparr>)) = Inr stored \<and>
    ms_thread_root_id stored = Some 50 \<and>
    NewMessageFields_extract (new_message_frame 1 1 ''u'' 7 ((ref_request ''hello'' None)\<lparr>sq_thread_root_id := Some 51\<rparr>) stored (None, None) :: unit ServerMessage) = Some nmf \<and>
    nm_thread_root_id nmf = Some 51 \<and> nm_thread_root_id nmf \<noteq> ms_thread_root_id stored"
  by (rule live_frame_thread_root_unresolved [where m = "ref_row 51 (Some 50)"])
    (simp_all add: ref_row_def ref_request_def live_message_def)

end
