(* ===== verification/Srv_Server.thy ===== *)
theory Srv_Server
  imports Srv_Dispatch Srv_SendProps
begin

text \<open>
  The WebSocket side of the server as a transition system: connections start and end, client
  frames arrive, heartbeats and sweeps run, one handler at a time, with every outcome of the
  environment. What holds of the tables in every reachable state.
\<close>

section \<open>Steps\<close>

definition exec :: "('s, 'a) state \<Rightarrow> 's \<Rightarrow> 's" where
  "exec m s = snd (run_state m s)"

inductive server_step :: "('w, 'tx, 'n) srv_env \<Rightarrow> ('w, 'tx, 'n) AppState \<Rightarrow> ('w, 'tx, 'n) AppState \<Rightarrow> bool" for E where
  connect: "server_step E s (exec (session_start E u d name tx) s)"
| frame: "server_step E s (exec (handle_text_message E txt_frame u d name) s)"
| tick: "server_step E s (exec (heartbeat_tick E u d) s)"
| disconnect: "server_step E s (exec (session_end E u d name) s)"
| sweep: "server_step E s (exec (sweep_expired_caches E) s)"

inductive_cases server_stepE: "server_step E s t"

section \<open>The invariant\<close>

text \<open>
  Message identifiers are unique, every message belongs to a conversation, direct conversations
  with messages are marked encrypted, the messages of an encrypted conversation have the shape of
  ciphertext, and no board outgrows its limits.
\<close>

definition sealed :: "('w, 'tx, 'n) srv_env \<Rightarrow> 'n Pool \<Rightarrow> MessageRow \<Rightarrow> bool" where
  "sealed E p m \<longleftrightarrow>
     (\<exists>c. conversation p (ms_conversation_id m) = Some c \<and>
        (let kind = ConversationKind_from_str_opt (cv_kind c) in
         (kind = Some Direct \<longrightarrow> cv_is_encrypted c) \<and>
         (cv_is_encrypted c \<and> kind \<noteq> None \<longrightarrow> is_valid_ciphertext_shape E (ms_content m))))"

definition tables_ok :: "('w, 'tx, 'n) srv_env \<Rightarrow> 'n Pool \<Rightarrow> bool" where
  "tables_ok E p \<longleftrightarrow> distinct (map ms_id (tb_messages p)) \<and> (\<forall>m\<in>set (tb_messages p). sealed E p m) \<and> board_capped p"

text \<open>What the invariant reads.\<close>

definition core_tables :: "'n Pool \<Rightarrow> ConversationRow list \<times> MessageRow list \<times> (Uuid, 'n CanvasRow) hmap" where
  "core_tables p = (tb_conversations p, map ms_core (tb_messages p), tb_canvas p)"

lemma ms_core_fields [simp]:
  "ms_id (ms_core m) = ms_id m" "ms_conversation_id (ms_core m) = ms_conversation_id m" "ms_content (ms_core m) = ms_content m"
  by (simp_all add: ms_core_def)

lemma tables_ok_core:
  assumes "core_tables p = core_tables q"
  shows "tables_ok E p = tables_ok E q"
proof -
  have conv: "conversation p = conversation q" and cap: "board_capped p = board_capped q"
    using assms by (auto simp: core_tables_def conversation_def fun_eq_iff board_capped_def)
  have core: "map ms_core (tb_messages p) = map ms_core (tb_messages q)" using assms by (simp add: core_tables_def)
  have "map ms_id (map ms_core (tb_messages p)) = map ms_id (map ms_core (tb_messages q))" using core by simp
  then have ids: "map ms_id (tb_messages p) = map ms_id (tb_messages q)" by (simp add: comp_def)
  have sealed: "sealed E r (ms_core m) = sealed E r m" for r m by (simp add: sealed_def)
  have "(\<forall>m\<in>set (map ms_core (tb_messages p)). sealed E p m) = (\<forall>m\<in>set (map ms_core (tb_messages q)). sealed E q m)"
    unfolding core by (simp add: sealed_def conv)
  then have "(\<forall>m\<in>set (tb_messages p). sealed E p m) = (\<forall>m\<in>set (tb_messages q). sealed E q m)"
    by (simp add: sealed)
  then show ?thesis by (simp add: tables_ok_def ids cap)
qed

lemma keeps_tables_ok:
  fixes m :: "('w, 'tx, 'n, 'a) act" and E :: "('w, 'tx, 'n) srv_env"
  assumes "\<And>K. keeps (on_pool (\<lambda>p. core_tables p = K)) m"
  shows "keeps (on_pool (tables_ok E)) m"
  unfolding keeps_wp
proof (intro allI impI)
  fix s :: "('w, 'tx, 'n) AppState"
  assume s: "on_pool (tables_ok E) s"
  have "wp m (\<lambda>_. on_pool (\<lambda>p. core_tables p = core_tables (st_pool s))) s"
    by (rule keepsD [OF assms]) (simp add: on_pool_def)
  then show "wp m (\<lambda>_. on_pool (tables_ok E)) s"
    by (rule wp_mono) (use s tables_ok_core in \<open>auto simp: on_pool_def\<close>)
qed

section \<open>Handlers that do not touch these tables\<close>

lemma core_tables_updates [simp]:
  "core_tables (p\<lparr>tb_read_receipts := r\<rparr>) = core_tables p" "core_tables (p\<lparr>tb_voice_sessions := v\<rparr>) = core_tables p"
  "core_tables (p\<lparr>tb_deliveries := l\<rparr>) = core_tables p" "core_tables (p\<lparr>tb_identity_keys := k\<rparr>) = core_tables p"
  "core_tables (p\<lparr>tb_messages := map (\<lambda>m. if f m then m\<lparr>ms_delivered := True\<rparr> else m) (tb_messages p)\<rparr>) = core_tables p"
  by (auto simp: core_tables_def ms_core_def)

lemma keeps_send_value [keeps_intros]: "keeps (on_pool P) (send_value E us v)"
  unfolding send_value_def by (intro keeps_intros)

lemma keeps_presence [keeps_intros]:
  "keeps (on_pool P) (broadcast_presence E u name st)" "keeps (on_pool P) (send_presence_snapshot E u)"
  unfolding broadcast_presence_def send_presence_snapshot_def visible_presence_def list_contact_user_ids_def
    get_presence_status_def get_presence_statuses_for_def
  by (intro keeps_intros)+

lemma keeps_core_typing [keeps_intros]: "keeps (on_pool P) (handle_typing E u name c ch)"
  unfolding handle_typing_def resolve_typing_channel_def broadcast_message_def get_channel_def by (intro keeps_intros)

lemma keeps_core_broadcast_event [keeps_intros]: "keeps (on_pool P) (handle_broadcast_event E u name c f)"
  unfolding handle_broadcast_event_def broadcast_message_def by (intro keeps_intros)

lemma keeps_core_voice_signal [keeps_intros]: "keeps (on_pool P) (handle_voice_signal E u c ch t v)"
  unfolding handle_voice_signal_def voice_checks_def is_user_in_voice_channel_def get_channel_def by (intro keeps_intros)

lemma keeps_core_read_receipt [keeps_intros]: "keeps (on_pool (\<lambda>p. core_tables p = K)) (handle_read_receipt E u c)"
  unfolding handle_read_receipt_def get_read_receipts_enabled_def mark_read_def broadcast_message_def
  by (intro keeps_intros keeps_execute) simp_all

lemma keeps_core_cleanup [keeps_intros]: "keeps (on_pool (\<lambda>p. core_tables p = K)) (cleanup_user_voice_sessions E u)"
  unfolding cleanup_user_voice_sessions_def leave_all_user_voice_sessions_def Let_def
  by (intro keeps_intros keeps_query keeps_modify) simp_all

lemma keeps_core_replay [keeps_intros]: "keeps (on_pool (\<lambda>p. core_tables p = K)) (deliver_undelivered_messages E u d)"
proof -
  have each: "keeps (on_pool P) (replay_each E u d ct any msgs)" for P ct any msgs
    by (induction msgs) (auto simp: Let_def intro!: keeps_intros)
  have batch: "keeps (on_pool (\<lambda>p. core_tables p = K)) (deliver_one_batch E u d msgs)" for msgs
    unfolding deliver_one_batch_def get_device_contents_batch_def message_ids_with_any_device_content_def
      mark_device_delivered_batch_def mark_delivered_def
    by (intro keeps_intros keeps_execute each) simp_all
  have "keeps (on_pool (\<lambda>p. core_tables p = K)) (replay_pages E u d n cur)" for n cur
    by (induction n arbitrary: cur) (auto simp: get_undelivered_def intro!: keeps_intros batch)
  then show ?thesis by (simp add: deliver_undelivered_messages_def)
qed

lemma keeps_core_session:
  "keeps (on_pool (\<lambda>p. core_tables p = K)) (session_start E u d name tx)"
  "keeps (on_pool (\<lambda>p. core_tables p = K)) (session_end E u d name)"
  "keeps (on_pool (\<lambda>p. core_tables p = K)) (heartbeat_tick E u d)"
  unfolding session_start_def session_end_def heartbeat_tick_def touch_user_voice_sessions_def update_last_seen_def
  by (intro keeps_intros keeps_modify keeps_execute; simp)+

section \<open>Canvas events and messages\<close>

lemma keeps_pool_conj: "keeps (on_pool P) m \<Longrightarrow> keeps (on_pool Q) m \<Longrightarrow> keeps (on_pool (\<lambda>p. P p \<and> Q p)) m"
  by (auto simp: keeps_def on_pool_def)

lemma keeps_canvas_rows: "keeps (on_pool (\<lambda>p. (tb_conversations p, tb_messages p) = K)) (handle_canvas_event E u d c k v)"
proof -
  have put: "tb_conversations (put_board c r q) = tb_conversations q \<and> tb_messages (put_board c r q) = tb_messages q" for r q
    by (simp add: put_board_def)
  have upd: "tb_conversations (update_images c f q) = tb_conversations q \<and> tb_messages (update_images c f q) = tb_messages q" for f q
    by (simp add: update_images_def put_board_def split: option.split)
  show ?thesis
    unfolding handle_canvas_event_def write_canvas_event_def persist_canvas_state_def append_stroke_def add_image_def
      clear_all_def update_image_def remove_image_def broadcast_message_def Let_def
    by (intro keeps_intros keeps_execute; simp add: put upd)
qed

lemma keeps_ok_canvas:
  fixes E :: "('w, 'tx, 'n) srv_env"
  shows "keeps (on_pool (tables_ok E)) (handle_canvas_event E u d c k v)"
  unfolding keeps_wp
proof (intro allI impI)
  fix s :: "('w, 'tx, 'n) AppState"
  assume "on_pool (tables_ok E) s"
  then have s: "tables_ok E (st_pool s)" by (simp add: on_pool_def)
  let ?K = "(tb_conversations (st_pool s), tb_messages (st_pool s))"
  have "wp (handle_canvas_event E u d c k v) (\<lambda>_. on_pool (\<lambda>p. (tb_conversations p, tb_messages p) = ?K \<and> board_capped p)) s"
    by (rule keepsD [OF keeps_pool_conj [OF keeps_canvas_rows keeps_capped_canvas_event]])
      (use s in \<open>simp add: on_pool_def tables_ok_def\<close>)
  then show "wp (handle_canvas_event E u d c k v) (\<lambda>_. on_pool (tables_ok E)) s"
    by (rule wp_mono) (use s in \<open>auto simp: on_pool_def tables_ok_def sealed_def conversation_def\<close>)
qed

text \<open>A send only adds conversations, keeps the boards and the uniqueness of identifiers.\<close>

definition extends_tables :: "'n Pool \<Rightarrow> 'n Pool \<Rightarrow> bool" where
  "extends_tables p p' \<longleftrightarrow> (\<exists>xs. tb_conversations p' = tb_conversations p @ xs) \<and> tb_canvas p' = tb_canvas p \<and>
     distinct (map ms_id (tb_messages p'))"

lemma keeps_extends_dm [keeps_intros]: "keeps (on_pool (extends_tables p)) (find_or_create_dm_conversation E a b)"
proof -
  have "keeps (on_pool (extends_tables p)) (execute E (direct_conversation_rows now c a b k))" for now c k
    by (rule keeps_execute) (auto simp: extends_tables_def direct_conversation_rows_def)
  moreover have "keeps (on_pool (extends_tables p)) (query E (\<lambda>p. (p, r p)))" for r :: "_ \<Rightarrow> sqlx_error + unit"
    by (rule keeps_query) simp
  ultimately show ?thesis
    unfolding find_or_create_dm_conversation_def Let_def by (intro keeps_intros)
qed

lemma keeps_extends_store [keeps_intros]: "keeps (on_pool (extends_tables p)) (store_message E c ch u d b r ttl cm thr)"
  unfolding store_message_def
  by (intro keeps_intros keeps_query) (auto simp: extends_tables_def insert_message_def Let_def list_ex_iff)

lemma keeps_extends_marks [keeps_intros]:
  "keeps (on_pool (extends_tables p)) (mark_delivered E ids)"
  "keeps (on_pool (extends_tables p)) (mark_devices_delivered_pairs E mid ps)"
  "keeps (on_pool (extends_tables p)) (store_device_contents E mid es)"
  "keeps (on_pool (extends_tables p)) (persist_mentions E mid c u b enc)"
proof -
  have mentions: "keeps (on_pool (extends_tables p)) (insert_mention_rows E mid ts)" for ts
    unfolding insert_mention_rows_def Let_def by (rule keeps_query) (simp add: extends_tables_def)
  have flags: "map ms_id (map (\<lambda>m. if f m then m\<lparr>ms_delivered := True\<rparr> else m) ms) = map ms_id ms" for f ms by simp
  show "keeps (on_pool (extends_tables p)) (mark_delivered E ids)"
    unfolding mark_delivered_def by (rule keeps_execute) (simp add: extends_tables_def flags del: map_map)
  show "keeps (on_pool (extends_tables p)) (mark_devices_delivered_pairs E mid ps)"
    unfolding mark_devices_delivered_pairs_def by (intro keeps_intros keeps_execute) (simp add: extends_tables_def)
  show "keeps (on_pool (extends_tables p)) (store_device_contents E mid es)"
    unfolding store_device_contents_def by (intro keeps_intros keeps_execute) (simp add: extends_tables_def)
  show "keeps (on_pool (extends_tables p)) (persist_mentions E mid c u b enc)"
    unfolding persist_mentions_def extract_and_persist_def sender_is_member_def resolve_mention_targets_def
      resolve_broadcast_members_def resolve_username_mentions_def Let_def
    by (intro keeps_intros mentions)
qed

lemma keeps_send_checks [keeps_intros]:
  "keeps (on_pool P) (validate_message_length E u b)" "keeps (on_pool P) (validate_conversation_security E u c ch)"
  "keeps (on_pool P) (gates E u c sec kind q)" "keeps (on_pool P) (lookup_reply_context E r c)"
proof -
  show "keeps (on_pool P) (validate_message_length E u b)"
    unfolding validate_message_length_def by (intro keeps_intros)
  show "keeps (on_pool P) (validate_conversation_security E u c ch)"
    unfolding validate_conversation_security_def get_conversation_security_def resolve_channel_def validate_explicit_channel_def
      resolve_default_text_channel_def get_channel_def get_default_text_channel_def Let_def
    by (intro keeps_intros)
  have "keeps (on_pool P) (validate_encrypted_payload E u kind b m)" for b m
    unfolding validate_encrypted_payload_def validate_dm_canonical_content_def validate_dm_device_map_present_def
      validate_dm_per_device_ciphertexts_def send_payload_error_def
    by (cases kind; cases "the kind") (auto intro!: keeps_intros)
  then show "keeps (on_pool P) (gates E u c sec kind q)"
    unfolding gates_def enforce_group_sender_membership_def enforce_dm_recipient_includes_peer_def
    by (cases kind; cases "the kind") (auto intro!: keeps_intros)
  show "keeps (on_pool P) (lookup_reply_context E r c)"
    unfolding lookup_reply_context_def lookup_reply_context_row_def by (intro keeps_intros)
qed

lemma keeps_extends_send: "keeps (on_pool (extends_tables p)) (handle_send_message E u d name q)"
proof -
  have conv: "keeps (on_pool (extends_tables p)) (resolve_conversation E u c t)" for c t
    unfolding resolve_conversation_def are_contacts_def by (intro keeps_intros)
  have device: "keeps (on_pool (extends_tables p)) (persist_device_contents E mid u rdc)" for mid rdc
    unfolding persist_device_contents_def Let_def by (intro keeps_intros)
  have "keeps (on_pool (extends_tables p)) (store_and_fan_out E u d name c sec kind ch q)" for c sec kind ch
    unfolding store_and_fan_out_def store_and_confirm_def send_message_sent_confirmation_def deliver_self_messages_def
      fanout_message_def deliver_to_sender_other_devices_def send_delivery_confirmation_def Let_def
    by (intro keeps_intros device keeps_modify) (auto simp: keeps_intros)
  then show ?thesis
    unfolding handle_send_message_def by (intro keeps_intros conv)
qed

lemma find_SomeI_append: "find P xs = Some x \<Longrightarrow> find P (xs @ ys) = Some x"
  by (induction xs) (auto split: if_splits)

lemma conversation_extends: "extends_tables p p' \<Longrightarrow> conversation p c = Some x \<Longrightarrow> conversation p' c = Some x"
  by (auto simp: extends_tables_def conversation_def find_SomeI_append)

lemma sealed_extends:
  assumes "extends_tables p p'" and "sealed E p m0" and "ms_core m = ms_core m0"
  shows "sealed E p' m"
proof -
  have "ms_conversation_id m = ms_conversation_id m0" "ms_content m = ms_content m0"
    using arg_cong [OF assms(3), of ms_conversation_id] arg_cong [OF assms(3), of ms_content] by simp_all
  then show ?thesis
    using assms(2) conversation_extends [OF assms(1)] by (auto simp: sealed_def)
qed

lemma admissible_sealed:
  assumes "admissible E p p' u q (ms_conversation_id m) ch" and "ms_content m = sq_content q"
  shows "sealed E p' m"
proof -
  obtain c where c: "conversation p' (ms_conversation_id m) = Some c"
    "ConversationKind_from_str_opt (cv_kind c) = Some Direct \<longrightarrow> cv_is_encrypted c"
    "cv_is_encrypted c \<longrightarrow> payload_ok E p' u (ms_conversation_id m) (ConversationKind_from_str_opt (cv_kind c)) q"
    using assms(1) unfolding admissible_def Let_def by blast
  have shape: "is_valid_ciphertext_shape E (sq_content q)"
    if "payload_ok E p' u (ms_conversation_id m) kind q" "kind \<noteq> None" for kind
    using that by (auto simp: payload_ok_def split: option.splits ConversationKind.splits)
  show ?thesis
    unfolding sealed_def Let_def assms(2) using c by (intro exI [of _ c] conjI impI) (auto intro: shape)
qed

lemma keeps_ok_send:
  fixes E :: "('w, 'tx, 'n) srv_env"
  shows "keeps (on_pool (tables_ok E)) (handle_send_message E u d name q)"
  unfolding keeps_wp
proof (intro allI impI)
  fix s :: "('w, 'tx, 'n) AppState"
  assume "on_pool (tables_ok E) s"
  then have s: "tables_ok E (st_pool s)" by (simp add: on_pool_def)
  have ext: "wp (handle_send_message E u d name q) (\<lambda>_. on_pool (extends_tables (st_pool s))) s"
    by (rule keepsD [OF keeps_extends_send]) (use s in \<open>simp add: on_pool_def extends_tables_def tables_ok_def\<close>)
  show "wp (handle_send_message E u d name q) (\<lambda>_. on_pool (tables_ok E)) s"
  proof (rule wp_mono [OF wp_conj [OF wp_handle_send_message ext]], unfold on_pool_def, elim conjE)
    fix t :: "('w, 'tx, 'n) AppState"
    assume w: "writes_admissible E u d q (st_pool s) (st_pool t)" and e: "extends_tables (st_pool s) (st_pool t)"
    have "sealed E (st_pool t) m" if m: "m \<in> set (tb_messages (st_pool t))" for m
    proof -
      have "ms_core m \<in> ms_core ` set (tb_messages (st_pool s)) \<or> ms_content m = sq_content q \<and>
          admissible E (st_pool s) (st_pool t) u q (ms_conversation_id m) (ms_channel_id m)"
        using w m unfolding writes_admissible_def by blast
      then show ?thesis
      proof
        assume "ms_core m \<in> ms_core ` set (tb_messages (st_pool s))"
        then show ?thesis using s sealed_extends [OF e] unfolding tables_ok_def by blast
      qed (use admissible_sealed in blast)
    qed
    moreover have "board_capped (st_pool t)"
      using s e by (simp add: tables_ok_def extends_tables_def board_capped_def)
    ultimately show "tables_ok E (st_pool t)" using e by (simp add: tables_ok_def extends_tables_def)
  qed
qed

lemma keeps_ok_frame: "keeps (on_pool (tables_ok E)) (handle_text_message E f u d name)"
proof -
  have "keeps (on_pool (tables_ok E)) (dispatch_message E u d name msg)" for msg
    by (cases msg) (auto simp: dispatch_message_def intro!: keeps_intros keeps_ok_send keeps_ok_canvas
        keeps_tables_ok [OF keeps_core_read_receipt])
  then show ?thesis unfolding handle_text_message_def by (intro keeps_intros)
qed

lemma server_step_ok:
  assumes "server_step E s t" and "tables_ok E (st_pool s)"
  shows "tables_ok E (st_pool t)"
proof -
  have run: "tables_ok E (st_pool (exec m s))" if "keeps (on_pool (tables_ok E)) m" for m :: "('a, 'b, 'c, 'd) act"
    using keeps_run [OF that, of s] assms(2) by (simp add: exec_def on_pool_def)
  show ?thesis
    using assms(1)
  proof cases
    case (connect u d name tx)
    then show ?thesis using run [OF keeps_tables_ok [OF keeps_core_session(1)]] by simp
  next
    case (frame f u d name)
    then show ?thesis using run [OF keeps_ok_frame] by simp
  next
    case (tick u d)
    then show ?thesis using run [OF keeps_tables_ok [OF keeps_core_session(3)]] by simp
  next
    case (disconnect u d name)
    then show ?thesis using run [OF keeps_tables_ok [OF keeps_core_session(2)]] by simp
  next
    case sweep
    then show ?thesis using run [OF keeps_sweep] by simp
  qed
qed

section \<open>Properties\<close>


definition frame_srv :: "((nat \<times> WsMessage) list \<times> nat, nat, unit) srv_env" where
  "frame_srv = ref_srv\<lparr>sv_from_json := \<lambda>_. Some (SendMessage (ref_request ''GRP1:ab'' None))\<rparr>"


text \<open>
  the end of one connection ends every voice session of its user. In this run user 1 is
  connected with two devices and in a lounge; when device 1 disconnects, device 2 stays
  registered and the session is gone.
\<close>

theorem disconnect_ends_sessions_of_other_devices:
  "let p = (ref_pool False)\<lparr>tb_channels := [\<lparr>ch_id = 8, ch_conversation_id = 7, ch_kind = ''voice'', ch_position = 0,
             ch_created_at = 0, ch_deleted = False\<rparr>], tb_voice_sessions := [(8, 1)]\<rparr>;
       s0 = (ref_state p)\<lparr>st_hub := register 1 2 12 (register 1 1 11 Hub_new)\<rparr>;
       s = exec (session_end ref_srv 1 1 ''u'') s0
   in registered (st_hub s) 1 2 = Some 12 \<and> tb_voice_sessions (st_pool s) = []"
  by code_simp

end
