(* ===== verification/Srv_Rotation.thy ===== *)
theory Srv_Rotation
  imports Srv_Base
begin

text \<open>
  \<open>ws/rotation.rs\<close>: which of the online members re-keys a group, and in which order the others
  step in.
\<close>

section \<open>The election\<close>

definition DEFAULT_ROTATION_DEADLINE_MS :: u32 where "DEFAULT_ROTATION_DEADLINE_MS = 7500"

record RotationLeader =
  rl_leader :: Uuid
  rl_fallback_order :: "Uuid list"

definition elect_rotation_leader :: "Uuid list \<Rightarrow> RotationLeader option" where
  "elect_rotation_leader online_members =
     (case remdups_adj (sort online_members) of
        [] \<Rightarrow> None
      | leader # rest \<Rightarrow> Some \<lparr>rl_leader = leader, rl_fallback_order = rest\<rparr>)"

definition online_subset :: "Uuid list \<Rightarrow> (Uuid \<Rightarrow> bool) \<Rightarrow> Uuid list" where
  "online_subset members is_online = filter is_online members"

section \<open>Properties\<close>

lemma sorted_dedup_distinct: "sorted xs \<Longrightarrow> distinct (remdups_adj xs)"
proof (induction xs rule: remdups_adj.induct)
  case (3 x y xs)
  then show ?case by (auto dest: order_antisym)
qed simp_all

lemma dedup_sorted: "remdups_adj (sort xs) = sorted_list_of_set (set xs)"
proof -
  have "sorted_wrt (<) (remdups_adj (sort xs))"
    by (simp add: strict_sorted_iff sorted_dedup_distinct)
  then show ?thesis
    using strict_sorted_equal [of "remdups_adj (sort xs)" "sorted_list_of_set (set xs)"] by simp
qed

text \<open>
  the election depends on the set of online members only, not on their order or on how many
  devices each has; it fails exactly when nobody is online, the leader is the smallest
  identifier, and leader and fallback list each online member once, in increasing order.
\<close>

theorem rotation_order_canonical:
  "(elect_rotation_leader xs = None \<longleftrightarrow> xs = []) \<and>
   (\<forall>r. elect_rotation_leader xs = Some r \<longrightarrow>
      rl_leader r = Min (set xs) \<and> rl_leader r # rl_fallback_order r = sorted_list_of_set (set xs)) \<and>
   (set xs = set ys \<longrightarrow> elect_rotation_leader xs = elect_rotation_leader ys)"
proof -
  have "l = Min (set xs)" if "sorted_list_of_set (set xs) = l # rest" for l rest
  proof -
    have "sorted (l # rest)" "set (l # rest) = set xs"
      using that by (metis sorted_list_of_set.sorted_sorted_key_list_of_set, metis List.finite_set set_sorted_list_of_set)
    then show ?thesis by (metis List.finite_set Min_eqI list.set_intros(1) set_ConsD sorted_simps(2) order_refl)
  qed
  moreover have "sorted_list_of_set (set xs) = [] \<longleftrightarrow> xs = []" by (simp add: sorted_list_of_set_eq_Nil_iff)
  ultimately show ?thesis
    by (auto simp: elect_rotation_leader_def dedup_sorted split: list.split)
qed

theorem rotation_order_canonical_witness:
  "elect_rotation_leader [3, 1, 2, 1] = Some \<lparr>rl_leader = 1, rl_fallback_order = [2, 3]\<rparr> \<and>
   elect_rotation_leader [3, 1, 2, 1] = elect_rotation_leader [1, 2, 3]"
proof
  show "elect_rotation_leader [3, 1, 2, 1] = Some \<lparr>rl_leader = 1, rl_fallback_order = [2, 3]\<rparr>" by code_simp
  show "elect_rotation_leader [3, 1, 2, 1] = elect_rotation_leader [1, 2, 3]"
    using rotation_order_canonical [of "[3, 1, 2, 1]" "[1, 2, 3]"] by (simp add: insert_commute)
qed

end
