(* ===== verification/Srv_Error.thy ===== *)
theory Srv_Error
  imports Srv_Db
begin

text \<open>
  \<open>error.rs\<close>: the errors that the HTTP handlers answer with, and how they become responses.
\<close>

section \<open>Codes\<close>

datatype ErrorCode =
    BadRequest | Unauthorized | Forbidden | NotFound | Conflict | RateLimited | Internal | Validation | Unsupported
  | InvalidCredentials | UsernameTaken | RegistrationDisabled | TokenExpired | TokenRevoked
  | NotMember | AlreadyMember | KeyMismatch | InvalidCiphertextShape | UnsupportedMediaType

fun ErrorCode_as_str :: "ErrorCode \<Rightarrow> string" where
  "ErrorCode_as_str BadRequest = ''bad-request''"
| "ErrorCode_as_str Unauthorized = ''unauthorized''"
| "ErrorCode_as_str Forbidden = ''forbidden''"
| "ErrorCode_as_str NotFound = ''not-found''"
| "ErrorCode_as_str Conflict = ''conflict''"
| "ErrorCode_as_str RateLimited = ''rate-limited''"
| "ErrorCode_as_str Internal = ''internal''"
| "ErrorCode_as_str Validation = ''validation''"
| "ErrorCode_as_str Unsupported = ''unsupported''"
| "ErrorCode_as_str InvalidCredentials = ''invalid-credentials''"
| "ErrorCode_as_str UsernameTaken = ''username-taken''"
| "ErrorCode_as_str RegistrationDisabled = ''registration-disabled''"
| "ErrorCode_as_str TokenExpired = ''token-expired''"
| "ErrorCode_as_str TokenRevoked = ''token-revoked''"
| "ErrorCode_as_str NotMember = ''not-member''"
| "ErrorCode_as_str AlreadyMember = ''already-member''"
| "ErrorCode_as_str KeyMismatch = ''key-mismatch''"
| "ErrorCode_as_str InvalidCiphertextShape = ''invalid-ciphertext-shape''"
| "ErrorCode_as_str UnsupportedMediaType = ''unsupported-media-type''"

section \<open>Errors and responses\<close>

type_synonym StatusCode = nat

record 'n AppError =
  er_status :: StatusCode
  er_message :: string
  er_code :: ErrorCode
  er_body :: "'n json option"

text \<open>A response is a status and a JSON body; \<open>204 No Content\<close> has none.\<close>

type_synonym 'n Response = "StatusCode \<times> 'n json option"

definition bad_request :: "string \<Rightarrow> 'n AppError" where
  "bad_request msg = \<lparr>er_status = 400, er_message = msg, er_code = BadRequest, er_body = None\<rparr>"

definition unauthorized :: "string \<Rightarrow> 'n AppError" where
  "unauthorized msg = \<lparr>er_status = 401, er_message = msg, er_code = Unauthorized, er_body = None\<rparr>"

definition internal :: "string \<Rightarrow> 'n AppError" where
  "internal msg = \<lparr>er_status = 500, er_message = msg, er_code = Internal, er_body = None\<rparr>"

definition not_found :: "string \<Rightarrow> 'n AppError" where
  "not_found msg = \<lparr>er_status = 404, er_message = msg, er_code = NotFound, er_body = None\<rparr>"

definition conflict :: "string \<Rightarrow> 'n AppError" where
  "conflict msg = \<lparr>er_status = 409, er_message = msg, er_code = Conflict, er_body = None\<rparr>"

definition forbidden :: "string \<Rightarrow> 'n AppError" where
  "forbidden msg = \<lparr>er_status = 403, er_message = msg, er_code = Forbidden, er_body = None\<rparr>"

fun code_status :: "ErrorCode \<Rightarrow> StatusCode" where
  "code_status BadRequest = 400"
| "code_status Validation = 400"
| "code_status InvalidCiphertextShape = 400"
| "code_status UnsupportedMediaType = 400"
| "code_status Unauthorized = 401"
| "code_status InvalidCredentials = 401"
| "code_status TokenExpired = 401"
| "code_status TokenRevoked = 401"
| "code_status Forbidden = 403"
| "code_status RegistrationDisabled = 403"
| "code_status NotMember = 403"
| "code_status NotFound = 404"
| "code_status Conflict = 409"
| "code_status UsernameTaken = 409"
| "code_status AlreadyMember = 409"
| "code_status RateLimited = 429"
| "code_status Internal = 500"
| "code_status KeyMismatch = 403"
| "code_status Unsupported = 403"

definition with_code :: "ErrorCode \<Rightarrow> string \<Rightarrow> 'n AppError" where
  "with_code code msg = \<lparr>er_status = code_status code, er_message = msg, er_code = code, er_body = None\<rparr>"

definition conflict_with_body :: "'n json \<Rightarrow> 'n AppError" where
  "conflict_with_body body =
     \<lparr>er_status = 409, er_message = (case json_get body ''code'' of Some (JString s) \<Rightarrow> s | _ \<Rightarrow> ''conflict''),
      er_code = KeyMismatch, er_body = Some body\<rparr>"

definition into_response :: "'n AppError \<Rightarrow> 'n Response" where
  "into_response e =
     (er_status e, Some (case er_body e of
        Some body \<Rightarrow> body
      | None \<Rightarrow> JObject [(''error'', JString (er_message e)), (''code'', JString (ErrorCode_as_str (er_code e)))]))"

section \<open>Database errors\<close>

fun contains :: "string \<Rightarrow> string \<Rightarrow> bool" where
  "contains pat [] \<longleftrightarrow> pat = []"
| "contains pat (c # s) \<longleftrightarrow> starts_with pat (c # s) \<or> contains pat s"

text \<open>\<open>From<sqlx::Error>\<close>; \<open>name\<close> is the violated constraint that PostgreSQL reports.\<close>

definition from_sqlx :: "string option \<Rightarrow> sqlx_error \<Rightarrow> 'n AppError" where
  "from_sqlx name err =
     (case err of
        UniqueViolation \<Rightarrow>
          (let named = (\<lambda>w. case name of Some c \<Rightarrow> contains w c | None \<Rightarrow> False)
           in if named ''username'' then with_code UsernameTaken ''Username already taken''
              else if named ''contact'' then with_code Conflict ''Contact already exists''
              else if named ''reaction'' then with_code Conflict ''Reaction already exists''
              else with_code Conflict ''A conflicting record already exists'')
      | _ \<Rightarrow> internal ''Database error'')"

definition db_ctx :: "('s, sqlx_error + 'a) state \<Rightarrow> ('s, 'n AppError + 'a) state" where
  "db_ctx m = do {
     r \<leftarrow> m;
     State_Monad.return (case r of Inl _ \<Rightarrow> Inl (internal ''Database error'') | Inr x \<Rightarrow> Inr x)
   }"

text \<open>\<open>ok_or_else(\<dots>)?\<close> and an early \<open>return Err(\<dots>)\<close>.\<close>

definition fail :: "'e \<Rightarrow> ('s, 'e + 'a) state" where
  "fail e = State_Monad.return (Inl e)"

definition ok_or :: "'e \<Rightarrow> 'a option \<Rightarrow> ('s, 'e + 'a) state" where
  "ok_or e x = (case x of None \<Rightarrow> fail e | Some y \<Rightarrow> ok y)"

definition require_or :: "'e \<Rightarrow> bool \<Rightarrow> ('s, 'e + unit) state" where
  "require_or e b = (if b then ok () else fail e)"

section \<open>Reasoning\<close>

lemma wp_fail [wp_simps]: "wp (fail e) Q = Q (Inl e)"
  by (simp add: fail_def wp_return)

lemma wp_db_ctx [wp_simps]:
  "wp (db_ctx m) Q = wp m (\<lambda>r. case r of Inl _ \<Rightarrow> Q (Inl (internal ''Database error'')) | Inr x \<Rightarrow> Q (Inr x))"
  unfolding db_ctx_def wp_bind wp_return by (rule arg_cong [where f = "wp m"]) (auto split: sum.split)

lemma wp_ok_or [wp_simps]: "wp (ok_or e x) Q s = (case x of None \<Rightarrow> Q (Inl e) s | Some y \<Rightarrow> Q (Inr y) s)"
  by (simp add: ok_or_def wp_simps split: option.split)

lemma wp_require_or [wp_simps]: "wp (require_or e b) Q s = (if b then Q (Inr ()) s else Q (Inl e) s)"
  by (simp add: require_or_def wp_simps)

lemma keeps_error [keeps_intros]:
  "keeps I m \<Longrightarrow> keeps I (db_ctx m)" "keeps I (fail e)" "keeps I (ok_or e x)" "keeps I (require_or e b)"
  by (auto simp: db_ctx_def fail_def ok_or_def require_or_def intro!: keeps_intros)

text \<open>
  The code of an error response identifies it, and an error that carries no body of its own has
  the status that belongs to its code.
\<close>

lemma error_code_strings_distinct: "ErrorCode_as_str a = ErrorCode_as_str b \<longleftrightarrow> a = b"
  by (cases a; cases b) simp_all

lemma constructors_status:
  "er_status e = code_status (er_code e)"
  if "e = bad_request msg \<or> e = unauthorized msg \<or> e = internal msg \<or> e = not_found msg \<or> e = conflict msg \<or>
      e = forbidden msg \<or> e = with_code c msg \<or> e = from_sqlx name err"
  using that
  by (auto simp: bad_request_def unauthorized_def internal_def not_found_def conflict_def forbidden_def with_code_def
      from_sqlx_def Let_def split: sqlx_error.split)

end
