(* ===== verification/Srv_Tx.thy ===== *)
theory Srv_Tx
  imports Srv_Error
begin

text \<open>
  Database transactions. Between \<open>begin\<close> and \<open>commit\<close> the statements of a handler work on a view
  of the tables; a statement that fails aborts the transaction (the view is \<open>None\<close>), after which
  every statement fails. Dropping the transaction, as the operator \<open>?\<close> does on its way out, rolls
  it back. \<open>COMMIT\<close> of an aborted transaction has no effect, yet PostgreSQL does not answer it with
  an error.
\<close>

section \<open>Transactions\<close>

type_synonym ('w, 'tx, 'n, 'a) txact = "('n Pool option \<times> ('w, 'tx, 'n) AppState, 'a) state"

datatype 'a tx_end = Commit 'a | Rollback 'a

definition tx_draw :: "('w \<Rightarrow> 'w \<times> 'a) \<Rightarrow> ('w, 'tx, 'n, 'a) txact" where
  "tx_draw f = State (\<lambda>(v, s). let (w, a) = f (st_world s) in (a, v, s\<lparr>st_world := w\<rparr>))"

definition tx_query ::
  "('w, 'tx, 'n) srv_env \<Rightarrow> ('n Pool \<Rightarrow> 'n Pool \<times> (sqlx_error + 'a)) \<Rightarrow> ('w, 'tx, 'n, sqlx_error + 'a) txact" where
  "tx_query E f = State (\<lambda>(v, s).
     let (w, out) = sv_db E (st_world s) in
     case v of
       None \<Rightarrow> (Inl OtherDbError, None, s\<lparr>st_world := w\<rparr>)
     | Some p \<Rightarrow>
         if out \<noteq> DbOk then (Inl OtherDbError, None, s\<lparr>st_world := w\<rparr>)
         else case f p of
           (_, Inl e) \<Rightarrow> (Inl e, None, s\<lparr>st_world := w\<rparr>)
         | (q, Inr x) \<Rightarrow> (Inr x, Some q, s\<lparr>st_world := w\<rparr>))"

definition tx_select :: "('w, 'tx, 'n) srv_env \<Rightarrow> ('n Pool \<Rightarrow> 'a) \<Rightarrow> ('w, 'tx, 'n, sqlx_error + 'a) txact" where
  "tx_select E f = tx_query E (\<lambda>p. (p, Inr (f p)))"

definition run_tx :: "('w, 'tx, 'n, 'a) txact \<Rightarrow> ('w, 'tx, 'n, 'a \<times> 'n Pool option) act" where
  "run_tx m = State (\<lambda>s. case run_state m (Some (st_pool s), s) of (a, v, t) \<Rightarrow> ((a, v), t))"

definition tx_finish ::
  "('w, 'tx, 'n) srv_env \<Rightarrow> (sqlx_error \<Rightarrow> 'e) \<Rightarrow> 'n Pool option \<Rightarrow> 'e + 'a tx_end \<Rightarrow> ('w, 'tx, 'n, 'e + 'a) act" where
  "tx_finish E on_error view r =
     (case r of
        Inl e \<Rightarrow> State_Monad.return (Inl e)
      | Inr (Rollback x) \<Rightarrow> do { select E (\<lambda>_. ()); State_Monad.return (Inr x) }
      | Inr (Commit x) \<Rightarrow> do {
          committed \<leftarrow> execute E (\<lambda>p. case view of Some q \<Rightarrow> q | None \<Rightarrow> p);
          State_Monad.return (case committed of Inl e \<Rightarrow> Inl (on_error e) | Inr _ \<Rightarrow> Inr x)
        })"

definition in_transaction ::
  "('w, 'tx, 'n) srv_env \<Rightarrow> (sqlx_error \<Rightarrow> 'e) \<Rightarrow> ('w, 'tx, 'n, 'e + 'a tx_end) txact \<Rightarrow> ('w, 'tx, 'n, 'e + 'a) act" where
  "in_transaction E on_error body = do {
     begun \<leftarrow> select E (\<lambda>_. ());
     (case begun of
        Inl e \<Rightarrow> State_Monad.return (Inl (on_error e))
      | Inr _ \<Rightarrow> do {
          outcome \<leftarrow> run_tx body;
          tx_finish E on_error (snd outcome) (fst outcome)
        })
   }"

section \<open>What a transaction does\<close>

text \<open>
  \<open>tx_sat m R\<close>: inside a transaction \<open>m\<close> touches nothing but its view and the world, and when it
  answers \<open>x\<close> on a live transaction then \<open>R\<close> relates the view before, the answer and the view after.
\<close>

named_theorems tx_rules "relational specifications of statements in a transaction"

definition tx_sat :: "('w, 'tx, 'n, 'e + 'a) txact \<Rightarrow> ('n Pool \<Rightarrow> 'a \<Rightarrow> 'n Pool \<Rightarrow> bool) \<Rightarrow> bool" where
  "tx_sat m R \<longleftrightarrow> (\<forall>v s. wp m (\<lambda>r (v', s'). (\<exists>w. s' = s\<lparr>st_world := w\<rparr>) \<and>
     (\<forall>x q. r = Inr x \<and> v' = Some q \<longrightarrow> (\<exists>p. v = Some p \<and> R p x q))) (v, s))"

lemma tx_satD:
  assumes "tx_sat m R" and "run_state m (v, s) = (r, v', s')"
  shows "(\<exists>w. s' = s\<lparr>st_world := w\<rparr>)" and "\<And>x q. r = Inr x \<Longrightarrow> v' = Some q \<Longrightarrow> \<exists>p. v = Some p \<and> R p x q"
proof -
  have "wp m (\<lambda>r (v', s'). (\<exists>w. s' = s\<lparr>st_world := w\<rparr>) \<and> (\<forall>x q. r = Inr x \<and> v' = Some q \<longrightarrow> (\<exists>p. v = Some p \<and> R p x q))) (v, s)"
    using assms(1) unfolding tx_sat_def by blast
  then show "(\<exists>w. s' = s\<lparr>st_world := w\<rparr>)" and "\<And>x q. r = Inr x \<Longrightarrow> v' = Some q \<Longrightarrow> \<exists>p. v = Some p \<and> R p x q"
    using assms(2) by (simp_all add: wp_def)
qed

lemma tx_satI:
  assumes "\<And>v s r v' s'. run_state m (v, s) = (r, v', s') \<Longrightarrow>
    (\<exists>w. s' = s\<lparr>st_world := w\<rparr>) \<and> (\<forall>x q. r = Inr x \<and> v' = Some q \<longrightarrow> (\<exists>p. v = Some p \<and> R p x q))"
  shows "tx_sat m R"
  unfolding tx_sat_def wp_def using assms by (force split: prod.split)

lemma tx_sat_mono: "tx_sat m R \<Longrightarrow> (\<And>p x q. R p x q \<Longrightarrow> S p x q) \<Longrightarrow> tx_sat m S"
  by (rule tx_satI) (metis tx_satD)

lemma tx_sat_query [tx_rules]: "tx_sat (tx_query E f) (\<lambda>p x q. f p = (q, Inr x))"
  by (rule tx_satI) (auto simp: tx_query_def Let_def split: prod.splits option.splits if_splits sum.splits)

lemma tx_sat_select [tx_rules]: "tx_sat (tx_select E f) (\<lambda>p x q. q = p \<and> x = f p)"
  unfolding tx_select_def by (rule tx_sat_mono [OF tx_sat_query]) auto

lemma same_world: "\<exists>w. s = s\<lparr>st_world := w\<rparr>"
  by (rule exI [where x = "st_world s"]) simp

lemma tx_sat_ok [tx_rules]: "tx_sat (ok x) (\<lambda>p y q. y = x \<and> q = p)"
  by (rule tx_satI) (auto simp: ok_def intro: same_world)

lemma tx_sat_fail [tx_rules]: "tx_sat (fail e) (\<lambda>p y q. False)"
  by (rule tx_satI) (auto simp: fail_def intro: same_world)

lemma tx_sat_ok_or [tx_rules]: "tx_sat (ok_or e x) (\<lambda>p y q. x = Some y \<and> q = p)"
  by (cases x) (auto simp: ok_or_def intro: tx_sat_mono [OF tx_sat_ok] tx_sat_mono [OF tx_sat_fail])

lemma tx_sat_require_or [tx_rules]: "tx_sat (require_or e b) (\<lambda>p y q. b \<and> q = p)"
  by (cases b) (auto simp: require_or_def intro: tx_sat_mono [OF tx_sat_ok] tx_sat_mono [OF tx_sat_fail])

lemma tx_sat_db_ctx [tx_rules]:
  assumes "tx_sat m R"
  shows "tx_sat (db_ctx m) R"
proof (rule tx_satI)
  fix v s r v' s'
  assume run: "run_state (db_ctx m) (v, s) = (r, v', s')"
  obtain r0 where m: "run_state m (v, s) = (r0, v', s')" and r: "\<And>x. r = Inr x \<Longrightarrow> r0 = Inr x"
    using run by (auto simp: db_ctx_def split: prod.splits sum.splits)
  show "(\<exists>w. s' = s\<lparr>st_world := w\<rparr>) \<and> (\<forall>x q. r = Inr x \<and> v' = Some q \<longrightarrow> (\<exists>p. v = Some p \<and> R p x q))"
    using tx_satD [OF assms m] r by blast
qed

lemma tx_sat_bind_ok [tx_rules]:
  assumes m: "tx_sat m R" and k: "\<And>x. tx_sat (k x) (S x)"
  shows "tx_sat (bind_ok m k) (\<lambda>p y q. \<exists>x p'. R p x p' \<and> S x p' y q)"
proof (rule tx_satI)
  fix v s r v' s'
  assume run: "run_state (bind_ok m k) (v, s) = (r, v', s')"
  obtain r0 v0 s0 where m0: "run_state m (v, s) = (r0, v0, s0)" by (metis prod_cases3)
  show "(\<exists>w. s' = s\<lparr>st_world := w\<rparr>) \<and>
    (\<forall>y q. r = Inr y \<and> v' = Some q \<longrightarrow> (\<exists>p. v = Some p \<and> (\<exists>x p'. R p x p' \<and> S x p' y q)))"
  proof (cases r0)
    case (Inl e)
    then show ?thesis using run tx_satD(1) [OF m m0] by (auto simp: bind_ok_def m0)
  next
    case (Inr x)
    then have k0: "run_state (k x) (v0, s0) = (r, v', s')" using run by (simp add: bind_ok_def m0)
    have "\<exists>w. s' = s\<lparr>st_world := w\<rparr>" using tx_satD(1) [OF m m0] tx_satD(1) [OF k k0] by auto
    then show ?thesis using tx_satD(2) [OF m m0 Inr] tx_satD(2) [OF k k0] by blast
  qed
qed

text \<open>A value that is drawn, or a failing read that is replaced by a default.\<close>

lemma tx_sat_bind_draw [tx_rules]:
  assumes "\<And>a. tx_sat (k a) (S a)"
  shows "tx_sat (State_Monad.bind (tx_draw f) k) (\<lambda>p y q. \<exists>a. S a p y q)"
proof (rule tx_satI)
  fix v s r v' s'
  assume run: "run_state (State_Monad.bind (tx_draw f) k) (v, s) = (r, v', s')"
  obtain w a where d: "f (st_world s) = (w, a)" by (metis surj_pair)
  have k0: "run_state (k a) (v, s\<lparr>st_world := w\<rparr>) = (r, v', s')" using run by (simp add: tx_draw_def d)
  show "(\<exists>w. s' = s\<lparr>st_world := w\<rparr>) \<and> (\<forall>y q. r = Inr y \<and> v' = Some q \<longrightarrow> (\<exists>p. v = Some p \<and> (\<exists>a. S a p y q)))"
    using tx_satD(1) [OF assms k0] tx_satD(2) [OF assms k0] by auto blast+
qed

lemma tx_sat_bind_default [tx_rules]:
  assumes m: "tx_sat m R" and k: "\<And>x. tx_sat (k (Inr x)) (S x)" and aborts: "\<And>e. tx_sat (k (Inl e)) (\<lambda>_ _ _. True)"
    and dead: "\<And>s e v' s'. run_state m s = (Inl e, v', s') \<Longrightarrow> v' = None"
  shows "tx_sat (State_Monad.bind m k) (\<lambda>p y q. \<exists>x p'. R p x p' \<and> S x p' y q)"
proof (rule tx_satI)
  fix v s r v' s'
  assume run: "run_state (State_Monad.bind m k) (v, s) = (r, v', s')"
  obtain r0 v0 s0 where m0: "run_state m (v, s) = (r0, v0, s0)" by (metis prod_cases3)
  have k0: "run_state (k r0) (v0, s0) = (r, v', s')" using run by (simp add: m0)
  show "(\<exists>w. s' = s\<lparr>st_world := w\<rparr>) \<and>
    (\<forall>y q. r = Inr y \<and> v' = Some q \<longrightarrow> (\<exists>p. v = Some p \<and> (\<exists>x p'. R p x p' \<and> S x p' y q)))"
  proof (cases r0)
    case (Inl e)
    then have "v0 = None" using dead m0 by blast
    moreover have "\<exists>w. s' = s\<lparr>st_world := w\<rparr>"
      using tx_satD(1) [OF m m0] tx_satD(1) [OF aborts k0 [unfolded Inl]] by auto
    ultimately show ?thesis using tx_satD(2) [OF aborts k0 [unfolded Inl]] by blast
  next
    case (Inr x)
    have "\<exists>w. s' = s\<lparr>st_world := w\<rparr>" using tx_satD(1) [OF m m0] tx_satD(1) [OF k k0 [unfolded Inr]] by auto
    then show ?thesis using tx_satD(2) [OF m m0 Inr] tx_satD(2) [OF k k0 [unfolded Inr]] by blast
  qed
qed

lemma tx_select_dead: "run_state (tx_select E f) s = (Inl e, v', s') \<Longrightarrow> v' = None"
  by (cases s) (auto simp: tx_select_def tx_query_def Let_def split: prod.splits option.splits if_splits)

text \<open>
  The whole transaction: the tables stay as they are, or change as the body says; an error or a
  rollback leaves no trace but that a lost answer to \<open>COMMIT\<close> may follow its effect.
\<close>

definition tx_effect :: "('n Pool \<Rightarrow> 'a tx_end \<Rightarrow> 'n Pool \<Rightarrow> bool) \<Rightarrow> 'n Pool \<Rightarrow> 'n Pool \<Rightarrow> bool" where
  "tx_effect R p q \<longleftrightarrow> q = p \<or> (\<exists>x. R p (Commit x) q)"

lemma wp_run_tx: "wp (run_tx m) Q = (\<lambda>s. case run_state m (Some (st_pool s), s) of (a, v, t) \<Rightarrow> Q (a, v) t)"
  by (auto simp: wp_def run_tx_def fun_eq_iff split: prod.split)

lemma wp_in_transaction:
  fixes E :: "('w, 'tx, 'n) srv_env" and s :: "('w, 'tx, 'n) AppState"
  assumes body: "tx_sat body R"
    and Q: "\<And>r w q. tx_effect R (st_pool s) q \<Longrightarrow> Q r (s\<lparr>st_world := w, st_pool := q\<rparr>)"
  shows "wp (in_transaction E f body) Q s"
proof -
  have same: "Q r (s\<lparr>st_world := w\<rparr>)" for r w
    using Q [of "st_pool s" r w] by (simp add: tx_effect_def)
  obtain w0 out where b: "sv_db E (st_world s) = (w0, out)" by (metis surj_pair)
  define s0 where "s0 = s\<lparr>st_world := w0\<rparr>"
  obtain r v s1 where r: "run_state body (Some (st_pool s0), s0) = (r, v, s1)" by (metis prod_cases3)
  obtain w1 where s1: "s1 = s\<lparr>st_world := w1\<rparr>" using tx_satD(1) [OF body r] by (auto simp: s0_def)
  have eff: "tx_effect R (st_pool s) q" if "r = Inr (Commit x)" "v = Some q" for x q
    using tx_satD(2) [OF body r that] by (auto simp: tx_effect_def s0_def)
  have rest: "wp (tx_finish E f v r) Q s1"
  proof (cases r)
    case (Inl e)
    then show ?thesis using same by (simp add: tx_finish_def wp_simps s1)
  next
    case (Inr y)
    show ?thesis
    proof (cases y)
      case (Commit x)
      then show ?thesis
        using Inr same Q eff [of x]
        by (auto simp: tx_finish_def wp_simps s1 execute_def query_def split: prod.split option.split)
    next
      case (Rollback x)
      then show ?thesis
        using Inr same by (auto simp: tx_finish_def wp_simps s1 select_def query_def split: prod.split)
    qed
  qed
  show ?thesis
    using same rest r
    by (auto simp: in_transaction_def wp_simps wp_run_tx select_def query_def b s0_def)
qed

lemma tx_sat_if [tx_rules]:
  "tx_sat m R \<Longrightarrow> tx_sat n S \<Longrightarrow> tx_sat (if b then m else n) (\<lambda>p x q. if b then R p x q else S p x q)"
  by simp

lemma keeps_transaction:
  fixes E :: "('w, 'tx, 'n) srv_env"
  assumes "tx_sat body R" and "\<And>p x q. P p \<Longrightarrow> R p (Commit x) q \<Longrightarrow> P q"
  shows "keeps (on_pool P) (in_transaction E f body)"
  unfolding keeps_wp
proof (intro allI impI)
  fix s :: "('w, 'tx, 'n) AppState"
  assume "on_pool P s"
  then show "wp (in_transaction E f body) (\<lambda>_. on_pool P) s"
    by (intro wp_in_transaction [OF assms(1)]) (auto simp: on_pool_def tx_effect_def intro: assms(2))
qed

section \<open>Handlers as relations on the tables\<close>

text \<open>\<open>rel m R\<close>: every run of \<open>m\<close> relates the tables before, the answer and the tables after by \<open>R\<close>.\<close>

named_theorems rel_rules "relations between the tables before and after the building blocks of a handler"

definition rel :: "('w, 'tx, 'n, 'a) act \<Rightarrow> ('n Pool \<Rightarrow> 'a \<Rightarrow> 'n Pool \<Rightarrow> bool) \<Rightarrow> bool" where
  "rel m R \<longleftrightarrow> (\<forall>s. wp m (\<lambda>r t. R (st_pool s) r (st_pool t)) s)"

lemma relD: "rel m R \<Longrightarrow> R (st_pool s) (fst (run_state m s)) (st_pool (snd (run_state m s)))"
  unfolding rel_def wp_def by (metis (mono_tags, lifting) case_prod_beta)

lemma relI: "(\<And>s. R (st_pool s) (fst (run_state m s)) (st_pool (snd (run_state m s)))) \<Longrightarrow> rel m R"
  by (simp add: rel_def wp_def case_prod_beta)

lemma rel_mono: "rel m R \<Longrightarrow> (\<And>p r q. R p r q \<Longrightarrow> S p r q) \<Longrightarrow> rel m S"
  unfolding rel_def by (blast intro: wp_mono)

lemma rel_keeps:
  assumes "\<And>p. keeps (on_pool (K p)) m" and "\<And>p. K p p"
  shows "rel m (\<lambda>p r q. K p q)"
  unfolding rel_def
proof
  fix s
  show "wp m (\<lambda>r t. K (st_pool s) (st_pool t)) s"
    using keepsD [OF assms(1), of "st_pool s" s] assms(2) by (simp add: on_pool_def [abs_def])
qed

lemma rel_return [rel_rules]: "rel (State_Monad.return x) (\<lambda>p r q. r = x \<and> q = p)"
  by (simp add: rel_def wp_simps)

lemma rel_ok [rel_rules]: "rel (ok x) (\<lambda>p r q. r = Inr x \<and> q = p)"
  by (simp add: rel_def wp_simps)

lemma rel_fail [rel_rules]: "rel (fail e) (\<lambda>p r q. r = Inl e \<and> q = p)"
  by (simp add: rel_def wp_simps)

lemma rel_ok_or [rel_rules]: "rel (ok_or e x) (\<lambda>p r q. q = p \<and> ((\<exists>y. x = Some y \<and> r = Inr y) \<or> x = None \<and> r = Inl e))"
  by (simp add: rel_def wp_simps split: option.split)

lemma rel_require_or [rel_rules]: "rel (require_or e b) (\<lambda>p r q. q = p \<and> (b \<and> r = Inr () \<or> \<not> b \<and> r = Inl e))"
  by (simp add: rel_def wp_simps)

lemma rel_bind [rel_rules]:
  fixes m :: "('w, 'tx, 'n, 'a) act"
  assumes "rel m R" and "\<And>x. rel (k x) (S x)"
  shows "rel (State_Monad.bind m k) (\<lambda>p y q. \<exists>x p'. R p x p' \<and> S x p' y q)"
  unfolding rel_def wp_bind
proof
  fix s :: "('w, 'tx, 'n) AppState"
  have "wp m (\<lambda>x t. R (st_pool s) x (st_pool t)) s" using assms(1) by (simp add: rel_def)
  then show "wp m (\<lambda>x. wp (k x) (\<lambda>y t. \<exists>x p'. R (st_pool s) x p' \<and> S x p' y (st_pool t))) s"
  proof (rule wp_mono)
    fix x and t :: "('w, 'tx, 'n) AppState"
    assume R: "R (st_pool s) x (st_pool t)"
    have "wp (k x) (\<lambda>y u. S x (st_pool t) y (st_pool u)) t" using assms(2) by (simp add: rel_def)
    then show "wp (k x) (\<lambda>y u. \<exists>x p'. R (st_pool s) x p' \<and> S x p' y (st_pool u)) t"
      by (rule wp_mono) (use R in blast)
  qed
qed

lemma rel_bind_ok [rel_rules]:
  assumes "rel m R" and "\<And>x. rel (k x) (S x)"
  shows "rel (bind_ok m k) (\<lambda>p y q. (\<exists>e. R p (Inl e) q \<and> y = Inl e) \<or> (\<exists>x p'. R p (Inr x) p' \<and> S x p' y q))"
proof -
  have k: "rel (case r of Inl e \<Rightarrow> State_Monad.return (Inl e) | Inr x \<Rightarrow> k x)
    (\<lambda>p' y q. case r of Inl e \<Rightarrow> y = Inl e \<and> q = p' | Inr x \<Rightarrow> S x p' y q)" for r
    by (cases r) (auto intro: assms(2) rel_return)
  show ?thesis
    unfolding bind_ok_def by (rule rel_mono, rule rel_bind [OF assms(1) k]) (auto split: sum.splits, metis sum.exhaust)
qed

lemma rel_db_ctx [rel_rules]:
  assumes "rel m R"
  shows "rel (db_ctx m) (\<lambda>p y q. (\<exists>e. R p (Inl e) q \<and> y = Inl (internal ''Database error'')) \<or> (\<exists>x. R p (Inr x) q \<and> y = Inr x))"
proof -
  have "rel (db_ctx m) (\<lambda>p y q. \<exists>r. R p r q \<and> y = (case r of Inl _ \<Rightarrow> Inl (internal ''Database error'') | Inr x \<Rightarrow> Inr x))"
    unfolding db_ctx_def by (rule rel_mono, rule rel_bind [OF assms rel_return]) auto
  then show ?thesis
  proof (rule rel_mono, elim exE conjE)
    fix p y q r
    assume "R p r q" "y = (case r of Inl _ \<Rightarrow> Inl (internal ''Database error'') | Inr x \<Rightarrow> Inr x)"
    then show "(\<exists>e. R p (Inl e) q \<and> y = Inl (internal ''Database error'')) \<or> (\<exists>x. R p (Inr x) q \<and> y = Inr x)"
      by (cases r) auto
  qed
qed

lemma rel_select [rel_rules]: "rel (select E f) (\<lambda>p r q. q = p \<and> (r = Inr (f p) \<or> r = Inl OtherDbError))"
  by (auto simp: rel_def select_def query_def wp_simps split: prod.split)

lemma rel_query [rel_rules]:
  "rel (query E f) (\<lambda>p r q. q = p \<and> r = Inl OtherDbError \<or> q = fst (f p) \<and> (r = snd (f p) \<or> r = Inl OtherDbError))"
  by (auto simp: rel_def query_def wp_simps split: prod.split)

lemma rel_execute [rel_rules]: "rel (execute E f) (\<lambda>p r q. q = p \<or> q = f p)"
  by (auto simp: rel_def execute_def query_def wp_simps split: prod.split)

lemma rel_draw [rel_rules]: "rel (draw f) (\<lambda>p r q. q = p)"
  by (auto simp: rel_def wp_simps split: prod.split)

lemma rel_if [rel_rules]: "rel m R \<Longrightarrow> rel n S \<Longrightarrow> rel (if b then m else n) (\<lambda>p r q. b \<and> R p r q \<or> \<not> b \<and> S p r q)"
  by (cases b) simp_all

lemma rel_option [rel_rules]:
  "rel m R \<Longrightarrow> (\<And>y. rel (f y) (S y)) \<Longrightarrow>
   rel (case x of None \<Rightarrow> m | Some y \<Rightarrow> f y) (\<lambda>p r q. x = None \<and> R p r q \<or> (\<exists>y. x = Some y \<and> S y p r q))"
  by (cases x) auto

lemma rel_in_transaction [rel_rules]:
  assumes "tx_sat body R"
  shows "rel (in_transaction E f body) (\<lambda>p r q. tx_effect R p q)"
  unfolding rel_def by (intro allI wp_in_transaction [OF assms]) simp

lemma keeps_rel: "rel m (\<lambda>p r q. P p \<longrightarrow> P q) \<Longrightarrow> keeps (on_pool P) m"
  unfolding keeps_def on_pool_def using relD by blast

end
