(* ===== verification/Srv_GroupsDb.thy ===== *)
theory Srv_GroupsDb
  imports Srv_Tx
begin

text \<open>
  \<open>db/groups.rs\<close>: the statements on conversations, members, bans, invitations and group keys. A
  reference to a missing conversation or user violates a foreign key, which PostgreSQL reports as
  an error; so does an \<open>integer\<close> column that would leave its range. Deleting a conversation deletes
  what refers to it, as the migrations declare with \<open>ON DELETE CASCADE\<close>.
\<close>

section \<open>Statements on the tables\<close>

definition i32_max :: i32 where "i32_max = 2147483647"

definition has_conversation :: "'n Pool \<Rightarrow> Uuid \<Rightarrow> bool" where
  "has_conversation p g \<longleftrightarrow> list_ex (\<lambda>c. cv_id c = g) (tb_conversations p)"

definition has_user :: "'n Pool \<Rightarrow> Uuid \<Rightarrow> bool" where
  "has_user p u \<longleftrightarrow> list_ex (\<lambda>r. us_id r = u) (tb_users p)"

definition at_member :: "Uuid \<Rightarrow> Uuid \<Rightarrow> MemberRow \<Rightarrow> bool" where
  "at_member g u m \<longleftrightarrow> mb_conversation_id m = g \<and> mb_user_id m = u"

definition active_at :: "Uuid \<Rightarrow> Uuid \<Rightarrow> MemberRow \<Rightarrow> bool" where
  "active_at g u m \<longleftrightarrow> at_member g u m \<and> \<not> mb_is_removed m"

definition member_role :: "Uuid \<Rightarrow> Uuid \<Rightarrow> 'n Pool \<Rightarrow> string option" where
  "member_role g u p = map_option mb_role (find (active_at g u) (tb_members p))"

text \<open>\<open>UPDATE conversations SET \<dots> WHERE id = $1\<close>, failing when a column overflows.\<close>

definition update_conversation :: "Uuid \<Rightarrow> (ConversationRow \<Rightarrow> ConversationRow) \<Rightarrow> 'n Pool \<Rightarrow> 'n Pool" where
  "update_conversation g f p = p\<lparr>tb_conversations := map (\<lambda>c. if cv_id c = g then f c else c) (tb_conversations p)\<rparr>"

definition bump_member_count :: "Uuid \<Rightarrow> 'n Pool \<Rightarrow> 'n Pool \<times> (sqlx_error + unit)" where
  "bump_member_count g p =
     (if list_ex (\<lambda>c. cv_id c = g \<and> i32_max \<le> cv_member_count c) (tb_conversations p) then (p, Inl OtherDbError)
      else (update_conversation g (\<lambda>c. c\<lparr>cv_member_count := cv_member_count c + 1\<rparr>) p, Inr ()))"

definition drop_member_count :: "Uuid \<Rightarrow> 'n Pool \<Rightarrow> 'n Pool" where
  "drop_member_count g = update_conversation g (\<lambda>c. c\<lparr>cv_member_count := max (cv_member_count c - 1) 0\<rparr>)"

text \<open>
  \<open>INSERT INTO conversation_members \<dots> ON CONFLICT DO UPDATE SET is_removed = false, role = 'member'
  WHERE is_removed = true\<close>: the answer says whether a row was written.
\<close>

definition upsert_member :: "datetime \<Rightarrow> Uuid \<Rightarrow> Uuid \<Rightarrow> 'n Pool \<Rightarrow> 'n Pool \<times> (sqlx_error + bool)" where
  "upsert_member now g u p =
     (case find (at_member g u) (tb_members p) of
        Some m \<Rightarrow>
          if mb_is_removed m
          then (p\<lparr>tb_members := map (\<lambda>r. if at_member g u r then r\<lparr>mb_is_removed := False, mb_role := ''member''\<rparr> else r)
                  (tb_members p)\<rparr>, Inr True)
          else (p, Inr False)
      | None \<Rightarrow>
          if has_conversation p g \<and> has_user p u
          then (p\<lparr>tb_members := tb_members p @
                  [\<lparr>mb_conversation_id = g, mb_user_id = u, mb_is_removed = False, mb_role = ''member'', mb_joined_at = now, mb_is_muted = False\<rparr>]\<rparr>,
                Inr True)
          else (p, Inl OtherDbError))"

definition soft_remove :: "Uuid \<Rightarrow> Uuid \<Rightarrow> 'n Pool \<Rightarrow> 'n Pool" where
  "soft_remove g u p =
     p\<lparr>tb_members := map (\<lambda>m. if active_at g u m then m\<lparr>mb_is_removed := True\<rparr> else m) (tb_members p)\<rparr>"

definition set_role :: "Uuid \<Rightarrow> Uuid \<Rightarrow> string \<Rightarrow> 'n Pool \<Rightarrow> 'n Pool" where
  "set_role g u new_role p =
     p\<lparr>tb_members := map (\<lambda>m. if active_at g u m then m\<lparr>mb_role := new_role\<rparr> else m) (tb_members p)\<rparr>"

definition upsert_ban :: "Uuid \<Rightarrow> Uuid \<Rightarrow> Uuid \<Rightarrow> 'n Pool \<Rightarrow> 'n Pool \<times> (sqlx_error + unit)" where
  "upsert_ban g u banned_by p =
     (if has_conversation p g \<and> has_user p u \<and> has_user p banned_by
      then (p\<lparr>tb_banned := hm_insert (g, u) banned_by (tb_banned p)\<rparr>, Inr ())
      else (p, Inl OtherDbError))"

definition banned :: "Uuid \<Rightarrow> Uuid \<Rightarrow> 'n Pool \<Rightarrow> bool" where
  "banned g u p \<longleftrightarrow> hm_get (tb_banned p) (g, u) \<noteq> None"

text \<open>\<open>DELETE FROM conversations\<close> with its cascades; replies and threads lose their reference.\<close>

definition delete_conversation :: "Uuid \<Rightarrow> 'n Pool \<Rightarrow> 'n Pool" where
  "delete_conversation g p =
     (let gone = set (map ms_id (filter (\<lambda>m. ms_conversation_id m = g) (tb_messages p)));
          rooms = set (map ch_id (filter (\<lambda>c. ch_conversation_id c = g) (tb_channels p)));
          keep_ref = (\<lambda>S x. case x of Some y \<Rightarrow> if y \<in> S then None else Some y | None \<Rightarrow> None)
      in p\<lparr>tb_conversations := filter (\<lambda>c. cv_id c \<noteq> g) (tb_conversations p),
           tb_members := filter (\<lambda>m. mb_conversation_id m \<noteq> g) (tb_members p),
           tb_direct := filter (\<lambda>(_, c). c \<noteq> g) (tb_direct p),
           tb_messages := map (\<lambda>m. m\<lparr>ms_reply_to_id := keep_ref gone (ms_reply_to_id m),
               ms_thread_root_id := keep_ref gone (ms_thread_root_id m), ms_channel_id := keep_ref rooms (ms_channel_id m)\<rparr>)
             (filter (\<lambda>m. ms_conversation_id m \<noteq> g) (tb_messages p)),
           tb_device_contents := filter (\<lambda>((m, _), _). m \<notin> gone) (tb_device_contents p),
           tb_deliveries := filter (\<lambda>(m, _). m \<notin> gone) (tb_deliveries p),
           tb_mentions := filter (\<lambda>(m, _). m \<notin> gone) (tb_mentions p),
           tb_channels := filter (\<lambda>c. ch_conversation_id c \<noteq> g) (tb_channels p),
           tb_voice_sessions := filter (\<lambda>(c, _). c \<notin> rooms) (tb_voice_sessions p),
           tb_read_receipts := filter (\<lambda>((c, _), _). c \<noteq> g) (tb_read_receipts p),
           tb_canvas := filter (\<lambda>(c, _). c \<notin> rooms) (tb_canvas p),
           tb_banned := filter (\<lambda>((c, _), _). c \<noteq> g) (tb_banned p),
           tb_invites := filter (\<lambda>(_, t). it_conversation_id t \<noteq> g) (tb_invites p),
           tb_group_keys := filter (\<lambda>((c, _), _). c \<noteq> g) (tb_group_keys p),
           tb_envelopes := filter (\<lambda>((c, _), _). c \<noteq> g) (tb_envelopes p),
           tb_rotations := filter (\<lambda>((c, _), _). c \<noteq> g) (tb_rotations p),
           tb_reactions := filter (\<lambda>((m, _), _). m \<notin> gone) (tb_reactions p),
           tb_polls := filter (\<lambda>(m, _). m \<notin> gone) (tb_polls p),
           tb_poll_votes := filter (\<lambda>((m, _), _). m \<notin> gone) (tb_poll_votes p),
           tb_thread_reads := filter (\<lambda>((_, m), _). m \<notin> gone) (tb_thread_reads p),
           tb_pinned_conversations := filter (\<lambda>((_, c), _). c \<noteq> g) (tb_pinned_conversations p)\<rparr>)"

section \<open>Reads\<close>

definition get_member_role :: "('w, 'tx, 'n) srv_env \<Rightarrow> Uuid \<Rightarrow> Uuid \<Rightarrow> ('w, 'tx, 'n, sqlx_error + string option) act" where
  "get_member_role E g u = select E (member_role g u)"

definition public_flag :: "Uuid \<Rightarrow> 'n Pool \<Rightarrow> bool" where
  "public_flag g p = (case conversation p g of Some c \<Rightarrow> cv_is_public c | None \<Rightarrow> False)"

definition is_banned :: "('w, 'tx, 'n) srv_env \<Rightarrow> Uuid \<Rightarrow> Uuid \<Rightarrow> ('w, 'tx, 'n, sqlx_error + bool) act" where
  "is_banned E g u = select E (banned g u)"

definition is_encrypted :: "('w, 'tx, 'n) srv_env \<Rightarrow> Uuid \<Rightarrow> ('w, 'tx, 'n, sqlx_error + bool) act" where
  "is_encrypted E g = select E (\<lambda>p. case conversation p g of Some c \<Rightarrow> cv_is_encrypted c | None \<Rightarrow> False)"

definition get_key_version :: "('w, 'tx, 'n) srv_env \<Rightarrow> Uuid \<Rightarrow> ('w, 'tx, 'n, sqlx_error + i32 option) act" where
  "get_key_version E g = select E (\<lambda>p. map_option cv_key_version (conversation p g))"

definition find_by_id :: "('w, 'tx, 'n) srv_env \<Rightarrow> Uuid \<Rightarrow> ('w, 'tx, 'n, sqlx_error + UserRow option) act" where
  "find_by_id E u = select E (\<lambda>p. user p u)"

record MemberContext =
  mc_is_member :: bool
  mc_kind :: string
  mc_role :: "string option"
  mc_is_public :: bool

definition get_member_context :: "('w, 'tx, 'n) srv_env \<Rightarrow> Uuid \<Rightarrow> Uuid \<Rightarrow> ('w, 'tx, 'n, sqlx_error + MemberContext option) act" where
  "get_member_context E g u = select E (\<lambda>p. map_option (\<lambda>c.
     let row = find (at_member g u) (tb_members p);
         member = (case row of Some m \<Rightarrow> \<not> mb_is_removed m | None \<Rightarrow> False)
     in \<lparr>mc_is_member = member, mc_kind = cv_kind c, mc_role = (if member then map_option mb_role row else None),
         mc_is_public = cv_is_public c\<rparr>) (conversation p g))"

definition user_has_public_group_named ::
  "('w, 'tx, 'n) srv_env \<Rightarrow> Uuid \<Rightarrow> string \<Rightarrow> ('w, 'tx, 'n, sqlx_error + bool) act" where
  "user_has_public_group_named E u title = select E (\<lambda>p.
     list_ex (\<lambda>c. cv_title c = Some title \<and> cv_is_public c \<and>
       list_ex (\<lambda>m. active_at (cv_id c) u m \<and> mb_role m = ''owner'') (tb_members p)) (tb_conversations p))"

definition find_empty_group_ids :: "('w, 'tx, 'n) srv_env \<Rightarrow> ('w, 'tx, 'n, sqlx_error + Uuid list) act" where
  "find_empty_group_ids E = select E (\<lambda>p.
     map cv_id (filter (\<lambda>c. cv_kind c = ''group'' \<and> active_member_ids p (cv_id c) = []) (tb_conversations p)))"

section \<open>Members\<close>

definition add_member_in_tx :: "('w, 'tx, 'n) srv_env \<Rightarrow> Uuid \<Rightarrow> Uuid \<Rightarrow> ('w, 'tx, 'n, sqlx_error + bool) txact" where
  "add_member_in_tx E g u = do {
     now \<leftarrow> tx_draw (sv_utc_now E);
     bind_ok (tx_query E (upsert_member now g u)) (\<lambda>added.
       if added then bind_ok (tx_query E (bump_member_count g)) (\<lambda>_. ok True) else ok False)
   }"

definition remove_member_in_tx :: "('w, 'tx, 'n) srv_env \<Rightarrow> Uuid \<Rightarrow> Uuid \<Rightarrow> ('w, 'tx, 'n, sqlx_error + bool) txact" where
  "remove_member_in_tx E g u =
     bind_ok (tx_query E (\<lambda>p. (soft_remove g u p, Inr (list_ex (active_at g u) (tb_members p))))) (\<lambda>removed.
       if removed then bind_ok (tx_query E (\<lambda>p. (drop_member_count g p, Inr ()))) (\<lambda>_. ok True) else ok False)"

definition db_add_member :: "('w, 'tx, 'n) srv_env \<Rightarrow> Uuid \<Rightarrow> Uuid \<Rightarrow> ('w, 'tx, 'n, sqlx_error + bool) act" where
  "db_add_member E g u = in_transaction E (\<lambda>e. e) (bind_ok (add_member_in_tx E g u) (\<lambda>added. ok (Commit added)))"

definition db_remove_member :: "('w, 'tx, 'n) srv_env \<Rightarrow> Uuid \<Rightarrow> Uuid \<Rightarrow> ('w, 'tx, 'n, sqlx_error + bool) act" where
  "db_remove_member E g u = in_transaction E (\<lambda>e. e) (bind_ok (remove_member_in_tx E g u) (\<lambda>removed. ok (Commit removed)))"

definition set_member_role_in_tx ::
  "('w, 'tx, 'n) srv_env \<Rightarrow> Uuid \<Rightarrow> Uuid \<Rightarrow> string \<Rightarrow> ('w, 'tx, 'n, sqlx_error + bool) txact" where
  "set_member_role_in_tx E g u new_role =
     tx_query E (\<lambda>p. (set_role g u new_role p, Inr (list_ex (active_at g u) (tb_members p))))"

definition ban_member_in_tx ::
  "('w, 'tx, 'n) srv_env \<Rightarrow> Uuid \<Rightarrow> Uuid \<Rightarrow> Uuid \<Rightarrow> ('w, 'tx, 'n, sqlx_error + bool) txact" where
  "ban_member_in_tx E g u banned_by =
     bind_ok (tx_query E (\<lambda>p. (soft_remove g u p, Inr (list_ex (active_at g u) (tb_members p))))) (\<lambda>removed.
     bind_ok (if removed then tx_query E (\<lambda>p. (drop_member_count g p, Inr ())) else ok ()) (\<lambda>_.
     bind_ok (tx_query E (upsert_ban g u banned_by)) (\<lambda>_. ok True)))"

definition db_ban_member :: "('w, 'tx, 'n) srv_env \<Rightarrow> Uuid \<Rightarrow> Uuid \<Rightarrow> Uuid \<Rightarrow> ('w, 'tx, 'n, sqlx_error + bool) act" where
  "db_ban_member E g u banned_by =
     in_transaction E (\<lambda>e. e) (bind_ok (ban_member_in_tx E g u banned_by) (\<lambda>b. ok (Commit b)))"

definition db_unban_member :: "('w, 'tx, 'n) srv_env \<Rightarrow> Uuid \<Rightarrow> Uuid \<Rightarrow> ('w, 'tx, 'n, sqlx_error + bool) act" where
  "db_unban_member E g u = query E (\<lambda>p. (p\<lparr>tb_banned := hm_remove (g, u) (tb_banned p)\<rparr>, Inr (banned g u p)))"

text \<open>\<open>INSERT \<dots> SELECT\<close>: nothing is inserted unless the conversation is a public group.\<close>

definition join_public_group :: "('w, 'tx, 'n) srv_env \<Rightarrow> Uuid \<Rightarrow> Uuid \<Rightarrow> ('w, 'tx, 'n, sqlx_error + bool) act" where
  "join_public_group E g u = in_transaction E (\<lambda>e. e) (do {
     now \<leftarrow> tx_draw (sv_utc_now E);
     bind_ok (tx_query E (\<lambda>p.
         case conversation p g of
           Some c \<Rightarrow> if cv_kind c = ''group'' \<and> cv_is_public c then upsert_member now g u p else (p, Inr False)
         | None \<Rightarrow> (p, Inr False))) (\<lambda>joined.
     bind_ok (if joined then tx_query E (bump_member_count g) else ok ()) (\<lambda>_. ok (Commit joined)))
   })"

section \<open>Groups\<close>

record GroupInfo =
  gi_id :: Uuid
  gi_title :: "string option"
  gi_kind :: string
  gi_description :: "string option"
  gi_icon_url :: "string option"
  gi_created_at :: datetime
  gi_is_encrypted :: bool

definition group_info :: "ConversationRow \<Rightarrow> GroupInfo" where
  "group_info c = \<lparr>gi_id = cv_id c, gi_title = cv_title c, gi_kind = cv_kind c, gi_description = cv_description c,
     gi_icon_url = cv_icon_url c, gi_created_at = cv_created_at c, gi_is_encrypted = cv_is_encrypted c\<rparr>"

definition insert_conversation :: "ConversationRow \<Rightarrow> 'n Pool \<Rightarrow> 'n Pool \<times> (sqlx_error + GroupInfo)" where
  "insert_conversation c p =
     (if has_conversation p (cv_id c) then (p, Inl UniqueViolation)
      else (p\<lparr>tb_conversations := tb_conversations p @ [c]\<rparr>, Inr (group_info c)))"

text \<open>A plain \<open>INSERT\<close>, and one with \<open>ON CONFLICT DO NOTHING\<close>; the number of rows is the answer.\<close>

definition insert_member :: "bool \<Rightarrow> MemberRow \<Rightarrow> 'n Pool \<Rightarrow> 'n Pool \<times> (sqlx_error + nat)" where
  "insert_member do_nothing m p =
     (if list_ex (at_member (mb_conversation_id m) (mb_user_id m)) (tb_members p)
      then (p, if do_nothing then Inr 0 else Inl UniqueViolation)
      else if has_conversation p (mb_conversation_id m) \<and> has_user p (mb_user_id m)
      then (p\<lparr>tb_members := tb_members p @ [m]\<rparr>, Inr 1)
      else (p, Inl OtherDbError))"

definition set_member_count :: "Uuid \<Rightarrow> i64 \<Rightarrow> 'n Pool \<Rightarrow> 'n Pool \<times> (sqlx_error + unit)" where
  "set_member_count g n p =
     (if i32_max < n then (p, Inl OtherDbError)
      else (update_conversation g (\<lambda>c. c\<lparr>cv_member_count := n\<rparr>) p, Inr ()))"

definition insert_channel :: "ChannelRow \<Rightarrow> 'n Pool \<Rightarrow> 'n Pool \<times> (sqlx_error + unit)" where
  "insert_channel r p =
     (if list_ex (\<lambda>c. ch_id c = ch_id r) (tb_channels p) then (p, Inl UniqueViolation)
      else if has_conversation p (ch_conversation_id r) then (p\<lparr>tb_channels := tb_channels p @ [r]\<rparr>, Inr ())
      else (p, Inl OtherDbError))"

fun add_initial_members ::
  "('w, 'tx, 'n) srv_env \<Rightarrow> datetime \<Rightarrow> Uuid \<Rightarrow> Uuid \<Rightarrow> Uuid list \<Rightarrow> nat \<Rightarrow> ('w, 'tx, 'n, sqlx_error + nat) txact" where
  "add_initial_members E now g creator [] inserted = ok inserted"
| "add_initial_members E now g creator (u # us) inserted =
     (if u = creator then add_initial_members E now g creator us inserted
      else bind_ok (tx_query E (insert_member True
          \<lparr>mb_conversation_id = g, mb_user_id = u, mb_is_removed = False, mb_role = ''member'', mb_joined_at = now, mb_is_muted = False\<rparr>)) (\<lambda>n.
        add_initial_members E now g creator us (inserted + n)))"

definition create_group_with_visibility ::
  "('w, 'tx, 'n) srv_env \<Rightarrow> Uuid \<Rightarrow> string \<Rightarrow> Uuid list \<Rightarrow> bool \<Rightarrow> string option \<Rightarrow> bool
     \<Rightarrow> ('w, 'tx, 'n, sqlx_error + GroupInfo) act" where
  "create_group_with_visibility E creator_id name member_ids is_public description encrypted =
     in_transaction E (\<lambda>e. e) (do {
       now \<leftarrow> tx_draw (sv_utc_now E);
       g \<leftarrow> tx_draw (sv_gen_random_uuid E);
       bind_ok (tx_query E (insert_conversation \<lparr>cv_id = g, cv_kind = ''group'', cv_is_encrypted = encrypted,
           cv_disappearing_ttl_seconds = None, cv_title = Some name, cv_description = description, cv_is_public = is_public,
           cv_key_version = 1, cv_member_count = 0, cv_icon_url = None, cv_created_at = now\<rparr>)) (\<lambda>group.
       bind_ok (tx_query E (insert_member False \<lparr>mb_conversation_id = g, mb_user_id = creator_id, mb_is_removed = False,
           mb_role = ''owner'', mb_joined_at = now, mb_is_muted = False\<rparr>)) (\<lambda>_.
       bind_ok (add_initial_members E now g creator_id member_ids 1) (\<lambda>inserted.
       bind_ok (tx_query E (set_member_count g (int inserted))) (\<lambda>_. do {
         text_id \<leftarrow> tx_draw (sv_gen_random_uuid E);
         bind_ok (tx_query E (insert_channel \<lparr>ch_id = text_id, ch_conversation_id = g, ch_kind = ''text'', ch_position = 0,
             ch_created_at = now, ch_deleted = False\<rparr>)) (\<lambda>_. do {
           voice_id \<leftarrow> tx_draw (sv_gen_random_uuid E);
           bind_ok (tx_query E (insert_channel \<lparr>ch_id = voice_id, ch_conversation_id = g, ch_kind = ''voice'', ch_position = 0,
               ch_created_at = now, ch_deleted = False\<rparr>)) (\<lambda>_. ok (Commit group))
         })
       }))))
     })"

definition db_delete_group :: "('w, 'tx, 'n) srv_env \<Rightarrow> Uuid \<Rightarrow> Uuid \<Rightarrow> ('w, 'tx, 'n, sqlx_error + bool) act" where
  "db_delete_group E g owner_id = query E (\<lambda>p.
     if list_ex (\<lambda>m. active_at g owner_id m \<and> mb_role m = ''owner'') (tb_members p) \<and> has_conversation p g
     then (delete_conversation g p, Inr True) else (p, Inr False))"

definition force_delete_conversation :: "('w, 'tx, 'n) srv_env \<Rightarrow> Uuid \<Rightarrow> ('w, 'tx, 'n, sqlx_error + unit) act" where
  "force_delete_conversation E g = execute E (delete_conversation g)"

definition update_group_title :: "('w, 'tx, 'n) srv_env \<Rightarrow> Uuid \<Rightarrow> string \<Rightarrow> ('w, 'tx, 'n, sqlx_error + unit) act" where
  "update_group_title E g title = execute E (update_conversation g (\<lambda>c. c\<lparr>cv_title := Some title\<rparr>))"

definition update_group_description :: "('w, 'tx, 'n) srv_env \<Rightarrow> Uuid \<Rightarrow> string \<Rightarrow> ('w, 'tx, 'n, sqlx_error + unit) act" where
  "update_group_description E g description = execute E (update_conversation g (\<lambda>c. c\<lparr>cv_description := Some description\<rparr>))"

section \<open>Group keys\<close>

definition bump_key_version_and_purge_envelopes ::
  "('w, 'tx, 'n) srv_env \<Rightarrow> Uuid \<Rightarrow> ('w, 'tx, 'n, sqlx_error + i32) act" where
  "bump_key_version_and_purge_envelopes E g = in_transaction E (\<lambda>e. e)
     (bind_ok (tx_query E (\<lambda>p.
        case conversation p g of
          None \<Rightarrow> (p, Inl RowNotFound)
        | Some c \<Rightarrow>
            if i32_max \<le> cv_key_version c then (p, Inl OtherDbError)
            else (update_conversation g (\<lambda>c. c\<lparr>cv_key_version := cv_key_version c + 1\<rparr>) p, Inr (cv_key_version c + 1)))) (\<lambda>v.
      bind_ok (tx_query E (\<lambda>p. (p\<lparr>tb_envelopes := filter (\<lambda>((c, _), _). c \<noteq> g) (tb_envelopes p)\<rparr>, Inr ()))) (\<lambda>_.
      ok (Commit v))))"

section \<open>Invitations\<close>

definition create_invite_token ::
  "('w, 'tx, 'n) srv_env \<Rightarrow> string \<Rightarrow> Uuid \<Rightarrow> Uuid \<Rightarrow> datetime option \<Rightarrow> i32 option
     \<Rightarrow> ('w, 'tx, 'n, sqlx_error + InviteToken) act" where
  "create_invite_token E token g created_by expires_at max_uses = do {
     now \<leftarrow> draw (sv_utc_now E);
     (let row = \<lparr>it_conversation_id = g, it_created_by = created_by, it_created_at = now, it_expires_at = expires_at,
          it_max_uses = max_uses, it_use_count = 0\<rparr> in
      query E (\<lambda>p.
        if hm_get (tb_invites p) token \<noteq> None then (p, Inl UniqueViolation)
        else if has_conversation p g \<and> has_user p created_by \<and> length (chars token) \<le> 32
        then (p\<lparr>tb_invites := hm_insert token row (tb_invites p)\<rparr>, Inr row)
        else (p, Inl OtherDbError)))
   }"

definition get_invite_token :: "('w, 'tx, 'n) srv_env \<Rightarrow> string \<Rightarrow> ('w, 'tx, 'n, sqlx_error + InviteToken option) act" where
  "get_invite_token E token = select E (\<lambda>p. hm_get (tb_invites p) token)"

definition delete_invite_token :: "('w, 'tx, 'n) srv_env \<Rightarrow> string \<Rightarrow> Uuid \<Rightarrow> ('w, 'tx, 'n, sqlx_error + bool) act" where
  "delete_invite_token E token g = query E (\<lambda>p.
     case hm_get (tb_invites p) token of
       Some t \<Rightarrow> if it_conversation_id t = g then (p\<lparr>tb_invites := hm_remove token (tb_invites p)\<rparr>, Inr True) else (p, Inr False)
     | None \<Rightarrow> (p, Inr False))"

definition list_invite_tokens :: "('w, 'tx, 'n) srv_env \<Rightarrow> Uuid \<Rightarrow> ('w, 'tx, 'n, sqlx_error + (string \<times> InviteToken) list) act" where
  "list_invite_tokens E g = select E (\<lambda>p.
     rev (sort_key (\<lambda>(_, t). it_created_at t) (filter (\<lambda>(_, t). it_conversation_id t = g) (tb_invites p))))"

datatype AcceptInviteOutcome = Added | AlreadyIn | Expired | Exhausted

definition expired :: "datetime \<Rightarrow> InviteToken \<Rightarrow> bool" where
  "expired now t = (case it_expires_at t of Some e \<Rightarrow> e < now | None \<Rightarrow> False)"

definition exhausted :: "InviteToken \<Rightarrow> bool" where
  "exhausted t = (case it_max_uses t of Some n \<Rightarrow> n \<le> it_use_count t | None \<Rightarrow> False)"

definition bump_use_count :: "string \<Rightarrow> 'n Pool \<Rightarrow> 'n Pool \<times> (sqlx_error + unit)" where
  "bump_use_count token p =
     (case hm_get (tb_invites p) token of
        None \<Rightarrow> (p, Inr ())
      | Some t \<Rightarrow>
          if i32_max \<le> it_use_count t then (p, Inl OtherDbError)
          else (p\<lparr>tb_invites := hm_insert token (t\<lparr>it_use_count := it_use_count t + 1\<rparr>) (tb_invites p)\<rparr>, Inr ()))"

text \<open>\<open>AlreadyIn\<close> is the outcome \<open>AlreadyMember\<close>, which is also the name of an error code.\<close>

definition accept_invite_token ::
  "('w, 'tx, 'n) srv_env \<Rightarrow> string \<Rightarrow> Uuid \<Rightarrow> ('w, 'tx, 'n, sqlx_error + AcceptInviteOutcome) act" where
  "accept_invite_token E token u = in_transaction E (\<lambda>e. e)
     (bind_ok (tx_query E (\<lambda>p. case hm_get (tb_invites p) token of Some t \<Rightarrow> (p, Inr t) | None \<Rightarrow> (p, Inl RowNotFound))) (\<lambda>t. do {
        now \<leftarrow> tx_draw (sv_utc_now E);
        (if expired now t then ok (Rollback Expired)
         else if exhausted t then ok (Rollback Exhausted)
         else do {
           joined_at \<leftarrow> tx_draw (sv_utc_now E);
           bind_ok (tx_query E (upsert_member joined_at (it_conversation_id t) u)) (\<lambda>added.
           bind_ok (if added then tx_query E (bump_member_count (it_conversation_id t)) else ok ()) (\<lambda>_.
           bind_ok (tx_query E (bump_use_count token)) (\<lambda>_.
           ok (Commit (if added then Added else AlreadyIn)))))
         })
      }))"

section \<open>\<open>db/messages.rs\<close>, \<open>db/keys.rs\<close>\<close>

definition insert_system_message ::
  "('w, 'tx, 'n) srv_env \<Rightarrow> Uuid \<Rightarrow> Uuid \<Rightarrow> string \<Rightarrow> ('w, 'tx, 'n, sqlx_error + MessageRow) act" where
  "insert_system_message E g sender_id content = do {
     mid \<leftarrow> draw (sv_gen_random_uuid E);
     now \<leftarrow> draw (sv_utc_now E);
     (let row = \<lparr>ms_id = mid, ms_conversation_id = g, ms_channel_id = None, ms_sender_id = sender_id,
          ms_sender_device_id = None, ms_content = content, ms_created_at = now, ms_delivered = True, ms_reply_to_id = None,
          ms_expires_at = None, ms_thread_root_id = None, ms_edited_at = None, ms_pinned_by_id = None, ms_pinned_at = None, ms_deleted = False\<rparr> in
      query E (\<lambda>p.
        if list_ex (\<lambda>m. ms_id m = mid) (tb_messages p) then (p, Inl UniqueViolation)
        else if has_conversation p g \<and> has_user p sender_id then (p\<lparr>tb_messages := tb_messages p @ [row]\<rparr>, Inr row)
        else (p, Inl OtherDbError)))
   }"

definition has_publishable_keys :: "('w, 'tx, 'n) srv_env \<Rightarrow> Uuid \<Rightarrow> ('w, 'tx, 'n, sqlx_error + bool) act" where
  "has_publishable_keys E u = select E (\<lambda>p.
     list_ex (\<lambda>k. ir_user_id k = u \<and>
       list_ex (\<lambda>otp. op_user_id otp = u \<and> op_device_id otp = ir_device_id k \<and> \<not> op_used otp) (tb_one_time_prekeys p))
     (tb_identity_keys p))"

end
