(* ===== verification/Srv_Groups.thy ===== *)
theory Srv_Groups
  imports Srv_GroupsDb Srv_Caches Srv_Rotation
begin

text \<open>
  \<open>routes/groups\<close>: the HTTP handlers that create, join, change and leave groups. A handler takes
  the authenticated user and the parts of the request it reads, and answers with a response or an
  \<open>AppError\<close>. The contexts given to \<open>db_ctx\<close> only reach the log.
\<close>

type_synonym ('w, 'tx, 'n) handler = "('w, 'tx, 'n, 'n AppError + 'n Response) act"

section \<open>Events\<close>

definition js_uuid :: "('w, 'tx, 'n) srv_env \<Rightarrow> Uuid \<Rightarrow> 'n json" where
  "js_uuid E u = JString (sv_uuid_to_string E u)"

definition js_opt :: "('a \<Rightarrow> 'n json) \<Rightarrow> 'a option \<Rightarrow> 'n json" where
  "js_opt f x = (case x of Some y \<Rightarrow> f y | None \<Rightarrow> JNull)"

definition js_int :: "('w, 'tx, 'n) srv_env \<Rightarrow> int \<Rightarrow> 'n json" where
  "js_int E i = JNumber (sv_num E i)"

definition js_time :: "('w, 'tx, 'n) srv_env \<Rightarrow> datetime \<Rightarrow> 'n json" where
  "js_time E t = JString (sv_datetime_text E t)"

text \<open>\<open>if let Ok(s) = serde_json::to_string(&event) { hub.broadcast_json(\<dots>) }\<close>.\<close>

definition broadcast_value ::
  "('w, 'tx, 'n) srv_env \<Rightarrow> Uuid list \<Rightarrow> 'n json \<Rightarrow> Uuid option \<Rightarrow> ('w, 'tx, 'n, unit) act" where
  "broadcast_value E recipients event exclude =
     (case sv_value_to_json E event of
        Some json \<Rightarrow> hub_broadcast_json E recipients json exclude
      | None \<Rightarrow> State_Monad.return ())"

definition status_body :: "string \<Rightarrow> 'n Response" where
  "status_body st = (200, Some (JObject [(''status'', JString st)]))"

definition member_added_event :: "('w, 'tx, 'n) srv_env \<Rightarrow> Uuid \<Rightarrow> UserRow \<Rightarrow> Uuid \<Rightarrow> 'n json" where
  "member_added_event E g u uid =
     JObject [(''type'', JString ''member_added''), (''conversation_id'', js_uuid E g), (''user_id'', js_uuid E uid),
       (''username'', JString (us_username u)), (''avatar_url'', js_opt JString (us_avatar_url u)), (''role'', JString ''member'')]"

definition system_message_event ::
  "('w, 'tx, 'n) srv_env \<Rightarrow> Uuid \<Rightarrow> Uuid \<Rightarrow> string \<Rightarrow> string \<Rightarrow> MessageRow \<Rightarrow> 'n json" where
  "system_message_event E g from_user_id from_username sentinel m =
     JObject [(''type'', JString ''new_message''), (''message_id'', js_uuid E (ms_id m)),
       (''from_user_id'', js_uuid E from_user_id), (''from_username'', JString from_username),
       (''conversation_id'', js_uuid E g), (''content'', JString sentinel), (''timestamp'', js_time E (ms_created_at m))]"

definition sentinel_of :: "('w, 'tx, 'n) srv_env \<Rightarrow> string \<Rightarrow> Uuid \<Rightarrow> string \<Rightarrow> string" where
  "sentinel_of E action uid username = ''__system__:'' @ action @ '':'' @ sv_uuid_to_string E uid @ '':'' @ username"

section \<open>\<open>members.rs\<close>\<close>

definition acquire_member_lock :: "('w, 'tx, 'n) srv_env \<Rightarrow> ('w, 'tx, 'n, 'n AppError + unit) txact" where
  "acquire_member_lock E = db_ctx (tx_select E (\<lambda>_. ()))"

definition broadcast_rotation_requested ::
  "('w, 'tx, 'n) srv_env \<Rightarrow> Uuid \<Rightarrow> i32 \<Rightarrow> ('w, 'tx, 'n, unit) act" where
  "broadcast_rotation_requested E g new_version = do {
     r \<leftarrow> get_conversation_member_ids E g;
     (case r of
        Inl _ \<Rightarrow> State_Monad.return ()
      | Inr members \<Rightarrow> do {
          hub \<leftarrow> gets st_hub;
          (case elect_rotation_leader (online_subset members (\<lambda>u. 0 < device_count hub u)) of
             None \<Rightarrow> State_Monad.return ()
           | Some leader \<Rightarrow> broadcast_to_conversation E g (sv_value_to_json E (JObject
               [(''type'', JString ''group_key_rotation_requested''), (''conversation_id'', js_uuid E g),
                (''key_version'', js_int E new_version), (''leader_user_id'', js_uuid E (rl_leader leader)),
                (''fallback_order'', JArray (map (js_uuid E) (rl_fallback_order leader))),
                (''deadline_ms'', js_int E (uint DEFAULT_ROTATION_DEADLINE_MS))])))
        })
   }"

definition rotate_group_key_after_member_loss :: "('w, 'tx, 'n) srv_env \<Rightarrow> Uuid \<Rightarrow> ('w, 'tx, 'n, unit) act" where
  "rotate_group_key_after_member_loss E g = do {
     r \<leftarrow> is_encrypted E g;
     (case r of
        Inl _ \<Rightarrow> State_Monad.return ()
      | Inr encrypted \<Rightarrow>
          if \<not> encrypted then State_Monad.return ()
          else do {
            b \<leftarrow> bump_key_version_and_purge_envelopes E g;
            (case b of
               Inl _ \<Rightarrow> State_Monad.return ()
             | Inr new_version \<Rightarrow> broadcast_rotation_requested E g new_version)
          })
   }"

definition broadcast_member_system_message ::
  "('w, 'tx, 'n) srv_env \<Rightarrow> Uuid \<Rightarrow> Uuid \<Rightarrow> string \<Rightarrow> Uuid \<Rightarrow> string \<Rightarrow> Uuid list \<Rightarrow> ('w, 'tx, 'n, unit) act" where
  "broadcast_member_system_message E g actor_user_id sentinel target_user_id target_username recipients = do {
     r \<leftarrow> insert_system_message E g actor_user_id sentinel;
     (case r of
        Inl _ \<Rightarrow> State_Monad.return ()
      | Inr m \<Rightarrow> broadcast_value E recipients (system_message_event E g target_user_id target_username sentinel m) None)
   }"

definition after_member_loss ::
  "('w, 'tx, 'n) srv_env \<Rightarrow> Uuid \<Rightarrow> Uuid \<Rightarrow> Uuid \<Rightarrow> string \<Rightarrow> ('w, 'tx, 'n, unit) act" where
  "after_member_loss E g actor_user_id target_user_id action = do {
     r \<leftarrow> get_conversation_member_ids E g;
     (let remaining = unwrap_or [] r in
      if remaining = [] then do { force_delete_conversation E g; State_Monad.return () }
      else do {
        rotate_group_key_after_member_loss E g;
        t \<leftarrow> find_by_id E target_user_id;
        (case unwrap_or None t of
           None \<Rightarrow> State_Monad.return ()
         | Some target_user \<Rightarrow>
             broadcast_member_system_message E g actor_user_id
               (sentinel_of E action target_user_id (us_username target_user))
               target_user_id (us_username target_user) remaining)
      })
   }"

definition role_or_member :: "string \<Rightarrow> Role" where
  "role_or_member s = (case Role_from_str_opt s of Some r \<Rightarrow> r | None \<Rightarrow> Member)"

definition not_a_member :: "'n AppError" where
  "not_a_member = with_code NotMember ''Not a member of this group''"

definition add_member_tx :: "('w, 'tx, 'n) srv_env \<Rightarrow> Uuid \<Rightarrow> Uuid \<Rightarrow> Uuid \<Rightarrow> ('w, 'tx, 'n, 'n AppError + Uuid list tx_end) txact" where
  "add_member_tx E auth g u =
     bind_ok (acquire_member_lock E) (\<lambda>_.
     bind_ok (db_ctx (tx_select E (member_role g auth))) (\<lambda>role.
     bind_ok (ok_or not_a_member role) (\<lambda>caller_role.
     bind_ok (db_ctx (tx_select E (\<lambda>p. map_option cv_kind (conversation p g)))) (\<lambda>kind.
     bind_ok (require_or (bad_request ''Not a group conversation'')
       (Option.bind kind ConversationKind_from_str_opt = Some Group)) (\<lambda>_.
     bind_ok (db_ctx (tx_select E (public_flag g))) (\<lambda>is_public.
     bind_ok (require_or (unauthorized ''Only owners and admins can add members to private groups'')
       (is_public \<or> is_admin_or_above (role_or_member caller_role))) (\<lambda>_.
     bind_ok (db_ctx (tx_select E (banned g u))) (\<lambda>is_banned.
     bind_ok (require_or (bad_request ''User is banned from this group'') (\<not> is_banned)) (\<lambda>_.
     bind_ok (db_ctx (tx_select E (\<lambda>p. active_member p g u))) (\<lambda>already_member.
     bind_ok (require_or (with_code AlreadyMember ''User is already a member'') (\<not> already_member)) (\<lambda>_.
     bind_ok (db_ctx (add_member_in_tx E g u)) (\<lambda>added.
     bind_ok (require_or (with_code AlreadyMember ''User is already a member'') added) (\<lambda>_. do {
       all_members \<leftarrow> tx_select E (\<lambda>p. active_member_ids p g);
       ok (Commit (unwrap_or [] all_members))
     })))))))))))))"

definition db_error :: "sqlx_error \<Rightarrow> 'n AppError" where
  "db_error e = internal ''Database error''"

definition add_member :: "('w, 'tx, 'n) srv_env \<Rightarrow> Uuid \<Rightarrow> Uuid \<Rightarrow> Uuid \<Rightarrow> ('w, 'tx, 'n) handler" where
  "add_member E auth g u =
     bind_ok (db_ctx (find_by_id E u)) (\<lambda>found.
     bind_ok (ok_or (not_found ''User not found'') found) (\<lambda>user_exists.
     bind_ok (in_transaction E db_error (add_member_tx E auth g u)) (\<lambda>all_members. do {
       invalidate_member_cache g;
       broadcast_value E all_members (member_added_event E g user_exists u) (Some u);
       broadcast_member_system_message E g u (sentinel_of E ''member_joined'' u (us_username user_exists)) u
         (us_username user_exists) all_members;
       ok (status_body ''added'')
     })))"

definition remove_member_tx :: "('w, 'tx, 'n) srv_env \<Rightarrow> Uuid \<Rightarrow> Uuid \<Rightarrow> Uuid \<Rightarrow> ('w, 'tx, 'n, 'n AppError + unit tx_end) txact" where
  "remove_member_tx E auth g target =
     bind_ok (acquire_member_lock E) (\<lambda>_.
     bind_ok (db_ctx (tx_select E (member_role g auth))) (\<lambda>role.
     bind_ok (ok_or not_a_member role) (\<lambda>caller_role.
     bind_ok (require_or (unauthorized ''Only owners and admins can remove other members'')
       (target = auth \<or> is_admin_or_above (role_or_member caller_role))) (\<lambda>_.
     bind_ok (if target \<noteq> auth
        then bind_ok (db_ctx (tx_select E (member_role g target))) (\<lambda>target_role.
          require_or (bad_request ''Cannot remove the group owner'') (Option.bind target_role Role_from_str_opt \<noteq> Some Owner))
        else ok ()) (\<lambda>_.
     bind_ok (db_ctx (remove_member_in_tx E g target)) (\<lambda>removed.
     bind_ok (require_or (bad_request ''User is not a member of this group'') removed) (\<lambda>_.
     ok (Commit ()))))))))"

definition remove_member :: "('w, 'tx, 'n) srv_env \<Rightarrow> Uuid \<Rightarrow> Uuid \<Rightarrow> Uuid \<Rightarrow> ('w, 'tx, 'n) handler" where
  "remove_member E auth g target =
     bind_ok (in_transaction E db_error (remove_member_tx E auth g target)) (\<lambda>_. do {
       invalidate_member_cache g;
       after_member_loss E g auth target ''member_removed'';
       ok (status_body ''removed'')
     })"

definition ban_member_tx :: "('w, 'tx, 'n) srv_env \<Rightarrow> Uuid \<Rightarrow> Uuid \<Rightarrow> Uuid \<Rightarrow> ('w, 'tx, 'n, 'n AppError + unit tx_end) txact" where
  "ban_member_tx E auth g target =
     bind_ok (acquire_member_lock E) (\<lambda>_.
     bind_ok (db_ctx (tx_select E (member_role g auth))) (\<lambda>role.
     bind_ok (ok_or not_a_member role) (\<lambda>caller_role.
     bind_ok (require_or (unauthorized ''Only owners and admins can ban members'')
       (is_admin_or_above (role_or_member caller_role))) (\<lambda>_.
     bind_ok (db_ctx (tx_select E (member_role g target))) (\<lambda>target_role.
     let target_role_enum = (case Option.bind target_role Role_from_str_opt of Some r \<Rightarrow> r | None \<Rightarrow> Member) in
     bind_ok (require_or (bad_request ''Cannot ban the group owner'') (target_role_enum \<noteq> Owner)) (\<lambda>_.
     bind_ok (require_or (bad_request ''Only the group owner can ban admins'')
       (\<not> is_admin_or_above target_role_enum \<or> role_or_member caller_role = Owner)) (\<lambda>_.
     bind_ok (db_ctx (ban_member_in_tx E g target auth)) (\<lambda>_.
     ok (Commit ())))))))))"

definition ban_member :: "('w, 'tx, 'n) srv_env \<Rightarrow> Uuid \<Rightarrow> Uuid \<Rightarrow> Uuid \<Rightarrow> ('w, 'tx, 'n) handler" where
  "ban_member E auth g target =
     bind_ok (in_transaction E db_error (ban_member_tx E auth g target)) (\<lambda>_. do {
       invalidate_member_cache g;
       after_member_loss E g auth target ''member_banned'';
       ok (status_body ''banned'')
     })"

text \<open>The guard that several handlers start with, up to the errors they answer.\<close>

definition require_admin ::
  "('w, 'tx, 'n) srv_env \<Rightarrow> Uuid \<Rightarrow> Uuid \<Rightarrow> 'n AppError \<Rightarrow> 'n AppError \<Rightarrow> ('w, 'tx, 'n, 'n AppError + unit) act" where
  "require_admin E auth g no_member no_admin =
     bind_ok (db_ctx (get_member_role E g auth)) (\<lambda>role.
     bind_ok (ok_or no_member role) (\<lambda>caller_role.
     require_or no_admin (is_admin_or_above (role_or_member caller_role))))"

definition unban_member :: "('w, 'tx, 'n) srv_env \<Rightarrow> Uuid \<Rightarrow> Uuid \<Rightarrow> Uuid \<Rightarrow> ('w, 'tx, 'n) handler" where
  "unban_member E auth g target =
     bind_ok (require_admin E auth g not_a_member (unauthorized ''Only owners and admins can unban members'')) (\<lambda>_.
     bind_ok (db_ctx (db_unban_member E g target)) (\<lambda>unbanned.
     bind_ok (require_or (bad_request ''User is not banned from this group'') unbanned) (\<lambda>_.
     ok (status_body ''unbanned''))))"

definition change_role_tx ::
  "('w, 'tx, 'n) srv_env \<Rightarrow> Uuid \<Rightarrow> Uuid \<Rightarrow> Uuid \<Rightarrow> string \<Rightarrow> ('w, 'tx, 'n, 'n AppError + Uuid list tx_end) txact" where
  "change_role_tx E auth g target new_role =
     bind_ok (acquire_member_lock E) (\<lambda>_.
     bind_ok (db_ctx (tx_select E (member_role g auth))) (\<lambda>role.
     bind_ok (ok_or not_a_member role) (\<lambda>caller_role.
     bind_ok (require_or (unauthorized ''Only the group owner can change member roles'')
       (Role_from_str_opt caller_role = Some Owner)) (\<lambda>_.
     bind_ok (db_ctx (tx_select E (member_role g target))) (\<lambda>t.
     bind_ok (ok_or (bad_request ''Target user is not a member of this group'') t) (\<lambda>target_role.
     bind_ok (require_or (bad_request (''Cannot change the owner'' @ [CHR 0x27] @ ''s role''))
       (Role_from_str_opt target_role \<noteq> Some Owner)) (\<lambda>_.
     bind_ok (db_ctx (set_member_role_in_tx E g target new_role)) (\<lambda>updated.
     bind_ok (require_or (bad_request ''Target user is not a member of this group'') updated) (\<lambda>_. do {
       all_members \<leftarrow> tx_select E (\<lambda>p. active_member_ids p g);
       ok (Commit (unwrap_or [] all_members))
     })))))))))"

definition change_member_role :: "('w, 'tx, 'n) srv_env \<Rightarrow> Uuid \<Rightarrow> Uuid \<Rightarrow> Uuid \<Rightarrow> string \<Rightarrow> ('w, 'tx, 'n) handler" where
  "change_member_role E auth g target new_role =
     (if new_role \<noteq> ''admin'' \<and> new_role \<noteq> ''member''
      then fail (bad_request (if new_role = ''owner'' then ''Cannot assign the owner role via this endpoint''
                              else ''Invalid role; accepted values: \"admin\", \"member\"''))
      else bind_ok (require_or (bad_request ''Cannot change your own role'') (target \<noteq> auth)) (\<lambda>_.
        bind_ok (in_transaction E db_error (change_role_tx E auth g target new_role)) (\<lambda>all_members. do {
          invalidate_member_cache g;
          broadcast_value E all_members (JObject [(''type'', JString ''member_role_changed''), (''conversation_id'', js_uuid E g),
            (''user_id'', js_uuid E target), (''role'', JString new_role)]) None;
          ok (200, Some (JObject [(''user_id'', js_uuid E target), (''role'', JString new_role)]))
        })))"

section \<open>\<open>lifecycle.rs\<close>\<close>

text \<open>\<open>leave_group\<close> sends the event itself, with the leaver as sender and actor.\<close>

definition leave_group :: "('w, 'tx, 'n) srv_env \<Rightarrow> Uuid \<Rightarrow> Uuid \<Rightarrow> ('w, 'tx, 'n) handler" where
  "leave_group E auth g =
     bind_ok (db_ctx (get_member_role E g auth)) (\<lambda>role.
     bind_ok (if Option.bind role Role_from_str_opt = Some Owner
        then do {
          members \<leftarrow> get_conversation_member_ids E g;
          require_or (bad_request ''Transfer ownership before leaving the group'') (\<not> 1 < length (unwrap_or [] members))
        }
        else ok ()) (\<lambda>_. do {
       leaver \<leftarrow> find_by_id E auth;
       bind_ok (db_ctx (db_remove_member E g auth)) (\<lambda>removed.
       bind_ok (require_or not_a_member removed) (\<lambda>_. do {
         invalidate_member_cache g;
         r \<leftarrow> get_conversation_member_ids E g;
         (let remaining = unwrap_or [] r in
          if remaining = [] then do { force_delete_conversation E g; State_Monad.return () }
          else do {
            rotate_group_key_after_member_loss E g;
            (case unwrap_or None leaver of
               None \<Rightarrow> State_Monad.return ()
             | Some leaver_user \<Rightarrow>
                 broadcast_member_system_message E g auth (sentinel_of E ''member_left'' auth (us_username leaver_user))
                   auth (us_username leaver_user) remaining)
          });
         ok (status_body ''left'')
       }))
     }))"

definition delete_group :: "('w, 'tx, 'n) srv_env \<Rightarrow> Uuid \<Rightarrow> Uuid \<Rightarrow> ('w, 'tx, 'n) handler" where
  "delete_group E auth g =
     bind_ok (db_ctx (db_delete_group E g auth)) (\<lambda>deleted.
     bind_ok (require_or (unauthorized ''Only the group owner can delete this group'') deleted) (\<lambda>_.
     ok (204, None)))"

text \<open>\<open>main.rs\<close>: the periodic task that reaps groups without active members.\<close>

definition cleanup_empty_groups :: "('w, 'tx, 'n) srv_env \<Rightarrow> ('w, 'tx, 'n, unit) act" where
  "cleanup_empty_groups E = do {
     r \<leftarrow> find_empty_group_ids E;
     (case r of
        Inl _ \<Rightarrow> State_Monad.return ()
      | Inr ids \<Rightarrow> for_each (\<lambda>g. do { force_delete_conversation E g; State_Monad.return () }) ids)
   }"

section \<open>\<open>public.rs\<close>\<close>

text \<open>What \<open>join_group\<close> and \<open>accept_invite\<close> announce after a member was added.\<close>

definition announce_join :: "('w, 'tx, 'n) srv_env \<Rightarrow> Uuid \<Rightarrow> Uuid \<Rightarrow> ('w, 'tx, 'n, unit) act" where
  "announce_join E auth g = do {
     joiner \<leftarrow> find_by_id E auth;
     existing \<leftarrow> get_conversation_member_ids E g;
     (case unwrap_or None joiner of
        None \<Rightarrow> State_Monad.return ()
      | Some joiner_user \<Rightarrow> do {
          broadcast_value E (unwrap_or [] existing) (member_added_event E g joiner_user auth) (Some auth);
          (let sentinel = sentinel_of E ''member_joined'' auth (us_username joiner_user) in do {
           r \<leftarrow> insert_system_message E g auth sentinel;
           (case r of
              Inl _ \<Rightarrow> State_Monad.return ()
            | Inr m \<Rightarrow> do {
                all_members \<leftarrow> get_conversation_member_ids E g;
                broadcast_value E (unwrap_or [] all_members)
                  (system_message_event E g auth (us_username joiner_user) sentinel m) None
              })
          })
        })
   }"

definition join_group :: "('w, 'tx, 'n) srv_env \<Rightarrow> Uuid \<Rightarrow> Uuid \<Rightarrow> ('w, 'tx, 'n) handler" where
  "join_group E auth g =
     bind_ok (db_ctx (is_banned E g auth)) (\<lambda>b.
     bind_ok (require_or (bad_request ''You are banned from this group'') (\<not> b)) (\<lambda>_.
     bind_ok (db_ctx (is_member E g auth)) (\<lambda>already_member.
     bind_ok (require_or (with_code AlreadyMember ''Already a member of this group'') (\<not> already_member)) (\<lambda>_.
     bind_ok (db_ctx (join_public_group E g auth)) (\<lambda>joined.
     bind_ok (require_or (bad_request ''Group not found or is not public'') joined) (\<lambda>_. do {
       invalidate_member_cache g;
       announce_join E auth g;
       ok (status_body ''joined'')
     }))))))"

section \<open>\<open>invite.rs\<close>\<close>

record CreateInviteRequest =
  ci_expires_in_seconds :: "i64 option"
  ci_max_uses :: "i32 option"

definition invite_url :: "string \<Rightarrow> string" where
  "invite_url token = ''https://echo-messenger.us/invite/t/'' @ token"

definition invite_body :: "('w, 'tx, 'n) srv_env \<Rightarrow> string \<Rightarrow> InviteToken \<Rightarrow> (string \<times> 'n json) list" where
  "invite_body E token t =
     [(''token'', JString token), (''url'', JString (invite_url token)), (''created_at'', js_time E (it_created_at t)),
      (''expires_at'', js_opt (js_time E) (it_expires_at t)), (''max_uses'', js_opt (js_int E) (it_max_uses t)),
      (''use_count'', js_int E (it_use_count t))]"

text \<open>
  \<open>chrono\<close>: \<open>Duration::seconds\<close> panics outside \<open>\<plusminus>i64::MAX / 1000\<close>, and adding to a time panics when the
  result leaves the representable range. A panic ends the handler, and with it the connection,
  without a response; the status 0 stands for that.
\<close>

definition panicked :: "'n AppError" where
  "panicked = \<lparr>er_status = 0, er_message = [], er_code = Internal, er_body = None\<rparr>"

definition add_seconds :: "datetime \<Rightarrow> i64 \<Rightarrow> datetime option" where
  "add_seconds now secs =
     (let t = now + secs * int nanos_per_sec in
      if \<bar>secs\<bar> \<le> (2 ^ 63 - 1) div 1000 \<and> - 8334601228800 * int nanos_per_sec \<le> t \<and> t < 8210266876800 * int nanos_per_sec
      then Some t else None)"

definition create_invite :: "('w, 'tx, 'n) srv_env \<Rightarrow> Uuid \<Rightarrow> Uuid \<Rightarrow> CreateInviteRequest option \<Rightarrow> ('w, 'tx, 'n) handler" where
  "create_invite E auth g body =
     (let req = (case body of Some b \<Rightarrow> b | None \<Rightarrow> \<lparr>ci_expires_in_seconds = None, ci_max_uses = None\<rparr>) in
      bind_ok (require_admin E auth g (forbidden ''Not a member of this group'')
        (forbidden ''Only owners and admins can create invite links'')) (\<lambda>_.
        bind_ok (case ci_expires_in_seconds req of
            Some secs \<Rightarrow> do {
              now \<leftarrow> draw (sv_utc_now E);
              (case add_seconds now secs of Some t \<Rightarrow> ok (Some t) | None \<Rightarrow> fail panicked)
            }
          | None \<Rightarrow> ok None) (\<lambda>expires_at. do {
          token \<leftarrow> draw (sv_random_token E);
          bind_ok (db_ctx (create_invite_token E token g auth expires_at (ci_max_uses req))) (\<lambda>invite.
            ok (201, Some (JObject ((''conversation_id'', js_uuid E (it_conversation_id invite)) # invite_body E token invite))))
        })))"

definition list_invites :: "('w, 'tx, 'n) srv_env \<Rightarrow> Uuid \<Rightarrow> Uuid \<Rightarrow> ('w, 'tx, 'n) handler" where
  "list_invites E auth g =
     bind_ok (require_admin E auth g not_a_member (unauthorized ''Only owners and admins can view invite links'')) (\<lambda>_.
     bind_ok (db_ctx (list_invite_tokens E g)) (\<lambda>tokens.
     ok (200, Some (JArray (map (\<lambda>(token, t). JObject (invite_body E token t)) tokens)))))"

definition usable_invite :: "('w, 'tx, 'n) srv_env \<Rightarrow> string \<Rightarrow> ('w, 'tx, 'n, 'n AppError + InviteToken) act" where
  "usable_invite E token =
     bind_ok (db_ctx (get_invite_token E token)) (\<lambda>found.
     bind_ok (ok_or (not_found ''Invite link not found'') found) (\<lambda>invite. do {
       is_expired \<leftarrow> (case it_expires_at invite of
           Some e \<Rightarrow> do { now \<leftarrow> draw (sv_utc_now E); State_Monad.return (e < now) }
         | None \<Rightarrow> State_Monad.return False);
       bind_ok (require_or (not_found ''Invite link has expired'') (\<not> is_expired)) (\<lambda>_.
       bind_ok (require_or (bad_request ''Invite link has reached its use limit'') (\<not> exhausted invite)) (\<lambda>_.
       ok invite))
     }))"

definition accept_invite :: "('w, 'tx, 'n) srv_env \<Rightarrow> Uuid \<Rightarrow> string \<Rightarrow> ('w, 'tx, 'n) handler" where
  "accept_invite E auth token =
     bind_ok (usable_invite E token) (\<lambda>invite.
     let g = it_conversation_id invite;
         joined = (\<lambda>st. (200, Some (JObject [(''status'', JString st), (''conversation_id'', js_uuid E g)]))) in
     bind_ok (db_ctx (is_banned E g auth)) (\<lambda>b.
     bind_ok (require_or (bad_request ''You are banned from this group'') (\<not> b)) (\<lambda>_.
     bind_ok (db_ctx (is_member E g auth)) (\<lambda>already_member.
     if already_member then ok (joined ''already_member'')
     else bind_ok (db_ctx (accept_invite_token E token auth)) (\<lambda>outcome.
       bind_ok (require_or (not_found ''Invite link has expired'') (outcome \<noteq> Expired)) (\<lambda>_.
       bind_ok (require_or (bad_request ''Invite link has reached its use limit'') (outcome \<noteq> Exhausted)) (\<lambda>_. do {
         invalidate_member_cache g;
         announce_join E auth g;
         ok (joined ''joined'')
       })))))))"

definition revoke_invite :: "('w, 'tx, 'n) srv_env \<Rightarrow> Uuid \<Rightarrow> Uuid \<Rightarrow> string \<Rightarrow> ('w, 'tx, 'n) handler" where
  "revoke_invite E auth g token =
     bind_ok (require_admin E auth g not_a_member (unauthorized ''Only owners and admins can revoke invite links'')) (\<lambda>_.
     bind_ok (db_ctx (delete_invite_token E token g)) (\<lambda>deleted.
     bind_ok (require_or (not_found ''Invite token not found'') deleted) (\<lambda>_.
     ok (204, None))))"

section \<open>\<open>create.rs\<close> and \<open>settings.rs\<close>\<close>

definition GET_GROUP_MEMBERS_LIMIT :: nat where "GET_GROUP_MEMBERS_LIMIT = 10000"

record GroupMember =
  gm_user_id :: Uuid
  gm_username :: string
  gm_joined_at :: datetime
  gm_role :: string
  gm_avatar_url :: "string option"

text \<open>The join with \<open>users\<close>, ordered by \<open>joined_at\<close>; the columns that no caller reads are left out.\<close>

definition group_members :: "Uuid \<Rightarrow> nat \<Rightarrow> 'n Pool \<Rightarrow> GroupMember list" where
  "group_members g limit p =
     take limit (List.map_filter (\<lambda>m. map_option (\<lambda>u.
         \<lparr>gm_user_id = mb_user_id m, gm_username = us_username u, gm_joined_at = mb_joined_at m, gm_role = mb_role m,
          gm_avatar_url = us_avatar_url u\<rparr>) (user p (mb_user_id m)))
       (sort_key mb_joined_at (filter (\<lambda>m. mb_conversation_id m = g \<and> \<not> mb_is_removed m) (tb_members p))))"

definition get_group_members :: "('w, 'tx, 'n) srv_env \<Rightarrow> Uuid \<Rightarrow> ('w, 'tx, 'n, sqlx_error + GroupMember list) act" where
  "get_group_members E g = select E (group_members g GET_GROUP_MEMBERS_LIMIT)"

record CreateGroupRequest =
  cg_name :: string
  cg_member_ids :: "Uuid list"
  cg_is_public :: bool
  cg_description :: "string option"
  cg_is_encrypted :: bool

definition group_response :: "('w, 'tx, 'n) srv_env \<Rightarrow> GroupInfo \<Rightarrow> GroupMember list \<Rightarrow> 'n json" where
  "group_response E info members =
     JObject [(''id'', js_uuid E (gi_id info)), (''title'', js_opt JString (gi_title info)), (''kind'', JString (gi_kind info)),
       (''description'', js_opt JString (gi_description info)), (''icon_url'', js_opt JString (gi_icon_url info)),
       (''members'', JArray (map (\<lambda>m. JObject [(''user_id'', js_uuid E (gm_user_id m)), (''username'', JString (gm_username m)),
          (''role'', JString (gm_role m)), (''avatar_url'', js_opt JString (gm_avatar_url m))]) members)),
       (''is_encrypted'', JBool (gi_is_encrypted info))]"

definition create_group :: "('w, 'tx, 'n) srv_env \<Rightarrow> Uuid \<Rightarrow> CreateGroupRequest \<Rightarrow> ('w, 'tx, 'n) handler" where
  "create_group E auth body =
     (let trimmed = trim_str (cg_name body); char_count = length (chars trimmed) in
      bind_ok (require_or (bad_request ''Group name must be between 1 and 100 characters'')
        (trimmed \<noteq> [] \<and> char_count \<le> 100)) (\<lambda>_.
      bind_ok (if cg_is_encrypted body
        then bind_ok (db_ctx (has_publishable_keys E auth)) (\<lambda>has_keys.
          require_or (bad_request (''Cannot create an end-to-end-encrypted group before publishing your identity and ''
            @ ''one-time prekeys. Open the app, finish key setup, and try again.'')) has_keys)
        else ok ()) (\<lambda>_.
      bind_ok (if cg_is_public body
        then bind_ok (db_ctx (user_has_public_group_named E auth trimmed)) (\<lambda>already_exists.
          require_or (conflict ''You already own a public group with this name'') (\<not> already_exists))
        else ok ()) (\<lambda>_.
      bind_ok (db_ctx (create_group_with_visibility E auth trimmed (cg_member_ids body) (cg_is_public body)
        (cg_description body) (cg_is_encrypted body))) (\<lambda>group.
      bind_ok (db_ctx (get_group_members E (gi_id group))) (\<lambda>members.
      ok (201, Some (group_response E group members))))))))"

definition get_group :: "('w, 'tx, 'n) srv_env \<Rightarrow> Uuid \<Rightarrow> Uuid \<Rightarrow> ('w, 'tx, 'n) handler" where
  "get_group E auth g =
     bind_ok (db_ctx (is_member E g auth)) (\<lambda>m.
     bind_ok (require_or not_a_member m) (\<lambda>_.
     bind_ok (db_ctx (select E (\<lambda>p. map_option group_info
       (find (\<lambda>c. cv_id c = g \<and> cv_kind c = ''group'') (tb_conversations p))))) (\<lambda>found.
     bind_ok (ok_or (bad_request ''Group not found'') found) (\<lambda>group.
     bind_ok (db_ctx (get_group_members E g)) (\<lambda>members.
     ok (200, Some (group_response E group members)))))))"

definition update_group :: "('w, 'tx, 'n) srv_env \<Rightarrow> Uuid \<Rightarrow> Uuid \<Rightarrow> string option \<Rightarrow> string option \<Rightarrow> ('w, 'tx, 'n) handler" where
  "update_group E auth g title description =
     bind_ok (require_admin E auth g not_a_member (unauthorized ''Only the group owner or admin can update the group'')) (\<lambda>_.
     bind_ok (case title of
        Some t \<Rightarrow>
          let trimmed = trim_str t in
          bind_ok (require_or (bad_request ''Title cannot be empty'') (trimmed \<noteq> [])) (\<lambda>_.
          db_ctx (update_group_title E g trimmed))
      | None \<Rightarrow> ok ()) (\<lambda>_.
     bind_ok (case description of
        Some d \<Rightarrow> db_ctx (update_group_description E g d)
      | None \<Rightarrow> ok ()) (\<lambda>_.
     ok (status_body ''updated''))))"

end
