(* ===== verification/Srv_Roster.thy ===== *)
theory Srv_Roster
  imports Srv_GroupsDb
begin

text \<open>
  The invariant of the tables that describe groups, and that the statements of \<open>db/groups.rs\<close>, taken
  together as a transaction takes them, keep it.
\<close>

section \<open>The invariant\<close>

definition member_key :: "MemberRow \<Rightarrow> Uuid \<times> Uuid" where
  "member_key m = (mb_conversation_id m, mb_user_id m)"

definition active_in :: "Uuid \<Rightarrow> MemberRow \<Rightarrow> bool" where
  "active_in g m \<longleftrightarrow> mb_conversation_id m = g \<and> \<not> mb_is_removed m"

definition owner_in :: "Uuid \<Rightarrow> MemberRow \<Rightarrow> bool" where
  "owner_in g m \<longleftrightarrow> mb_conversation_id m = g \<and> mb_role m = ''owner''"

text \<open>The counter of a group is the number of its active members.\<close>

definition counts_exact :: "'n Pool \<Rightarrow> bool" where
  "counts_exact p \<longleftrightarrow> (\<forall>c\<in>set (tb_conversations p). cv_kind c = ''group'' \<longrightarrow>
     cv_member_count c = int (length (filter (active_in (cv_id c)) (tb_members p))))"

text \<open>Keys are unique, members belong to conversations, roles are known, a group has at most one owner.\<close>

definition members_wf :: "'n Pool \<Rightarrow> bool" where
  "members_wf p \<longleftrightarrow> distinct (map cv_id (tb_conversations p)) \<and> distinct (map member_key (tb_members p)) \<and>
     (\<forall>m\<in>set (tb_members p). has_conversation p (mb_conversation_id m) \<and> Role_from_str_opt (mb_role m) \<noteq> None) \<and>
     (\<forall>g. length (filter (owner_in g) (tb_members p)) \<le> 1)"

definition bans_hold :: "'n Pool \<Rightarrow> bool" where
  "bans_hold p \<longleftrightarrow> (\<forall>g u. banned g u p \<longrightarrow> has_conversation p g \<and> \<not> active_member p g u)"

definition use_ok :: "InviteToken \<Rightarrow> bool" where
  "use_ok t \<longleftrightarrow> 0 \<le> it_use_count t \<and> (\<forall>n. it_max_uses t = Some n \<longrightarrow> it_use_count t \<le> max 0 n)"

definition invites_bounded :: "'n Pool \<Rightarrow> bool" where
  "invites_bounded p \<longleftrightarrow> (\<forall>x\<in>set (tb_invites p). use_ok (snd x))"

definition roster_ok :: "'n Pool \<Rightarrow> bool" where
  "roster_ok p \<longleftrightarrow> counts_exact p \<and> members_wf p \<and> bans_hold p \<and> invites_bounded p"

section \<open>Lists\<close>

text \<open>Changing the one element with a given key changes a count by at most one.\<close>

lemma count_update_key:
  assumes "distinct (map k xs)"
  shows "length (filter P (map (\<lambda>x. if k x = a then f x else x) xs)) + (if \<exists>x\<in>set xs. k x = a \<and> P x then 1 else 0)
       = length (filter P xs) + (if \<exists>x\<in>set xs. k x = a \<and> P (f x) then 1 else 0)"
  using assms
proof (induction xs)
  case (Cons y ys)
  show ?case
  proof (cases "k y = a")
    case True
    then have other: "\<forall>x\<in>set ys. k x \<noteq> a" using Cons.prems by (auto simp: image_iff)
    then have "map (\<lambda>x. if k x = a then f x else x) ys = ys" by (simp add: map_idI)
    then show ?thesis using True other by auto
  next
    case False
    then show ?thesis using Cons by (auto split: if_splits)
  qed
qed simp

lemma distinct_map_update_key:
  "(\<And>x. k (f x) = k x) \<Longrightarrow> distinct (map k (map (\<lambda>x. if b x then f x else x) xs)) = distinct (map k xs)"
  by (simp add: comp_def if_distrib [of k] cong: if_cong)

lemma at_member_key: "at_member g u m \<longleftrightarrow> member_key m = (g, u)"
  by (auto simp: at_member_def member_key_def)

lemma active_at_key: "active_at g u m \<longleftrightarrow> member_key m = (g, u) \<and> \<not> mb_is_removed m"
  by (simp add: active_at_def at_member_key)

lemma active_member_iff: "active_member p g u \<longleftrightarrow> (\<exists>m\<in>set (tb_members p). active_at g u m)"
  by (auto simp: active_member_def active_at_def at_member_def list_ex_iff)

lemma soft_remove_members:
  "tb_members (soft_remove g u p) = map (\<lambda>m. if member_key m = (g, u) then m\<lparr>mb_is_removed := True\<rparr> else m) (tb_members p)"
  by (auto simp: soft_remove_def active_at_key)

lemma set_role_members:
  "tb_members (set_role g u r p) =
     map (\<lambda>m. if member_key m = (g, u) then (if mb_is_removed m then m else m\<lparr>mb_role := r\<rparr>) else m) (tb_members p)"
  by (auto simp: set_role_def active_at_key)

lemma member_key_updates [simp]:
  "member_key (m\<lparr>mb_is_removed := b\<rparr>) = member_key m" "member_key (m\<lparr>mb_role := r\<rparr>) = member_key m"
  by (simp_all add: member_key_def)

text \<open>What a statement on one table leaves as it was.\<close>

lemma roster_frame:
  assumes "tb_conversations q = tb_conversations p" "tb_members q = tb_members p" "tb_banned q = tb_banned p"
    "tb_invites q = tb_invites p"
  shows "roster_ok q = roster_ok p"
  using assms
  by (simp add: roster_ok_def counts_exact_def members_wf_def bans_hold_def invites_bounded_def has_conversation_def banned_def
      active_member_def)

lemma update_conversation_fields [simp]:
  "tb_members (update_conversation g f p) = tb_members p" "tb_banned (update_conversation g f p) = tb_banned p"
  "tb_invites (update_conversation g f p) = tb_invites p"
  by (simp_all add: update_conversation_def)

lemma has_update_conversation:
  "(\<And>c. cv_id (f c) = cv_id c) \<Longrightarrow> has_conversation (update_conversation g f p) h = has_conversation p h"
  by (auto simp: has_conversation_def update_conversation_def list_ex_iff)

lemma active_member_frame: "tb_members q = tb_members p \<Longrightarrow> active_member q g u = active_member p g u"
  by (simp add: active_member_def)

section \<open>Statements that keep the invariant\<close>

text \<open>A new count for one group, together with the change of the members that it counts.\<close>

lemma update_count:
  assumes "counts_exact p" and "\<And>c. cv_id (f c) = cv_id c \<and> cv_kind (f c) = cv_kind c"
    and "\<And>h. h \<noteq> g \<Longrightarrow> length (filter (active_in h) ms) = length (filter (active_in h) (tb_members p))"
    and "\<And>c. cv_member_count c = int (length (filter (active_in g) (tb_members p))) \<Longrightarrow>
      cv_member_count (f c) = int (length (filter (active_in g) ms))"
  shows "counts_exact (update_conversation g f (p\<lparr>tb_members := ms\<rparr>))"
  using assms by (auto simp: counts_exact_def update_conversation_def)

lemma update_conversation_ok:
  assumes "roster_ok p" and "\<And>c. cv_id (f c) = cv_id c \<and> cv_kind (f c) = cv_kind c \<and> cv_member_count (f c) = cv_member_count c"
  shows "roster_ok (update_conversation g f p)"
proof -
  have "counts_exact (update_conversation g f (p\<lparr>tb_members := tb_members p\<rparr>))"
    by (rule update_count) (use assms in \<open>auto simp: roster_ok_def\<close>)
  moreover have "distinct (map cv_id (tb_conversations (update_conversation g f p)))"
    unfolding update_conversation_def using assms distinct_map_update_key [of cv_id f] by (simp add: roster_ok_def members_wf_def)
  ultimately show ?thesis
    using assms has_update_conversation [of f g p]
    by (simp add: roster_ok_def members_wf_def bans_hold_def invites_bounded_def banned_def active_member_def)
qed

definition members_step :: "'n Pool \<Rightarrow> MemberRow list \<Rightarrow> Uuid \<Rightarrow> (ConversationRow \<Rightarrow> ConversationRow) \<Rightarrow> bool" where
  "members_step p ms g f \<longleftrightarrow>
     (\<forall>c. cv_id (f c) = cv_id c \<and> cv_kind (f c) = cv_kind c) \<and>
     (\<forall>h. h \<noteq> g \<longrightarrow> length (filter (active_in h) ms) = length (filter (active_in h) (tb_members p))) \<and>
     (\<forall>c. cv_member_count c = int (length (filter (active_in g) (tb_members p))) \<longrightarrow>
        cv_member_count (f c) = int (length (filter (active_in g) ms))) \<and>
     distinct (map member_key ms) \<and>
     (\<forall>m\<in>set ms. has_conversation p (mb_conversation_id m) \<and> Role_from_str_opt (mb_role m) \<noteq> None) \<and>
     (\<forall>h. length (filter (owner_in h) ms) \<le> 1) \<and>
     (\<forall>h u. banned h u p \<longrightarrow> \<not> (\<exists>m\<in>set ms. active_at h u m))"

lemma members_step_ok:
  assumes p: "roster_ok p" and m: "members_step p ms g f"
  shows "roster_ok (update_conversation g f (p\<lparr>tb_members := ms\<rparr>))"
proof -
  let ?q = "update_conversation g f (p\<lparr>tb_members := ms\<rparr>)"
  have ids: "\<And>c. cv_id (f c) = cv_id c" using m by (simp add: members_step_def)
  have has: "has_conversation ?q h = has_conversation p h" for h
    using has_update_conversation [of f g "p\<lparr>tb_members := ms\<rparr>", OF ids] by (simp add: has_conversation_def)
  have "counts_exact ?q"
    by (rule update_count) (use p m in \<open>auto simp: roster_ok_def members_step_def\<close>)
  moreover have "distinct (map cv_id (tb_conversations ?q))"
    using p distinct_map_update_key [of cv_id f, OF ids] by (simp add: update_conversation_def roster_ok_def members_wf_def)
  moreover have "bans_hold ?q"
    using p m by (simp add: bans_hold_def roster_ok_def members_step_def banned_def has active_member_iff)
  ultimately show ?thesis
    using p m by (simp add: roster_ok_def members_wf_def has members_step_def invites_bounded_def)
qed

section \<open>Joining\<close>

lemma find_at_member: "find (at_member g u) xs = None \<longleftrightarrow> (\<forall>m\<in>set xs. member_key m \<noteq> (g, u))"
  by (auto simp: find_None_iff at_member_key)

lemma find_at_member_Some: "find (at_member g u) xs = Some m \<Longrightarrow> m \<in> set xs \<and> member_key m = (g, u)"
  by (auto simp: find_Some_iff at_member_key)

lemma upsert_memberD:
  assumes "upsert_member now g u p = (q, Inr True)"
  shows "find (at_member g u) (tb_members p) = None \<and> has_conversation p g \<and>
      q = p\<lparr>tb_members := tb_members p @
         [\<lparr>mb_conversation_id = g, mb_user_id = u, mb_is_removed = False, mb_role = ''member'', mb_joined_at = now, mb_is_muted = False\<rparr>]\<rparr> \<or>
    (\<exists>m. find (at_member g u) (tb_members p) = Some m \<and> mb_is_removed m \<and>
      q = p\<lparr>tb_members := map (\<lambda>r. if member_key r = (g, u) then r\<lparr>mb_is_removed := False, mb_role := ''member''\<rparr> else r)
         (tb_members p)\<rparr>)"
  using assms by (auto simp: upsert_member_def at_member_key split: option.splits if_splits)

lemma role_known [simp]:
  "Role_from_str_opt ''member'' = Some Member" "Role_from_str_opt ''owner'' = Some Owner" "Role_from_str_opt ''admin'' = Some Admin"
  by (simp_all add: Role_from_str_opt_def)

lemma owners_shrink:
  assumes "length (filter (owner_in h) xs) \<le> 1" and "\<And>x. owner_in h (f x) \<Longrightarrow> owner_in h x"
  shows "length (filter (owner_in h) (map f xs)) \<le> 1"
proof -
  have "length (filter (owner_in h) (map f xs)) \<le> length (filter (owner_in h) xs)"
    using assms(2) by (induction xs) (auto simp: le_SucI)
  then show ?thesis using assms(1) by simp
qed

lemma distinct_key_unique: "distinct (map k xs) \<Longrightarrow> x \<in> set xs \<Longrightarrow> y \<in> set xs \<Longrightarrow> k x = k y \<Longrightarrow> x = y"
  by (auto simp: distinct_map inj_on_def)

abbreviation count_up :: "ConversationRow \<Rightarrow> ConversationRow" where
  "count_up c \<equiv> c\<lparr>cv_member_count := cv_member_count c + 1\<rparr>"

lemma admit_step:
  assumes p: "roster_ok p" and q: "upsert_member now g u p = (q, Inr True)" and nb: "\<not> banned g u p"
  shows "\<exists>ms. q = p\<lparr>tb_members := ms\<rparr> \<and> members_step p ms g count_up"
  using upsert_memberD [OF q]
proof (elim disjE exE conjE)
  assume new: "find (at_member g u) (tb_members p) = None" "has_conversation p g"
    "q = p\<lparr>tb_members := tb_members p @
         [\<lparr>mb_conversation_id = g, mb_user_id = u, mb_is_removed = False, mb_role = ''member'', mb_joined_at = now, mb_is_muted = False\<rparr>]\<rparr>"
  let ?row = "\<lparr>mb_conversation_id = g, mb_user_id = u, mb_is_removed = False, mb_role = ''member'', mb_joined_at = now, mb_is_muted = False\<rparr>"
  have "member_key ?row = (g, u)" by (simp add: member_key_def)
  moreover have "(g, u) \<notin> member_key ` set (tb_members p)" using new(1) by (auto simp: find_at_member)
  ultimately have "members_step p (tb_members p @ [?row]) g count_up"
    using p new(2) nb
    by (auto simp: members_step_def roster_ok_def members_wf_def bans_hold_def active_in_def owner_in_def active_member_iff active_at_key)
  then show ?thesis using new(3) by blast
next
  fix m
  assume rejoin: "find (at_member g u) (tb_members p) = Some m" "mb_is_removed m"
    "q = p\<lparr>tb_members := map (\<lambda>r. if member_key r = (g, u) then r\<lparr>mb_is_removed := False, mb_role := ''member''\<rparr> else r)
         (tb_members p)\<rparr>"
  let ?f = "\<lambda>r. r\<lparr>mb_is_removed := False, mb_role := ''member''\<rparr>"
  let ?ms = "map (\<lambda>r. if member_key r = (g, u) then ?f r else r) (tb_members p)"
  have m: "m \<in> set (tb_members p)" "member_key m = (g, u)" using find_at_member_Some [OF rejoin(1)] by auto
  have d: "distinct (map member_key (tb_members p))" using p by (simp add: roster_ok_def members_wf_def)
  have gm: "\<And>r. member_key r = (g, u) \<Longrightarrow> mb_conversation_id r = g" by (simp add: member_key_def)
  have uniq: "r = m" if "r \<in> set (tb_members p)" "member_key r = (g, u)" for r
    using distinct_key_unique [OF d] that m by metis
  have "length (filter (active_in g) ?ms) = Suc (length (filter (active_in g) (tb_members p)))"
  proof -
    have none: "\<not> (\<exists>x\<in>set (tb_members p). member_key x = (g, u) \<and> active_in g x)"
      using uniq rejoin(2) by (auto simp: active_in_def)
    have some: "\<exists>x\<in>set (tb_members p). member_key x = (g, u) \<and> active_in g (?f x)"
      using m gm [OF m(2)] by (intro bexI [OF _ m(1)]) (simp add: active_in_def)
    show ?thesis
      using count_update_key [OF d, of "active_in g" "(g, u)" ?f] unfolding if_not_P [OF none] if_P [OF some] by simp
  qed
  moreover have "length (filter (active_in h) ?ms) = length (filter (active_in h) (tb_members p))" if "h \<noteq> g" for h
    using count_update_key [OF d, of "active_in h" "(g, u)" ?f] gm that by (auto simp: active_in_def split: if_splits)
  moreover have "distinct (map member_key ?ms)" using d distinct_map_update_key [of member_key ?f] by simp
  moreover have "length (filter (owner_in h) ?ms) \<le> 1" for h
    by (rule owners_shrink) (use p in \<open>auto simp: roster_ok_def members_wf_def owner_in_def split: if_splits\<close>)
  moreover have "\<not> (\<exists>r\<in>set ?ms. active_at h v r)" if "banned h v p" for h v
  proof -
    have "(h, v) \<noteq> (g, u)" using nb that by auto
    then show ?thesis using p that by (auto simp: roster_ok_def bans_hold_def active_member_iff active_at_key split: if_splits)
  qed
  ultimately have "members_step p ?ms g count_up"
    using p by (auto simp: members_step_def roster_ok_def members_wf_def split: if_splits)
  then show ?thesis using rejoin(3) by blast
qed

lemma admit_ok:
  assumes "roster_ok p" "upsert_member now g u p = (q, Inr True)" "\<not> banned g u p" "bump_member_count g q = (r, Inr ())"
  shows "roster_ok r"
proof -
  obtain ms where ms: "q = p\<lparr>tb_members := ms\<rparr>" "members_step p ms g count_up" using admit_step [OF assms(1-3)] by blast
  have "r = update_conversation g count_up q" using assms(4) by (simp add: bump_member_count_def split: if_splits)
  then show ?thesis using members_step_ok [OF assms(1) ms(2)] ms(1) by simp
qed

lemma upsert_False: "upsert_member now g u p = (q, Inr False) \<Longrightarrow> q = p"
  by (auto simp: upsert_member_def split: option.splits if_splits)

section \<open>Leaving\<close>

abbreviation count_down :: "ConversationRow \<Rightarrow> ConversationRow" where
  "count_down c \<equiv> c\<lparr>cv_member_count := max (cv_member_count c - 1) 0\<rparr>"

lemma soft_remove_eq: "soft_remove g u p = p\<lparr>tb_members := tb_members (soft_remove g u p)\<rparr>"
  by (simp add: soft_remove_def)

lemma remove_step:
  assumes p: "roster_ok p" and a: "list_ex (active_at g u) (tb_members p)"
  shows "members_step p (tb_members (soft_remove g u p)) g count_down"
proof -
  let ?f = "\<lambda>r. r\<lparr>mb_is_removed := True\<rparr>"
  let ?ms = "map (\<lambda>r. if member_key r = (g, u) then ?f r else r) (tb_members p)"
  obtain m where m: "m \<in> set (tb_members p)" "member_key m = (g, u)" "\<not> mb_is_removed m"
    using a by (auto simp: list_ex_iff active_at_key)
  have d: "distinct (map member_key (tb_members p))" using p by (simp add: roster_ok_def members_wf_def)
  have gm: "\<And>r. member_key r = (g, u) \<Longrightarrow> mb_conversation_id r = g" by (simp add: member_key_def)
  have "Suc (length (filter (active_in g) ?ms)) = length (filter (active_in g) (tb_members p))"
    using count_update_key [OF d, of "active_in g" "(g, u)" ?f] m gm by (auto simp: active_in_def split: if_splits)
  moreover have "length (filter (active_in h) ?ms) = length (filter (active_in h) (tb_members p))" if "h \<noteq> g" for h
    using count_update_key [OF d, of "active_in h" "(g, u)" ?f] gm that by (auto simp: active_in_def split: if_splits)
  moreover have "distinct (map member_key ?ms)" using d distinct_map_update_key [of member_key ?f] by simp
  moreover have "length (filter (owner_in h) ?ms) \<le> 1" for h
    by (rule owners_shrink) (use p in \<open>auto simp: roster_ok_def members_wf_def owner_in_def split: if_splits\<close>)
  ultimately show ?thesis
    unfolding soft_remove_members
    using p by (auto simp: members_step_def roster_ok_def members_wf_def bans_hold_def active_member_iff active_at_key split: if_splits)
qed

lemma remove_ok:
  assumes "roster_ok p" "list_ex (active_at g u) (tb_members p)"
  shows "roster_ok (drop_member_count g (soft_remove g u p))"
  using members_step_ok [OF assms(1) remove_step [OF assms]] soft_remove_eq [of g u p] by (simp add: drop_member_count_def)

lemma soft_remove_none: "\<not> list_ex (active_at g u) (tb_members p) \<Longrightarrow> soft_remove g u p = p"
proof -
  assume "\<not> list_ex (active_at g u) (tb_members p)"
  then have "map (\<lambda>m. if active_at g u m then m\<lparr>mb_is_removed := True\<rparr> else m) (tb_members p) = tb_members p"
    by (intro map_idI) (auto simp: list_ex_iff)
  then show ?thesis by (simp add: soft_remove_def)
qed

lemma not_active_after_remove: "\<not> active_member (soft_remove g u p) g u"
  by (auto simp: active_member_iff soft_remove_members active_at_key split: if_splits)

lemma drop_count_members [simp]: "tb_members (drop_member_count g p) = tb_members p" "tb_banned (drop_member_count g p) = tb_banned p"
  by (simp_all add: drop_member_count_def)

lemma ban_ok:
  assumes "roster_ok p" "\<not> active_member p g u" "upsert_ban g u by_user p = (q, Inr ())"
  shows "roster_ok q"
proof -
  have q: "has_conversation p g" "q = p\<lparr>tb_banned := hm_insert (g, u) by_user (tb_banned p)\<rparr>"
    using assms(3) by (auto simp: upsert_ban_def split: if_splits)
  have "banned h v q \<longleftrightarrow> banned h v p \<or> (h, v) = (g, u)" for h v by (auto simp: banned_def q(2) hm.get_put)
  then have "bans_hold q"
    using assms(1,2) q by (auto simp: roster_ok_def bans_hold_def has_conversation_def active_member_def)
  then show ?thesis
    using assms(1) q(2) by (simp add: roster_ok_def counts_exact_def members_wf_def has_conversation_def invites_bounded_def)
qed

lemma ban_tx_ok:
  assumes p: "roster_ok p"
    and q: "q = (if list_ex (active_at g u) (tb_members p) then drop_member_count g (soft_remove g u p) else soft_remove g u p)"
    and r: "upsert_ban g u by_user q = (r, Inr ())"
  shows "roster_ok r"
proof -
  have "roster_ok q" using p q remove_ok [of p g u] soft_remove_none [of g u p] by (simp split: if_splits)
  moreover have "\<not> active_member q g u"
    using not_active_after_remove [of g u p] q active_member_frame [OF drop_count_members(1), of g "soft_remove g u p"] by auto
  ultimately show ?thesis using r by (rule ban_ok)
qed

section \<open>Roles, bans, invitations\<close>

lemma filter_active_same:
  assumes "\<And>x. active_in h (f x) = active_in h x"
  shows "length (filter (active_in h) (map f xs)) = length (filter (active_in h) xs)"
  using assms by (induction xs) auto

lemma set_role_ok:
  assumes p: "roster_ok p" and r: "new_role = ''admin'' \<or> new_role = ''member''"
  shows "roster_ok (set_role g u new_role p)"
proof -
  let ?f = "\<lambda>m. if mb_is_removed m then m else m\<lparr>mb_role := new_role\<rparr>"
  let ?u = "\<lambda>m. if member_key m = (g, u) then ?f m else m"
  let ?ms = "map ?u (tb_members p)"
  have d: "distinct (map member_key (tb_members p))" using p by (simp add: roster_ok_def members_wf_def)
  have same: "length (filter (active_in h) ?ms) = length (filter (active_in h) (tb_members p))" for h
    by (rule filter_active_same) (simp add: active_in_def)
  have keys: "member_key (?f x) = member_key x" for x by simp
  have "distinct (map member_key ?ms)"
    using d distinct_map_update_key [of member_key ?f "\<lambda>m. member_key m = (g, u)", OF keys] by simp
  moreover have "length (filter (owner_in h) ?ms) \<le> 1" for h
    by (rule owners_shrink) (use p r in \<open>auto simp: roster_ok_def members_wf_def owner_in_def split: if_splits\<close>)
  moreover have "\<forall>m\<in>set ?ms. has_conversation p (mb_conversation_id m) \<and> Role_from_str_opt (mb_role m) \<noteq> None"
    using p r by (auto simp: roster_ok_def members_wf_def split: if_splits)
  moreover have "\<not> (\<exists>m\<in>set ?ms. active_at h v m)" if "banned h v p" for h v
    using p that by (auto simp: roster_ok_def bans_hold_def active_member_iff active_at_key split: if_splits)
  ultimately have "members_step p ?ms g (\<lambda>c. c)" unfolding members_step_def same by blast
  from members_step_ok [OF p this] have "roster_ok (p\<lparr>tb_members := ?ms\<rparr>)"
    by (simp add: update_conversation_def if_cancel)
  moreover have "set_role g u new_role p = p\<lparr>tb_members := ?ms\<rparr>"
    using set_role_members [of g u new_role p] by (simp add: set_role_def)
  ultimately show ?thesis by simp
qed

lemma unban_ok: "roster_ok p \<Longrightarrow> roster_ok (p\<lparr>tb_banned := hm_remove (g, u) (tb_banned p)\<rparr>)"
  by (auto simp: roster_ok_def counts_exact_def members_wf_def bans_hold_def invites_bounded_def has_conversation_def banned_def
      active_member_def hm.get_del split: if_splits)

lemma set_hm_insert: "x \<in> set (hm_insert k v m) \<Longrightarrow> x = (k, v) \<or> x \<in> set m"
  by (induction m) (auto simp: hm_insert_def split: if_splits)

lemma invite_change_ok:
  assumes "roster_ok p" "\<And>x. x \<in> set ts \<Longrightarrow> x \<in> set (tb_invites p) \<or> use_ok (snd x)"
  shows "roster_ok (p\<lparr>tb_invites := ts\<rparr>)"
proof -
  have "invites_bounded (p\<lparr>tb_invites := ts\<rparr>)" using assms by (auto simp: roster_ok_def invites_bounded_def)
  then show ?thesis
    using assms(1) by (simp add: roster_ok_def counts_exact_def members_wf_def bans_hold_def has_conversation_def banned_def
      active_member_def)
qed

lemma invite_add_ok:
  assumes "roster_ok p" "use_ok t"
  shows "roster_ok (p\<lparr>tb_invites := hm_insert tok t (tb_invites p)\<rparr>)"
  by (rule invite_change_ok [OF assms(1)]) (use assms(2) set_hm_insert in fastforce)

lemma use_ok_new: "it_use_count t = 0 \<Longrightarrow> use_ok t"
  by (simp add: use_ok_def)

lemma invite_remove_ok: "roster_ok p \<Longrightarrow> roster_ok (p\<lparr>tb_invites := hm_remove tok (tb_invites p)\<rparr>)"
  by (erule invite_change_ok) (auto simp: hm_remove_def AList.delete_eq)

text \<open>A use is only counted on a token that is not exhausted.\<close>

lemma bump_use_ok:
  assumes p: "roster_ok p" and t: "hm_get (tb_invites p) tok = Some t" "\<not> exhausted t" and q: "bump_use_count tok p = (q, Inr ())"
  shows "roster_ok q"
proof -
  let ?t = "t\<lparr>it_use_count := it_use_count t + 1\<rparr>"
  have q: "q = p\<lparr>tb_invites := hm_insert tok ?t (tb_invites p)\<rparr>"
    using q t(1) by (auto simp: bump_use_count_def split: if_splits)
  have "(tok, t) \<in> set (tb_invites p)" using t(1) by (simp add: hm_get_def map_of_SomeD)
  then have "use_ok t" using p by (auto simp: roster_ok_def invites_bounded_def)
  moreover have "it_use_count t < n" if "it_max_uses t = Some n" for n using t(2) that by (simp add: exhausted_def)
  ultimately have "use_ok ?t" by (fastforce simp: use_ok_def)
  then show ?thesis unfolding q by (rule invite_add_ok [OF p])
qed

section \<open>Conversations\<close>

lemma delete_conversation_tables:
  "tb_conversations (delete_conversation g p) = filter (\<lambda>c. cv_id c \<noteq> g) (tb_conversations p)"
  "tb_members (delete_conversation g p) = filter (\<lambda>m. mb_conversation_id m \<noteq> g) (tb_members p)"
  "tb_banned (delete_conversation g p) = filter (\<lambda>((c, _), _). c \<noteq> g) (tb_banned p)"
  "tb_invites (delete_conversation g p) = filter (\<lambda>(_, t). it_conversation_id t \<noteq> g) (tb_invites p)"
  by (simp_all add: delete_conversation_def Let_def)

lemma filter_other_conversation:
  "length (filter P (filter (\<lambda>m. mb_conversation_id m \<noteq> g) xs)) = length (filter P xs)"
  if "\<And>m. P m \<Longrightarrow> mb_conversation_id m \<noteq> g"
  using that by (induction xs) auto

lemma length_filter_filter_le: "length (filter P (filter Q xs)) \<le> length (filter P xs)"
  by (induction xs) auto

lemma get_filter_key: "hm_get (filter (\<lambda>((c, _), _). c \<noteq> g) m) (h, u) = (if h = g then None else hm_get m (h, u))"
  unfolding hm_get_def by (induction m) auto

lemma delete_conversation_ok:
  assumes p: "roster_ok p"
  shows "roster_ok (delete_conversation g p)"
proof -
  let ?q = "delete_conversation g p"
  have has: "has_conversation ?q h \<longleftrightarrow> h \<noteq> g \<and> has_conversation p h" for h
    by (auto simp: has_conversation_def list_ex_iff delete_conversation_tables)
  have "counts_exact ?q"
    using p filter_other_conversation [of "active_in h" g "tb_members p" for h]
    by (auto simp: roster_ok_def counts_exact_def delete_conversation_tables active_in_def simp del: filter_filter)
  moreover have "members_wf ?q"
  proof -
    have "length (filter (owner_in h) (tb_members ?q)) \<le> 1" for h
    proof -
      have "length (filter (owner_in h) (tb_members ?q)) \<le> length (filter (owner_in h) (tb_members p))"
        unfolding delete_conversation_tables by (rule length_filter_filter_le)
      then show ?thesis using p by (meson le_trans members_wf_def roster_ok_def)
    qed
    then show ?thesis
      using p by (auto simp: roster_ok_def members_wf_def delete_conversation_tables has distinct_map_filter)
  qed
  moreover have "bans_hold ?q"
  proof -
    have "banned h u ?q \<Longrightarrow> h \<noteq> g \<and> banned h u p" for h u
      unfolding banned_def delete_conversation_tables by (auto simp: get_filter_key split: if_splits)
    then show ?thesis
      using p by (auto simp: roster_ok_def bans_hold_def has active_member_iff delete_conversation_tables)
  qed
  moreover have "invites_bounded ?q"
    using p by (auto simp: roster_ok_def invites_bounded_def delete_conversation_tables)
  ultimately show ?thesis by (simp add: roster_ok_def)
qed

text \<open>
  A conversation with a fresh identifier and its first members, inserted together: their keys are
  distinct, they belong to it, one at most owns it, and a group counts them.
\<close>

definition fresh_members :: "Uuid \<Rightarrow> MemberRow list \<Rightarrow> bool" where
  "fresh_members g ms \<longleftrightarrow> distinct (map member_key ms) \<and> length (filter (owner_in g) ms) \<le> 1 \<and>
     (\<forall>m\<in>set ms. mb_conversation_id m = g \<and> \<not> mb_is_removed m \<and> Role_from_str_opt (mb_role m) \<noteq> None)"

lemma not_has_no_rows:
  assumes "roster_ok p" "\<not> has_conversation p g"
  shows "m \<in> set (tb_members p) \<Longrightarrow> mb_conversation_id m \<noteq> g" and "c \<in> set (tb_conversations p) \<Longrightarrow> cv_id c \<noteq> g"
    and "\<not> banned g u p"
proof -
  show "m \<in> set (tb_members p) \<Longrightarrow> mb_conversation_id m \<noteq> g" using assms by (auto simp: roster_ok_def members_wf_def)
  show "c \<in> set (tb_conversations p) \<Longrightarrow> cv_id c \<noteq> g" using assms(2) by (auto simp: has_conversation_def list_ex_iff)
  show "\<not> banned g u p" using assms unfolding roster_ok_def bans_hold_def by blast
qed

lemma new_conversation_ok:
  assumes p: "roster_ok p" and fresh: "\<not> has_conversation p (cv_id c)" and ms: "fresh_members (cv_id c) ms"
    and n: "cv_kind c = ''group'' \<longrightarrow> cv_member_count c = int (length ms)"
  shows "roster_ok (p\<lparr>tb_conversations := tb_conversations p @ [c], tb_members := tb_members p @ ms\<rparr>)" (is "roster_ok ?q")
proof -
  note old = not_has_no_rows [OF p fresh]
  have P: "counts_exact p" "members_wf p" "bans_hold p" "invites_bounded p" using p by (simp_all add: roster_ok_def)
  have none: "filter (active_in (cv_id c)) (tb_members p) = []" "filter (owner_in (cv_id c)) (tb_members p) = []"
    using old(1) by (auto simp: filter_empty_conv active_in_def owner_in_def)
  have all: "filter (active_in (cv_id c)) ms = ms" using ms by (intro filter_True) (auto simp: fresh_members_def active_in_def)
  have other: "filter (active_in h) ms = []" "filter (owner_in h) ms = []" if "h \<noteq> cv_id c" for h
    using ms that by (auto simp: filter_empty_conv fresh_members_def active_in_def owner_in_def)
  have has: "has_conversation ?q h \<longleftrightarrow> has_conversation p h \<or> h = cv_id c" for h
    by (auto simp: has_conversation_def list_ex_iff)
  have "counts_exact ?q"
    using P(1) n none(1) all other(1) old(2) by (auto simp: counts_exact_def)
  moreover have "members_wf ?q"
  proof -
    have "member_key ` set (tb_members p) \<inter> member_key ` set ms = {}"
      using old(1) ms by (auto simp: fresh_members_def member_key_def)
    moreover have "length (filter (owner_in h) (tb_members p @ ms)) \<le> 1" for h
      using P(2) ms none(2) other(2) [of h] by (cases "h = cv_id c") (auto simp: members_wf_def fresh_members_def)
    moreover have "cv_id c \<notin> cv_id ` set (tb_conversations p)" using old(2) by force
    ultimately show ?thesis
      using P(2) ms by (auto simp: members_wf_def fresh_members_def has)
  qed
  moreover have "bans_hold ?q"
  proof -
    have "\<not> active_member ?q h u" if "banned h u p" for h u
    proof -
      have "h \<noteq> cv_id c" using old(3) that by metis
      then show ?thesis using P(3) ms that by (auto simp: bans_hold_def active_member_iff active_at_key fresh_members_def member_key_def)
    qed
    then show ?thesis using P(3) by (simp add: bans_hold_def banned_def has)
  qed
  ultimately show ?thesis using P(4) by (simp add: roster_ok_def invites_bounded_def)
qed

lemma direct_rows_ok:
  assumes "roster_ok p" "\<not> has_conversation p g" "a \<noteq> b"
  shows "roster_ok (direct_conversation_rows now g a b key p)"
proof -
  let ?c = "\<lparr>cv_id = g, cv_kind = ''direct'', cv_is_encrypted = True, cv_disappearing_ttl_seconds = None,
           cv_title = None, cv_description = None, cv_is_public = False, cv_key_version = 1, cv_member_count = 0,
           cv_icon_url = None, cv_created_at = now\<rparr>"
  let ?ms = "[\<lparr>mb_conversation_id = g, mb_user_id = a, mb_is_removed = False, mb_role = ''member'', mb_joined_at = now, mb_is_muted = False\<rparr>,
          \<lparr>mb_conversation_id = g, mb_user_id = b, mb_is_removed = False, mb_role = ''member'', mb_joined_at = now, mb_is_muted = False\<rparr>]"
  have "roster_ok (p\<lparr>tb_conversations := tb_conversations p @ [?c], tb_members := tb_members p @ ?ms\<rparr>)"
    by (rule new_conversation_ok) (use assms in \<open>auto simp: fresh_members_def member_key_def owner_in_def\<close>)
  then show ?thesis by (rule roster_frame [THEN iffD2, rotated 4]) (simp_all add: direct_conversation_rows_def)
qed

end
