(* ===== verification/Srv_GroupProps.thy ===== *)
theory Srv_GroupProps
  imports Srv_Groups Srv_Roster Srv_Server
begin

text \<open>
  What the group handlers do to the tables, whatever the database answers: they keep the invariant
  of the rosters, and who may change what.
\<close>

section \<open>Transactions of \<open>db/groups.rs\<close>\<close>

definition admitted :: "Uuid \<Rightarrow> Uuid \<Rightarrow> 'n Pool \<Rightarrow> 'n Pool \<Rightarrow> bool" where
  "admitted g u p q \<longleftrightarrow> (\<exists>now r. upsert_member now g u p = (r, Inr True) \<and> bump_member_count g r = (q, Inr ()))"

definition dismissed :: "Uuid \<Rightarrow> Uuid \<Rightarrow> 'n Pool \<Rightarrow> 'n Pool \<Rightarrow> bool" where
  "dismissed g u p q \<longleftrightarrow> list_ex (active_at g u) (tb_members p) \<and> q = drop_member_count g (soft_remove g u p)"

definition banished :: "Uuid \<Rightarrow> Uuid \<Rightarrow> Uuid \<Rightarrow> 'n Pool \<Rightarrow> 'n Pool \<Rightarrow> bool" where
  "banished g u by_user p q \<longleftrightarrow> upsert_ban g u by_user
     (if list_ex (active_at g u) (tb_members p) then drop_member_count g (soft_remove g u p) else soft_remove g u p) = (q, Inr ())"

lemma admitted_ok: "roster_ok p \<Longrightarrow> admitted g u p q \<Longrightarrow> \<not> banned g u p \<Longrightarrow> roster_ok q"
  by (auto simp: admitted_def intro: admit_ok)

lemma dismissed_ok: "roster_ok p \<Longrightarrow> dismissed g u p q \<Longrightarrow> roster_ok q"
  by (auto simp: dismissed_def intro: remove_ok)

lemma banished_ok: "roster_ok p \<Longrightarrow> banished g u b p q \<Longrightarrow> roster_ok q"
  unfolding banished_def by (erule ban_tx_ok [OF _ refl])

lemma tx_add_member: "tx_sat (add_member_in_tx E g u) (\<lambda>p x q. if x then admitted g u p q else q = p)"
  unfolding add_member_in_tx_def
  by (rule tx_sat_mono, (rule tx_rules)+) (auto simp: admitted_def dest: upsert_False split: if_splits)

lemma tx_remove_member: "tx_sat (remove_member_in_tx E g u) (\<lambda>p x q. if x then dismissed g u p q else q = p)"
  unfolding remove_member_in_tx_def
  by (rule tx_sat_mono, (rule tx_rules)+) (auto simp: dismissed_def dest: soft_remove_none split: if_splits)

lemma tx_ban_member: "tx_sat (ban_member_in_tx E g u b) (\<lambda>p x q. banished g u b p q)"
  unfolding ban_member_in_tx_def
  by (rule tx_sat_mono, (rule tx_rules)+) (auto simp: banished_def split: if_splits)

lemma tx_set_role:
  "tx_sat (set_member_role_in_tx E g u r) (\<lambda>p x q. q = set_role g u r p \<and> x = list_ex (active_at g u) (tb_members p))"
  unfolding set_member_role_in_tx_def by (rule tx_sat_mono, (rule tx_rules)+) auto

section \<open>Transactions of \<open>members.rs\<close>\<close>

definition admin_of :: "'n Pool \<Rightarrow> Uuid \<Rightarrow> Uuid \<Rightarrow> bool" where
  "admin_of p g u \<longleftrightarrow> (\<exists>r. member_role g u p = Some r \<and> is_admin_or_above (role_or_member r))"

definition owner_of :: "'n Pool \<Rightarrow> Uuid \<Rightarrow> Uuid \<Rightarrow> bool" where
  "owner_of p g u \<longleftrightarrow> member_role g u p = Some ''owner''"

lemma tx_lock: "tx_sat (acquire_member_lock E) (\<lambda>p x q. q = p)"
  unfolding acquire_member_lock_def by (rule tx_sat_mono, (rule tx_rules)+) auto

lemma tx_bind_read:
  assumes "\<And>x. tx_sat (k (Inr x)) (S x)" "\<And>e. tx_sat (k (Inl e)) (\<lambda>_ _ _. True)"
  shows "tx_sat (State_Monad.bind (tx_select E f) k) (\<lambda>p y q. S (f p) p y q)"
  by (rule tx_sat_mono, rule tx_sat_bind_default [OF tx_sat_select assms(1) assms(2) tx_select_dead]) auto

lemma tx_commit_members: "tx_sat (do { r \<leftarrow> tx_select E f; ok (Commit (unwrap_or d r)) }) (\<lambda>p y q. y = Commit (f p) \<and> q = p)"
  by (rule tx_sat_mono, rule tx_bind_read, rule tx_sat_ok, rule tx_sat_mono [OF tx_sat_ok]) (auto simp: unwrap_or_def)

lemma tx_add:
  "tx_sat (add_member_tx E auth g u) (\<lambda>p x q. admitted g u p q \<and> \<not> banned g u p \<and> \<not> active_member p g u \<and>
     (\<exists>r. member_role g auth p = Some r) \<and> (public_flag g p \<or> admin_of p g auth))"
  unfolding add_member_tx_def
  by (rule tx_sat_mono, (rule tx_lock tx_add_member tx_commit_members tx_rules)+)
    (auto simp: admin_of_def split: if_splits)

lemma tx_remove:
  "tx_sat (remove_member_tx E auth g u) (\<lambda>p x q. x = Commit () \<and> dismissed g u p q \<and>
     (\<exists>r. member_role g auth p = Some r) \<and> (u = auth \<or> admin_of p g auth \<and> \<not> owner_of p g u))"
  unfolding remove_member_tx_def
  by (rule tx_sat_mono, (rule tx_lock tx_remove_member tx_rules)+) (auto simp: admin_of_def owner_of_def split: if_splits)

lemma owner_role: "role_or_member r = Owner \<longleftrightarrow> r = ''owner''"
  by (auto simp: role_or_member_def Role_from_str_opt_def)

lemma owner_role_opt: "(case Option.bind t Role_from_str_opt of Some r \<Rightarrow> r | None \<Rightarrow> Member) = Owner \<longleftrightarrow> t = Some ''owner''"
  by (cases t) (auto simp: Role_from_str_opt_def)

lemma admin_role_opt:
  "is_admin_or_above (case Option.bind t Role_from_str_opt of Some r \<Rightarrow> r | None \<Rightarrow> Member) \<longleftrightarrow>
     (\<exists>r. t = Some r \<and> is_admin_or_above (role_or_member r))"
  by (cases t) (auto simp: role_or_member_def)

lemma tx_ban:
  "tx_sat (ban_member_tx E auth g u) (\<lambda>p x q. x = Commit () \<and> banished g u auth p q \<and> admin_of p g auth \<and> \<not> owner_of p g u \<and>
     (admin_of p g u \<longrightarrow> owner_of p g auth))"
  unfolding ban_member_tx_def Let_def
  by (rule tx_sat_mono, (rule tx_lock tx_ban_member tx_rules)+)
    (auto simp: admin_of_def owner_of_def owner_role owner_role_opt admin_role_opt)

lemma tx_change_role:
  "tx_sat (change_role_tx E auth g u r) (\<lambda>p x q. q = set_role g u r p \<and> owner_of p g auth \<and> \<not> owner_of p g u \<and>
     (\<exists>old. member_role g u p = Some old))"
  unfolding change_role_tx_def
  by (rule tx_sat_mono, (rule tx_lock tx_set_role tx_commit_members tx_rules)+)
    (auto simp: owner_of_def Role_from_str_opt_def split: if_splits)

end
