(* ===== verification/Srv_Membership.thy ===== *)
theory Srv_Membership
  imports Srv_Roster Srv_Server
begin

text \<open>
  The rosters of groups and the WebSocket handlers: no handler of \<open>ws/\<close> changes the membership of a
  group, whatever the database answers.
\<close>

section \<open>Predicates on the membership tables\<close>

text \<open>
  What a predicate has to promise to survive everything that the WebSocket handlers write: it reads
  none of the tables that they change, it does not depend on when a device was last seen, and it
  bears a new direct conversation with a fresh identifier.
\<close>

locale membership_predicate =
  fixes P :: "'n Pool \<Rightarrow> bool"
  assumes on_messages: "P (p\<lparr>tb_messages := ms\<rparr>) = P p"
    and on_read_receipts: "P (p\<lparr>tb_read_receipts := rr\<rparr>) = P p"
    and on_voice_sessions: "P (p\<lparr>tb_voice_sessions := vs\<rparr>) = P p"
    and on_deliveries: "P (p\<lparr>tb_deliveries := ds\<rparr>) = P p"
    and on_last_seen: "P p \<Longrightarrow> P (p\<lparr>tb_identity_keys := map (\<lambda>k. if c k then k\<lparr>ir_last_seen := t\<rparr> else k) (tb_identity_keys p)\<rparr>)"
    and on_device_contents: "P (p\<lparr>tb_device_contents := cs\<rparr>) = P p"
    and on_mentions: "P (p\<lparr>tb_mentions := mt\<rparr>) = P p"
    and on_canvas: "P (p\<lparr>tb_canvas := cv\<rparr>) = P p"
    and on_direct: "P p \<Longrightarrow> \<not> has_conversation p g \<Longrightarrow> a \<noteq> b \<Longrightarrow> P (direct_conversation_rows now g a b key p)"
begin

lemmas table_simps = on_messages on_read_receipts on_voice_sessions on_deliveries on_device_contents
  on_mentions on_canvas

lemma keeps_dm: "keeps (on_pool P) (find_or_create_dm_conversation E a b)"
proof -
  let ?key = "if a < b then (a, b) else (b, a)"
  have create: "rel (do {
        conv_id \<leftarrow> draw (sv_gen_random_uuid E);
        now \<leftarrow> draw (sv_utc_now E);
        bind_ok (query E (\<lambda>p. (p, if list_ex (\<lambda>c. cv_id c = conv_id) (tb_conversations p) then Inl UniqueViolation else Inr ()))) (\<lambda>_.
        bind_ok (select E (\<lambda>_. ())) (\<lambda>_.
        bind_ok (query E (\<lambda>p. (p, if a = b then Inl UniqueViolation else Inr ()))) (\<lambda>_.
        bind_ok (select E (\<lambda>p. case hm_get (tb_direct p) ?key of Some found \<Rightarrow> found | None \<Rightarrow> conv_id)) (\<lambda>winner.
          if winner \<noteq> conv_id then bind_ok (select E (\<lambda>_. ())) (\<lambda>_. ok winner)
          else bind_ok (execute E (direct_conversation_rows now conv_id a b ?key)) (\<lambda>_. ok conv_id)))))
      }) (\<lambda>p r q. P p \<longrightarrow> P q)"
    by (rule rel_mono, (rule rel_rules)+)
      (auto simp: has_conversation_def on_direct split: if_splits)
  have "rel (find_or_create_dm_conversation E a b) (\<lambda>p r q. P p \<longrightarrow> P q)"
    unfolding find_or_create_dm_conversation_def Let_def
    by (rule rel_mono, (rule create rel_rules)+) auto
  then show ?thesis by (rule keeps_rel)
qed

lemma keeps_read_receipt: "keeps (on_pool P) (handle_read_receipt E u c)"
  unfolding handle_read_receipt_def get_read_receipts_enabled_def mark_read_def broadcast_message_def
  by (intro keeps_intros keeps_execute) (simp_all add: table_simps)

lemma keeps_cleanup: "keeps (on_pool P) (cleanup_user_voice_sessions E u)"
  unfolding cleanup_user_voice_sessions_def leave_all_user_voice_sessions_def Let_def
  by (intro keeps_intros keeps_query keeps_modify) (simp_all add: table_simps)

lemma keeps_replay: "keeps (on_pool P) (deliver_undelivered_messages E u d)"
proof -
  have each: "keeps (on_pool Q) (replay_each E u d ct any msgs)" for Q ct any msgs
    by (induction msgs) (auto simp: Let_def intro!: keeps_intros)
  have batch: "keeps (on_pool P) (deliver_one_batch E u d msgs)" for msgs
    unfolding deliver_one_batch_def get_device_contents_batch_def message_ids_with_any_device_content_def
      mark_device_delivered_batch_def mark_delivered_def
    by (intro keeps_intros keeps_execute each) (simp_all add: table_simps)
  have "keeps (on_pool P) (replay_pages E u d n cur)" for n cur
    by (induction n arbitrary: cur) (auto simp: get_undelivered_def intro!: keeps_intros batch)
  then show ?thesis by (simp add: deliver_undelivered_messages_def)
qed

lemma keeps_session:
  "keeps (on_pool P) (session_start E u d name tx)" "keeps (on_pool P) (session_end E u d name)" "keeps (on_pool P) (heartbeat_tick E u d)"
  unfolding session_start_def session_end_def heartbeat_tick_def touch_user_voice_sessions_def update_last_seen_def
  by (intro keeps_intros keeps_modify keeps_execute keeps_replay keeps_cleanup; simp add: table_simps on_last_seen)+

lemma keeps_canvas: "keeps (on_pool P) (handle_canvas_event E u d c k v)"
proof -
  have put: "P (put_board ch r p) = P p" for ch r p by (simp add: put_board_def table_simps)
  have upd: "P (update_images ch f p) = P p" for ch f p by (simp add: update_images_def put split: option.split)
  show ?thesis
    unfolding handle_canvas_event_def write_canvas_event_def persist_canvas_state_def append_stroke_def add_image_def
      clear_all_def update_image_def remove_image_def broadcast_message_def Let_def
    by (intro keeps_intros keeps_execute; simp add: put upd)
qed

lemma keeps_marks:
  "keeps (on_pool P) (store_message E c ch u d b r ttl cm thr)" "keeps (on_pool P) (mark_delivered E ids)"
  "keeps (on_pool P) (mark_devices_delivered_pairs E mid ps)" "keeps (on_pool P) (store_device_contents E mid es)"
  "keeps (on_pool P) (persist_mentions E mid c u b enc)"
proof -
  have mentions: "keeps (on_pool P) (insert_mention_rows E mid ts)" for ts
    unfolding insert_mention_rows_def Let_def by (rule keeps_query) (simp add: table_simps)
  show "keeps (on_pool P) (store_message E c ch u d b r ttl cm thr)"
    unfolding store_message_def by (intro keeps_intros keeps_query) (simp add: insert_message_def Let_def table_simps)
  show "keeps (on_pool P) (mark_delivered E ids)"
    unfolding mark_delivered_def by (rule keeps_execute) (simp add: table_simps)
  show "keeps (on_pool P) (mark_devices_delivered_pairs E mid ps)"
    unfolding mark_devices_delivered_pairs_def by (intro keeps_intros keeps_execute) (simp add: table_simps)
  show "keeps (on_pool P) (store_device_contents E mid es)"
    unfolding store_device_contents_def by (intro keeps_intros keeps_execute) (simp add: table_simps)
  show "keeps (on_pool P) (persist_mentions E mid c u b enc)"
    unfolding persist_mentions_def extract_and_persist_def sender_is_member_def resolve_mention_targets_def
      resolve_broadcast_members_def resolve_username_mentions_def Let_def
    by (intro keeps_intros mentions)
qed

lemma keeps_send: "keeps (on_pool P) (handle_send_message E u d name q)"
proof -
  note parts = keeps_marks
  have conv: "keeps (on_pool P) (resolve_conversation E u c t)" for c t
    unfolding resolve_conversation_def are_contacts_def by (intro keeps_intros keeps_dm)
  have device: "keeps (on_pool P) (persist_device_contents E mid u rdc)" for mid rdc
    unfolding persist_device_contents_def Let_def by (intro keeps_intros parts)
  have "keeps (on_pool P) (store_and_fan_out E u d name c sec kind ch q)" for c sec kind ch
    unfolding store_and_fan_out_def store_and_confirm_def send_message_sent_confirmation_def deliver_self_messages_def
      fanout_message_def deliver_to_sender_other_devices_def send_delivery_confirmation_def Let_def
    by (intro keeps_intros device parts keeps_modify) (auto simp: keeps_intros)
  then show ?thesis unfolding handle_send_message_def by (intro keeps_intros conv)
qed

lemma keeps_frame: "keeps (on_pool P) (handle_text_message E f u d name)"
proof -
  have "keeps (on_pool P) (dispatch_message E u d name msg)" for msg
    by (cases msg) (auto simp: dispatch_message_def intro!: keeps_intros keeps_send keeps_canvas keeps_read_receipt)
  then show ?thesis unfolding handle_text_message_def by (intro keeps_intros)
qed

lemma server_step_keeps:
  assumes "server_step E s t" and "P (st_pool s)"
  shows "P (st_pool t)"
proof -
  have run: "P (st_pool (exec m s))" if "keeps (on_pool P) m" for m :: "('a, 'b, 'n, 'd) act"
    using keeps_run [OF that, of s] assms(2) by (simp add: exec_def on_pool_def)
  show ?thesis
    using assms(1) by cases (auto intro: run keeps_session keeps_frame keeps_sweep)
qed

end

interpretation rosters: membership_predicate roster_ok
  by unfold_locales ((rule roster_frame direct_rows_ok roster_frame [THEN iffD2]; simp)+)

end
