(* ===== verification/Srv_TxStrict.thy ===== *)
theory Srv_TxStrict
  imports Srv_Tx
begin

text \<open>
  Transactions whose body passes on every failed statement: an answer \<open>Ok\<close> means that the
  transaction was still alive, so that its \<open>COMMIT\<close> has the effect that the answer reports.
\<close>

named_theorems tx_strict_rules "bodies that stop at the first failed statement"

definition tx_strict :: "('w, 'tx, 'n, 'e + 'a) txact \<Rightarrow> bool" where
  "tx_strict m \<longleftrightarrow> (\<forall>p s x v' s'. run_state m (Some p, s) = (Inr x, v', s') \<longrightarrow> v' \<noteq> None)"

lemma tx_strict_query [tx_strict_rules]: "tx_strict (tx_query E f)" "tx_strict (tx_select E g)"
  by (auto simp: tx_strict_def tx_select_def tx_query_def Let_def split: prod.splits option.splits if_splits sum.splits)

lemma tx_strict_base [tx_strict_rules]: "tx_strict (ok x)" "tx_strict (fail e)" "tx_strict (ok_or e y)" "tx_strict (require_or e b)"
  by (auto simp: tx_strict_def ok_def fail_def ok_or_def require_or_def split: option.splits if_splits)

lemma tx_strict_db_ctx [tx_strict_rules]: "tx_strict m \<Longrightarrow> tx_strict (db_ctx m)"
  unfolding tx_strict_def db_ctx_def by (auto split: prod.splits sum.splits)

lemma tx_strict_bind_ok [tx_strict_rules]:
  assumes "tx_strict m" and "\<And>x. tx_strict (k x)"
  shows "tx_strict (bind_ok m k)"
  unfolding tx_strict_def
proof (intro allI impI)
  fix p s y v' s'
  assume run: "run_state (bind_ok m k) (Some p, s) = (Inr y, v', s')"
  obtain r v0 s0 where m: "run_state m (Some p, s) = (r, v0, s0)" by (metis prod_cases3)
  then obtain x where r: "r = Inr x" using run by (cases r) (auto simp: bind_ok_def)
  then obtain q where "v0 = Some q" using assms(1) m unfolding tx_strict_def by blast
  then have "run_state (k x) (Some q, s0) = (Inr y, v', s')" using run m r by (simp add: bind_ok_def)
  then show "v' \<noteq> None" using assms(2) unfolding tx_strict_def by blast
qed

lemma tx_strict_draw [tx_strict_rules]: "(\<And>a. tx_strict (k a)) \<Longrightarrow> tx_strict (State_Monad.bind (tx_draw f) k)"
  unfolding tx_strict_def tx_draw_def by (auto split: prod.splits)

lemma tx_strict_if [tx_strict_rules]: "tx_strict m \<Longrightarrow> tx_strict n \<Longrightarrow> tx_strict (if b then m else n)"
  by simp

definition tx_answer :: "('n Pool \<Rightarrow> 'a tx_end \<Rightarrow> 'n Pool \<Rightarrow> bool) \<Rightarrow> 'n Pool \<Rightarrow> 'e + 'a \<Rightarrow> 'n Pool \<Rightarrow> bool" where
  "tx_answer R p r q \<longleftrightarrow> tx_effect R p q \<and>
     (\<forall>x. r = Inr x \<longrightarrow> R p (Commit x) q \<or> q = p \<and> (\<exists>q'. R p (Rollback x) q'))"

lemma rel_strict_transaction:
  fixes E :: "('w, 'tx, 'n) srv_env"
  assumes body: "tx_sat body R" and strict: "tx_strict body"
  shows "rel (in_transaction E f body) (tx_answer R)"
  unfolding rel_def
proof
  fix s :: "('w, 'tx, 'n) AppState"
  let ?Q = "\<lambda>r t. tx_answer R (st_pool s) r (st_pool t)"
  have failed: "?Q (Inl e) (s\<lparr>st_world := w\<rparr>)" for e w by (simp add: tx_answer_def tx_effect_def)
  obtain w0 out where b: "sv_db E (st_world s) = (w0, out)" by (metis surj_pair)
  define s0 where "s0 = s\<lparr>st_world := w0\<rparr>"
  obtain r v s1 where r: "run_state body (Some (st_pool s0), s0) = (r, v, s1)" by (metis prod_cases3)
  obtain w1 where s1: "s1 = s\<lparr>st_world := w1\<rparr>" using tx_satD(1) [OF body r] by (auto simp: s0_def)
  have live: "\<exists>q. v = Some q \<and> R (st_pool s) y q" if y: "r = Inr y" for y
  proof -
    obtain q where q: "v = Some q" using strict r y unfolding tx_strict_def by blast
    then show ?thesis using tx_satD(2) [OF body r y q] by (auto simp: s0_def)
  qed
  have rest: "wp (tx_finish E f v r) ?Q s1"
  proof (cases r)
    case (Inl e)
    then show ?thesis using failed by (simp add: tx_finish_def wp_simps s1)
  next
    case (Inr y)
    then obtain q where q: "v = Some q" "R (st_pool s) y q" using live by blast
    then show ?thesis
      using Inr
      by (cases y) (auto simp: tx_finish_def wp_simps s1 execute_def select_def query_def tx_answer_def tx_effect_def
          split: prod.split)
  qed
  show "wp (in_transaction E f body) ?Q s"
    using failed rest r
    by (auto simp: in_transaction_def wp_simps wp_run_tx select_def query_def b s0_def)
qed

lemma tx_sat_option:
  "tx_sat m R \<Longrightarrow> (\<And>y. tx_sat (f y) (S y)) \<Longrightarrow>
   tx_sat (case x of None \<Rightarrow> m | Some y \<Rightarrow> f y) (\<lambda>p r q. case x of None \<Rightarrow> R p r q | Some y \<Rightarrow> S y p r q)"
  by (cases x) auto

lemma tx_strict_option: "tx_strict m \<Longrightarrow> (\<And>y. tx_strict (f y)) \<Longrightarrow> tx_strict (case x of None \<Rightarrow> m | Some y \<Rightarrow> f y)"
  by (cases x) auto

end
