(* ===== verification/Srv_GroupViews.thy ===== *)
theory Srv_GroupViews
  imports Srv_Groups Srv_Reference
begin

text \<open>
  The reads of \<open>routes/groups\<close>: the list of public groups with its title search, and the previews
  of groups and invitations.
\<close>

section \<open>Title search\<close>

text \<open>
  \<open>ILIKE \<dots> ESCAPE '\'\<close> on scalar values: \<open>%\<close> (37) matches any sequence, \<open>_\<close> (95) one character, a
  backslash (92) takes the next character literally; \<open>eq\<close> is the comparison without regard to case.
\<close>

fun like_match :: "(int \<Rightarrow> int \<Rightarrow> bool) \<Rightarrow> int list \<Rightarrow> int list \<Rightarrow> bool" where
  "like_match eq [] s \<longleftrightarrow> s = []"
| "like_match eq (c # pat) s \<longleftrightarrow>
     (if c = 92 then (case (pat, s) of (d # rest, x # xs) \<Rightarrow> eq d x \<and> like_match eq rest xs | _ \<Rightarrow> False)
      else if c = 37 then like_match eq pat s \<or> (case s of x # xs \<Rightarrow> like_match eq (c # pat) xs | [] \<Rightarrow> False)
      else if c = 95 then (case s of x # xs \<Rightarrow> like_match eq pat xs | [] \<Rightarrow> False)
      else (case s of x # xs \<Rightarrow> eq c x \<and> like_match eq pat xs | [] \<Rightarrow> False))"

definition replace_char :: "int \<Rightarrow> int list \<Rightarrow> int list \<Rightarrow> int list" where
  "replace_char c r s = concat (map (\<lambda>x. if x = c then r else [x]) s)"

definition search_pattern :: "string \<Rightarrow> int list" where
  "search_pattern term =
     37 # replace_char 95 [92, 95] (replace_char 37 [92, 37] (replace_char 92 [92, 92] (chars term))) @ [37]"

record PublicGroupRow =
  pg_id :: Uuid
  pg_title :: "string option"
  pg_description :: "string option"
  pg_icon_url :: "string option"
  pg_member_count :: i64
  pg_created_at :: datetime
  pg_is_member :: bool

definition public_group_row :: "Uuid \<Rightarrow> 'n Pool \<Rightarrow> ConversationRow \<Rightarrow> PublicGroupRow" where
  "public_group_row u p c = \<lparr>pg_id = cv_id c, pg_title = cv_title c, pg_description = cv_description c,
     pg_icon_url = cv_icon_url c, pg_member_count = cv_member_count c, pg_created_at = cv_created_at c,
     pg_is_member = active_member p (cv_id c) u\<rparr>"

text \<open>Rows with equal counts come in an order that the query leaves open; here it is that of the table.\<close>

definition public_groups :: "('w, 'tx, 'n) srv_env \<Rightarrow> Uuid \<Rightarrow> string option \<Rightarrow> 'n Pool \<Rightarrow> PublicGroupRow list" where
  "public_groups E u search p =
     map (public_group_row u p) (sort_key (\<lambda>c. - cv_member_count c) (filter (\<lambda>c. cv_is_public c \<and> cv_kind c = ''group'' \<and>
       (case search of
          None \<Rightarrow> True
        | Some term \<Rightarrow> (case cv_title c of None \<Rightarrow> False | Some t \<Rightarrow> like_match (sv_ilike_eq E) (search_pattern term) (chars t))))
       (tb_conversations p)))"

definition db_list_public_groups ::
  "('w, 'tx, 'n) srv_env \<Rightarrow> Uuid \<Rightarrow> string option \<Rightarrow> i64 \<Rightarrow> i64 \<Rightarrow> ('w, 'tx, 'n, sqlx_error + PublicGroupRow list) act" where
  "db_list_public_groups E u search limit offset =
     select E (\<lambda>p. take (nat limit) (drop (nat offset) (public_groups E u search p)))"

record GroupSearchResult =
  gs_conversation_id :: Uuid
  gs_title :: "string option"
  gs_description :: "string option"
  gs_member_count :: i64
  gs_icon_url :: "string option"

text \<open>\<open>ORDER BY c.title\<close> follows the collation of the database, the argument \<open>collate\<close>.\<close>

definition search_user_groups ::
  "('w, 'tx, 'n) srv_env \<Rightarrow> (string \<Rightarrow> 'k::linorder) \<Rightarrow> Uuid \<Rightarrow> string \<Rightarrow> i64 \<Rightarrow> ('w, 'tx, 'n, sqlx_error + GroupSearchResult list) act" where
  "search_user_groups E collate u term limit = select E (\<lambda>p. take (nat limit) (map (\<lambda>c.
       \<lparr>gs_conversation_id = cv_id c, gs_title = cv_title c, gs_description = cv_description c, gs_member_count = cv_member_count c,
        gs_icon_url = cv_icon_url c\<rparr>)
     (sort_key (\<lambda>c. case cv_title c of Some t \<Rightarrow> collate t | None \<Rightarrow> collate []) (filter (\<lambda>c. active_member p (cv_id c) u \<and> cv_kind c = ''group'' \<and>
        (case cv_title c of None \<Rightarrow> False | Some t \<Rightarrow> like_match (sv_ilike_eq E) (search_pattern term) (chars t)))
      (tb_conversations p)))))"

section \<open>Handlers\<close>

definition list_public_groups ::
  "('w, 'tx, 'n) srv_env \<Rightarrow> Uuid \<Rightarrow> string option \<Rightarrow> i64 option \<Rightarrow> i64 option \<Rightarrow> ('w, 'tx, 'n) handler" where
  "list_public_groups E auth search limit offset =
     (let l = max 1 (min 100 (case limit of Some n \<Rightarrow> n | None \<Rightarrow> 20)); off = max 0 (case offset of Some n \<Rightarrow> n | None \<Rightarrow> 0) in
      bind_ok (db_ctx (db_list_public_groups E auth search l off)) (\<lambda>groups.
      ok (200, Some (JArray (map (\<lambda>g. JObject [(''id'', js_uuid E (pg_id g)), (''title'', js_opt JString (pg_title g)),
        (''description'', js_opt JString (pg_description g)), (''icon_url'', js_opt JString (pg_icon_url g)),
        (''member_count'', js_int E (pg_member_count g)), (''created_at'', js_time E (pg_created_at g)),
        (''is_member'', JBool (pg_is_member g))]) groups)))))"

definition db_get_group_preview ::
  "('w, 'tx, 'n) srv_env \<Rightarrow> Uuid \<Rightarrow> Uuid \<Rightarrow> ('w, 'tx, 'n, sqlx_error + (PublicGroupRow \<times> bool) option) act" where
  "db_get_group_preview E g u = select E (\<lambda>p.
     map_option (\<lambda>c. (public_group_row u p c, cv_is_public c))
       (find (\<lambda>c. cv_id c = g \<and> cv_kind c = ''group'' \<and> (cv_is_public c \<or> active_member p g u)) (tb_conversations p)))"

definition get_group_member_previews :: "('w, 'tx, 'n) srv_env \<Rightarrow> Uuid \<Rightarrow> i64 \<Rightarrow> ('w, 'tx, 'n, sqlx_error + GroupMember list) act" where
  "get_group_member_previews E g limit = select E (group_members g (nat limit))"

definition preview_fields :: "('w, 'tx, 'n) srv_env \<Rightarrow> PublicGroupRow \<Rightarrow> (string \<times> 'n json) list" where
  "preview_fields E r = [(''id'', js_uuid E (pg_id r)), (''title'', js_opt JString (pg_title r)),
     (''description'', js_opt JString (pg_description r)), (''icon_url'', js_opt JString (pg_icon_url r)),
     (''member_count'', js_int E (pg_member_count r))]"

definition get_group_preview :: "('w, 'tx, 'n) srv_env \<Rightarrow> Uuid \<Rightarrow> Uuid \<Rightarrow> ('w, 'tx, 'n) handler" where
  "get_group_preview E auth g =
     bind_ok (db_ctx (db_get_group_preview E g auth)) (\<lambda>found.
     bind_ok (ok_or (not_found ''Group not found'') found) (\<lambda>(r, is_public).
     bind_ok (db_ctx (get_group_member_previews E g 5)) (\<lambda>members.
     ok (200, Some (JObject (preview_fields E r @ [(''is_public'', JBool is_public), (''is_member'', JBool (pg_is_member r)),
       (''members'', JArray (map (\<lambda>m. JObject [(''user_id'', js_uuid E (gm_user_id m)), (''username'', JString (gm_username m)),
          (''avatar_url'', js_opt JString (gm_avatar_url m)), (''role'', JString (gm_role m))]) members))]))))))"

definition get_invite_preview :: "('w, 'tx, 'n) srv_env \<Rightarrow> Uuid \<Rightarrow> string \<Rightarrow> ('w, 'tx, 'n) handler" where
  "get_invite_preview E auth token =
     bind_ok (usable_invite E token) (\<lambda>invite.
     bind_ok (db_ctx (db_get_group_preview E (it_conversation_id invite) auth)) (\<lambda>found.
     bind_ok (ok_or (not_found ''Group not found'') found) (\<lambda>(r, _).
     bind_ok (db_ctx (get_group_member_previews E (it_conversation_id invite) 5)) (\<lambda>members.
     ok (200, Some (JObject [(''token'', JString token), (''group'', JObject (preview_fields E r @ [(''is_member'', JBool (pg_is_member r)),
       (''members'', JArray (map (\<lambda>m. JObject [(''user_id'', js_uuid E (gm_user_id m)), (''username'', JString (gm_username m)),
          (''avatar_url'', js_opt JString (gm_avatar_url m))]) members))]))]))))))"

section \<open>The search finds substrings\<close>

definition escape_like :: "int list \<Rightarrow> int list" where
  "escape_like s = concat (map (\<lambda>x. if x \<in> {92, 37, 95} then [92, x] else [x]) s)"

lemma search_pattern_escape: "search_pattern term = 37 # escape_like (chars term) @ [37]"
proof -
  have "replace_char 95 [92, 95] (replace_char 37 [92, 37] (replace_char 92 [92, 92] s)) = escape_like s" for s
    by (induction s) (auto simp: replace_char_def escape_like_def)
  then show ?thesis by (simp add: search_pattern_def)
qed

lemma like_percent: "like_match eq (37 # pat) s \<longleftrightarrow> (\<exists>a b. s = a @ b \<and> like_match eq pat b)"
proof (induction s)
  case (Cons x s)
  show ?case
  proof
    assume "like_match eq (37 # pat) (x # s)"
    then consider "like_match eq pat (x # s)" | "like_match eq (37 # pat) s" by auto
    then show "\<exists>a b. x # s = a @ b \<and> like_match eq pat b"
      by cases (use Cons.IH in \<open>metis append_Cons append_Nil\<close>)+
  next
    assume "\<exists>a b. x # s = a @ b \<and> like_match eq pat b"
    then show "like_match eq (37 # pat) (x # s)"
      using Cons.IH by (auto simp: Cons_eq_append_conv)
  qed
qed auto

lemma like_literal: "like_match eq (escape_like t @ pat) s \<longleftrightarrow> (\<exists>b c. s = b @ c \<and> list_all2 eq t b \<and> like_match eq pat c)"
proof (induction t arbitrary: s)
  case Nil
  show ?case by (simp add: escape_like_def)
next
  case (Cons x t)
  have "like_match eq (escape_like (x # t) @ pat) s \<longleftrightarrow> s \<noteq> [] \<and> eq x (hd s) \<and> like_match eq (escape_like t @ pat) (tl s)"
    by (cases s) (auto simp: escape_like_def)
  then show ?case by (cases s) (auto simp: Cons.IH list_all2_Cons1 Cons_eq_append_conv)
qed

text \<open>
  C38: the search for public groups finds exactly the public groups whose title contains the
  search term as it was typed, up to case: the wildcards and the escape character of \<open>ILIKE\<close> in
  the term stand for themselves.
\<close>

theorem search_is_literal:
  "like_match eq (search_pattern term) (chars title) \<longleftrightarrow>
     (\<exists>a b c. chars title = a @ b @ c \<and> list_all2 eq (chars term) b)"
proof -
  have "like_match eq [37] c" for c by (induction c) auto
  then show ?thesis unfolding search_pattern_escape like_percent like_literal by auto
qed

section \<open>Previews\<close>

lemma rel_case_prod [rel_rules]:
  "(\<And>a b. rel (f a b) (S a b)) \<Longrightarrow> rel (case x of (a, b) \<Rightarrow> f a b) (\<lambda>p r q. \<exists>a b. x = (a, b) \<and> S a b p r q)"
  by (cases x) auto

text \<open>
  an invitation to a private group cannot be previewed by the one it is for: whoever is not
  a member gets no answer but an error, although the preview is documented as not requiring
  membership.
\<close>

theorem private_invite_not_previewed:
  assumes "hm_get (tb_invites (st_pool s)) token = Some t"
    and "\<forall>c\<in>set (tb_conversations (st_pool s)). cv_id c = it_conversation_id t \<longrightarrow> \<not> cv_is_public c"
    and "\<not> active_member (st_pool s) (it_conversation_id t) auth"
  shows "\<exists>e. fst (run_state (get_invite_preview E auth token) s) = Inl e"
proof -
  have "rel (get_invite_preview E auth token) (\<lambda>p r q. hm_get (tb_invites p) token = Some t \<longrightarrow>
      find (\<lambda>c. cv_id c = it_conversation_id t \<and> cv_kind c = ''group'' \<and> (cv_is_public c \<or> active_member p (it_conversation_id t) auth))
        (tb_conversations p) = None \<longrightarrow> (\<exists>e. r = Inl e))"
    unfolding get_invite_preview_def usable_invite_def get_invite_token_def db_get_group_preview_def get_group_member_previews_def
    by (rule rel_mono, (rule rel_rules)+) auto
  moreover have "find (\<lambda>c. cv_id c = it_conversation_id t \<and> cv_kind c = ''group'' \<and>
      (cv_is_public c \<or> active_member (st_pool s) (it_conversation_id t) auth)) (tb_conversations (st_pool s)) = None"
    using assms(2,3) by (auto simp: find_None_iff)
  ultimately show ?thesis using assms(1) by (blast dest: relD)
qed

theorem private_invite_not_previewed_witness:
  "\<exists>e. fst (run_state (get_invite_preview ref_srv 4 ''tok'') (ref_state ((ref_pool False)\<lparr>tb_invites := [(''tok'',
     \<lparr>it_conversation_id = 7, it_created_by = 1, it_created_at = 0, it_expires_at = None, it_max_uses = None, it_use_count = 0\<rparr>)]\<rparr>))) = Inl e"
  by (rule private_invite_not_previewed [where t = "\<lparr>it_conversation_id = 7, it_created_by = 1, it_created_at = 0,
        it_expires_at = None, it_max_uses = None, it_use_count = 0\<rparr>"])
    (simp_all add: ref_state_def ref_pool_def hm_get_def active_member_def)

end
