(* ===== verification/Srv_GroupSpec.thy ===== *)
theory Srv_GroupSpec
  imports Srv_GroupProps Srv_Membership Srv_TxStrict Srv_GroupViews
begin

text \<open>
  What the group endpoints promise, as an abstract system: the changes of the rosters that a user
  may make, each with its precondition. Every request to \<open>routes/groups\<close> refines it: it is a
  sequence of such changes, whatever the database answers.
\<close>

section \<open>Changes of the rosters\<close>

text \<open>System messages are appended, keys are rotated and their envelopes purged; the rosters do not change.\<close>

definition forget_version :: "ConversationRow \<Rightarrow> ConversationRow" where
  "forget_version c = c\<lparr>cv_key_version := 0\<rparr>"

definition off_roster :: "'n Pool \<Rightarrow> 'n Pool" where
  "off_roster p = p\<lparr>tb_messages := [], tb_envelopes := [], tb_conversations := map forget_version (tb_conversations p)\<rparr>"

definition upkeep :: "'n Pool \<Rightarrow> 'n Pool \<Rightarrow> bool" where
  "upkeep p q \<longleftrightarrow> off_roster q = off_roster p \<and> (\<exists>P. tb_envelopes q = filter P (tb_envelopes p))"

text \<open>After the loss of a member: upkeep, or the end of the group.\<close>

definition aftermath :: "bool \<Rightarrow> Uuid \<Rightarrow> 'n Pool \<Rightarrow> 'n Pool \<Rightarrow> bool" where
  "aftermath db_up g p q \<longleftrightarrow> upkeep p q \<or> q = delete_conversation g p \<and> (db_up \<longrightarrow> active_member_ids p g = [])"

text \<open>A new group with its owner and the members that the request names.\<close>

definition founded :: "Uuid \<Rightarrow> 'n Pool \<Rightarrow> 'n Pool \<Rightarrow> bool" where
  "founded auth p q \<longleftrightarrow> (\<exists>c ms chs. \<not> has_conversation p (cv_id c) \<and> cv_kind c = ''group'' \<and>
     cv_member_count c = int (length ms) \<and> fresh_members (cv_id c) ms \<and>
     (\<exists>m\<in>set ms. mb_user_id m = auth \<and> mb_role m = ''owner'') \<and>
     q = p\<lparr>tb_conversations := tb_conversations p @ [c], tb_members := tb_members p @ ms, tb_channels := tb_channels p @ chs\<rparr>)"

text \<open>A use of an invitation, which adds its user unless he is a member already.\<close>

definition redeemed :: "string \<Rightarrow> Uuid \<Rightarrow> 'n Pool \<Rightarrow> 'n Pool \<Rightarrow> bool" where
  "redeemed tok u p q \<longleftrightarrow> (\<exists>t p'. hm_get (tb_invites p) tok = Some t \<and> \<not> exhausted t \<and>
     (admitted (it_conversation_id t) u p p' \<or> p' = p) \<and> bump_use_count tok p' = (q, Inr ()))"

inductive roster_change :: "bool \<Rightarrow> Uuid \<Rightarrow> 'n Pool \<Rightarrow> 'n Pool \<Rightarrow> bool" for db_up auth where
  upkeep: "upkeep p q \<Longrightarrow> roster_change db_up auth p q"
| add: "admitted g u p q \<Longrightarrow> \<not> banned g u p \<Longrightarrow> member_role g auth p \<noteq> None \<Longrightarrow> public_flag g p \<or> admin_of p g auth \<Longrightarrow>
    roster_change db_up auth p q"
| join: "admitted g auth p q \<Longrightarrow> \<not> banned g auth p \<Longrightarrow> public_flag g p \<Longrightarrow> roster_change db_up auth p q"
| accept: "redeemed tok auth p q \<Longrightarrow> (\<And>t. hm_get (tb_invites p) tok = Some t \<Longrightarrow> \<not> banned (it_conversation_id t) auth p) \<Longrightarrow>
    roster_change db_up auth p q"
| remove: "dismissed g u p p' \<Longrightarrow> u = auth \<or> admin_of p g auth \<and> \<not> owner_of p g u \<Longrightarrow> aftermath db_up g p' q \<Longrightarrow>
    roster_change db_up auth p q"
| ban: "banished g u auth p p' \<Longrightarrow> admin_of p g auth \<Longrightarrow> \<not> owner_of p g u \<Longrightarrow> admin_of p g u \<longrightarrow> owner_of p g auth \<Longrightarrow>
    aftermath db_up g p' q \<Longrightarrow> roster_change db_up auth p q"
| unban: "admin_of p g auth \<Longrightarrow> roster_change db_up auth p (p\<lparr>tb_banned := hm_remove (g, u) (tb_banned p)\<rparr>)"
| role: "owner_of p g auth \<Longrightarrow> \<not> owner_of p g u \<Longrightarrow> r = ''admin'' \<or> r = ''member'' \<Longrightarrow>
    roster_change db_up auth p (set_role g u r p)"
| invite: "admin_of p g auth \<Longrightarrow> it_conversation_id t = g \<Longrightarrow> it_use_count t = 0 \<Longrightarrow> hm_get (tb_invites p) tok = None \<Longrightarrow>
    roster_change db_up auth p (p\<lparr>tb_invites := hm_insert tok t (tb_invites p)\<rparr>)"
| revoke: "admin_of p g auth \<Longrightarrow> hm_get (tb_invites p) tok = Some t \<Longrightarrow> it_conversation_id t = g \<Longrightarrow>
    roster_change db_up auth p (p\<lparr>tb_invites := hm_remove tok (tb_invites p)\<rparr>)"
| settings: "admin_of p g auth \<Longrightarrow> (\<And>c. f c = c\<lparr>cv_title := cv_title (f c), cv_description := cv_description (f c)\<rparr>) \<Longrightarrow>
    roster_change db_up auth p (update_conversation g f p)"
| create: "founded auth p q \<Longrightarrow> roster_change db_up auth p q"
| delete: "m \<in> set (tb_members p) \<Longrightarrow> active_at g auth m \<Longrightarrow> mb_role m = ''owner'' \<Longrightarrow> roster_change db_up auth p (delete_conversation g p)"

section \<open>The changes keep the invariant\<close>

lemma some_filter [simp]: "\<exists>P. xs = filter P xs"
  by (rule exI [of _ "\<lambda>_. True"]) simp

lemma upkeepI: "off_roster q = off_roster p \<Longrightarrow> tb_envelopes q = filter P (tb_envelopes p) \<Longrightarrow> upkeep p q"
  by (auto simp: upkeep_def)

lemma upkeep_refl: "upkeep p p"
  by (rule upkeepI [where P = "\<lambda>_. True"]) simp_all

lemma upkeep_trans: "upkeep p q \<Longrightarrow> upkeep q r \<Longrightarrow> upkeep p r"
  by (auto simp: upkeep_def)

lemma forget_fields:
  assumes "forget_version c = forget_version d"
  shows "cv_id c = cv_id d" "cv_kind c = cv_kind d" "cv_member_count c = cv_member_count d"
  using arg_cong [OF assms, of cv_id] arg_cong [OF assms, of cv_kind] arg_cong [OF assms, of cv_member_count]
  by (simp_all add: forget_version_def)

lemma upkeep_ok:
  fixes p q :: "'a Pool"
  assumes p: "roster_ok p" and q: "upkeep p q"
  shows "roster_ok q"
proof -
  have E: "off_roster q = off_roster p" using q by (simp add: upkeep_def)
  have M: "tb_members q = tb_members p" "tb_banned q = tb_banned p" "tb_invites q = tb_invites p"
    and cs: "map forget_version (tb_conversations q) = map forget_version (tb_conversations p)"
    using arg_cong [OF E, of tb_members] arg_cong [OF E, of tb_banned] arg_cong [OF E, of tb_invites]
      arg_cong [OF E, of tb_conversations] by (simp_all add: off_roster_def)
  have rows: "list_all2 (\<lambda>c d. forget_version c = forget_version d) (tb_conversations q) (tb_conversations p)"
    using cs by (simp add: list.rel_eq [symmetric] list.rel_map)
  have ids: "map cv_id (tb_conversations q) = map cv_id (tb_conversations p)"
    using rows by (induction rule: list_all2_induct) (auto dest: forget_fields)
  have "has_conversation r h \<longleftrightarrow> h \<in> set (map cv_id (tb_conversations r))" for r :: "'a Pool" and h
    by (auto simp: has_conversation_def list_ex_iff)
  then have has: "has_conversation q h = has_conversation p h" for h using ids by metis
  have "\<exists>d\<in>set (tb_conversations p). forget_version c = forget_version d" if "c \<in> set (tb_conversations q)" for c
    using rows that by (induction rule: list_all2_induct) auto
  then have "counts_exact q"
    using p M(1) unfolding roster_ok_def counts_exact_def by (metis forget_fields)
  then show ?thesis
    using p M ids has by (simp add: roster_ok_def members_wf_def bans_hold_def invites_bounded_def banned_def active_member_def)
qed

lemma aftermath_ok: "roster_ok p \<Longrightarrow> aftermath h g p q \<Longrightarrow> roster_ok q"
  by (auto simp: aftermath_def intro: upkeep_ok delete_conversation_ok)

lemma admitted_invites: "admitted g u p q \<Longrightarrow> tb_invites q = tb_invites p"
  by (auto simp: admitted_def upsert_member_def bump_member_count_def split: option.splits if_splits)

lemma founded_ok: "roster_ok p \<Longrightarrow> founded auth p q \<Longrightarrow> roster_ok q"
  unfolding founded_def
proof (elim exE conjE)
  fix c ms chs
  assume p: "roster_ok p" "\<not> has_conversation p (cv_id c)" "cv_member_count c = int (length ms)" "fresh_members (cv_id c) ms"
    and q: "q = p\<lparr>tb_conversations := tb_conversations p @ [c], tb_members := tb_members p @ ms, tb_channels := tb_channels p @ chs\<rparr>"
  have "roster_ok (p\<lparr>tb_conversations := tb_conversations p @ [c], tb_members := tb_members p @ ms\<rparr>)"
    using p by (intro new_conversation_ok) auto
  then show "roster_ok q" by (rule roster_frame [THEN iffD2, rotated 4]) (simp_all add: q)
qed

lemma roster_change_ok:
  assumes "roster_change h auth p q" and "roster_ok p"
  shows "roster_ok q"
  using assms
proof cases
  case (accept tok)
  then obtain t p' where t: "hm_get (tb_invites p) tok = Some t" "\<not> exhausted t" "bump_use_count tok p' = (q, Inr ())"
    and p': "admitted (it_conversation_id t) auth p p' \<or> p' = p" by (auto simp: redeemed_def)
  have "roster_ok p'" "hm_get (tb_invites p') tok = Some t"
    using assms(2) p' t(1) accept(2) by (auto intro: admitted_ok simp: admitted_invites)
  then show ?thesis using t bump_use_ok by blast
next
  case (settings g f)
  have "cv_id (f c) = cv_id c \<and> cv_kind (f c) = cv_kind c \<and> cv_member_count (f c) = cv_member_count c" for c
    by (subst (1 2 3) settings(3)) simp
  then show ?thesis unfolding settings(1) by (rule update_conversation_ok [OF assms(2)])
qed (use assms(2) in \<open>auto intro: upkeep_ok admitted_ok dismissed_ok banished_ok aftermath_ok unban_ok set_role_ok invite_add_ok
    invite_remove_ok use_ok_new founded_ok delete_conversation_ok\<close>)

section \<open>What follows a change of members\<close>

lemma rel_select_up:
  "rel (select E f) (\<lambda>p r q. q = p \<and> (r = Inr (f p) \<or> r = Inl OtherDbError \<and> \<not> healthy E))"
  by (auto simp: rel_def select_def query_def wp_simps healthy_def split: prod.split) (metis snd_conv)+

lemma map_update_conversation:
  "(\<And>c. forget_version (f c) = forget_version c) \<Longrightarrow>
   map forget_version (tb_conversations (update_conversation g f p)) = map forget_version (tb_conversations p)"
  by (simp add: update_conversation_def)

lemma rel_system_message: "rel (insert_system_message E g u c) (\<lambda>p r q. upkeep p q)"
  unfolding insert_system_message_def Let_def
  by (rule rel_mono, (rule rel_rules)+) (auto simp: upkeep_def off_roster_def split: if_splits)

lemma tx_bump_key_version:
  "rel (bump_key_version_and_purge_envelopes E g) (\<lambda>p r q. upkeep p q)"
  unfolding bump_key_version_and_purge_envelopes_def
  by (rule rel_mono, (rule rel_rules tx_rules)+)
    (auto simp: tx_effect_def upkeep_def off_roster_def update_conversation_def forget_version_def split: option.splits if_splits)

lemma rel_upkeepI:
  assumes "\<And>p. keeps (on_pool (upkeep p)) m"
  shows "rel m (\<lambda>p r q. upkeep p q)"
  using assms by (rule rel_keeps) (rule upkeep_refl)

lemma keeps_upkeep: "rel m (\<lambda>p r q. upkeep p q) \<Longrightarrow> keeps (on_pool (upkeep p0)) m"
  unfolding keeps_def on_pool_def using relD upkeep_trans by blast

lemma keeps_broadcast_value [keeps_intros]: "keeps (on_pool P) (broadcast_value E us ev x)"
  unfolding broadcast_value_def by (intro keeps_intros)

lemma keeps_tail:
  "keeps (on_pool (upkeep p0)) (broadcast_member_system_message E g a se u name rs)"
  "keeps (on_pool (upkeep p0)) (rotate_group_key_after_member_loss E g)"
  "keeps (on_pool (upkeep p0)) (announce_join E a g)"
  unfolding broadcast_member_system_message_def rotate_group_key_after_member_loss_def broadcast_rotation_requested_def
    announce_join_def is_encrypted_def get_conversation_member_ids_def find_by_id_def broadcast_to_conversation_def Let_def
  by (intro keeps_intros keeps_upkeep rel_system_message tx_bump_key_version)+

lemmas rel_tail = keeps_tail [THEN rel_upkeepI]

lemma rel_after_member_loss: "rel (after_member_loss E g a u act) (\<lambda>p r q. aftermath (healthy E) g p q)"
proof -
  have tail: "rel (do {
        rotate_group_key_after_member_loss E g;
        t \<leftarrow> find_by_id E u;
        (case unwrap_or None t of
           None \<Rightarrow> State_Monad.return ()
         | Some target_user \<Rightarrow> broadcast_member_system_message E g a (sentinel_of E act u (us_username target_user)) u
             (us_username target_user) rs)
      }) (\<lambda>p r q. upkeep p q)" for rs
    unfolding find_by_id_def by (rule rel_upkeepI) (intro keeps_intros keeps_tail)
  show ?thesis
    unfolding after_member_loss_def Let_def get_conversation_member_ids_def force_delete_conversation_def
    by (rule rel_mono, (rule tail rel_select_up rel_rules)+)
      (auto simp: aftermath_def unwrap_or_def upkeep_refl)
qed

lemma rel_invalidate [rel_rules]: "rel (invalidate_member_cache g) (\<lambda>p r q. q = p)"
  unfolding invalidate_member_cache_def rel_def by (simp add: wp_simps)

lemma rel_broadcast_value [rel_rules]: "rel (broadcast_value E us ev x) (\<lambda>p r q. q = p)"
  using rel_keeps [of "\<lambda>p q. q = p" "broadcast_value E us ev x"] by (simp add: keeps_broadcast_value)

section \<open>Requests\<close>

abbreviation changes :: "('w, 'tx, 'n) srv_env \<Rightarrow> Uuid \<Rightarrow> 'n Pool \<Rightarrow> 'n Pool \<Rightarrow> bool" where
  "changes E auth \<equiv> (roster_change (healthy E) auth)\<^sup>*\<^sup>*"

lemma change_then_upkeep:
  "roster_change h auth p p' \<Longrightarrow> upkeep p' q \<Longrightarrow> (roster_change h auth)\<^sup>*\<^sup>* p q"
  by (meson r_into_rtranclp rtranclp.rtrancl_into_rtrancl upkeep)

lemma changes1: "roster_change h auth p q \<Longrightarrow> (roster_change h auth)\<^sup>*\<^sup>* p q"
  by (rule r_into_rtranclp)

lemma add_member_changes: "rel (add_member E auth g u) (\<lambda>p r q. changes E auth p q)"
  unfolding add_member_def find_by_id_def
  by (rule rel_mono, (rule rel_tail tx_add rel_rules)+)
    (auto simp: tx_effect_def intro: change_then_upkeep changes1 roster_change.intros)

lemma aftermath_refl: "aftermath h g p p"
  by (simp add: aftermath_def upkeep_refl)

lemma strict_loss [tx_strict_rules]: "tx_strict (remove_member_tx E auth g u)" "tx_strict (ban_member_tx E auth g u)"
  unfolding remove_member_tx_def ban_member_tx_def acquire_member_lock_def remove_member_in_tx_def ban_member_in_tx_def Let_def
  by (rule tx_strict_rules)+

lemma remove_member_changes: "rel (remove_member E auth g u) (\<lambda>p r q. changes E auth p q)"
  unfolding remove_member_def
  by (rule rel_mono, (rule rel_after_member_loss rel_strict_transaction strict_loss tx_remove rel_rules)+)
    (auto simp: tx_answer_def tx_effect_def intro: changes1 roster_change.intros aftermath_refl)

lemma ban_member_changes: "rel (ban_member E auth g u) (\<lambda>p r q. changes E auth p q)"
  unfolding ban_member_def
  by (rule rel_mono, (rule rel_after_member_loss rel_strict_transaction strict_loss tx_ban rel_rules)+)
    (auto simp: tx_answer_def tx_effect_def intro: changes1 roster_change.intros aftermath_refl)

lemma rel_require_admin [rel_rules]:
  "rel (require_admin E auth g e1 e2) (\<lambda>p r q. q = p \<and> (\<forall>x. r = Inr x \<longrightarrow> admin_of p g auth))"
  unfolding require_admin_def get_member_role_def
  by (rule rel_mono, (rule rel_rules)+) (auto simp: admin_of_def)

lemma unban_member_changes: "rel (unban_member E auth g u) (\<lambda>p r q. changes E auth p q)"
  unfolding unban_member_def db_unban_member_def
  by (rule rel_mono, (rule rel_rules)+) (auto intro: changes1 roster_change.intros)

lemma change_member_role_changes: "rel (change_member_role E auth g u r) (\<lambda>p r q. changes E auth p q)"
  unfolding change_member_role_def
  by (rule rel_mono, (rule tx_change_role rel_rules)+)
    (auto simp: tx_effect_def intro: changes1 roster_change.intros)

lemma settings_title: "admin_of p g auth \<Longrightarrow> roster_change h auth p (update_conversation g (\<lambda>c. c\<lparr>cv_title := t\<rparr>) p)"
  by (rule settings) auto

lemma settings_description:
  "admin_of p g auth \<Longrightarrow> roster_change h auth p (update_conversation g (\<lambda>c. c\<lparr>cv_description := d\<rparr>) p)"
  by (rule settings) auto

lemma admin_of_update [simp]: "admin_of (update_conversation g f p) h u = admin_of p h u"
  by (simp add: admin_of_def member_role_def)

lemma settings_both:
  "admin_of p g auth \<Longrightarrow> (roster_change h auth)\<^sup>*\<^sup>* p
     (update_conversation g (\<lambda>c. c\<lparr>cv_description := d\<rparr>) (update_conversation g (\<lambda>c. c\<lparr>cv_title := t\<rparr>) p))"
  by (rule rtranclp.rtrancl_into_rtrancl [OF changes1 [OF settings_title] settings_description]) simp_all

lemma update_group_changes: "rel (update_group E auth g t d) (\<lambda>p r q. changes E auth p q)"
  unfolding update_group_def update_group_title_def update_group_description_def Let_def
  by (rule rel_mono, (rule rel_rules)+)
    (auto intro: changes1 settings_title settings_description settings_both)

lemma delete_group_changes: "rel (delete_group E auth g) (\<lambda>p r q. changes E auth p q)"
  unfolding delete_group_def db_delete_group_def
  by (rule rel_mono, (rule rel_rules)+)
    (auto simp: list_ex_iff intro: changes1 roster_change.intros split: if_splits)

lemma rel_db_remove_member:
  "rel (db_remove_member E g u) (\<lambda>p r q. (q = p \<or> dismissed g u p q) \<and> (r = Inr True \<longrightarrow> dismissed g u p q))"
proof -
  let ?body = "bind_ok (remove_member_in_tx E g u) (\<lambda>removed. ok (Commit removed))"
  have body: "tx_sat ?body (\<lambda>p x q. x = Commit False \<and> q = p \<or> x = Commit True \<and> dismissed g u p q)"
    by (rule tx_sat_mono, rule tx_sat_bind_ok [OF tx_remove_member tx_sat_ok]) (metis (full_types))
  have "tx_strict ?body" unfolding remove_member_in_tx_def by (rule tx_strict_rules)+
  then show ?thesis
    unfolding db_remove_member_def
    by (rule rel_mono [OF rel_strict_transaction [OF body]]) (simp only: tx_answer_def tx_effect_def tx_end.inject tx_end.distinct simp_thms, blast)
qed

lemma leave_group_changes: "rel (leave_group E auth g) (\<lambda>p r q. changes E auth p q)"
proof -
  have tail: "rel (do {
            rotate_group_key_after_member_loss E g;
            (case unwrap_or None leaver of
               None \<Rightarrow> State_Monad.return ()
             | Some leaver_user \<Rightarrow>
                 broadcast_member_system_message E g auth (sentinel_of E ''member_left'' auth (us_username leaver_user))
                   auth (us_username leaver_user) rs)
          }) (\<lambda>p r q. upkeep p q)" for leaver rs
    by (rule rel_upkeepI) (intro keeps_intros keeps_tail)
  have after: "rel (do {
         r \<leftarrow> select E (\<lambda>p. active_member_ids p g);
         (if unwrap_or [] r = [] then do { execute E (delete_conversation g); State_Monad.return () }
          else do {
            rotate_group_key_after_member_loss E g;
            (case unwrap_or None leaver of
               None \<Rightarrow> State_Monad.return ()
             | Some leaver_user \<Rightarrow>
                 broadcast_member_system_message E g auth (sentinel_of E ''member_left'' auth (us_username leaver_user))
                   auth (us_username leaver_user) (unwrap_or [] r))
          });
         ok (status_body ''left'')
       }) (\<lambda>p r q. aftermath (healthy E) g p q)" for leaver
    by (rule rel_mono, (rule tail rel_select_up rel_rules)+) (auto simp: aftermath_def unwrap_or_def upkeep_refl)
  show ?thesis
    unfolding leave_group_def get_member_role_def get_conversation_member_ids_def find_by_id_def force_delete_conversation_def Let_def
    by (rule rel_mono, (rule after rel_db_remove_member rel_rules)+)
      (auto intro: changes1 roster_change.intros aftermath_refl)
qed

lemma tx_join:
  "tx_sat (tx_query E (\<lambda>p. case conversation p g of
       Some c \<Rightarrow> if cv_kind c = ''group'' \<and> cv_is_public c then upsert_member now g u p else (p, Inr False)
     | None \<Rightarrow> (p, Inr False)))
   (\<lambda>p x q. if x then public_flag g p \<and> upsert_member now g u p = (q, Inr True) else q = p)"
  by (rule tx_sat_mono [OF tx_sat_query]) (auto simp: public_flag_def split: option.splits if_splits dest: upsert_False)

lemma rel_join_public_group:
  "rel (join_public_group E g u) (\<lambda>p r q. q = p \<or> admitted g u p q \<and> public_flag g p)"
  unfolding join_public_group_def
  by (rule rel_mono, (rule tx_join rel_rules tx_rules)+) (auto simp: tx_effect_def admitted_def split: if_splits)

lemma join_group_changes: "rel (join_group E auth g) (\<lambda>p r q. changes E auth p q)"
  unfolding join_group_def is_banned_def is_member_def
  by (rule rel_mono, (rule rel_tail rel_join_public_group rel_rules)+)
    (auto intro: changes1 change_then_upkeep roster_change.intros)

section \<open>Invitations and new groups\<close>

lemma tx_get_invite:
  "tx_sat (tx_query E (\<lambda>p. case hm_get (tb_invites p) tok of Some t \<Rightarrow> (p, Inr t) | None \<Rightarrow> (p, Inl RowNotFound)))
     (\<lambda>p t q. q = p \<and> hm_get (tb_invites p) tok = Some t)"
  by (rule tx_sat_mono [OF tx_sat_query]) (auto split: option.splits)

lemma rel_accept_invite_token:
  "rel (accept_invite_token E tok u) (\<lambda>p r q. q = p \<or> redeemed tok u p q)"
  unfolding accept_invite_token_def
  by (rule rel_mono, (rule tx_get_invite rel_rules tx_rules)+)
    (auto simp: tx_effect_def redeemed_def admitted_def split: if_splits dest!: upsert_False)

lemma rel_usable_invite:
  "rel (usable_invite E tok) (\<lambda>p r q. q = p \<and> (\<forall>t. r = Inr t \<longrightarrow> hm_get (tb_invites p) tok = Some t))"
  unfolding usable_invite_def get_invite_token_def by (rule rel_mono, (rule rel_rules)+) auto

lemma accept_redeemed:
  "redeemed tok auth p q \<Longrightarrow> hm_get (tb_invites p) tok = Some t \<Longrightarrow> \<not> banned (it_conversation_id t) auth p \<Longrightarrow> roster_change h auth p q"
  by (rule roster_change.accept) auto

lemma accept_invite_changes: "rel (accept_invite E auth tok) (\<lambda>p r q. changes E auth p q)"
  unfolding accept_invite_def is_banned_def is_member_def Let_def
  by (rule rel_mono, (rule rel_usable_invite rel_accept_invite_token rel_tail rel_rules)+)
    (auto intro: changes1 change_then_upkeep accept_redeemed roster_change.upkeep)

lemma invite_new:
  "admin_of p g auth \<Longrightarrow> hm_get (tb_invites p) tok = None \<Longrightarrow>
   roster_change h auth p (p\<lparr>tb_invites := hm_insert tok
     \<lparr>it_conversation_id = g, it_created_by = a, it_created_at = b, it_expires_at = c, it_max_uses = d, it_use_count = 0\<rparr>
     (tb_invites p)\<rparr>)"
  by (rule roster_change.invite) simp_all

lemma create_invite_changes: "rel (create_invite E auth g body) (\<lambda>p r q. changes E auth p q)"
  unfolding create_invite_def create_invite_token_def Let_def
  by (rule rel_mono, (rule rel_rules)+) (auto intro: changes1 invite_new split: if_splits)

lemma revoke_invite_changes: "rel (revoke_invite E auth g tok) (\<lambda>p r q. changes E auth p q)"
  unfolding revoke_invite_def delete_invite_token_def Let_def
  by (rule rel_mono, (rule rel_rules)+) (auto intro: changes1 roster_change.revoke split: if_splits option.splits)

lemma reads_change_nothing:
  "rel (list_invites E auth g) (\<lambda>p r q. changes E auth p q)" "rel (get_group E auth g) (\<lambda>p r q. changes E auth p q)"
  "rel (list_public_groups E auth x l n) (\<lambda>p r q. changes E auth p q)"
  "rel (get_group_preview E auth g) (\<lambda>p r q. changes E auth p q)" "rel (get_invite_preview E auth tok) (\<lambda>p r q. changes E auth p q)"
  unfolding list_public_groups_def db_list_public_groups_def get_group_preview_def db_get_group_preview_def
    get_group_member_previews_def get_invite_preview_def usable_invite_def get_invite_token_def Let_def list_invites_def list_invite_tokens_def get_group_def is_member_def get_group_members_def
  by (rule rel_mono, (rule rel_rules)+, auto)+

definition recruits :: "Uuid \<Rightarrow> Uuid \<Rightarrow> 'n Pool \<Rightarrow> MemberRow list \<Rightarrow> bool" where
  "recruits g creator p ms \<longleftrightarrow> distinct (map member_key ms) \<and>
     (\<forall>m\<in>set ms. mb_conversation_id m = g \<and> mb_user_id m \<noteq> creator \<and> \<not> mb_is_removed m \<and> mb_role m = ''member'' \<and>
        member_key m \<notin> member_key ` set (tb_members p))"

lemma tx_add_initial_members:
  fixes E :: "('w, 'tx, 'n) srv_env"
  shows "tx_sat (add_initial_members E now g creator us n)
     (\<lambda>p k q. \<exists>ms. q = p\<lparr>tb_members := tb_members p @ ms\<rparr> \<and> k = n + length ms \<and> recruits g creator p ms)"
proof (induction us arbitrary: n)
  case Nil
  show ?case by (auto simp: recruits_def intro!: tx_sat_mono [OF tx_sat_ok] exI [of _ "[]"])
next
  case (Cons u us)
  let ?m = "\<lparr>mb_conversation_id = g, mb_user_id = u, mb_is_removed = False, mb_role = ''member'', mb_joined_at = now, mb_is_muted = False\<rparr>"
  have insert: "\<exists>rs. p'\<lparr>tb_members := tb_members p' @ ms\<rparr> = p\<lparr>tb_members := tb_members p @ rs\<rparr> \<and> i + length ms = length rs \<and>
      recruits g creator p rs"
    if "u \<noteq> creator" "insert_member True ?m p = (p', Inr i)" "recruits g creator p' ms" for p p' :: "'n Pool" and i ms
  proof (cases "list_ex (at_member g u) (tb_members p)")
    case True
    then show ?thesis using that by (auto simp: insert_member_def)
  next
    case False
    then have new: "p' = p\<lparr>tb_members := tb_members p @ [?m]\<rparr>" "i = 1" using that(2) by (auto simp: insert_member_def split: if_splits)
    have "member_key ?m \<notin> member_key ` set (tb_members p)"
      using False by (auto simp: list_ex_iff at_member_key member_key_def)
    then have "recruits g creator p (?m # ms)"
      using that(1,3) new(1) by (auto simp: recruits_def)
    then show ?thesis using that new by (intro exI [of _ "?m # ms"]) simp
  qed
  show ?case
    by (simp only: add_initial_members.simps, rule tx_sat_mono, (rule Cons.IH tx_rules)+)
      (auto intro: insert split: if_splits)
qed

lemma update_fresh:
  assumes "\<not> has_conversation p (cv_id c)" "tb_conversations q = tb_conversations p @ [c]"
  shows "update_conversation (cv_id c) f q = q\<lparr>tb_conversations := tb_conversations p @ [f c]\<rparr>"
proof -
  have "map (\<lambda>d. if cv_id d = cv_id c then f d else d) (tb_conversations p) = tb_conversations p"
    using assms(1) by (intro map_idI) (auto simp: has_conversation_def list_ex_iff)
  then show ?thesis by (simp add: update_conversation_def assms(2))
qed

text \<open>The rows that the transaction of a new group writes, in the order of its statements.\<close>

abbreviation owner_row :: "Uuid \<Rightarrow> Uuid \<Rightarrow> datetime \<Rightarrow> MemberRow" where
  "owner_row g u now \<equiv> \<lparr>mb_conversation_id = g, mb_user_id = u, mb_is_removed = False, mb_role = ''owner'', mb_joined_at = now, mb_is_muted = False\<rparr>"

lemma founding_rows:
  assumes c: "cv_id c = g" "cv_kind c = ''group''" and p1: "insert_conversation c p = (p1, Inr info)"
    and p2: "insert_member False (owner_row g creator now) p1 = (p2, Inr k)"
    and ms: "recruits g creator p2 ms" and p3: "p3 = p2\<lparr>tb_members := tb_members p2 @ ms\<rparr>"
    and p4: "set_member_count g (int (1 + length ms)) p3 = (p4, Inr ())"
  shows "founded creator p p4" "has_conversation p4 g"
proof -
  let ?c = "c\<lparr>cv_member_count := int (1 + length ms)\<rparr>"
  have fresh: "\<not> has_conversation p g" "p1 = p\<lparr>tb_conversations := tb_conversations p @ [c]\<rparr>"
    using p1 c by (auto simp: insert_conversation_def split: if_splits)
  have p2: "p2 = p1\<lparr>tb_members := tb_members p @ [owner_row g creator now]\<rparr>"
    using p2 fresh(2) by (auto simp: insert_member_def split: if_splits)
  have p4: "p4 = p\<lparr>tb_conversations := tb_conversations p @ [?c], tb_members := tb_members p @ owner_row g creator now # ms\<rparr>"
    using p4 p3 p2 fresh c update_fresh [of p c p3] by (auto simp: set_member_count_def split: if_splits)
  have "distinct (map member_key (owner_row g creator now # ms))"
    using ms p2 by (auto simp: recruits_def member_key_def)
  moreover have "filter (owner_in g) ms = []" using ms by (auto simp: recruits_def owner_in_def filter_empty_conv)
  ultimately have "fresh_members g (owner_row g creator now # ms)"
    using ms by (auto simp: fresh_members_def recruits_def)
  then show "founded creator p p4"
    unfolding founded_def p4
    by (intro exI [of _ ?c] exI [of _ "owner_row g creator now # ms"] exI [of _ "[]"]) (use c fresh in auto)
  show "has_conversation p4 g" using c by (simp add: p4 has_conversation_def)
qed

lemma founded_channel:
  assumes "founded u p q" "insert_channel ch q = (r, Inr ())"
  shows "founded u p r"
proof -
  have r: "r = q\<lparr>tb_channels := tb_channels q @ [ch]\<rparr>" using assms(2) by (auto simp: insert_channel_def split: if_splits)
  obtain c ms chs where c: "\<not> has_conversation p (cv_id c) \<and> cv_kind c = ''group'' \<and>
     cv_member_count c = int (length ms) \<and> fresh_members (cv_id c) ms \<and> (\<exists>m\<in>set ms. mb_user_id m = u \<and> mb_role m = ''owner'')"
    and q: "q = p\<lparr>tb_conversations := tb_conversations p @ [c], tb_members := tb_members p @ ms, tb_channels := tb_channels p @ chs\<rparr>"
    using assms(1) unfolding founded_def by blast
  show ?thesis
    unfolding founded_def by (rule exI [of _ c], rule exI [of _ ms], rule exI [of _ "chs @ [ch]"]) (use c in \<open>simp add: r q\<close>)
qed

lemmas founding_new = founding_rows(1) [where c = "\<lparr>cv_id = g, cv_kind = ''group'', cv_is_encrypted = enc,
    cv_disappearing_ttl_seconds = None, cv_title = Some name, cv_description = d, cv_is_public = pub, cv_key_version = 1,
    cv_member_count = 0, cv_icon_url = None, cv_created_at = now\<rparr>" and g = g, OF _ _ _ _ _ refl, simplified] for g enc name d pub now

lemmas founding_complete = founded_channel [OF founded_channel [OF founding_new]]

lemma rel_create_group_with_visibility:
  "rel (create_group_with_visibility E creator name us pub d enc) (\<lambda>p r q. q = p \<or> founded creator p q)"
  unfolding create_group_with_visibility_def
  by (rule rel_mono, (rule tx_add_initial_members rel_rules tx_rules)+, auto simp: tx_effect_def)
    (erule notE, erule (5) founding_complete)

lemma create_group_changes: "rel (create_group E auth body) (\<lambda>p r q. changes E auth p q)"
  unfolding create_group_def has_publishable_keys_def user_has_public_group_named_def get_group_members_def Let_def
  by (rule rel_mono, (rule rel_create_group_with_visibility rel_rules)+) (auto intro: changes1 roster_change.create)

section \<open>The router\<close>

datatype group_request =
    CreateGroup CreateGroupRequest
  | GetGroup Uuid
  | UpdateGroup Uuid "string option" "string option"
  | DeleteGroup Uuid
  | AddMember Uuid Uuid
  | RemoveMember Uuid Uuid
  | ChangeMemberRole Uuid Uuid string
  | JoinGroup Uuid
  | LeaveGroup Uuid
  | BanMember Uuid Uuid
  | UnbanMember Uuid Uuid
  | CreateInvite Uuid "CreateInviteRequest option"
  | ListInvites Uuid
  | AcceptInvite string
  | RevokeInvite Uuid string
  | ListPublicGroups "string option" "i64 option" "i64 option"
  | GroupPreview Uuid
  | InvitePreview string

fun group_routes :: "('w, 'tx, 'n) srv_env \<Rightarrow> Uuid \<Rightarrow> group_request \<Rightarrow> ('w, 'tx, 'n) handler" where
  "group_routes E auth (CreateGroup body) = create_group E auth body"
| "group_routes E auth (GetGroup g) = get_group E auth g"
| "group_routes E auth (UpdateGroup g t d) = update_group E auth g t d"
| "group_routes E auth (DeleteGroup g) = delete_group E auth g"
| "group_routes E auth (AddMember g u) = add_member E auth g u"
| "group_routes E auth (RemoveMember g u) = remove_member E auth g u"
| "group_routes E auth (ChangeMemberRole g u r) = change_member_role E auth g u r"
| "group_routes E auth (JoinGroup g) = join_group E auth g"
| "group_routes E auth (LeaveGroup g) = leave_group E auth g"
| "group_routes E auth (BanMember g u) = ban_member E auth g u"
| "group_routes E auth (UnbanMember g u) = unban_member E auth g u"
| "group_routes E auth (CreateInvite g body) = create_invite E auth g body"
| "group_routes E auth (ListInvites g) = list_invites E auth g"
| "group_routes E auth (AcceptInvite tok) = accept_invite E auth tok"
| "group_routes E auth (RevokeInvite g tok) = revoke_invite E auth g tok"
| "group_routes E auth (ListPublicGroups search limit offset) = list_public_groups E auth search limit offset"
| "group_routes E auth (GroupPreview g) = get_group_preview E auth g"
| "group_routes E auth (InvitePreview tok) = get_invite_preview E auth tok"

lemmas handler_changes = create_group_changes reads_change_nothing update_group_changes delete_group_changes add_member_changes
  remove_member_changes change_member_role_changes join_group_changes leave_group_changes ban_member_changes
  unban_member_changes create_invite_changes accept_invite_changes revoke_invite_changes

lemma handlers_refine:
  "(roster_change (healthy E) auth)\<^sup>*\<^sup>* (st_pool s) (st_pool (exec (group_routes E auth req) s))"
  unfolding exec_def by (cases req) (simp_all add: handler_changes [THEN relD])

text \<open>
  C2: every request to the group endpoints, whatever the database answers to its statements,
  is a sequence of changes that the requesting user may make: members are added to public groups
  or by administrators and never while banned, removed or banned by administrators but never the
  owner, roles are changed by the owner, invitations, settings and unbans need an administrator,
  deletion the owner; besides that, a group only ends with the loss of a member, and in an
  environment without database failures of its last one.
\<close>

theorem group_requests_refine_roster_changes:
  "(roster_change (healthy E) auth)\<^sup>*\<^sup>* (st_pool s) (st_pool (exec (group_routes E auth req) s))"
  by (rule handlers_refine)

end
