(* ===== verification/Srv_Messenger.thy ===== *)
theory Srv_Messenger
  imports Srv_GroupSpec
begin

text \<open>
  The WebSocket handlers, the group endpoints and the periodic clean-up together, one handler at a
  time: the invariant of the rosters, and runs that show what happens when a statement fails in the
  middle of a group request or when two requests interleave.
\<close>

section \<open>Steps\<close>

inductive messenger_step :: "('w, 'tx, 'n) srv_env \<Rightarrow> ('w, 'tx, 'n) AppState \<Rightarrow> ('w, 'tx, 'n) AppState \<Rightarrow> bool" for E where
  socket: "server_step E s t \<Longrightarrow> messenger_step E s t"
| request: "messenger_step E s (exec (group_routes E auth req) s)"
| reap: "messenger_step E s (exec (cleanup_empty_groups E) s)"

lemma changes_ok: "(roster_change h auth)\<^sup>*\<^sup>* p q \<Longrightarrow> roster_ok p \<Longrightarrow> roster_ok q"
  by (induction rule: rtranclp_induct) (auto intro: roster_change_ok)

lemma keeps_reap: "keeps (on_pool roster_ok) (cleanup_empty_groups E)"
  unfolding cleanup_empty_groups_def find_empty_group_ids_def force_delete_conversation_def
  by (intro keeps_intros keeps_execute delete_conversation_ok)

lemma messenger_step_ok:
  assumes "messenger_step E s t" and "roster_ok (st_pool s)"
  shows "roster_ok (st_pool t)"
  using assms(1)
proof cases
  case socket
  then show ?thesis using assms(2) by (rule rosters.server_step_keeps)
next
  case (request auth req)
  then show ?thesis
    using changes_ok [OF handlers_refine assms(2)] by simp
next
  case reap
  then show ?thesis
    using keeps_run [OF keeps_reap, of s E] assms(2) by (simp add: exec_def on_pool_def)
qed



section \<open>Failures and interleavings\<close>

definition flaky :: "nat \<Rightarrow> ((nat \<times> WsMessage) list \<times> nat, nat, unit) srv_env" where
  "flaky n = ref_srv\<lparr>sv_db := \<lambda>w. ((fst w, Suc (snd w)), if snd w = n then DbFailBefore else DbOk)\<rparr>"


text \<open>
  a role change can be reported as done without being stored: the read of the member list
  at the end of the transaction fails, its error is replaced by an empty list, and committing the
  aborted transaction raises no error.
\<close>

theorem aborted_role_change_reported_done:
  "let s0 = ref_state (ref_pool False); m = change_member_role (flaky 5) 1 7 3 ''admin''; s = exec m s0
   in (case fst (run_state m s0) of Inr (st, _) \<Rightarrow> st = 200 | Inl _ \<Rightarrow> False) \<and>
      member_role 7 3 (st_pool s0) = Some ''member'' \<and> member_role 7 3 (st_pool s) = Some ''member''"
  by code_simp

text \<open>
  joining a public group reads the ban before the transaction that adds the member. When a
  ban commits in between, the user ends up banned and an active member: user 4 passes both checks
  of \<open>join_group\<close>, user 1 bans him, the write of \<open>join_group\<close> goes through.
\<close>

theorem ban_races_with_join:
  "let p = (ref_pool False)\<lparr>tb_conversations := map (\<lambda>c. c\<lparr>cv_is_public := True\<rparr>) (tb_conversations (ref_pool False)),
             tb_users := map (\<lambda>u. u\<lparr>us_id := us_id u + 1\<rparr>) (tb_users (ref_pool False)) @ tb_users (ref_pool False)\<rparr>;
       s0 = ref_state p;
       s1 = exec (ban_member ref_srv 1 7 4) s0;
       s2 = exec (join_public_group ref_srv 7 4) s1
   in fst (run_state (is_banned ref_srv 7 4) s0) = Inr False \<and> fst (run_state (is_member ref_srv 7 4) s0) = Inr False \<and>
      banned 7 4 (st_pool s2) \<and> active_member (st_pool s2) 7 4"
  by code_simp

end
