(* ===== verification/Srv_KeysDb.thy ===== *)
theory Srv_KeysDb
  imports Srv_GroupsDb Srv_TxStrict
begin

text \<open>
  \<open>db/keys.rs\<close>: identity keys, signed and one-time prekeys of devices, group keys and their
  envelopes. \<open>now()\<close> is drawn once for a statement, and once for a transaction. Serial numbers of
  one-time prekeys only matter by their order, so a new row takes the number after the largest.
\<close>

section \<open>Statements\<close>

definition at_device :: "Uuid \<Rightarrow> device_id \<Rightarrow> IdentityKeyRow \<Rightarrow> bool" where
  "at_device u d k \<longleftrightarrow> ir_user_id k = u \<and> ir_device_id k = d"

definition identity_row :: "Uuid \<Rightarrow> device_id \<Rightarrow> 'n Pool \<Rightarrow> IdentityKeyRow option" where
  "identity_row u d p = find (at_device u d) (tb_identity_keys p)"

definition update_device :: "Uuid \<Rightarrow> device_id \<Rightarrow> (IdentityKeyRow \<Rightarrow> IdentityKeyRow) \<Rightarrow> 'n Pool \<Rightarrow> 'n Pool" where
  "update_device u d f p = p\<lparr>tb_identity_keys := map (\<lambda>k. if at_device u d k then f k else k) (tb_identity_keys p)\<rparr>"

definition coalesce :: "'a option \<Rightarrow> 'a option \<Rightarrow> 'a option" where
  "coalesce a b = (case a of Some x \<Rightarrow> Some x | None \<Rightarrow> b)"

definition upsert_identity ::
  "Uuid \<Rightarrow> device_id \<Rightarrow> bytes \<Rightarrow> bytes option \<Rightarrow> string option \<Rightarrow> string option \<Rightarrow> 'n Pool \<Rightarrow> 'n Pool \<times> (sqlx_error + unit)" where
  "upsert_identity u d ik sk platform name p =
     (if identity_row u d p \<noteq> None
      then (update_device u d (\<lambda>k. k\<lparr>ir_identity_key := ik, ir_signing_key := sk, ir_platform := coalesce platform (ir_platform k),
              ir_device_name := coalesce (ir_device_name k) name, ir_revoked := False\<rparr>) p, Inr ())
      else if has_user p u
      then (p\<lparr>tb_identity_keys := tb_identity_keys p @ [\<lparr>ir_user_id = u, ir_device_id = d, ir_identity_key = ik,
              ir_signing_key = sk, ir_platform = platform, ir_device_name = name, ir_last_seen = None, ir_fingerprint = None,
              ir_revoked = False\<rparr>]\<rparr>, Inr ())
      else (p, Inl OtherDbError))"

definition of_device :: "Uuid \<Rightarrow> device_id \<Rightarrow> SignedPrekeyRow \<Rightarrow> bool" where
  "of_device u d r \<longleftrightarrow> sp_user_id r = u \<and> sp_device_id r = d"

definition days14 :: int where "days14 = 14 * 86400 * int nanos_per_sec"

definition start_grace :: "Uuid \<Rightarrow> device_id \<Rightarrow> datetime \<Rightarrow> 'n Pool \<Rightarrow> 'n Pool" where
  "start_grace u d now p = p\<lparr>tb_signed_prekeys := map (\<lambda>r.
     if of_device u d r \<and> sp_grace_expires_at r = None then r\<lparr>sp_grace_expires_at := Some (now + days14)\<rparr> else r) (tb_signed_prekeys p)\<rparr>"

definition upsert_signed ::
  "Uuid \<Rightarrow> device_id \<Rightarrow> i32 \<Rightarrow> bytes \<Rightarrow> bytes \<Rightarrow> datetime \<Rightarrow> 'n Pool \<Rightarrow> 'n Pool \<times> (sqlx_error + unit)" where
  "upsert_signed u d kid pk sg now p =
     (if list_ex (\<lambda>r. of_device u d r \<and> sp_key_id r = kid) (tb_signed_prekeys p)
      then (p\<lparr>tb_signed_prekeys := map (\<lambda>r. if of_device u d r \<and> sp_key_id r = kid
              then r\<lparr>sp_public_key := pk, sp_signature := sg, sp_grace_expires_at := None, sp_created_at := now\<rparr> else r)
              (tb_signed_prekeys p)\<rparr>, Inr ())
      else if has_user p u
      then (p\<lparr>tb_signed_prekeys := tb_signed_prekeys p @ [\<lparr>sp_user_id = u, sp_device_id = d, sp_key_id = kid,
              sp_public_key = pk, sp_signature = sg, sp_created_at = now, sp_grace_expires_at = None\<rparr>]\<rparr>, Inr ())
      else (p, Inl OtherDbError))"

definition purge_signed :: "Uuid \<Rightarrow> device_id \<Rightarrow> datetime \<Rightarrow> 'n Pool \<Rightarrow> 'n Pool" where
  "purge_signed u d now p = p\<lparr>tb_signed_prekeys := filter (\<lambda>r.
     \<not> (of_device u d r \<and> (case sp_grace_expires_at r of Some t \<Rightarrow> t < now | None \<Rightarrow> False))) (tb_signed_prekeys p)\<rparr>"

definition otp_of :: "Uuid \<Rightarrow> device_id \<Rightarrow> OneTimePrekeyRow \<Rightarrow> bool" where
  "otp_of u d r \<longleftrightarrow> op_user_id r = u \<and> op_device_id r = d"

fun upsert_otps :: "Uuid \<Rightarrow> device_id \<Rightarrow> (i32 \<times> bytes) list \<Rightarrow> OneTimePrekeyRow list \<Rightarrow> OneTimePrekeyRow list" where
  "upsert_otps u d [] rows = rows"
| "upsert_otps u d ((kid, pk) # ks) rows =
     upsert_otps u d ks
       (if list_ex (\<lambda>r. otp_of u d r \<and> op_key_id r = kid) rows
        then map (\<lambda>r. if otp_of u d r \<and> op_key_id r = kid then r\<lparr>op_public_key := pk, op_used := False\<rparr> else r) rows
        else rows @ [\<lparr>op_id = Suc (Max (insert 0 (op_id ` set rows))), op_user_id = u, op_device_id = d, op_key_id = kid,
               op_public_key = pk, op_used = False\<rparr>])"

text \<open>One statement that meets the same key twice is an error (\<open>ON CONFLICT\<close> cannot affect a row twice).\<close>

definition insert_otps :: "Uuid \<Rightarrow> device_id \<Rightarrow> (i32 \<times> bytes) list \<Rightarrow> 'n Pool \<Rightarrow> 'n Pool \<times> (sqlx_error + unit)" where
  "insert_otps u d ks p =
     (if distinct (map fst ks) \<and> has_user p u
      then (p\<lparr>tb_one_time_prekeys := upsert_otps u d ks (tb_one_time_prekeys p)\<rparr>, Inr ())
      else (p, Inl OtherDbError))"

definition next_otp :: "Uuid \<Rightarrow> device_id \<Rightarrow> 'n Pool \<Rightarrow> OneTimePrekeyRow option" where
  "next_otp u d p = (case sort_key op_id (filter (\<lambda>r. otp_of u d r \<and> \<not> op_used r) (tb_one_time_prekeys p)) of
     [] \<Rightarrow> None | r # _ \<Rightarrow> Some r)"

definition use_otp :: "Uuid \<Rightarrow> device_id \<Rightarrow> 'n Pool \<Rightarrow> 'n Pool \<times> (i32 \<times> bytes) option" where
  "use_otp u d p = (case next_otp u d p of
     None \<Rightarrow> (p, None)
   | Some r \<Rightarrow> (p\<lparr>tb_one_time_prekeys := map (\<lambda>x. if op_id x = op_id r then x\<lparr>op_used := True\<rparr> else x) (tb_one_time_prekeys p)\<rparr>,
        Some (op_key_id r, op_public_key r)))"

text \<open>The active signed prekey, or else the newest that is still in its grace period.\<close>

definition newest :: "SignedPrekeyRow list \<Rightarrow> SignedPrekeyRow option" where
  "newest rs = (case sort_key (\<lambda>r. - sp_created_at r) rs of [] \<Rightarrow> None | r # _ \<Rightarrow> Some r)"

definition current_signed :: "Uuid \<Rightarrow> device_id \<Rightarrow> datetime \<Rightarrow> 'n Pool \<Rightarrow> SignedPrekeyRow option" where
  "current_signed u d now p =
     (let rows = filter (of_device u d) (tb_signed_prekeys p) in
      case newest (filter (\<lambda>r. sp_grace_expires_at r = None) rows) of
        Some r \<Rightarrow> Some r
      | None \<Rightarrow> newest (filter (\<lambda>r. case sp_grace_expires_at r of Some t \<Rightarrow> now < t | None \<Rightarrow> False) rows))"

definition drop_prekeys :: "(device_id \<Rightarrow> bool) \<Rightarrow> Uuid \<Rightarrow> 'n Pool \<Rightarrow> 'n Pool" where
  "drop_prekeys D u p = p\<lparr>tb_signed_prekeys := filter (\<lambda>r. \<not> (sp_user_id r = u \<and> D (sp_device_id r))) (tb_signed_prekeys p),
     tb_one_time_prekeys := filter (\<lambda>r. \<not> (op_user_id r = u \<and> D (op_device_id r))) (tb_one_time_prekeys p)\<rparr>"

section \<open>Fingerprints and devices\<close>

definition get_identity_key_fingerprint :: "('w, 'tx, 'n) srv_env \<Rightarrow> Uuid \<Rightarrow> ('w, 'tx, 'n, sqlx_error + bytes option) act" where
  "get_identity_key_fingerprint E u = select E (\<lambda>p. Option.bind (user p u) us_identity_key_fingerprint)"

definition update_user :: "Uuid \<Rightarrow> (UserRow \<Rightarrow> UserRow) \<Rightarrow> 'n Pool \<Rightarrow> 'n Pool" where
  "update_user u f p = p\<lparr>tb_users := map (\<lambda>r. if us_id r = u then f r else r) (tb_users p)\<rparr>"

definition set_identity_key_fingerprint :: "('w, 'tx, 'n) srv_env \<Rightarrow> Uuid \<Rightarrow> bytes \<Rightarrow> ('w, 'tx, 'n, sqlx_error + unit) act" where
  "set_identity_key_fingerprint E u fp = execute E (update_user u (\<lambda>r. r\<lparr>us_identity_key_fingerprint := Some fp\<rparr>))"

definition clear_identity_key_fingerprint :: "('w, 'tx, 'n) srv_env \<Rightarrow> Uuid \<Rightarrow> ('w, 'tx, 'n, sqlx_error + unit) act" where
  "clear_identity_key_fingerprint E u = execute E (update_user u (\<lambda>r. r\<lparr>us_identity_key_fingerprint := None\<rparr>))"

definition get_device_fingerprint :: "('w, 'tx, 'n) srv_env \<Rightarrow> Uuid \<Rightarrow> device_id \<Rightarrow> ('w, 'tx, 'n, sqlx_error + bytes option) act" where
  "get_device_fingerprint E u d = select E (\<lambda>p. Option.bind (identity_row u d p) ir_fingerprint)"

definition set_device_fingerprint ::
  "('w, 'tx, 'n) srv_env \<Rightarrow> Uuid \<Rightarrow> device_id \<Rightarrow> bytes \<Rightarrow> ('w, 'tx, 'n, sqlx_error + unit) txact" where
  "set_device_fingerprint E u d fp = tx_query E (\<lambda>p. (update_device u d (\<lambda>k. k\<lparr>ir_fingerprint := Some fp\<rparr>) p, Inr ()))"

definition clear_device_fingerprint ::
  "('w, 'tx, 'n) srv_env \<Rightarrow> Uuid \<Rightarrow> device_id \<Rightarrow> ('w, 'tx, 'n, sqlx_error + unit) txact" where
  "clear_device_fingerprint E u d = tx_query E (\<lambda>p. (update_device u d (\<lambda>k. k\<lparr>ir_fingerprint := None\<rparr>) p, Inr ()))"

definition store_identity_key ::
  "('w, 'tx, 'n) srv_env \<Rightarrow> Uuid \<Rightarrow> device_id \<Rightarrow> bytes \<Rightarrow> bytes option \<Rightarrow> string option \<Rightarrow> string option
     \<Rightarrow> ('w, 'tx, 'n, sqlx_error + unit) txact" where
  "store_identity_key E u d ik sk platform name = tx_query E (upsert_identity u d ik sk platform name)"

definition db_rename_device ::
  "('w, 'tx, 'n) srv_env \<Rightarrow> Uuid \<Rightarrow> device_id \<Rightarrow> string \<Rightarrow> ('w, 'tx, 'n, sqlx_error + bool) act" where
  "db_rename_device E u d name = query E (\<lambda>p.
     (p\<lparr>tb_identity_keys := map (\<lambda>k. if at_device u d k \<and> \<not> ir_revoked k then k\<lparr>ir_device_name := Some name\<rparr> else k)
        (tb_identity_keys p)\<rparr>,
      Inr (list_ex (\<lambda>k. at_device u d k \<and> \<not> ir_revoked k) (tb_identity_keys p))))"

section \<open>Prekeys\<close>

definition store_signed_prekey ::
  "('w, 'tx, 'n) srv_env \<Rightarrow> datetime \<Rightarrow> Uuid \<Rightarrow> device_id \<Rightarrow> i32 \<Rightarrow> bytes \<Rightarrow> bytes \<Rightarrow> ('w, 'tx, 'n, sqlx_error + unit) txact" where
  "store_signed_prekey E now u d kid pk sg =
     bind_ok (tx_query E (\<lambda>p. (start_grace u d now p, Inr ()))) (\<lambda>_.
     bind_ok (tx_query E (upsert_signed u d kid pk sg now)) (\<lambda>_.
     tx_query E (\<lambda>p. (purge_signed u d now p, Inr ()))))"

definition store_one_time_prekeys ::
  "('w, 'tx, 'n) srv_env \<Rightarrow> Uuid \<Rightarrow> device_id \<Rightarrow> (i32 \<times> bytes) list \<Rightarrow> ('w, 'tx, 'n, sqlx_error + unit) txact" where
  "store_one_time_prekeys E u d prekeys = (if prekeys = [] then ok () else tx_query E (insert_otps u d prekeys))"

record PreKeyBundleRow =
  pb_identity_key :: bytes
  pb_signing_key :: "bytes option"
  pb_signed_prekey :: bytes
  pb_signed_prekey_signature :: bytes
  pb_signed_prekey_id :: i32
  pb_one_time_prekey :: "(i32 \<times> bytes) option"

definition bundle_row :: "bytes \<times> bytes option \<Rightarrow> SignedPrekeyRow \<Rightarrow> (i32 \<times> bytes) option \<Rightarrow> PreKeyBundleRow" where
  "bundle_row ident spk otp = \<lparr>pb_identity_key = fst ident, pb_signing_key = snd ident, pb_signed_prekey = sp_public_key spk,
     pb_signed_prekey_signature = sp_signature spk, pb_signed_prekey_id = sp_key_id spk, pb_one_time_prekey = otp\<rparr>"

definition get_prekey_bundle ::
  "('w, 'tx, 'n) srv_env \<Rightarrow> Uuid \<Rightarrow> device_id \<Rightarrow> ('w, 'tx, 'n, sqlx_error + PreKeyBundleRow option) act" where
  "get_prekey_bundle E u d =
     bind_ok (select E (\<lambda>p. map_option (\<lambda>k. (ir_identity_key k, ir_signing_key k))
       (find (\<lambda>k. at_device u d k \<and> \<not> ir_revoked k) (tb_identity_keys p)))) (\<lambda>identity_row.
     case identity_row of
       None \<Rightarrow> ok None
     | Some ident \<Rightarrow> do {
         now \<leftarrow> draw (sv_utc_now E);
         bind_ok (select E (current_signed u d now)) (\<lambda>spk_row.
         case spk_row of
           None \<Rightarrow> ok None
         | Some spk \<Rightarrow>
             bind_ok (query E (\<lambda>p. (fst (use_otp u d p), Inr (snd (use_otp u d p))))) (\<lambda>otp.
             ok (Some (bundle_row ident spk otp))))
       })"

definition newest_devices :: "Uuid \<Rightarrow> 'n Pool \<Rightarrow> IdentityKeyRow list" where
  "newest_devices u p =
     take 10 (sort_key (\<lambda>k. - sint (ir_device_id k)) (filter (\<lambda>k. ir_user_id k = u \<and> \<not> ir_revoked k) (tb_identity_keys p)))"

fun consume_each ::
  "('w, 'tx, 'n) srv_env \<Rightarrow> Uuid \<Rightarrow> (device_id \<times> (bytes \<times> bytes option) \<times> SignedPrekeyRow) list
     \<Rightarrow> ('w, 'tx, 'n, sqlx_error + (device_id \<times> PreKeyBundleRow) list) act" where
  "consume_each E u [] = ok []"
| "consume_each E u ((d, ident, spk) # rest) =
     bind_ok (query E (\<lambda>p. (fst (use_otp u d p), Inr (snd (use_otp u d p))))) (\<lambda>otp.
     bind_ok (consume_each E u rest) (\<lambda>results. ok ((d, bundle_row ident spk otp) # results)))"

definition get_all_prekey_bundles ::
  "('w, 'tx, 'n) srv_env \<Rightarrow> Uuid \<Rightarrow> ('w, 'tx, 'n, sqlx_error + (device_id \<times> PreKeyBundleRow) list) act" where
  "get_all_prekey_bundles E u =
     bind_ok (select E (\<lambda>p. map (\<lambda>k. (ir_device_id k, ir_identity_key k, ir_signing_key k)) (newest_devices u p))) (\<lambda>identity_rows.
     if identity_rows = [] then ok []
     else do {
       now \<leftarrow> draw (sv_utc_now E);
       bind_ok (select E (\<lambda>p. List.map_filter (\<lambda>(d, ident). map_option (\<lambda>spk. (d, ident, spk)) (current_signed u d now p))
         identity_rows)) (\<lambda>candidates. consume_each E u candidates)
     })"

definition get_first_active_device_id :: "('w, 'tx, 'n) srv_env \<Rightarrow> Uuid \<Rightarrow> ('w, 'tx, 'n, sqlx_error + device_id option) act" where
  "get_first_active_device_id E u = select E (\<lambda>p.
     case sort_key (\<lambda>k. sint (ir_device_id k)) (filter (\<lambda>k. ir_user_id k = u \<and> \<not> ir_revoked k) (tb_identity_keys p)) of
       [] \<Rightarrow> None | k # _ \<Rightarrow> Some (ir_device_id k))"

definition get_user_devices :: "('w, 'tx, 'n) srv_env \<Rightarrow> Uuid \<Rightarrow> ('w, 'tx, 'n, sqlx_error + IdentityKeyRow list) act" where
  "get_user_devices E u = select E (newest_devices u)"

section \<open>Revocation\<close>

definition revoke_device_in_tx :: "('w, 'tx, 'n) srv_env \<Rightarrow> Uuid \<Rightarrow> device_id \<Rightarrow> ('w, 'tx, 'n, sqlx_error + bool) txact" where
  "revoke_device_in_tx E u d =
     bind_ok (tx_query E (\<lambda>p. (update_device u d (\<lambda>k. k\<lparr>ir_revoked := True\<rparr>) p,
       Inr (list_ex (\<lambda>k. at_device u d k \<and> \<not> ir_revoked k) (tb_identity_keys p))))) (\<lambda>found.
     bind_ok (tx_query E (\<lambda>p. (p\<lparr>tb_signed_prekeys := tb_signed_prekeys (drop_prekeys ((=) d) u p)\<rparr>, Inr ()))) (\<lambda>_.
     bind_ok (tx_query E (\<lambda>p. (p\<lparr>tb_one_time_prekeys := tb_one_time_prekeys (drop_prekeys ((=) d) u p)\<rparr>, Inr ()))) (\<lambda>_.
     ok found)))"

definition db_revoke_device :: "('w, 'tx, 'n) srv_env \<Rightarrow> Uuid \<Rightarrow> device_id \<Rightarrow> ('w, 'tx, 'n, sqlx_error + bool) act" where
  "db_revoke_device E u d = in_transaction E (\<lambda>e. e) (bind_ok (revoke_device_in_tx E u d) (\<lambda>revoked. ok (Commit revoked)))"

definition revoke_devices_except ::
  "('w, 'tx, 'n) srv_env \<Rightarrow> Uuid \<Rightarrow> device_id \<Rightarrow> ('w, 'tx, 'n, sqlx_error + device_id list) act" where
  "revoke_devices_except E u keep = in_transaction E (\<lambda>e. e)
     (bind_ok (tx_select E (\<lambda>p. map ir_device_id (filter (\<lambda>k. ir_user_id k = u \<and> ir_device_id k \<noteq> keep \<and> \<not> ir_revoked k)
        (tb_identity_keys p)))) (\<lambda>revoked.
      bind_ok (tx_query E (\<lambda>p. (p\<lparr>tb_identity_keys := map (\<lambda>k.
        if ir_user_id k = u \<and> ir_device_id k \<noteq> keep then k\<lparr>ir_revoked := True\<rparr> else k) (tb_identity_keys p)\<rparr>, Inr ()))) (\<lambda>_.
      bind_ok (tx_query E (\<lambda>p. (p\<lparr>tb_signed_prekeys := tb_signed_prekeys (drop_prekeys ((\<noteq>) keep) u p)\<rparr>, Inr ()))) (\<lambda>_.
      bind_ok (tx_query E (\<lambda>p. (p\<lparr>tb_one_time_prekeys := tb_one_time_prekeys (drop_prekeys ((\<noteq>) keep) u p)\<rparr>, Inr ()))) (\<lambda>_.
      ok (Commit revoked))))))"

definition count_identity_keys :: "('w, 'tx, 'n) srv_env \<Rightarrow> Uuid \<Rightarrow> ('w, 'tx, 'n, sqlx_error + nat) act" where
  "count_identity_keys E u = select E (\<lambda>p. length (filter (\<lambda>k. ir_user_id k = u) (tb_identity_keys p)))"

definition count_one_time_prekeys :: "('w, 'tx, 'n) srv_env \<Rightarrow> Uuid \<Rightarrow> device_id \<Rightarrow> ('w, 'tx, 'n, sqlx_error + nat) act" where
  "count_one_time_prekeys E u d =
     select E (\<lambda>p. length (filter (\<lambda>r. otp_of u d r \<and> \<not> op_used r) (tb_one_time_prekeys p)))"

end
