(* ===== verification/Srv_Keys.thy ===== *)
theory Srv_Keys
  imports Srv_KeysDb Srv_Groups
begin

text \<open>
  \<open>routes/keys.rs\<close>: upload of prekey bundles with the checks of their signature and identity,
  bundles for senders, the list of devices, revocation and reset; \<open>auth/invalidation.rs\<close>: the
  floor below which access tokens of a user are refused.
\<close>

section \<open>\<open>auth/invalidation.rs\<close>\<close>

definition timestamp :: "datetime \<Rightarrow> int" where "timestamp t = t div int nanos_per_sec"

definition min_iat :: "('w, 'tx, 'n) AppState \<Rightarrow> Uuid \<Rightarrow> int option" where
  "min_iat s u = hm_get (st_min_iat s) u"

definition raise_floor :: "Uuid \<Rightarrow> int \<Rightarrow> (Uuid, int) hmap \<Rightarrow> (Uuid, int) hmap" where
  "raise_floor u now m = hm_insert u (case hm_get m u of Some prev \<Rightarrow> max prev now | None \<Rightarrow> now) m"

definition invalidate :: "('w, 'tx, 'n) srv_env \<Rightarrow> Uuid \<Rightarrow> ('w, 'tx, 'n, unit) act" where
  "invalidate E u = do {
     now \<leftarrow> draw (sv_utc_now E);
     modify (\<lambda>s. s\<lparr>st_min_iat := raise_floor u (timestamp now) (st_min_iat s)\<rparr>)
   }"

definition is_token_valid :: "('w, 'tx, 'n) AppState \<Rightarrow> Uuid \<Rightarrow> int \<Rightarrow> bool" where
  "is_token_valid s u iat = (case min_iat s u of Some lowest \<Rightarrow> lowest \<le> iat | None \<Rightarrow> True)"

section \<open>Device names\<close>

fun digits :: "nat \<Rightarrow> string" where
  "digits n = (if n < 10 then [char_of (48 + n)] else digits (n div 10) @ [char_of (48 + n mod 10)])"

definition show_i32 :: "device_id \<Rightarrow> string" where
  "show_i32 d = (if sint d < 0 then CHR ''-'' # digits (nat (- sint d)) else digits (nat (sint d)))"

definition non_blank :: "string option \<Rightarrow> string option" where
  "non_blank s = (case map_option trim_str s of Some t \<Rightarrow> if t = [] then None else Some t | None \<Rightarrow> None)"

definition fallback_device_name :: "string option \<Rightarrow> device_id \<Rightarrow> string" where
  "fallback_device_name platform d = (case non_blank platform of Some p \<Rightarrow> p | None \<Rightarrow> ''Device '' @ show_i32 d)"

definition DEVICE_NAME_MAX_LEN :: nat where "DEVICE_NAME_MAX_LEN = 40"

definition ascii_lower :: "string \<Rightarrow> string" where
  "ascii_lower = map (\<lambda>c. let n = of_char c :: nat in if 65 \<le> n \<and> n \<le> 90 then char_of (n + 32) else c)"

definition resolve_named_platform :: "string \<Rightarrow> device_id \<Rightarrow> string" where
  "resolve_named_platform platform d =
     (let lower = ascii_lower platform; has = (\<lambda>w. contains w lower) in
      if has ''ios'' \<or> has ''iphone'' then ''iPhone''
      else if has ''ipad'' then ''iPad''
      else if has ''android'' then ''Android''
      else if has ''mac'' \<or> has ''darwin'' then ''MacBook''
      else if has ''windows'' \<or> has ''win'' then ''Windows''
      else if has ''linux'' then ''Linux''
      else if has ''web'' \<or> has ''chrome'' \<or> has ''firefox'' then ''Web Browser''
      else if length (chars platform) \<le> DEVICE_NAME_MAX_LEN then platform
      else ''Device '' @ show_i32 d)"

definition default_device_name :: "string option \<Rightarrow> device_id \<Rightarrow> string" where
  "default_device_name platform d =
     (case non_blank platform of Some p \<Rightarrow> resolve_named_platform p d | None \<Rightarrow> ''Device '' @ show_i32 d)"

definition is_control :: "int \<Rightarrow> bool" where
  "is_control c \<longleftrightarrow> c < 32 \<or> 127 \<le> c \<and> c < 160"

definition validate_device_name :: "string \<Rightarrow> 'n AppError + string" where
  "validate_device_name raw =
     (let trimmed = trim_str raw in
      if trimmed = [] then Inl (bad_request ''device_name must not be empty'')
      else if DEVICE_NAME_MAX_LEN < length (chars trimmed) then Inl (bad_request ''device_name too long (max 40 chars)'')
      else if list_ex is_control (chars trimmed) then Inl (bad_request ''device_name must not contain control characters'')
      else Inr trimmed)"

section \<open>Upload\<close>

record OneTimePreKeyUpload =
  ou_key_id :: i32
  ou_public_key :: string

record UploadBundleRequest =
  ub_identity_key :: string
  ub_signed_prekey :: string
  ub_signed_prekey_signature :: string
  ub_signed_prekey_id :: i32
  ub_one_time_prekeys :: "OneTimePreKeyUpload list"
  ub_device_id :: device_id
  ub_signing_key :: string
  ub_platform :: "string option"

text \<open>\<open>?\<close> on a database error converts it with \<open>From<sqlx::Error>\<close>; no unique constraint is involved here.\<close>

definition db_try :: "('s, sqlx_error + 'a) state \<Rightarrow> ('s, 'n AppError + 'a) state" where
  "db_try m = do { r \<leftarrow> m; State_Monad.return (case r of Inl e \<Rightarrow> Inl (from_sqlx None e) | Inr x \<Rightarrow> Inr x) }"

definition from_result :: "'e + 'a \<Rightarrow> ('s, 'e + 'a) state" where
  "from_result r = State_Monad.return r"

definition decode_field :: "('w, 'tx, 'n) srv_env \<Rightarrow> string \<Rightarrow> string \<Rightarrow> 'n AppError + bytes" where
  "decode_field E name s = (case sv_base64_decode E s of
     Some b \<Rightarrow> Inr b | None \<Rightarrow> Inl (bad_request (''Invalid base64 for '' @ name)))"

definition decode_key32 :: "('w, 'tx, 'n) srv_env \<Rightarrow> string \<Rightarrow> string \<Rightarrow> 'n AppError + bytes" where
  "decode_key32 E name s = (case decode_field E name s of
     Inl e \<Rightarrow> Inl e
   | Inr b \<Rightarrow> if length b = 32 then Inr b else Inl (bad_request (name @ '' must be exactly 32 bytes (X25519)'')))"

definition identity_fingerprint :: "('w, 'tx, 'n) srv_env \<Rightarrow> bytes \<Rightarrow> bytes \<Rightarrow> bytes" where
  "identity_fingerprint E identity_key signing_key = sv_sha256 E (identity_key @ signing_key)"

definition verify_signed_prekey_signature :: "('w, 'tx, 'n) srv_env \<Rightarrow> bytes \<Rightarrow> bytes \<Rightarrow> bytes \<Rightarrow> 'n AppError + unit" where
  "verify_signed_prekey_signature E sk spk sg =
     (if length sk \<noteq> 32 then Inl (bad_request ''signing_key must be exactly 32 bytes'')
      else case vk_from_bytes (sv_prims E) sk of
        Inl _ \<Rightarrow> Inl (bad_request ''Invalid Ed25519 signing key'')
      | Inr vk \<Rightarrow>
          if length sg \<noteq> 64 then Inl (bad_request ''signed_prekey_signature must be exactly 64 bytes'')
          else case ed_verify (sv_prims E) vk spk sg of
            Inl _ \<Rightarrow> Inl (bad_request ''Signed prekey signature verification failed'')
          | Inr _ \<Rightarrow> Inr ())"

fun decode_otps :: "('w, 'tx, 'n) srv_env \<Rightarrow> OneTimePreKeyUpload list \<Rightarrow> 'n AppError + (i32 \<times> bytes) list" where
  "decode_otps E [] = Inr []"
| "decode_otps E (k # ks) =
     (case decode_key32 E ''one_time_prekey'' (ou_public_key k) of
        Inl e \<Rightarrow> Inl e
      | Inr pk \<Rightarrow> (case decode_otps E ks of Inl e \<Rightarrow> Inl e | Inr rest \<Rightarrow> Inr ((ou_key_id k, pk) # rest)))"

definition hub_send_to_user :: "('w, 'tx, 'n) srv_env \<Rightarrow> Uuid \<Rightarrow> WsMessage \<Rightarrow> ('w, 'tx, 'n, bool) act" where
  "hub_send_to_user E u msg = on_hub (send_to_user (sv_ws E) u msg)"

definition broadcast_peer_keys_published ::
  "('w, 'tx, 'n) srv_env \<Rightarrow> Uuid \<Rightarrow> device_id \<Rightarrow> ('w, 'tx, 'n, unit) act" where
  "broadcast_peer_keys_published E u d =
     (case sv_to_json E (PeerKeysPublished u [d]) of
        None \<Rightarrow> State_Monad.return ()
      | Some json \<Rightarrow> do {
          hub \<leftarrow> gets st_hub;
          for_each (\<lambda>uid. do { hub_send_to_user E uid (ws_text json); State_Monad.return () }) (get_online_user_ids hub)
        })"

definition identity_conflict :: "('w, 'tx, 'n) srv_env \<Rightarrow> device_id \<Rightarrow> bytes \<Rightarrow> bytes \<Rightarrow> 'n AppError" where
  "identity_conflict E d existing new = conflict_with_body (JObject [(''code'', JString ''identity_key_conflict''),
     (''device_id'', js_int E (sint d)), (''expected_fingerprint'', JString (sv_base64_encode E existing)),
     (''actual_fingerprint'', JString (sv_base64_encode E new))])"

definition store_bundle ::
  "('w, 'tx, 'n) srv_env \<Rightarrow> Uuid \<Rightarrow> UploadBundleRequest \<Rightarrow> bool \<Rightarrow> bytes \<Rightarrow> bytes \<Rightarrow> bytes \<Rightarrow> bytes \<Rightarrow> (i32 \<times> bytes) list
     \<Rightarrow> ('w, 'tx, 'n, 'n AppError + unit tx_end) txact" where
  "store_bundle E auth body bind_fp ik spk sg sk otps = do {
     now \<leftarrow> tx_draw (sv_utc_now E);
     (let d = ub_device_id body in
      bind_ok (db_try (store_identity_key E auth d ik (Some sk) (ub_platform body)
        (Some (default_device_name (ub_platform body) d)))) (\<lambda>_.
      bind_ok (if bind_fp then db_try (set_device_fingerprint E auth d (identity_fingerprint E ik sk)) else ok ()) (\<lambda>_.
      bind_ok (db_try (store_signed_prekey E now auth d (ub_signed_prekey_id body) spk sg)) (\<lambda>_.
      bind_ok (if otps \<noteq> [] then db_try (store_one_time_prekeys E auth d otps) else ok ()) (\<lambda>_.
      ok (Commit ()))))))
   }"

definition upload_bundle :: "('w, 'tx, 'n) srv_env \<Rightarrow> Uuid \<Rightarrow> UploadBundleRequest \<Rightarrow> ('w, 'tx, 'n) handler" where
  "upload_bundle E auth body =
     (let d = ub_device_id body in
      bind_ok (from_result (decode_key32 E ''identity_key'' (ub_identity_key body))) (\<lambda>ik.
      bind_ok (from_result (decode_key32 E ''signed_prekey'' (ub_signed_prekey body))) (\<lambda>spk.
      bind_ok (from_result (decode_field E ''signed_prekey_signature'' (ub_signed_prekey_signature body))) (\<lambda>sg.
      bind_ok (require_or (bad_request ''platform too long (max 32 chars)'')
        (case ub_platform body of Some pl \<Rightarrow> length pl \<le> 32 | None \<Rightarrow> True)) (\<lambda>_.
      bind_ok (from_result (decode_field E ''signing_key'' (ub_signing_key body))) (\<lambda>sk.
      bind_ok (from_result (verify_signed_prekey_signature E sk spk sg)) (\<lambda>_.
      bind_ok (db_try (get_device_fingerprint E auth d)) (\<lambda>device_fp.
      bind_ok (case device_fp of Some fp \<Rightarrow> ok (Some fp) | None \<Rightarrow> db_try (get_identity_key_fingerprint E auth)) (\<lambda>stored_fingerprint.
      bind_ok (case stored_fingerprint of
          Some existing \<Rightarrow> require_or (identity_conflict E d existing (identity_fingerprint E ik sk))
            (existing = identity_fingerprint E ik sk)
        | None \<Rightarrow> ok ()) (\<lambda>_.
      bind_ok (from_result (decode_otps E (ub_one_time_prekeys body))) (\<lambda>otps.
      bind_ok (db_try (count_identity_keys E auth)) (\<lambda>prior_identity_count.
      bind_ok (in_transaction E db_error (store_bundle E auth body (stored_fingerprint = None) ik spk sg sk otps)) (\<lambda>_. do {
        (if prior_identity_count = 0 then broadcast_peer_keys_published E auth d else State_Monad.return ());
        ok (201, None)
      })))))))))))))"

section \<open>Bundles\<close>

definition require_signing_key :: "('w, 'tx, 'n) srv_env \<Rightarrow> PreKeyBundleRow \<Rightarrow> 'n AppError + string" where
  "require_signing_key E b = (case pb_signing_key b of
     Some sk \<Rightarrow> Inr (sv_base64_encode E sk)
   | None \<Rightarrow> Inl (bad_request ''No signing key in bundle; owner must re-upload keys''))"

definition bundle_fields :: "('w, 'tx, 'n) srv_env \<Rightarrow> PreKeyBundleRow \<Rightarrow> string \<Rightarrow> (string \<times> 'n json) list" where
  "bundle_fields E b signing_key =
     [(''identity_key'', JString (sv_base64_encode E (pb_identity_key b))), (''signing_key'', JString signing_key),
      (''signed_prekey'', JString (sv_base64_encode E (pb_signed_prekey b))),
      (''signed_prekey_signature'', JString (sv_base64_encode E (pb_signed_prekey_signature b))),
      (''signed_prekey_id'', js_int E (pb_signed_prekey_id b)),
      (''one_time_prekey'', js_opt (\<lambda>(kid, pk). JObject [(''key_id'', js_int E kid), (''public_key'', JString (sv_base64_encode E pk))])
         (pb_one_time_prekey b))]"

definition respond_bundle :: "('w, 'tx, 'n) srv_env \<Rightarrow> PreKeyBundleRow \<Rightarrow> ('w, 'tx, 'n) handler" where
  "respond_bundle E b = bind_ok (from_result (require_signing_key E b)) (\<lambda>signing_key.
     ok (200, Some (JObject (bundle_fields E b signing_key))))"

definition get_bundle :: "('w, 'tx, 'n) srv_env \<Rightarrow> Uuid \<Rightarrow> ('w, 'tx, 'n) handler" where
  "get_bundle E u =
     (let missing = not_found ''No PreKey bundle found for this user'' in
      bind_ok (db_try (get_prekey_bundle E u 0)) (\<lambda>first.
      bind_ok (case first of
          Some b \<Rightarrow> ok b
        | None \<Rightarrow> bind_ok (db_try (get_first_active_device_id E u)) (\<lambda>dev.
            case dev of
              Some dev_id \<Rightarrow> bind_ok (db_try (get_prekey_bundle E u dev_id)) (\<lambda>b. ok_or missing b)
            | None \<Rightarrow> fail missing)) (\<lambda>bundle.
      respond_bundle E bundle)))"

definition get_device_bundle :: "('w, 'tx, 'n) srv_env \<Rightarrow> Uuid \<Rightarrow> device_id \<Rightarrow> ('w, 'tx, 'n) handler" where
  "get_device_bundle E u d =
     bind_ok (db_try (get_prekey_bundle E u d)) (\<lambda>found.
     bind_ok (ok_or (not_found ''No PreKey bundle found for this user/device combination'') found) (\<lambda>bundle.
     respond_bundle E bundle))"

definition get_all_bundles :: "('w, 'tx, 'n) srv_env \<Rightarrow> Uuid \<Rightarrow> ('w, 'tx, 'n) handler" where
  "get_all_bundles E u =
     bind_ok (db_try (get_all_prekey_bundles E u)) (\<lambda>raw.
     ok (200, Some (JObject [(''bundles'', JArray (List.map_filter (\<lambda>(d, b).
       case require_signing_key E b of
         Inr sk \<Rightarrow> Some (JObject ((''device_id'', js_int E (sint d)) # bundle_fields E b sk))
       | Inl _ \<Rightarrow> None) raw))])))"

section \<open>Devices\<close>

definition device_info :: "('w, 'tx, 'n) srv_env \<Rightarrow> IdentityKeyRow \<Rightarrow> 'n json" where
  "device_info E k = JObject ([(''device_id'', js_int E (sint (ir_device_id k)))]
     @ (case ir_platform k of Some pl \<Rightarrow> [(''platform'', JString pl)] | None \<Rightarrow> [])
     @ (case ir_last_seen k of Some t \<Rightarrow> [(''last_seen'', js_time E t)] | None \<Rightarrow> [])
     @ [(''device_name'', JString (case ir_device_name k of Some n \<Rightarrow> n
          | None \<Rightarrow> fallback_device_name (ir_platform k) (ir_device_id k)))])"

definition get_devices :: "('w, 'tx, 'n) srv_env \<Rightarrow> Uuid \<Rightarrow> ('w, 'tx, 'n) handler" where
  "get_devices E u = bind_ok (db_try (get_user_devices E u)) (\<lambda>rows.
     ok (200, Some (JObject [(''user_id'', js_uuid E u), (''devices'', JArray (map (device_info E) rows))])))"

definition send_event :: "('w, 'tx, 'n) srv_env \<Rightarrow> Uuid \<Rightarrow> string option \<Rightarrow> ('w, 'tx, 'n, unit) act" where
  "send_event E u event = (case event of
     Some json \<Rightarrow> do { hub_send_to_user E u (ws_text json); State_Monad.return () }
   | None \<Rightarrow> State_Monad.return ())"

definition revoke_device :: "('w, 'tx, 'n) srv_env \<Rightarrow> Uuid \<Rightarrow> device_id \<Rightarrow> ('w, 'tx, 'n) handler" where
  "revoke_device E auth d =
     bind_ok (db_ctx (db_revoke_device E auth d)) (\<lambda>found.
     bind_ok (require_or (not_found ''Device not found'') found) (\<lambda>_. do {
       invalidate E auth;
       send_event E auth (sv_to_json E (DeviceRevoked d));
       ok (204, None)
     }))"

definition rename_device :: "('w, 'tx, 'n) srv_env \<Rightarrow> Uuid \<Rightarrow> device_id \<Rightarrow> string \<Rightarrow> ('w, 'tx, 'n) handler" where
  "rename_device E auth d name =
     bind_ok (from_result (validate_device_name name)) (\<lambda>new_name.
     bind_ok (db_ctx (db_rename_device E auth d new_name)) (\<lambda>updated.
     bind_ok (require_or (not_found ''Device not found'') updated) (\<lambda>_.
     ok (200, Some (JObject [(''device_id'', js_int E (sint d)), (''device_name'', JString new_name)])))))"

definition revoke_other_devices :: "('w, 'tx, 'n) srv_env \<Rightarrow> Uuid \<Rightarrow> device_id \<Rightarrow> ('w, 'tx, 'n) handler" where
  "revoke_other_devices E auth current_device =
     bind_ok (db_try (get_user_devices E auth)) (\<lambda>devices.
     bind_ok (require_or (bad_request ''current_device_id not found among your registered devices'')
       (list_ex (\<lambda>k. ir_device_id k = current_device) devices)) (\<lambda>_.
     bind_ok (db_ctx (revoke_devices_except E auth current_device)) (\<lambda>revoked_ids. do {
       (if revoked_ids \<noteq> [] then invalidate E auth else State_Monad.return ());
       for_each (\<lambda>d. send_event E auth (sv_to_json E (DeviceRevoked d))) revoked_ids;
       ok (200, Some (JObject [(''revoked'', js_int E (int (length revoked_ids)))]))
     })))"

text \<open>The check of the password that both resets start with.\<close>

definition check_password :: "('w, 'tx, 'n) srv_env \<Rightarrow> Uuid \<Rightarrow> string \<Rightarrow> 'n AppError \<Rightarrow> ('w, 'tx, 'n, 'n AppError + unit) act" where
  "check_password E auth pw missing =
     bind_ok (require_or missing (pw \<noteq> [])) (\<lambda>_.
     bind_ok (db_ctx (find_by_id E auth)) (\<lambda>found.
     bind_ok (ok_or (not_found ''User not found'') found) (\<lambda>u.
     bind_ok (ok_or (internal ''Authentication error'') (sv_verify_password E pw (us_password_hash u))) (\<lambda>valid.
     require_or (unauthorized ''Invalid password'') valid))))"

definition reset_keys :: "('w, 'tx, 'n) srv_env \<Rightarrow> Uuid \<Rightarrow> string \<Rightarrow> ('w, 'tx, 'n) handler" where
  "reset_keys E auth pw =
     bind_ok (check_password E auth pw (bad_request ''Password is required for key reset'')) (\<lambda>_.
     bind_ok (db_try (clear_identity_key_fingerprint E auth)) (\<lambda>_. do {
       send_event E auth (sv_value_to_json E (JObject [(''type'', JString ''identity_reset''), (''user_id'', js_uuid E auth)]));
       ok (204, None)
     }))"

definition reset_device_tx ::
  "('w, 'tx, 'n) srv_env \<Rightarrow> Uuid \<Rightarrow> device_id \<Rightarrow> ('w, 'tx, 'n, 'n AppError + unit tx_end) txact" where
  "reset_device_tx E auth d =
     bind_ok (db_ctx (clear_device_fingerprint E auth d)) (\<lambda>_.
     bind_ok (db_ctx (revoke_device_in_tx E auth d)) (\<lambda>_. ok (Commit ())))"

definition reset_device :: "('w, 'tx, 'n) srv_env \<Rightarrow> Uuid \<Rightarrow> string \<Rightarrow> device_id \<Rightarrow> ('w, 'tx, 'n) handler" where
  "reset_device E auth pw d =
     bind_ok (check_password E auth pw (bad_request ''Password is required for device key reset'')) (\<lambda>_.
     bind_ok (in_transaction E db_error (reset_device_tx E auth d)) (\<lambda>_. do {
       invalidate E auth;
       send_event E auth (sv_value_to_json E (JObject [(''type'', JString ''identity_reset''), (''user_id'', js_uuid E auth),
         (''device_id'', js_int E (sint d))]));
       ok (204, None)
     }))"

definition get_otp_count :: "('w, 'tx, 'n) srv_env \<Rightarrow> Uuid \<Rightarrow> device_id \<Rightarrow> ('w, 'tx, 'n) handler" where
  "get_otp_count E auth d = bind_ok (db_try (count_one_time_prekeys E auth d)) (\<lambda>n.
     ok (200, Some (JObject [(''count'', js_int E (int n))])))"

end
