(* ===== verification/Srv_Auth.thy ===== *)
theory Srv_Auth
  imports Srv_Keys Srv_Validate
begin

text \<open>
  \<open>auth/jwt.rs\<close>, \<open>auth/middleware.rs\<close>, \<open>auth/password.rs\<close>, \<open>routes/auth.rs\<close>, \<open>routes/ws.rs\<close>,
  \<open>db/tokens.rs\<close>, \<open>db/password_reset.rs\<close> and \<open>change_password\<close> of \<open>routes/users.rs\<close>: registration,
  login, rotation of refresh tokens, logout, password resets and WebSocket tickets. Signing and
  checking of access tokens, hashing and the random generators are the environment's.
\<close>

section \<open>Tokens (\<open>auth/jwt.rs\<close>, \<open>auth/middleware.rs\<close>)\<close>

record Claims =
  cl_sub :: string
  cl_exp :: int
  cl_iat :: int
  cl_iss :: string
  cl_aud :: string

definition secs :: "int \<Rightarrow> int" where "secs n = n * int nanos_per_sec"

definition token_claims :: "('w, 'tx, 'n) srv_env \<Rightarrow> Uuid \<Rightarrow> datetime \<Rightarrow> Claims" where
  "token_claims E u now = \<lparr>cl_sub = sv_uuid_to_string E u, cl_exp = timestamp (now + secs (15 * 60)), cl_iat = timestamp now,
     cl_iss = ''echo-messenger'', cl_aud = ''echo-app''\<rparr>"

definition jwt_error :: "'n AppError" where "jwt_error = unauthorized ''Invalid or expired token''"

definition create_token :: "('w, 'tx, 'n) srv_env \<Rightarrow> Uuid \<Rightarrow> ('w, 'tx, 'n, 'n AppError + string) act" where
  "create_token E u = do {
     now \<leftarrow> draw (sv_utc_now E);
     (let c = token_claims E u now in ok_or jwt_error (sv_jwt_encode E (cl_sub c, cl_exp c, cl_iat c, cl_iss c, cl_aud c)))
   }"

text \<open>\<open>decode\<close> checks the signature, the expiry against the clock, the issuer and the audience.\<close>

definition validate_token :: "('w, 'tx, 'n) srv_env \<Rightarrow> string \<Rightarrow> ('w, 'tx, 'n, 'n AppError + Claims) act" where
  "validate_token E token = do {
     now \<leftarrow> draw (sv_utc_now E);
     (case sv_jwt_decode E now token of
        Some (sub, ex, ia, iss, aud) \<Rightarrow> ok \<lparr>cl_sub = sub, cl_exp = ex, cl_iat = ia, cl_iss = iss, cl_aud = aud\<rparr>
      | None \<Rightarrow> fail jwt_error)
   }"

definition hex_char :: "nat \<Rightarrow> char" where
  "hex_char n = char_of (if n < 10 then 48 + n else 87 + n)"

definition hex :: "bytes \<Rightarrow> string" where
  "hex bs = concat (map (\<lambda>b. [hex_char (unat b div 16), hex_char (unat b mod 16)]) bs)"

definition hash_refresh_token :: "('w, 'tx, 'n) srv_env \<Rightarrow> string \<Rightarrow> string" where
  "hash_refresh_token E token = hex (sv_sha256 E (string_bytes token))"

text \<open>The extractor \<open>AuthUser\<close>; \<open>header\<close> is the \<open>Authorization\<close> header where it is present and readable.\<close>

definition auth_user :: "('w, 'tx, 'n) srv_env \<Rightarrow> string option \<Rightarrow> ('w, 'tx, 'n, 'n AppError + Uuid) act" where
  "auth_user E header =
     bind_ok (ok_or (unauthorized ''Missing Authorization header'') header) (\<lambda>auth_header.
     bind_ok (ok_or (unauthorized ''Invalid Authorization header format'') (strip_prefix ''Bearer '' auth_header)) (\<lambda>token.
     bind_ok (validate_token E token) (\<lambda>claims.
     bind_ok (ok_or (unauthorized ''Invalid user ID in token'') (sv_uuid_parse E (cl_sub claims))) (\<lambda>user_id. do {
       valid \<leftarrow> gets (\<lambda>s. is_token_valid s user_id (cl_iat claims));
       bind_ok (require_or (with_code TokenRevoked ''Access token has been revoked'') valid) (\<lambda>_. ok user_id)
     }))))"

section \<open>Passwords (\<open>auth/password.rs\<close>)\<close>

definition hash_error :: "'n AppError" where "hash_error = internal ''Authentication error''"

definition hash_password :: "('w, 'tx, 'n) srv_env \<Rightarrow> string \<Rightarrow> ('w, 'tx, 'n, 'n AppError + string) act" where
  "hash_password E pw = do { h \<leftarrow> draw (\<lambda>w. sv_hash_password E w pw); ok_or hash_error h }"

definition verify_password :: "('w, 'tx, 'n) srv_env \<Rightarrow> string \<Rightarrow> string \<Rightarrow> ('w, 'tx, 'n, 'n AppError + bool) act" where
  "verify_password E pw h = ok_or hash_error (sv_verify_password E pw h)"

section \<open>Statements\<close>

definition insert_refresh_token ::
  "Uuid \<Rightarrow> Uuid \<Rightarrow> string \<Rightarrow> datetime \<Rightarrow> datetime \<Rightarrow> Uuid \<Rightarrow> 'n Pool \<Rightarrow> 'n Pool \<times> (sqlx_error + unit)" where
  "insert_refresh_token i u h expires now family p =
     (if list_ex (\<lambda>r. rt_id r = i) (tb_refresh_tokens p) then (p, Inl UniqueViolation)
      else if \<not> has_user p u then (p, Inl OtherDbError)
      else (p\<lparr>tb_refresh_tokens := tb_refresh_tokens p @ [\<lparr>rt_id = i, rt_user_id = u, rt_token_hash = h, rt_expires_at = expires,
              rt_created_at = now, rt_revoked = False, rt_family_id = Some family\<rparr>]\<rparr>, Inr ()))"

definition revoke_where :: "(RefreshTokenRow \<Rightarrow> bool) \<Rightarrow> 'n Pool \<Rightarrow> 'n Pool" where
  "revoke_where P p = p\<lparr>tb_refresh_tokens := map (\<lambda>r. if P r \<and> \<not> rt_revoked r then r\<lparr>rt_revoked := True\<rparr> else r) (tb_refresh_tokens p)\<rparr>"

definition refresh_row :: "string \<Rightarrow> 'n Pool \<Rightarrow> RefreshTokenRow option" where
  "refresh_row h p = find (\<lambda>r. rt_token_hash r = h) (tb_refresh_tokens p)"

definition store_refresh_token ::
  "('w, 'tx, 'n) srv_env \<Rightarrow> Uuid \<Rightarrow> string \<Rightarrow> datetime \<Rightarrow> ('w, 'tx, 'n, sqlx_error + Uuid) act" where
  "store_refresh_token E u h expires = do {
     family \<leftarrow> draw (sv_gen_random_uuid E);
     i \<leftarrow> draw (sv_gen_random_uuid E);
     now \<leftarrow> draw (sv_utc_now E);
     bind_ok (query E (insert_refresh_token i u h expires now family)) (\<lambda>_. ok family)
   }"

definition find_refresh_token :: "('w, 'tx, 'n) srv_env \<Rightarrow> string \<Rightarrow> ('w, 'tx, 'n, sqlx_error + RefreshTokenRow option) act" where
  "find_refresh_token E h = select E (refresh_row h)"

definition revoke_token_family :: "('w, 'tx, 'n) srv_env \<Rightarrow> Uuid \<Rightarrow> ('w, 'tx, 'n, sqlx_error + unit) act" where
  "revoke_token_family E f = execute E (revoke_where (\<lambda>r. rt_family_id r = Some f))"

definition revoke_all_user_tokens :: "('w, 'tx, 'n) srv_env \<Rightarrow> Uuid \<Rightarrow> ('w, 'tx, 'n, sqlx_error + unit) act" where
  "revoke_all_user_tokens E u = execute E (revoke_where (\<lambda>r. rt_user_id r = u))"

definition revoke_all_user_tokens_in_tx :: "('w, 'tx, 'n) srv_env \<Rightarrow> Uuid \<Rightarrow> ('w, 'tx, 'n, sqlx_error + unit) txact" where
  "revoke_all_user_tokens_in_tx E u = tx_query E (\<lambda>p. (revoke_where (\<lambda>r. rt_user_id r = u) p, Inr ()))"

definition find_by_username :: "('w, 'tx, 'n) srv_env \<Rightarrow> string \<Rightarrow> ('w, 'tx, 'n, sqlx_error + UserRow option) act" where
  "find_by_username E name = select E (\<lambda>p. find (\<lambda>u. us_username u = name) (tb_users p))"

text \<open>The first account is made an administrator, if the configuration names nobody or names it.\<close>

definition insert_user :: "Uuid \<Rightarrow> string \<Rightarrow> string \<Rightarrow> bool \<Rightarrow> 'n Pool \<Rightarrow> 'n Pool \<times> (sqlx_error + Uuid \<times> bool)" where
  "insert_user i name h bootstrap p =
     (if list_ex (\<lambda>u. us_username u = name \<or> us_id u = i) (tb_users p) then (p, Inl UniqueViolation)
      else let admin = (bootstrap \<and> tb_users p = []) in
        (p\<lparr>tb_users := tb_users p @ [\<lparr>us_id = i, us_username = name, us_read_receipts_enabled = True, us_presence_status = ''online'',
             us_display_name = None, us_avatar_url = None, us_status_text = None, us_password_hash = h, us_is_admin = admin, us_identity_key_fingerprint = None\<rparr>]\<rparr>,
         Inr (i, admin)))"

definition create_user ::
  "('w, 'tx, 'n) srv_env \<Rightarrow> string \<Rightarrow> string \<Rightarrow> ('w, 'tx, 'n, sqlx_error + Uuid \<times> bool) act" where
  "create_user E name h = do {
     i \<leftarrow> draw (sv_gen_random_uuid E);
     query E (insert_user i name h (case sv_bootstrap_admin E of None \<Rightarrow> True | Some expected \<Rightarrow> expected = name))
   }"

definition set_password :: "Uuid \<Rightarrow> string \<Rightarrow> 'n Pool \<Rightarrow> 'n Pool" where
  "set_password u h = update_user u (\<lambda>r. r\<lparr>us_password_hash := h\<rparr>)"

definition insert_reset_token :: "string \<Rightarrow> Uuid \<Rightarrow> datetime \<Rightarrow> 'n Pool \<Rightarrow> 'n Pool \<times> (sqlx_error + unit)" where
  "insert_reset_token token u expires p =
     (if hm_get (tb_reset_tokens p) token \<noteq> None then (p, Inl UniqueViolation)
      else if \<not> has_user p u then (p, Inl OtherDbError)
      else (p\<lparr>tb_reset_tokens := hm_insert token \<lparr>pr_user_id = u, pr_expires_at = expires, pr_used_at = None\<rparr> (tb_reset_tokens p)\<rparr>, Inr ()))"

definition find_token :: "('w, 'tx, 'n) srv_env \<Rightarrow> string \<Rightarrow> ('w, 'tx, 'n, sqlx_error + ResetTokenRow option) act" where
  "find_token E token = select E (\<lambda>p. hm_get (tb_reset_tokens p) token)"

definition consume :: "string \<Rightarrow> datetime \<Rightarrow> 'n Pool \<Rightarrow> 'n Pool" where
  "consume token now p = (case hm_get (tb_reset_tokens p) token of
     Some r \<Rightarrow> p\<lparr>tb_reset_tokens := hm_insert token (r\<lparr>pr_used_at := Some now\<rparr>) (tb_reset_tokens p)\<rparr>
   | None \<Rightarrow> p)"

section \<open>Cookies and origins (\<open>routes/auth.rs\<close>)\<close>

datatype SameSite = SameSiteStrict | SameSiteLax | SameSiteNone

record Cookie =
  ck_name :: string
  ck_value :: string
  ck_http_only :: bool
  ck_secure :: bool
  ck_same_site :: SameSite
  ck_path :: string
  ck_max_age :: int

definition REFRESH_COOKIE_NAME :: string where "REFRESH_COOKIE_NAME = ''echo_refresh''"
definition REFRESH_COOKIE_MAX_AGE_SECS :: int where "REFRESH_COOKIE_MAX_AGE_SECS = 7 * 24 * 60 * 60"

definition build_refresh_cookie :: "string \<Rightarrow> Cookie" where
  "build_refresh_cookie v = \<lparr>ck_name = REFRESH_COOKIE_NAME, ck_value = v, ck_http_only = True, ck_secure = True,
     ck_same_site = SameSiteNone, ck_path = ''/api/auth'', ck_max_age = REFRESH_COOKIE_MAX_AGE_SECS\<rparr>"

definition clear_refresh_cookie :: Cookie where
  "clear_refresh_cookie = \<lparr>ck_name = REFRESH_COOKIE_NAME, ck_value = [], ck_http_only = True, ck_secure = True,
     ck_same_site = SameSiteNone, ck_path = ''/api/auth'', ck_max_age = 0\<rparr>"

fun split_on :: "char \<Rightarrow> string \<Rightarrow> string list" where
  "split_on c [] = [[]]"
| "split_on c (x # s) = (if x = c then [] # split_on c s else (case split_on c s of [] \<Rightarrow> [[x]] | w # ws \<Rightarrow> (x # w) # ws))"

definition trim_end_slashes :: "string \<Rightarrow> string" where
  "trim_end_slashes s = rev (dropWhile (\<lambda>c. c = CHR ''/'') (rev s))"

definition allowed_origins :: "('w, 'tx, 'n) srv_env \<Rightarrow> string list" where
  "allowed_origins E =
     (let raw = (case sv_cors_origins E of Some r \<Rightarrow> r
        | None \<Rightarrow> ''https://echo-messenger.us,https://web.echo-messenger.us,http://localhost:8081'')
      in if trim_str raw = ''*'' then []
         else filter (\<lambda>s. s \<noteq> []) (map (\<lambda>s. trim_end_slashes (trim_str s)) (split_on (CHR '','') raw)))"

text \<open>The \<open>Origin\<close> header: absent, not readable as text, or a text.\<close>

datatype OriginHeader = NoOrigin | UnreadableOrigin | Origin string

definition validate_origin_for_credentialed :: "('w, 'tx, 'n) srv_env \<Rightarrow> OriginHeader \<Rightarrow> 'n AppError + unit" where
  "validate_origin_for_credentialed E header =
     (case header of
        NoOrigin \<Rightarrow> Inr ()
      | UnreadableOrigin \<Rightarrow> Inl (forbidden ''Invalid Origin header'')
      | Origin origin \<Rightarrow>
          (let normalised = trim_end_slashes origin; allow = allowed_origins E
           in if allow = [] \<or> normalised \<in> set allow then Inr ()
              else Inl (forbidden ''Origin not in credentialed allow-list'')))"

section \<open>Registration and login\<close>

definition validate_username :: "string \<Rightarrow> 'n AppError + unit" where
  "validate_username name =
     (if length name < 3 \<or> 32 < length name then Inl (bad_request ''Username must be between 3 and 32 characters'')
      else if \<not> list_all (\<lambda>c. (48 \<le> c \<and> c \<le> 57) \<or> (65 \<le> c \<and> c \<le> 90) \<or> (97 \<le> c \<and> c \<le> 122) \<or> c = 95) (chars name)
      then Inl (bad_request ''Username must contain only alphanumeric characters and underscores'')
      else Inr ())"

definition validate_password :: "string \<Rightarrow> 'n AppError + unit" where
  "validate_password pw =
     (if length pw < 8 then Inl (bad_request ''Password must be at least 8 characters'')
      else if 128 < length pw then Inl (bad_request ''Password must be at most 128 characters'')
      else Inr ())"

record AuthRequest =
  aq_username :: string
  aq_password :: string

type_synonym ('w, 'tx, 'n) auth_handler = "('w, 'tx, 'n, 'n AppError + 'n Response \<times> Cookie option) act"

definition issue_refresh_token :: "('w, 'tx, 'n) srv_env \<Rightarrow> Uuid \<Rightarrow> ('w, 'tx, 'n, 'n AppError + string \<times> Uuid) act" where
  "issue_refresh_token E u = do {
     raw \<leftarrow> draw (sv_random_token E);
     now \<leftarrow> draw (sv_utc_now E);
     bind_ok (db_try (store_refresh_token E u (hash_refresh_token E raw) (now + secs (7 * 86400)))) (\<lambda>family. ok (raw, family))
   }"

definition auth_response :: "('w, 'tx, 'n) srv_env \<Rightarrow> Uuid \<Rightarrow> string \<Rightarrow> string \<Rightarrow> string option \<Rightarrow> bool \<Rightarrow> 'n json" where
  "auth_response E u access refresh avatar admin = JObject [(''user_id'', js_uuid E u), (''access_token'', JString access),
     (''refresh_token'', JString refresh), (''avatar_url'', js_opt JString avatar), (''is_admin'', JBool admin)]"

text \<open>
  The unique constraint that an insert into \<open>users\<close> violates is \<open>users_username_key\<close>; the message for
  a generated identifier that exists already would be a different one.
\<close>

definition db_try_user :: "('s, sqlx_error + 'a) state \<Rightarrow> ('s, 'n AppError + 'a) state" where
  "db_try_user m = do { r \<leftarrow> m; State_Monad.return (case r of Inl e \<Rightarrow> Inl (from_sqlx (Some ''users_username_key'') e) | Inr x \<Rightarrow> Inr x) }"

definition register_account :: "('w, 'tx, 'n) srv_env \<Rightarrow> AuthRequest \<Rightarrow> ('w, 'tx, 'n) auth_handler" where
  "register_account E body =
     bind_ok (require_or (with_code RegistrationDisabled ''Registration is closed on this server'') (sv_registration_open E)) (\<lambda>_.
     bind_ok (from_result (validate_username (aq_username body))) (\<lambda>_.
     bind_ok (from_result (validate_password (aq_password body))) (\<lambda>_.
     bind_ok (hash_password E (aq_password body)) (\<lambda>password_hash.
     bind_ok (db_try_user (create_user E (aq_username body) password_hash)) (\<lambda>(i, admin).
     bind_ok (create_token E i) (\<lambda>access_token.
     bind_ok (issue_refresh_token E i) (\<lambda>(refresh_token, _).
     ok ((201, Some (auth_response E i access_token refresh_token None admin)), Some (build_refresh_cookie refresh_token)))))))))"

definition DUMMY_HASH :: string where
  "DUMMY_HASH = ''$argon2id$v=19$m=19456,t=2,p=1$bm9uZXhpc3RlbnQ$AAAAAAAAAAAAAAAAAAAAAAAAAAAAAAAAAAAAAAAAAAA''"

definition login :: "('w, 'tx, 'n) srv_env \<Rightarrow> AuthRequest \<Rightarrow> ('w, 'tx, 'n) auth_handler" where
  "login E body =
     bind_ok (db_try (find_by_username E (aq_username body))) (\<lambda>maybe_user.
     bind_ok (verify_password E (aq_password body) (case maybe_user of Some u \<Rightarrow> us_password_hash u | None \<Rightarrow> DUMMY_HASH)) (\<lambda>valid.
     case (maybe_user, valid) of
       (Some u, True) \<Rightarrow>
         bind_ok (create_token E (us_id u)) (\<lambda>access_token.
         bind_ok (issue_refresh_token E (us_id u)) (\<lambda>(refresh_token, _).
         ok ((200, Some (auth_response E (us_id u) access_token refresh_token (us_avatar_url u) (us_is_admin u))),
           Some (build_refresh_cookie refresh_token))))
     | _ \<Rightarrow> do {
         modify (\<lambda>s. s\<lparr>st_failed_logins := st_failed_logins s + 1\<rparr>);
         fail (with_code InvalidCredentials ''Invalid username or password'')
       }))"

section \<open>Rotation\<close>

text \<open>
  The transaction of \<open>refresh\<close>. It commits the revocation of a family before it answers with an
  error, and rolls back when the token has expired.
\<close>

definition refresh_tx ::
  "('w, 'tx, 'n) srv_env \<Rightarrow> string \<Rightarrow> ('w, 'tx, 'n, 'n AppError + ('n AppError + Uuid \<times> string) tx_end) txact" where
  "refresh_tx E h =
     (let revoked = with_code TokenRevoked ''Refresh token has been revoked'';
          revoke_family = (\<lambda>row. case rt_family_id row of
            Some f \<Rightarrow> db_ctx (tx_query E (\<lambda>p. (revoke_where (\<lambda>r. rt_family_id r = Some f) p, Inr ())))
          | None \<Rightarrow> ok ());
          rotate = (\<lambda>row family. do {
            raw \<leftarrow> tx_draw (sv_random_token E);
            issued \<leftarrow> tx_draw (sv_utc_now E);
            i \<leftarrow> tx_draw (sv_gen_random_uuid E);
            bind_ok (db_ctx (tx_query E (insert_refresh_token i (rt_user_id row) (hash_refresh_token E raw)
              (issued + secs (7 * 86400)) issued family))) (\<lambda>_.
            ok (Commit (Inr (rt_user_id row, raw))))
          })
      in
      bind_ok (db_ctx (tx_select E (refresh_row h))) (\<lambda>found.
      bind_ok (ok_or (unauthorized ''Invalid refresh token'') found) (\<lambda>row.
      if rt_revoked row then bind_ok (revoke_family row) (\<lambda>_. ok (Commit (Inl revoked)))
      else do {
        now \<leftarrow> tx_draw (sv_utc_now E);
        (if rt_expires_at row < now then ok (Rollback (Inl (with_code TokenExpired ''Refresh token has expired'')))
         else
           bind_ok (db_ctx (tx_query E (\<lambda>p. (revoke_where (\<lambda>r. rt_id r = rt_id row) p,
             Inr (list_ex (\<lambda>r. rt_id r = rt_id row \<and> \<not> rt_revoked r) (tb_refresh_tokens p)))))) (\<lambda>flipped.
           if \<not> flipped then bind_ok (revoke_family row) (\<lambda>_. ok (Commit (Inl revoked)))
           else (case rt_family_id row of
             Some family \<Rightarrow> rotate row family
           | None \<Rightarrow> do { family \<leftarrow> tx_draw (sv_gen_random_uuid E); rotate row family })))
      })))"

text \<open>The cookie takes precedence over the body; empty tokens count as absent.\<close>

definition presented :: "string option \<Rightarrow> string option \<Rightarrow> string option" where
  "presented cookie body =
     (let non_empty = (\<lambda>t. case t of Some s \<Rightarrow> if s = [] then None else Some s | None \<Rightarrow> None)
      in case non_empty cookie of Some t \<Rightarrow> Some t | None \<Rightarrow> non_empty body)"

definition refresh ::
  "('w, 'tx, 'n) srv_env \<Rightarrow> OriginHeader \<Rightarrow> string option \<Rightarrow> string option \<Rightarrow> ('w, 'tx, 'n) auth_handler" where
  "refresh E origin cookie body =
     bind_ok (from_result (validate_origin_for_credentialed E origin)) (\<lambda>_.
     bind_ok (ok_or (unauthorized ''Missing refresh token'') (presented cookie body)) (\<lambda>raw_token.
     bind_ok (in_transaction E db_error (refresh_tx E (hash_refresh_token E raw_token))) (\<lambda>outcome.
     bind_ok (from_result outcome) (\<lambda>(user_id, new_raw_token).
     bind_ok (create_token E user_id) (\<lambda>access_token.
     bind_ok (db_ctx (query E (\<lambda>p. (p, case user p user_id of Some u \<Rightarrow> Inr (us_is_admin u) | None \<Rightarrow> Inl RowNotFound)))) (\<lambda>is_admin.
     ok ((200, Some (JObject [(''access_token'', JString access_token), (''refresh_token'', JString new_raw_token),
         (''is_admin'', JBool is_admin)])), Some (build_refresh_cookie new_raw_token))))))))"

definition logout :: "('w, 'tx, 'n) srv_env \<Rightarrow> OriginHeader \<Rightarrow> Uuid \<Rightarrow> ('w, 'tx, 'n) auth_handler" where
  "logout E origin auth =
     bind_ok (from_result (validate_origin_for_credentialed E origin)) (\<lambda>_.
     bind_ok (db_try (revoke_all_user_tokens E auth)) (\<lambda>_. do {
       invalidate E auth;
       ok ((204, None), Some clear_refresh_cookie)
     }))"

section \<open>Password resets\<close>

definition forgot_password :: "('w, 'tx, 'n) srv_env \<Rightarrow> string \<Rightarrow> ('w, 'tx, 'n) handler" where
  "forgot_password E name = do {
     found \<leftarrow> find_by_username E name;
     (case found of
        Inr (Some u) \<Rightarrow> do {
          token \<leftarrow> draw (sv_random_token E);
          now \<leftarrow> draw (sv_utc_now E);
          query E (insert_reset_token token (us_id u) (now + secs (15 * 60)));
          State_Monad.return ()
        }
      | _ \<Rightarrow> State_Monad.return ());
     ok (200, Some (JObject [(''ok'', JBool True)]))
   }"

definition reset_password_tx :: "('w, 'tx, 'n) srv_env \<Rightarrow> string \<Rightarrow> Uuid \<Rightarrow> string \<Rightarrow> ('w, 'tx, 'n, 'n AppError + unit tx_end) txact" where
  "reset_password_tx E token u new_hash = do {
     now \<leftarrow> tx_draw (sv_utc_now E);
     bind_ok (db_ctx (tx_query E (\<lambda>p. (set_password u new_hash p, Inr ())))) (\<lambda>_.
     bind_ok (db_ctx (tx_query E (\<lambda>p. (consume token now p, Inr ())))) (\<lambda>_.
     bind_ok (db_ctx (revoke_all_user_tokens_in_tx E u)) (\<lambda>_. ok (Commit ()))))
   }"

definition reset_password :: "('w, 'tx, 'n) srv_env \<Rightarrow> string \<Rightarrow> string \<Rightarrow> ('w, 'tx, 'n) handler" where
  "reset_password E token new_password =
     bind_ok (from_result (validate_password new_password)) (\<lambda>_.
     bind_ok (db_ctx (find_token E token)) (\<lambda>found.
     bind_ok (ok_or (bad_request ''Invalid or expired reset token'') found) (\<lambda>row.
     bind_ok (require_or (bad_request ''Reset token has already been used'') (pr_used_at row = None)) (\<lambda>_. do {
       now \<leftarrow> draw (sv_utc_now E);
       bind_ok (require_or (bad_request ''Reset token has expired'') (\<not> pr_expires_at row < now)) (\<lambda>_.
       bind_ok (hash_password E new_password) (\<lambda>new_hash.
       bind_ok (in_transaction E db_error (reset_password_tx E token (pr_user_id row) new_hash)) (\<lambda>_. do {
         invalidate E (pr_user_id row);
         ok (200, None)
       })))
     }))))"

definition update_password :: "('w, 'tx, 'n) srv_env \<Rightarrow> Uuid \<Rightarrow> string \<Rightarrow> ('w, 'tx, 'n, sqlx_error + unit) act" where
  "update_password E u h = execute E (set_password u h)"

definition change_password :: "('w, 'tx, 'n) srv_env \<Rightarrow> Uuid \<Rightarrow> string \<Rightarrow> string \<Rightarrow> ('w, 'tx, 'n) handler" where
  "change_password E auth current_password new_password =
     bind_ok (require_or (bad_request ''New password must be 8-128 characters'')
       (8 \<le> length new_password \<and> length new_password \<le> 128)) (\<lambda>_.
     bind_ok (db_ctx (find_by_id E auth)) (\<lambda>found.
     bind_ok (ok_or (not_found ''User not found'') found) (\<lambda>u.
     bind_ok (verify_password E current_password (us_password_hash u)) (\<lambda>valid.
     bind_ok (require_or (unauthorized ''Current password is incorrect'') valid) (\<lambda>_.
     bind_ok (hash_password E new_password) (\<lambda>new_hash.
     bind_ok (db_ctx (update_password E auth new_hash)) (\<lambda>_.
     bind_ok (db_ctx (revoke_all_user_tokens E auth)) (\<lambda>_. do {
       invalidate E auth;
       ok (status_body ''password_changed'')
     }))))))))"

section \<open>WebSocket tickets (\<open>routes/auth.rs\<close>, \<open>routes/ws.rs\<close>)\<close>

definition TICKET_TTL :: nat where "TICKET_TTL = 30 * nanos_per_sec"
definition MAX_TICKETS :: nat where "MAX_TICKETS = 10000"

definition ticket_fresh :: "instant \<Rightarrow> Uuid \<times> device_id \<times> instant \<Rightarrow> bool" where
  "ticket_fresh now t \<longleftrightarrow> duration_since now (snd (snd t)) < TICKET_TTL"

definition retain_tickets :: "instant \<Rightarrow> ('w, 'tx, 'n) AppState \<Rightarrow> ('w, 'tx, 'n) AppState" where
  "retain_tickets now s = s\<lparr>st_ticket_store := hm_retain (\<lambda>_. ticket_fresh now) (st_ticket_store s)\<rparr>"

definition ws_ticket :: "('w, 'tx, 'n) srv_env \<Rightarrow> Uuid \<Rightarrow> device_id option \<Rightarrow> ('w, 'tx, 'n, 'n AppError + string) act" where
  "ws_ticket E auth body = do {
     ticket \<leftarrow> draw (sv_random_token E);
     now \<leftarrow> draw (we_instant_now (sv_ws E));
     modify (retain_tickets now);
     n \<leftarrow> gets (\<lambda>s. length (st_ticket_store s));
     bind_ok (require_or (bad_request ''Too many pending tickets, try again later'') (n < MAX_TICKETS)) (\<lambda>_. do {
       modify (\<lambda>s. s\<lparr>st_ticket_store := hm_insert ticket (auth, case body of Some d \<Rightarrow> d | None \<Rightarrow> 0, now) (st_ticket_store s)\<rparr>);
       ok ticket
     })
   }"

text \<open>\<open>ws_upgrade\<close> up to the socket that it hands over: who is on it, with which device and name.\<close>

definition ws_upgrade :: "('w, 'tx, 'n) srv_env \<Rightarrow> string \<Rightarrow> ('w, 'tx, 'n, 'n AppError + Uuid \<times> device_id \<times> string) act" where
  "ws_upgrade E ticket = do {
     now \<leftarrow> draw (we_instant_now (sv_ws E));
     entry \<leftarrow> gets (\<lambda>s. case hm_get (st_ticket_store s) ticket of
       Some t \<Rightarrow> if ticket_fresh now t then Some t else None | None \<Rightarrow> None);
     (case entry of
        None \<Rightarrow> do {
          modify (retain_tickets now);
          fail (unauthorized ''Invalid or expired WebSocket ticket'')
        }
      | Some (user_id, device_id, _) \<Rightarrow> do {
          modify (\<lambda>s. s\<lparr>st_ticket_store := hm_remove ticket (st_ticket_store s)\<rparr>);
          bind_ok (db_ctx (find_by_id E user_id)) (\<lambda>found.
          bind_ok (ok_or (unauthorized ''User not found'') found) (\<lambda>u.
          ok (user_id, device_id, us_username u)))
        })
   }"

section \<open>Periodic clean-up (\<open>main.rs\<close>)\<close>

definition cleanup_expired_tokens :: "('w, 'tx, 'n) srv_env \<Rightarrow> ('w, 'tx, 'n, unit) act" where
  "cleanup_expired_tokens E = do {
     now \<leftarrow> draw (sv_utc_now E);
     execute E (\<lambda>p. p\<lparr>tb_refresh_tokens := filter (\<lambda>r. \<not> (rt_expires_at r < now - secs (7 * 86400) \<or>
       rt_revoked r \<and> rt_created_at r < now - secs 86400)) (tb_refresh_tokens p)\<rparr>);
     State_Monad.return ()
   }"

definition cleanup_expired_password_reset_tokens :: "('w, 'tx, 'n) srv_env \<Rightarrow> ('w, 'tx, 'n, unit) act" where
  "cleanup_expired_password_reset_tokens E = do {
     now \<leftarrow> draw (sv_utc_now E);
     execute E (\<lambda>p. p\<lparr>tb_reset_tokens := hm_retain (\<lambda>_ r. \<not> (pr_expires_at r < now - secs 86400 \<or> pr_used_at r \<noteq> None)) (tb_reset_tokens p)\<rparr>);
     State_Monad.return ()
   }"

definition cleanup_used_prekeys :: "('w, 'tx, 'n) srv_env \<Rightarrow> ('w, 'tx, 'n, unit) act" where
  "cleanup_used_prekeys E = do {
     execute E (\<lambda>p. p\<lparr>tb_one_time_prekeys := filter (\<lambda>r. \<not> op_used r) (tb_one_time_prekeys p)\<rparr>);
     State_Monad.return ()
   }"

end
