(* ===== verification/Srv_KeyProps.thy ===== *)
theory Srv_KeyProps
  imports Srv_Keys Srv_Server
begin

text \<open>
  What the key endpoints keep: one active signed prekey per device that verifies under the signing
  key of the device, and fingerprints that bind the identity; who can change an identity; that a
  one-time prekey is handed out once.
\<close>

section \<open>The tables, device by device\<close>

definition idents :: "Uuid \<Rightarrow> device_id \<Rightarrow> 'n Pool \<Rightarrow> IdentityKeyRow list" where
  "idents u d p = filter (at_device u d) (tb_identity_keys p)"

definition signeds :: "Uuid \<Rightarrow> device_id \<Rightarrow> 'n Pool \<Rightarrow> SignedPrekeyRow list" where
  "signeds u d p = filter (of_device u d) (tb_signed_prekeys p)"

definition active_signed :: "SignedPrekeyRow \<Rightarrow> bool" where
  "active_signed r \<longleftrightarrow> sp_grace_expires_at r = None"

definition verified :: "('w, 'tx, 'n) srv_env \<Rightarrow> bytes \<Rightarrow> bytes \<Rightarrow> bytes \<Rightarrow> bool" where
  "verified E sk spk sg \<longleftrightarrow> verify_signed_prekey_signature E sk spk sg = Inr ()"

definition row_bound :: "('w, 'tx, 'n) srv_env \<Rightarrow> IdentityKeyRow \<Rightarrow> bool" where
  "row_bound E k \<longleftrightarrow> (\<forall>fp. ir_fingerprint k = Some fp \<longrightarrow>
     (\<exists>sk. ir_signing_key k = Some sk \<and> fp = identity_fingerprint E (ir_identity_key k) sk))"

text \<open>
  A device has at most one identity row; its signed prekeys have distinct numbers; at most one is
  active, and one is while the device is not revoked; the active one verifies under the signing key
  of the device.
\<close>

definition device_ok :: "('w, 'tx, 'n) srv_env \<Rightarrow> IdentityKeyRow list \<Rightarrow> SignedPrekeyRow list \<Rightarrow> bool" where
  "device_ok E ks rs \<longleftrightarrow> length ks \<le> 1 \<and> distinct (map sp_key_id rs) \<and> length (filter active_signed rs) \<le> 1 \<and>
     (\<forall>k\<in>set ks. row_bound E k \<and> (\<not> ir_revoked k \<longrightarrow> (\<exists>r\<in>set rs. active_signed r)) \<and>
        (\<forall>r\<in>set rs. active_signed r \<longrightarrow> (\<exists>sk. ir_signing_key k = Some sk \<and> verified E sk (sp_public_key r) (sp_signature r))))"

definition otp_key :: "OneTimePrekeyRow \<Rightarrow> Uuid \<times> device_id \<times> i32" where
  "otp_key r = (op_user_id r, op_device_id r, op_key_id r)"

definition keys_ok :: "('w, 'tx, 'n) srv_env \<Rightarrow> 'n Pool \<Rightarrow> bool" where
  "keys_ok E p \<longleftrightarrow> (\<forall>u d. device_ok E (idents u d p) (signeds u d p)) \<and>
     distinct (map op_id (tb_one_time_prekeys p)) \<and> distinct (map otp_key (tb_one_time_prekeys p))"

section \<open>Relations\<close>

lemma rel_db_try [rel_rules]:
  assumes "rel m R"
  shows "rel (db_try m) (\<lambda>p y q. (\<exists>e. R p (Inl e) q \<and> y = Inl (from_sqlx None e)) \<or> (\<exists>x. R p (Inr x) q \<and> y = Inr x))"
proof -
  have "rel (db_try m) (\<lambda>p y q. \<exists>r. R p r q \<and> y = (case r of Inl e \<Rightarrow> Inl (from_sqlx None e) | Inr x \<Rightarrow> Inr x))"
    unfolding db_try_def by (rule rel_mono, rule rel_bind [OF assms rel_return]) auto
  then show ?thesis
  proof (rule rel_mono, elim exE conjE)
    fix p y q r
    assume "R p r q" "y = (case r of Inl e \<Rightarrow> Inl (from_sqlx None e) | Inr x \<Rightarrow> Inr x)"
    then show "(\<exists>e. R p (Inl e) q \<and> y = Inl (from_sqlx None e)) \<or> (\<exists>x. R p (Inr x) q \<and> y = Inr x)"
      by (cases r) auto
  qed
qed

lemma tx_sat_db_try [tx_rules]:
  assumes "tx_sat m R"
  shows "tx_sat (db_try m) R"
proof (rule tx_satI)
  fix v s r v' s'
  assume run: "run_state (db_try m) (v, s) = (r, v', s')"
  obtain r0 where m: "run_state m (v, s) = (r0, v', s')" and r: "\<And>x. r = Inr x \<Longrightarrow> r0 = Inr x"
    using run by (auto simp: db_try_def split: prod.splits sum.splits)
  show "(\<exists>w. s' = s\<lparr>st_world := w\<rparr>) \<and> (\<forall>x q. r = Inr x \<and> v' = Some q \<longrightarrow> (\<exists>p. v = Some p \<and> R p x q))"
    using tx_satD [OF assms m] r by blast
qed

lemma tx_strict_db_try [tx_strict_rules]: "tx_strict m \<Longrightarrow> tx_strict (db_try m)"
  unfolding tx_strict_def db_try_def by (auto split: prod.splits sum.splits)

lemma rel_from_result [rel_rules]: "rel (from_result r) (\<lambda>p y q. r = y \<and> q = p)"
  unfolding from_result_def by (rule rel_mono [OF rel_return]) auto

lemma rel_same:
  assumes "\<And>P. keeps (on_pool P) m"
  shows "rel m (\<lambda>p r q. q = p)"
  using rel_keeps [of "\<lambda>p q. q = p" m] assms by simp

lemma keeps_events [keeps_intros]:
  "keeps (on_pool P) (hub_send_to_user E u x)" "keeps (on_pool P) (send_event E u ev)"
  "keeps (on_pool P) (broadcast_peer_keys_published E u d)" "keeps (on_pool P) (invalidate E u)"
  unfolding send_event_def broadcast_peer_keys_published_def hub_send_to_user_def invalidate_def
  by (intro keeps_intros keeps_modify; simp)+

lemma rel_events [rel_rules]:
  "rel (send_event E u ev) (\<lambda>p r q. q = p)" "rel (broadcast_peer_keys_published E u d) (\<lambda>p r q. q = p)"
  "rel (invalidate E u) (\<lambda>p r q. q = p)" "rel (for_each (\<lambda>x. send_event E (f x) (g x)) xs) (\<lambda>p r q. q = p)"
  by (rule rel_same; intro keeps_intros)+

section \<open>Fetching a bundle\<close>

text \<open>Fetching uses up one-time prekeys and changes nothing else.\<close>

inductive uses_otps :: "'n Pool \<Rightarrow> 'n Pool \<Rightarrow> bool" where
  none: "uses_otps p p"
| one: "uses_otps p q \<Longrightarrow> uses_otps p (fst (use_otp u d q))"

lemma use_otp_pool:
  "\<exists>os. fst (use_otp u d p) = p\<lparr>tb_one_time_prekeys := os\<rparr> \<and> map op_id os = map op_id (tb_one_time_prekeys p) \<and>
     map otp_key os = map otp_key (tb_one_time_prekeys p)"
proof (cases "next_otp u d p")
  case None
  then show ?thesis by (intro exI [of _ "tb_one_time_prekeys p"]) (simp add: use_otp_def)
next
  case (Some r)
  then show ?thesis by (auto simp: use_otp_def otp_key_def)
qed

lemma uses_otps_pool:
  assumes "uses_otps p q"
  shows "\<exists>os. q = p\<lparr>tb_one_time_prekeys := os\<rparr> \<and> map op_id os = map op_id (tb_one_time_prekeys p) \<and>
     map otp_key os = map otp_key (tb_one_time_prekeys p)"
  using assms
proof induction
  case (none p)
  then show ?case by (intro exI [of _ "tb_one_time_prekeys p"]) simp
next
  case (one p q u d)
  then show ?case using use_otp_pool [of u d q] by fastforce
qed

lemma uses_otps_ok: "uses_otps p q \<Longrightarrow> keys_ok E p \<Longrightarrow> keys_ok E q"
  using uses_otps_pool [of p q] by (auto simp: keys_ok_def idents_def signeds_def)

lemma keeps_uses: "keeps (on_pool (uses_otps p0)) (query E (\<lambda>p. (fst (use_otp u d p), x p)))"
  by (rule keeps_query) (simp add: uses_otps.one)

lemma keeps_fetch:
  "keeps (on_pool (uses_otps p0)) (get_prekey_bundle E u d)" "keeps (on_pool (uses_otps p0)) (get_all_prekey_bundles E u)"
proof -
  have each: "keeps (on_pool (uses_otps p0)) (consume_each E u cs)" for cs
    by (induction cs) (auto intro!: keeps_intros keeps_uses simp: ok_def bind_ok_def)
  show "keeps (on_pool (uses_otps p0)) (get_prekey_bundle E u d)" "keeps (on_pool (uses_otps p0)) (get_all_prekey_bundles E u)"
    unfolding get_prekey_bundle_def get_all_prekey_bundles_def bind_ok_def ok_def
    by (intro keeps_intros keeps_uses each)+
qed

section \<open>Served bundles\<close>

definition sound_bundle :: "('w, 'tx, 'n) srv_env \<Rightarrow> PreKeyBundleRow \<Rightarrow> bool" where
  "sound_bundle E b \<longleftrightarrow> (\<exists>sk. pb_signing_key b = Some sk \<and> verified E sk (pb_signed_prekey b) (pb_signed_prekey_signature b))"

lemma sort_key_pick:
  "sort_key f xs = y # ys \<Longrightarrow> y \<in> set xs" "sort_key f xs = [] \<longleftrightarrow> xs = []"
  by (metis list.set_intros(1) set_sort) (metis set_empty2 set_sort)

lemma newest_pick: "newest rs = Some r \<Longrightarrow> r \<in> set rs" "newest rs = None \<longleftrightarrow> rs = []"
  unfolding newest_def by (auto simp: sort_key_pick split: list.splits)

lemma current_signed_active:
  assumes "r \<in> set (signeds u d p)" "active_signed r"
  obtains r' where "current_signed u d now p = Some r'" "r' \<in> set (signeds u d p)" "active_signed r'"
proof -
  let ?rs = "filter (\<lambda>r. sp_grace_expires_at r = None) (filter (of_device u d) (tb_signed_prekeys p))"
  have "r \<in> set ?rs" using assms by (simp add: signeds_def active_signed_def)
  then have "?rs \<noteq> []" by (metis empty_iff empty_set)
  then obtain r' where r': "newest ?rs = Some r'" by (metis newest_pick(2) not_None_eq)
  then have "r' \<in> set ?rs" by (rule newest_pick)
  then show ?thesis using that [of r'] r' by (simp add: current_signed_def signeds_def active_signed_def Let_def)
qed

lemma served_sound:
  assumes ok: "keys_ok E p" and k: "k \<in> set (idents u d p)" "\<not> ir_revoked k" and spk: "current_signed u d now p = Some spk"
  shows "sound_bundle E (bundle_row (ir_identity_key k, ir_signing_key k) spk otp)"
proof -
  have dev: "device_ok E (idents u d p) (signeds u d p)" using ok by (simp add: keys_ok_def)
  then obtain r where "r \<in> set (signeds u d p)" "active_signed r" using k by (auto simp: device_ok_def)
  then obtain r' where "current_signed u d now p = Some r'" "r' \<in> set (signeds u d p)" "active_signed r'"
    by (rule current_signed_active)
  then show ?thesis using dev k(1) spk by (auto simp: device_ok_def sound_bundle_def bundle_row_def)
qed

lemma find_identity: "find (\<lambda>k. at_device u d k \<and> \<not> ir_revoked k) (tb_identity_keys p) = Some k \<Longrightarrow>
    k \<in> set (idents u d p) \<and> \<not> ir_revoked k"
  by (auto simp: find_Some_iff idents_def)

lemma rel_get_prekey_bundle:
  "rel (get_prekey_bundle E u d) (\<lambda>p r q. keys_ok E p \<longrightarrow> (\<forall>b. r = Inr (Some b) \<longrightarrow> sound_bundle E b))"
  unfolding get_prekey_bundle_def
  by (rule rel_mono, (rule rel_rules)+) (auto dest!: find_identity intro!: served_sound)

definition built_from ::
  "(device_id \<times> (bytes \<times> bytes option) \<times> SignedPrekeyRow) list \<Rightarrow> device_id \<times> PreKeyBundleRow \<Rightarrow> bool" where
  "built_from cs x \<longleftrightarrow> (\<exists>ident spk otp. (fst x, ident, spk) \<in> set cs \<and> snd x = bundle_row ident spk otp)"

lemma built_from_head: "built_from ((d, ident, spk) # cs) (d, bundle_row ident spk otp)"
  unfolding built_from_def by (metis fst_conv snd_conv list.set_intros(1))

lemma built_from_tail: "\<forall>x\<in>set bs. built_from cs x \<Longrightarrow> x \<in> set bs \<Longrightarrow> built_from (c # cs) x"
  unfolding built_from_def by (meson list.set_intros(2))

lemma rel_consume_each: "rel (consume_each E u cs) (\<lambda>p r q. \<forall>bs. r = Inr bs \<longrightarrow> (\<forall>x\<in>set bs. built_from cs x))"
proof (induction cs)
  case Nil
  show ?case unfolding consume_each.simps by (rule rel_mono [OF rel_ok]) auto
next
  case (Cons c cs)
  obtain d ident spk where c: "c = (d, ident, spk)" by (metis prod_cases3)
  show ?case
    unfolding c consume_each.simps
    by (rule rel_mono, rule rel_bind_ok [OF rel_query rel_bind_ok [OF Cons.IH rel_ok]])
      (auto simp: built_from_head, metis built_from_tail)
qed

lemma rel_get_all_prekey_bundles:
  "rel (get_all_prekey_bundles E u) (\<lambda>p r q. keys_ok E p \<longrightarrow> (\<forall>bs. r = Inr bs \<longrightarrow> (\<forall>x\<in>set bs. sound_bundle E (snd x))))"
proof -
  have sound: "sound_bundle E (snd x)"
    if ok: "keys_ok E p" and x: "built_from (List.map_filter (\<lambda>(d, ident). map_option (\<lambda>spk. (d, ident, spk)) (current_signed u d now p))
        (map (\<lambda>k. (ir_device_id k, ir_identity_key k, ir_signing_key k)) (newest_devices u p))) x" for p x now
  proof -
    obtain k spk otp where k: "k \<in> set (newest_devices u p)" "snd x = bundle_row (ir_identity_key k, ir_signing_key k) spk otp"
      "current_signed u (ir_device_id k) now p = Some spk"
      using x by (auto simp: map_filter_def built_from_def)
    have "k \<in> set (idents u (ir_device_id k) p)" "\<not> ir_revoked k"
      using k(1) by (auto simp: newest_devices_def idents_def at_device_def dest!: in_set_takeD)
    then show ?thesis using served_sound [OF ok] k by simp
  qed
  show ?thesis
    unfolding get_all_prekey_bundles_def
    by (rule rel_mono, (rule rel_consume_each rel_rules)+) (auto dest: sound)
qed

section \<open>Statements, device by device\<close>

lemma filter_update_same:
  "(\<And>x. P x \<Longrightarrow> P (f x)) \<Longrightarrow> filter P (map (\<lambda>x. if P x then f x else x) xs) = map f (filter P xs)"
  by (induction xs) auto

lemma filter_update_other:
  "(\<And>x. P x \<Longrightarrow> \<not> Q x \<and> \<not> Q (f x)) \<Longrightarrow> filter Q (map (\<lambda>x. if P x then f x else x) xs) = filter Q xs"
  by (induction xs) auto

lemma at_device_unique: "at_device u d k \<Longrightarrow> at_device u' d' k \<longleftrightarrow> u' = u \<and> d' = d"
  by (auto simp: at_device_def)

lemma of_device_unique: "of_device u d r \<Longrightarrow> of_device u' d' r \<longleftrightarrow> u' = u \<and> d' = d"
  by (auto simp: of_device_def)

lemma idents_update:
  assumes "\<And>k. at_device u d k \<Longrightarrow> at_device u d (f k)"
  shows "idents u' d' (update_device u d f p) = (if u' = u \<and> d' = d then map f (idents u d p) else idents u' d' p)"
proof (cases "u' = u \<and> d' = d")
  case True
  then show ?thesis using assms by (simp add: idents_def update_device_def filter_update_same)
next
  case False
  have "filter (at_device u' d') (map (\<lambda>k. if at_device u d k then f k else k) (tb_identity_keys p)) = filter (at_device u' d') (tb_identity_keys p)"
    by (rule filter_update_other) (use False assms at_device_unique in blast)
  then show ?thesis using False by (auto simp: idents_def update_device_def)
qed

lemma idents_flags:
  "idents u' d' (update_device u d (\<lambda>k. k\<lparr>ir_fingerprint := x\<rparr>) p) =
     (if u' = u \<and> d' = d then map (\<lambda>k. k\<lparr>ir_fingerprint := x\<rparr>) (idents u d p) else idents u' d' p)"
  "idents u' d' (update_device u d (\<lambda>k. k\<lparr>ir_revoked := b\<rparr>) p) =
     (if u' = u \<and> d' = d then map (\<lambda>k. k\<lparr>ir_revoked := b\<rparr>) (idents u d p) else idents u' d' p)"
  by (rule idents_update, simp add: at_device_def)+

lemma signeds_update [simp]: "signeds u d (update_device u' d' f p) = signeds u d p"
  by (simp add: signeds_def update_device_def)

lemma otps_update [simp]: "tb_one_time_prekeys (update_device u d f p) = tb_one_time_prekeys p"
  by (simp add: update_device_def)

lemma find_filter: "find P xs = (case filter P xs of [] \<Rightarrow> None | x # _ \<Rightarrow> Some x)"
  by (induction xs) auto

lemma identity_row_idents: "identity_row u d p = (case idents u d p of [] \<Rightarrow> None | k # _ \<Rightarrow> Some k)"
  unfolding identity_row_def idents_def by (rule find_filter)

text \<open>The identity row of a device after an upload.\<close>

lemma upsert_identity_rows:
  assumes "upsert_identity u d ik sk pl nm p = (q, Inr ())" and "length (idents u d p) \<le> 1"
  obtains k where "idents u d q = [k]" "ir_identity_key k = ik" "ir_signing_key k = sk" "\<not> ir_revoked k"
      "ir_fingerprint k = Option.bind (identity_row u d p) ir_fingerprint"
    and "\<forall>u' d'. (u', d') \<noteq> (u, d) \<longrightarrow> idents u' d' q = idents u' d' p"
    and "tb_signed_prekeys q = tb_signed_prekeys p" "tb_one_time_prekeys q = tb_one_time_prekeys p"
proof (cases "identity_row u d p")
  case None
  let ?k = "\<lparr>ir_user_id = u, ir_device_id = d, ir_identity_key = ik, ir_signing_key = sk, ir_platform = pl, ir_device_name = nm,
    ir_last_seen = None, ir_fingerprint = None, ir_revoked = False\<rparr>"
  have q: "q = p\<lparr>tb_identity_keys := tb_identity_keys p @ [?k]\<rparr>"
    using assms(1) None by (auto simp: upsert_identity_def split: if_splits)
  have "idents u d p = []" using None by (simp add: identity_row_idents split: list.splits)
  then have "idents u d q = [?k]" by (simp add: q idents_def at_device_def)
  moreover have "idents u' d' q = idents u' d' p" if "(u', d') \<noteq> (u, d)" for u' d'
    using that by (auto simp: q idents_def at_device_def)
  ultimately show ?thesis using that [of ?k] None by (simp add: q)
next
  case (Some k0)
  let ?f = "\<lambda>k. k\<lparr>ir_identity_key := ik, ir_signing_key := sk, ir_platform := coalesce pl (ir_platform k),
    ir_device_name := coalesce (ir_device_name k) nm, ir_revoked := False\<rparr>"
  have q: "q = update_device u d ?f p" using assms(1) Some by (simp add: upsert_identity_def)
  have "idents u d p = [k0]"
    using Some assms(2) by (cases "idents u d p") (auto simp: identity_row_idents)
  moreover have id: "idents u' d' q = (if u' = u \<and> d' = d then map ?f (idents u d p) else idents u' d' p)" for u' d'
    unfolding q by (rule idents_update) (simp add: at_device_def)
  ultimately have rows: "idents u d q = [?f k0]" "\<forall>u' d'. (u', d') \<noteq> (u, d) \<longrightarrow> idents u' d' q = idents u' d' p" by auto
  show ?thesis by (rule that [OF rows(1) _ _ _ _ rows(2)]) (simp_all add: Some q update_device_def)
qed

text \<open>The signed prekeys of a device after an upload: the uploaded one is the only active one.\<close>

lemma one_active:
  assumes "distinct (map sp_key_id rs)" "\<forall>r\<in>set rs. \<not> active_signed r" "kid \<in> sp_key_id ` set rs" "\<And>r. active_signed (f r)"
  shows "\<exists>r\<in>set rs. filter active_signed (map (\<lambda>r. if sp_key_id r = kid then f r else r) rs) = [f r]"
  using assms
proof (induction rs)
  case (Cons r rs)
  show ?case
  proof (cases "sp_key_id r = kid")
    case True
    then have "map (\<lambda>r. if sp_key_id r = kid then f r else r) rs = rs" using Cons.prems(1) by (intro map_idI) (auto, metis image_eqI)
    then show ?thesis using True Cons.prems by (auto simp: filter_empty_conv)
  next
    case False
    then show ?thesis using Cons by auto
  qed
qed simp

lemma signeds_start_grace:
  "signeds u' d' (start_grace u d now p) = (if u' = u \<and> d' = d
     then map (\<lambda>r. if active_signed r then r\<lparr>sp_grace_expires_at := Some (now + days14)\<rparr> else r) (signeds u d p) else signeds u' d' p)"
proof -
  let ?f = "\<lambda>r. if active_signed r then r\<lparr>sp_grace_expires_at := Some (now + days14)\<rparr> else r"
  have eq: "tb_signed_prekeys (start_grace u d now p) = map (\<lambda>r. if of_device u d r then ?f r else r) (tb_signed_prekeys p)"
    by (auto simp: start_grace_def active_signed_def)
  have "\<And>r. of_device u d r \<Longrightarrow> of_device u d (?f r)" by (simp add: of_device_def)
  moreover have "\<not> (u' = u \<and> d' = d) \<Longrightarrow> of_device u d r \<Longrightarrow> \<not> of_device u' d' r \<and> \<not> of_device u' d' (?f r)" for r
    by (auto simp: of_device_def)
  ultimately show ?thesis
    unfolding signeds_def eq by (auto simp: filter_update_same filter_update_other)
qed

lemma signeds_upsert:
  assumes "upsert_signed u d kid pk sg now p = (q, Inr ())"
  shows "signeds u' d' q = (if u' = u \<and> d' = d
     then (if kid \<in> sp_key_id ` set (signeds u d p)
       then map (\<lambda>r. if sp_key_id r = kid
          then r\<lparr>sp_public_key := pk, sp_signature := sg, sp_grace_expires_at := None, sp_created_at := now\<rparr> else r) (signeds u d p)
       else signeds u d p @ [\<lparr>sp_user_id = u, sp_device_id = d, sp_key_id = kid, sp_public_key = pk, sp_signature = sg,
          sp_created_at = now, sp_grace_expires_at = None\<rparr>]) else signeds u' d' p)"
proof -
  let ?f = "\<lambda>r. if sp_key_id r = kid
    then r\<lparr>sp_public_key := pk, sp_signature := sg, sp_grace_expires_at := None, sp_created_at := now\<rparr> else r"
  have known: "list_ex (\<lambda>r. of_device u d r \<and> sp_key_id r = kid) (tb_signed_prekeys p) \<longleftrightarrow> kid \<in> sp_key_id ` set (signeds u d p)"
    by (auto simp: list_ex_iff signeds_def)
  show ?thesis
  proof (cases "kid \<in> sp_key_id ` set (signeds u d p)")
    case True
    have eq: "tb_signed_prekeys q = map (\<lambda>r. if of_device u d r then ?f r else r) (tb_signed_prekeys p)"
      using assms True known by (auto simp: upsert_signed_def)
    have "\<And>r. of_device u d r \<Longrightarrow> of_device u d (?f r)" by (simp add: of_device_def)
    moreover have "\<not> (u' = u \<and> d' = d) \<Longrightarrow> of_device u d r \<Longrightarrow> \<not> of_device u' d' r \<and> \<not> of_device u' d' (?f r)" for r
      by (auto simp: of_device_def)
    ultimately show ?thesis
      using True unfolding signeds_def eq by (auto simp: filter_update_same filter_update_other)
  next
    case False
    then show ?thesis using assms known by (auto simp: upsert_signed_def signeds_def of_device_def split: if_splits)
  qed
qed

lemma signeds_purge:
  "signeds u' d' (purge_signed u d now p) = (if u' = u \<and> d' = d
     then filter (\<lambda>r. \<not> (case sp_grace_expires_at r of Some t \<Rightarrow> t < now | None \<Rightarrow> False)) (signeds u d p) else signeds u' d' p)"
  by (auto simp: purge_signed_def signeds_def of_device_def intro!: filter_cong)

lemma signed_tables:
  "upsert_signed u d kid pk sg now p = (q, Inr ()) \<Longrightarrow> tb_identity_keys q = tb_identity_keys p \<and> tb_one_time_prekeys q = tb_one_time_prekeys p"
  "tb_identity_keys (start_grace u d now p) = tb_identity_keys p" "tb_one_time_prekeys (start_grace u d now p) = tb_one_time_prekeys p"
  "tb_identity_keys (purge_signed u d now p) = tb_identity_keys p" "tb_one_time_prekeys (purge_signed u d now p) = tb_one_time_prekeys p"
  by (auto simp: upsert_signed_def start_grace_def purge_signed_def split: if_splits)

lemma signed_rows:
  assumes p: "distinct (map sp_key_id (signeds u d p))" and p1: "p1 = start_grace u d now p"
    and p2: "upsert_signed u d kid pk sg now p1 = (p2, Inr ())" and q: "q = purge_signed u d now p2"
  shows "\<exists>r. filter active_signed (signeds u d q) = [r] \<and> sp_public_key r = pk \<and> sp_signature r = sg"
    and "distinct (map sp_key_id (signeds u d q))"
    and "(u', d') \<noteq> (u, d) \<Longrightarrow> signeds u' d' q = signeds u' d' p"
    and "tb_identity_keys q = tb_identity_keys p" "tb_one_time_prekeys q = tb_one_time_prekeys p"
proof -
  have g: "\<forall>r\<in>set (signeds u d p1). \<not> active_signed r" "map sp_key_id (signeds u d p1) = map sp_key_id (signeds u d p)"
    by (auto simp: p1 signeds_start_grace active_signed_def)
  have d1: "distinct (map sp_key_id (signeds u d p1))" using p g(2) by simp
  have a2: "\<exists>r. filter active_signed (signeds u d p2) = [r] \<and> sp_public_key r = pk \<and> sp_signature r = sg"
  proof (cases "kid \<in> sp_key_id ` set (signeds u d p1)")
    case True
    from one_active [OF d1 g(1) this, of "\<lambda>r. r\<lparr>sp_public_key := pk, sp_signature := sg, sp_grace_expires_at := None, sp_created_at := now\<rparr>"]
    show ?thesis using True signeds_upsert [OF p2, of u d] by (auto simp: active_signed_def)
  next
    case False
    then show ?thesis using g(1) signeds_upsert [OF p2, of u d] by (auto simp: filter_empty_conv active_signed_def)
  qed
  have d2: "distinct (map sp_key_id (signeds u d p2))"
  proof (cases "kid \<in> sp_key_id ` set (signeds u d p1)")
    case True
    have "map sp_key_id (signeds u d p2) = map sp_key_id (signeds u d p1)" using True signeds_upsert [OF p2, of u d] by auto
    then show ?thesis using d1 by simp
  next
    case False
    then show ?thesis using d1 signeds_upsert [OF p2, of u d] by auto
  qed
  have "filter active_signed (signeds u d q) = filter active_signed (signeds u d p2)"
    by (auto simp: q signeds_purge active_signed_def intro!: filter_cong)
  then show "\<exists>r. filter active_signed (signeds u d q) = [r] \<and> sp_public_key r = pk \<and> sp_signature r = sg" using a2 by simp
  show "distinct (map sp_key_id (signeds u d q))" using d2 by (simp add: q signeds_purge distinct_map_filter)
  show "(u', d') \<noteq> (u, d) \<Longrightarrow> signeds u' d' q = signeds u' d' p"
    using signeds_upsert [OF p2, of u' d'] by (auto simp: q p1 signeds_purge signeds_start_grace)
  show "tb_identity_keys q = tb_identity_keys p" "tb_one_time_prekeys q = tb_one_time_prekeys p"
    using signed_tables(1) [OF p2] by (simp_all add: q p1 signed_tables)
qed

lemma upsert_otps_distinct:
  "distinct (map op_id rows) \<Longrightarrow> distinct (map otp_key rows) \<Longrightarrow>
   distinct (map op_id (upsert_otps u d ks rows)) \<and> distinct (map otp_key (upsert_otps u d ks rows))"
proof (induction u d ks rows rule: upsert_otps.induct)
  case (2 u d kid pk ks rows)
  let ?upd = "map (\<lambda>r. if otp_of u d r \<and> op_key_id r = kid then r\<lparr>op_public_key := pk, op_used := False\<rparr> else r) rows"
  let ?n = "Suc (Max (insert 0 (op_id ` set rows)))"
  let ?rows' = "if list_ex (\<lambda>r. otp_of u d r \<and> op_key_id r = kid) rows then ?upd
    else rows @ [\<lparr>op_id = ?n, op_user_id = u, op_device_id = d, op_key_id = kid, op_public_key = pk, op_used = False\<rparr>]"
  have "map op_id ?upd = map op_id rows" "map otp_key ?upd = map otp_key rows" by (auto simp: otp_key_def)
  moreover have "?n \<notin> op_id ` set rows"
  proof
    assume "?n \<in> op_id ` set rows"
    then have "?n \<le> Max (insert 0 (op_id ` set rows))" by (intro Max_ge) auto
    then show False by simp
  qed
  moreover have "\<not> list_ex (\<lambda>r. otp_of u d r \<and> op_key_id r = kid) rows \<Longrightarrow> (u, d, kid) \<notin> otp_key ` set rows"
    by (auto simp: list_ex_iff otp_of_def otp_key_def)
  ultimately have "distinct (map op_id ?rows') \<and> distinct (map otp_key ?rows')"
    using 2(2,3) by (cases "list_ex (\<lambda>r. otp_of u d r \<and> op_key_id r = kid) rows") (simp_all add: otp_key_def [of "\<lparr>op_id = _, op_user_id = _, op_device_id = _, op_key_id = _, op_public_key = _, op_used = _\<rparr>"] del: map_map)
  then show ?case using 2(1) by simp
qed simp

text \<open>What a stored bundle leaves in the tables.\<close>

definition installed :: "('w, 'tx, 'n) srv_env \<Rightarrow> Uuid \<Rightarrow> device_id \<Rightarrow> bool \<Rightarrow> bytes \<Rightarrow> bytes \<Rightarrow> bytes \<Rightarrow> bytes \<Rightarrow> 'n Pool \<Rightarrow> 'n Pool \<Rightarrow> bool" where
  "installed E u d bind_fp ik spk sg sk p q \<longleftrightarrow>
     (\<exists>k r. idents u d q = [k] \<and> ir_identity_key k = ik \<and> ir_signing_key k = Some sk \<and> \<not> ir_revoked k \<and>
        ir_fingerprint k = (if bind_fp then Some (identity_fingerprint E ik sk) else Option.bind (identity_row u d p) ir_fingerprint) \<and>
        filter active_signed (signeds u d q) = [r] \<and> sp_public_key r = spk \<and> sp_signature r = sg) \<and>
     distinct (map sp_key_id (signeds u d q)) \<and>
     (\<forall>u' d'. (u', d') \<noteq> (u, d) \<longrightarrow> idents u' d' q = idents u' d' p \<and> signeds u' d' q = signeds u' d' p) \<and>
     distinct (map op_id (tb_one_time_prekeys q)) \<and> distinct (map otp_key (tb_one_time_prekeys q))"

lemma installed_rows:
  fixes p :: "'n Pool" and E :: "('w, 'tx, 'n) srv_env"
  assumes ok: "keys_ok E p" and p1: "upsert_identity u d ik (Some sk) pl nm p = (p1, Inr ())"
    and p2: "p2 = (if bind_fp then update_device u d (\<lambda>k. k\<lparr>ir_fingerprint := Some (identity_fingerprint E ik sk)\<rparr>) p1 else p1)"
    and p3: "upsert_signed u d kid spk sg now (start_grace u d now p2) = (p3, Inr ())" and p4: "p4 = purge_signed u d now p3"
    and q: "q = p4 \<or> insert_otps u d ks p4 = (q, Inr ())"
  shows "installed E u d bind_fp ik spk sg sk p q"
proof -
  have dev: "length (idents u d p) \<le> 1" "distinct (map sp_key_id (signeds u d p))"
    and otps: "distinct (map op_id (tb_one_time_prekeys p))" "distinct (map otp_key (tb_one_time_prekeys p))"
    using ok by (simp_all add: keys_ok_def device_ok_def)
  obtain k where k: "idents u d p1 = [k]" "ir_identity_key k = ik" "ir_signing_key k = Some sk" "\<not> ir_revoked k"
      "ir_fingerprint k = Option.bind (identity_row u d p) ir_fingerprint"
    and other: "\<forall>u' d'. (u', d') \<noteq> (u, d) \<longrightarrow> idents u' d' p1 = idents u' d' p"
    and same: "tb_signed_prekeys p1 = tb_signed_prekeys p" "tb_one_time_prekeys p1 = tb_one_time_prekeys p"
    using p1 dev(1) by (rule upsert_identity_rows)
  define k2 where "k2 = (if bind_fp then k\<lparr>ir_fingerprint := Some (identity_fingerprint E ik sk)\<rparr> else k)"
  have id2: "idents u' d' p2 = (if u' = u \<and> d' = d then [k2] else idents u' d' p)" for u' d'
    unfolding p2 k2_def using k(1) other by (cases bind_fp) (auto simp: idents_flags)
  have same2: "signeds u' d' p2 = signeds u' d' p" "tb_one_time_prekeys p2 = tb_one_time_prekeys p" for u' d'
    using same by (auto simp: p2 signeds_def update_device_def)
  note signed = signed_rows [OF dev(2) [folded same2(1)] refl p3 p4]
  have id4: "idents u' d' p4 = idents u' d' p2" for u' d' using signed(4) by (simp add: idents_def)
  have tabs: "idents u' d' q = idents u' d' p4" "signeds u' d' q = signeds u' d' p4"
      "distinct (map op_id (tb_one_time_prekeys q)) \<and> distinct (map otp_key (tb_one_time_prekeys q))" for u' d'
    using q otps upsert_otps_distinct [of "tb_one_time_prekeys p4" u d ks] signed(5) same2(2)
    by (auto simp: insert_otps_def idents_def signeds_def split: if_splits)
  obtain r where r: "filter active_signed (signeds u d p4) = [r]" "sp_public_key r = spk" "sp_signature r = sg"
    using signed(1) by blast
  have "idents u d q = [k2]" "ir_identity_key k2 = ik" "ir_signing_key k2 = Some sk" "\<not> ir_revoked k2"
    "ir_fingerprint k2 = (if bind_fp then Some (identity_fingerprint E ik sk) else Option.bind (identity_row u d p) ir_fingerprint)"
    using k tabs(1) [of u d] id4 [of u d] id2 [of u d] by (simp_all add: k2_def)
  moreover have "idents u' d' q = idents u' d' p \<and> signeds u' d' q = signeds u' d' p" if "(u', d') \<noteq> (u, d)" for u' d'
    using that tabs(1,2) id4 id2 signed(3) [OF that] same2(1) by auto
  ultimately show ?thesis
    unfolding installed_def using tabs(2,3) signed(2) r by auto
qed

end
