(* ===== verification/Srv_KeySafety.thy ===== *)
theory Srv_KeySafety
  imports Srv_KeyProps Srv_Membership Srv_Reference
begin

text \<open>
  The key endpoints as a system: the invariant of the key tables, the soundness of the bundles that
  senders get, and the password that a change of identity needs.
\<close>

section \<open>Requests\<close>

datatype key_request =
    UploadBundle UploadBundleRequest
  | GetBundle Uuid
  | GetDeviceBundle Uuid device_id
  | GetAllBundles Uuid
  | GetDevices Uuid
  | RevokeDevice device_id
  | RenameDevice device_id string
  | RevokeOtherDevices device_id
  | ResetKeys string
  | ResetDevice string device_id
  | GetOtpCount device_id

fun key_routes :: "('w, 'tx, 'n) srv_env \<Rightarrow> Uuid \<Rightarrow> key_request \<Rightarrow> ('w, 'tx, 'n) handler" where
  "key_routes E auth (UploadBundle body) = upload_bundle E auth body"
| "key_routes E auth (GetBundle u) = get_bundle E u"
| "key_routes E auth (GetDeviceBundle u d) = get_device_bundle E u d"
| "key_routes E auth (GetAllBundles u) = get_all_bundles E u"
| "key_routes E auth (GetDevices u) = get_devices E u"
| "key_routes E auth (RevokeDevice d) = revoke_device E auth d"
| "key_routes E auth (RenameDevice d name) = rename_device E auth d name"
| "key_routes E auth (RevokeOtherDevices d) = revoke_other_devices E auth d"
| "key_routes E auth (ResetKeys pw) = reset_keys E auth pw"
| "key_routes E auth (ResetDevice pw d) = reset_device E auth pw d"
| "key_routes E auth (GetOtpCount d) = get_otp_count E auth d"

section \<open>What the requests do\<close>

lemma tx_store_bundle:
  "tx_sat (store_bundle E auth body bind_fp ik spk sg sk otps)
     (\<lambda>p x q. keys_ok E p \<longrightarrow> installed E auth (ub_device_id body) bind_fp ik spk sg sk p q)"
  unfolding store_bundle_def Let_def store_identity_key_def set_device_fingerprint_def store_signed_prekey_def
    store_one_time_prekeys_def
  by (rule tx_sat_mono, (rule tx_rules)+)
    (auto intro!: installed_rows [OF _ _ refl _ refl] split: if_splits)

text \<open>The fingerprint that an upload has to match.\<close>

definition stored_fp :: "Uuid \<Rightarrow> device_id \<Rightarrow> 'n Pool \<Rightarrow> bytes option" where
  "stored_fp u d p = (case Option.bind (identity_row u d p) ir_fingerprint of
     Some fp \<Rightarrow> Some fp | None \<Rightarrow> Option.bind (user p u) us_identity_key_fingerprint)"

text \<open>The keys that a request carries, once decoded.\<close>

definition up_ik :: "('w, 'tx, 'n) srv_env \<Rightarrow> UploadBundleRequest \<Rightarrow> bytes" where
  "up_ik E body = projr (decode_key32 E ''identity_key'' (ub_identity_key body))"

definition up_spk :: "('w, 'tx, 'n) srv_env \<Rightarrow> UploadBundleRequest \<Rightarrow> bytes" where
  "up_spk E body = projr (decode_key32 E ''signed_prekey'' (ub_signed_prekey body))"

definition up_sig :: "('w, 'tx, 'n) srv_env \<Rightarrow> UploadBundleRequest \<Rightarrow> bytes" where
  "up_sig E body = projr (decode_field E ''signed_prekey_signature'' (ub_signed_prekey_signature body))"

definition up_sk :: "('w, 'tx, 'n) srv_env \<Rightarrow> UploadBundleRequest \<Rightarrow> bytes" where
  "up_sk E body = projr (decode_field E ''signing_key'' (ub_signing_key body))"

lemmas up_defs = up_ik_def up_spk_def up_sig_def up_sk_def

definition may_upload :: "('w, 'tx, 'n) srv_env \<Rightarrow> Uuid \<Rightarrow> UploadBundleRequest \<Rightarrow> 'n Pool \<Rightarrow> bool" where
  "may_upload E u body p \<longleftrightarrow> verified E (up_sk E body) (up_spk E body) (up_sig E body) \<and>
     (\<forall>fp. stored_fp u (ub_device_id body) p = Some fp \<longrightarrow> fp = identity_fingerprint E (up_ik E body) (up_sk E body))"

lemma rel_upload:
  "rel (upload_bundle E auth body) (\<lambda>p r q. if may_upload E auth body p
     then q = p \<or> (keys_ok E p \<longrightarrow> installed E auth (ub_device_id body) (stored_fp auth (ub_device_id body) p = None)
       (up_ik E body) (up_spk E body) (up_sig E body) (up_sk E body) p q)
     else q = p \<and> (\<exists>e. r = Inl e))"
  unfolding upload_bundle_def Let_def get_device_fingerprint_def get_identity_key_fingerprint_def count_identity_keys_def
  by (rule rel_mono, (rule rel_in_transaction tx_store_bundle rel_rules)+)
    (auto simp: may_upload_def stored_fp_def verified_def tx_effect_def up_defs)

section \<open>The invariant\<close>

lemma keys_okI:
  assumes "keys_ok E p" "\<And>u d. idents u d q = idents u d p \<and> signeds u d q = signeds u d p \<or> device_ok E (idents u d q) (signeds u d q)"
    "distinct (map op_id (tb_one_time_prekeys q))" "distinct (map otp_key (tb_one_time_prekeys q))"
  shows "keys_ok E q"
  using assms unfolding keys_ok_def by metis

lemma installed_ok:
  assumes p: "keys_ok E p" and up: "may_upload E u body p"
    and q: "installed E u (ub_device_id body) (stored_fp u (ub_device_id body) p = None)
       (up_ik E body) (up_spk E body) (up_sig E body) (up_sk E body) p q"
  shows "keys_ok E q"
proof -
  let ?d = "ub_device_id body"
  obtain k r where k: "idents u ?d q = [k]" "ir_identity_key k = up_ik E body" "ir_signing_key k = Some (up_sk E body)"
      "ir_fingerprint k = (if stored_fp u ?d p = None then Some (identity_fingerprint E (up_ik E body) (up_sk E body))
         else Option.bind (identity_row u ?d p) ir_fingerprint)"
    and r: "filter active_signed (signeds u ?d q) = [r]" "sp_public_key r = up_spk E body" "sp_signature r = up_sig E body"
    and ids: "distinct (map sp_key_id (signeds u ?d q))"
    using q unfolding installed_def by blast
  have "row_bound E k"
    unfolding row_bound_def
  proof (intro allI impI)
    fix fp assume fp: "ir_fingerprint k = Some fp"
    have "fp = identity_fingerprint E (up_ik E body) (up_sk E body)"
      using fp k(4) up by (auto simp: may_upload_def stored_fp_def split: if_splits)
    then show "\<exists>sk. ir_signing_key k = Some sk \<and> fp = identity_fingerprint E (ir_identity_key k) sk" using k by simp
  qed
  moreover have "x = r" if "x \<in> set (signeds u ?d q)" "active_signed x" for x
  proof -
    have "x \<in> set (filter active_signed (signeds u ?d q))" using that by simp
    then show ?thesis using r(1) by simp
  qed
  moreover have "r \<in> set (signeds u ?d q) \<and> active_signed r"
  proof -
    have "r \<in> set (filter active_signed (signeds u ?d q))" using r(1) by simp
    then show ?thesis by simp
  qed
  moreover have "verified E (up_sk E body) (sp_public_key r) (sp_signature r)" using r up by (simp add: may_upload_def)
  ultimately have "device_ok E [k] (signeds u ?d q)"
    unfolding device_ok_def using k(3) r(1) ids by (metis One_nat_def eq_refl length_Cons list.set_cases list.size(3) set_ConsD empty_iff empty_set)
  then have "device_ok E (idents u ?d q) (signeds u ?d q)" by (simp add: k(1))
  moreover have "\<forall>u' d'. (u', d') \<noteq> (u, ?d) \<longrightarrow> idents u' d' q = idents u' d' p \<and> signeds u' d' q = signeds u' d' p"
    and "distinct (map op_id (tb_one_time_prekeys q))" "distinct (map otp_key (tb_one_time_prekeys q))"
    using q unfolding installed_def by blast+
  ultimately show ?thesis by (intro keys_okI [OF p]) (metis prod.inject)+
qed

text \<open>Revocation of some devices of a user.\<close>

definition revoked_devices :: "(device_id \<Rightarrow> bool) \<Rightarrow> Uuid \<Rightarrow> 'n Pool \<Rightarrow> 'n Pool" where
  "revoked_devices D u p = drop_prekeys D u (p\<lparr>tb_identity_keys := map (\<lambda>k.
     if ir_user_id k = u \<and> D (ir_device_id k) then k\<lparr>ir_revoked := True\<rparr> else k) (tb_identity_keys p)\<rparr>)"

lemma idents_revoked:
  "idents u' d' (revoked_devices D u p) = (if u' = u \<and> D d' then map (\<lambda>k. k\<lparr>ir_revoked := True\<rparr>) (idents u' d' p) else idents u' d' p)"
proof (cases "u' = u \<and> D d'")
  case True
  have "filter (at_device u' d') (map (\<lambda>k. if ir_user_id k = u \<and> D (ir_device_id k) then k\<lparr>ir_revoked := True\<rparr> else k) xs) =
    map (\<lambda>k. k\<lparr>ir_revoked := True\<rparr>) (filter (at_device u' d') xs)" for xs
    by (induction xs) (use True in \<open>auto simp: at_device_def\<close>)
  then show ?thesis using True by (simp add: revoked_devices_def drop_prekeys_def idents_def)
next
  case False
  have "filter (at_device u' d') (map (\<lambda>k. if ir_user_id k = u \<and> D (ir_device_id k) then k\<lparr>ir_revoked := True\<rparr> else k) xs) =
    filter (at_device u' d') xs" for xs
    by (induction xs) (use False in \<open>auto simp: at_device_def\<close>)
  then show ?thesis using False by (auto simp: revoked_devices_def drop_prekeys_def idents_def)
qed

lemma signeds_revoked: "signeds u' d' (revoked_devices D u p) = (if u' = u \<and> D d' then [] else signeds u' d' p)"
  by (auto simp: revoked_devices_def drop_prekeys_def signeds_def of_device_def filter_empty_conv intro!: filter_cong)

lemma revoked_ok:
  assumes "keys_ok E p"
  shows "keys_ok E (revoked_devices D u p)"
proof (rule keys_okI [OF assms])
  fix u' d'
  have "device_ok E (idents u' d' p) (signeds u' d' p)" using assms by (simp add: keys_ok_def)
  then have "u' = u \<and> D d' \<Longrightarrow> device_ok E (map (\<lambda>k. k\<lparr>ir_revoked := True\<rparr>) (idents u' d' p)) []"
    by (auto simp: device_ok_def row_bound_def)
  then show "idents u' d' (revoked_devices D u p) = idents u' d' p \<and> signeds u' d' (revoked_devices D u p) = signeds u' d' p \<or>
    device_ok E (idents u' d' (revoked_devices D u p)) (signeds u' d' (revoked_devices D u p))"
    by (simp add: idents_revoked signeds_revoked)
qed (use assms in \<open>simp_all add: revoked_devices_def drop_prekeys_def keys_ok_def distinct_map_filter\<close>)

lemmas device_eq = eq_commute [of d "ir_device_id k" for d k]

lemma tx_revoke: "tx_sat (revoke_device_in_tx E u d) (\<lambda>p x q. q = revoked_devices ((=) d) u p)"
  unfolding revoke_device_in_tx_def
  by (rule tx_sat_mono, (rule tx_rules)+)
    (simp add: revoked_devices_def drop_prekeys_def update_device_def at_device_def device_eq)

lemma rel_revoke:
  "rel (db_revoke_device E u d) (\<lambda>p r q. q = p \<or> q = revoked_devices ((=) d) u p)"
  unfolding db_revoke_device_def
  by (rule rel_mono, rule rel_in_transaction, (rule tx_revoke tx_rules)+) (auto simp: tx_effect_def)

lemma rel_revoke_others:
  "rel (revoke_devices_except E u d) (\<lambda>p r q. q = p \<or> q = revoked_devices ((\<noteq>) d) u p)"
  unfolding revoke_devices_except_def
  by (rule rel_mono, rule rel_in_transaction, (rule tx_rules)+)
    (auto simp: tx_effect_def revoked_devices_def drop_prekeys_def eq_commute [of "ir_device_id k" d for k])

definition password_ok :: "('w, 'tx, 'n) srv_env \<Rightarrow> Uuid \<Rightarrow> string \<Rightarrow> 'n Pool \<Rightarrow> bool" where
  "password_ok E u pw p \<longleftrightarrow> (\<exists>r. user p u = Some r \<and> sv_verify_password E pw (us_password_hash r) = Some True)"

lemma rel_check_password: "rel (check_password E u pw e) (\<lambda>p r q. q = p \<and> (\<forall>x. r = Inr x \<longrightarrow> password_ok E u pw p))"
  unfolding check_password_def find_by_id_def
  by (rule rel_mono, (rule rel_rules)+) (auto simp: password_ok_def)

lemma tx_reset_device:
  "tx_sat (reset_device_tx E u d) (\<lambda>p x q. q = revoked_devices ((=) d) u (update_device u d (\<lambda>k. k\<lparr>ir_fingerprint := None\<rparr>) p))"
  unfolding reset_device_tx_def clear_device_fingerprint_def
  by (rule tx_sat_mono, (rule tx_revoke tx_rules)+) auto

text \<open>What each request may do to the tables.\<close>

fun key_effect :: "('w, 'tx, 'n) srv_env \<Rightarrow> Uuid \<Rightarrow> key_request \<Rightarrow> 'n Pool \<Rightarrow> 'n Pool \<Rightarrow> bool" where
  "key_effect E auth (UploadBundle body) p q \<longleftrightarrow> may_upload E auth body p \<and>
     installed E auth (ub_device_id body) (stored_fp auth (ub_device_id body) p = None)
       (up_ik E body) (up_spk E body) (up_sig E body) (up_sk E body) p q"
| "key_effect E auth (RevokeDevice d) p q \<longleftrightarrow> q = revoked_devices ((=) d) auth p"
| "key_effect E auth (RenameDevice d name) p q \<longleftrightarrow> (\<exists>n. q = p\<lparr>tb_identity_keys := map (\<lambda>k.
     if at_device auth d k \<and> \<not> ir_revoked k then k\<lparr>ir_device_name := n\<rparr> else k) (tb_identity_keys p)\<rparr>)"
| "key_effect E auth (RevokeOtherDevices d) p q \<longleftrightarrow> q = revoked_devices ((\<noteq>) d) auth p"
| "key_effect E auth (ResetKeys pw) p q \<longleftrightarrow> password_ok E auth pw p \<and>
     q = update_user auth (\<lambda>r. r\<lparr>us_identity_key_fingerprint := None\<rparr>) p"
| "key_effect E auth (ResetDevice pw d) p q \<longleftrightarrow> password_ok E auth pw p \<and>
     q = revoked_devices ((=) d) auth (update_device auth d (\<lambda>k. k\<lparr>ir_fingerprint := None\<rparr>) p)"
| "key_effect E auth req p q \<longleftrightarrow> uses_otps p q"

lemma rel_fetch:
  "rel (get_prekey_bundle E u d) (\<lambda>p r q. uses_otps p q)" "rel (get_all_prekey_bundles E u) (\<lambda>p r q. uses_otps p q)"
  by (rule rel_keeps; simp add: keeps_fetch uses_otps.none)+

lemma uses_otps_trans: "uses_otps q r \<Longrightarrow> uses_otps p q \<Longrightarrow> uses_otps p r"
  by (induction rule: uses_otps.induct) (auto intro: uses_otps.one)

lemma rel_respond: "rel (respond_bundle E b) (\<lambda>p r q. q = p)"
  unfolding respond_bundle_def by (rule rel_mono, (rule rel_rules)+) auto

lemma rel_get_bundle: "rel (get_bundle E u) (\<lambda>p r q. uses_otps p q)"
  unfolding get_bundle_def Let_def get_first_active_device_id_def
  by (rule rel_mono, (rule rel_fetch rel_respond rel_rules)+) (auto intro: uses_otps_trans)

lemma key_requests_refine: "rel (key_routes E auth req) (\<lambda>p r q. keys_ok E p \<longrightarrow> q = p \<or> key_effect E auth req p q)"
proof (cases req)
  case (UploadBundle body)
  show ?thesis unfolding UploadBundle key_routes.simps by (rule rel_mono [OF rel_upload]) (auto split: if_splits)
next
  case (GetBundle u)
  show ?thesis unfolding GetBundle key_routes.simps by (rule rel_mono [OF rel_get_bundle]) simp
next
  case (GetDeviceBundle u d)
  show ?thesis
    unfolding GetDeviceBundle key_routes.simps get_device_bundle_def
    by (rule rel_mono, (rule rel_fetch rel_respond rel_rules)+) auto
next
  case (GetAllBundles u)
  show ?thesis
    unfolding GetAllBundles key_routes.simps get_all_bundles_def
    by (rule rel_mono, (rule rel_fetch rel_rules)+) auto
next
  case (GetDevices u)
  show ?thesis
    unfolding GetDevices key_routes.simps get_devices_def get_user_devices_def
    by (rule rel_mono, (rule rel_rules)+) auto
next
  case (RevokeDevice d)
  show ?thesis
    unfolding RevokeDevice key_routes.simps revoke_device_def
    by (rule rel_mono, (rule rel_revoke rel_events rel_rules)+) auto
next
  case (RenameDevice d name)
  show ?thesis
    unfolding RenameDevice key_routes.simps rename_device_def db_rename_device_def
    by (rule rel_mono, (rule rel_rules)+) auto
next
  case (RevokeOtherDevices d)
  show ?thesis
    unfolding RevokeOtherDevices key_routes.simps revoke_other_devices_def get_user_devices_def
    by (rule rel_mono, (rule rel_revoke_others rel_events rel_rules)+) auto
next
  case (ResetKeys pw)
  show ?thesis
    unfolding ResetKeys key_routes.simps reset_keys_def clear_identity_key_fingerprint_def
    by (rule rel_mono, (rule rel_check_password rel_events rel_rules)+) auto
next
  case (ResetDevice pw d)
  show ?thesis
    unfolding ResetDevice key_routes.simps reset_device_def
    by (rule rel_mono, (rule rel_check_password rel_in_transaction tx_reset_device rel_events rel_rules)+) (auto simp: tx_effect_def)
next
  case (GetOtpCount d)
  show ?thesis
    unfolding GetOtpCount key_routes.simps get_otp_count_def count_one_time_prekeys_def
    by (rule rel_mono, (rule rel_rules)+) auto
qed

end
