(* ===== verification/Srv_KeyServer.thy ===== *)
theory Srv_KeyServer
  imports Srv_KeySafety Core_Keys
begin

text \<open>
  The key endpoints beside the WebSocket handlers: the invariant of the key tables over every run,
  and what a client that fetches a bundle or relies on a published identity gets from it.
\<close>

section \<open>Every change keeps the invariant\<close>

lemma keys_ok_frame:
  assumes "tb_identity_keys q = tb_identity_keys p" "tb_signed_prekeys q = tb_signed_prekeys p"
    "tb_one_time_prekeys q = tb_one_time_prekeys p"
  shows "keys_ok E q = keys_ok E p"
  using assms by (simp add: keys_ok_def idents_def signeds_def)

text \<open>The fields that no invariant reads.\<close>

definition same_key :: "IdentityKeyRow \<Rightarrow> IdentityKeyRow \<Rightarrow> bool" where
  "same_key j k \<longleftrightarrow> ir_user_id j = ir_user_id k \<and> ir_device_id j = ir_device_id k \<and> ir_identity_key j = ir_identity_key k \<and>
     ir_signing_key j = ir_signing_key k \<and> ir_fingerprint j = ir_fingerprint k \<and> ir_revoked j = ir_revoked k"

lemma idents_relabelled:
  assumes "\<And>k. same_key (f k) k"
  shows "idents u d (p\<lparr>tb_identity_keys := map f (tb_identity_keys p)\<rparr>) = map f (idents u d p)"
proof -
  have "at_device u d \<circ> f = at_device u d" using assms by (auto simp: same_key_def at_device_def fun_eq_iff)
  then show ?thesis by (simp add: idents_def filter_map)
qed

lemma device_ok_relabelled:
  assumes "\<And>k. same_key (f k) k"
  shows "device_ok E (map f ks) rs = device_ok E ks rs"
  using assms by (simp add: device_ok_def row_bound_def same_key_def)

lemma relabelled_ok:
  assumes "\<And>k. same_key (f k) k"
  shows "keys_ok E (p\<lparr>tb_identity_keys := map f (tb_identity_keys p)\<rparr>) = keys_ok E p"
proof -
  have "signeds u d (p\<lparr>tb_identity_keys := ks\<rparr>) = signeds u d p" for u d ks by (simp add: signeds_def)
  then show ?thesis
    unfolding keys_ok_def idents_relabelled [of f, OF assms] by (simp add: device_ok_relabelled [of f, OF assms])
qed

interpretation key_tables: membership_predicate "keys_ok E" for E
  by unfold_locales
    ((rule keys_ok_frame relabelled_ok [THEN iffD2] keys_ok_frame [THEN iffD2]; simp add: same_key_def direct_conversation_rows_def)+)

lemma cleared_ok:
  assumes "keys_ok E p"
  shows "keys_ok E (update_device u d (\<lambda>k. k\<lparr>ir_fingerprint := None\<rparr>) p)"
proof (rule keys_okI [OF assms])
  fix u' d'
  let ?f = "\<lambda>k. k\<lparr>ir_fingerprint := None\<rparr>" and ?q = "update_device u d (\<lambda>k. k\<lparr>ir_fingerprint := None\<rparr>) p"
  have "device_ok E (idents u d p) (signeds u d p)" using assms by (simp add: keys_ok_def)
  then have "device_ok E (map ?f (idents u d p)) (signeds u d p)" by (auto simp: device_ok_def row_bound_def)
  then show "idents u' d' ?q = idents u' d' p \<and> signeds u' d' ?q = signeds u' d' p \<or> device_ok E (idents u' d' ?q) (signeds u' d' ?q)"
    by (simp add: idents_flags)
qed (use assms in \<open>simp_all add: keys_ok_def\<close>)

lemma key_effect_ok:
  assumes "key_effect E auth req p q" "keys_ok E p"
  shows "keys_ok E q"
proof (cases req)
  case (UploadBundle body)
  then show ?thesis using assms installed_ok by auto
next
  case (RenameDevice d name)
  then obtain n where "q = p\<lparr>tb_identity_keys := map (\<lambda>k. if at_device auth d k \<and> \<not> ir_revoked k then k\<lparr>ir_device_name := n\<rparr> else k)
      (tb_identity_keys p)\<rparr>" using assms(1) by auto
  then show ?thesis using assms(2) by (simp add: relabelled_ok same_key_def)
next
  case (ResetKeys pw)
  then have q: "q = update_user auth (\<lambda>r. r\<lparr>us_identity_key_fingerprint := None\<rparr>) p" using assms(1) by simp
  show ?thesis by (rule keys_ok_frame [THEN iffD2, OF _ _ _ assms(2)]) (simp_all add: q update_user_def)
qed (use assms in \<open>auto intro: revoked_ok cleared_ok uses_otps_ok\<close>)

section \<open>Steps\<close>

text \<open>A step is labelled with the key request that it serves, if it serves one.\<close>

inductive key_step ::
  "('w, 'tx, 'n) srv_env \<Rightarrow> (Uuid \<times> key_request) option \<Rightarrow> ('w, 'tx, 'n) AppState \<Rightarrow> ('w, 'tx, 'n) AppState \<Rightarrow> bool" for E where
  socket: "server_step E s t \<Longrightarrow> key_step E None s t"
| request: "key_step E (Some (auth, req)) s (exec (key_routes E auth req) s)"

definition key_moves :: "('w, 'tx, 'n) srv_env \<Rightarrow> ('w, 'tx, 'n) AppState \<Rightarrow> ('w, 'tx, 'n) AppState \<Rightarrow> bool" where
  "key_moves E s t \<longleftrightarrow> (\<exists>l. key_step E l s t)"

lemma key_moves_request: "key_moves E s (exec (key_routes E auth req) s)"
  unfolding key_moves_def by (rule exI) (rule key_step.request)

lemma request_effect:
  assumes "keys_ok E (st_pool s)"
  shows "st_pool (exec (key_routes E auth req) s) = st_pool s \<or> key_effect E auth req (st_pool s) (st_pool (exec (key_routes E auth req) s))"
  using relD [OF key_requests_refine [of E auth req], of s] assms unfolding exec_def by blast

lemma key_step_ok:
  assumes "key_step E l s t" and ok: "keys_ok E (st_pool s)"
  shows "keys_ok E (st_pool t)"
  using assms(1)
proof cases
  case socket
  from key_tables.server_step_keeps [OF this(2) ok] show ?thesis .
next
  case (request auth req)
  then show ?thesis using request_effect [OF ok] key_effect_ok [OF _ ok] ok by metis
qed

lemma key_runs_ok: "(key_moves E)\<^sup>*\<^sup>* s0 s \<Longrightarrow> keys_ok E (st_pool s0) \<Longrightarrow> keys_ok E (st_pool s)"
  by (induction rule: rtranclp_induct) (auto simp: key_moves_def intro: key_step_ok)

section \<open>What a sender gets\<close>

text \<open>The bundle as the initiator of a session uses it.\<close>

definition client_bundle :: "PreKeyBundleRow \<Rightarrow> PreKeyBundle" where
  "client_bundle b = \<lparr>pkb_identity_key = pb_identity_key b, pkb_signed_prekey = pb_signed_prekey b,
     pkb_signed_prekey_signature = pb_signed_prekey_signature b, pkb_one_time_prekey = map_option snd (pb_one_time_prekey b)\<rparr>"

definition acceptable :: "('w, 'tx, 'n) srv_env \<Rightarrow> PreKeyBundleRow \<Rightarrow> bool" where
  "acceptable E b \<longleftrightarrow> (\<exists>sk vk. pb_signing_key b = Some sk \<and> vk_from_bytes (sv_prims E) sk = Inr vk \<and>
     verify_signature (sv_prims E) (client_bundle b) vk = Inr ())"

lemma sound_acceptable:
  assumes "sound_bundle E b"
  shows "acceptable E b"
  using assms
  by (auto simp: sound_bundle_def verified_def verify_signed_prekey_signature_def acceptable_def verify_signature_def client_bundle_def
      split: if_splits sum.splits)

text \<open>
  C5: in every state that the server reaches through sockets and key requests of any users,
  whatever the database answers, each prekey bundle that it serves carries a signing key under which
  the initiator of a session accepts the signed prekey.
\<close>

theorem served_bundles_verify:
  assumes "(key_moves E)\<^sup>*\<^sup>* s0 s" and "keys_ok E (st_pool s0)"
  shows "(\<forall>u d b. fst (run_state (get_prekey_bundle E u d) s) = Inr (Some b) \<longrightarrow> acceptable E b) \<and>
    (\<forall>u bs d b. fst (run_state (get_all_prekey_bundles E u) s) = Inr bs \<longrightarrow> (d, b) \<in> set bs \<longrightarrow> acceptable E b)"
proof -
  have ok: "keys_ok E (st_pool s)" using key_runs_ok assms .
  then show ?thesis
    using relD [OF rel_get_prekey_bundle [of E], of s] relD [OF rel_get_all_prekey_bundles [of E], of s] sound_acceptable [of E]
    by fastforce
qed

text \<open>
  Keys of 32 and signatures of 64 equal bytes, a signature being good when it repeats the byte of the
  key. User 1 uploads a bundle for one of his devices.
\<close>

definition key_srv :: "((nat \<times> WsMessage) list \<times> nat, nat, unit) srv_env" where
  "key_srv = ref_srv\<lparr>sv_base64_decode := \<lambda>s. if s = ''ss'' then Some (replicate 64 3)
       else Some (replicate 32 (if s = ''i'' then 1 else if s = ''j'' then 2 else if s = ''s'' then 3 else 4)),
     sv_base64_encode := \<lambda>_. [],
     sv_prims := ref_prims\<lparr>ed_verify := \<lambda>vk m s. if take 1 s = take 1 vk then Inr () else Inl ''signature error''\<rparr>\<rparr>"

definition ref_upload :: "string \<Rightarrow> device_id \<Rightarrow> UploadBundleRequest" where
  "ref_upload ident d = \<lparr>ub_identity_key = ident, ub_signed_prekey = ''p'', ub_signed_prekey_signature = ''ss'',
     ub_signed_prekey_id = 1, ub_one_time_prekeys = [\<lparr>ou_key_id = 5, ou_public_key = ''o''\<rparr>, \<lparr>ou_key_id = 6, ou_public_key = ''q''\<rparr>],
     ub_device_id = d, ub_signing_key = ''s'', ub_platform = None\<rparr>"

lemma ref_pool_keys: "keys_ok E (st_pool (ref_state (ref_pool enc)))"
  by (simp add: keys_ok_def idents_def signeds_def ref_state_def ref_pool_def device_ok_def)

theorem served_bundles_verify_witness:
  "let s = exec (key_routes key_srv 1 (UploadBundle (ref_upload ''i'' 1))) (ref_state (ref_pool False))
   in (case fst (run_state (get_prekey_bundle key_srv 1 1) s) of
         Inr (Some b) \<Rightarrow> acceptable key_srv b \<and> map_option fst (pb_one_time_prekey b) = Some 5 | _ \<Rightarrow> False)"
proof -
  let ?init = "ref_state (ref_pool False)"
  let ?s = "exec (key_routes key_srv 1 (UploadBundle (ref_upload ''i'' 1))) ?init"
  have run: "(key_moves key_srv)\<^sup>*\<^sup>* ?init ?s" by (intro r_into_rtranclp key_moves_request)
  have "case fst (run_state (get_prekey_bundle key_srv 1 1) ?s) of
      Inr (Some b) \<Rightarrow> map_option fst (pb_one_time_prekey b) = Some 5 | _ \<Rightarrow> False"
    by code_simp
  then show ?thesis
    unfolding Let_def using served_bundles_verify [OF run ref_pool_keys] by (auto split: sum.splits option.splits)
qed

section \<open>Who can change an identity\<close>

definition bound_fp :: "Uuid \<Rightarrow> device_id \<Rightarrow> 'n Pool \<Rightarrow> bytes option" where
  "bound_fp u d p = Option.bind (identity_row u d p) ir_fingerprint"

lemma bound_fp_relabelled:
  assumes "\<And>k. same_key (f k) k"
  shows "bound_fp u d (p\<lparr>tb_identity_keys := map f (tb_identity_keys p)\<rparr>) = bound_fp u d p"
  using assms unfolding bound_fp_def identity_row_idents idents_relabelled [of f, OF assms]
  by (auto simp: same_key_def split: list.split)

lemma bound_fp_frame: "tb_identity_keys q = tb_identity_keys p \<Longrightarrow> (bound_fp u d q = x) = (bound_fp u d p = x)"
  by (simp add: bound_fp_def identity_row_def)

interpretation binding: membership_predicate "\<lambda>p. bound_fp u d p = Some fp" for u d fp
  by unfold_locales
    ((rule bound_fp_frame bound_fp_frame [THEN iffD2] bound_fp_relabelled [THEN trans];
      simp add: same_key_def direct_conversation_rows_def)+)

lemma bound_fp_revoked: "bound_fp u d (revoked_devices D u' p) = bound_fp u d p"
  by (auto simp: bound_fp_def identity_row_idents idents_revoked split: list.split)

lemma bound_fp_cleared:
  "(u', d') \<noteq> (u, d) \<Longrightarrow> bound_fp u d (update_device u' d' (\<lambda>k. k\<lparr>ir_fingerprint := x\<rparr>) p) = bound_fp u d p"
  by (auto simp: bound_fp_def identity_row_idents idents_flags split: list.split)

lemma bound_fp_installed:
  assumes up: "may_upload E u' body p" and b: "bound_fp u d p = Some fp"
    and q: "installed E u' (ub_device_id body) (stored_fp u' (ub_device_id body) p = None) ik spk sg sk p q"
  shows "bound_fp u d q = Some fp"
proof (cases "(u, d) = (u', ub_device_id body)")
  case True
  then have "stored_fp u' (ub_device_id body) p = Some fp" using b by (simp add: bound_fp_def stored_fp_def)
  then show ?thesis using q True b by (auto simp: installed_def bound_fp_def identity_row_idents)
next
  case False
  then have "idents u d q = idents u d p" using q unfolding installed_def by metis
  then show ?thesis using b by (simp add: bound_fp_def identity_row_idents)
qed

lemma key_effect_binding:
  assumes "key_effect E auth req p q" "bound_fp u d p = Some fp"
  shows "bound_fp u d q = Some fp \<or> (auth = u \<and> (\<exists>pw. req = ResetDevice pw d \<and> password_ok E u pw p))"
proof -
  have otps: "bound_fp u d q = Some fp" if "uses_otps p q"
    by (rule bound_fp_frame [THEN iffD2, OF _ assms(2)]) (use uses_otps_pool [OF that] in auto)
  show ?thesis
  proof (cases req)
    case (UploadBundle body)
    then show ?thesis using assms bound_fp_installed by auto
  next
    case (RenameDevice d' name)
    then show ?thesis using assms by (auto simp: bound_fp_relabelled same_key_def)
  next
    case (ResetKeys pw)
    then have q: "q = update_user auth (\<lambda>r. r\<lparr>us_identity_key_fingerprint := None\<rparr>) p" using assms(1) by simp
    have "bound_fp u d q = Some fp" by (rule bound_fp_frame [THEN iffD2, OF _ assms(2)]) (simp add: q update_user_def)
    then show ?thesis ..
  next
    case (ResetDevice pw d')
    then show ?thesis
      using assms bound_fp_cleared [of auth d' u d None p] by (cases "(auth, d') = (u, d)") (auto simp: bound_fp_revoked)
  qed (use assms in \<open>simp_all add: bound_fp_revoked otps\<close>)
qed

text \<open>
  C6: once a device is bound to the fingerprint of its identity and signing keys, no socket and no
  key request of any user changes the binding or the keys under it, but a reset of that device by
  its owner with a password that verifies.
\<close>

theorem identity_change_needs_password:
  assumes "(key_moves E)\<^sup>*\<^sup>* s0 s" and "keys_ok E (st_pool s0)"
    and "bound_fp u d (st_pool s) = Some fp" and "key_step E l s t"
  shows "(\<exists>k sk. identity_row u d (st_pool t) = Some k \<and> ir_fingerprint k = Some fp \<and> ir_signing_key k = Some sk \<and>
      sv_sha256 E (ir_identity_key k @ sk) = fp) \<or>
    (\<exists>pw. l = Some (u, ResetDevice pw d) \<and> password_ok E u pw (st_pool s))"
proof -
  have ok: "keys_ok E (st_pool s)" using key_runs_ok assms(1,2) .
  have okt: "keys_ok E (st_pool t)" using assms(4) ok by (rule key_step_ok)
  have kept: "\<exists>k sk. identity_row u d (st_pool t) = Some k \<and> ir_fingerprint k = Some fp \<and> ir_signing_key k = Some sk \<and>
      sv_sha256 E (ir_identity_key k @ sk) = fp" if b: "bound_fp u d (st_pool t) = Some fp"
  proof -
    obtain k where k: "identity_row u d (st_pool t) = Some k" "ir_fingerprint k = Some fp"
      using b by (auto simp: bound_fp_def bind_eq_Some_conv)
    then have "k \<in> set (idents u d (st_pool t))" by (auto simp: identity_row_idents split: list.splits)
    then have "row_bound E k" using okt by (auto simp: keys_ok_def device_ok_def)
    then show ?thesis using k by (auto simp: row_bound_def identity_fingerprint_def)
  qed
  show ?thesis
    using assms(4)
  proof cases
    case socket
    from binding.server_step_keeps [OF this(2) assms(3)] show ?thesis using kept by blast
  next
    case (request auth req)
    from request_effect [OF ok, of auth req] have "st_pool t = st_pool s \<or> key_effect E auth req (st_pool s) (st_pool t)"
      unfolding request(2) .
    then show ?thesis
    proof
      assume "st_pool t = st_pool s"
      then show ?thesis using kept assms(3) by simp
    next
      assume "key_effect E auth req (st_pool s) (st_pool t)"
      from key_effect_binding [OF this assms(3)] show ?thesis using kept request(1) by blast
    qed
  qed
qed

text \<open>User 1 has bound his device 1 to identity \<open>i\<close>; an upload of identity \<open>j\<close> for it changes nothing.\<close>

theorem identity_change_needs_password_witness:
  "let s = exec (key_routes key_srv 1 (UploadBundle (ref_upload ''i'' 1))) (ref_state (ref_pool False));
       t = exec (key_routes key_srv 1 (UploadBundle (ref_upload ''j'' 1))) s
   in bound_fp 1 1 (st_pool s) = Some (replicate 32 1 @ replicate 32 3) \<and>
      (\<exists>k sk. identity_row 1 1 (st_pool t) = Some k \<and> ir_signing_key k = Some sk \<and>
        sv_sha256 key_srv (ir_identity_key k @ sk) = replicate 32 1 @ replicate 32 3)"
proof -
  let ?init = "ref_state (ref_pool False)"
  let ?s = "exec (key_routes key_srv 1 (UploadBundle (ref_upload ''i'' 1))) ?init"
  have run: "(key_moves key_srv)\<^sup>*\<^sup>* ?init ?s" by (intro r_into_rtranclp key_moves_request)
  have b: "bound_fp 1 1 (st_pool ?s) = Some (replicate 32 1 @ replicate 32 3)" by code_simp
  show ?thesis
    unfolding Let_def
    using b identity_change_needs_password [OF run ref_pool_keys b key_step.request [of _ 1 "UploadBundle (ref_upload ''j'' 1)"]]
    by blast
qed

section \<open>One-time prekeys\<close>

definition unused :: "'n Pool \<Rightarrow> (Uuid \<times> device_id \<times> i32) set" where
  "unused p = otp_key ` {r \<in> set (tb_one_time_prekeys p). \<not> op_used r}"

lemma next_otp_pick: "next_otp u d p = Some r \<Longrightarrow> r \<in> set (tb_one_time_prekeys p) \<and> otp_of u d r \<and> \<not> op_used r"
  unfolding next_otp_def by (auto split: list.splits dest!: sort_key_pick(1))

lemma use_otp_unused:
  assumes "keys_ok E p" and r: "next_otp u d p = Some r"
  shows "otp_key r \<in> unused p" "unused (fst (use_otp u d p)) \<subseteq> unused p - {otp_key r}"
proof -
  have mem: "r \<in> set (tb_one_time_prekeys p)" "\<not> op_used r" using next_otp_pick [OF r] by auto
  then show "otp_key r \<in> unused p" by (auto simp: unused_def)
  have inj: "inj_on otp_key (set (tb_one_time_prekeys p))" using assms(1) by (simp add: keys_ok_def distinct_map)
  show "unused (fst (use_otp u d p)) \<subseteq> unused p - {otp_key r}" (is "?U \<subseteq> _")
  proof
    fix k assume "k \<in> ?U"
    then obtain x where x: "x \<in> set (tb_one_time_prekeys p)" "\<not> op_used x" "op_id x \<noteq> op_id r" "k = otp_key x"
      using r by (auto simp: unused_def use_otp_def split: if_splits)
    then show "k \<in> unused p - {otp_key r}" using inj_onD [OF inj, of x r] mem by (auto simp: unused_def)
  qed
qed

lemma use_otp_served: "snd (use_otp u d p) = Some (kid, pk) \<Longrightarrow> \<exists>r. next_otp u d p = Some r \<and> otp_key r = (u, d, kid)"
  using next_otp_pick [of u d p] by (auto simp: use_otp_def otp_key_def otp_of_def split: option.splits)

definition served :: "Uuid \<Rightarrow> device_id \<Rightarrow> sqlx_error + PreKeyBundleRow option \<Rightarrow> (Uuid \<times> device_id \<times> i32) option" where
  "served u d r = (case r of
     Inr (Some b) \<Rightarrow> map_option (\<lambda>(kid, _). (u, d, kid)) (pb_one_time_prekey b) | _ \<Rightarrow> None)"

lemma rel_fetch_served:
  "rel (get_prekey_bundle E u d) (\<lambda>p r q. keys_ok E p \<longrightarrow> unused q \<subseteq> unused p - set_option (served u d r) \<and> set_option (served u d r) \<subseteq> unused p)"
proof -
  have used: "unused (fst (use_otp u d p)) \<subseteq> unused p" if "keys_ok E p" for p
  proof (cases "next_otp u d p")
    case (Some r)
    then show ?thesis using use_otp_unused(2) [OF that Some] by blast
  qed (simp add: use_otp_def)
  have served: "(u, d, kid) \<notin> unused (fst (use_otp u d p))" "(u, d, kid) \<in> unused p"
    if ok: "keys_ok E p" and out: "snd (use_otp u d p) = Some (kid, pk)" for p kid pk
  proof -
    obtain r where r: "next_otp u d p = Some r" "otp_key r = (u, d, kid)" using use_otp_served [OF out] by blast
    show "(u, d, kid) \<notin> unused (fst (use_otp u d p))" "(u, d, kid) \<in> unused p"
      using use_otp_unused [OF ok r(1)] unfolding r(2) by blast+
  qed
  show ?thesis
    unfolding get_prekey_bundle_def
    by (rule rel_mono, (rule rel_rules)+)
      (auto simp: served_def bundle_row_def split: option.splits dest: used [THEN subsetD] served)
qed

text \<open>Senders that fetch bundles one after the other, and the one-time prekeys that they get.\<close>

fun fetches :: "('w, 'tx, 'n) srv_env \<Rightarrow> (Uuid \<times> device_id) list \<Rightarrow> ('w, 'tx, 'n, (Uuid \<times> device_id \<times> i32) list) act" where
  "fetches E [] = State_Monad.return []"
| "fetches E ((u, d) # rs) = do {
     r \<leftarrow> get_prekey_bundle E u d;
     later \<leftarrow> fetches E rs;
     State_Monad.return (case served u d r of Some k \<Rightarrow> k # later | None \<Rightarrow> later)
   }"

lemma one_more_served:
  assumes "B \<subseteq> A - set_option x" "set_option x \<subseteq> A" "distinct ks" "set ks \<subseteq> B" "set ks \<inter> C = {}" "C \<subseteq> B"
    and "ys = (case x of Some k \<Rightarrow> k # ks | None \<Rightarrow> ks)"
  shows "distinct ys \<and> set ys \<subseteq> A \<and> set ys \<inter> C = {} \<and> C \<subseteq> A"
proof (cases x)
  case None
  then show ?thesis using assms by auto
next
  case (Some k)
  then have "k \<notin> B" "k \<in> A" "B \<subseteq> A" "ys = k # ks" using assms by auto
  then show ?thesis using assms(3-6) by auto
qed

lemma rel_fetches:
  "rel (fetches E rs) (\<lambda>p ks q. keys_ok E p \<longrightarrow> distinct ks \<and> set ks \<subseteq> unused p \<and> set ks \<inter> unused q = {} \<and> unused q \<subseteq> unused p)"
proof (induction rs)
  case Nil
  show ?case unfolding fetches.simps by (rule rel_mono [OF rel_return]) simp
next
  case (Cons x rs)
  obtain u d where x: "x = (u, d)" by (cases x)
  have first: "rel (get_prekey_bundle E u d) (\<lambda>p r q. keys_ok E p \<longrightarrow> keys_ok E q \<and>
      unused q \<subseteq> unused p - set_option (served u d r) \<and> set_option (served u d r) \<subseteq> unused p)"
    unfolding rel_def
  proof
    fix s
    show "wp (get_prekey_bundle E u d) (\<lambda>r t. keys_ok E (st_pool s) \<longrightarrow> keys_ok E (st_pool t) \<and>
        unused (st_pool t) \<subseteq> unused (st_pool s) - set_option (served u d r) \<and> set_option (served u d r) \<subseteq> unused (st_pool s)) s"
      using relD [OF rel_fetch_served [of E u d], of s] relD [OF rel_fetch(1) [of E u d], of s] uses_otps_ok
      by (auto simp: wp_def split: prod.splits)
  qed
  show ?case
    unfolding x fetches.simps
    by (rule rel_mono, rule rel_bind [OF first rel_bind [OF Cons.IH rel_return]]) (elim exE conjE, intro impI, rule one_more_served, auto)
qed



section \<open>Resets\<close>

definition ref_identity :: "bytes option \<Rightarrow> IdentityKeyRow" where
  "ref_identity fp = \<lparr>ir_user_id = 1, ir_device_id = 1, ir_identity_key = [1], ir_signing_key = Some [3], ir_platform = None,
     ir_device_name = None, ir_last_seen = None, ir_fingerprint = fp, ir_revoked = False\<rparr>"

text \<open>
  \<open>reset_keys\<close> clears the fingerprint of the user, but the one of the device takes precedence:
  after a reset with the right password an upload of a new identity for a device that was bound is
  still refused, with the conflict that the reset is meant to clear.
\<close>

theorem reset_keys_keeps_device_binding:
  "let p = ref_pool False;
       s = ref_state (p\<lparr>tb_users := map (\<lambda>u. u\<lparr>us_password_hash := ''pw''\<rparr>) (tb_users p), tb_identity_keys := [ref_identity (Some [1])]\<rparr>);
       again = key_routes key_srv 1 (UploadBundle (ref_upload ''j'' 1))
   in fst (run_state (key_routes key_srv 1 (ResetKeys ''pw'')) s) = Inr (204, None) \<and>
      map_sum er_status id (fst (run_state again (exec (key_routes key_srv 1 (ResetKeys ''pw'')) s))) = Inl 409 \<and>
      fst (run_state again (exec (key_routes key_srv 1 (ResetDevice ''pw'' 1)) s)) = Inr (201, None)"
  unfolding Let_def by (intro conjI; code_simp)

text \<open>
  while the user has a fingerprint of his own, from before devices had theirs, a new device
  with an identity of its own is refused, whichever its number.
\<close>

theorem user_fingerprint_blocks_new_device:
  "let p = ref_pool False; p' = p\<lparr>tb_users := map (\<lambda>u. u\<lparr>us_identity_key_fingerprint := Some [1]\<rparr>) (tb_users p)\<rparr>
   in identity_row 1 2 p' = None \<and>
      (case fst (run_state (key_routes key_srv 1 (UploadBundle (ref_upload ''i'' 2))) (ref_state p')) of
         Inl e \<Rightarrow> er_status e = 409 | Inr _ \<Rightarrow> False)"
  by code_simp

end
