(* ===== verification/Srv_AuthProps.thy ===== *)
theory Srv_AuthProps
  imports Srv_Auth Srv_KeyServer
begin

text \<open>
  What the requests on accounts do to the refresh tokens: the rows that they may add or revoke.
\<close>

section \<open>Requests\<close>

datatype auth_request =
    Register AuthRequest
  | Login AuthRequest
  | Refresh OriginHeader "string option" "string option"
  | Logout OriginHeader "string option"
  | ForgotPassword string
  | ResetPassword string string
  | WsTicket "string option" "device_id option"
  | WsUpgrade string
  | ChangePassword "string option" string string

text \<open>Requests of a user carry the \<open>Authorization\<close> header that \<open>AuthUser\<close> is extracted from.\<close>

definition answered :: "('w, 'tx, 'n, 'n AppError + 'a) act \<Rightarrow> ('w, 'tx, 'n, 'n AppError + unit) act" where
  "answered m = bind_ok m (\<lambda>_. ok ())"

fun auth_routes :: "('w, 'tx, 'n) srv_env \<Rightarrow> auth_request \<Rightarrow> ('w, 'tx, 'n, 'n AppError + unit) act" where
  "auth_routes E (Register body) = answered (register_account E body)"
| "auth_routes E (Login body) = answered (login E body)"
| "auth_routes E (Refresh origin cookie body) = answered (refresh E origin cookie body)"
| "auth_routes E (Logout origin header) = answered (bind_ok (auth_user E header) (logout E origin))"
| "auth_routes E (ForgotPassword name) = answered (forgot_password E name)"
| "auth_routes E (ResetPassword token pw) = answered (reset_password E token pw)"
| "auth_routes E (WsTicket header body) = answered (bind_ok (auth_user E header) (\<lambda>u. ws_ticket E u body))"
| "auth_routes E (WsUpgrade ticket) = answered (ws_upgrade E ticket)"
| "auth_routes E (ChangePassword header old new) = answered (bind_ok (auth_user E header) (\<lambda>u. change_password E u old new))"

section \<open>The rows\<close>

definition issued_row :: "RefreshTokenRow list \<Rightarrow> RefreshTokenRow \<Rightarrow> bool" where
  "issued_row rs r \<longleftrightarrow> rt_id r \<notin> rt_id ` set rs \<and> \<not> rt_revoked r \<and> rt_family_id r \<noteq> None"

text \<open>
  Nothing; tokens are revoked; one is rotated: its row is revoked and the next one of its family is
  issued; rows are reaped. Registration and login issue a token instead.
\<close>

inductive token_change :: "RefreshTokenRow list \<Rightarrow> RefreshTokenRow list \<Rightarrow> bool" for rs where
  same: "token_change rs rs"
| revoke: "token_change rs (map (\<lambda>r. if P r \<and> \<not> rt_revoked r then r\<lparr>rt_revoked := True\<rparr> else r) rs)"
| rotate: "old \<in> set rs \<Longrightarrow> \<not> rt_revoked old \<Longrightarrow> issued_row rs r \<Longrightarrow> rt_user_id r = rt_user_id old \<Longrightarrow>
    rt_family_id old \<noteq> None \<longrightarrow> rt_family_id r = rt_family_id old \<Longrightarrow>
    token_change rs (map (\<lambda>x. if rt_id x = rt_id old \<and> \<not> rt_revoked x then x\<lparr>rt_revoked := True\<rparr> else x) rs @ [r])"
| reap: "token_change rs (filter P rs)"

definition tokens_change :: "'n Pool \<Rightarrow> 'n Pool \<Rightarrow> bool" where
  "tokens_change p q \<longleftrightarrow> token_change (tb_refresh_tokens p) (tb_refresh_tokens q)"

definition tokens_issued :: "'n Pool \<Rightarrow> 'n Pool \<Rightarrow> bool" where
  "tokens_issued p q \<longleftrightarrow> tb_refresh_tokens q = tb_refresh_tokens p \<or>
     (\<exists>r. issued_row (tb_refresh_tokens p) r \<and> tb_refresh_tokens q = tb_refresh_tokens p @ [r])"

lemma issued_same: "tb_refresh_tokens q = tb_refresh_tokens p \<Longrightarrow> tokens_issued p q"
  by (simp add: tokens_issued_def)

lemma tokens_same: "tb_refresh_tokens q = tb_refresh_tokens p \<Longrightarrow> tokens_change p q"
  by (simp add: tokens_change_def token_change.same)

lemma tokens_revoke: "tokens_change p (revoke_where P p)"
  by (simp add: tokens_change_def revoke_where_def token_change.revoke)

lemma insert_refresh_token_rows:
  "insert_refresh_token i u h ex now f p = (q, Inr x) \<Longrightarrow>
   \<exists>r. tb_refresh_tokens q = tb_refresh_tokens p @ [r] \<and> issued_row (tb_refresh_tokens p) r \<and> rt_user_id r = u \<and>
     rt_family_id r = Some f \<and> rt_token_hash r = h \<and> rt_expires_at r = ex \<and> rt_revoked r = False"
  by (auto simp: insert_refresh_token_def issued_row_def list_ex_iff split: if_splits)

lemma insert_refresh_token_issued: "tokens_issued p (fst (insert_refresh_token i u h ex now f p))"
proof (cases "insert_refresh_token i u h ex now f p")
  case (Pair q y)
  then show ?thesis
  proof (cases y)
    case (Inl e)
    then have "q = p" using Pair by (auto simp: insert_refresh_token_def split: if_splits)
    then show ?thesis by (simp add: Pair issued_same)
  next
    case (Inr x)
    then show ?thesis using insert_refresh_token_rows Pair by (fastforce simp: tokens_issued_def)
  qed
qed

section \<open>The requests change the rows in one of these ways\<close>

lemma rel_unchanged [rel_rules]:
  "rel (create_token E u) (\<lambda>p r q. q = p)" "rel (validate_token E t) (\<lambda>p r q. q = p)"
  "rel (hash_password E pw) (\<lambda>p r q. q = p)" "rel (verify_password E pw h) (\<lambda>p r q. q = p)"
  "rel (auth_user E hd0) (\<lambda>p r q. q = p)"
  unfolding create_token_def validate_token_def hash_password_def verify_password_def auth_user_def Let_def
  by (rule rel_same; intro keeps_intros)+

lemma rel_db_try_user [rel_rules]:
  assumes "rel m (\<lambda>p r q. R p q)"
  shows "rel (db_try_user m) (\<lambda>p r q. R p q)"
  unfolding db_try_user_def by (rule rel_mono, rule rel_bind [OF assms rel_return]) auto

lemma rel_answered:
  assumes "rel m (\<lambda>p r q. R p q)"
  shows "rel (answered m) (\<lambda>p r q. R p q)"
  unfolding answered_def by (rule rel_mono, rule rel_bind_ok [OF assms rel_ok]) auto

lemma rel_with_user:
  assumes "\<And>u. rel (f u) (\<lambda>p r q. R p q)" and "\<And>p. R p p"
  shows "rel (bind_ok (auth_user E h) f) (\<lambda>p r q. R p q)"
  by (rule rel_mono, rule rel_bind_ok [OF rel_unchanged(5) assms(1)]) (auto simp: assms(2))

lemma rel_issue: "rel (issue_refresh_token E u) (\<lambda>p r q. tokens_issued p q)"
  unfolding issue_refresh_token_def store_refresh_token_def
  by (rule rel_mono, (rule rel_rules)+) (auto simp: insert_refresh_token_issued issued_same)

lemma tokens_of_users: "tb_refresh_tokens (fst (insert_user i n h b p)) = tb_refresh_tokens p"
  by (simp add: insert_user_def Let_def)

lemma rel_create_user: "rel (create_user E n h) (\<lambda>p r q. tb_refresh_tokens q = tb_refresh_tokens p)"
  unfolding create_user_def by (rule rel_mono, (rule rel_rules)+) (auto simp: tokens_of_users)

lemma rel_split:
  assumes "\<And>a b. rel (f a b) (\<lambda>p r q. R p q)"
  shows "rel (case x of (a, b) \<Rightarrow> f a b) (\<lambda>p r q. R p q)"
  using assms by (cases x) simp

lemma rel_granted:
  "rel (bind_ok (create_token E i) (\<lambda>a. bind_ok (issue_refresh_token E i) (\<lambda>(refresh_token, fam). ok (g a refresh_token))))
     (\<lambda>p r q. tokens_issued p q)"
proof -
  have tail: "rel (bind_ok (issue_refresh_token E i) (\<lambda>(refresh_token, fam). ok (g a refresh_token))) (\<lambda>p r q. tokens_issued p q)" for a
    by (rule rel_mono, rule rel_bind_ok [OF rel_issue rel_split [of _ "\<lambda>p q. q = p"]], rule rel_mono [OF rel_ok]) (auto)
  show ?thesis by (rule rel_mono, rule rel_bind_ok [OF rel_unchanged(1) tail]) (auto simp: issued_same)
qed

lemma rel_register: "rel (register_account E body) (\<lambda>p r q. tokens_issued p q)"
proof -
  have "rel (case x of (i, admin) \<Rightarrow> bind_ok (create_token E i) (\<lambda>a. bind_ok (issue_refresh_token E i) (\<lambda>(refresh_token, fam). ok (g i admin a refresh_token))))
      (\<lambda>p r q. tokens_issued p q)" for x g
    by (rule rel_split) (rule rel_granted)
  note rest = this
  show ?thesis
    unfolding register_account_def
    by (rule rel_mono, (rule rest rel_create_user rel_rules)+) (auto simp: tokens_issued_def)
qed

lemma rel_login: "rel (login E body) (\<lambda>p r q. tokens_issued p q)"
proof -
  have refused: "rel (do { modify (\<lambda>s. s\<lparr>st_failed_logins := st_failed_logins s + 1\<rparr>); fail e }) (\<lambda>p r q. tokens_issued p q)" for e
    by (auto simp: rel_def wp_simps issued_same)
  have decide: "rel (case x of None \<Rightarrow> m | Some u \<Rightarrow> case v of True \<Rightarrow> f u | False \<Rightarrow> m) (\<lambda>p r q. tokens_issued p q)"
    if "rel m (\<lambda>p r q. tokens_issued p q)" "\<And>u. rel (f u) (\<lambda>p r q. tokens_issued p q)" for x v m f
    using that by (cases x; cases v) simp_all
  show ?thesis
    unfolding login_def find_by_username_def
    by (simp only: prod.case, rule rel_mono, (rule decide rel_granted refused rel_rules)+) (auto simp: issued_same)
qed

lemma revoke_where_rows:
  "tb_refresh_tokens (revoke_where P p) = map (\<lambda>r. if P r \<and> \<not> rt_revoked r then r\<lparr>rt_revoked := True\<rparr> else r) (tb_refresh_tokens p)"
  by (simp add: revoke_where_def)

lemma refresh_row_mem: "refresh_row h p = Some row \<Longrightarrow> row \<in> set (tb_refresh_tokens p) \<and> rt_token_hash row = h"
  by (auto simp: refresh_row_def find_Some_iff)

text \<open>What \<open>refresh\<close> does with the row of the token that it is given.\<close>

definition rotated :: "string \<Rightarrow> 'n Pool \<Rightarrow> RefreshTokenRow \<Rightarrow> string \<Rightarrow> 'n Pool \<Rightarrow> bool" where
  "rotated h p row h' q \<longleftrightarrow> refresh_row h p = Some row \<and> \<not> rt_revoked row \<and>
     (\<exists>r. issued_row (tb_refresh_tokens p) r \<and> rt_user_id r = rt_user_id row \<and> rt_token_hash r = h' \<and>
       (rt_family_id row \<noteq> None \<longrightarrow> rt_family_id r = rt_family_id row) \<and>
       tb_refresh_tokens q = tb_refresh_tokens (revoke_where (\<lambda>r. rt_id r = rt_id row) p) @ [r])"

definition refreshed :: "('w, 'tx, 'n) srv_env \<Rightarrow> string \<Rightarrow> 'n Pool \<Rightarrow> ('n AppError + Uuid \<times> string) tx_end \<Rightarrow> 'n Pool \<Rightarrow> bool" where
  "refreshed E h p x q \<longleftrightarrow> (\<exists>row. refresh_row h p = Some row \<and>
     (case x of
        Commit (Inl e) \<Rightarrow> tokens_change p q \<and> (\<forall>f. rt_family_id row = Some f \<longrightarrow>
          (\<forall>r\<in>set (tb_refresh_tokens q). rt_family_id r = Some f \<longrightarrow> rt_revoked r)) \<and> e = with_code TokenRevoked ''Refresh token has been revoked''
      | Commit (Inr (u, raw)) \<Rightarrow> u = rt_user_id row \<and> rotated h p row (hash_refresh_token E raw) q
      | Rollback y \<Rightarrow> \<not> rt_revoked row \<and> (\<exists>e. y = Inl e)))"

lemma family_revoked:
  "\<forall>r\<in>set (tb_refresh_tokens (revoke_where (\<lambda>r. rt_family_id r = Some f) p)). rt_family_id r = Some f \<longrightarrow> rt_revoked r"
  by (auto simp: revoke_where_def)

lemma revoked_ids: "map rt_id (map (\<lambda>r. if c r then r\<lparr>rt_revoked := True\<rparr> else r) rs) = map rt_id rs"
  by auto

lemma insert_after_revoke:
  assumes "insert_refresh_token i u h ex now f (revoke_where P p) = (q, Inr x)"
  shows "\<exists>r. issued_row (tb_refresh_tokens p) r \<and> rt_user_id r = u \<and> rt_token_hash r = h \<and> rt_family_id r = Some f \<and>
     tb_refresh_tokens q = tb_refresh_tokens (revoke_where P p) @ [r]"
proof -
  have "rt_id ` set (tb_refresh_tokens (revoke_where P p)) = rt_id ` set (tb_refresh_tokens p)"
    unfolding revoke_where_rows set_map [symmetric] by (simp only: revoked_ids)
  then show ?thesis using insert_refresh_token_rows [OF assms] by (auto simp: issued_row_def)
qed

lemma tx_rotate:
  "tx_sat (do {
       raw \<leftarrow> tx_draw (sv_random_token E);
       issued \<leftarrow> tx_draw (sv_utc_now E);
       i \<leftarrow> tx_draw (sv_gen_random_uuid E);
       bind_ok (db_ctx (tx_query E (insert_refresh_token i (rt_user_id row) (hash_refresh_token E raw)
         (issued + secs (7 * 86400)) issued family))) (\<lambda>_. ok (Commit (Inr (rt_user_id row, raw))))
     }) (\<lambda>p x q. \<exists>raw i issued y. x = Commit (Inr (rt_user_id row, raw)) \<and>
        insert_refresh_token i (rt_user_id row) (hash_refresh_token E raw) (issued + secs (7 * 86400)) issued family p = (q, Inr y))"
  by (rule tx_sat_mono, (rule tx_rules)+) auto

lemma live_listed:
  "refresh_row h p = Some row \<Longrightarrow> \<not> rt_revoked row \<Longrightarrow> list_ex (\<lambda>r. rt_id r = rt_id row \<and> \<not> rt_revoked r) (tb_refresh_tokens p)"
  using refresh_row_mem [of h p row] by (auto simp: list_ex_iff)

lemma revoked_fixpoint:
  "revoke_where (\<lambda>r. rt_family_id r = Some f) p = p \<Longrightarrow> r \<in> set (tb_refresh_tokens p) \<Longrightarrow> rt_family_id r = Some f \<Longrightarrow> rt_revoked r"
  by (metis family_revoked)

lemma tx_refresh: "tx_sat (refresh_tx E h) (refreshed E h)"
  unfolding refresh_tx_def Let_def
  by (rule tx_sat_mono, (rule tx_rotate tx_sat_option tx_rules)+)
    (auto simp: refreshed_def rotated_def tokens_revoke tokens_same family_revoked live_listed revoked_fixpoint dest!: insert_after_revoke
      split: option.splits if_splits)

lemma strict_refresh: "tx_strict (refresh_tx E h)"
  unfolding refresh_tx_def Let_def by (intro tx_strict_rules tx_strict_option)

lemma rotated_change: "rotated h p row h' q \<Longrightarrow> tokens_change p q"
  using refresh_row_mem [of h p row] unfolding rotated_def tokens_change_def
  by (auto simp: revoke_where_rows intro!: token_change.rotate)

lemma refreshed_change: "refreshed E h p (Commit x) q \<Longrightarrow> tokens_change p q"
  by (cases x) (auto simp: refreshed_def intro: rotated_change)

lemma rel_refresh: "rel (refresh E ori cookie body) (\<lambda>p r q. tokens_change p q)"
proof -
  have answer: "rel (case x of (u, raw) \<Rightarrow> bind_ok (create_token E u) (\<lambda>a.
      bind_ok (db_ctx (query E (\<lambda>p. (p, case user p u of Some r \<Rightarrow> Inr (us_is_admin r) | None \<Rightarrow> Inl RowNotFound)))) (\<lambda>admin.
      ok (g u raw a admin)))) (\<lambda>p r q. q = p)" for x g
    by (rule rel_split, rule rel_mono, (rule rel_unchanged(1) rel_rules)+) auto
  show ?thesis
    unfolding refresh_def Let_def
    by (rule rel_mono, (rule rel_in_transaction tx_refresh answer rel_rules)+) (auto simp: tx_effect_def tokens_same dest: refreshed_change)
qed

lemma rel_logout: "rel (logout E ori u) (\<lambda>p r q. tokens_change p q)"
  unfolding logout_def revoke_all_user_tokens_def
  by (rule rel_mono, (rule rel_events rel_rules)+) (auto simp: tokens_revoke tokens_same)

lemma consume_tables: "tb_refresh_tokens (consume t now p) = tb_refresh_tokens p" "tb_users (consume t now p) = tb_users p"
  by (simp_all add: consume_def split: option.split)

lemma set_password_tables:
  "tb_refresh_tokens (set_password u h p) = tb_refresh_tokens p" "tb_reset_tokens (set_password u h p) = tb_reset_tokens p"
  by (simp_all add: set_password_def update_user_def)

lemma tokens_password: "tokens_change p (set_password u h p)" "tokens_change p (revoke_where P (set_password u h p))"
  by (simp_all add: tokens_same set_password_tables) (simp add: tokens_change_def revoke_where_def set_password_tables token_change.revoke)

lemma rel_change_password: "rel (change_password E u old new) (\<lambda>p r q. tokens_change p q)"
  unfolding change_password_def find_by_id_def update_password_def revoke_all_user_tokens_def
  by (rule rel_mono, (rule rel_events rel_unchanged rel_rules)+) (auto simp: tokens_password tokens_revoke tokens_same)

lemma tx_reset_password:
  "tx_sat (reset_password_tx E token u h) (\<lambda>p x q. x = Commit () \<and> (\<exists>now. q = revoke_where (\<lambda>r. rt_user_id r = u) (consume token now (set_password u h p))))"
  unfolding reset_password_tx_def revoke_all_user_tokens_in_tx_def
  by (rule tx_sat_mono, (rule tx_rules)+) auto

lemma strict_reset_password: "tx_strict (reset_password_tx E token u h)"
  unfolding reset_password_tx_def revoke_all_user_tokens_in_tx_def by (intro tx_strict_rules)

lemma rel_reset_password:
  "rel (reset_password E token pw) (\<lambda>p r q. q = p \<or> (\<exists>row now h.
     hm_get (tb_reset_tokens p) token = Some row \<and> pr_used_at row = None \<and>
     q = revoke_where (\<lambda>r. rt_user_id r = pr_user_id row) (consume token now (set_password (pr_user_id row) h p))))"
  unfolding reset_password_def find_token_def
  by (rule rel_mono, (rule tx_reset_password rel_in_transaction rel_events rel_unchanged rel_rules)+) (auto simp: tx_effect_def)

lemma rel_forgot: "rel (forgot_password E name) (\<lambda>p r q. tb_refresh_tokens q = tb_refresh_tokens p)"
proof -
  have "tb_refresh_tokens (fst (insert_reset_token t u ex p)) = tb_refresh_tokens p" for t u ex and p :: "'c Pool"
    by (simp add: insert_reset_token_def)
  then show ?thesis
    unfolding forgot_password_def find_by_username_def
    by (intro rel_keeps [of "\<lambda>p q. tb_refresh_tokens q = tb_refresh_tokens p"] keeps_intros keeps_query) auto
qed

lemma rel_tickets: "rel (ws_ticket E u b) (\<lambda>p r q. q = p)" "rel (ws_upgrade E t) (\<lambda>p r q. q = p)"
  unfolding ws_ticket_def ws_upgrade_def find_by_id_def retain_tickets_def
  by (rule rel_same; intro keeps_intros keeps_modify; simp)+

fun grants :: "auth_request \<Rightarrow> bool" where
  "grants (Register body) \<longleftrightarrow> True"
| "grants (Login body) \<longleftrightarrow> True"
| "grants req \<longleftrightarrow> False"

lemma rel_grants: "grants req \<Longrightarrow> rel (auth_routes E req) (\<lambda>p r q. tokens_issued p q)"
  by (cases req) (simp_all add: rel_answered rel_register rel_login)

lemma rel_auth_routes: "\<not> grants req \<Longrightarrow> rel (auth_routes E req) (\<lambda>p r q. tokens_change p q)"
proof (cases req)
  case (ResetPassword token pw)
  have "tokens_change p (revoke_where P (consume token now (set_password u h p)))" for P now u h and p :: "'c Pool"
    by (simp add: tokens_change_def revoke_where_def consume_tables set_password_tables token_change.revoke)
  then have "rel (reset_password E token pw) (\<lambda>p r q. tokens_change p q)"
    by (intro rel_mono [OF rel_reset_password]) (auto simp: tokens_same)
  then show ?thesis by (simp add: ResetPassword rel_answered)
next
  case (ForgotPassword name)
  have "rel (forgot_password E name) (\<lambda>p r q. tokens_change p q)" by (rule rel_mono [OF rel_forgot]) (simp add: tokens_same)
  then show ?thesis by (simp add: ForgotPassword rel_answered)
next
  case (WsTicket header body)
  have "rel (ws_ticket E u body) (\<lambda>p r q. tokens_change p q)" for u by (rule rel_mono [OF rel_tickets(1)]) (simp add: tokens_same)
  then show ?thesis by (simp add: WsTicket rel_answered rel_with_user tokens_same)
next
  case (WsUpgrade ticket)
  have "rel (ws_upgrade E ticket) (\<lambda>p r q. tokens_change p q)" by (rule rel_mono [OF rel_tickets(2)]) (simp add: tokens_same)
  then show ?thesis by (simp add: WsUpgrade rel_answered)
qed (simp_all add: rel_answered rel_with_user rel_refresh rel_logout rel_change_password tokens_same)

end
