(* ===== verification/Srv_AuthServer.thy ===== *)
theory Srv_AuthServer
  imports Srv_AuthProps
begin

text \<open>
  The requests on accounts as a system, beside the sockets and the key requests: families of refresh
  tokens, the floor of the access tokens, WebSocket tickets, and what a login reveals.
\<close>

section \<open>Families of refresh tokens\<close>

definition live_in :: "Uuid \<Rightarrow> RefreshTokenRow \<Rightarrow> bool" where
  "live_in f r \<longleftrightarrow> rt_family_id r = Some f \<and> \<not> rt_revoked r"

definition owners_ok :: "RefreshTokenRow list \<Rightarrow> bool" where
  "owners_ok rs \<longleftrightarrow> (\<forall>r\<in>set rs. \<forall>r'\<in>set rs. rt_family_id r = rt_family_id r' \<longrightarrow> rt_user_id r = rt_user_id r')"

definition families_ok :: "RefreshTokenRow list \<Rightarrow> bool" where
  "families_ok rs \<longleftrightarrow> distinct (map rt_id rs) \<and> (\<forall>r\<in>set rs. rt_family_id r \<noteq> None) \<and>
     (\<forall>f. length (filter (live_in f) rs) \<le> 1) \<and> owners_ok rs"

lemma owners_sub:
  assumes "owners_ok rs" "\<And>x. x \<in> set rs' \<Longrightarrow> \<exists>y\<in>set rs. rt_family_id x = rt_family_id y \<and> rt_user_id x = rt_user_id y"
  shows "owners_ok rs'"
  using assms unfolding owners_ok_def by metis

lemma owners_snoc:
  assumes "owners_ok rs" "\<And>x. x \<in> set rs \<Longrightarrow> rt_family_id x = rt_family_id r \<Longrightarrow> rt_user_id x = rt_user_id r"
  shows "owners_ok (rs @ [r])"
  using assms unfolding owners_ok_def by (metis (no_types, lifting) Un_iff empty_iff empty_set set_ConsD set_append)

definition fresh_family :: "RefreshTokenRow list \<Rightarrow> RefreshTokenRow list \<Rightarrow> bool" where
  "fresh_family rs rs' \<longleftrightarrow> (\<forall>r\<in>set rs'. rt_id r \<notin> rt_id ` set rs \<longrightarrow> rt_family_id r \<notin> rt_family_id ` set rs)"

lemma live_revoked:
  "filter (live_in f) (map (\<lambda>r. if P r \<and> \<not> rt_revoked r then r\<lparr>rt_revoked := True\<rparr> else r) rs) = filter (\<lambda>r. live_in f r \<and> \<not> P r) rs"
  by (induction rs) (auto simp: live_in_def)

lemma families_revoked:
  assumes "families_ok rs"
  shows "families_ok (map (\<lambda>r. if P r \<and> \<not> rt_revoked r then r\<lparr>rt_revoked := True\<rparr> else r) rs)" (is "families_ok ?rs")
proof -
  have "length (filter (live_in f) ?rs) \<le> 1" for f
  proof -
    have "length (filter (\<lambda>r. live_in f r \<and> \<not> P r) rs) \<le> length (filter (live_in f) rs)"
      by (induction rs) auto
    then show ?thesis unfolding live_revoked using assms by (meson families_ok_def le_trans)
  qed
  moreover have "distinct (map rt_id ?rs)" using assms unfolding revoked_ids by (simp add: families_ok_def)
  moreover have "owners_ok ?rs"
    by (rule owners_sub [of rs]) (use assms in \<open>auto simp: families_ok_def\<close>)
  moreover have "\<forall>r\<in>set ?rs. rt_family_id r \<noteq> None" using assms by (auto simp: families_ok_def)
  ultimately show ?thesis by (simp add: families_ok_def)
qed

lemma families_issued:
  assumes ok: "families_ok rs" and r: "issued_row rs r" and fresh: "\<And>f. rt_family_id r = Some f \<Longrightarrow> filter (live_in f) rs = []"
    and owner: "\<And>x. x \<in> set rs \<Longrightarrow> rt_family_id x = rt_family_id r \<Longrightarrow> rt_user_id x = rt_user_id r"
  shows "families_ok (rs @ [r])"
proof -
  have "length (filter (live_in f) (rs @ [r])) \<le> 1" for f
    using ok fresh [of f] by (cases "live_in f r") (auto simp: families_ok_def live_in_def)
  moreover have "owners_ok (rs @ [r])" using ok owner by (intro owners_snoc) (simp_all add: families_ok_def)
  ultimately show ?thesis using ok r unfolding families_ok_def issued_row_def by simp
qed

lemma live_unique:
  assumes "families_ok rs" "a \<in> set rs" "b \<in> set rs" "live_in f a" "live_in f b"
  shows "a = b"
proof -
  have "length (filter (live_in f) rs) \<le> 1" "a \<in> set (filter (live_in f) rs)" "b \<in> set (filter (live_in f) rs)"
    using assms by (auto simp: families_ok_def)
  then show ?thesis by (cases "filter (live_in f) rs") auto
qed

lemma token_change_ok:
  assumes "token_change rs rs'" "families_ok rs"
  shows "families_ok rs'"
  using assms(1)
proof cases
  case (rotate old r)
  let ?rs = "map (\<lambda>x. if rt_id x = rt_id old \<and> \<not> rt_revoked x then x\<lparr>rt_revoked := True\<rparr> else x) rs"
  have fam: "rt_family_id r = rt_family_id old" "rt_family_id old \<noteq> None" using rotate assms(2) by (auto simp: families_ok_def)
  show ?thesis
    unfolding rotate(1)
  proof (rule families_issued)
    show "families_ok ?rs" using families_revoked [OF assms(2), of "\<lambda>x. rt_id x = rt_id old"] by simp
    have "rt_id ` set ?rs = rt_id ` set rs" unfolding set_map [symmetric] by (simp only: revoked_ids)
    then show "issued_row ?rs r" using rotate by (simp add: issued_row_def)
    show "filter (live_in f) ?rs = []" if f: "rt_family_id r = Some f" for f
    proof -
      have "rt_id x = rt_id old" if "x \<in> set rs" "live_in f x" for x
        using live_unique [OF assms(2) that(1) rotate(2) that(2)] rotate f fam by (simp add: live_in_def)
      then show ?thesis by (auto simp: live_revoked filter_empty_conv)
    qed
    show "rt_user_id x = rt_user_id r" if "x \<in> set ?rs" "rt_family_id x = rt_family_id r" for x
    proof -
      obtain y where y: "y \<in> set rs" "rt_family_id x = rt_family_id y" "rt_user_id x = rt_user_id y"
        using \<open>x \<in> set ?rs\<close> by auto
      have "owners_ok rs" using assms(2) by (simp add: families_ok_def)
      then show ?thesis using y rotate(2,5) fam \<open>rt_family_id x = rt_family_id r\<close> unfolding owners_ok_def by metis
    qed
  qed
next
  case (reap P)
  have "length (filter (live_in f) (filter P rs)) \<le> 1" for f
  proof -
    have "length (filter (live_in f) (filter P rs)) \<le> length (filter (live_in f) rs)" by (induction rs) auto
    then show ?thesis using assms(2) by (meson families_ok_def le_trans)
  qed
  moreover have "owners_ok (filter P rs)" by (rule owners_sub [of rs]) (use assms(2) in \<open>auto simp: families_ok_def\<close>)
  ultimately show ?thesis unfolding reap using assms(2) by (simp add: families_ok_def distinct_map_filter)
qed (use assms(2) families_revoked in auto)

lemma issued_ok:
  assumes "tokens_issued p q" "families_ok (tb_refresh_tokens p)" "fresh_family (tb_refresh_tokens p) (tb_refresh_tokens q)"
  shows "families_ok (tb_refresh_tokens q)"
  using assms(1) unfolding tokens_issued_def
proof
  assume "\<exists>r. issued_row (tb_refresh_tokens p) r \<and> tb_refresh_tokens q = tb_refresh_tokens p @ [r]"
  then obtain r where r: "issued_row (tb_refresh_tokens p) r" "tb_refresh_tokens q = tb_refresh_tokens p @ [r]" by blast
  have "rt_family_id r \<notin> rt_family_id ` set (tb_refresh_tokens p)"
    using assms(3) r by (auto simp: fresh_family_def issued_row_def)
  then show ?thesis
    unfolding r(2) by (intro families_issued [OF assms(2) r(1)]) (auto simp: filter_empty_conv live_in_def image_iff)
qed (use assms(2) in simp)

section \<open>Steps\<close>

lemma statement_tokens:
  "tb_refresh_tokens (fst (use_otp u d p)) = tb_refresh_tokens p"
  "upsert_identity u d ik sk pl nm p = (q, x) \<Longrightarrow> tb_refresh_tokens q = tb_refresh_tokens p"
  "tb_refresh_tokens (update_device u d f p) = tb_refresh_tokens p" "tb_refresh_tokens (start_grace u d now p) = tb_refresh_tokens p"
  "upsert_signed u d kid pk sg now p = (q, x) \<Longrightarrow> tb_refresh_tokens q = tb_refresh_tokens p"
  "tb_refresh_tokens (purge_signed u d now p) = tb_refresh_tokens p"
  "insert_otps u d ks p = (q, y) \<Longrightarrow> tb_refresh_tokens q = tb_refresh_tokens p"
  "tb_refresh_tokens (revoked_devices D u p) = tb_refresh_tokens p" "tb_refresh_tokens (update_user u g p) = tb_refresh_tokens p"
  by (auto simp: use_otp_def upsert_identity_def update_device_def start_grace_def upsert_signed_def purge_signed_def insert_otps_def
      revoked_devices_def drop_prekeys_def update_user_def split: option.splits if_splits)

lemma tx_store_bundle_tokens:
  "tx_sat (store_bundle E auth body b ik spk sg sk otps) (\<lambda>p x q. tb_refresh_tokens q = tb_refresh_tokens p)"
  unfolding store_bundle_def Let_def store_identity_key_def set_device_fingerprint_def store_signed_prekey_def
    store_one_time_prekeys_def
  by (rule tx_sat_mono, (rule tx_rules)+) (auto simp: statement_tokens split: if_splits dest!: statement_tokens(2,5,7))

lemma uses_otps_tokens: "uses_otps p q \<Longrightarrow> tb_refresh_tokens q = tb_refresh_tokens p"
  using uses_otps_pool [of p q] by auto

lemma rel_upload_tokens: "rel (upload_bundle E auth body) (\<lambda>p r q. tb_refresh_tokens q = tb_refresh_tokens p)"
  unfolding upload_bundle_def Let_def get_device_fingerprint_def get_identity_key_fingerprint_def count_identity_keys_def
  by (rule rel_mono, (rule rel_in_transaction tx_store_bundle_tokens rel_rules)+) (auto simp: tx_effect_def)

lemma rel_key_tokens: "rel (key_routes E auth req) (\<lambda>p r q. tb_refresh_tokens q = tb_refresh_tokens p)"
proof (cases req)
  case (UploadBundle body)
  show ?thesis unfolding UploadBundle key_routes.simps by (rule rel_upload_tokens)
next
  case (GetBundle u)
  show ?thesis unfolding GetBundle key_routes.simps by (rule rel_mono [OF rel_get_bundle]) (simp add: uses_otps_tokens)
next
  case (GetDeviceBundle u d)
  show ?thesis
    unfolding GetDeviceBundle key_routes.simps get_device_bundle_def
    by (rule rel_mono, (rule rel_fetch rel_respond rel_rules)+) (auto simp: uses_otps_tokens)
next
  case (GetAllBundles u)
  show ?thesis
    unfolding GetAllBundles key_routes.simps get_all_bundles_def
    by (rule rel_mono, (rule rel_fetch rel_rules)+) (auto simp: uses_otps_tokens)
next
  case (GetDevices u)
  show ?thesis
    unfolding GetDevices key_routes.simps get_devices_def get_user_devices_def by (rule rel_mono, (rule rel_rules)+) auto
next
  case (RevokeDevice d)
  show ?thesis
    unfolding RevokeDevice key_routes.simps revoke_device_def
    by (rule rel_mono, (rule rel_revoke rel_events rel_rules)+) (auto simp: statement_tokens)
next
  case (RenameDevice d name)
  show ?thesis
    unfolding RenameDevice key_routes.simps rename_device_def db_rename_device_def by (rule rel_mono, (rule rel_rules)+) auto
next
  case (RevokeOtherDevices d)
  show ?thesis
    unfolding RevokeOtherDevices key_routes.simps revoke_other_devices_def get_user_devices_def
    by (rule rel_mono, (rule rel_revoke_others rel_events rel_rules)+) (auto simp: statement_tokens)
next
  case (ResetKeys pw)
  show ?thesis
    unfolding ResetKeys key_routes.simps reset_keys_def clear_identity_key_fingerprint_def
    by (rule rel_mono, (rule rel_check_password rel_events rel_rules)+) (auto simp: statement_tokens)
next
  case (ResetDevice pw d)
  show ?thesis
    unfolding ResetDevice key_routes.simps reset_device_def
    by (rule rel_mono, (rule rel_check_password rel_in_transaction tx_reset_device rel_events rel_rules)+)
      (auto simp: tx_effect_def statement_tokens)
next
  case (GetOtpCount d)
  show ?thesis
    unfolding GetOtpCount key_routes.simps get_otp_count_def count_one_time_prekeys_def by (rule rel_mono, (rule rel_rules)+) auto
qed

text \<open>
  Sockets, key requests, requests on accounts and the periodic clean-up, one at a time. A family that
  registration or login draws at random is one that no token has.
\<close>

definition token_rows :: "('w, 'tx, 'n) AppState \<Rightarrow> RefreshTokenRow list" where
  "token_rows s = tb_refresh_tokens (st_pool s)"

inductive auth_step :: "('w, 'tx, 'n) srv_env \<Rightarrow> ('w, 'tx, 'n) AppState \<Rightarrow> ('w, 'tx, 'n) AppState \<Rightarrow> bool" for E where
  socket: "server_step E s t \<Longrightarrow> auth_step E s t"
| keys: "auth_step E s (exec (key_routes E auth req) s)"
| request: "t = exec (auth_routes E req) s \<Longrightarrow> grants req \<longrightarrow> fresh_family (token_rows s) (token_rows t) \<Longrightarrow> auth_step E s t"
| reap_tokens: "auth_step E s (exec (cleanup_expired_tokens E) s)"
| reap_resets: "auth_step E s (exec (cleanup_expired_password_reset_tokens E) s)"
| reap_prekeys: "auth_step E s (exec (cleanup_used_prekeys E) s)"

interpretation token_table: membership_predicate "\<lambda>p. tb_refresh_tokens p = rs" for rs
  by unfold_locales (simp_all add: direct_conversation_rows_def)

lemma rel_reap:
  "rel (cleanup_expired_tokens E) (\<lambda>p r q. tokens_change p q)"
  "rel (cleanup_expired_password_reset_tokens E) (\<lambda>p r q. tokens_change p q)" "rel (cleanup_used_prekeys E) (\<lambda>p r q. tokens_change p q)"
  unfolding cleanup_expired_tokens_def cleanup_expired_password_reset_tokens_def cleanup_used_prekeys_def
  by (rule rel_mono, (rule rel_rules)+, auto simp: tokens_change_def intro: token_change.same token_change.reap)+

lemma auth_step_rows:
  assumes "auth_step E s t"
  shows "token_change (token_rows s) (token_rows t) \<or>
    (tokens_issued (st_pool s) (st_pool t) \<and> fresh_family (token_rows s) (token_rows t))"
  using assms
proof cases
  case socket
  from token_table.server_step_keeps [OF this refl] show ?thesis by (simp add: token_rows_def token_change.same)
next
  case (keys auth req)
  then show ?thesis using relD [OF rel_key_tokens [of E auth req], of s] by (simp add: token_rows_def exec_def token_change.same)
next
  case (request req)
  then show ?thesis
    using relD [OF rel_auth_routes [of req E], of s] relD [OF rel_grants [of req E], of s]
    by (cases "grants req") (auto simp: token_rows_def exec_def tokens_change_def)
next
  case reap_tokens
  then show ?thesis using relD [OF rel_reap(1) [of E], of s] by (simp add: token_rows_def exec_def tokens_change_def)
next
  case reap_resets
  then show ?thesis using relD [OF rel_reap(2) [of E], of s] by (simp add: token_rows_def exec_def tokens_change_def)
next
  case reap_prekeys
  then show ?thesis using relD [OF rel_reap(3) [of E], of s] by (simp add: token_rows_def exec_def tokens_change_def)
qed

lemma auth_step_families: "auth_step E s t \<Longrightarrow> families_ok (token_rows s) \<Longrightarrow> families_ok (token_rows t)"
  using auth_step_rows [of E s t] token_change_ok issued_ok [of "st_pool s" "st_pool t"] by (auto simp: token_rows_def)

text \<open>
  C7: in every state that the server reaches, whatever the database answers, a family has at most
  one refresh token that is not revoked, and all its tokens belong to the same user.
\<close>

theorem refresh_families_invariant:
  assumes "(auth_step E)\<^sup>*\<^sup>* s0 s" and "families_ok (token_rows s0)"
  shows "(\<forall>f. length (filter (\<lambda>r. rt_family_id r = Some f \<and> \<not> rt_revoked r) (tb_refresh_tokens (st_pool s))) \<le> 1) \<and>
    (\<forall>r\<in>set (tb_refresh_tokens (st_pool s)). \<forall>r'\<in>set (tb_refresh_tokens (st_pool s)).
       rt_family_id r = rt_family_id r' \<longrightarrow> rt_user_id r = rt_user_id r')"
proof -
  have "families_ok (token_rows s)"
    using assms by (induction rule: rtranclp_induct) (auto intro: auth_step_families)
  then show ?thesis unfolding families_ok_def owners_ok_def live_in_def [abs_def] token_rows_def by blast
qed

section \<open>A refresh token is redeemed once\<close>

definition quiet :: "('w, 'tx, 'n) srv_env \<Rightarrow> string \<Rightarrow> ('w, 'tx, 'n) AppState \<Rightarrow> ('w, 'tx, 'n) AppState \<Rightarrow> bool" where
  "quiet E h s t \<longleftrightarrow> auth_step E s t \<and>
     (\<forall>r\<in>set (token_rows t). rt_token_hash r = h \<longrightarrow> rt_id r \<in> rt_id ` set (token_rows s))"

definition spent :: "string \<Rightarrow> RefreshTokenRow list \<Rightarrow> bool" where
  "spent h rs \<longleftrightarrow> (\<forall>r\<in>set rs. rt_token_hash r = h \<longrightarrow> rt_revoked r)"

lemma token_change_spent:
  assumes "token_change rs rs'" "spent h rs" "\<And>r. r \<in> set rs' \<Longrightarrow> rt_token_hash r = h \<Longrightarrow> rt_id r \<in> rt_id ` set rs"
  shows "spent h rs'"
  using assms(1)
proof cases
  case (rotate old r)
  have "rt_token_hash r \<noteq> h" using assms(3) [of r] rotate by (auto simp: issued_row_def)
  then show ?thesis using assms(2) rotate by (auto simp: spent_def)
qed (use assms(2) in \<open>auto simp: spent_def\<close>)

lemma quiet_spent: "quiet E h s t \<Longrightarrow> spent h (token_rows s) \<Longrightarrow> spent h (token_rows t)"
proof -
  assume q: "quiet E h s t" and sp: "spent h (token_rows s)"
  have known: "\<And>r. r \<in> set (token_rows t) \<Longrightarrow> rt_token_hash r = h \<Longrightarrow> rt_id r \<in> rt_id ` set (token_rows s)"
    using q by (simp add: quiet_def)
  from q have "auth_step E s t" by (simp add: quiet_def)
  from auth_step_rows [OF this] show ?thesis
  proof
    assume "token_change (token_rows s) (token_rows t)"
    then show ?thesis using sp known by (rule token_change_spent)
  next
    assume "tokens_issued (st_pool s) (st_pool t) \<and> fresh_family (token_rows s) (token_rows t)"
    then consider "token_rows t = token_rows s" | r where "issued_row (token_rows s) r" "token_rows t = token_rows s @ [r]"
      by (auto simp: tokens_issued_def token_rows_def)
    then show ?thesis
    proof cases
      case 2
      then have "rt_token_hash r \<noteq> h" using known [of r] by (auto simp: issued_row_def)
      then show ?thesis using sp 2 by (auto simp: spent_def)
    qed (use sp in simp)
  qed
qed

lemma rel_refresh_answer:
  "rel (refresh E ori cookie body) (\<lambda>p r q. (\<forall>x. r = Inr x \<longrightarrow> (\<exists>raw row h'. presented cookie body = Some raw \<and>
     rotated (hash_refresh_token E raw) p row h' q)))"
proof -
  have answer: "rel (case x of (u, raw) \<Rightarrow> bind_ok (create_token E u) (\<lambda>a.
      bind_ok (db_ctx (query E (\<lambda>p. (p, case user p u of Some r \<Rightarrow> Inr (us_is_admin r) | None \<Rightarrow> Inl RowNotFound)))) (\<lambda>admin.
      ok (g u raw a admin)))) (\<lambda>p r q. q = p)" for x g
    by (rule rel_split, rule rel_mono, (rule rel_unchanged(1) rel_rules)+) auto
  show ?thesis
    unfolding refresh_def
    by (rule rel_mono, (rule rel_strict_transaction tx_refresh strict_refresh answer rel_rules)+)
      (auto simp: tx_answer_def refreshed_def split: sum.splits, blast)
qed

lemma rotated_spent:
  assumes rot: "rotated h p row h' q" and once: "distinct (map rt_token_hash (tb_refresh_tokens p))"
    and new: "\<And>r. r \<in> set (tb_refresh_tokens q) \<Longrightarrow> rt_token_hash r = h \<Longrightarrow> rt_id r \<in> rt_id ` set (tb_refresh_tokens p)"
  shows "spent h (tb_refresh_tokens q)"
proof -
  obtain r where r: "issued_row (tb_refresh_tokens p) r" and q: "tb_refresh_tokens q = tb_refresh_tokens (revoke_where (\<lambda>r. rt_id r = rt_id row) p) @ [r]"
    and row: "refresh_row h p = Some row" using rot unfolding rotated_def by blast
  have inj: "inj_on rt_token_hash (set (tb_refresh_tokens p))" using once by (simp add: distinct_map)
  have only: "x = row" if "x \<in> set (tb_refresh_tokens p)" "rt_token_hash x = h" for x
    using inj_onD [OF inj, of x row] refresh_row_mem [OF row] that by simp
  have "rt_token_hash r \<noteq> h" using new [of r] r by (auto simp: q issued_row_def)
  then show ?thesis unfolding spent_def q revoke_where_rows using only by auto
qed

text \<open>
  C8: a refresh token that was redeemed is refused ever after, whatever the database answered in
  between, as long as no new token happens to have the same hash: neither a second client that
  holds a copy nor a replay of the request gets a session.
\<close>

theorem refresh_token_redeemed_once:
  assumes "run_state (refresh E o1 c1 b1) s = (Inr x, t)" and "presented c1 b1 = Some raw"
    and "distinct (map rt_token_hash (tb_refresh_tokens (st_pool s)))"
    and "\<forall>r\<in>set (tb_refresh_tokens (st_pool t)). rt_token_hash r = hash_refresh_token E raw \<longrightarrow>
      rt_id r \<in> rt_id ` set (tb_refresh_tokens (st_pool s))"
    and "(quiet E (hash_refresh_token E raw))\<^sup>*\<^sup>* t t'" and "presented c2 b2 = Some raw"
  shows "\<exists>e. fst (run_state (refresh E o2 c2 b2) t') = Inl e"
proof -
  let ?h = "hash_refresh_token E raw"
  obtain row h' where "rotated ?h (st_pool s) row h' (st_pool t)"
    using relD [OF rel_refresh_answer [of E o1 c1 b1], of s] assms(1,2) by auto
  then have "spent ?h (token_rows t)"
    unfolding token_rows_def by (rule rotated_spent [OF _ assms(3)]) (use assms(4) in blast)
  with assms(5) have sp: "spent ?h (token_rows t')"
    by (induction rule: rtranclp_induct) (auto intro: quiet_spent)
  have "\<not> rotated ?h (st_pool t') row' h'' q" for row' h'' q
    using sp refresh_row_mem [of ?h "st_pool t'" row'] by (auto simp: spent_def rotated_def token_rows_def)
  then have "fst (run_state (refresh E o2 c2 b2) t') \<noteq> Inr y" for y
    using relD [OF rel_refresh_answer [of E o2 c2 b2], of t'] assms(6) by (metis option.inject)
  then show ?thesis by (cases "fst (run_state (refresh E o2 c2 b2) t')") auto
qed

text \<open>User 1 holds the refresh token \<open>a\<close>.\<close>

definition ref_token_row :: "string \<Rightarrow> bool \<Rightarrow> RefreshTokenRow" where
  "ref_token_row h b = \<lparr>rt_id = 1, rt_user_id = 1, rt_token_hash = h, rt_expires_at = 10, rt_created_at = 0, rt_revoked = b,
     rt_family_id = Some 2\<rparr>"

definition ref_auth_state :: "((nat \<times> WsMessage) list \<times> nat, nat, unit) AppState" where
  "ref_auth_state = ref_state ((ref_pool False)\<lparr>tb_refresh_tokens := [ref_token_row ''61'' False]\<rparr>)"

theorem refresh_token_redeemed_once_witness:
  "let m = refresh ref_srv NoOrigin (Some ''a'') None; t = exec m ref_auth_state
   in is_ok (fst (run_state m ref_auth_state)) \<and> map rt_revoked (token_rows t) = [True, False] \<and> (\<exists>e. fst (run_state m t) = Inl e)"
proof -
  let ?m = "refresh ref_srv NoOrigin (Some ''a'') None"
  let ?t = "exec ?m ref_auth_state"
  have ok: "is_ok (fst (run_state ?m ref_auth_state)) \<and> map rt_revoked (token_rows ?t) = [True, False]" by code_simp
  then obtain x where x: "run_state ?m ref_auth_state = (Inr x, ?t)"
    by (cases "run_state ?m ref_auth_state"; cases "fst (run_state ?m ref_auth_state)") (auto simp: exec_def)
  have p: "presented (Some ''a'') None = Some ''a''" by code_simp
  have d: "distinct (map rt_token_hash (tb_refresh_tokens (st_pool ref_auth_state)))" by code_simp
  have n: "\<forall>r\<in>set (tb_refresh_tokens (st_pool ?t)). rt_token_hash r = hash_refresh_token ref_srv ''a'' \<longrightarrow>
      rt_id r \<in> rt_id ` set (tb_refresh_tokens (st_pool ref_auth_state))" by code_simp
  show ?thesis
    unfolding Let_def using ok refresh_token_redeemed_once [OF x p d n rtranclp.rtrancl_refl p] by blast
qed

theorem refresh_families_invariant_witness:
  "let t = exec (auth_routes ref_srv (Refresh NoOrigin (Some ''a'') None)) ref_auth_state
   in map (\<lambda>r. (rt_family_id r, rt_revoked r)) (token_rows t) = [(Some 2, True), (Some 2, False)] \<and>
      length (filter (\<lambda>r. rt_family_id r = Some 2 \<and> \<not> rt_revoked r) (tb_refresh_tokens (st_pool t))) \<le> 1"
proof -
  let ?t = "exec (auth_routes ref_srv (Refresh NoOrigin (Some ''a'') None)) ref_auth_state"
  have init: "families_ok (token_rows ref_auth_state)"
    by (auto simp: families_ok_def owners_ok_def live_in_def token_rows_def ref_auth_state_def ref_state_def ref_token_row_def)
  have step: "(auth_step ref_srv)\<^sup>*\<^sup>* ref_auth_state ?t"
    by (rule r_into_rtranclp, rule auth_step.request [OF refl]) simp
  have "map (\<lambda>r. (rt_family_id r, rt_revoked r)) (token_rows ?t) = [(Some 2, True), (Some 2, False)]" by code_simp
  then show ?thesis unfolding Let_def using refresh_families_invariant [OF step init] by blast
qed

section \<open>A copy that is presented again ends the session\<close>

definition db_up :: "('w, 'tx, 'n) srv_env \<Rightarrow> bool" where
  "db_up E \<longleftrightarrow> (\<forall>w. snd (sv_db E w) = DbOk)"

lemma healthy_db: "db_up E \<Longrightarrow> \<exists>w'. sv_db E w = (w', DbOk)"
  by (metis db_up_def prod.collapse)

lemma healthy_query:
  assumes "db_up E"
  obtains w where "run_state (query E f) s = (snd (f (st_pool s)), s\<lparr>st_world := w, st_pool := fst (f (st_pool s))\<rparr>)"
proof -
  obtain w where "sv_db E (st_world s) = (w, DbOk)" using healthy_db [OF assms] by blast
  then show ?thesis using that by (simp add: query_def draw_def gets_def modify_def)
qed

lemma healthy_tx_query:
  assumes "db_up E" "f p = (q, Inr x)"
  obtains w where "run_state (tx_query E f) (Some p, s) = (Inr x, Some q, s\<lparr>st_world := w\<rparr>)"
proof -
  obtain w where "sv_db E (st_world s) = (w, DbOk)" using healthy_db [OF assms(1)] by blast
  then show ?thesis using that assms(2) by (simp add: tx_query_def)
qed

lemma healthy_transaction:
  assumes "db_up E" "\<And>s. st_pool s = p \<Longrightarrow> \<exists>w. run_state body (Some p, s) = (Inr (Commit x), Some q, s\<lparr>st_world := w\<rparr>)"
    "st_pool s = p"
  shows "\<exists>w. run_state (in_transaction E f body) s = (Inr x, s\<lparr>st_world := w, st_pool := q\<rparr>)"
proof -
  obtain w0 where w0: "run_state (select E (\<lambda>_. ())) s = (Inr (), s\<lparr>st_world := w0\<rparr>)"
    unfolding select_def by (rule healthy_query [OF assms(1), of "\<lambda>p. (p, Inr ())" s]) simp
  obtain w1 where w1: "run_state body (Some p, s\<lparr>st_world := w0\<rparr>) = (Inr (Commit x), Some q, s\<lparr>st_world := w1\<rparr>)"
    using assms(2) [of "s\<lparr>st_world := w0\<rparr>"] assms(3) by auto
  obtain w2 where w2: "run_state (execute E (\<lambda>_. q)) (s\<lparr>st_world := w1\<rparr>) = (Inr (), s\<lparr>st_world := w2, st_pool := q\<rparr>)"
    unfolding execute_def by (rule healthy_query [OF assms(1), of "\<lambda>p. (q, Inr ())" "s\<lparr>st_world := w1\<rparr>"]) simp
  show ?thesis using w0 w1 w2 assms(3) by (auto simp: in_transaction_def run_tx_def tx_finish_def)
qed



end
