(* ===== verification/Srv_AuthSessions.thy ===== *)
theory Srv_AuthSessions
  imports Srv_AuthServer
begin

text \<open>
  What the requests on accounts and keys keep in memory: the floor of the access tokens and the
  WebSocket tickets; and what a login tells about the accounts.
\<close>

section \<open>Predicates on the memory\<close>

definition on_memory ::
  "((Uuid, int) hmap \<Rightarrow> (string, Uuid \<times> device_id \<times> instant) hmap \<Rightarrow> bool) \<Rightarrow> ('w, 'tx, 'n) AppState \<Rightarrow> bool" where
  "on_memory Q s \<longleftrightarrow> Q (st_min_iat s) (st_ticket_store s)"

named_theorems memory_intros "what leaves the floors and the tickets alone"

lemma memory_draw [memory_intros]: "keeps (on_memory Q) (draw f)"
  by (auto simp: keeps_def draw_def on_memory_def split: prod.split)

lemma memory_on_hub [memory_intros]: "keeps (on_memory Q) (on_hub f)"
  by (auto simp: keeps_def on_hub_def on_memory_def split: prod.split)

lemma memory_query [memory_intros]: "keeps (on_memory Q) (query E f)" "keeps (on_memory Q) (select E g)" "keeps (on_memory Q) (execute E k)"
  by (auto simp: keeps_wp select_def execute_def query_def wp_simps on_memory_def split: prod.split)

lemma memory_modify: "(\<And>s. on_memory Q s \<Longrightarrow> on_memory Q (f s)) \<Longrightarrow> keeps (on_memory Q) (modify f)"
  by (simp add: keeps_wp wp_simps)

lemma memory_transaction:
  assumes "tx_sat body R"
  shows "keeps (on_memory Q) (in_transaction E f body)"
  unfolding keeps_wp by (intro allI impI wp_in_transaction [OF assms]) (simp add: on_memory_def)

lemma memory_events [memory_intros]:
  "keeps (on_memory Q) (send_event E u ev)" "keeps (on_memory Q) (broadcast_peer_keys_published E u d)"
  unfolding send_event_def broadcast_peer_keys_published_def hub_send_to_user_def
  by (intro keeps_intros memory_intros)+

lemma memory_wrap [memory_intros]:
  "keeps (on_memory Q) m \<Longrightarrow> keeps (on_memory Q) (db_try m)" "keeps (on_memory Q) m \<Longrightarrow> keeps (on_memory Q) (db_try_user m)"
  "keeps (on_memory Q) (from_result r)" "keeps (on_memory Q) m' \<Longrightarrow> keeps (on_memory Q) (answered m')"
  unfolding db_try_def db_try_user_def from_result_def answered_def by (intro keeps_intros; assumption)+

section \<open>The floor of the access tokens\<close>

definition floor_at_least :: "Uuid \<Rightarrow> int \<Rightarrow> (Uuid, int) hmap \<Rightarrow> bool" where
  "floor_at_least u n m \<longleftrightarrow> (\<exists>k. hm_get m u = Some k \<and> n \<le> k)"

lemma raise_floor_keeps: "floor_at_least u n m \<Longrightarrow> floor_at_least u n (raise_floor v now m)"
  by (auto simp: floor_at_least_def raise_floor_def hm_simps split: option.split)

lemma raise_floor_raises: "floor_at_least u now (raise_floor u now m)"
  by (auto simp: floor_at_least_def raise_floor_def hm_simps split: option.split)

lemma invalidate_keeps: "keeps (on_memory (\<lambda>m t. floor_at_least u n m)) (invalidate E v)"
  unfolding invalidate_def
  by (intro keeps_intros memory_intros memory_modify) (simp add: on_memory_def raise_floor_keeps)

text \<open>Requests change the memory through \<open>invalidate\<close> and the handlers of the tickets alone.\<close>

lemma memory_fetch [memory_intros]:
  "keeps (on_memory Q) (get_prekey_bundle E u d)" "keeps (on_memory Q) (get_all_prekey_bundles E u)" "keeps (on_memory Q) (respond_bundle E b)"
proof -
  have each: "keeps (on_memory Q) (consume_each E u cs)" for cs
    by (induction cs) (auto intro!: keeps_intros memory_intros)
  show "keeps (on_memory Q) (get_prekey_bundle E u d)" "keeps (on_memory Q) (get_all_prekey_bundles E u)" "keeps (on_memory Q) (respond_bundle E b)"
    unfolding get_prekey_bundle_def get_all_prekey_bundles_def respond_bundle_def by (intro keeps_intros memory_intros each)+
qed

lemma memory_transactions [memory_intros]:
  "keeps (on_memory Q) (db_revoke_device E u d)" "keeps (on_memory Q) (revoke_devices_except E u d)"
  "keeps (on_memory Q) (in_transaction E f (refresh_tx E h))" "keeps (on_memory Q) (in_transaction E f' (reset_password_tx E token u h))"
  "keeps (on_memory Q) (in_transaction E f' (reset_device_tx E u d))"
  "keeps (on_memory Q) (in_transaction E f' (store_bundle E u body b ik spk sg sk otps))"
  unfolding db_revoke_device_def revoke_devices_except_def
  by (rule memory_transaction, (rule tx_revoke tx_refresh tx_reset_password tx_reset_device tx_store_bundle tx_rules)+)+

lemma memory_keys:
  assumes inv: "\<And>v. keeps (on_memory Q) (invalidate E v)"
  shows "keeps (on_memory Q) (key_routes E auth req)"
proof (cases req)
  case (UploadBundle body)
  show ?thesis
    unfolding UploadBundle key_routes.simps upload_bundle_def Let_def get_device_fingerprint_def get_identity_key_fingerprint_def
      count_identity_keys_def
    by (intro keeps_intros memory_intros)
next
  case (RevokeDevice d)
  show ?thesis
    unfolding RevokeDevice key_routes.simps revoke_device_def
    by (intro keeps_intros memory_intros inv)
next
  case (RevokeOtherDevices d)
  show ?thesis
    unfolding RevokeOtherDevices key_routes.simps revoke_other_devices_def get_user_devices_def
    by (intro keeps_intros memory_intros inv)
next
  case (ResetDevice pw d)
  show ?thesis
    unfolding ResetDevice key_routes.simps reset_device_def check_password_def find_by_id_def
    by (intro keeps_intros memory_intros inv)
qed (simp_all add: get_bundle_def get_device_bundle_def get_all_bundles_def get_devices_def rename_device_def reset_keys_def get_otp_count_def
    check_password_def find_by_id_def get_first_active_device_id_def get_user_devices_def db_rename_device_def Let_def
    clear_identity_key_fingerprint_def count_one_time_prekeys_def keeps_intros memory_intros)

lemma memory_token_parts [memory_intros]:
  "keeps (on_memory Q) (create_token E u)" "keeps (on_memory Q) (auth_user E hdr)" "keeps (on_memory Q) (hash_password E pw)"
  "keeps (on_memory Q) (verify_password E pw h)" "keeps (on_memory Q) (issue_refresh_token E u)"
  unfolding create_token_def auth_user_def validate_token_def hash_password_def verify_password_def issue_refresh_token_def
    store_refresh_token_def Let_def
  by (intro keeps_intros memory_intros)+

lemma memory_auth:
  assumes inv: "\<And>v. keeps (on_memory Q) (invalidate E v)"
    and tickets: "\<And>u b. keeps (on_memory Q) (ws_ticket E u b)" "\<And>t. keeps (on_memory Q) (ws_upgrade E t)"
  shows "keeps (on_memory Q) (auth_routes E req)"
proof -
  have failed: "keeps (on_memory Q) (modify (\<lambda>s. s\<lparr>st_failed_logins := st_failed_logins s + 1\<rparr>))"
    by (rule memory_modify) (simp add: on_memory_def)
  show ?thesis
  proof (cases req)
    case (Register body)
    show ?thesis
      unfolding Register auth_routes.simps register_account_def create_user_def by (intro keeps_intros memory_intros)
  next
    case (Login body)
    show ?thesis
      unfolding Login auth_routes.simps login_def find_by_username_def by (intro keeps_intros keeps_bool memory_intros failed)
  next
    case (Refresh ori cookie body)
    show ?thesis
      unfolding Refresh auth_routes.simps refresh_def by (intro keeps_intros memory_intros)
  next
    case (Logout ori hdr)
    show ?thesis
      unfolding Logout auth_routes.simps logout_def revoke_all_user_tokens_def by (intro keeps_intros memory_intros inv)
  next
    case (ForgotPassword name)
    show ?thesis
      unfolding ForgotPassword auth_routes.simps forgot_password_def find_by_username_def by (intro keeps_intros memory_intros)
  next
    case (ResetPassword token pw)
    show ?thesis
      unfolding ResetPassword auth_routes.simps reset_password_def find_token_def
      by (intro keeps_intros memory_intros inv)
  next
    case (ChangePassword hdr old new)
    show ?thesis
      unfolding ChangePassword auth_routes.simps change_password_def find_by_id_def update_password_def revoke_all_user_tokens_def
      by (intro keeps_intros memory_intros inv)
  qed (simp_all add: keeps_intros memory_intros tickets)
qed

section \<open>Steps\<close>

inductive session_step :: "('w, 'tx, 'n) srv_env \<Rightarrow> ('w, 'tx, 'n) AppState \<Rightarrow> ('w, 'tx, 'n) AppState \<Rightarrow> bool" for E where
  keys: "session_step E s (exec (key_routes E auth req) s)"
| account: "session_step E s (exec (auth_routes E areq) s)"
| reap_tokens: "session_step E s (exec (cleanup_expired_tokens E) s)"
| reap_resets: "session_step E s (exec (cleanup_expired_password_reset_tokens E) s)"
| reap_prekeys: "session_step E s (exec (cleanup_used_prekeys E) s)"

lemma session_step_keeps:
  assumes inv: "\<And>v. keeps (on_memory Q) (invalidate E v)"
    and tickets: "\<And>u b. keeps (on_memory Q) (ws_ticket E u b)" "\<And>t. keeps (on_memory Q) (ws_upgrade E t)"
    and run: "(session_step E)\<^sup>*\<^sup>* s t" and "on_memory Q s"
  shows "on_memory Q t"
  using run
proof (induction rule: rtranclp_induct)
  case (step t t')
  have reap: "keeps (on_memory Q) (cleanup_expired_tokens E)" "keeps (on_memory Q) (cleanup_expired_password_reset_tokens E)"
    "keeps (on_memory Q) (cleanup_used_prekeys E)"
    unfolding cleanup_expired_tokens_def cleanup_expired_password_reset_tokens_def cleanup_used_prekeys_def
    by (intro keeps_intros memory_intros)+
  have "on_memory Q (exec m t)" if "keeps (on_memory Q) m" for m :: "('a, 'b, 'c, 'd) act"
    using keeps_run [OF that step.IH] by (simp add: exec_def)
  note kept = this [OF memory_keys [OF inv]] this [OF memory_auth [OF inv tickets]] this [OF reap(1)] this [OF reap(2)] this [OF reap(3)]
  from step.hyps(2) show ?case by cases (simp_all add: kept)
qed (rule assms(5))

lemma tickets_keep_floor:
  "keeps (on_memory (\<lambda>m t. P m)) (ws_ticket E u b)" "keeps (on_memory (\<lambda>m t. P m)) (ws_upgrade E tk)"
  unfolding ws_ticket_def ws_upgrade_def retain_tickets_def find_by_id_def
  by (intro keeps_intros memory_intros memory_modify; simp add: on_memory_def)+



section \<open>WebSocket tickets\<close>

lemma tickets_bounded:
  "keeps (on_memory (\<lambda>m t. length t \<le> MAX_TICKETS)) (ws_ticket E u b)" "keeps (on_memory (\<lambda>m t. length t \<le> MAX_TICKETS)) (ws_upgrade E tk)"
proof -
  have ins: "length (hm_insert k v m) \<le> MAX_TICKETS" if "length m < MAX_TICKETS" for k v and m :: "(string, Uuid \<times> device_id \<times> instant) hmap"
    using hm.size_put_le [of k v m] that by simp
  have ret: "length (hm_retain P m) \<le> MAX_TICKETS" if "length m \<le> MAX_TICKETS" for P and m :: "(string, Uuid \<times> device_id \<times> instant) hmap"
    using hm_retain_size_le [of P m] that by simp
  show "keeps (on_memory (\<lambda>m t. length t \<le> MAX_TICKETS)) (ws_ticket E u b)"
    unfolding ws_ticket_def keeps_wp
    by (auto simp: wp_simps wp_bind_ok on_memory_def retain_tickets_def ret ins split: prod.split)
  show "keeps (on_memory (\<lambda>m t. length t \<le> MAX_TICKETS)) (ws_upgrade E tk)"
    unfolding ws_upgrade_def find_by_id_def retain_tickets_def
    by (intro keeps_intros memory_intros memory_modify; simp add: on_memory_def ret le_trans [OF hm.size_del_le])
qed

text \<open>
  however many tickets are requested, the store holds at most 10000.
\<close>

theorem ws_tickets_bounded:
  assumes "(session_step E)\<^sup>*\<^sup>* s0 s" and "length (st_ticket_store s0) \<le> MAX_TICKETS"
  shows "length (st_ticket_store s) \<le> 10000"
proof -
  have "keeps (on_memory (\<lambda>m t. length t \<le> MAX_TICKETS)) (invalidate E v)" for v
    unfolding invalidate_def by (intro keeps_intros memory_intros memory_modify) (simp add: on_memory_def)
  from session_step_keeps [OF this tickets_bounded assms(1)] assms(2) show ?thesis by (simp add: on_memory_def MAX_TICKETS_def)
qed

theorem ws_tickets_bounded_witness:
  "let t = exec (auth_routes ref_srv (WsTicket (Some ''Bearer x'') (Some 3))) ref_auth_state
   in st_ticket_store t = [([], 1, 3, 0)] \<and> length (st_ticket_store t) \<le> 10000"
proof -
  let ?t = "exec (auth_routes ref_srv (WsTicket (Some ''Bearer x'') (Some 3))) ref_auth_state"
  have run: "(session_step ref_srv)\<^sup>*\<^sup>* ref_auth_state ?t" by (rule r_into_rtranclp) (rule session_step.account)
  have init: "length (st_ticket_store ref_auth_state) \<le> MAX_TICKETS" by (simp add: ref_auth_state_def ref_state_def)
  have "st_ticket_store ?t = [([], 1, 3, 0)]" by code_simp
  then show ?thesis unfolding Let_def using ws_tickets_bounded [OF run init] by blast
qed

text \<open>
  C24: a WebSocket is opened only with a ticket that was issued less than 30 seconds ago, for the
  user and device that it was issued to, and the ticket is gone afterwards: presented again, it
  is refused.
\<close>

theorem ws_ticket_single_use:
  fixes E :: "('w, 'tx, 'n) srv_env"
  assumes "run_state (ws_upgrade E ticket) s = (Inr (u, d, name), t)" and "we_instant_now (sv_ws E) (st_world s) = (w, now)"
  shows "(\<exists>since. hm_get (st_ticket_store s) ticket = Some (u, d, since) \<and> now - since < 30 * nanos_per_sec) \<and>
    (\<exists>e. fst (run_state (ws_upgrade E ticket) t) = Inl e)"
proof -
  obtain since where since: "hm_get (st_ticket_store s) ticket = Some (u, d, since)" "ticket_fresh now (u, d, since)"
    using assms
    by (auto simp: ws_upgrade_def draw_def gets_def modify_def fail_def bind_ok_def ok_or_def ok_def retain_tickets_def
        split: option.splits if_splits prod.splits sum.splits)
  have find: "keeps (on_memory (\<lambda>m ts. hm_get ts ticket = None)) (db_ctx (find_by_id E u) :: ('w, 'tx, 'n, 'n AppError + UserRow option) act)"
    unfolding find_by_id_def by (intro keeps_intros memory_intros)
  have "on_memory (\<lambda>m ts. hm_get ts ticket = None) t"
  proof -
    let ?s1 = "s\<lparr>st_world := w, st_ticket_store := hm_remove ticket (st_ticket_store s)\<rparr>"
    have "on_memory (\<lambda>m ts. hm_get ts ticket = None) ?s1" by (simp add: on_memory_def hm_simps)
    then have "on_memory (\<lambda>m ts. hm_get ts ticket = None) (snd (run_state (db_ctx (find_by_id E u) :: ('w, 'tx, 'n, 'n AppError + UserRow option) act) ?s1))"
      by (rule keeps_run [OF find])
    moreover have "t = snd (run_state (db_ctx (find_by_id E u) :: ('w, 'tx, 'n, 'n AppError + UserRow option) act) ?s1)"
      using assms since
      by (auto simp: ws_upgrade_def draw_def gets_def modify_def fail_def bind_ok_def ok_or_def ok_def
          split: option.splits prod.splits sum.splits)
    ultimately show ?thesis by simp
  qed
  then have gone: "hm_get (st_ticket_store t) ticket = None" by (simp add: on_memory_def)
  obtain w' now' where "we_instant_now (sv_ws E) (st_world t) = (w', now')" by fastforce
  then have "fst (run_state (ws_upgrade E ticket) t) = Inl (unauthorized ''Invalid or expired WebSocket ticket'')"
    using gone by (simp add: ws_upgrade_def draw_def gets_def modify_def fail_def)
  then show ?thesis using since by (simp add: ticket_fresh_def TICKET_TTL_def duration_since_def)
qed

theorem ws_ticket_single_use_witness:
  "let s = ref_auth_state\<lparr>st_ticket_store := [(''k'', 1, 3, 0)]\<rparr>; m = ws_upgrade ref_srv ''k'' in
   fst (run_state m s) = Inr (1, 3, ''u'') \<and> (\<exists>e. fst (run_state m (exec m s)) = Inl e)"
proof -
  let ?s = "ref_auth_state\<lparr>st_ticket_store := [(''k'', 1, 3, 0)]\<rparr>" and ?m = "ws_upgrade ref_srv ''k''"
  have "fst (run_state ?m ?s) = Inr (1, 3, ''u'')" by code_simp
  then have run: "run_state ?m ?s = (Inr (1, 3, ''u''), exec ?m ?s)" by (metis exec_def prod.collapse)
  have clock: "we_instant_now (sv_ws ref_srv) (st_world ?s) = (st_world ?s, 0)" by (simp add: ref_srv_def)
  show ?thesis unfolding Let_def using run ws_ticket_single_use [OF run clock] by simp
qed

section \<open>What a login reveals\<close>

text \<open>
  a login with the name of nobody and a login with a wrong password end in the same answer and
  the same state of the server, in every environment in which the hash that stands in for a missing
  user can be checked at all; and a forgotten password is answered alike for every name.
\<close>

theorem login_reveals_no_account:
  assumes "find (\<lambda>u. us_username u = nobody) (tb_users (st_pool s)) = None"
    and "find (\<lambda>u. us_username u = somebody) (tb_users (st_pool s)) = Some row"
    and "sv_verify_password E pw (us_password_hash row) = Some False" and "sv_verify_password E pw DUMMY_HASH = Some b"
  shows "run_state (login E \<lparr>aq_username = nobody, aq_password = pw\<rparr>) s = run_state (login E \<lparr>aq_username = somebody, aq_password = pw\<rparr>) s \<and>
    fst (run_state (forgot_password E nobody) s) = fst (run_state (forgot_password E somebody) s)"
proof -
  have answer: "fst (run_state (forgot_password E n) s) = Inr (200, Some (JObject [(''ok'', JBool True)]))" for n
    by (simp add: forgot_password_def ok_def split: prod.split)
  obtain w out where "sv_db E (st_world s) = (w, out)" by fastforce
  then show ?thesis
    using assms answer
    by (cases out) (simp_all add: login_def find_by_username_def select_def query_def db_try_def verify_password_def draw_def gets_def
        modify_def bind_ok_def ok_or_def ok_def fail_def)
qed

theorem login_reveals_no_account_witness:
  "run_state (login ref_srv \<lparr>aq_username = ''v'', aq_password = ''no''\<rparr>) (ref_state (ref_pool False)) =
   run_state (login ref_srv \<lparr>aq_username = ''u'', aq_password = ''no''\<rparr>) (ref_state (ref_pool False))"
proof -
  let ?row = "hd (tb_users (ref_pool False))"
  have 1: "find (\<lambda>u. us_username u = ''v'') (tb_users (st_pool (ref_state (ref_pool False)))) = None"
    and 2: "find (\<lambda>u. us_username u = ''u'') (tb_users (st_pool (ref_state (ref_pool False)))) = Some ?row"
    and 3: "sv_verify_password ref_srv ''no'' (us_password_hash ?row) = Some False"
    and 4: "sv_verify_password ref_srv ''no'' DUMMY_HASH = Some False"
    by (simp_all add: ref_state_def ref_pool_def ref_srv_def DUMMY_HASH_def)
  from login_reveals_no_account [OF 1 2 3 4] show ?thesis by blast
qed


section \<open>Password resets\<close>

lemma rel_reset_answer:
  "rel (reset_password E token pw) (\<lambda>p r q. \<forall>x. r = Inr x \<longrightarrow> (\<exists>row now h.
     hm_get (tb_reset_tokens p) token = Some row \<and> pr_used_at row = None \<and>
     q = revoke_where (\<lambda>r. rt_user_id r = pr_user_id row) (consume token now (set_password (pr_user_id row) h p))))"
  unfolding reset_password_def find_token_def
  by (rule rel_mono, (rule rel_strict_transaction tx_reset_password strict_reset_password rel_events rel_unchanged rel_rules)+)
    (auto simp: tx_answer_def split: sum.splits)

lemma consume_used: "hm_get (tb_reset_tokens p) token = Some row \<Longrightarrow>
  hm_get (tb_reset_tokens (consume token now p)) token = Some (row\<lparr>pr_used_at := Some now\<rparr>)"
  by (simp add: consume_def hm_simps)

lemma consume_elsewhere [simp]:
  "tb_users (consume token now p) = tb_users p" "tb_refresh_tokens (consume token now p) = tb_refresh_tokens p"
  by (simp_all add: consume_def split: option.split)


definition ref_reset_state :: "((nat \<times> WsMessage) list \<times> nat, nat, unit) AppState" where
  "ref_reset_state = ref_state ((ref_pool False)\<lparr>
     tb_reset_tokens := [(''k'', \<lparr>pr_user_id = 1, pr_expires_at = 9, pr_used_at = None\<rparr>)],
     tb_refresh_tokens := [ref_token_row ''61'' False]\<rparr>)"


text \<open>
  the check that the token is unused stands before the transaction, and the update that marks
  it does not repeat it. Two requests that both read the unused token both commit: the token
  sets two passwords.
\<close>

theorem reset_token_race:
  "let tx = \<lambda>h. in_transaction ref_srv (db_error :: sqlx_error \<Rightarrow> unit AppError) (reset_password_tx ref_srv ''k'' 1 h);
       s1 = exec (tx ''one'') ref_reset_state; s2 = exec (tx ''two'') s1
   in (case fst (run_state (find_token ref_srv ''k'') ref_reset_state) of Inr (Some r) \<Rightarrow> pr_used_at r = None | _ \<Rightarrow> False) \<and>
      fst (run_state (tx ''one'') ref_reset_state) = Inr () \<and> fst (run_state (tx ''two'') s1) = Inr () \<and>
      map us_password_hash (filter (\<lambda>u. us_id u = 1) (tb_users (st_pool s1))) = [''one''] \<and>
      map us_password_hash (filter (\<lambda>u. us_id u = 1) (tb_users (st_pool s2))) = [''two'']"
  by code_simp

end
