(* ===== verification/Srv_Answers.thy ===== *)
theory Srv_Answers
  imports Srv_AuthProps Srv_Messenger
begin

text \<open>
  What the HTTP handlers answer: the status of every error belongs to its code, and no request makes
  a handler panic except one.
\<close>

section \<open>Well-formed answers\<close>

definition error_wf :: "'n AppError \<Rightarrow> bool" where
  "error_wf e \<longleftrightarrow> er_status e = code_status (er_code e) \<and> er_body e = None \<or>
     er_status e = 409 \<and> er_code e = KeyMismatch \<and> er_body e \<noteq> None"

definition answer_wf :: "'n AppError + 'n Response \<Rightarrow> bool" where
  "answer_wf r \<longleftrightarrow> (case r of Inl e \<Rightarrow> error_wf e | Inr (st, body) \<Rightarrow> st \<in> {200, 201, 204} \<and> (st = 204 \<longrightarrow> body = None))"

text \<open>\<open>gives m A\<close>: whatever happens, \<open>m\<close> fails with a well-formed error or returns what satisfies \<open>A\<close>.\<close>

definition holds :: "('a \<Rightarrow> bool) \<Rightarrow> 'n AppError + 'a \<Rightarrow> bool" where
  "holds A r \<longleftrightarrow> (case r of Inl e \<Rightarrow> error_wf e | Inr x \<Rightarrow> A x)"

lemma holds_simps [simp]: "holds A (Inl e) = error_wf e" "holds A (Inr x) = A x"
  by (simp_all add: holds_def)

definition gives :: "('s, 'n AppError + 'a) state \<Rightarrow> ('a \<Rightarrow> bool) \<Rightarrow> bool" where
  "gives m A \<longleftrightarrow> (\<forall>s. holds A (fst (run_state m s)))"

named_theorems gives_intros "answers of the pieces of handlers"

lemma gives_bind [gives_intros]: "(\<And>x. gives (k x) A) \<Longrightarrow> gives (State_Monad.bind m k) A"
  by (simp add: gives_def split: prod.splits)

lemma gives_seq:
  assumes "gives m B" and "\<And>x. B x \<Longrightarrow> gives (k x) A"
  shows "gives (bind_ok m k) A"
  unfolding gives_def
proof
  fix s
  obtain r t where run: "run_state m s = (r, t)" by fastforce
  then have "holds B r" using assms(1) unfolding gives_def by (metis fst_conv)
  then show "holds A (fst (run_state (bind_ok m k) s))"
    using run assms(2) by (cases r) (simp_all add: bind_ok_def gives_def)
qed

lemmas gives_bind_ok [gives_intros] = gives_seq [where B = "\<lambda>_. True"]

lemma gives_ok [gives_intros]: "A x \<Longrightarrow> gives (ok x) A"
  by (simp add: gives_def ok_def)

lemma gives_fail [gives_intros]: "error_wf e \<Longrightarrow> gives (fail e) A"
  by (simp add: gives_def fail_def)

lemma gives_ok_or [gives_intros]: "error_wf e \<Longrightarrow> gives (ok_or e x) (\<lambda>_. True)"
  by (cases x) (simp_all add: ok_or_def gives_intros)

lemma gives_require_or [gives_intros]: "error_wf e \<Longrightarrow> gives (require_or e b) (\<lambda>_. True)"
  by (simp add: require_or_def gives_intros)

lemma from_sqlx_wf: "error_wf (from_sqlx name e)"
  by (cases e) (simp_all add: from_sqlx_def error_wf_def with_code_def internal_def Let_def)

lemma internal_wf: "error_wf (internal msg)"
  by (simp add: error_wf_def internal_def)

lemma gives_after: "(\<And>r. holds A (f r)) \<Longrightarrow> gives (State_Monad.bind m (\<lambda>r. State_Monad.return (f r))) A"
  by (rule gives_bind) (simp add: gives_def)

lemma gives_db [gives_intros]: "gives (db_ctx m) (\<lambda>_. True)" "gives (db_try m) (\<lambda>_. True)" "gives (db_try_user m) (\<lambda>_. True)"
  unfolding db_ctx_def db_try_def db_try_user_def
  by (rule gives_after, simp add: from_sqlx_wf internal_wf split: sum.split)+

lemma gives_from_result: "(\<And>e. r = Inl e \<Longrightarrow> error_wf e) \<Longrightarrow> gives (from_result r) (\<lambda>_. True)"
  by (cases r) (simp_all add: gives_def from_result_def)

lemma gives_if [gives_intros]: "gives m A \<Longrightarrow> gives n A \<Longrightarrow> gives (if b then m else n) A"
  by simp

lemma gives_let [gives_intros]: "(\<And>x. gives (f x) A) \<Longrightarrow> gives (Let y f) A"
  by simp

lemma gives_cases [gives_intros]:
  "gives m A \<Longrightarrow> (\<And>x. gives (k x) A) \<Longrightarrow> gives (case y of None \<Rightarrow> m | Some x \<Rightarrow> k x) A"
  "(\<And>a b. gives (f a b) A) \<Longrightarrow> gives (case z of (a, b) \<Rightarrow> f a b) A"
  "gives m A \<Longrightarrow> gives n A \<Longrightarrow> gives (case c of True \<Rightarrow> m | False \<Rightarrow> n) A"
  by (auto split: option.split prod.split bool.split)

fun ended :: "('a \<Rightarrow> bool) \<Rightarrow> 'a tx_end \<Rightarrow> bool" where
  "ended A (Commit x) \<longleftrightarrow> A x"
| "ended A (Rollback x) \<longleftrightarrow> A x"

lemma gives_run_tx:
  assumes body: "gives body (ended A)" and f: "\<And>e. error_wf (f e)"
  shows "gives (in_transaction E f body) A"
proof -
  have finish: "gives (tx_finish E f v r) A" if "holds (ended A) r" for v r
    using that f unfolding tx_finish_def
    by (cases r) (auto simp: gives_def split: sum.split tx_end.splits prod.split)
  have "holds A (fst (run_state (State_Monad.bind (run_tx body) (\<lambda>outcome. tx_finish E f (snd outcome) (fst outcome))) s))" for s
  proof -
    obtain a v t where run: "run_state body (Some (st_pool s), s) = (a, v, t)" by (metis prod_cases3)
    then have "holds (ended A) a" using body unfolding gives_def by (metis fst_conv)
    then show ?thesis using finish [of a v, unfolded gives_def] run by (simp add: run_tx_def)
  qed
  then have run: "gives (State_Monad.bind (run_tx body) (\<lambda>outcome. tx_finish E f (snd outcome) (fst outcome))) A"
    by (simp add: gives_def)
  show ?thesis
    unfolding in_transaction_def
    by (rule gives_bind) (use f run in \<open>auto simp: gives_def split: sum.split\<close>)
qed

lemma ended_True: "ended (\<lambda>_. True) = (\<lambda>_. True)"
  by (rule ext, rename_tac x, case_tac x) simp_all

lemmas gives_transaction [gives_intros] = gives_run_tx [where A = "\<lambda>_. True", unfolded ended_True]

lemma errors_wf [simp, gives_intros]:
  "error_wf (bad_request msg)" "error_wf (unauthorized msg)" "error_wf (internal msg)" "error_wf (not_found msg)"
  "error_wf (conflict msg)" "error_wf (forbidden msg)" "error_wf (with_code c msg)" "error_wf not_a_member" "error_wf (db_error e)"
  "error_wf (conflict_with_body b)" "error_wf hash_error" "error_wf jwt_error"
  by (simp_all add: error_wf_def bad_request_def unauthorized_def internal_def not_found_def conflict_def forbidden_def with_code_def
      not_a_member_def db_error_def conflict_with_body_def hash_error_def jwt_error_def)

section \<open>The handlers\<close>

lemmas group_handler_defs = create_group_def get_group_def update_group_def delete_group_def add_member_def remove_member_def
  change_member_role_def join_group_def leave_group_def ban_member_def unban_member_def list_invites_def accept_invite_def
  revoke_invite_def list_public_groups_def get_group_preview_def get_invite_preview_def

lemmas group_part_defs = add_member_tx_def remove_member_tx_def ban_member_tx_def change_role_tx_def acquire_member_lock_def
  require_admin_def usable_invite_def status_body_def

lemma group_answers:
  assumes "\<forall>g body. req \<noteq> CreateInvite g body"
  shows "gives (group_routes E auth req) (\<lambda>x. answer_wf (Inr x))"
proof (cases req)
  case (CreateInvite g body)
  then show ?thesis using assms by blast
qed (simp_all only: group_routes.simps group_handler_defs group_part_defs Let_def, (intro gives_intros; simp add: answer_wf_def)+)

lemma decode_field_fails: "decode_field E name x = Inl e \<Longrightarrow> error_wf e"
  by (auto simp: decode_field_def split: option.splits)

lemma decode_key32_fails: "decode_key32 E name x = Inl e \<Longrightarrow> error_wf e"
  by (auto simp: decode_key32_def dest: decode_field_fails split: sum.splits if_splits)

lemma decode_otps_fails: "decode_otps E ks = Inl e \<Longrightarrow> error_wf e"
  by (induction ks arbitrary: e) (auto dest: decode_key32_fails split: sum.splits)

lemma checks_fail [gives_intros]:
  "gives (from_result (decode_field E name x)) (\<lambda>_. True)" "gives (from_result (decode_key32 E name x)) (\<lambda>_. True)"
  "gives (from_result (decode_otps E ks)) (\<lambda>_. True)" "gives (from_result (verify_signed_prekey_signature E sk spk sg)) (\<lambda>_. True)"
  "gives (from_result (require_signing_key E b)) (\<lambda>_. True)" "gives (from_result (validate_device_name x)) (\<lambda>_. True)"
  "gives (from_result (validate_origin_for_credentialed E ori)) (\<lambda>_. True)" "gives (from_result (validate_password x)) (\<lambda>_. True)"
  "gives (from_result (validate_username x)) (\<lambda>_. True)"
  by (rule gives_from_result; auto simp: verify_signed_prekey_signature_def require_signing_key_def validate_device_name_def Let_def
      validate_origin_for_credentialed_def validate_password_def validate_username_def
      dest: decode_field_fails decode_key32_fails decode_otps_fails split: if_splits option.splits sum.splits OriginHeader.splits)+

lemmas key_handler_defs = upload_bundle_def get_bundle_def get_device_bundle_def get_all_bundles_def get_devices_def
  revoke_device_def rename_device_def revoke_other_devices_def reset_keys_def reset_device_def get_otp_count_def

lemmas key_part_defs = respond_bundle_def check_password_def identity_conflict_def store_bundle_def reset_device_tx_def

lemma key_answers: "gives (key_routes E auth req) (\<lambda>x. answer_wf (Inr x))"
proof (cases req)
  case (UploadBundle body)
  show ?thesis
    unfolding UploadBundle key_routes.simps upload_bundle_def key_part_defs Let_def
    by (intro gives_intros; simp add: answer_wf_def)
qed (simp_all only: key_routes.simps key_handler_defs key_part_defs Let_def, (intro gives_intros; simp add: answer_wf_def)+)

lemma gives_weaken: "gives m A \<Longrightarrow> (\<And>x. A x \<Longrightarrow> B x) \<Longrightarrow> gives m B"
  unfolding gives_def holds_def by (fastforce split: sum.splits)

lemma refresh_tx_answers: "gives (refresh_tx E h) (ended (\<lambda>r. \<forall>e. r = Inl e \<longrightarrow> error_wf e))"
  unfolding refresh_tx_def Let_def by (intro gives_intros; simp)

lemma auth_user_answers [gives_intros]: "gives (auth_user E h) (\<lambda>_. True)"
  unfolding auth_user_def validate_token_def by (intro gives_intros; simp)

lemma token_answers [gives_intros]:
  "gives (create_token E u) (\<lambda>_. True)" "gives (hash_password E pw) (\<lambda>_. True)" "gives (verify_password E pw h) (\<lambda>_. True)"
  "gives (issue_refresh_token E u) (\<lambda>_. True)"
  unfolding create_token_def hash_password_def verify_password_def issue_refresh_token_def Let_def by (intro gives_intros; simp)+

lemma refresh_answers: "gives (refresh E ori cookie body) (\<lambda>_. True)"
  unfolding refresh_def
  by (intro gives_bind_ok checks_fail gives_ok_or errors_wf gives_seq [OF gives_run_tx [OF refresh_tx_answers]] gives_from_result)
    (auto intro!: gives_intros)

lemma session_answers [gives_intros]:
  "gives (logout E ori u) (\<lambda>_. True)" "gives (ws_ticket E u b) (\<lambda>_. True)" "gives (change_password E u old new) (\<lambda>_. True)"
  unfolding logout_def ws_ticket_def change_password_def by (intro gives_intros; simp)+

lemma auth_answers: "gives (auth_routes E req) (\<lambda>_. True)"
proof (cases req)
  case (Refresh ori cookie body)
  show ?thesis unfolding Refresh auth_routes.simps answered_def by (intro gives_bind_ok refresh_answers gives_ok TrueI)
qed (simp_all only: auth_routes.simps answered_def register_account_def login_def forgot_password_def
    reset_password_def reset_password_tx_def ws_upgrade_def Let_def, (intro gives_intros; simp)+)

lemma gives_answer: "gives m (\<lambda>x. answer_wf (Inr x)) \<Longrightarrow> answer_wf (fst (run_state m s))"
  unfolding gives_def by (cases "fst (run_state m s)") (auto simp: answer_wf_def holds_def dest: spec [of _ s])

lemma run_bind_ok: "run_state m s = (Inr x, t) \<Longrightarrow> run_state (bind_ok m k) s = run_state (k x) t"
  by (simp add: bind_ok_def)

text \<open>
  The time that an invitation expires at is computed from the number of seconds in the request.
\<close>

lemma create_invite_answers:
  "answer_wf (fst (run_state (create_invite E auth g body) s)) \<or>
   fst (run_state (create_invite E auth g body) s) = Inl panicked \<and>
   (\<exists>b n w. body = Some b \<and> ci_expires_in_seconds b = Some n \<and> add_seconds (snd (sv_utc_now E w)) n = None)"
proof -
  let ?req = "case body of Some b \<Rightarrow> b | None \<Rightarrow> \<lparr>ci_expires_in_seconds = None, ci_max_uses = None\<rparr>"
  let ?guard = "require_admin E auth g (forbidden ''Not a member of this group'') (forbidden ''Only owners and admins can create invite links'')"
  let ?store = "\<lambda>expires_at. do {
      token \<leftarrow> draw (sv_random_token E);
      bind_ok (db_ctx (create_invite_token E token g auth expires_at (ci_max_uses ?req))) (\<lambda>invite.
        ok (201 :: nat, Some (JObject ((''conversation_id'', js_uuid E (it_conversation_id invite)) # invite_body E token invite))))
    }"
  let ?expiry = "case ci_expires_in_seconds ?req of
      Some n \<Rightarrow> do {
        now \<leftarrow> draw (sv_utc_now E);
        (case add_seconds now n of Some t \<Rightarrow> ok (Some t) | None \<Rightarrow> fail panicked)
      }
    | None \<Rightarrow> ok None"
  have parts: "create_invite E auth g body = bind_ok ?guard (\<lambda>_. bind_ok ?expiry ?store)" by (simp only: create_invite_def Let_def)
  obtain r t where guard: "run_state ?guard s = (r, t)" by fastforce
  have "gives ?guard (\<lambda>_. True)" unfolding require_admin_def by (intro gives_intros)
  then have r: "holds (\<lambda>_. True) r" using guard unfolding gives_def by (metis fst_conv)
  have store: "answer_wf (fst (run_state (?store x) v))" for x v
    by (rule gives_answer, intro gives_intros) (simp add: answer_wf_def)
  obtain w now where draw: "sv_utc_now E (st_world t) = (w, now)" by fastforce
  show ?thesis
  proof (cases r)
    case (Inl e)
    then show ?thesis using guard r by (simp add: create_invite_def Let_def bind_ok_def answer_wf_def)
  next
    case (Inr u)
    note started = run_bind_ok [OF guard [unfolded Inr], of "\<lambda>_. bind_ok ?expiry ?store", folded parts]
    show ?thesis
    proof (cases "ci_expires_in_seconds ?req")
      case None
      then have "run_state ?expiry t = (Inr None, t)" by (simp add: ok_def)
      from trans [OF started run_bind_ok [OF this]] show ?thesis using store [of None t] by (simp only: simp_thms)
    next
      case (Some n)
      then obtain b where b: "body = Some b" by (cases body) auto
      show ?thesis
      proof (cases "add_seconds now n")
        case None
        then have "fst (run_state (bind_ok ?expiry ?store) t) = Inl panicked"
          using draw Some by (simp add: bind_ok_def fail_def draw_def)
        then have "fst (run_state (create_invite E auth g body) s) = Inl panicked"
          unfolding started .
        then show ?thesis using b Some None draw by (auto intro: exI [of _ "st_world t"])
      next
        fix x
        assume "add_seconds now n = Some x"
        then have "run_state ?expiry t = (Inr (Some x), t\<lparr>st_world := w\<rparr>)"
          using draw Some by (simp add: draw_def ok_def)
        from trans [OF started run_bind_ok [OF this]] show ?thesis
          using store [of "Some x" "t\<lparr>st_world := w\<rparr>"] by (simp only: simp_thms)
      qed
    qed
  qed
qed


text \<open>
  such a request exists: an administrator who asks for an invitation that is valid for
  \<open>2\<^sup>62\<close> seconds ends his connection without an answer.
\<close>

theorem create_invite_panics:
  "fst (run_state (group_routes ref_srv 1 (CreateInvite 7 (Some \<lparr>ci_expires_in_seconds = Some (2 ^ 62), ci_max_uses = None\<rparr>)))
     (ref_state (ref_pool False))) = Inl panicked"
  by code_simp

end
