(* ===== verification/Srv_ReplayWork.thy ===== *)
theory Srv_ReplayWork
  imports Srv_Messenger
begin

text \<open>
  How much a reconnecting device costs: the number of statements that the replay of a backlog sends to
  the database, for any environment whose world counts them.
\<close>

section \<open>Counting statements\<close>

definition costs :: "('w \<Rightarrow> nat) \<Rightarrow> ('w, 'tx, 'n, 'a) act \<Rightarrow> nat \<Rightarrow> bool" where
  "costs cnt m k \<longleftrightarrow> (\<forall>s. cnt (st_world (snd (run_state m s))) \<le> cnt (st_world s) + k)"

named_theorems costs_intros "statements that the pieces of handlers send"

lemma costs_bind [costs_intros]:
  assumes "costs cnt m a" and "\<And>x. costs cnt (f x) b"
  shows "costs cnt (State_Monad.bind m f) (a + b)"
  unfolding costs_def
proof
  fix s
  obtain x t where run: "run_state m s = (x, t)" by fastforce
  then have "cnt (st_world t) \<le> cnt (st_world s) + a" using assms(1) unfolding costs_def by (metis snd_conv)
  moreover have "cnt (st_world (snd (run_state (f x) t))) \<le> cnt (st_world t) + b" using assms(2) unfolding costs_def by blast
  ultimately show "cnt (st_world (snd (run_state (State_Monad.bind m f) s))) \<le> cnt (st_world s) + (a + b)" using run by simp
qed

lemma costs_return: "costs cnt (State_Monad.return x) k" "costs cnt (ok y) k"
  by (simp_all add: costs_def ok_def)

lemma costs_mono: "costs cnt m a \<Longrightarrow> a \<le> b \<Longrightarrow> costs cnt m b"
  unfolding costs_def by (meson add_le_mono1 le_trans nat_add_left_cancel_le)

lemma costs_for_each: "(\<And>x. costs cnt (f x) 0) \<Longrightarrow> costs cnt (for_each f xs) 0"
proof (induction xs)
  case (Cons x xs)
  then show ?case using costs_bind [of cnt "f x" 0 "\<lambda>_. for_each f xs" 0] by simp
qed (simp add: costs_return)

text \<open>
  A world that counts statements: a statement adds at most one, sending a frame and reading the clock
  nothing.
\<close>

locale meter =
  fixes E :: "('w, 'tx, 'n) srv_env" and cnt :: "'w \<Rightarrow> nat"
  assumes statement: "cnt (fst (sv_db E w)) \<le> Suc (cnt w)"
    and frame: "cnt (fst (we_try_send (sv_ws E) w tx msg)) \<le> cnt w"
    and clock: "cnt (fst (we_instant_now (sv_ws E) w)) \<le> cnt w"
begin

lemma answered_statement: "sv_db E w = (w', out) \<Longrightarrow> cnt w' \<le> Suc (cnt w)"
  using statement [of w] by simp

lemma costs_query: "costs cnt (query E f) 1" "costs cnt (select E g) 1" "costs cnt (execute E k) 1"
  unfolding select_def execute_def
  by (auto simp: costs_def query_def draw_def gets_def modify_def dest: answered_statement split: prod.split)

lemma record_full_costs: "cnt (fst (fst (record_full (sv_ws E) u d s))) \<le> cnt (fst s)"
  using clock [of "fst s"] by (auto simp: record_full_def Let_def split: prod.split option.split)

lemma tracked_costs: "cnt (fst (fst (try_send_tracked (sv_ws E) u d tx msg s))) \<le> cnt (fst s)"
proof -
  obtain w h where s: "s = (w, h)" by fastforce
  obtain w1 r where t: "we_try_send (sv_ws E) w tx msg = (w1, r)" by fastforce
  obtain w2 h2 kick where f: "record_full (sv_ws E) u d (w1, h) = ((w2, h2), kick)" by (metis surj_pair)
  have "cnt w1 \<le> cnt w" "cnt w2 \<le> cnt w1" using frame [of w tx msg] record_full_costs [of u d "(w1, h)"] t f by simp_all
  then show ?thesis using s t f by (cases r) (simp_all add: try_send_tracked_def)
qed

lemma each_costs: "cnt (fst (fst (send_each (sv_ws E) u msg ds s))) \<le> cnt (fst s)"
proof (induction ds arbitrary: s)
  case (Cons a ds)
  obtain d tx where a: "a = (d, tx)" by fastforce
  obtain s1 b where t: "try_send_tracked (sv_ws E) u d tx msg s = (s1, b)" by fastforce
  then have "cnt (fst s1) \<le> cnt (fst s)" using tracked_costs [of u d tx msg s] by simp
  then show ?case using Cons.IH [of s1] a t by (auto split: prod.split)
qed simp

lemma frames_cost: "costs cnt (hub_send_to_device E u d msg) 0" "costs cnt (hub_send_to E u msg) 0"
proof -
  have "cnt (fst (fst (send_to_device (sv_ws E) u d msg s))) \<le> cnt (fst s)" for s
    using tracked_costs by (simp add: send_to_device_def split: option.split)
  moreover have "cnt (fst (fst (send_to_user_collecting (sv_ws E) u msg s))) \<le> cnt (fst s)" for s
    using each_costs by (simp add: send_to_user_collecting_def split: option.split)
  then have "cnt (fst (fst (send_to (sv_ws E) u msg s))) \<le> cnt (fst s)" for s
    by (simp add: send_to_def send_to_user_def case_prod_unfold Let_def)
  ultimately show "costs cnt (hub_send_to_device E u d msg) 0" "costs cnt (hub_send_to E u msg) 0"
    unfolding costs_def hub_send_to_device_def hub_send_to_def on_hub_def
    by (auto simp: split: prod.split) (metis fst_conv)+
qed

text \<open>A page: one statement reads it, four at most record it.\<close>

lemma each_message_costs: "costs cnt (replay_each E u d ct any msgs) 0"
proof (induction msgs)
  case (Cons msg msgs)
  then show ?case
    using costs_bind [OF frames_cost(1) costs_bind [OF Cons.IH costs_return(1) [of cnt _ 0]]] by (auto simp: Let_def split: option.split)
qed (simp add: costs_return)

lemma notices_cost: "costs cnt (notify_original_senders E ms) 0"
  unfolding notify_original_senders_def
  using costs_bind [OF frames_cost(2) costs_return(1) [of cnt _ 0]]
  by (intro costs_for_each) (auto simp: costs_return split: option.split)

lemma statements_cost:
  "costs cnt (get_device_contents_batch E ids u d) 1" "costs cnt (message_ids_with_any_device_content E ids u) 1"
  "costs cnt (mark_device_delivered_batch E ids u d) 1" "costs cnt (mark_delivered E ids) 1" "costs cnt (get_undelivered E u d cur) 1"
  unfolding get_device_contents_batch_def message_ids_with_any_device_content_def mark_device_delivered_batch_def mark_delivered_def
    get_undelivered_def
  using costs_query costs_return(2) by (simp_all only: split: if_split) auto

lemma batch_costs: "costs cnt (deliver_one_batch E u d batch) 4"
proof -
  have "costs cnt (if b then State_Monad.return () else do { mark_delivered E ids; notify_original_senders E ms }) 1" for b ids ms
    using costs_bind [OF statements_cost(4) notices_cost] by (auto simp: costs_return)
  from costs_bind [OF statements_cost(1) costs_bind [OF statements_cost(2) costs_bind [OF each_message_costs
      costs_bind [OF statements_cost(3) this]]]]
  show ?thesis unfolding deliver_one_batch_def by (rule costs_mono) simp
qed

lemma pages_cost: "costs cnt (replay_pages E u d n cur) (5 * n)"
proof (induction n arbitrary: cur)
  case (Suc n)
  have page: "costs cnt (case r of Inl e \<Rightarrow> State_Monad.return () | Inr batch \<Rightarrow>
      if batch = [] then State_Monad.return ()
      else do {
        deliver_one_batch E u d batch;
        (if length batch \<noteq> UNDELIVERED_PAGE_SIZE then State_Monad.return ()
         else replay_pages E u d n (Some (mw_created_at (last batch), mw_id (last batch))))
      }) (4 + 5 * n)" for r :: "sqlx_error + MessageWithSender list"
    by (cases r) (auto simp: costs_return intro: costs_mono [OF batch_costs] intro!: costs_bind [OF batch_costs Suc.IH])
  show ?case unfolding replay_pages.simps by (rule costs_mono [OF costs_bind [OF statements_cost(5) page]]) simp
qed (simp add: costs_return)

lemma replay_costs: "costs cnt (deliver_undelivered_messages E u d) 250"
  using pages_cost [of u d MAX_ITERATIONS None] by (simp add: deliver_undelivered_messages_def MAX_ITERATIONS_def)

end

text \<open>
  C17: replaying a backlog ends: whatever the database answers, and even when no delivery can be
  recorded so that every page could be read again, a reconnecting device causes at most 250
  statements, five for each of at most fifty pages.
\<close>

theorem replay_terminates:
  assumes "\<And>w. cnt (fst (sv_db E w)) \<le> Suc (cnt w)" and "\<And>w tx msg. cnt (fst (we_try_send (sv_ws E) w tx msg)) \<le> cnt w"
    and "\<And>w. cnt (fst (we_instant_now (sv_ws E) w)) \<le> cnt w"
  shows "cnt (st_world (exec (deliver_undelivered_messages E u d) s)) \<le> cnt (st_world s) + 250"
  using meter.replay_costs [OF meter.intro [OF assms]] unfolding costs_def exec_def by blast

text \<open>The worlds of the environments of \<^const>\<open>flaky\<close> count their statements.\<close>

interpretation counted: meter "flaky n" snd
  by unfold_locales (simp_all add: flaky_def ref_srv_def)

theorem replay_terminates_witness:
  "snd (st_world (exec (deliver_undelivered_messages (flaky 0) 1 1) (ref_state (ref_pool False)))) \<le> 250"
proof -
  have "snd (st_world (ref_state (ref_pool False))) = 0" by (simp add: ref_state_def)
  then show ?thesis
    using replay_terminates [of snd "flaky 0", OF counted.statement counted.frame counted.clock, of 1 1 "ref_state (ref_pool False)"] by simp
qed

end
