(* ===== verification/Srv_GroupKeys.thy ===== *)
theory Srv_GroupKeys
  imports Srv_Keys
begin

text \<open>
  \<open>routes/group_keys.rs\<close> and the statements of \<open>db/keys.rs\<close> and \<open>db/group_key_rotations.rs\<close> that it
  issues: an administrator uploads one version of the group key as an envelope per member, members
  fetch their envelope, administrators read the log of rotations.
\<close>

section \<open>Statements\<close>

text \<open>
  \<open>UNIQUE(conversation_id, key_version)\<close>, foreign keys on the conversation and the uploader.
\<close>

definition insert_group_key :: "Uuid \<Rightarrow> Uuid \<Rightarrow> i32 \<Rightarrow> string \<Rightarrow> Uuid \<Rightarrow> datetime \<Rightarrow> 'n Pool \<Rightarrow> 'n Pool \<times> (sqlx_error + GroupKeyRow)" where
  "insert_group_key i g v key u now p =
     (if hm_get (tb_group_keys p) (g, v) \<noteq> None \<or> list_ex (\<lambda>(_, r). gk_id r = i) (tb_group_keys p) then (p, Inl UniqueViolation)
      else if \<not> has_conversation p g \<or> \<not> has_user p u then (p, Inl OtherDbError)
      else let row = \<lparr>gk_id = i, gk_encrypted_key = key, gk_created_by = u, gk_created_at = now\<rparr>
        in (p\<lparr>tb_group_keys := hm_insert (g, v) row (tb_group_keys p)\<rparr>, Inr row))"

definition store_group_key ::
  "('w, 'tx, 'n) srv_env \<Rightarrow> datetime \<Rightarrow> Uuid \<Rightarrow> i32 \<Rightarrow> string \<Rightarrow> Uuid \<Rightarrow> ('w, 'tx, 'n, sqlx_error + GroupKeyRow) txact" where
  "store_group_key E now g v key u = do {
     i \<leftarrow> tx_draw (sv_gen_random_uuid E);
     tx_query E (insert_group_key i g v key u now)
   }"

text \<open>\<open>ON CONFLICT \<dots> DO UPDATE SET encrypted_key, min_wire_version\<close>; the column check is 1 to 255.\<close>

definition upsert_envelope ::
  "Uuid \<Rightarrow> Uuid \<Rightarrow> i32 \<Rightarrow> Uuid \<Rightarrow> string \<Rightarrow> int \<Rightarrow> datetime \<Rightarrow> 'n Pool \<Rightarrow> 'n Pool \<times> (sqlx_error + GroupKeyEnvelopeRow)" where
  "upsert_envelope i g v u key mwv now p =
     (if mwv < 1 \<or> 255 < mwv \<or> \<not> has_conversation p g \<or> \<not> has_user p u then (p, Inl OtherDbError)
      else case hm_get (tb_envelopes p) (g, v, u) of
        Some r \<Rightarrow> let row = r\<lparr>ge_encrypted_key := key, ge_min_wire_version := mwv\<rparr>
          in (p\<lparr>tb_envelopes := hm_insert (g, v, u) row (tb_envelopes p)\<rparr>, Inr row)
      | None \<Rightarrow>
          if list_ex (\<lambda>(_, r). ge_id r = i) (tb_envelopes p) then (p, Inl UniqueViolation)
          else let row = \<lparr>ge_id = i, ge_encrypted_key = key, ge_min_wire_version = mwv, ge_created_at = now\<rparr>
            in (p\<lparr>tb_envelopes := hm_insert (g, v, u) row (tb_envelopes p)\<rparr>, Inr row))"

definition store_group_key_envelope ::
  "('w, 'tx, 'n) srv_env \<Rightarrow> datetime \<Rightarrow> Uuid \<Rightarrow> i32 \<Rightarrow> Uuid \<Rightarrow> string \<Rightarrow> int \<Rightarrow> ('w, 'tx, 'n, sqlx_error + GroupKeyEnvelopeRow) txact" where
  "store_group_key_envelope E now g v u key mwv = do {
     i \<leftarrow> tx_draw (sv_gen_random_uuid E);
     tx_query E (upsert_envelope i g v u key mwv now)
   }"

text \<open>\<open>UNIQUE (conversation_id, key_version)\<close>, \<open>CHECK (key_version > 0)\<close>, foreign keys.\<close>

definition insert_rotation ::
  "Uuid \<Rightarrow> Uuid \<Rightarrow> Uuid \<Rightarrow> string \<Rightarrow> i32 \<Rightarrow> Uuid \<Rightarrow> datetime \<Rightarrow> 'n Pool \<Rightarrow> 'n Pool \<times> (sqlx_error + GroupKeyRotationRow)" where
  "insert_rotation i g by event v completed_by now p =
     (if v \<le> 0 then (p, Inl OtherDbError)
      else if hm_get (tb_rotations p) (g, v) \<noteq> None \<or> list_ex (\<lambda>(_, r). kr_id r = i) (tb_rotations p) then (p, Inl UniqueViolation)
      else if \<not> has_conversation p g \<or> \<not> has_user p by \<or> \<not> has_user p completed_by then (p, Inl OtherDbError)
      else let row = \<lparr>kr_id = i, kr_triggered_by_user_id = by, kr_triggered_by_event = event, kr_completed_at = now,
             kr_completed_by_user_id = completed_by\<rparr>
        in (p\<lparr>tb_rotations := hm_insert (g, v) row (tb_rotations p)\<rparr>, Inr row))"

definition insert_completed_rotation ::
  "('w, 'tx, 'n) srv_env \<Rightarrow> datetime \<Rightarrow> Uuid \<Rightarrow> Uuid \<Rightarrow> string \<Rightarrow> i32 \<Rightarrow> Uuid \<Rightarrow> ('w, 'tx, 'n, sqlx_error + GroupKeyRotationRow) txact" where
  "insert_completed_rotation E now g by event v completed_by = do {
     i \<leftarrow> tx_draw (sv_gen_random_uuid E);
     tx_query E (insert_rotation i g by event v completed_by now)
   }"

text \<open>\<open>ORDER BY key_version DESC LIMIT 1\<close>.\<close>

definition highest :: "(i32 \<times> 'a) list \<Rightarrow> (i32 \<times> 'a) option" where
  "highest xs = (case sort_key (\<lambda>x. - fst x) xs of [] \<Rightarrow> None | x # _ \<Rightarrow> Some x)"

definition group_key_versions :: "Uuid \<Rightarrow> 'n Pool \<Rightarrow> (i32 \<times> GroupKeyRow) list" where
  "group_key_versions g p = map (\<lambda>((_, v), r). (v, r)) (filter (\<lambda>((c, _), _). c = g) (tb_group_keys p))"

definition envelope_versions :: "Uuid \<Rightarrow> Uuid \<Rightarrow> 'n Pool \<Rightarrow> (i32 \<times> GroupKeyEnvelopeRow) list" where
  "envelope_versions g u p = map (\<lambda>((_, v, _), r). (v, r)) (filter (\<lambda>((c, _, r), _). c = g \<and> r = u) (tb_envelopes p))"

definition db_get_latest_group_key :: "('w, 'tx, 'n) srv_env \<Rightarrow> Uuid \<Rightarrow> ('w, 'tx, 'n, sqlx_error + (i32 \<times> GroupKeyRow) option) act" where
  "db_get_latest_group_key E g = select E (\<lambda>p. highest (group_key_versions g p))"

definition get_group_key :: "('w, 'tx, 'n) srv_env \<Rightarrow> Uuid \<Rightarrow> i32 \<Rightarrow> ('w, 'tx, 'n, sqlx_error + GroupKeyRow option) act" where
  "get_group_key E g v = select E (\<lambda>p. hm_get (tb_group_keys p) (g, v))"

definition get_my_group_key_envelope ::
  "('w, 'tx, 'n) srv_env \<Rightarrow> Uuid \<Rightarrow> Uuid \<Rightarrow> ('w, 'tx, 'n, sqlx_error + (i32 \<times> GroupKeyEnvelopeRow) option) act" where
  "get_my_group_key_envelope E g u = select E (\<lambda>p. highest (envelope_versions g u p))"

definition get_my_group_key_envelope_version ::
  "('w, 'tx, 'n) srv_env \<Rightarrow> Uuid \<Rightarrow> Uuid \<Rightarrow> i32 \<Rightarrow> ('w, 'tx, 'n, sqlx_error + GroupKeyEnvelopeRow option) act" where
  "get_my_group_key_envelope_version E g u v = select E (\<lambda>p. hm_get (tb_envelopes p) (g, v, u))"

definition list_for_conversation ::
  "('w, 'tx, 'n) srv_env \<Rightarrow> Uuid \<Rightarrow> nat \<Rightarrow> ('w, 'tx, 'n, sqlx_error + (i32 \<times> GroupKeyRotationRow) list) act" where
  "list_for_conversation E g limit = select E (\<lambda>p. take limit (sort_key (\<lambda>x. - kr_completed_at (snd x))
     (map (\<lambda>((_, v), r). (v, r)) (filter (\<lambda>((c, _), _). c = g) (tb_rotations p)))))"

section \<open>Requests\<close>

record KeyEnvelope =
  ke_user_id :: Uuid
  ke_encrypted_key :: string

record UploadGroupKeyRequest =
  ug_key_version :: i32
  ug_envelopes :: "KeyEnvelope list"
  ug_min_wire_version :: int
  ug_triggered_by_event :: string

definition default_min_wire_version :: int where "default_min_wire_version = 1"
definition default_triggered_by_event :: string where "default_triggered_by_event = ''unspecified''"

definition GroupKeyResponse_from_row :: "('w, 'tx, 'n) srv_env \<Rightarrow> Uuid \<Rightarrow> i32 \<Rightarrow> GroupKeyRow \<Rightarrow> 'n json" where
  "GroupKeyResponse_from_row E g v row = JObject [(''id'', js_uuid E (gk_id row)), (''conversation_id'', js_uuid E g),
     (''key_version'', js_int E v), (''encrypted_key'', JString (gk_encrypted_key row)),
     (''created_by'', js_uuid E (gk_created_by row)), (''created_at'', JString (sv_rfc3339 E (gk_created_at row)))]"

definition GroupKeyEnvelopeResponse_from_row :: "('w, 'tx, 'n) srv_env \<Rightarrow> Uuid \<Rightarrow> i32 \<Rightarrow> GroupKeyEnvelopeRow \<Rightarrow> 'n json" where
  "GroupKeyEnvelopeResponse_from_row E g v row = JObject [(''id'', js_uuid E (ge_id row)), (''conversation_id'', js_uuid E g),
     (''key_version'', js_int E v), (''encrypted_key'', JString (ge_encrypted_key row)),
     (''min_wire_version'', js_int E (ge_min_wire_version row)), (''created_at'', JString (sv_rfc3339 E (ge_created_at row)))]"

definition GroupKeyRotationResponse_from_row :: "('w, 'tx, 'n) srv_env \<Rightarrow> Uuid \<Rightarrow> i32 \<Rightarrow> GroupKeyRotationRow \<Rightarrow> 'n json" where
  "GroupKeyRotationResponse_from_row E g v row = JObject [(''id'', js_uuid E (kr_id row)), (''conversation_id'', js_uuid E g),
     (''triggered_by_user_id'', js_uuid E (kr_triggered_by_user_id row)), (''triggered_by_event'', JString (kr_triggered_by_event row)),
     (''key_version'', js_int E v), (''completed_at'', JString (sv_rfc3339 E (kr_completed_at row))),
     (''completed_by_user_id'', js_uuid E (kr_completed_by_user_id row))]"

section \<open>Uploading\<close>

definition MAX_ENVELOPES_PER_REQUEST :: nat where "MAX_ENVELOPES_PER_REQUEST = 10000"
definition MAX_ENCRYPTED_KEY_LEN :: nat where "MAX_ENCRYPTED_KEY_LEN = 512"
definition MAX_TRIGGERED_BY_EVENT_LEN :: nat where "MAX_TRIGGERED_BY_EVENT_LEN = 128"

text \<open>The loop over the envelopes, which stops at the first that is not acceptable.\<close>

fun validate_envelopes :: "KeyEnvelope list \<Rightarrow> 'n AppError + unit" where
  "validate_envelopes [] = Inr ()"
| "validate_envelopes (e # es) =
     (if ke_encrypted_key e = [] then Inl (bad_request ''encrypted_key cannot be empty in envelope'')
      else if MAX_ENCRYPTED_KEY_LEN < length (ke_encrypted_key e)
      then Inl (bad_request (''encrypted_key must be '' @ map char_of [0xE2::nat, 0x89, 0xA4] @ dec_string MAX_ENCRYPTED_KEY_LEN @ '' bytes''))
      else validate_envelopes es)"

definition validate_upload_request :: "UploadGroupKeyRequest \<Rightarrow> 'n AppError + unit" where
  "validate_upload_request body =
     (if ug_envelopes body = [] then Inl (bad_request ''envelopes array cannot be empty'')
      else if ug_key_version body < 1 then Inl (bad_request ''key_version must be a positive integer'')
      else if \<not> (1 \<le> ug_min_wire_version body \<and> ug_min_wire_version body \<le> 255)
      then Inl (bad_request ''min_wire_version must be between 1 and 255'')
      else if MAX_ENVELOPES_PER_REQUEST < length (ug_envelopes body)
      then Inl (bad_request (''Too many envelopes (max '' @ dec_string MAX_ENVELOPES_PER_REQUEST @ '')''))
      else if MAX_TRIGGERED_BY_EVENT_LEN < length (ug_triggered_by_event body)
      then Inl (bad_request (''triggered_by_event must be '' @ map char_of [0xE2::nat, 0x89, 0xA4] @ dec_string MAX_TRIGGERED_BY_EVENT_LEN @ '' characters''))
      else validate_envelopes (ug_envelopes body))"

definition require_admin_or_above :: "('w, 'tx, 'n) srv_env \<Rightarrow> Uuid \<Rightarrow> Uuid \<Rightarrow> ('w, 'tx, 'n, 'n AppError + unit) act" where
  "require_admin_or_above E g u = require_admin E u g (unauthorized ''Not a member of this group'')
     (unauthorized ''Only admins and owners can upload group keys'')"

definition ensure_envelopes_target_members ::
  "('w, 'tx, 'n) srv_env \<Rightarrow> Uuid \<Rightarrow> KeyEnvelope list \<Rightarrow> ('w, 'tx, 'n, 'n AppError + unit) txact" where
  "ensure_envelopes_target_members E g es =
     bind_ok (db_ctx (tx_select E (\<lambda>p. active_member_ids p g))) (\<lambda>member_ids.
     case find (\<lambda>e. ke_user_id e \<notin> set member_ids) es of
       Some e \<Rightarrow> fail (bad_request (''envelope user_id '' @ sv_uuid_to_string E (ke_user_id e) @ '' is not a member of this group''))
     | None \<Rightarrow> ok ())"

definition map_store_group_key_error :: "sqlx_error \<Rightarrow> 'n AppError" where
  "map_store_group_key_error e =
     (if e = UniqueViolation then conflict ''A group key with this version already exists''
      else internal ''Failed to store group key'')"

definition map_error :: "('e \<Rightarrow> 'f) \<Rightarrow> ('s, 'e + 'a) state \<Rightarrow> ('s, 'f + 'a) state" where
  "map_error f m = do { r \<leftarrow> m; State_Monad.return (case r of Inl e \<Rightarrow> Inl (f e) | Inr x \<Rightarrow> Inr x) }"

fun store_envelopes ::
  "('w, 'tx, 'n) srv_env \<Rightarrow> datetime \<Rightarrow> Uuid \<Rightarrow> i32 \<Rightarrow> int \<Rightarrow> KeyEnvelope list \<Rightarrow> ('w, 'tx, 'n, 'n AppError + unit) txact" where
  "store_envelopes E now g v mwv [] = ok ()"
| "store_envelopes E now g v mwv (e # es) =
     bind_ok (db_ctx (store_group_key_envelope E now g v (ke_user_id e) (ke_encrypted_key e) mwv)) (\<lambda>_.
     store_envelopes E now g v mwv es)"

definition persist_tx ::
  "('w, 'tx, 'n) srv_env \<Rightarrow> Uuid \<Rightarrow> Uuid \<Rightarrow> UploadGroupKeyRequest \<Rightarrow> ('w, 'tx, 'n, 'n AppError + GroupKeyRow tx_end) txact" where
  "persist_tx E g auth body = do {
     now \<leftarrow> tx_draw (sv_utc_now E);
     bind_ok (ensure_envelopes_target_members E g (ug_envelopes body)) (\<lambda>_.
     bind_ok (map_error map_store_group_key_error (store_group_key E now g (ug_key_version body) ''__envelope__'' auth)) (\<lambda>row.
     bind_ok (store_envelopes E now g (ug_key_version body) (ug_min_wire_version body) (ug_envelopes body)) (\<lambda>_.
     bind_ok (db_ctx (insert_completed_rotation E now g auth (ug_triggered_by_event body) (ug_key_version body) auth)) (\<lambda>_.
     ok (Commit row)))))
   }"

definition persist_group_key_and_envelopes ::
  "('w, 'tx, 'n) srv_env \<Rightarrow> Uuid \<Rightarrow> Uuid \<Rightarrow> UploadGroupKeyRequest \<Rightarrow> ('w, 'tx, 'n, 'n AppError + GroupKeyRow) act" where
  "persist_group_key_and_envelopes E g auth body = in_transaction E db_error (persist_tx E g auth body)"

definition broadcast_key_rotated :: "('w, 'tx, 'n) srv_env \<Rightarrow> Uuid \<Rightarrow> Uuid \<Rightarrow> i32 \<Rightarrow> ('w, 'tx, 'n, unit) act" where
  "broadcast_key_rotated E g auth v = do {
     r \<leftarrow> get_conversation_member_ids E g;
     (case sv_value_to_json E (JObject [(''type'', JString ''group_key_rotated''), (''conversation_id'', js_uuid E g),
        (''key_version'', js_int E v), (''created_by'', js_uuid E auth)]) of
        Some json \<Rightarrow> do {
          hub_broadcast_json E (unwrap_or [] r) json (Some auth);
          hub_send_to E auth (ws_text json);
          State_Monad.return ()
        }
      | None \<Rightarrow> State_Monad.return ())
   }"

definition upload_group_key :: "('w, 'tx, 'n) srv_env \<Rightarrow> Uuid \<Rightarrow> Uuid \<Rightarrow> UploadGroupKeyRequest \<Rightarrow> ('w, 'tx, 'n) handler" where
  "upload_group_key E auth g body =
     bind_ok (require_admin_or_above E g auth) (\<lambda>_.
     bind_ok (from_result (validate_upload_request body)) (\<lambda>_.
     bind_ok (persist_group_key_and_envelopes E g auth body) (\<lambda>row. do {
       broadcast_key_rotated E g auth (ug_key_version body);
       ok (201, Some (GroupKeyResponse_from_row E g (ug_key_version body) row))
     })))"

section \<open>Fetching\<close>

definition require_member :: "('w, 'tx, 'n) srv_env \<Rightarrow> Uuid \<Rightarrow> Uuid \<Rightarrow> ('w, 'tx, 'n, 'n AppError + unit) act" where
  "require_member E g u = bind_ok (db_ctx (is_member E g u)) (\<lambda>b. require_or (unauthorized ''Not a member of this group'') b)"

definition get_latest_group_key :: "('w, 'tx, 'n) srv_env \<Rightarrow> Uuid \<Rightarrow> Uuid \<Rightarrow> ('w, 'tx, 'n) handler" where
  "get_latest_group_key E auth g =
     bind_ok (require_member E g auth) (\<lambda>_.
     bind_ok (db_ctx (get_my_group_key_envelope E g auth)) (\<lambda>envelope.
     case envelope of
       Some (v, env) \<Rightarrow> ok (200, Some (GroupKeyEnvelopeResponse_from_row E g v env))
     | None \<Rightarrow>
         bind_ok (db_ctx (db_get_latest_group_key E g)) (\<lambda>found.
         bind_ok (ok_or (bad_request ''No group key found for this conversation'') found) (\<lambda>(v, row).
         if gk_encrypted_key row = ''__envelope__''
         then ok (410, Some (JObject [(''error'', JString ''No group-key envelope exists for this user at the latest version''),
           (''code'', JString ''no-envelope-for-user''), (''key_version'', js_int E v)]))
         else ok (200, Some (GroupKeyResponse_from_row E g v row))))))"

definition get_group_key_version :: "('w, 'tx, 'n) srv_env \<Rightarrow> Uuid \<Rightarrow> Uuid \<Rightarrow> i32 \<Rightarrow> ('w, 'tx, 'n) handler" where
  "get_group_key_version E auth g v =
     bind_ok (require_member E g auth) (\<lambda>_.
     bind_ok (db_ctx (get_my_group_key_envelope_version E g auth v)) (\<lambda>envelope.
     case envelope of
       Some env \<Rightarrow> ok (200, Some (GroupKeyEnvelopeResponse_from_row E g v env))
     | None \<Rightarrow>
         bind_ok (db_ctx (get_group_key E g v)) (\<lambda>found.
         bind_ok (ok_or (bad_request ''Group key version not found'') found) (\<lambda>row.
         ok (200, Some (GroupKeyResponse_from_row E g v row))))))"

definition list_encryption_activity :: "('w, 'tx, 'n) srv_env \<Rightarrow> Uuid \<Rightarrow> Uuid \<Rightarrow> ('w, 'tx, 'n) handler" where
  "list_encryption_activity E auth g =
     bind_ok (require_admin E auth g (unauthorized ''Not a member of this group'')
       (unauthorized ''Only admins and owners can view encryption activity'')) (\<lambda>_.
     bind_ok (db_ctx (list_for_conversation E g 100)) (\<lambda>rows.
     ok (200, Some (JArray (map (\<lambda>(v, row). GroupKeyRotationResponse_from_row E g v row) rows)))))"

datatype group_key_request =
    UploadGroupKey Uuid UploadGroupKeyRequest
  | GetLatestGroupKey Uuid
  | GetGroupKeyVersion Uuid i32
  | ListEncryptionActivity Uuid

fun group_key_routes :: "('w, 'tx, 'n) srv_env \<Rightarrow> Uuid \<Rightarrow> group_key_request \<Rightarrow> ('w, 'tx, 'n) handler" where
  "group_key_routes E auth (UploadGroupKey g body) = upload_group_key E auth g body"
| "group_key_routes E auth (GetLatestGroupKey g) = get_latest_group_key E auth g"
| "group_key_routes E auth (GetGroupKeyVersion g v) = get_group_key_version E auth g v"
| "group_key_routes E auth (ListEncryptionActivity g) = list_encryption_activity E auth g"

end
