(* ===== verification/Srv_GroupKeyProps.thy ===== *)
theory Srv_GroupKeyProps
  imports Srv_GroupKeys Srv_Messenger Srv_KeyProps
begin

text \<open>
  What the group keys keep: a version is uploaded once and as a whole, its envelopes agree on the
  oldest wire format, members and nobody else fetch what was uploaded for them. The steps are those
  of the messenger (sockets, group requests, reaping) together with the requests on group keys.
\<close>

section \<open>The rows\<close>

type_synonym envelope_entry = "(Uuid \<times> i32 \<times> Uuid) \<times> GroupKeyEnvelopeRow"

definition version_of :: "envelope_entry \<Rightarrow> Uuid \<times> i32" where
  "version_of x = (fst (fst x), fst (snd (fst x)))"

definition envelope_ok :: "(Uuid \<times> i32, GroupKeyRow) hmap \<Rightarrow> (Uuid \<times> i32, GroupKeyRotationRow) hmap \<Rightarrow> envelope_entry \<Rightarrow> bool" where
  "envelope_ok ks rs x \<longleftrightarrow> 1 \<le> snd (version_of x) \<and> hm_get ks (version_of x) \<noteq> None \<and> hm_get rs (version_of x) \<noteq> None \<and>
     1 \<le> ge_min_wire_version (snd x) \<and> ge_min_wire_version (snd x) \<le> 255 \<and>
     ge_encrypted_key (snd x) \<noteq> [] \<and> length (ge_encrypted_key (snd x)) \<le> 512"

definition key_rows_ok :: "envelope_entry list \<Rightarrow> (Uuid \<times> i32, GroupKeyRow) hmap \<Rightarrow> (Uuid \<times> i32, GroupKeyRotationRow) hmap \<Rightarrow> bool" where
  "key_rows_ok es ks rs \<longleftrightarrow> (\<forall>x\<in>set es. envelope_ok ks rs x) \<and>
     (\<forall>x\<in>set es. \<forall>y\<in>set es. version_of x = version_of y \<longrightarrow> ge_min_wire_version (snd x) = ge_min_wire_version (snd y))"

definition group_keys_ok :: "'n Pool \<Rightarrow> bool" where
  "group_keys_ok p \<longleftrightarrow> key_rows_ok (tb_envelopes p) (tb_group_keys p) (tb_rotations p)"

lemma group_keys_frame:
  "tb_envelopes q = tb_envelopes p \<Longrightarrow> tb_group_keys q = tb_group_keys p \<Longrightarrow> tb_rotations q = tb_rotations p \<Longrightarrow>
   group_keys_ok q = group_keys_ok p"
  by (simp add: group_keys_ok_def)

lemma key_rows_sub: "key_rows_ok es ks rs \<Longrightarrow> set es' \<subseteq> set es \<Longrightarrow> key_rows_ok es' ks rs"
  by (auto simp: key_rows_ok_def)

interpretation group_keys: membership_predicate group_keys_ok
  by unfold_locales ((rule group_keys_frame group_keys_frame [THEN iffD2]; simp add: direct_conversation_rows_def)+)

section \<open>The changes of the rosters\<close>

lemma upkeep_keys:
  assumes "upkeep p q" and "group_keys_ok p"
  shows "group_keys_ok q"
proof -
  have E: "off_roster q = off_roster p" and sub: "set (tb_envelopes q) \<subseteq> set (tb_envelopes p)"
    using assms(1) by (auto simp: upkeep_def)
  have "tb_group_keys q = tb_group_keys p" "tb_rotations q = tb_rotations p"
    using arg_cong [OF E, of tb_group_keys] arg_cong [OF E, of tb_rotations] by (simp_all add: off_roster_def)
  then show ?thesis using assms(2) key_rows_sub [OF _ sub] by (simp add: group_keys_ok_def)
qed

lemma delete_conversation_keys:
  assumes "group_keys_ok p"
  shows "group_keys_ok (delete_conversation g p)"
proof -
  let ?q = "delete_conversation g p"
  have rows: "tb_envelopes ?q = filter (\<lambda>((c, _), _). c \<noteq> g) (tb_envelopes p)"
    "tb_group_keys ?q = filter (\<lambda>((c, _), _). c \<noteq> g) (tb_group_keys p)"
    "tb_rotations ?q = filter (\<lambda>((c, _), _). c \<noteq> g) (tb_rotations p)"
    by (simp_all add: delete_conversation_def Let_def)
  have "envelope_ok (tb_group_keys ?q) (tb_rotations ?q) x"
    if "x \<in> set (tb_envelopes ?q)" "envelope_ok (tb_group_keys p) (tb_rotations p) x" for x
    using that unfolding rows by (auto simp: envelope_ok_def version_of_def get_filter_key)
  then show ?thesis
    using assms by (auto simp: group_keys_ok_def key_rows_ok_def rows)
qed

lemma roster_statement_rows:
  "upsert_member now g u p = (q, r) \<Longrightarrow> tb_envelopes q = tb_envelopes p \<and> tb_group_keys q = tb_group_keys p \<and> tb_rotations q = tb_rotations p"
  "bump_member_count g p = (q, r2) \<Longrightarrow> tb_envelopes q = tb_envelopes p \<and> tb_group_keys q = tb_group_keys p \<and> tb_rotations q = tb_rotations p"
  "upsert_ban g u b p = (q, r3) \<Longrightarrow> tb_envelopes q = tb_envelopes p \<and> tb_group_keys q = tb_group_keys p \<and> tb_rotations q = tb_rotations p"
  "bump_use_count tok p = (q, r4) \<Longrightarrow> tb_envelopes q = tb_envelopes p \<and> tb_group_keys q = tb_group_keys p \<and> tb_rotations q = tb_rotations p"
  by (auto simp: upsert_member_def bump_member_count_def upsert_ban_def bump_use_count_def update_conversation_def
      split: if_splits option.splits)

lemma roster_update_rows:
  "tb_envelopes (drop_member_count g p) = tb_envelopes p" "tb_group_keys (drop_member_count g p) = tb_group_keys p"
  "tb_rotations (drop_member_count g p) = tb_rotations p"
  "tb_envelopes (soft_remove g u p) = tb_envelopes p" "tb_group_keys (soft_remove g u p) = tb_group_keys p"
  "tb_rotations (soft_remove g u p) = tb_rotations p"
  "tb_envelopes (set_role g u x p) = tb_envelopes p" "tb_group_keys (set_role g u x p) = tb_group_keys p"
  "tb_rotations (set_role g u x p) = tb_rotations p"
  "tb_envelopes (update_conversation g f p) = tb_envelopes p" "tb_group_keys (update_conversation g f p) = tb_group_keys p"
  "tb_rotations (update_conversation g f p) = tb_rotations p"
  by (simp_all add: drop_member_count_def soft_remove_def set_role_def update_conversation_def)

lemma roster_rows_keys:
  "admitted g u p q \<Longrightarrow> group_keys_ok q = group_keys_ok p" "dismissed g u p q \<Longrightarrow> group_keys_ok q = group_keys_ok p"
  "banished g u b p q \<Longrightarrow> group_keys_ok q = group_keys_ok p" "bump_use_count tok p = (q, r) \<Longrightarrow> group_keys_ok q = group_keys_ok p"
  "founded a p q \<Longrightarrow> group_keys_ok q = group_keys_ok p"
  by (auto simp: group_keys_ok_def admitted_def dismissed_def banished_def founded_def roster_update_rows dest!: roster_statement_rows
      split: if_splits)

lemma roster_updates_keys:
  "group_keys_ok (p\<lparr>tb_banned := x\<rparr>) = group_keys_ok p" "group_keys_ok (p\<lparr>tb_invites := y\<rparr>) = group_keys_ok p"
  "group_keys_ok (set_role g u z p) = group_keys_ok p" "group_keys_ok (update_conversation g f p) = group_keys_ok p"
  by (simp_all add: group_keys_ok_def roster_update_rows)

lemma aftermath_keys: "aftermath h g p q \<Longrightarrow> group_keys_ok p \<Longrightarrow> group_keys_ok q"
  by (auto simp: aftermath_def intro: upkeep_keys delete_conversation_keys)

lemma roster_change_keys: "roster_change h auth p q \<Longrightarrow> group_keys_ok p \<Longrightarrow> group_keys_ok q"
proof (induction rule: roster_change.induct)
  case (accept tok p q)
  then show ?case by (auto simp: redeemed_def roster_rows_keys)
qed (auto intro: upkeep_keys aftermath_keys delete_conversation_keys simp: roster_rows_keys roster_updates_keys)

lemma messenger_step_keys:
  assumes "messenger_step E s t" and "group_keys_ok (st_pool s)"
  shows "group_keys_ok (st_pool t)"
  using assms(1)
proof cases
  case socket
  then show ?thesis using assms(2) by (rule group_keys.server_step_keeps)
next
  case (request auth req)
  have "(roster_change h a)\<^sup>*\<^sup>* p q \<Longrightarrow> group_keys_ok p \<Longrightarrow> group_keys_ok q" for h a and p q :: "'c Pool"
    by (induction rule: rtranclp_induct) (auto intro: roster_change_keys)
  from this [OF handlers_refine assms(2)] show ?thesis using request by simp
next
  case reap
  have "keeps (on_pool group_keys_ok) (cleanup_empty_groups E)"
    unfolding cleanup_empty_groups_def find_empty_group_ids_def force_delete_conversation_def
    by (intro keeps_intros keeps_execute delete_conversation_keys)
  then show ?thesis
    using reap keeps_run [of "on_pool group_keys_ok" "cleanup_empty_groups E" s] assms(2) by (simp add: exec_def on_pool_def)
qed

section \<open>An upload\<close>

lemma tx_map_error [tx_rules]:
  assumes "tx_sat m R"
  shows "tx_sat (map_error f m) R"
proof (rule tx_satI)
  fix v s r v' s'
  assume run: "run_state (map_error f m) (v, s) = (r, v', s')"
  obtain r0 where m: "run_state m (v, s) = (r0, v', s')" and r: "\<And>x. r = Inr x \<Longrightarrow> r0 = Inr x"
    using run by (auto simp: map_error_def split: prod.splits sum.splits)
  show "(\<exists>w. s' = s\<lparr>st_world := w\<rparr>) \<and> (\<forall>x q. r = Inr x \<and> v' = Some q \<longrightarrow> (\<exists>p. v = Some p \<and> R p x q))"
    using tx_satD [OF assms m] r by blast
qed

text \<open>The envelopes of one request over those there were; \<open>addressed\<close> says which entries are new.\<close>

definition addressed :: "Uuid \<Rightarrow> i32 \<Rightarrow> int \<Rightarrow> KeyEnvelope list \<Rightarrow> envelope_entry \<Rightarrow> bool" where
  "addressed g v mwv es x \<longleftrightarrow> (\<exists>e\<in>set es. fst x = (g, v, ke_user_id e) \<and> ge_encrypted_key (snd x) = ke_encrypted_key e \<and>
     ge_min_wire_version (snd x) = mwv)"

definition delivered :: "Uuid \<Rightarrow> i32 \<Rightarrow> int \<Rightarrow> KeyEnvelope list \<Rightarrow> envelope_entry list \<Rightarrow> envelope_entry list \<Rightarrow> bool" where
  "delivered g v mwv es old new \<longleftrightarrow> (\<forall>x\<in>set new. x \<in> set old \<or> addressed g v mwv es x) \<and>
     (\<forall>k. k \<notin> (\<lambda>e. (g, v, ke_user_id e)) ` set es \<longrightarrow> hm_get new k = hm_get old k) \<and>
     (distinct (map ke_user_id es) \<longrightarrow> (\<forall>e\<in>set es. \<exists>r. hm_get new (g, v, ke_user_id e) = Some r \<and>
        ge_encrypted_key r = ke_encrypted_key e \<and> ge_min_wire_version r = mwv))"

lemma upsert_envelope_inserts:
  "upsert_envelope i g v u key mwv now p = (q, Inr x) \<Longrightarrow>
   \<exists>r. q = p\<lparr>tb_envelopes := hm_insert (g, v, u) r (tb_envelopes p)\<rparr> \<and> ge_encrypted_key r = key \<and> ge_min_wire_version r = mwv"
  by (auto simp: upsert_envelope_def Let_def split: if_splits option.splits)

lemma delivered_Cons:
  assumes "delivered g v mwv es (hm_insert (g, v, ke_user_id e) r old) new" and "ge_encrypted_key r = ke_encrypted_key e"
    and "ge_min_wire_version r = mwv"
  shows "delivered g v mwv (e # es) old new"
proof -
  let ?k = "(g, v, ke_user_id e)"
  have rows: "x \<in> set old \<or> addressed g v mwv (e # es) x" if x: "x \<in> set new" for x
  proof -
    consider "x \<in> set (hm_insert ?k r old)" | "addressed g v mwv es x" using x assms(1) unfolding delivered_def by blast
    then show ?thesis
    proof cases
      case 1
      then consider "x = (?k, r)" | "x \<in> set old" using set_hm_insert by fast
      then show ?thesis using assms(2,3) by cases (auto simp: addressed_def)
    qed (auto simp: addressed_def)
  qed
  have "hm_get new k = hm_get (hm_insert ?k r old) k" if "k \<notin> (\<lambda>e. (g, v, ke_user_id e)) ` set es" for k
    using that assms(1) unfolding delivered_def by blast
  then have others: "hm_get new k = hm_get old k" if "k \<notin> (\<lambda>e. (g, v, ke_user_id e)) ` set (e # es)" for k
    using that by (simp add: hm_simps)
  have all: "\<exists>r. hm_get new (g, v, ke_user_id x) = Some r \<and> ge_encrypted_key r = ke_encrypted_key x \<and> ge_min_wire_version r = mwv"
    if d: "distinct (map ke_user_id (e # es))" and x: "x \<in> set (e # es)" for x
  proof (cases "x \<in> set es")
    case True
    then show ?thesis using d assms(1) by (simp add: delivered_def)
  next
    case False
    then have "x = e" "?k \<notin> (\<lambda>e. (g, v, ke_user_id e)) ` set es" using d x by auto
    then show ?thesis using assms by (simp add: delivered_def hm_simps)
  qed
  show ?thesis unfolding delivered_def using rows others all by blast
qed

lemma tx_store_envelopes:
  fixes E :: "('w, 'tx, 'n) srv_env"
  shows "tx_sat (store_envelopes E now g v mwv es) (\<lambda>p x q. \<exists>new. q = p\<lparr>tb_envelopes := new\<rparr> \<and> delivered g v mwv es (tb_envelopes p) new)"
proof (induction es)
  case Nil
  have "p = p\<lparr>tb_envelopes := tb_envelopes p\<rparr> \<and> delivered g v mwv [] (tb_envelopes p) (tb_envelopes p)" for p :: "'n Pool"
    by (simp add: delivered_def)
  then show ?case unfolding store_envelopes.simps by (intro tx_sat_mono [OF tx_sat_ok]) blast
next
  case (Cons e es)
  show ?case
    unfolding store_envelopes.simps store_group_key_envelope_def
    by (rule tx_sat_mono, (rule Cons.IH tx_rules)+)
      (auto dest!: upsert_envelope_inserts, intro exI conjI, rule refl, erule delivered_Cons, simp_all)
qed

definition uploaded :: "Uuid \<Rightarrow> Uuid \<Rightarrow> UploadGroupKeyRequest \<Rightarrow> 'n Pool \<Rightarrow> 'n Pool \<Rightarrow> bool" where
  "uploaded g auth body p q \<longleftrightarrow> hm_get (tb_group_keys p) (g, ug_key_version body) = None \<and>
     (\<forall>e\<in>set (ug_envelopes body). active_member p g (ke_user_id e)) \<and>
     (\<exists>new row rot. q = p\<lparr>tb_group_keys := hm_insert (g, ug_key_version body) row (tb_group_keys p), tb_envelopes := new,
        tb_rotations := hm_insert (g, ug_key_version body) rot (tb_rotations p)\<rparr> \<and> gk_created_by row = auth \<and>
        delivered g (ug_key_version body) (ug_min_wire_version body) (ug_envelopes body) (tb_envelopes p) new)"

lemma uploadedI:
  "hm_get (tb_group_keys p) (g, ug_key_version body) = None \<Longrightarrow> \<forall>e\<in>set (ug_envelopes body). active_member p g (ke_user_id e) \<Longrightarrow>
   delivered g (ug_key_version body) (ug_min_wire_version body) (ug_envelopes body) (tb_envelopes p) new \<Longrightarrow>
   gk_created_by row = auth \<Longrightarrow>
   uploaded g auth body p (p\<lparr>tb_group_keys := hm_insert (g, ug_key_version body) row (tb_group_keys p), tb_envelopes := new,
     tb_rotations := hm_insert (g, ug_key_version body) rot (tb_rotations p)\<rparr>)"
  unfolding uploaded_def by blast

lemma active_ids_set: "set (active_member_ids p g) = {u. active_member p g u}"
  by (auto simp: active_member_ids_def active_member_def list_ex_iff)

lemma tx_ensure_members:
  "tx_sat (ensure_envelopes_target_members E g es) (\<lambda>p x q. q = p \<and> (\<forall>e\<in>set es. active_member p g (ke_user_id e)))"
  unfolding ensure_envelopes_target_members_def
  by (rule tx_sat_mono, (rule tx_sat_option tx_rules)+) (auto simp: find_None_iff active_ids_set split: option.splits)

lemma tx_persist: "tx_sat (persist_tx E g auth body) (\<lambda>p x q. (\<exists>row. x = Commit row) \<and> uploaded g auth body p q)"
  unfolding persist_tx_def store_group_key_def insert_completed_rotation_def
  by (rule tx_sat_mono, (rule tx_ensure_members tx_store_envelopes tx_rules)+)
    (auto simp: insert_group_key_def insert_rotation_def Let_def intro!: uploadedI split: if_splits)

lemma tx_strict_map_error: "tx_strict m \<Longrightarrow> tx_strict (map_error f m)"
  unfolding tx_strict_def map_error_def by (force split: prod.splits sum.splits)

lemma strict_persist: "tx_strict (persist_tx E g auth body)"
proof -
  have es: "tx_strict (store_envelopes E now g v mwv es)" for now v mwv es
    by (induction es) (auto simp: store_group_key_envelope_def intro!: tx_strict_rules)
  show ?thesis
    unfolding persist_tx_def ensure_envelopes_target_members_def store_group_key_def insert_completed_rotation_def
    by (intro tx_strict_rules tx_strict_option tx_strict_map_error es)
qed

lemma keeps_rotated: "keeps (on_pool P) (broadcast_key_rotated E g auth v)"
  unfolding broadcast_key_rotated_def get_conversation_member_ids_def by (intro keeps_intros)

definition acceptable_upload :: "UploadGroupKeyRequest \<Rightarrow> bool" where
  "acceptable_upload body \<longleftrightarrow> ug_envelopes body \<noteq> [] \<and> 1 \<le> ug_key_version body \<and> 1 \<le> ug_min_wire_version body \<and>
     ug_min_wire_version body \<le> 255 \<and> length (ug_envelopes body) \<le> 10000 \<and> length (ug_triggered_by_event body) \<le> 128 \<and>
     (\<forall>e\<in>set (ug_envelopes body). ke_encrypted_key e \<noteq> [] \<and> length (ke_encrypted_key e) \<le> 512)"

lemma validate_envelopes_iff:
  "validate_envelopes es = Inr () \<longleftrightarrow> (\<forall>e\<in>set es. ke_encrypted_key e \<noteq> [] \<and> length (ke_encrypted_key e) \<le> 512)"
  by (induction es) (auto simp: MAX_ENCRYPTED_KEY_LEN_def)

lemma validate_upload_iff: "validate_upload_request body = Inr () \<longleftrightarrow> acceptable_upload body"
  by (auto simp: validate_upload_request_def acceptable_upload_def validate_envelopes_iff MAX_ENVELOPES_PER_REQUEST_def
      MAX_TRIGGERED_BY_EVENT_LEN_def not_less)

lemma rel_upload_key:
  "rel (upload_group_key E auth g body) (\<lambda>p r q.
     (q = p \<and> (\<exists>e. r = Inl e)) \<or> admin_of p g auth \<and> acceptable_upload body \<and> uploaded g auth body p q)"
proof -
  have rotated: "rel (broadcast_key_rotated E g auth v) (\<lambda>p r q. q = p)" for v
    by (rule rel_same) (rule keeps_rotated)
  show ?thesis
    unfolding upload_group_key_def require_admin_or_above_def persist_group_key_and_envelopes_def
    by (rule rel_mono, (rule rotated rel_strict_transaction tx_persist strict_persist rel_rules)+)
      (auto simp: tx_answer_def tx_effect_def validate_upload_iff)
qed

lemma fetches_change_nothing:
  "rel (get_latest_group_key E auth g) (\<lambda>p r q. q = p)" "rel (get_group_key_version E auth g v) (\<lambda>p r q. q = p)"
  "rel (list_encryption_activity E auth g) (\<lambda>p r q. q = p)"
  unfolding get_latest_group_key_def get_group_key_version_def list_encryption_activity_def require_member_def is_member_def
    get_my_group_key_envelope_def db_get_latest_group_key_def get_my_group_key_envelope_version_def get_group_key_def
    list_for_conversation_def require_admin_def get_member_role_def
  by (rule rel_same; intro keeps_intros)+

section \<open>Steps\<close>

lemma uploaded_keys:
  assumes up: "uploaded g auth body p q" and ok: "acceptable_upload body" and p: "group_keys_ok p"
  shows "group_keys_ok q"
proof -
  let ?v = "(g, ug_key_version body)"
  obtain new row rot where none: "hm_get (tb_group_keys p) ?v = None"
    and q: "tb_group_keys q = hm_insert ?v row (tb_group_keys p)" "tb_envelopes q = new" "tb_rotations q = hm_insert ?v rot (tb_rotations p)"
    and del: "delivered g (ug_key_version body) (ug_min_wire_version body) (ug_envelopes body) (tb_envelopes p) new"
    using up unfolding uploaded_def by auto
  have old: "envelope_ok (tb_group_keys p) (tb_rotations p) x \<and> version_of x \<noteq> ?v" if "x \<in> set (tb_envelopes p)" for x
  proof -
    have "envelope_ok (tb_group_keys p) (tb_rotations p) x" using that p unfolding group_keys_ok_def key_rows_ok_def by blast
    moreover from this have "hm_get (tb_group_keys p) (version_of x) \<noteq> None" by (simp add: envelope_ok_def)
    ultimately show ?thesis using none by metis
  qed
  have fresh: "version_of x = ?v \<and> ge_min_wire_version (snd x) = ug_min_wire_version body \<and>
      envelope_ok (tb_group_keys q) (tb_rotations q) x"
    if "addressed g (ug_key_version body) (ug_min_wire_version body) (ug_envelopes body) x" for x
    using that ok by (auto simp: addressed_def acceptable_upload_def envelope_ok_def version_of_def q hm_simps)
  have "envelope_ok (tb_group_keys q) (tb_rotations q) x" if "x \<in> set (tb_envelopes p)" for x
    using old [OF that] by (auto simp: envelope_ok_def q hm_simps)
  moreover have split: "x \<in> set (tb_envelopes p) \<or> addressed g (ug_key_version body) (ug_min_wire_version body) (ug_envelopes body) x"
    if "x \<in> set (tb_envelopes q)" for x
    using that del unfolding delivered_def q by blast
  moreover have "ge_min_wire_version (snd x) = ge_min_wire_version (snd y)"
    if "x \<in> set (tb_envelopes q)" "y \<in> set (tb_envelopes q)" "version_of x = version_of y" for x y
    using split [OF that(1)] split [OF that(2)] that(3) old [of x] old [of y] fresh [of x] fresh [of y] p
    unfolding group_keys_ok_def key_rows_ok_def by metis
  ultimately show ?thesis using fresh unfolding group_keys_ok_def key_rows_ok_def by blast
qed

inductive group_key_step :: "('w, 'tx, 'n) srv_env \<Rightarrow> ('w, 'tx, 'n) AppState \<Rightarrow> ('w, 'tx, 'n) AppState \<Rightarrow> bool" for E where
  messenger: "messenger_step E s t \<Longrightarrow> group_key_step E s t"
| request: "group_key_step E s (exec (group_key_routes E auth req) s)"

lemma group_key_step_ok:
  assumes "group_key_step E s t" and "group_keys_ok (st_pool s)"
  shows "group_keys_ok (st_pool t)"
  using assms(1)
proof cases
  case messenger
  then show ?thesis using assms(2) by (rule messenger_step_keys)
next
  case (request auth req)
  have same: "st_pool t = st_pool s" if "rel (group_key_routes E auth req) (\<lambda>p r q. q = p)"
    using relD [OF that, of s] request by (simp add: exec_def)
  show ?thesis
  proof (cases req)
    case (UploadGroupKey g body)
    then show ?thesis
      using relD [OF rel_upload_key [of E auth g body], of s] request uploaded_keys assms(2) by (auto simp: exec_def)
  qed (use same assms(2) in \<open>simp_all add: fetches_change_nothing\<close>)
qed

text \<open>
  C10: in every state that sockets, group requests, the reaping of empty groups and uploads of
  group keys reach, whatever the database answers, every stored envelope belongs to a version that is
  recorded with its rotation, its key is neither empty nor longer than 512 bytes, and all envelopes of
  a version name the same oldest wire format: no administrator can pin one member to an older one.
\<close>

theorem group_key_versions_consistent:
  assumes "(group_key_step E)\<^sup>*\<^sup>* s0 s" and "group_keys_ok (st_pool s0)"
  shows "(\<forall>((g, v, u), r)\<in>set (tb_envelopes (st_pool s)).
      1 \<le> v \<and> hm_get (tb_group_keys (st_pool s)) (g, v) \<noteq> None \<and> hm_get (tb_rotations (st_pool s)) (g, v) \<noteq> None \<and>
      1 \<le> ge_min_wire_version r \<and> ge_min_wire_version r \<le> 255 \<and> 0 < length (ge_encrypted_key r) \<and> length (ge_encrypted_key r) \<le> 512 \<and>
      (\<forall>((g', v', u'), r')\<in>set (tb_envelopes (st_pool s)). g' = g \<and> v' = v \<longrightarrow> ge_min_wire_version r' = ge_min_wire_version r))"
proof -
  have "group_keys_ok (st_pool s)"
    using assms(1) by induction (auto intro: assms(2) group_key_step_ok)
  then show ?thesis
    by (fastforce simp: group_keys_ok_def key_rows_ok_def envelope_ok_def version_of_def)
qed


lemma ref_pool_group_keys: "group_keys_ok (st_pool (ref_state (ref_pool b)))"
  by (simp add: group_keys_ok_def key_rows_ok_def ref_state_def ref_pool_def)

definition ref_group_key :: "i32 \<Rightarrow> UploadGroupKeyRequest" where
  "ref_group_key v = \<lparr>ug_key_version = v, ug_envelopes = [\<lparr>ke_user_id = 2, ke_encrypted_key = ''k''\<rparr>, \<lparr>ke_user_id = 3, ke_encrypted_key = ''l''\<rparr>],
     ug_min_wire_version = 2, ug_triggered_by_event = ''first_key''\<rparr>"

theorem group_key_versions_consistent_witness:
  "let s = exec (group_key_routes ref_srv 1 (UploadGroupKey 7 (ref_group_key 1))) (ref_state (ref_pool True))
   in map fst (tb_envelopes (st_pool s)) = [(7, 1, 2), (7, 1, 3)] \<and>
      (\<forall>((g, v, u), r)\<in>set (tb_envelopes (st_pool s)). hm_get (tb_rotations (st_pool s)) (g, v) \<noteq> None)"
proof -
  let ?s = "exec (group_key_routes ref_srv 1 (UploadGroupKey 7 (ref_group_key 1))) (ref_state (ref_pool True))"
  have run: "(group_key_step ref_srv)\<^sup>*\<^sup>* (ref_state (ref_pool True)) ?s"
    by (rule r_into_rtranclp) (rule group_key_step.request)
  have "map fst (tb_envelopes (st_pool ?s)) = [(7, 1, 2), (7, 1, 3)]" by code_simp
  then show ?thesis
    unfolding Let_def using group_key_versions_consistent [OF run ref_pool_group_keys] by fastforce
qed

section \<open>Who fetches what\<close>

lemma rel_any: "rel m (\<lambda>p r q. True)"
  by (simp add: rel_def)

lemma rel_get_version:
  "rel (get_group_key_version E auth g v) (\<lambda>p r q. (\<not> active_member p g auth \<longrightarrow> (\<exists>e. r = Inl e)) \<and>
     (\<forall>env. active_member p g auth \<and> hm_get (tb_envelopes p) (g, v, auth) = Some env \<longrightarrow>
        r = Inl (internal ''Database error'') \<or> r = Inr (200, Some (GroupKeyEnvelopeResponse_from_row E g v env))))"
proof -
  have answer: "rel (case envelope of
       Some env \<Rightarrow> ok (200 :: nat, Some (GroupKeyEnvelopeResponse_from_row E g v env))
     | None \<Rightarrow> bind_ok (db_ctx (get_group_key E g v)) (\<lambda>found.
         bind_ok (ok_or (bad_request ''Group key version not found'') found) (\<lambda>row.
         ok (200, Some (GroupKeyResponse_from_row E g v row)))))
     (\<lambda>p r q. \<forall>env. envelope = Some env \<longrightarrow> r = Inr (200, Some (GroupKeyEnvelopeResponse_from_row E g v env)))" for envelope
    by (cases envelope) (auto intro: rel_mono [OF rel_ok] simp: rel_any)
  show ?thesis
    unfolding get_group_key_version_def require_member_def is_member_def get_my_group_key_envelope_version_def
    by (rule rel_mono, (rule answer rel_rules)+) auto
qed

lemma rel_get_latest: "rel (get_latest_group_key E auth g) (\<lambda>p r q. \<not> active_member p g auth \<longrightarrow> (\<exists>e. r = Inl e))"
  unfolding get_latest_group_key_def require_member_def is_member_def
  by (rule rel_mono, rule rel_bind_ok [OF rel_bind_ok [OF rel_db_ctx [OF rel_select] rel_require_or] rel_any]) auto

text \<open>
  C19: what an administrator uploads, the members fetch: after a successful upload each member that
  the request names is given the envelope that the request holds for him, unless the database
  fails; and nobody who is not a member of the group is given any key.
\<close>

theorem group_key_roundtrip:
  assumes "run_state (upload_group_key E auth g body) s = (Inr x, t)" and "e \<in> set (ug_envelopes body)"
    and "distinct (map ke_user_id (ug_envelopes body))" and "\<not> active_member (st_pool t) g outsider"
  shows "(\<exists>env. ge_encrypted_key env = ke_encrypted_key e \<and> ge_min_wire_version env = ug_min_wire_version body \<and>
      fst (run_state (get_group_key_version E (ke_user_id e) g (ug_key_version body)) t) \<in>
        {Inr (200, Some (GroupKeyEnvelopeResponse_from_row E g (ug_key_version body) env)), Inl (internal ''Database error'')}) \<and>
    (\<exists>e. fst (run_state (get_group_key_version E outsider g v) t) = Inl e) \<and>
    (\<exists>e. fst (run_state (get_latest_group_key E outsider g) t) = Inl e)"
proof -
  have up: "uploaded g auth body (st_pool s) (st_pool t)"
    using relD [OF rel_upload_key [of E auth g body], of s] assms(1) by auto
  then have "active_member (st_pool t) g (ke_user_id e)"
    using assms(2) by (auto simp: uploaded_def active_member_def)
  moreover obtain env where "hm_get (tb_envelopes (st_pool t)) (g, ug_key_version body, ke_user_id e) = Some env"
    "ge_encrypted_key env = ke_encrypted_key e" "ge_min_wire_version env = ug_min_wire_version body"
    using up assms(2,3) unfolding uploaded_def delivered_def by auto
  ultimately show ?thesis
    using relD [OF rel_get_version [of E "ke_user_id e" g "ug_key_version body"], of t]
      relD [OF rel_get_version [of E outsider g v], of t] relD [OF rel_get_latest [of E outsider g], of t] assms(4) by blast
qed

theorem group_key_roundtrip_witness:
  "let m = upload_group_key ref_srv 1 7 (ref_group_key 1); s = ref_state (ref_pool True)
   in is_ok (fst (run_state m s)) \<and> (\<exists>e. fst (run_state (get_latest_group_key ref_srv 4 7) (exec m s)) = Inl e)"
proof -
  let ?m = "upload_group_key ref_srv 1 7 (ref_group_key 1)" and ?s = "ref_state (ref_pool True)"
  have ok: "is_ok (fst (run_state ?m ?s))" by code_simp
  then obtain x where run: "run_state ?m ?s = (Inr x, exec ?m ?s)"
    by (cases "run_state ?m ?s"; cases "fst (run_state ?m ?s)") (auto simp: exec_def)
  have outside: "\<not> active_member (st_pool (exec ?m ?s)) 7 4" by code_simp
  have e: "\<lparr>ke_user_id = 2, ke_encrypted_key = ''k''\<rparr> \<in> set (ug_envelopes (ref_group_key 1))"
    and d: "distinct (map ke_user_id (ug_envelopes (ref_group_key 1)))" by (simp_all add: ref_group_key_def)
  show ?thesis unfolding Let_def using ok group_key_roundtrip [OF run e d outside] by blast
qed

text \<open>
  the number of a version is only required to be unused. After version 5 an administrator can
  upload version 3, and the members are still given version 5 as the latest.
\<close>

theorem older_group_key_version_accepted:
  "let s = exec (upload_group_key ref_srv 1 7 (ref_group_key 5)) (ref_state (ref_pool True));
       m = upload_group_key ref_srv 1 7 (ref_group_key 3); t = exec m s
   in is_ok (fst (run_state m s)) \<and> map (fst \<circ> fst) (filter (\<lambda>x. fst (fst x) = 7) (tb_group_keys (st_pool t))) = [7, 7] \<and>
      map_option fst (highest (envelope_versions 7 2 (st_pool t))) = Some 5"
  by code_simp

end
