(* ===== verification/Srv_Contacts.thy ===== *)
theory Srv_Contacts
  imports Srv_GroupKeyProps
begin

text \<open>
  \<open>routes/contacts.rs\<close> and \<open>db/contacts.rs\<close>: requests to become contacts, their acceptance, and
  blocking; who had to agree before two users are contacts.
\<close>

section \<open>Statements\<close>

definition either_blocked :: "'n Pool \<Rightarrow> Uuid \<Rightarrow> Uuid \<Rightarrow> bool" where
  "either_blocked p a b \<longleftrightarrow> hm_get (tb_blocked p) (a, b) \<noteq> None \<or> hm_get (tb_blocked p) (b, a) \<noteq> None"

text \<open>\<open>UNIQUE(requester_id, target_id)\<close>, foreign keys on both users; the status defaults to \<open>pending\<close>.\<close>

definition insert_contact :: "Uuid \<Rightarrow> Uuid \<Rightarrow> Uuid \<Rightarrow> datetime \<Rightarrow> 'n Pool \<Rightarrow> 'n Pool \<times> (sqlx_error + Uuid)" where
  "insert_contact i requester target now p =
     (if list_ex (\<lambda>c. ct_id c = i \<or> ct_requester_id c = requester \<and> ct_target_id c = target) (tb_contacts p) then (p, Inl UniqueViolation)
      else if \<not> has_user p requester \<or> \<not> has_user p target then (p, Inl OtherDbError)
      else (p\<lparr>tb_contacts := tb_contacts p @ [\<lparr>ct_id = i, ct_requester_id = requester, ct_target_id = target, ct_status = ''pending'',
             ct_created_at = now\<rparr>]\<rparr>, Inr i))"

definition create_contact_request :: "('w, 'tx, 'n) srv_env \<Rightarrow> Uuid \<Rightarrow> string \<Rightarrow> ('w, 'tx, 'n, sqlx_error + Uuid) act" where
  "create_contact_request E requester_id target_username = in_transaction E (\<lambda>e. e)
     (bind_ok (tx_select E (\<lambda>p. map_option us_id (find (\<lambda>u. us_username u = target_username) (tb_users p)))) (\<lambda>target.
      bind_ok (ok_or RowNotFound target) (\<lambda>target_id.
      bind_ok (tx_select E (\<lambda>p. either_blocked p requester_id target_id)) (\<lambda>blocked.
      bind_ok (require_or RowNotFound (\<not> blocked)) (\<lambda>_. do {
        i \<leftarrow> tx_draw (sv_gen_random_uuid E);
        now \<leftarrow> tx_draw (sv_utc_now E);
        bind_ok (tx_query E (insert_contact i requester_id target_id now)) (\<lambda>row. ok (Commit row))
      })))))"

definition pending_for :: "Uuid \<Rightarrow> Uuid \<Rightarrow> ContactRow \<Rightarrow> bool" where
  "pending_for contact_id u c \<longleftrightarrow> ct_id c = contact_id \<and> ct_target_id c = u \<and> ct_status c = ''pending''"

definition accept_contact_request :: "('w, 'tx, 'n) srv_env \<Rightarrow> Uuid \<Rightarrow> Uuid \<Rightarrow> ('w, 'tx, 'n, sqlx_error + unit) act" where
  "accept_contact_request E contact_id u = query E (\<lambda>p.
     (p\<lparr>tb_contacts := map (\<lambda>c. if pending_for contact_id u c then c\<lparr>ct_status := ''accepted''\<rparr> else c) (tb_contacts p)\<rparr>,
      if list_ex (pending_for contact_id u) (tb_contacts p) then Inr () else Inl RowNotFound))"

definition decline_contact_request :: "('w, 'tx, 'n) srv_env \<Rightarrow> Uuid \<Rightarrow> Uuid \<Rightarrow> ('w, 'tx, 'n, sqlx_error + bool) act" where
  "decline_contact_request E contact_id u = query E (\<lambda>p.
     (p\<lparr>tb_contacts := filter (\<lambda>c. \<not> pending_for contact_id u c) (tb_contacts p)\<rparr>,
      Inr (list_ex (pending_for contact_id u) (tb_contacts p))))"

text \<open>The row that the lists return.\<close>

record ContactView =
  cw_id :: Uuid
  cw_user_id :: Uuid
  cw_username :: string
  cw_display_name :: "string option"
  cw_avatar_url :: "string option"
  cw_status :: string
  cw_created_at :: datetime
  cw_last_seen :: "datetime option"

definition LIST_PENDING_LIMIT :: nat where "LIST_PENDING_LIMIT = 1000"
definition LIST_BLOCKED_LIMIT :: nat where "LIST_BLOCKED_LIMIT = 1000"

definition list_pending_requests :: "('w, 'tx, 'n) srv_env \<Rightarrow> Uuid \<Rightarrow> ('w, 'tx, 'n, sqlx_error + ContactView list) act" where
  "list_pending_requests E u = select E (\<lambda>p. take LIST_PENDING_LIMIT (sort_key (\<lambda>c. - cw_created_at c) (List.map_filter (\<lambda>c.
     if ct_target_id c = u \<and> ct_status c = ''pending''
     then map_option (\<lambda>r. \<lparr>cw_id = ct_id c, cw_user_id = ct_requester_id c, cw_username = us_username r,
       cw_display_name = us_display_name r, cw_avatar_url = us_avatar_url r, cw_status = ct_status c, cw_created_at = ct_created_at c,
       cw_last_seen = None\<rparr>) (user p (ct_requester_id c))
     else None) (tb_contacts p))))"

text \<open>\<open>ON CONFLICT DO NOTHING\<close>.\<close>

definition insert_block :: "Uuid \<Rightarrow> Uuid \<Rightarrow> datetime \<Rightarrow> 'n Pool \<Rightarrow> 'n Pool \<times> (sqlx_error + unit)" where
  "insert_block blocker blocked now p =
     (if hm_get (tb_blocked p) (blocker, blocked) \<noteq> None then (p, Inr ())
      else if \<not> has_user p blocker \<or> \<not> has_user p blocked then (p, Inl OtherDbError)
      else (p\<lparr>tb_blocked := hm_insert (blocker, blocked) now (tb_blocked p)\<rparr>, Inr ()))"

definition db_block_user :: "('w, 'tx, 'n) srv_env \<Rightarrow> Uuid \<Rightarrow> Uuid \<Rightarrow> ('w, 'tx, 'n, sqlx_error + unit) act" where
  "db_block_user E blocker blocked = do { now \<leftarrow> draw (sv_utc_now E); query E (insert_block blocker blocked now) }"

definition db_unblock_user :: "('w, 'tx, 'n) srv_env \<Rightarrow> Uuid \<Rightarrow> Uuid \<Rightarrow> ('w, 'tx, 'n, sqlx_error + bool) act" where
  "db_unblock_user E blocker blocked = query E (\<lambda>p.
     (p\<lparr>tb_blocked := hm_remove (blocker, blocked) (tb_blocked p)\<rparr>, Inr (hm_get (tb_blocked p) (blocker, blocked) \<noteq> None)))"

record BlockedUserRow =
  bu_blocked_id :: Uuid
  bu_username :: string
  bu_display_name :: "string option"
  bu_created_at :: datetime

definition list_blocked_users :: "('w, 'tx, 'n) srv_env \<Rightarrow> Uuid \<Rightarrow> ('w, 'tx, 'n, sqlx_error + BlockedUserRow list) act" where
  "list_blocked_users E u = select E (\<lambda>p. take LIST_BLOCKED_LIMIT (sort_key (\<lambda>b. - bu_created_at b) (List.map_filter (\<lambda>((blocker, blocked), since).
     if blocker = u
     then map_option (\<lambda>r. \<lparr>bu_blocked_id = blocked, bu_username = us_username r, bu_display_name = us_display_name r, bu_created_at = since\<rparr>)
       (user p blocked)
     else None) (tb_blocked p))))"

definition is_either_blocked :: "('w, 'tx, 'n) srv_env \<Rightarrow> Uuid \<Rightarrow> Uuid \<Rightarrow> ('w, 'tx, 'n, sqlx_error + bool) act" where
  "is_either_blocked E a b = select E (\<lambda>p. either_blocked p a b)"

definition is_blocked :: "('w, 'tx, 'n) srv_env \<Rightarrow> Uuid \<Rightarrow> Uuid \<Rightarrow> ('w, 'tx, 'n, sqlx_error + bool) act" where
  "is_blocked E blocker blocked = select E (\<lambda>p. hm_get (tb_blocked p) (blocker, blocked) \<noteq> None)"

section \<open>Handlers\<close>

definition send_request :: "('w, 'tx, 'n) srv_env \<Rightarrow> Uuid \<Rightarrow> string \<Rightarrow> ('w, 'tx, 'n) handler" where
  "send_request E auth username =
     bind_ok (map_error (\<lambda>_. bad_request ''Could not send contact request'') (create_contact_request E auth username)) (\<lambda>contact_id.
     ok (201, Some (JObject [(''contact_id'', js_uuid E contact_id)])))"

definition accept_request :: "('w, 'tx, 'n) srv_env \<Rightarrow> Uuid \<Rightarrow> Uuid \<Rightarrow> ('w, 'tx, 'n) handler" where
  "accept_request E auth contact_id =
     bind_ok (map_error (\<lambda>e. if e = RowNotFound then bad_request ''No pending request found'' else internal ''Database error'')
       (accept_contact_request E contact_id auth)) (\<lambda>_.
     ok (status_body ''accepted''))"

definition decline_request :: "('w, 'tx, 'n) srv_env \<Rightarrow> Uuid \<Rightarrow> Uuid \<Rightarrow> ('w, 'tx, 'n) handler" where
  "decline_request E auth contact_id =
     bind_ok (db_ctx (decline_contact_request E contact_id auth)) (\<lambda>deleted.
     bind_ok (require_or (bad_request ''No pending request found'') deleted) (\<lambda>_.
     ok (status_body ''declined'')))"

definition list_pending :: "('w, 'tx, 'n) srv_env \<Rightarrow> Uuid \<Rightarrow> ('w, 'tx, 'n) handler" where
  "list_pending E auth = bind_ok (db_ctx (list_pending_requests E auth)) (\<lambda>rows.
     ok (200, Some (JArray (map (\<lambda>c. JObject [(''id'', js_uuid E (cw_id c)), (''user_id'', js_uuid E (cw_user_id c)),
       (''username'', JString (cw_username c)), (''display_name'', js_opt JString (cw_display_name c)),
       (''avatar_url'', js_opt JString (cw_avatar_url c)), (''status'', JString (cw_status c)),
       (''created_at'', js_time E (cw_created_at c)), (''last_seen'', js_opt (js_time E) (cw_last_seen c))]) rows))))"

definition block_user :: "('w, 'tx, 'n) srv_env \<Rightarrow> Uuid \<Rightarrow> Uuid \<Rightarrow> ('w, 'tx, 'n) handler" where
  "block_user E auth u =
     bind_ok (require_or (bad_request ''Cannot block yourself'') (u \<noteq> auth)) (\<lambda>_.
     bind_ok (db_ctx (db_block_user E auth u)) (\<lambda>_.
     ok (201, Some (JObject [(''status'', JString ''blocked'')]))))"

definition unblock_user :: "('w, 'tx, 'n) srv_env \<Rightarrow> Uuid \<Rightarrow> Uuid \<Rightarrow> ('w, 'tx, 'n) handler" where
  "unblock_user E auth u =
     bind_ok (db_ctx (db_unblock_user E auth u)) (\<lambda>removed.
     bind_ok (require_or (bad_request ''User is not blocked'') removed) (\<lambda>_.
     ok (status_body ''unblocked'')))"

definition list_blocked :: "('w, 'tx, 'n) srv_env \<Rightarrow> Uuid \<Rightarrow> ('w, 'tx, 'n) handler" where
  "list_blocked E auth = bind_ok (db_ctx (list_blocked_users E auth)) (\<lambda>rows.
     ok (200, Some (JArray (map (\<lambda>b. JObject [(''blocked_id'', js_uuid E (bu_blocked_id b)), (''username'', JString (bu_username b)),
       (''display_name'', js_opt JString (bu_display_name b)), (''created_at'', js_time E (bu_created_at b))]) rows))))"

datatype contact_request =
    SendRequest string
  | AcceptRequest Uuid
  | DeclineRequest Uuid
  | ListPending
  | BlockUser Uuid
  | UnblockUser Uuid
  | ListBlocked

fun contact_routes :: "('w, 'tx, 'n) srv_env \<Rightarrow> Uuid \<Rightarrow> contact_request \<Rightarrow> ('w, 'tx, 'n) handler" where
  "contact_routes E auth (SendRequest username) = send_request E auth username"
| "contact_routes E auth (AcceptRequest i) = accept_request E auth i"
| "contact_routes E auth (DeclineRequest i) = decline_request E auth i"
| "contact_routes E auth ListPending = list_pending E auth"
| "contact_routes E auth (BlockUser u) = block_user E auth u"
| "contact_routes E auth (UnblockUser u) = unblock_user E auth u"
| "contact_routes E auth ListBlocked = list_blocked E auth"

section \<open>What a request may change\<close>

inductive contact_change :: "Uuid \<Rightarrow> contact_request \<Rightarrow> 'n Pool \<Rightarrow> 'n Pool \<Rightarrow> bool" for auth where
  nothing: "contact_change auth req p p"
| ask: "\<not> either_blocked p auth b \<Longrightarrow> insert_contact i auth b now p = (q, Inr i) \<Longrightarrow> contact_change auth (SendRequest name) p q"
| agree: "contact_change auth (AcceptRequest i) p
    (p\<lparr>tb_contacts := map (\<lambda>c. if pending_for i auth c then c\<lparr>ct_status := ''accepted''\<rparr> else c) (tb_contacts p)\<rparr>)"
| decline: "contact_change auth (DeclineRequest i) p (p\<lparr>tb_contacts := filter (\<lambda>c. \<not> pending_for i auth c) (tb_contacts p)\<rparr>)"
| block: "u \<noteq> auth \<Longrightarrow> contact_change auth (BlockUser u) p (p\<lparr>tb_blocked := hm_insert (auth, u) now (tb_blocked p)\<rparr>)"
| unblock: "contact_change auth (UnblockUser u) p (p\<lparr>tb_blocked := hm_remove (auth, u) (tb_blocked p)\<rparr>)"

lemma rel_map_error [rel_rules]:
  assumes "rel m R"
  shows "rel (map_error f m) (\<lambda>p y q. (\<exists>e. R p (Inl e) q \<and> y = Inl (f e)) \<or> (\<exists>x. R p (Inr x) q \<and> y = Inr x))"
proof -
  have "rel (map_error f m) (\<lambda>p y q. \<exists>r. R p r q \<and> y = (case r of Inl e \<Rightarrow> Inl (f e) | Inr x \<Rightarrow> Inr x))"
    unfolding map_error_def by (rule rel_mono, rule rel_bind [OF assms rel_return]) auto
  then show ?thesis
  proof (rule rel_mono, elim exE conjE)
    fix p y q r
    assume "R p r q" "y = (case r of Inl e \<Rightarrow> Inl (f e) | Inr x \<Rightarrow> Inr x)"
    then show "(\<exists>e. R p (Inl e) q \<and> y = Inl (f e)) \<or> (\<exists>x. R p (Inr x) q \<and> y = Inr x)"
      by (cases r) auto
  qed
qed

lemma insert_contact_id: "insert_contact i a b now p = (q, Inr x) \<Longrightarrow> x = i"
  by (auto simp: insert_contact_def split: if_splits)

lemma contact_requests_refine: "rel (contact_routes E auth req) (\<lambda>p r q. contact_change auth req p q)"
proof (cases req)
  case (SendRequest name)
  show ?thesis
    unfolding SendRequest contact_routes.simps send_request_def create_contact_request_def
    by (rule rel_mono, (rule rel_rules tx_rules)+)
      (auto simp: tx_effect_def intro: contact_change.intros dest: insert_contact_id)
next
  case (BlockUser u)
  show ?thesis
    unfolding BlockUser contact_routes.simps block_user_def db_block_user_def
    by (rule rel_mono, (rule rel_rules)+) (auto simp: insert_block_def intro: contact_change.intros split: if_splits)
qed (simp_all only: contact_routes.simps accept_request_def accept_contact_request_def decline_request_def decline_contact_request_def
    unblock_user_def db_unblock_user_def list_pending_def list_pending_requests_def list_blocked_def list_blocked_users_def,
    (rule rel_mono, (rule rel_rules)+, auto intro: contact_change.intros)+)


section \<open>Consent\<close>

text \<open>No step of the messenger touches the contacts.\<close>

interpretation contact_rows: membership_predicate "\<lambda>p. tb_contacts p = c" for c
  by unfold_locales (simp_all add: direct_conversation_rows_def)

lemma roster_statement_contacts:
  "upsert_member now g u p = (q, r) \<Longrightarrow> tb_contacts q = tb_contacts p" "bump_member_count g p = (q, r2) \<Longrightarrow> tb_contacts q = tb_contacts p"
  "upsert_ban g u b p = (q, r3) \<Longrightarrow> tb_contacts q = tb_contacts p" "bump_use_count tok p = (q, r4) \<Longrightarrow> tb_contacts q = tb_contacts p"
  by (auto simp: upsert_member_def bump_member_count_def upsert_ban_def bump_use_count_def update_conversation_def
      split: if_splits option.splits)

lemma roster_update_contacts [simp]:
  "tb_contacts (drop_member_count g p) = tb_contacts p" "tb_contacts (soft_remove g u p) = tb_contacts p"
  "tb_contacts (set_role g u x p) = tb_contacts p" "tb_contacts (update_conversation g f p) = tb_contacts p"
  "tb_contacts (delete_conversation g p) = tb_contacts p"
  by (simp_all add: drop_member_count_def soft_remove_def set_role_def update_conversation_def delete_conversation_def Let_def)

lemma upkeep_contacts: "upkeep p q \<Longrightarrow> tb_contacts q = tb_contacts p"
proof -
  assume "upkeep p q"
  then have "tb_contacts (off_roster q) = tb_contacts (off_roster p)" by (simp add: upkeep_def)
  then show ?thesis by (simp add: off_roster_def)
qed

lemma roster_change_contacts: "roster_change h auth p q \<Longrightarrow> tb_contacts q = tb_contacts p"
  by (induction rule: roster_change.induct)
    (auto simp: aftermath_def admitted_def dismissed_def banished_def founded_def redeemed_def
      dest!: roster_statement_contacts upkeep_contacts split: if_splits)

lemma messenger_step_contacts:
  assumes "messenger_step E s t"
  shows "tb_contacts (st_pool t) = tb_contacts (st_pool s)"
  using assms
proof cases
  case socket
  then show ?thesis by (rule contact_rows.server_step_keeps) (rule refl)
next
  case (request auth req)
  have "(roster_change h a)\<^sup>*\<^sup>* p q \<Longrightarrow> tb_contacts q = tb_contacts p" for h a and p q :: "'c Pool"
    by (induction rule: rtranclp_induct) (auto dest: roster_change_contacts)
  from this [OF handlers_refine] show ?thesis using request by simp
next
  case reap
  have "keeps (on_pool (\<lambda>p. tb_contacts p = tb_contacts (st_pool s))) (cleanup_empty_groups E)"
    unfolding cleanup_empty_groups_def find_empty_group_ids_def force_delete_conversation_def
    by (intro keeps_intros keeps_execute) simp
  from keeps_run [OF this, of s] show ?thesis using reap by (simp add: exec_def on_pool_def)
qed

text \<open>Runs of the messenger and of requests on contacts, with the requests that were made, latest first.\<close>

inductive contact_run ::
  "('w, 'tx, 'n) srv_env \<Rightarrow> ('w, 'tx, 'n) AppState \<Rightarrow> (Uuid \<times> contact_request) list \<Rightarrow> ('w, 'tx, 'n) AppState \<Rightarrow> bool" for E s0 where
  start: "contact_run E s0 [] s0"
| messenger: "contact_run E s0 l s \<Longrightarrow> messenger_step E s t \<Longrightarrow> contact_run E s0 l t"
| request: "contact_run E s0 l s \<Longrightarrow> contact_run E s0 ((auth, req) # l) (exec (contact_routes E auth req) s)"

definition asked :: "(Uuid \<times> contact_request) list \<Rightarrow> Uuid \<Rightarrow> bool" where
  "asked l u \<longleftrightarrow> (\<exists>name. (u, SendRequest name) \<in> set l)"

definition agreed :: "(Uuid \<times> contact_request) list \<Rightarrow> Uuid \<Rightarrow> bool" where
  "agreed l u \<longleftrightarrow> (\<exists>i. (u, AcceptRequest i) \<in> set l)"

definition between :: "Uuid \<Rightarrow> Uuid \<Rightarrow> ContactRow \<Rightarrow> bool" where
  "between a b c \<longleftrightarrow> ct_requester_id c = a \<and> ct_target_id c = b \<or> ct_requester_id c = b \<and> ct_target_id c = a"

definition consented :: "(Uuid \<times> contact_request) list \<Rightarrow> ContactRow \<Rightarrow> bool" where
  "consented l c \<longleftrightarrow> asked l (ct_requester_id c) \<and> (ct_status c = ''accepted'' \<longrightarrow> agreed l (ct_target_id c))"

lemma consented_Cons: "consented l c \<Longrightarrow> consented (x # l) c"
  by (auto simp: consented_def asked_def agreed_def)

lemma contact_change_rows:
  assumes "contact_change auth req p q" and "\<forall>c\<in>set (tb_contacts p). between a b c \<longrightarrow> consented l c"
  shows "\<forall>c\<in>set (tb_contacts q). between a b c \<longrightarrow> consented ((auth, req) # l) c"
  using assms
proof (induction rule: contact_change.induct)
  case (ask p u i now q name)
  have "consented ((auth, SendRequest name) # l) c" if "ct_requester_id c = auth" "ct_status c = ''pending''" for c
    using that by (auto simp: consented_def asked_def)
  then show ?case using ask by (auto simp: insert_contact_def intro: consented_Cons split: if_splits)
next
  case (agree i p)
  have "consented ((auth, AcceptRequest i) # l) (c\<lparr>ct_status := x\<rparr>)" if "consented l c" "ct_target_id c = auth" for c x
    using that by (auto simp: consented_def asked_def agreed_def)
  then show ?case using agree by (auto simp: pending_for_def between_def intro: consented_Cons)
qed (auto intro: consented_Cons)

lemma contact_run_consent:
  assumes "contact_run E s0 l s" and "\<forall>c\<in>set (tb_contacts (st_pool s0)). \<not> between a b c"
  shows "\<forall>c\<in>set (tb_contacts (st_pool s)). between a b c \<longrightarrow> consented l c"
  using assms(1)
proof (induction rule: contact_run.induct)
  case (messenger l s t)
  then show ?case by (simp add: messenger_step_contacts)
next
  case (request l s auth req)
  then show ?case
    using contact_change_rows relD [OF contact_requests_refine [of E auth req], of s] unfolding exec_def by blast
qed (use assms(2) in blast)


definition ref_names :: "unit Pool" where
  "ref_names = (ref_pool False)\<lparr>tb_users := map (\<lambda>u. if us_id u = 2 then u\<lparr>us_username := ''uu''\<rparr> else u) (tb_users (ref_pool False))\<rparr>"


text \<open>
  a user can ask himself and accept; and two requests in opposite directions can both be
  accepted, so that a pair of users has two rows as contacts.
\<close>

theorem contacts_with_oneself_and_twice:
  "let step = \<lambda>a req s. exec (contact_routes ref_srv a req) s;
       self = step 1 (AcceptRequest 4) (step 1 (SendRequest ''u'') (ref_state ref_names));
       both = step 1 (AcceptRequest 5) (step 2 (AcceptRequest 4) (step 2 (SendRequest ''u'') (step 1 (SendRequest ''uu'') (ref_state ref_names))))
   in contacts (st_pool self) 1 1 \<and> fst (run_state (list_contact_user_ids ref_srv 1) both) = Inr [2, 2]"
  by code_simp

end
