(* ===== verification/Spec2Isabelle.thy ===== *)
theory Spec2Isabelle
  imports Core_Session Core_Grp2 Srv_RateLimit Srv_Hub Srv_WsRate Srv_CanvasValidation Srv_CanvasAuthority
    Srv_Caches Srv_Mentions Srv_Server Srv_Rotation Srv_Messenger Srv_AuthSessions Srv_Answers Srv_ReplayWork Srv_Contacts
begin

text \<open>
  Verification of the Echo messenger: the Rust crates \<open>core/rust-core\<close> (the end-to-end encryption of
  the clients) and \<open>apps/server\<close> (the relay server), read from the sources under \<open>src/\<close>.

  \<^bold>\<open>The program.\<close> Clients hold identity keys and prekeys, agree on secrets with X3DH, talk over double
  ratchets and sign group frames (\<open>rust-core\<close>). The server keeps accounts, devices, prekeys, groups
  and ciphertexts in PostgreSQL, pushes frames over WebSockets through a hub of connections, replays
  what a device missed, and answers HTTP requests on groups, keys and accounts. It never decrypts. What it
  is trusted with is: to store and fan out only for members, to keep rosters, bans and invitations
  consistent, to hand out prekey bundles whose signature verifies, each one-time prekey once, to
  change identities and passwords only for their owner, and to bound what a client can make it do.

  \<^bold>\<open>Core.\<close> \<open>Echo_Prelude\<close>: bytes, little-endian counters, saturating addition, hash maps, and the
  locales \<open>dictionary\<close>, \<open>wire_codec\<close> and \<open>prefix_codec\<close> that the components instantiate.
  \<open>Core_Primitives\<close>: \<open>error.rs\<close>, \<open>signal/protocol.rs\<close>; the cryptographic crates are a record of
  functions, with the laws that the code relies on (agreement of Diffie-Hellman, correctness of AEAD
  and signatures) as named hypotheses; \<open>ref_prims\<close> satisfies all of them. \<open>Core_Keys\<close>: key types,
  bundles and their wire format. \<open>Core_X3DH\<close>: both handshakes as instances of the locale
  \<open>key_agreement\<close>, and stateless encryption. \<open>Core_Ratchet\<close>: headers, the ratchet state, skipped
  keys, serialisation. \<open>Core_Conversation\<close>: two ratchets talking to each other over a network that
  delays and reorders. \<open>Core_Session\<close>: sessions, their wire messages and storage. \<open>Core_Grp2\<close>: signed
  group frames. The lemmas show agreement of the secrets, decryption of every delivered message in
  whatever order, the bounds on stored keys, round trips of all formats, and which forgeries the
  checks exclude.

  \<^bold>\<open>Server, in memory.\<close> \<open>Srv_Base\<close> and \<open>Srv_Types\<close>: clocks, floats, JSON, \<open>types.rs\<close>,
  \<open>ws/protocol.rs\<close>. \<open>Srv_RateLimit\<close>: \<open>middleware/rate_limit.rs\<close>. \<open>Srv_Hub\<close>: \<open>ws/hub.rs\<close>, a
  \<open>device_registry\<close>. \<open>Srv_WsRate\<close>: the receive loop with its token buckets (\<open>token_resource\<close>),
  \<open>ws/rate_limit.rs\<close>. \<open>Srv_CanvasValidation\<close>, \<open>Srv_CanvasAuthority\<close>: \<open>ws/events/canvas_*.rs\<close>.

  \<^bold>\<open>Server, with the database.\<close> \<open>Srv_App\<close>: \<open>AppState\<close>, the tables, the record \<open>srv_env\<close> of
  everything outside (clock, random identifiers, outcome of each statement, JSON text, base64, hashes,
  token signing), handlers as state transformers, and the predicates \<open>wp\<close> and \<open>keeps\<close> with their
  rules. \<open>Srv_Db\<close>: the queries of \<open>db/*.rs\<close> behind the sockets. \<open>Srv_Caches\<close>:
  \<open>ws/typing_service.rs\<close>, receipts, presence. \<open>Srv_Mentions\<close>, \<open>Srv_Validate\<close>, \<open>Srv_Send\<close>: the write
  path of a message; \<open>Srv_SendProps\<close>: what it may write. \<open>Srv_Replay\<close>: offline replay. \<open>Srv_Canvas\<close>,
  \<open>Srv_Dispatch\<close>: canvas boards, voice signalling, dispatch, connection life cycle. \<open>Srv_Rotation\<close>:
  who re-keys a group. \<open>Srv_Server\<close>: the sockets as a transition system and its table invariants.

  \<^bold>\<open>Server, HTTP.\<close> \<open>Srv_Error\<close>: \<open>error.rs\<close>. \<open>Srv_Tx\<close>, \<open>Srv_TxStrict\<close>: transactions as PostgreSQL runs
  them, and relational rules for handlers (\<open>rel\<close>, \<open>tx_sat\<close>). \<open>Srv_GroupsDb\<close>, \<open>Srv_Groups\<close>,
  \<open>Srv_GroupViews\<close>: \<open>db/groups.rs\<close> and \<open>routes/groups\<close>. \<open>Srv_Roster\<close>, \<open>Srv_GroupProps\<close>,
  \<open>Srv_Membership\<close> (locale \<open>membership_predicate\<close>), \<open>Srv_GroupSpec\<close> (the abstract system
  \<open>roster_change\<close> and the refinement of every request), \<open>Srv_Messenger\<close> (sockets, group requests and
  reaping together). \<open>Srv_KeysDb\<close>, \<open>Srv_Keys\<close>: \<open>db/keys.rs\<close>, \<open>routes/keys.rs\<close>,
  \<open>auth/invalidation.rs\<close>; \<open>Srv_KeyProps\<close>, \<open>Srv_KeySafety\<close>, \<open>Srv_KeyServer\<close>: the invariant of the key
  tables, the effect of each request, and what a client gets.

  \<^bold>\<open>How the code is read.\<close> A statement is one atomic operation on the tables, with three outcomes that
  the environment chooses: it succeeds, it fails before its effect, or its effect happens and the answer is
  lost. Inside a transaction a failed statement aborts it. Handlers run one at a time;
  two runs that interleave are stated as explicit sequences of statements. Words keep their width
  where the code computes with them. Loops are structural recursion; the replay loop runs at most
  50 pages of 100 rows, which is the bound in the code, and the serialised ratchet is read with as many
  steps as its length allows. \<open>Srv_Reference\<close> holds the concrete environment of the evaluated examples.

  \<^bold>\<open>Not modelled.\<close> The Flutter client, the deployment files and the migrations (other languages); file
  storage and image handling of \<open>routes/media*.rs\<close> and group avatars (file system); \<open>push.rs\<close>,
  \<open>routes/link_preview.rs\<close> and voice tokens (calls of external services; that a push is sent is part of the
  send path); metrics and logging (no effect on the state); the remaining routes on accounts,
  messages, channels, contacts, polls, reactions and search, which are the plan for what comes next.
\<close>

end
